(* ===== verification/Py_Prelude.thy ===== *)
theory Py_Prelude
  imports Complex_Main "HOL-Library.Log_Nat"
begin

text \<open>
  Shared vocabulary of the development: Python strings as lists of Unicode code points with their
  UTF-8 encoding, bytes, decimal rendering, Python floats, JSON documents, bound SQL values,
  the exception-carrying result type and the stateful computation type that the components use,
  with the generic lemmas on them.

  A Python \<open>str\<close> is a \<open>pstr\<close>: a list of code points as natural numbers. A literal of the
  source is written \<open>lit ''...''\<close>. The character classes of \<open>str\<close> (\<open>isdigit\<close>,
  \<open>isalpha\<close>, ...) are concrete on ASCII; for the other code points they are read from the
  interpreter's Unicode database, which is the parameter \<open>unidb\<close>.
\<close>

named_theorems py_defs \<open>definitions of the Python primitives, for evaluation\<close>
named_theorems lit_simps \<open>evaluation of string literals\<close>

section \<open>Strings, bytes and decimal rendering\<close>

type_synonym pstr = "nat list"
type_synonym pbytes = "nat list"

definition lit :: "string \<Rightarrow> pstr" where
  [lit_simps]: "lit s = map of_char s"

text \<open>The part of the Unicode database the source reads, for code points above 127.\<close>

record unidb =
  uni_space :: "nat \<Rightarrow> bool"
  uni_digit :: "nat \<Rightarrow> bool"
  uni_alpha :: "nat \<Rightarrow> bool"
  uni_alnum :: "nat \<Rightarrow> bool"
  uni_upper :: "nat \<Rightarrow> pstr"
  uni_lower :: "nat \<Rightarrow> pstr"
  uni_decimal :: "nat \<Rightarrow> nat option"

definition is_space :: "unidb \<Rightarrow> nat \<Rightarrow> bool" where
  [py_defs]: "is_space U c = (if c < 128 then (9 \<le> c \<and> c \<le> 13) \<or> (28 \<le> c \<and> c \<le> 32) else uni_space U c)"

definition is_digit :: "unidb \<Rightarrow> nat \<Rightarrow> bool" where
  [py_defs]: "is_digit U c = (if c < 128 then 48 \<le> c \<and> c \<le> 57 else uni_digit U c)"

definition is_alpha :: "unidb \<Rightarrow> nat \<Rightarrow> bool" where
  [py_defs]: "is_alpha U c = (if c < 128 then (65 \<le> c \<and> c \<le> 90) \<or> (97 \<le> c \<and> c \<le> 122) else uni_alpha U c)"

definition is_alnum :: "unidb \<Rightarrow> nat \<Rightarrow> bool" where
  [py_defs]: "is_alnum U c =
    (if c < 128 then (48 \<le> c \<and> c \<le> 57) \<or> (65 \<le> c \<and> c \<le> 90) \<or> (97 \<le> c \<and> c \<le> 122) else uni_alnum U c)"

definition upper_cp :: "unidb \<Rightarrow> nat \<Rightarrow> pstr" where
  [py_defs]: "upper_cp U c = (if c < 128 then [if 97 \<le> c \<and> c \<le> 122 then c - 32 else c] else uni_upper U c)"

definition lower_cp :: "unidb \<Rightarrow> nat \<Rightarrow> pstr" where
  [py_defs]: "lower_cp U c = (if c < 128 then [if 65 \<le> c \<and> c \<le> 90 then c + 32 else c] else uni_lower U c)"

definition upper :: "unidb \<Rightarrow> pstr \<Rightarrow> pstr" where
  [py_defs]: "upper U s = concat (map (upper_cp U) s)"

definition lower :: "unidb \<Rightarrow> pstr \<Rightarrow> pstr" where
  [py_defs]: "lower U s = concat (map (lower_cp U) s)"

definition strip :: "unidb \<Rightarrow> pstr \<Rightarrow> pstr" where
  [py_defs]: "strip U s = rev (dropWhile (is_space U) (rev (dropWhile (is_space U) s)))"

fun starts_with :: "pstr \<Rightarrow> pstr \<Rightarrow> bool" where
  "starts_with s [] = True"
| "starts_with [] (p # ps) = False"
| "starts_with (c # cs) (p # ps) = (c = p \<and> starts_with cs ps)"

definition ends_with :: "pstr \<Rightarrow> pstr \<Rightarrow> bool" where
  [py_defs]: "ends_with s p = starts_with (rev s) (rev p)"

text \<open>\<open>sep.join(parts)\<close>.\<close>

fun join :: "pstr \<Rightarrow> pstr list \<Rightarrow> pstr" where
  "join sep [] = []"
| "join sep [x] = x"
| "join sep (x # y # ys) = x @ sep @ join sep (y # ys)"

text \<open>Decimal rendering of a natural number and of an integer, as an f-string does it.\<close>

fun dec :: "nat \<Rightarrow> pstr" where
  "dec n = (if n < 10 then [48 + n] else dec (n div 10) @ [48 + n mod 10])"

declare dec.simps [simp del]

definition dec_int :: "int \<Rightarrow> pstr" where
  [py_defs]: "dec_int i = (if i < 0 then 45 # dec (nat (- i)) else dec (nat i))"

lemma dec_nonempty [simp]: "dec n \<noteq> []"
  by (subst dec.simps) simp

lemma dec_digits: "c \<in> set (dec n) \<Longrightarrow> 48 \<le> c \<and> c \<le> 57"
proof (induction n rule: dec.induct)
  case (1 n)
  show ?case
  proof (cases "n < 10")
    case True
    with 1 show ?thesis by (simp add: dec.simps [of n])
  next
    case False
    with 1 show ?thesis by (subst (asm) dec.simps) auto
  qed
qed

definition undec :: "pstr \<Rightarrow> nat" where
  "undec s = foldl (\<lambda>a c. 10 * a + (c - 48)) 0 s"

lemma undec_dec [simp]: "undec (dec n) = n"
proof (induction n rule: dec.induct)
  case (1 n)
  show ?case
  proof (cases "n < 10")
    case True
    then show ?thesis by (simp add: dec.simps [of n] undec_def)
  next
    case False
    with 1 show ?thesis by (subst dec.simps) (auto simp: undec_def)
  qed
qed

lemma dec_inject [simp]: "dec m = dec n \<longleftrightarrow> m = n"
  by (metis undec_dec)

text \<open>
  \<open>int(text)\<close>: surrounding white space, a sign, decimal digits with single underscores between
  them.
\<close>

definition digit_value :: "unidb \<Rightarrow> nat \<Rightarrow> nat option" where
  [py_defs]: "digit_value U c =
    (if c < 128 then if 48 \<le> c \<and> c \<le> 57 then Some (c - 48) else None else uni_decimal U c)"

fun int_digits :: "unidb \<Rightarrow> nat \<Rightarrow> pstr \<Rightarrow> nat option" where
  "int_digits U a [] = Some a"
| "int_digits U a (c # cs) =
    (case digit_value U c of
       Some d \<Rightarrow> int_digits U (10 * a + d) cs
     | None \<Rightarrow>
         if c = 95 then
           (case cs of [] \<Rightarrow> None
            | d # ds \<Rightarrow> (case digit_value U d of None \<Rightarrow> None | Some v \<Rightarrow> int_digits U (10 * a + v) ds))
         else None)"

definition parse_int :: "unidb \<Rightarrow> pstr \<Rightarrow> int option" where
  [py_defs]: "parse_int U s =
    (let t = strip U s;
         neg = (t \<noteq> [] \<and> hd t = 45);
         ds = (if t \<noteq> [] \<and> hd t \<in> {43, 45} then List.tl t else t)
     in if ds = [] \<or> digit_value U (hd ds) = None then None
        else map_option (\<lambda>n. if neg then - int n else int n) (int_digits U 0 ds))"

text \<open>\<open>str.encode('utf-8')\<close>: a lone surrogate cannot be encoded.\<close>

definition utf8_cp :: "nat \<Rightarrow> pbytes option" where
  [py_defs]: "utf8_cp c =
    (if c < 128 then Some [c]
     else if c < 2048 then Some [192 + c div 64, 128 + c mod 64]
     else if 55296 \<le> c \<and> c \<le> 57343 then None
     else if c < 65536 then Some [224 + c div 4096, 128 + (c div 64) mod 64, 128 + c mod 64]
     else Some [240 + c div 262144, 128 + (c div 4096) mod 64, 128 + (c div 64) mod 64, 128 + c mod 64])"

fun utf8 :: "pstr \<Rightarrow> pbytes option" where
  "utf8 [] = Some []"
| "utf8 (c # cs) =
    (case utf8_cp c of None \<Rightarrow> None
     | Some b \<Rightarrow> (case utf8 cs of None \<Rightarrow> None | Some bs \<Rightarrow> Some (b @ bs)))"

lemma utf8_append:
  "utf8 (s @ t) = (case utf8 s of None \<Rightarrow> None
     | Some b \<Rightarrow> (case utf8 t of None \<Rightarrow> None | Some c \<Rightarrow> Some (b @ c)))"
  by (induction s) (auto split: option.splits)

lemma utf8_cp_length: "utf8_cp c = Some b \<Longrightarrow> 1 \<le> length b \<and> length b \<le> 4"
  by (auto simp: utf8_cp_def split: if_splits)

lemma utf8_length: "utf8 s = Some b \<Longrightarrow> length s \<le> length b \<and> length b \<le> 4 * length s"
  by (induction s arbitrary: b) (fastforce dest: utf8_cp_length split: option.splits)+

lemma utf8_ascii: "(\<And>c. c \<in> set s \<Longrightarrow> c < 128) \<Longrightarrow> utf8 s = Some s"
  by (induction s) (auto simp: utf8_cp_def)

section \<open>Floats, JSON documents and bound values\<close>

text \<open>
  A finite double is \<open>Finite neg m\<close>, the number \<open>m * 2^-1074\<close> with the sign \<open>neg\<close>:
  every finite double is an integral multiple of the least positive one, so the representation is
  exact and canonical (the two zeros differ in their sign).
\<close>

datatype pyfloat = Finite bool nat | Infinite bool | NotANumber

definition isfinite :: "pyfloat \<Rightarrow> bool" where
  [py_defs]: "isfinite x = (case x of Finite _ _ \<Rightarrow> True | _ \<Rightarrow> False)"

lemma isfinite_simps [simp]:
  "isfinite (Finite b m)" "\<not> isfinite (Infinite b)" "\<not> isfinite NotANumber"
  by (simp_all add: isfinite_def)

datatype json =
    JNull
  | JBool bool
  | JInt int
  | JFloat pyfloat
  | JStr pstr
  | JList "json list"
  | JObj "(pstr \<times> json) list"

type_synonym dict = "(pstr \<times> json) list"

text \<open>
  \<open>d.get(key)\<close> on a dictionary, and \<open>d[key] = v\<close>: an existing key keeps its position.
\<close>

abbreviation dget :: "dict \<Rightarrow> string \<Rightarrow> json option" where
  "dget d k \<equiv> map_of d (lit k)"

fun dset :: "dict \<Rightarrow> pstr \<Rightarrow> json \<Rightarrow> dict" where
  "dset [] k v = [(k, v)]"
| "dset ((k', v') # d) k v = (if k' = k then (k, v) # d else (k', v') # dset d k v)"

lemma map_of_dset [simp]: "map_of (dset d k v) = (map_of d)(k \<mapsto> v)"
  by (induction d) auto

text \<open>The Python objects an application may pass as one SQL parameter.\<close>

datatype pval =
    VNone
  | VBool bool
  | VInt int
  | VFloat pyfloat
  | VStr pstr
  | VVector "pyfloat list"
  | VOther

text \<open>A \<open>PendingWrite\<close>: the saved identity and content of one durable write.\<close>

record PendingWrite =
  pw_session :: pstr
  pw_sequence :: int
  pw_sql :: pstr
  pw_parameters :: "pval list"
  pw_read_version :: int
  pw_epoch :: int

section \<open>Exceptions and stateful computations\<close>

text \<open>
  The exceptions the client raises or handles. The text of a message is the message of the source,
  with the format fields of an f-string left in place: it identifies the raise site, and no code
  reads it.
\<close>

datatype exn =
    ValueError string
  | TypeError string
  | KeyError
  | IndexError
  | AttributeError
  | UnicodeEncodeError
  | OverflowError
  | OSError string
  | TimeoutError string
  | CertificateError string
  | JSONDecodeError
  | ConnectionError string
  | QueryError json
  | ConstraintError json
  | SerializationError json
  | SessionError json
  | PendingWriteError string
  | UnknownOutcome PendingWrite
  | NotImplementedError string
  | StopIteration
  | DbInterfaceError string
  | DbDataError string
  | DbOperationalError string "PendingWrite option"
  | DbSerializationError string
  | DbIntegrityError string
  | DbProgrammingError string
  | DbNotSupportedError string
  | RuntimeError string
  | AssertionError string
  | ZeroDivisionError
  | QueueFull
  | NameError
  | FileNotFoundError
  | SystemExit string
  | CalledProcessError
  | TimeoutExpired
  | EOFError

text \<open>The \<open>Db\<close> group is the hierarchy of \<open>dbapi.py\<close>; the last group is raised by the tools. Subclass tests of \<open>except\<close> clauses and \<open>isinstance\<close>.\<close>

definition is_ValueError :: "exn \<Rightarrow> bool" where
  [py_defs]: "is_ValueError e = (case e of ValueError _ \<Rightarrow> True | UnicodeEncodeError \<Rightarrow> True
     | CertificateError _ \<Rightarrow> True | JSONDecodeError \<Rightarrow> True | _ \<Rightarrow> False)"

definition is_TypeError :: "exn \<Rightarrow> bool" where
  [py_defs]: "is_TypeError e = (case e of TypeError _ \<Rightarrow> True | _ \<Rightarrow> False)"

definition is_OSError :: "exn \<Rightarrow> bool" where
  [py_defs]: "is_OSError e = (case e of OSError _ \<Rightarrow> True | TimeoutError _ \<Rightarrow> True
     | CertificateError _ \<Rightarrow> True | _ \<Rightarrow> False)"

definition is_ConnectionError :: "exn \<Rightarrow> bool" where
  [py_defs]: "is_ConnectionError e = (case e of ConnectionError _ \<Rightarrow> True | _ \<Rightarrow> False)"

definition is_TimeoutError :: "exn \<Rightarrow> bool" where
  [py_defs]: "is_TimeoutError e = (case e of TimeoutError _ \<Rightarrow> True | _ \<Rightarrow> False)"

text \<open>\<open>errors.Error\<close>, \<open>errors.QueryError\<close> and \<open>dbapi.Error\<close>.\<close>

definition is_QueryError :: "exn \<Rightarrow> bool" where
  [py_defs]: "is_QueryError e = (case e of QueryError _ \<Rightarrow> True | ConstraintError _ \<Rightarrow> True
     | SerializationError _ \<Rightarrow> True | SessionError _ \<Rightarrow> True | _ \<Rightarrow> False)"

definition is_Error :: "exn \<Rightarrow> bool" where
  [py_defs]: "is_Error e = (is_QueryError e \<or> (case e of ConnectionError _ \<Rightarrow> True | PendingWriteError _ \<Rightarrow> True
     | UnknownOutcome _ \<Rightarrow> True | _ \<Rightarrow> False))"

definition is_DbError :: "exn \<Rightarrow> bool" where
  [py_defs]: "is_DbError e = (case e of DbInterfaceError _ \<Rightarrow> True | DbDataError _ \<Rightarrow> True | DbOperationalError _ _ \<Rightarrow> True
     | DbSerializationError _ \<Rightarrow> True | DbIntegrityError _ \<Rightarrow> True | DbProgrammingError _ \<Rightarrow> True
     | DbNotSupportedError _ \<Rightarrow> True | _ \<Rightarrow> False)"

type_synonym 'a res = "exn + 'a"

definition bindR :: "'e + 'a \<Rightarrow> ('a \<Rightarrow> 'e + 'b) \<Rightarrow> 'e + 'b" where
  "bindR r f = (case r of Inl e \<Rightarrow> Inl e | Inr x \<Rightarrow> f x)"

lemma bindR_simps [simp]: "bindR (Inl e) f = Inl e" "bindR (Inr x) f = f x"
  by (simp_all add: bindR_def)

lemma bindR_Inr_iff: "bindR r f = Inr y \<longleftrightarrow> (\<exists>x. r = Inr x \<and> f x = Inr y)"
  by (cases r) simp_all

lemma bindR_Inl_iff: "bindR r f = Inl e \<longleftrightarrow> r = Inl e \<or> (\<exists>x. r = Inr x \<and> f x = Inl e)"
  by (cases r) simp_all

text \<open>A comprehension whose element expression may raise: stops at the first exception.\<close>

fun mapR :: "('a \<Rightarrow> 'e + 'b) \<Rightarrow> 'a list \<Rightarrow> 'e + 'b list" where
  "mapR f [] = Inr []"
| "mapR f (x # xs) = bindR (f x) (\<lambda>y. bindR (mapR f xs) (\<lambda>ys. Inr (y # ys)))"

lemma mapR_Inr_iff: "mapR f xs = Inr ys \<longleftrightarrow> list_all2 (\<lambda>x y. f x = Inr y) xs ys"
  by (induction xs arbitrary: ys) (auto simp: bindR_Inr_iff list_all2_Cons1)

lemma mapR_Inr_all: "(\<exists>ys. mapR f xs = Inr ys) \<longleftrightarrow> (\<forall>x \<in> set xs. \<exists>y. f x = Inr y)"
  by (induction xs) (auto simp: bindR_Inr_iff)

lemma mapR_append:
  "mapR f (xs @ ys) = bindR (mapR f xs) (\<lambda>us. bindR (mapR f ys) (\<lambda>vs. Inr (us @ vs)))"
  by (induction xs) (auto simp: bindR_def split: sum.splits)

lemma mapR_cong [fundef_cong]:
  "xs = ys \<Longrightarrow> (\<And>x. x \<in> set ys \<Longrightarrow> f x = g x) \<Longrightarrow> mapR f xs = mapR g ys"
  by (induction ys arbitrary: xs) auto

text \<open>
  A method that mutates objects: from a state to a result and the new state, which an exception
  keeps as it is at the raise. \<open>None\<close> is a call that does not return.
\<close>

type_synonym ('s, 'a) comp = "'s \<Rightarrow> ('a res \<times> 's) option"

definition retM :: "'a \<Rightarrow> ('s, 'a) comp" where
  "retM x = (\<lambda>s. Some (Inr x, s))"

definition raiseM :: "exn \<Rightarrow> ('s, 'a) comp" where
  "raiseM e = (\<lambda>s. Some (Inl e, s))"

definition bindM :: "('s, 'a) comp \<Rightarrow> ('a \<Rightarrow> ('s, 'b) comp) \<Rightarrow> ('s, 'b) comp" where
  "bindM m f = (\<lambda>s. case m s of None \<Rightarrow> None
      | Some (Inl e, s') \<Rightarrow> Some (Inl e, s')
      | Some (Inr x, s') \<Rightarrow> f x s')"

definition liftR :: "'a res \<Rightarrow> ('s, 'a) comp" where
  "liftR r = (\<lambda>s. Some (r, s))"

definition getM :: "('s, 's) comp" where
  "getM = (\<lambda>s. Some (Inr s, s))"

definition modM :: "('s \<Rightarrow> 's) \<Rightarrow> ('s, unit) comp" where
  "modM f = (\<lambda>s. Some (Inr (), f s))"

definition tryM :: "('s, 'a) comp \<Rightarrow> (exn \<Rightarrow> ('s, 'a) comp) \<Rightarrow> ('s, 'a) comp" where
  "tryM m h = (\<lambda>s. case m s of None \<Rightarrow> None
      | Some (Inl e, s') \<Rightarrow> h e s'
      | Some (Inr x, s') \<Rightarrow> Some (Inr x, s'))"

definition whenM :: "bool \<Rightarrow> exn \<Rightarrow> ('s, unit) comp" where
  "whenM b e = (if b then raiseM e else retM ())"

text \<open>The block of a \<open>with\<close> statement: one way out for a result, one for an exception.\<close>

definition handleM :: "('s, 'a) comp \<Rightarrow> ('a \<Rightarrow> ('s, 'b) comp) \<Rightarrow> (exn \<Rightarrow> ('s, 'b) comp) \<Rightarrow> ('s, 'b) comp" where
  "handleM m ok bad = (\<lambda>s. case m s of None \<Rightarrow> None
      | Some (Inl e, s') \<Rightarrow> bad e s'
      | Some (Inr x, s') \<Rightarrow> ok x s')"

text \<open>\<open>try: m finally: f\<close>; a method of an object that the state holds beside another one.\<close>

definition finallyM :: "('s, 'a) comp \<Rightarrow> ('s, unit) comp \<Rightarrow> ('s, 'a) comp" where
  "finallyM m f = (\<lambda>s. case m s of None \<Rightarrow> None
      | Some (r, s') \<Rightarrow> (case f s' of None \<Rightarrow> None
          | Some (Inl e, t) \<Rightarrow> Some (Inl e, t)
          | Some (Inr _, t) \<Rightarrow> Some (r, t)))"

definition innerM :: "('s, 'a) comp \<Rightarrow> ('o \<times> 's, 'a) comp" where
  "innerM m = (\<lambda>(x, s). case m s of None \<Rightarrow> None | Some (r, t) \<Rightarrow> Some (r, (x, t)))"

definition objM :: "('o \<times> 's, 'o) comp" where
  "objM = (\<lambda>(x, s). Some (Inr x, (x, s)))"

definition updM :: "('o \<Rightarrow> 'o) \<Rightarrow> ('o \<times> 's, unit) comp" where
  "updM f = (\<lambda>(x, s). Some (Inr (), (f x, s)))"

lemmas comp_defs = retM_def raiseM_def bindM_def liftR_def getM_def modM_def tryM_def whenM_def

lemma bindM_eval:
  "m s = Some (Inr x, s') \<Longrightarrow> bindM m f s = f x s'"
  "m s = Some (Inl e, s') \<Longrightarrow> bindM m f s = Some (Inl e, s')"
  "m s = None \<Longrightarrow> bindM m f s = None"
  by (simp_all add: bindM_def)

lemma comp_eval [simp]:
  "retM x s = Some (Inr x, s)" "raiseM e s = Some (Inl e, s)" "liftR r s = Some (r, s)"
  "getM s = Some (Inr s, s)" "modM g s = Some (Inr (), g s)"
  "bindM (retM x) f s = f x s" "bindM (raiseM e) f s = Some (Inl e, s)"
  "bindM getM f2 s = f2 s s" "bindM (modM g) f3 s = f3 () (g s)"
  "bindM (liftR (Inr x)) f s = f x s" "bindM (liftR (Inl e)) f s = Some (Inl e, s)"
  by (simp_all add: comp_defs)

lemma bindM_Inr_iff:
  "bindM m f s = Some (Inr y, t) \<longleftrightarrow> (\<exists>x s'. m s = Some (Inr x, s') \<and> f x s' = Some (Inr y, t))"
  by (auto simp: bindM_def split: option.splits sum.splits)

lemma bindM_Some_cases:
  assumes "bindM m f s = Some (r, t)"
  obtains (raise) e where "m s = Some (Inl e, t)" and "r = Inl e"
  | (step) x s' where "m s = Some (Inr x, s')" and "f x s' = Some (r, t)"
  using assms by (auto simp: bindM_def split: option.splits sum.splits)

lemma whenM_eval [simp]:
  "bindM (whenM b e) f s = (if b then Some (Inl e, s) else f () s)"
  by (simp add: comp_defs)

section \<open>Weakest preconditions\<close>

text \<open>
  \<open>wlp m Q E s\<close>: every outcome of \<open>m\<close> from \<open>s\<close> satisfies \<open>Q\<close> (a returned
  value) or \<open>E\<close> (an exception); a call that does not return satisfies it too, so statements
  that a call returns are made with \<open>returns\<close>.
\<close>

definition wlp :: "('s, 'a) comp \<Rightarrow> ('a \<Rightarrow> 's \<Rightarrow> bool) \<Rightarrow> (exn \<Rightarrow> 's \<Rightarrow> bool) \<Rightarrow> 's \<Rightarrow> bool" where
  "wlp m Q E s = (case m s of None \<Rightarrow> True | Some (Inl e, t) \<Rightarrow> E e t | Some (Inr x, t) \<Rightarrow> Q x t)"

definition returns :: "('s, 'a) comp \<Rightarrow> 's \<Rightarrow> bool" where
  "returns m s \<longleftrightarrow> m s \<noteq> None"

lemma wlp_simps [simp]:
  "wlp (retM x) Q E s = Q x s"
  "wlp (raiseM e) Q E s = E e s"
  "wlp (bindM m f) Q2 E s = wlp m (\<lambda>x. wlp (f x) Q2 E) E s"
  "wlp (tryM m h) Q E s = wlp m Q (\<lambda>e. wlp (h e) Q E) s"
  "wlp getM Q3 E s = Q3 s s"
  "wlp (modM g) Q4 E s = Q4 () (g s)"
  "wlp (whenM b e) Q4 E s = (if b then E e s else Q4 () s)"
  "wlp (liftR r) Q E s = (case r of Inl e \<Rightarrow> E e s | Inr x \<Rightarrow> Q x s)"
  by (auto simp: wlp_def comp_defs split: option.splits sum.splits)

lemma wlp_objects [simp]:
  "wlp objM Q E (x, s) = Q x (x, s)"
  "wlp (updM g) Q2 E (x, s) = Q2 () (g x, s)"
  "wlp (innerM m) Q3 E (x, s) = wlp m (\<lambda>r t. Q3 r (x, t)) (\<lambda>e t. E e (x, t)) s"
  by (auto simp: wlp_def objM_def updM_def innerM_def split: option.splits sum.splits)

lemma wlp_handle [simp]:
  "wlp (handleM m ok bad) Q E s = wlp m (\<lambda>x. wlp (ok x) Q E) (\<lambda>e. wlp (bad e) Q E) s"
  by (auto simp: wlp_def handleM_def split: option.splits sum.splits)

lemma wlp_finally [simp]:
  "wlp (finallyM m f) Q E s = wlp m (\<lambda>x. wlp f (\<lambda>_. Q x) E) (\<lambda>e. wlp f (\<lambda>_. E e) E) s"
  by (auto simp: wlp_def finallyM_def split: option.splits sum.splits)

text \<open>The same without the state, for computations under a binder.\<close>

lemma wlp_fun:
  "wlp (retM x) Q E = Q x" "wlp (raiseM e) Q E = E e" "wlp (bindM m f) Q2 E = wlp m (\<lambda>x. wlp (f x) Q2 E) E"
  "wlp (handleM m ok bad) Q2 E = wlp m (\<lambda>x. wlp (ok x) Q2 E) (\<lambda>e. wlp (bad e) Q2 E)"
  "wlp (tryM m2 h) Q E = wlp m2 Q (\<lambda>e. wlp (h e) Q E)"
  by (simp_all add: fun_eq_iff)

lemma wlp_fun_objects:
  "wlp objM Q E = (\<lambda>s. Q (fst s) s)" "wlp (updM g) Q2 E = (\<lambda>s. Q2 () (g (fst s), snd s))"
  "wlp (innerM m) Q3 E = (\<lambda>s. wlp m (\<lambda>r t. Q3 r (fst s, t)) (\<lambda>e t. E e (fst s, t)) (snd s))"
  "wlp getM Q4 E = (\<lambda>s. Q4 s s)" "wlp (whenM b e) Q2 E = (\<lambda>s. if b then E e s else Q2 () s)"
  "wlp (liftR r) Q5 E = (case r of Inl e \<Rightarrow> E e | Inr x \<Rightarrow> Q5 x)"
  by (simp_all add: fun_eq_iff split: sum.splits)

lemma wlp_if [simp]: "wlp (if b then m else n) Q E s = (if b then wlp m Q E s else wlp n Q E s)"
  by simp

lemma wlp_mono:
  "wlp m Q E s \<Longrightarrow> (\<And>x t. Q x t \<Longrightarrow> Q' x t) \<Longrightarrow> (\<And>e t. E e t \<Longrightarrow> E' e t) \<Longrightarrow> wlp m Q' E' s"
  by (auto simp: wlp_def split: option.splits sum.splits)

lemma wlp_Inr: "wlp m Q E s \<Longrightarrow> m s = Some (Inr x, t) \<Longrightarrow> Q x t"
  by (simp add: wlp_def)

lemma wlp_Inl: "wlp m Q E s \<Longrightarrow> m s = Some (Inl e, t) \<Longrightarrow> E e t"
  by (simp add: wlp_def)

lemma wlp_conj: "wlp m Q E s \<Longrightarrow> wlp m Q' E' s \<Longrightarrow> wlp m (\<lambda>x t. Q x t \<and> Q' x t) (\<lambda>e t. E e t \<and> E' e t) s"
  by (auto simp: wlp_def split: option.splits sum.splits)

lemma wlpI:
  "(\<And>x t. m s = Some (Inr x, t) \<Longrightarrow> Q x t) \<Longrightarrow> (\<And>e t. m s = Some (Inl e, t) \<Longrightarrow> E e t) \<Longrightarrow> wlp m Q E s"
  by (auto simp: wlp_def split: option.splits sum.splits)

lemma returns_simps [simp]:
  "returns (retM x) s" "returns (raiseM e) s" "returns (liftR r) s" "returns getM s"
  "returns (modM g) s" "returns (whenM b e) s"
  by (simp_all add: returns_def comp_defs)

lemma returns_bind:
  "returns m s \<Longrightarrow> wlp m (\<lambda>x. returns (f x)) (\<lambda>_ _. True) s \<Longrightarrow> returns (bindM m f) s"
  by (auto simp: returns_def wlp_def bindM_def split: option.splits sum.splits)

lemma returns_try:
  "returns m s \<Longrightarrow> wlp m (\<lambda>_ _. True) (\<lambda>e. returns (h e)) s \<Longrightarrow> returns (tryM m h) s"
  by (auto simp: returns_def wlp_def tryM_def split: option.splits sum.splits)

lemma returns_if: "(b \<Longrightarrow> returns m s) \<Longrightarrow> (\<not> b \<Longrightarrow> returns n s) \<Longrightarrow> returns (if b then m else n) s"
  by simp

text \<open>A computation that always returns.\<close>

definition total :: "('s, 'a) comp \<Rightarrow> bool" where
  "total m \<longleftrightarrow> (\<forall>s. returns m s)"

named_theorems total_rules \<open>computations that always return\<close>

lemma total_basic [total_rules]:
  "total (retM x)" "total (raiseM e)" "total (liftR r)" "total getM" "total (modM g)" "total (whenM b e)"
  by (simp_all add: total_def)

lemma total_bind [total_rules]: "total m \<Longrightarrow> (\<And>x. total (f x)) \<Longrightarrow> total (bindM m f)"
  by (auto simp: total_def returns_def bindM_def split: option.splits sum.splits)

lemma total_try [total_rules]: "total m \<Longrightarrow> (\<And>e. total (h e)) \<Longrightarrow> total (tryM m h)"
  by (auto simp: total_def returns_def tryM_def split: option.splits sum.splits)

lemma total_objects [total_rules]:
  "total objM" "total (updM g)" "total m \<Longrightarrow> total (innerM m)"
  by (auto simp: total_def returns_def objM_def updM_def innerM_def split: option.splits)

lemma total_handle [total_rules]: "total m \<Longrightarrow> (\<And>x. total (ok x)) \<Longrightarrow> (\<And>e. total (bad e)) \<Longrightarrow> total (handleM m ok bad)"
  by (auto simp: total_def returns_def handleM_def split: option.splits sum.splits)

lemma total_finally [total_rules]: "total m \<Longrightarrow> total f \<Longrightarrow> total (finallyM m f)"
  unfolding total_def returns_def finallyM_def
  by (auto split: option.splits sum.splits) (metis option.distinct(1))

text \<open>Total correctness from the two halves.\<close>

lemma total_wlp:
  assumes "total m" and "wlp m Q E s"
  obtains (result) x t where "m s = Some (Inr x, t)" and "Q x t"
  | (raised) e t where "m s = Some (Inl e, t)" and "E e t"
proof -
  obtain r t where r: "m s = Some (r, t)"
    using assms(1) unfolding total_def returns_def by (metis not_None_eq surj_pair)
  show thesis using assms(2) r that by (cases r) (auto simp: wlp_def)
qed

lemma total_outcome:
  assumes "total m" and "wlp m Q E s"
  shows "\<exists>r t. m s = Some (r, t) \<and> (case r of Inr x \<Rightarrow> Q x t | Inl e \<Rightarrow> E e t)"
  by (rule total_wlp [OF assms]) auto

lemma total_if [total_rules]: "total m \<Longrightarrow> total n \<Longrightarrow> total (if b then m else n)"
  by simp

end
