(* ===== verification/Float32.thy ===== *)
theory Float32
  imports Py_Prelude
begin

text \<open>
  Python floats and the \<open>struct\<close> formats the client uses: conversion of integers to doubles,
  the little-endian single-precision format \<open>'<f'\<close> and the 32-bit length format \<open>'<I'\<close>.
  A locale states what a fixed-width codec promises and lifts its round trip to sequences; the two
  formats interpret it.
\<close>

section \<open>Fixed-width codecs\<close>

locale fixed_codec =
  fixes width :: nat
    and enc :: "'a \<Rightarrow> pbytes"
    and dcd :: "pbytes \<Rightarrow> 'a"
    and ok :: "'a \<Rightarrow> bool"
  assumes width_pos: "0 < width"
    and enc_length: "ok x \<Longrightarrow> length (enc x) = width"
    and dcd_enc: "ok x \<Longrightarrow> dcd (enc x) = x"
begin

lemma enc_inj: "ok x \<Longrightarrow> ok y \<Longrightarrow> enc x = enc y \<Longrightarrow> x = y"
  by (metis dcd_enc)

lemma enc_append_inj:
  "ok x \<Longrightarrow> ok y \<Longrightarrow> enc x @ s = enc y @ t \<Longrightarrow> x = y \<and> s = t"
  using append_eq_append_conv [of "enc x" "enc y" s t] by (auto simp: enc_length dest: enc_inj)

lemma take_drop_enc: "ok x \<Longrightarrow> take width (enc x @ s) = enc x \<and> drop width (enc x @ s) = s"
  by (simp add: enc_length)

end

text \<open>Cutting a byte string into \<open>n\<close> pieces of width \<open>w\<close>, as \<open>struct.unpack\<close> of a repeated format.\<close>

fun chunks :: "nat \<Rightarrow> nat \<Rightarrow> pbytes \<Rightarrow> pbytes list" where
  "chunks w 0 bs = []"
| "chunks w (Suc n) bs = take w bs # chunks w n (drop w bs)"

lemma chunks_length [simp]: "length (chunks w n bs) = n"
  by (induction n arbitrary: bs) auto

lemma concat_chunks: "length bs = w * n \<Longrightarrow> concat (chunks w n bs) = bs"
  by (induction n arbitrary: bs) auto

lemma chunks_width: "length bs = w * n \<Longrightarrow> c \<in> set (chunks w n bs) \<Longrightarrow> length c = w"
proof (induction n arbitrary: bs)
  case (Suc n)
  have "length (drop w bs) = w * n" using Suc.prems(1) by simp
  then show ?case using Suc.IH [of "drop w bs"] Suc.prems by auto
qed simp

lemma set_chunks_subset: "c \<in> set (chunks w n bs) \<Longrightarrow> set c \<subseteq> set bs"
  by (induction n arbitrary: bs) (fastforce dest: in_set_takeD in_set_dropD)+

context fixed_codec
begin

lemma chunks_concat:
  assumes "\<And>x. x \<in> set xs \<Longrightarrow> ok x"
  shows "map dcd (chunks width (length xs) (concat (map enc xs))) = xs"
  using assms by (induction xs) (auto simp: dcd_enc take_drop_enc enc_length)

lemma concat_enc_length:
  assumes "\<And>x. x \<in> set xs \<Longrightarrow> ok x"
  shows "length (concat (map enc xs)) = width * length xs"
  using assms by (induction xs) (auto simp: enc_length)

end

section \<open>Little-endian 32-bit words\<close>

definition le32 :: "nat \<Rightarrow> pbytes" where
  [py_defs]: "le32 n = [n mod 256, n div 256 mod 256, n div 65536 mod 256, n div 16777216 mod 256]"

fun un_le32 :: "pbytes \<Rightarrow> nat" where
  "un_le32 [a, b, c, d] = a + 256 * b + 65536 * c + 16777216 * d"
| "un_le32 _ = 0"

lemma un_le32_le32: "n < 2 ^ 32 \<Longrightarrow> un_le32 (le32 n) = n"
proof -
  assume "n < 2 ^ 32"
  define a b c where "a = n div 256" and "b = a div 256" and "c = b div 256"
  have b: "n div 65536 = b" and c: "n div 16777216 = c"
    by (simp_all add: a_def b_def c_def div_mult2_eq [symmetric])
  have c': "c mod 256 = c" using \<open>n < 2 ^ 32\<close> c by simp
  have "n = 256 * a + n mod 256" "a = 256 * b + a mod 256" "b = 256 * c + b mod 256"
    by (simp_all add: a_def b_def c_def)
  then show ?thesis by (simp add: le32_def b c c' a_def [symmetric])
qed

lemma le32_un_le32:
  assumes "length bs = 4" and "\<And>b. b \<in> set bs \<Longrightarrow> b < 256"
  shows "le32 (un_le32 bs) = bs" and "un_le32 bs < 2 ^ 32"
proof -
  obtain a b c d where bs: "bs = [a, b, c, d]"
    using assms(1) by (auto simp: length_Suc_conv numeral_eq_Suc)
  have lt: "a < 256" "b < 256" "c < 256" "d < 256"
    using assms(2) by (simp_all add: bs)
  define u v w where "u = c + 256 * d" and "v = b + 256 * u" and "w = a + 256 * v"
  have w: "un_le32 bs = w" by (simp add: bs u_def v_def w_def)
  have 1: "w mod 256 = a" "w div 256 = v" using lt by (simp_all add: w_def)
  have 2: "v mod 256 = b" "v div 256 = u" using lt by (simp_all add: v_def)
  have 3: "u mod 256 = c" "u div 256 = d" using lt by (simp_all add: u_def)
  have "w div 65536 = u" "w div 16777216 = d"
    using 1 2 3 by (simp_all add: div_mult2_eq [of w 256 256, simplified] div_mult2_eq [of w 256 65536, simplified]
        div_mult2_eq [of v 256 256, simplified])
  with 1 2 3 lt show "le32 (un_le32 bs) = bs"
    by (simp add: w) (simp add: le32_def bs)
  from lt show "un_le32 bs < 2 ^ 32"
    by (simp add: bs)
qed

interpretation frame_len: fixed_codec 4 le32 un_le32 "\<lambda>n. n < 2 ^ 32"
  by unfold_locales (simp_all add: un_le32_le32, simp add: le32_def)

section \<open>Rounding\<close>

text \<open>The number of binary digits, and \<open>m / 2^s\<close> rounded to nearest with ties to even.\<close>

fun bits :: "nat \<Rightarrow> nat" where
  "bits n = (if n = 0 then 0 else Suc (bits (n div 2)))"

declare bits.simps [simp del]

definition rhe :: "nat \<Rightarrow> nat \<Rightarrow> nat" where
  [py_defs]: "rhe m s =
    (let q = m div 2 ^ s; r = m mod 2 ^ s
     in if 2 ^ s < 2 * r \<or> (2 * r = 2 ^ s \<and> odd q) then q + 1 else q)"

lemma bits_0 [simp]: "bits 0 = 0"
  by (simp add: bits.simps)

lemma bits_less: "n < 2 ^ bits n"
proof (induction n rule: bits.induct)
  case (1 n)
  show ?case
  proof (cases "n = 0")
    case False
    with 1 have "n div 2 < 2 ^ bits (n div 2)" by simp
    then have "n < 2 * 2 ^ bits (n div 2)" by linarith
    with False show ?thesis by (simp add: bits.simps [of n])
  qed simp
qed

lemma bits_ge: "0 < n \<Longrightarrow> 2 ^ (bits n - 1) \<le> n"
proof (induction n rule: bits.induct)
  case (1 n)
  show ?case
  proof (cases "n < 2")
    case True
    with 1 have "n = 1" by simp
    then show ?thesis by (simp add: bits.simps)
  next
    case False
    then have pos: "0 < n div 2" by simp
    with 1 have IH: "2 ^ (bits (n div 2) - 1) \<le> n div 2" by simp
    have "0 < bits (n div 2)" using pos by (subst bits.simps) simp
    then have "2 ^ bits (n div 2) = 2 * (2::nat) ^ (bits (n div 2) - 1)"
      by (metis Suc_diff_1 power_Suc)
    then have "2 ^ bits (n div 2) \<le> n" using IH by linarith
    then show ?thesis using False by (simp add: bits.simps [of n])
  qed
qed

lemma bits_eqI: "2 ^ k \<le> n \<Longrightarrow> n < 2 ^ Suc k \<Longrightarrow> bits n = Suc k"
proof -
  assume lo: "2 ^ k \<le> n" and hi: "n < 2 ^ Suc k"
  then have pos: "0 < n" by (metis gr0I le_zero_eq power_not_zero zero_neq_numeral)
  have "(2::nat) ^ k < 2 ^ bits n" using lo bits_less [of n] by (rule le_less_trans)
  then have 1: "k < bits n" by simp
  have "(2::nat) ^ (bits n - 1) < 2 ^ Suc k" using bits_ge [OF pos] hi by (rule le_less_trans)
  then have "bits n - 1 < Suc k" by (rule power_less_imp_less_exp [rotated]) simp
  with 1 show "bits n = Suc k" by simp
qed

lemma bits_le: "n < 2 ^ k \<Longrightarrow> bits n \<le> k"
proof (rule ccontr)
  assume lt: "n < 2 ^ k" and "\<not> bits n \<le> k"
  then have k: "k \<le> bits n - 1" and pos: "0 < n" by (cases "n = 0"; simp)+
  have "(2::nat) ^ k \<le> 2 ^ (bits n - 1)" using k by (rule power_increasing) simp
  also have "\<dots> \<le> n" by (rule bits_ge [OF pos])
  finally show False using lt by simp
qed

lemma rhe_exact: "rhe (m * 2 ^ s) s = m"
  by (simp add: rhe_def)

section \<open>Integers to doubles\<close>

text \<open>
  \<open>float(n)\<close>: rounded to 53 significant bits; a value of \<open>2^1024\<close> or more raises
  \<open>OverflowError\<close>.
\<close>

definition float_of_int :: "int \<Rightarrow> pyfloat res" where
  [py_defs]: "float_of_int n =
    (let a = nat \<bar>n\<bar>; s = bits a - 53; m = rhe a s * 2 ^ s
     in if 2 ^ 1024 \<le> m then Inl OverflowError else Inr (Finite (n < 0) (m * 2 ^ 1074)))"

section \<open>Single precision\<close>

text \<open>
  The 31 low bits of a single for a magnitude in units of \<open>2^-1074\<close>, rounded to nearest even:
  the unit of the last place is \<open>2^925\<close> of those units (that is \<open>2^-149\<close>) for subnormal
  singles, and 24 significant bits are kept otherwise. \<open>f32_inf\<close> is the pattern of infinity.
\<close>

abbreviation f32_inf :: nat where "f32_inf \<equiv> 2139095040"

definition f32_ulp :: nat where
  [py_defs]: "f32_ulp = 925"

definition f32_bits :: "nat \<Rightarrow> nat" where
  [py_defs]: "f32_bits m = (let s = max f32_ulp (bits m - 24) in (s - f32_ulp) * 8388608 + rhe m s)"

definition f32_mag :: "nat \<Rightarrow> nat" where
  [py_defs]: "f32_mag b = (let e = b div 8388608; f = b mod 8388608
     in if e = 0 then f * 2 ^ f32_ulp else (8388608 + f) * 2 ^ (f32_ulp + e - 1))"

text \<open>\<open>struct.pack('<f', x)\<close> and \<open>struct.unpack('<f', b)\<close>.\<close>

definition pack_f :: "pyfloat \<Rightarrow> pbytes res" where
  [py_defs]: "pack_f x = (case x of
      Finite neg m \<Rightarrow>
        if f32_inf \<le> f32_bits m then Inl OverflowError
        else Inr (le32 (f32_bits m + (if neg then 2147483648 else 0)))
    | Infinite neg \<Rightarrow> Inr (le32 (f32_inf + (if neg then 2147483648 else 0)))
    | NotANumber \<Rightarrow> Inr (le32 (f32_inf + 4194304)))"

definition unpack_f :: "pbytes \<Rightarrow> pyfloat" where
  [py_defs]: "unpack_f bs =
    (let w = un_le32 bs; neg = (2147483648 \<le> w); b = w mod 2147483648
     in if b < f32_inf then Finite neg (f32_mag b)
        else if b = f32_inf then Infinite neg else NotANumber)"

lemma f32_bits_subnormal: "f < 8388608 \<Longrightarrow> f32_bits (f * 2 ^ f32_ulp) = f"
proof -
  assume "f < 8388608"
  then have "f * 2 ^ f32_ulp < 2 ^ 23 * (2::nat) ^ f32_ulp" by simp
  then have "f * 2 ^ f32_ulp < (2::nat) ^ (23 + f32_ulp)" by (simp only: power_add)
  then have "bits (f * 2 ^ f32_ulp) \<le> 23 + f32_ulp" by (rule bits_le)
  then have "max f32_ulp (bits (f * 2 ^ f32_ulp) - 24) = f32_ulp" by simp
  then show ?thesis by (simp add: f32_bits_def rhe_exact)
qed

lemma f32_bits_normal:
  "f < 8388608 \<Longrightarrow> f32_bits ((8388608 + f) * 2 ^ (f32_ulp + k)) = Suc k * 8388608 + f"
proof -
  assume f: "f < 8388608"
  let ?m = "(8388608 + f) * (2::nat) ^ (f32_ulp + k)"
  have "(2::nat) ^ (23 + (f32_ulp + k)) = 8388608 * 2 ^ (f32_ulp + k)" by (simp only: power_add) simp
  also have "\<dots> \<le> ?m" by (rule mult_right_mono) simp_all
  finally have lo: "2 ^ (23 + (f32_ulp + k)) \<le> ?m" .
  have "8388608 + f < (2::nat) ^ 24" using f by simp
  then have "?m < 2 ^ 24 * 2 ^ (f32_ulp + k)" by simp
  also have "\<dots> = (2::nat) ^ Suc (23 + (f32_ulp + k))" by (simp add: power_add)
  finally have "bits ?m = Suc (23 + (f32_ulp + k))" using lo by (intro bits_eqI)
  then have s: "max f32_ulp (bits ?m - 24) = f32_ulp + k" by simp
  show ?thesis unfolding f32_bits_def Let_def s rhe_exact by simp
qed

lemma f32_bits_mag: "f32_bits (f32_mag b) = b"
proof (cases "b div 8388608")
  case 0
  then show ?thesis by (simp add: f32_mag_def f32_bits_subnormal div_eq_0_iff)
next
  case (Suc k)
  then have "f32_bits (f32_mag b) = Suc k * 8388608 + b mod 8388608"
    by (simp add: f32_mag_def f32_bits_normal)
  also have "\<dots> = b" using div_mult_mod_eq [of b 8388608] Suc by simp
  finally show ?thesis .
qed

text \<open>A finite float that a single represents exactly: what a vector component is.\<close>

definition is_f32 :: "pyfloat \<Rightarrow> bool" where
  "is_f32 x = (case x of Finite neg m \<Rightarrow> f32_bits m < f32_inf \<and> f32_mag (f32_bits m) = m | _ \<Rightarrow> False)"

lemma is_f32_mag: "b < f32_inf \<Longrightarrow> is_f32 (Finite neg (f32_mag b))"
  by (simp add: is_f32_def f32_bits_mag)

lemma is_f32_finite: "is_f32 x \<Longrightarrow> isfinite x"
  by (simp add: is_f32_def isfinite_def split: pyfloat.splits)

lemma pack_f_f32: "is_f32 x \<Longrightarrow> \<exists>b. pack_f x = Inr b \<and> length b = 4 \<and> unpack_f b = x"
proof (cases x)
  case (Finite neg m)
  assume "is_f32 x"
  with Finite have b: "f32_bits m < f32_inf" "f32_mag (f32_bits m) = m"
    by (simp_all add: is_f32_def)
  let ?w = "f32_bits m + (if neg then 2147483648 else 0)"
  have w: "un_le32 (le32 ?w) = ?w" using b by (intro un_le32_le32) simp
  have "unpack_f (le32 ?w) = Finite neg m"
    using b by (simp add: unpack_f_def w Let_def)
  moreover have "pack_f x = Inr (le32 ?w)" using b Finite by (simp add: pack_f_def)
  moreover have "length (le32 ?w) = 4" by (simp add: le32_def)
  ultimately show ?thesis using Finite by blast
qed (simp_all add: is_f32_def)

lemma unpack_f_f32: "isfinite (unpack_f b) \<Longrightarrow> is_f32 (unpack_f b)"
  by (auto simp: unpack_f_def is_f32_mag Let_def split: if_splits)

end
