(* ===== verification/Sql_Vector.thy ===== *)
theory Sql_Vector
  imports Float32
begin

text \<open>
  \<open>languages/python/src/sqlodin/vector.py\<close>: immutable vectors of finite float32 components. A
  \<open>Vector\<close> is the list of its components; the constructor normalises each component through
  the single-precision format, so the class invariant is \<open>vec_ok\<close>. Conversion of a string
  component by \<open>float\<close> is the parameter \<open>pf\<close>.
\<close>

section \<open>Model\<close>

type_synonym float_parser = "pstr \<Rightarrow> pyfloat option"

text \<open>What an application may pass where a sequence of components is expected.\<close>

datatype iterable = ISeq "pval list" | IText | IBytes | INotIterable

definition float_of :: "float_parser \<Rightarrow> pval \<Rightarrow> pyfloat res" where
  [py_defs]: "float_of pf v = (case v of
      VFloat x \<Rightarrow> Inr x
    | VInt i \<Rightarrow> float_of_int i
    | VBool b \<Rightarrow> float_of_int (if b then 1 else 0)
    | VStr s \<Rightarrow> (case pf s of Some x \<Rightarrow> Inr x
                 | None \<Rightarrow> Inl (ValueError ''could not convert string to float''))
    | VNone \<Rightarrow> Inl (TypeError ''float() argument must be a string or a real number'')
    | VVector _ \<Rightarrow> Inl (TypeError ''float() argument must be a string or a real number'')
    | VOther \<Rightarrow> Inl (TypeError ''float() argument must be a string or a real number''))"

definition vec_component :: "float_parser \<Rightarrow> pval \<Rightarrow> pyfloat res" where
  "vec_component pf v =
    (case bindR (float_of pf v) (\<lambda>x. bindR (pack_f x) (\<lambda>b. Inr (unpack_f b))) of
       Inl e \<Rightarrow> Inl (ValueError ''Vector components must fit finite float32'')
     | Inr number \<Rightarrow> if isfinite number then Inr number
                     else Inl (ValueError ''Vector components must be finite''))"

fun vec_loop :: "float_parser \<Rightarrow> pyfloat list \<Rightarrow> pval list \<Rightarrow> pyfloat list res" where
  "vec_loop pf normalized [] = Inr normalized"
| "vec_loop pf normalized (v # vs) =
    (if length normalized = 384 then Inl (ValueError ''A vector supports at most 384 dimensions'')
     else bindR (vec_component pf v) (\<lambda>number. vec_loop pf (normalized @ [number]) vs))"

definition vector_new :: "float_parser \<Rightarrow> iterable \<Rightarrow> pyfloat list res" where
  "vector_new pf values = (case values of
      IText \<Rightarrow> Inl (TypeError ''Vector expects numeric components; use Vector.from_bytes for a BLOB'')
    | IBytes \<Rightarrow> Inl (TypeError ''Vector expects numeric components; use Vector.from_bytes for a BLOB'')
    | INotIterable \<Rightarrow> Inl (TypeError ''object is not iterable'')
    | ISeq vs \<Rightarrow> bindR (vec_loop pf [] vs) (\<lambda>normalized.
        if normalized = [] then Inl (ValueError ''A vector must have at least one dimension'')
        else Inr normalized))"

definition vec_to_bytes :: "pyfloat list \<Rightarrow> pbytes res" where
  "vec_to_bytes values = bindR (mapR pack_f values) (\<lambda>bs. Inr (concat bs))"

definition vec_from_bytes :: "float_parser \<Rightarrow> pbytes \<Rightarrow> pyfloat list res" where
  "vec_from_bytes pf value =
    (if value = [] \<or> length value mod 4 \<noteq> 0 \<or> 384 * 4 < length value
     then Inl (ValueError ''A float32 vector BLOB needs 1..384 four-byte components'')
     else vector_new pf (ISeq (map (\<lambda>c. VFloat (unpack_f c)) (chunks 4 (length value div 4) value))))"

text \<open>The class invariant.\<close>

definition vec_ok :: "pyfloat list \<Rightarrow> bool" where
  "vec_ok vs \<longleftrightarrow> 1 \<le> length vs \<and> length vs \<le> 384 \<and> list_all is_f32 vs"

section \<open>Components\<close>

lemma vec_component_f32: "vec_component pf v = Inr x \<Longrightarrow> is_f32 x"
  by (auto simp: vec_component_def bindR_Inr_iff unpack_f_f32 split: sum.splits if_splits)

lemma vec_component_id: "is_f32 x \<Longrightarrow> vec_component pf (VFloat x) = Inr x"
  using pack_f_f32 [of x] is_f32_finite [of x]
  by (auto simp: vec_component_def float_of_def)

lemma vec_component_error:
  "vec_component pf v = Inl e \<Longrightarrow> \<exists>m. e = ValueError m"
  by (auto simp: vec_component_def split: sum.splits if_splits)

section \<open>The constructor\<close>

lemma vec_loop_Inr_iff:
  assumes "length acc \<le> 384"
  shows "vec_loop pf acc vs = Inr r \<longleftrightarrow>
    (\<exists>xs. mapR (vec_component pf) vs = Inr xs \<and> r = acc @ xs \<and> length r \<le> 384)"
  using assms
proof (induction pf acc vs rule: vec_loop.induct)
  case (1 pf acc)
  then show ?case by auto
next
  case (2 pf acc v vs)
  show ?case
  proof (cases "length acc = 384")
    case True
    then show ?thesis by (auto simp: bindR_Inr_iff)
  next
    case False
    with "2.prems" have le: "length (acc @ [x]) \<le> 384" for x by simp
    show ?thesis
      using "2.IH" [OF False] le False by (auto simp: bindR_Inr_iff)
  qed
qed

lemma vector_new_Inr_iff:
  "vector_new pf (ISeq vs) = Inr r \<longleftrightarrow>
    mapR (vec_component pf) vs = Inr r \<and> 1 \<le> length r \<and> length r \<le> 384"
  by (auto simp: vector_new_def bindR_Inr_iff vec_loop_Inr_iff Suc_le_eq)

lemma mapR_component_length: "mapR (vec_component pf) vs = Inr r \<Longrightarrow> length r = length vs"
  by (auto simp: mapR_Inr_iff list_all2_lengthD)

lemma vector_new_ok: "vector_new pf it = Inr r \<Longrightarrow> vec_ok r"
proof (cases it)
  case (ISeq vs)
  assume "vector_new pf it = Inr r"
  with ISeq have r: "mapR (vec_component pf) vs = Inr r" "1 \<le> length r" "length r \<le> 384"
    by (simp_all add: vector_new_Inr_iff)
  then show ?thesis
    by (auto simp: vec_ok_def mapR_Inr_iff list_all_iff list_all2_conv_all_nth in_set_conv_nth
        dest!: vec_component_f32)
qed (simp_all add: vector_new_def)

lemma mapR_component_id: "list_all is_f32 xs \<Longrightarrow> mapR (vec_component pf) (map VFloat xs) = Inr xs"
  by (induction xs) (auto simp: vec_component_id)

lemma vector_new_id: "vec_ok xs \<Longrightarrow> vector_new pf (ISeq (map VFloat xs)) = Inr xs"
  by (simp add: vector_new_Inr_iff vec_ok_def mapR_component_id)

section \<open>Bytes\<close>

definition pack_f32 :: "pyfloat \<Rightarrow> pbytes" where
  "pack_f32 x = (case pack_f x of Inr b \<Rightarrow> b | Inl _ \<Rightarrow> [])"

lemma pack_f_pack_f32: "is_f32 x \<Longrightarrow> pack_f x = Inr (pack_f32 x)"
  using pack_f_f32 [of x] by (auto simp: pack_f32_def)

interpretation single: fixed_codec 4 pack_f32 unpack_f is_f32
proof unfold_locales
  fix x
  assume "is_f32 x"
  then obtain b where "pack_f x = Inr b" "length b = 4" "unpack_f b = x"
    using pack_f_f32 by blast
  then show "length (pack_f32 x) = 4" "unpack_f (pack_f32 x) = x"
    by (simp_all add: pack_f32_def)
qed simp

lemma mapR_pack: "list_all is_f32 xs \<Longrightarrow> mapR pack_f xs = Inr (map pack_f32 xs)"
  by (induction xs) (auto simp: pack_f_pack_f32)

lemma vec_to_bytes_ok: "vec_ok v \<Longrightarrow> vec_to_bytes v = Inr (concat (map pack_f32 v))"
  by (simp add: vec_to_bytes_def vec_ok_def mapR_pack)

lemma vec_bytes_length: "vec_ok v \<Longrightarrow> length (concat (map pack_f32 v)) = 4 * length v"
  by (rule single.concat_enc_length) (auto simp: vec_ok_def list_all_iff)

lemma vec_chunks: "vec_ok v \<Longrightarrow> map unpack_f (chunks 4 (length v) (concat (map pack_f32 v))) = v"
  by (rule single.chunks_concat) (auto simp: vec_ok_def list_all_iff)

lemma vec_from_to_bytes:
  assumes "vec_ok v"
  shows "vec_from_bytes pf (concat (map pack_f32 v)) = Inr v"
proof -
  let ?b = "concat (map pack_f32 v)"
  have len: "length ?b = 4 * length v" by (rule vec_bytes_length [OF assms])
  have "map (\<lambda>c. VFloat (unpack_f c)) (chunks 4 (length v) ?b) = map VFloat v"
    using vec_chunks [OF assms] by (metis (no_types, lifting) comp_apply map_map map_eq_conv)
  moreover have "?b \<noteq> []"
    unfolding length_greater_0_conv [symmetric] len using assms by (auto simp: vec_ok_def)
  moreover have "length ?b \<le> 384 * 4"
    unfolding len using assms by (simp add: vec_ok_def)
  ultimately show ?thesis
    using len assms by (simp add: vec_from_bytes_def vector_new_id)
qed

lemma pack_unpack_f:
  assumes "length c = 4" and "\<And>x. x \<in> set c \<Longrightarrow> x < 256" and "isfinite (unpack_f c)"
  shows "pack_f (unpack_f c) = Inr c"
proof -
  let ?w = "un_le32 c"
  have w: "le32 ?w = c" "?w < 2 ^ 32" using le32_un_le32 [OF assms(1,2)] by simp_all
  have b: "?w mod 2147483648 < f32_inf"
    using assms(3) by (auto simp: unpack_f_def Let_def split: if_splits)
  have "?w mod 2147483648 + (if 2147483648 \<le> ?w then 2147483648 else 0) = ?w"
    using w(2) by (auto simp: mod_if [of ?w])
  with b w(1) show ?thesis by (simp add: pack_f_def unpack_f_def Let_def f32_bits_mag)
qed

lemma vec_from_bytes_Inr:
  assumes "vec_from_bytes pf bs = Inr v"
  shows "v = map unpack_f (chunks 4 (length v) bs)" and "length bs = 4 * length v" and "vec_ok v"
proof -
  let ?n = "length bs div 4"
  have bs: "length bs mod 4 = 0"
    and new: "vector_new pf (ISeq (map (\<lambda>c. VFloat (unpack_f c)) (chunks 4 ?n bs))) = Inr v"
    using assms by (auto simp: vec_from_bytes_def split: if_splits)
  then have m: "mapR (vec_component pf) (map VFloat (map unpack_f (chunks 4 ?n bs))) = Inr v"
    by (simp add: vector_new_Inr_iff o_def)
  have n: "length v = ?n" using mapR_component_length [OF m] by simp
  then show "length bs = 4 * length v" using bs by (auto simp: mod_eq_0_iff_dvd)
  show "vec_ok v" by (rule vector_new_ok [OF new])
  have comp: "vec_component pf (VFloat x) = Inr y \<Longrightarrow> isfinite y \<and> (is_f32 x \<longrightarrow> y = x)" for x y
    by (metis Inr_inject is_f32_finite vec_component_f32 vec_component_id)
  have "y = unpack_f c" if "vec_component pf (VFloat (unpack_f c)) = Inr y" for c y
  proof -
    have "isfinite (unpack_f c)"
      using that by (auto simp: vec_component_def float_of_def pack_f_def unpack_f_def Let_def is_f32_def f32_bits_mag
          un_le32_le32 split: sum.splits if_splits pyfloat.splits)
    then show ?thesis using comp [OF that] unpack_f_f32 by blast
  qed
  then have "list_all2 (\<lambda>c y. y = unpack_f c) (chunks 4 ?n bs) v"
    using m by (auto simp: mapR_Inr_iff list_all2_conv_all_nth)
  then show "v = map unpack_f (chunks 4 (length v) bs)"
    unfolding n by (auto simp: list_all2_conv_all_nth intro!: nth_equalityI)
qed

lemma vec_to_from_bytes:
  assumes "vec_from_bytes pf bs = Inr v" and "\<And>x. x \<in> set bs \<Longrightarrow> x < 256"
  shows "vec_to_bytes v = Inr bs"
proof -
  note v = vec_from_bytes_Inr [OF assms(1)]
  let ?cs = "chunks 4 (length v) bs"
  have "pack_f (unpack_f c) = Inr c" if c: "c \<in> set ?cs" for c
  proof (rule pack_unpack_f)
    show "length c = 4" by (rule chunks_width [OF v(2) c])
    show "x < 256" if "x \<in> set c" for x using set_chunks_subset [OF c] that assms(2) by blast
    have "unpack_f c \<in> set v" using c v(1) by (metis imageI list.set_map)
    then show "isfinite (unpack_f c)" using v(3) by (auto simp: vec_ok_def list_all_iff is_f32_finite)
  qed
  then have "mapR pack_f (map unpack_f ?cs) = Inr ?cs"
    by (auto simp: mapR_Inr_iff list_all2_map1 intro: list.rel_refl_strong)
  then have "mapR pack_f v = Inr ?cs" using v(1) by simp
  then show ?thesis using concat_chunks [OF v(2)] by (simp add: vec_to_bytes_def)
qed

end
