(* ===== verification/Parameters.thy ===== *)
theory Parameters
  imports Sql_Vector
begin

text \<open>
  \<open>languages/python/src/sqlodin/parameters.py\<close>: the wire form of bound values (\<open>encode\<close>)
  and the translation of qmark SQL to globally numbered parameters (\<open>prepare\<close>). The scanner
  works on the remaining text instead of an index into the whole string: the source's
  \<open>sql[i:]\<close> is the argument, its \<open>sql[i:end]\<close> the segment that is split off.

  The specification side is a lossless tokenisation (\<open>tokenize\<close>), the text it renders to, and
  \<open>slots\<close>, the parameter numbers a server reads off a text.
\<close>

section \<open>Model\<close>

definition encode :: "pval \<Rightarrow> json res" where
  "encode v = (case v of
      VVector xs \<Rightarrow> Inr (JObj [(lit ''kind'', JStr (lit ''vector'')), (lit ''vector'', JList (map JFloat xs))])
    | VNone \<Rightarrow> Inr (JObj [(lit ''kind'', JStr (lit ''null''))])
    | VBool b \<Rightarrow> Inr (JObj [(lit ''kind'', JStr (lit ''integer'')), (lit ''integer'', JInt (if b then 1 else 0))])
    | VInt i \<Rightarrow>
        if \<not> (- (2 ^ 63) \<le> i \<and> i < 2 ^ 63)
        then Inl (ValueError ''Integers must fit SQLite's signed 64-bit range'')
        else Inr (JObj [(lit ''kind'', JStr (lit ''integer'')), (lit ''integer'', JInt i)])
    | VFloat x \<Rightarrow>
        if \<not> isfinite x then Inl (ValueError ''Floating-point parameters must be finite'')
        else Inr (JObj [(lit ''kind'', JStr (lit ''real'')), (lit ''real'', JFloat x)])
    | VStr s \<Rightarrow> (case utf8 s of None \<Rightarrow> Inl UnicodeEncodeError
        | Some b \<Rightarrow>
            if 256 < length b then Inl (ValueError ''Text parameters are limited to 256 UTF-8 bytes'')
            else Inr (JObj [(lit ''kind'', JStr (lit ''text'')), (lit ''text'', JStr s)]))
    | VOther \<Rightarrow> Inl (TypeError ''Parameters support str, int, float, Vector, and None''))"

text \<open>The \<open>parameters\<close> argument: a sequence of values, or one of the types that are refused.\<close>

datatype params = PSeq "pval list" | PText pstr | PBytes pbytes | PDict | PNotIterable

definition vec_size :: "pval \<Rightarrow> nat" where
  "vec_size v = (case v of VVector xs \<Rightarrow> length xs | _ \<Rightarrow> 0)"

definition vec_total :: "pval list \<Rightarrow> nat" where
  "vec_total vs = sum_list (map vec_size vs)"

text \<open>
  The lexical branches: a line comment up to the newline, a block comment, a quoted name or string
  (a doubled closing quote continues it, except for brackets).
\<close>

fun block_end :: "pstr \<Rightarrow> (pstr \<times> pstr) option" where
  "block_end [] = None"
| "block_end [c] = None"
| "block_end (c # d # r) =
    (if c = 42 \<and> d = 47 then Some ([c, d], r)
     else map_option (\<lambda>(seg, rst). (c # seg, rst)) (block_end (d # r)))"

fun quote_end :: "nat \<Rightarrow> pstr \<Rightarrow> (pstr \<times> pstr) option" where
  "quote_end closing [] = None"
| "quote_end closing (c # r) =
    (if c = closing then
       (case r of
          [] \<Rightarrow> Some ([c], [])
        | d # r' \<Rightarrow>
            if closing \<noteq> 93 \<and> d = closing
            then map_option (\<lambda>(seg, rst). (c # d # seg, rst)) (quote_end closing r')
            else Some ([c], r))
     else map_option (\<lambda>(seg, rst). (c # seg, rst)) (quote_end closing r))"

datatype skip = NoSkip | Skip pstr pstr | Unterminated string

definition skip_verbatim :: "pstr \<Rightarrow> skip" where
  "skip_verbatim sql =
    (if starts_with sql (lit ''--'') then
       Skip (takeWhile (\<lambda>c. c \<noteq> 10) sql) (dropWhile (\<lambda>c. c \<noteq> 10) sql)
     else if starts_with sql (lit ''/*'') then
       (case block_end (drop 2 sql) of
          None \<Rightarrow> Unterminated ''Unterminated SQL comment''
        | Some (seg, rst) \<Rightarrow> Skip (take 2 sql @ seg) rst)
     else (case sql of [] \<Rightarrow> NoSkip
        | char # rest \<Rightarrow>
            if char \<in> {39, 34, 96, 91} then
              (case quote_end (if char = 91 then 93 else char) rest of
                 None \<Rightarrow> Unterminated ''Unterminated SQL quote''
               | Some (seg, rst) \<Rightarrow> Skip (char # seg) rst)
            else NoSkip))"

lemma block_end_append: "block_end s = Some p \<Longrightarrow> fst p @ snd p = s \<and> 2 \<le> length (fst p)"
proof (induction s arbitrary: p rule: block_end.induct)
  case (3 c d r)
  show ?case
  proof (cases "c = 42 \<and> d = 47")
    case False
    with 3 obtain q where q: "block_end (d # r) = Some q" "p = (c # fst q, snd q)"
      by (auto simp: case_prod_unfold)
    from "3.IH" [OF False q(1)] q(2) show ?thesis by simp
  qed (use "3.prems" in auto)
qed simp_all

lemma quote_end_append: "quote_end cl s = Some p \<Longrightarrow> fst p @ snd p = s \<and> fst p \<noteq> []"
proof (induction s arbitrary: p rule: length_induct)
  case (1 s)
  then obtain c r where s: "s = c # r" by (cases s) auto
  consider (close) "p = ([c], r)"
    | (double) d r' q where "r = d # r'" "quote_end cl r' = Some q" "p = (c # d # fst q, snd q)"
    | (inner) q where "quote_end cl r = Some q" "p = (c # fst q, snd q)"
    using "1.prems" s by (cases "c = cl"; cases r) (auto simp: case_prod_unfold split: if_splits)
  then show ?case
  proof cases
    case close
    then show ?thesis using s by simp
  next
    case double
    with "1.IH" s have "fst q @ snd q = r'" by simp
    with double s show ?thesis by simp
  next
    case inner
    with "1.IH" s have "fst q @ snd q = r" by simp
    with inner s show ?thesis by simp
  qed
qed

lemma starts_with_append: "starts_with s p \<longleftrightarrow> (\<exists>t. s = p @ t)"
  by (induction s p rule: starts_with.induct) auto

lemma starts_with_two: "starts_with s [a, b] \<longleftrightarrow> (\<exists>t. s = a # b # t)"
  by (simp add: starts_with_append)

lemma lit_tokens [simp]: "lit ''--'' = [45, 45]" "lit ''/*'' = [47, 42]"
  by (simp_all add: lit_def)

lemma skip_append:
  assumes "skip_verbatim s = Skip seg rst"
  shows "s = seg @ rst" and "seg \<noteq> []"
  using assms
  by (auto simp: skip_verbatim_def starts_with_two split: if_splits option.splits list.splits
      dest!: block_end_append quote_end_append)

lemma skip_shorter: "skip_verbatim s = Skip seg rst \<Longrightarrow> length rst < length s"
  using skip_append by fastforce

function prepare_loop :: "unidb \<Rightarrow> nat \<Rightarrow> pstr \<Rightarrow> nat \<Rightarrow> pstr \<Rightarrow> (pstr \<times> nat) res" where
  "prepare_loop U offset out count sql =
    (case sql of [] \<Rightarrow> Inr (out, count)
     | char # rest \<Rightarrow>
        (case skip_verbatim sql of
           Unterminated m \<Rightarrow> Inl (ValueError m)
         | Skip seg rst \<Rightarrow> prepare_loop U offset (out @ seg) count rst
         | NoSkip \<Rightarrow>
             if char = 63 then
               (if rest \<noteq> [] \<and> is_digit U (hd rest)
                then Inl (ValueError ''Use plain ? placeholders, not numbered parameters'')
                else prepare_loop U offset (out @ 63 # dec (offset + (count + 1))) (count + 1) rest)
             else if char \<in> {58, 64, 36}
                then Inl (ValueError ''Use plain ? placeholders, not named parameters'')
             else prepare_loop U offset (out @ [char]) count rest))"
  by pat_completeness auto
termination
  by (relation "measure (\<lambda>(U, offset, out, count, sql). length sql)") (auto dest!: skip_shorter)

declare prepare_loop.simps [simp del]

definition prepare :: "unidb \<Rightarrow> pval \<Rightarrow> params \<Rightarrow> nat \<Rightarrow> (pstr \<times> pval list) res" where
  "prepare U sql parameters offset =
    (case sql of
       VStr s \<Rightarrow>
         if strip U s = [] \<or> 0 \<in> set s
         then Inl (ValueError ''SQL must be a nonempty string without NUL'')
         else (case parameters of
             PText _ \<Rightarrow> Inl (TypeError ''Parameters must be a sequence of values'')
           | PBytes _ \<Rightarrow> Inl (TypeError ''Parameters must be a sequence of values'')
           | PDict \<Rightarrow> Inl (TypeError ''Parameters must be a sequence of values'')
           | PNotIterable \<Rightarrow> Inl (TypeError ''object is not iterable'')
           | PSeq vs \<Rightarrow>
               if 16 < offset + length vs
               then Inl (ValueError ''A request supports at most 16 parameters'')
               else if 384 < vec_total vs
               then Inl (ValueError ''A request supports at most 384 vector components in total'')
               else bindR (mapR encode vs) (\<lambda>_.
                 bindR (prepare_loop U offset [] 0 s) (\<lambda>(text, count).
                   if count \<noteq> length vs
                   then Inl (ValueError ''SQL has {count} placeholders but received {len(values)} parameters'')
                   else (case utf8 text of None \<Rightarrow> Inl UnicodeEncodeError
                     | Some b \<Rightarrow>
                         if 4096 < length b
                         then Inl (ValueError ''A SQL request is limited to 4096 UTF-8 bytes'')
                         else Inr (text, vs)))))
     | _ \<Rightarrow> Inl (ValueError ''SQL must be a nonempty string without NUL''))"

section \<open>Specification\<close>

datatype token = Verbatim pstr | Mark | Plain nat

function tokenize :: "unidb \<Rightarrow> pstr \<Rightarrow> token list res" where
  "tokenize U sql =
    (case sql of [] \<Rightarrow> Inr []
     | c # r \<Rightarrow>
        (case skip_verbatim sql of
           Unterminated m \<Rightarrow> Inl (ValueError m)
         | Skip seg rst \<Rightarrow> bindR (tokenize U rst) (\<lambda>ts. Inr (Verbatim seg # ts))
         | NoSkip \<Rightarrow>
             if c = 63 then
               (if r \<noteq> [] \<and> is_digit U (hd r)
                then Inl (ValueError ''Use plain ? placeholders, not numbered parameters'')
                else bindR (tokenize U r) (\<lambda>ts. Inr (Mark # ts)))
             else if c \<in> {58, 64, 36}
                then Inl (ValueError ''Use plain ? placeholders, not named parameters'')
             else bindR (tokenize U r) (\<lambda>ts. Inr (Plain c # ts))))"
  by pat_completeness auto
termination
  by (relation "measure (\<lambda>(U, sql). length sql)") (auto dest!: skip_shorter)

declare tokenize.simps [simp del]

fun token_src :: "token \<Rightarrow> pstr" where
  "token_src (Verbatim s) = s"
| "token_src Mark = [63]"
| "token_src (Plain c) = [c]"

fun render :: "nat \<Rightarrow> token list \<Rightarrow> pstr" where
  "render off [] = []"
| "render off (Verbatim s # ts) = s @ render off ts"
| "render off (Mark # ts) = 63 # dec (Suc off) @ render (Suc off) ts"
| "render off (Plain c # ts) = c # render off ts"

fun marks :: "token list \<Rightarrow> nat" where
  "marks [] = 0"
| "marks (Mark # ts) = Suc (marks ts)"
| "marks (_ # ts) = marks ts"

text \<open>
  The numbers of the parameters that a reader of the SQL text finds outside comments and quotes;
  \<open>None\<close> for a text with an unterminated comment or quote or with an unnumbered or named
  parameter.
\<close>

abbreviation ascii_digit :: "nat \<Rightarrow> bool" where
  "ascii_digit c \<equiv> 48 \<le> c \<and> c \<le> 57"

function slots :: "pstr \<Rightarrow> nat list option" where
  "slots sql =
    (case sql of [] \<Rightarrow> Some []
     | c # r \<Rightarrow>
        (case skip_verbatim sql of
           Unterminated m \<Rightarrow> None
         | Skip seg rst \<Rightarrow> slots rst
         | NoSkip \<Rightarrow>
             if c = 63 then
               (if takeWhile ascii_digit r = [] then None
                else map_option (Cons (undec (takeWhile ascii_digit r))) (slots (dropWhile ascii_digit r)))
             else if c \<in> {58, 64, 36} then None
             else slots r))"
  by pat_completeness auto
termination
  by (relation "measure length")
    (auto dest!: skip_shorter simp: le_imp_less_Suc length_dropWhile_le)

declare slots.simps [simp del]

section \<open>The loop refines the tokenisation\<close>

lemma prepare_loop_lex:
  "prepare_loop U off out n s =
    bindR (tokenize U s) (\<lambda>ts. Inr (out @ render (off + n) ts, n + marks ts))"
proof (induction U off out n s rule: prepare_loop.induct)
  case (1 U off out n s)
  show ?case
  proof (cases s)
    case Nil
    then show ?thesis by (simp add: prepare_loop.simps tokenize.simps)
  next
    case (Cons c r)
    show ?thesis
    proof (cases "skip_verbatim s")
      case (Skip seg rst)
      then show ?thesis using 1(3) [OF Cons] Cons
        by (cases "tokenize U rst") (simp_all add: prepare_loop.simps [of _ _ _ _ "_ # _"] tokenize.simps [of _ "_ # _"])
    next
      case (Unterminated m)
      then show ?thesis using Cons
        by (simp add: prepare_loop.simps [of _ _ _ _ "_ # _"] tokenize.simps [of _ "_ # _"])
    next
      case NoSkip
      note IH = 1(1,2) [OF Cons NoSkip]
      show ?thesis
        using IH Cons NoSkip
        by (cases "tokenize U r") (auto simp: prepare_loop.simps [of _ _ _ _ "_ # _"] tokenize.simps [of _ "_ # _"])
    qed
  qed
qed

lemma lex_cases:
  assumes "tokenize U s = Inr ts"
  obtains (nil) "s = []" and "ts = []"
  | (verb) seg rst ts' where "s \<noteq> []" and "skip_verbatim s = Skip seg rst" and "tokenize U rst = Inr ts'" and "ts = Verbatim seg # ts'"
  | (mark) r ts' where "s = 63 # r" and "skip_verbatim s = NoSkip" and "r = [] \<or> \<not> is_digit U (hd r)"
      and "tokenize U r = Inr ts'" and "ts = Mark # ts'"
  | (plain) c r ts' where "s = c # r" and "skip_verbatim s = NoSkip" and "c \<notin> {63, 58, 64, 36}"
      and "tokenize U r = Inr ts'" and "ts = Plain c # ts'"
  using assms
  by (subst (asm) tokenize.simps)
    (auto simp: bindR_Inr_iff split: list.splits skip.splits if_splits)

lemma lex_induct [consumes 1, case_names Nil Verb Mark Plain]:
  assumes "tokenize U s = Inr ts"
    and "P [] []"
    and "\<And>s seg rst ts. skip_verbatim s = Skip seg rst \<Longrightarrow> tokenize U rst = Inr ts \<Longrightarrow> P rst ts \<Longrightarrow> P s (Verbatim seg # ts)"
    and "\<And>r ts. skip_verbatim (63 # r) = NoSkip \<Longrightarrow> r = [] \<or> \<not> is_digit U (hd r) \<Longrightarrow>
           tokenize U r = Inr ts \<Longrightarrow> P r ts \<Longrightarrow> P (63 # r) (Mark # ts)"
    and "\<And>c r ts. skip_verbatim (c # r) = NoSkip \<Longrightarrow> c \<notin> {63, 58, 64, 36} \<Longrightarrow>
           tokenize U r = Inr ts \<Longrightarrow> P r ts \<Longrightarrow> P (c # r) (Plain c # ts)"
  shows "P s ts"
  using assms(1)
proof (induction s arbitrary: ts rule: length_induct)
  case (1 s)
  from "1.prems" show ?case
  proof (cases rule: lex_cases)
    case nil
    then show ?thesis using assms(2) by simp
  next
    case (verb seg rst ts')
    then have "P rst ts'" using "1.IH" skip_shorter by blast
    then show ?thesis using assms(3) verb by blast
  next
    case (mark r ts')
    then have "P r ts'" using "1.IH" by simp
    then show ?thesis using assms(4) mark by simp
  next
    case (plain c r ts')
    then have "P r ts'" using "1.IH" by simp
    then show ?thesis using assms(5) plain by simp
  qed
qed

lemma lex_src: "tokenize U s = Inr ts \<Longrightarrow> concat (map token_src ts) = s"
  by (induction rule: lex_induct) (auto dest: skip_append)

section \<open>Segments do not depend on what follows\<close>

text \<open>
  \<open>glue k r\<close>: the text \<open>k\<close> may stand where \<open>r\<close> stood without changing how the text
  before it is cut: it starts with the same character, or \<open>r\<close> is the end of the text and
  \<open>k\<close> starts a new line.
\<close>

definition glue :: "pstr \<Rightarrow> pstr \<Rightarrow> bool" where
  "glue k r \<longleftrightarrow> (if r = [] then k = [] \<or> hd k = 10 else k \<noteq> [] \<and> hd k = hd r)"

lemma block_end_frame: "block_end s = Some p \<Longrightarrow> block_end (fst p @ k) = Some (fst p, k)"
proof (induction s arbitrary: p rule: block_end.induct)
  case (3 c d r)
  show ?case
  proof (cases "c = 42 \<and> d = 47")
    case False
    with 3 obtain q where q: "block_end (d # r) = Some q" "p = (c # fst q, snd q)"
      by (auto simp: case_prod_unfold)
    have IH: "block_end (fst q @ k) = Some (fst q, k)" by (rule "3.IH" [OF False q(1)])
    obtain x where "fst q = d # x"
      using block_end_append [OF q(1)] by (cases "fst q") auto
    with IH False q(2) show ?thesis by auto
  qed (use "3.prems" in auto)
qed simp_all

lemma quote_end_frame:
  assumes "quote_end cl s = Some p" and "glue k (snd p)" and "cl \<noteq> 10"
  shows "quote_end cl (fst p @ k) = Some (fst p, k)"
  using assms(1,2)
proof (induction s arbitrary: p rule: length_induct)
  case (1 s)
  then obtain c r where s: "s = c # r" by (cases s) auto
  consider (close) "p = ([c], r)" "c = cl" "r = [] \<or> cl = 93 \<or> hd r \<noteq> cl"
    | (double) d r' q where "r = d # r'" "c = cl" "d = cl" "cl \<noteq> 93" "quote_end cl r' = Some q" "p = (c # d # fst q, snd q)"
    | (inner) q where "c \<noteq> cl" "quote_end cl r = Some q" "p = (c # fst q, snd q)"
    using "1.prems"(1) s by (cases "c = cl"; cases r) (auto simp: case_prod_unfold split: if_splits)
  then show ?case
  proof cases
    case close
    then have "k = [] \<or> cl = 93 \<or> hd k \<noteq> cl"
      using "1.prems"(2) assms(3) by (auto simp: glue_def split: if_splits)
    then show ?thesis using close by (cases k) auto
  next
    case double
    then have "quote_end cl (fst q @ k) = Some (fst q, k)"
      using "1.IH" [rule_format, of r' q] "1.prems"(2) s by simp
    with double show ?thesis by simp
  next
    case inner
    then have "quote_end cl (fst q @ k) = Some (fst q, k)"
      using "1.IH" [rule_format, of r q] "1.prems"(2) s by simp
    with inner show ?thesis by simp
  qed
qed

lemma takeWhile_glue:
  assumes "glue k (dropWhile (\<lambda>c. c \<noteq> 10) s)"
  shows "takeWhile (\<lambda>c. c \<noteq> 10) (takeWhile (\<lambda>c. c \<noteq> 10) s @ k) = takeWhile (\<lambda>c. c \<noteq> 10) s"
    and "dropWhile (\<lambda>c. c \<noteq> 10) (takeWhile (\<lambda>c. c \<noteq> 10) s @ k) = k"
proof -
  have k: "takeWhile (\<lambda>c. c \<noteq> 10) k = []" "dropWhile (\<lambda>c. c \<noteq> 10) k = k"
    using assms hd_dropWhile [of "\<lambda>c. c \<noteq> 10" s]
    by (cases k; auto simp: glue_def split: if_splits)+
  have all: "\<forall>x \<in> set (takeWhile (\<lambda>c. c \<noteq> 10) s). x \<noteq> 10" by (auto dest: set_takeWhileD)
  show "takeWhile (\<lambda>c. c \<noteq> 10) (takeWhile (\<lambda>c. c \<noteq> 10) s @ k) = takeWhile (\<lambda>c. c \<noteq> 10) s"
    using all k(1) by (simp add: takeWhile_append2)
  show "dropWhile (\<lambda>c. c \<noteq> 10) (takeWhile (\<lambda>c. c \<noteq> 10) s @ k) = k"
    using all k(2) by (simp add: dropWhile_append2)
qed

lemma skip_frame:
  assumes "skip_verbatim s = Skip seg rst" and "glue k rst"
  shows "skip_verbatim (seg @ k) = Skip seg k"
proof -
  obtain c r where s: "s = c # r" using assms(1) by (cases s) (auto simp: skip_verbatim_def)
  consider (line) t where "s = 45 # 45 # t" | (block) t where "s = 47 # 42 # t"
    | (quote) "c \<in> {39, 34, 96, 91}"
    using assms(1) s by (auto simp: skip_verbatim_def starts_with_two split: if_splits)
  then show ?thesis
  proof cases
    case line
    then have seg: "seg = takeWhile (\<lambda>c. c \<noteq> 10) s" "rst = dropWhile (\<lambda>c. c \<noteq> 10) s"
      using assms(1) by (auto simp: skip_verbatim_def starts_with_two)
    note tw = takeWhile_glue [of k s]
    have "starts_with (seg @ k) [45, 45]" using seg line by (simp add: starts_with_two)
    then show ?thesis using tw assms(2) seg by (simp add: skip_verbatim_def)
  next
    case block
    then obtain q where q: "block_end t = Some q" "seg = [47, 42] @ fst q" "rst = snd q"
      using assms(1) by (auto simp: skip_verbatim_def starts_with_two split: option.splits)
    then show ?thesis using block_end_frame [OF q(1), of k]
      by (simp add: skip_verbatim_def starts_with_two)
  next
    case quote
    then obtain q where q: "quote_end (if c = 91 then 93 else c) r = Some q" "seg = c # fst q" "rst = snd q"
      using assms(1) s by (auto simp: skip_verbatim_def starts_with_two split: option.splits)
    have "quote_end (if c = 91 then 93 else c) (fst q @ k) = Some (fst q, k)"
      using quote by (intro quote_end_frame [OF q(1)]) (use assms(2) q(3) in auto)
    then show ?thesis using q quote by (auto simp: skip_verbatim_def starts_with_two)
  qed
qed

lemma noskip_frame:
  assumes "skip_verbatim (c # r) = NoSkip" and "glue k r"
  shows "skip_verbatim (c # k) = NoSkip"
proof -
  have q: "c \<notin> {39, 34, 96, 91}" and "\<not> (c = 45 \<and> r \<noteq> [] \<and> hd r = 45)" and "\<not> (c = 47 \<and> r \<noteq> [] \<and> hd r = 42)"
    using assms(1) by (cases r; auto simp: skip_verbatim_def split: if_splits option.splits)+
  then have "\<not> (c = 45 \<and> k \<noteq> [] \<and> hd k = 45)" and "\<not> (c = 47 \<and> k \<noteq> [] \<and> hd k = 42)"
    using assms(2) by (auto simp: glue_def split: if_splits)
  with q show ?thesis by (cases k) (auto simp: skip_verbatim_def)
qed

lemma glue_render:
  assumes "tokenize U s = Inr ts" and "k = [] \<or> hd k = 10"
  shows "glue (render off ts @ k) s"
  using assms(1)
proof (cases rule: lex_cases)
  case nil
  with assms(2) show ?thesis by (simp add: glue_def)
next
  case (verb seg rst ts')
  then show ?thesis using skip_append [OF verb(2)] by (auto simp: glue_def hd_append)
qed (auto simp: glue_def)

section \<open>Parameter numbers of the rendered text\<close>

lemma slots_skip: "skip_verbatim s = Skip seg rst \<Longrightarrow> slots s = slots rst"
  by (subst slots.simps) (auto dest: skip_append split: list.split)

lemma slots_plain: "skip_verbatim (c # r) = NoSkip \<Longrightarrow> c \<notin> {63, 58, 64, 36} \<Longrightarrow> slots (c # r) = slots r"
  by (subst slots.simps) auto

lemma slots_mark:
  assumes "r = [] \<or> \<not> ascii_digit (hd r)"
  shows "slots (63 # dec n @ r) = map_option (Cons n) (slots r)"
proof -
  have d: "\<forall>x \<in> set (dec n). ascii_digit x" by (auto dest: dec_digits)
  have k: "takeWhile ascii_digit r = []" "dropWhile ascii_digit r = r"
    using assms by (cases r; auto)+
  have tw: "takeWhile ascii_digit (dec n @ r) = dec n" "dropWhile ascii_digit (dec n @ r) = r"
    using d k by (simp_all add: takeWhile_append2 dropWhile_append2)
  have "skip_verbatim (63 # dec n @ r) = NoSkip"
    by (simp add: skip_verbatim_def)
  then show ?thesis by (subst slots.simps) (simp add: tw)
qed

lemma slots_render:
  assumes "tokenize U s = Inr ts" and "k = [] \<or> hd k = 10"
  shows "slots (render off ts @ k) = map_option (append [Suc off ..< Suc (off + marks ts)]) (slots k)"
  using assms(1)
proof (induction arbitrary: off rule: lex_induct)
  case Nil
  then show ?case by (simp add: map_option.id [unfolded id_def])
next
  case (Verb s seg rst ts)
  have "skip_verbatim (seg @ (render off ts @ k)) = Skip seg (render off ts @ k)"
    using skip_frame [OF Verb.hyps(1) glue_render [OF Verb.hyps(2) assms(2)]] .
  then show ?case using Verb.IH by (simp add: slots_skip)
next
  case (Mark r ts)
  let ?t = "render (Suc off) ts @ k"
  have "?t = [] \<or> \<not> ascii_digit (hd ?t)"
  proof -
    have "glue ?t r" by (rule glue_render [OF Mark.hyps(3) assms(2)])
    moreover have "is_digit U c" if "ascii_digit c" for c using that by (simp add: is_digit_def)
    ultimately show ?thesis using Mark.hyps(2)
      by (cases "r = []") (auto simp: glue_def)
  qed
  then have "slots (63 # dec (Suc off) @ ?t) = map_option (Cons (Suc off)) (slots ?t)"
    by (rule slots_mark)
  also have "slots ?t = map_option (append [Suc (Suc off) ..< Suc (Suc off + marks ts)]) (slots k)"
    by (rule Mark.IH)
  finally show ?case
    by (cases "slots k") (simp_all add: upt_conv_Cons)
next
  case (Plain c r ts)
  have "skip_verbatim (c # (render off ts @ k)) = NoSkip"
    using noskip_frame [OF Plain.hyps(1) glue_render [OF Plain.hyps(3) assms(2)]] .
  then show ?case using Plain.IH Plain.hyps(2) by (simp add: slots_plain)
qed

section \<open>Prepared statements\<close>

definition encodable :: "pval \<Rightarrow> bool" where
  "encodable v \<longleftrightarrow> (\<exists>j. encode v = Inr j)"

definition fits :: "nat \<Rightarrow> pstr \<Rightarrow> bool" where
  "fits n t \<longleftrightarrow> (case utf8 t of None \<Rightarrow> False | Some b \<Rightarrow> length b \<le> n)"

lemma prepare_Inr_iff:
  "prepare U q ps off = Inr (text, values) \<longleftrightarrow>
    (\<exists>s ts. q = VStr s \<and> ps = PSeq values \<and> strip U s \<noteq> [] \<and> 0 \<notin> set s \<and>
      off + length values \<le> 16 \<and> vec_total values \<le> 384 \<and> (\<forall>v \<in> set values. encodable v) \<and>
      tokenize U s = Inr ts \<and> marks ts = length values \<and> text = render off ts \<and> fits 4096 text)"
  by (cases q; cases ps)
    (auto simp: prepare_def prepare_loop_lex bindR_Inr_iff mapR_Inr_all encodable_def fits_def not_less
      split: if_splits option.splits)

lemma prepare_cases:
  assumes "prepare U q ps off = Inr (text, values)"
  obtains s ts where "q = VStr s" and "ps = PSeq values" and "strip U s \<noteq> []" and "0 \<notin> set s"
    and "off + length values \<le> 16" and "vec_total values \<le> 384" and "\<forall>v \<in> set values. encodable v"
    and "tokenize U s = Inr ts" and "marks ts = length values" and "text = render off ts" and "fits 4096 text"
  using assms unfolding prepare_Inr_iff by blast

lemma render_nonempty: "tokenize U s = Inr ts \<Longrightarrow> s \<noteq> [] \<Longrightarrow> render off ts \<noteq> []"
  by (erule lex_cases) (auto dest: skip_append)

lemma set_render: "tokenize U s = Inr ts \<Longrightarrow> set (render off ts) \<subseteq> set s \<union> {48..57}"
  by (induction arbitrary: off rule: lex_induct) (fastforce dest: skip_append dec_digits)+

lemma prepare_text:
  assumes "prepare U q ps off = Inr (text, values)"
  shows "text \<noteq> []" and "0 \<notin> set text" and "fits 4096 text"
proof -
  obtain s ts where p: "strip U s \<noteq> []" "0 \<notin> set s" "tokenize U s = Inr ts" "text = render off ts" "fits 4096 text"
    using prepare_cases [OF assms] by metis
  then have "s \<noteq> []" by (auto simp: strip_def)
  then show "text \<noteq> []" using render_nonempty [OF p(3)] p(4) by simp
  show "0 \<notin> set text" using set_render [OF p(3)] p(2,4) by fastforce
  show "fits 4096 text" by (rule p(5))
qed

lemma prepare_slots:
  assumes "prepare U q ps off = Inr (text, values)" and "k = [] \<or> hd k = 10"
  shows "slots (text @ k) = map_option (append [Suc off ..< Suc (off + length values)]) (slots k)"
  using assms(1) by (rule prepare_cases) (simp add: slots_render [OF _ assms(2)])

end
