(* ===== verification/Results.thy ===== *)
theory Results
  imports Py_Prelude
begin

text \<open>
  \<open>languages/python/src/sqlodin/results.py\<close>: rows with named and positional access, result sets
  and write results. Values are of any type. Slicing (\<open>rows[a:b]\<close>) is the identity on the
  underlying tuple and is not modelled.
\<close>

section \<open>Model\<close>

text \<open>Python sequence indexing: a negative index counts from the end.\<close>

definition py_index :: "'a list \<Rightarrow> int \<Rightarrow> 'a res" where
  [py_defs]: "py_index xs i =
    (if i < - int (length xs) \<or> int (length xs) \<le> i then Inl IndexError
     else if i < 0 then Inr (xs ! (length xs - nat (- i)))
     else Inr (xs ! nat i))"

text \<open>\<open>tuple.index\<close>: the first position.\<close>

fun index_of :: "'k list \<Rightarrow> 'k \<Rightarrow> nat option" where
  "index_of [] k = None"
| "index_of (x # xs) k = (if x = k then Some 0 else map_option Suc (index_of xs k))"

text \<open>The keys of \<open>dict.fromkeys\<close>: first occurrences in order.\<close>

fun fromkeys :: "'k list \<Rightarrow> 'k list" where
  "fromkeys [] = []"
| "fromkeys (x # xs) = x # filter (\<lambda>y. y \<noteq> x) (fromkeys xs)"

record 'v Row =
  row_columns :: "pstr list"
  row_values :: "'v list"

datatype row_key = KInt int | KStr pstr

definition row_getitem :: "'v Row \<Rightarrow> row_key \<Rightarrow> 'v res" where
  "row_getitem r key = (case key of
      KInt i \<Rightarrow> py_index (row_values r) i
    | KStr k \<Rightarrow> (case index_of (row_columns r) k of
        None \<Rightarrow> Inl KeyError
      | Some i \<Rightarrow> py_index (row_values r) (int i)))"

definition row_iter :: "'v Row \<Rightarrow> pstr list" where
  "row_iter r = fromkeys (row_columns r)"

definition row_len :: "'v Row \<Rightarrow> nat" where
  "row_len r = card (set (row_columns r))"

definition as_tuple :: "'v Row \<Rightarrow> 'v list" where
  [simp]: "as_tuple r = row_values r"

record 'v Rows =
  rows_columns :: "pstr list"
  rows_rows :: "'v Row list"
  rows_applied :: int
  rows_node :: int

definition rows_getitem :: "'v Rows \<Rightarrow> int \<Rightarrow> 'v Row res" where
  "rows_getitem rs i = py_index (rows_rows rs) i"

definition rows_len :: "'v Rows \<Rightarrow> nat" where
  [simp]: "rows_len rs = length (rows_rows rs)"

definition rows_first :: "'v Rows \<Rightarrow> 'v Row option" where
  "rows_first rs = (case rows_rows rs of [] \<Rightarrow> None | r # _ \<Rightarrow> Some r)"

definition rows_one :: "'v Rows \<Rightarrow> 'v Row res" where
  "rows_one rs =
    (if rows_len rs \<noteq> 1 then Inl (ValueError ''Expected exactly one row, received {len(self)}'')
     else py_index (rows_rows rs) 0)"

definition rows_scalar :: "'v Rows \<Rightarrow> 'v res" where
  "rows_scalar rs = bindR (rows_one rs) (\<lambda>row.
    if length (rows_columns rs) \<noteq> 1
    then Inl (ValueError ''Expected one column, received {len(self.columns)}'')
    else row_getitem row (KInt 0))"

record WriteResult =
  wr_changes :: int
  wr_applied :: int
  wr_node :: int
  wr_sequence :: int

text \<open>What the client guarantees of the rows it hands out: every row is as wide as the header.\<close>

definition rows_ok :: "'v Rows \<Rightarrow> bool" where
  "rows_ok rs \<longleftrightarrow> (\<forall>r \<in> set (rows_rows rs).
     row_columns r = rows_columns rs \<and> length (row_values r) = length (rows_columns rs))"

section \<open>Lemmas\<close>

lemma py_index_nat [simp]: "i < length xs \<Longrightarrow> py_index xs (int i) = Inr (xs ! i)"
  by (simp add: py_index_def)

lemma index_of_Some:
  "index_of xs k = Some i \<Longrightarrow> i < length xs \<and> xs ! i = k \<and> (\<forall>j < i. xs ! j \<noteq> k)"
proof (induction xs arbitrary: i)
  case (Cons x xs)
  show ?case
  proof (cases "x = k")
    case False
    with Cons.prems obtain j where j: "index_of xs k = Some j" "i = Suc j" by auto
    from Cons.IH [OF j(1)] show ?thesis using False j(2)
      by (auto simp: less_Suc_eq_0_disj)
  qed (use Cons.prems in simp)
qed simp

lemma index_of_None: "index_of xs k = None \<longleftrightarrow> k \<notin> set xs"
  by (induction xs) auto

lemma set_fromkeys [simp]: "set (fromkeys xs) = set xs"
  by (induction xs) auto

lemma distinct_fromkeys [simp]: "distinct (fromkeys xs)"
  by (induction xs) auto

lemma length_fromkeys: "length (fromkeys xs) = card (set xs)"
  using distinct_card [OF distinct_fromkeys, of xs] by simp

lemma row_getitem_first:
  assumes "k \<in> set (row_columns r)" and "length (row_values r) = length (row_columns r)"
  obtains i where "i < length (row_columns r)" and "row_columns r ! i = k"
    and "\<And>j. j < i \<Longrightarrow> row_columns r ! j \<noteq> k" and "row_getitem r (KStr k) = Inr (row_values r ! i)"
proof -
  obtain i where i: "index_of (row_columns r) k = Some i"
    using assms(1) by (metis index_of_None not_Some_eq)
  note f = index_of_Some [OF i]
  have "row_getitem r (KStr k) = Inr (row_values r ! i)"
    using f assms(2) by (simp add: row_getitem_def i)
  then show thesis using that f by blast
qed

end
