(* ===== verification/Transport.thy ===== *)
theory Transport
  imports Float32
begin

text \<open>
  \<open>languages/python/src/sqlodin/transport.py\<close>: the framed TLS transport with one absolute
  deadline per operation. Sockets, the TLS library, the JSON codec and the clock are the parameter
  \<open>netops\<close>: operations on a world \<open>'w\<close> that the model does not look into. Times are exact
  rationals. The state of a method is the \<open>Transport\<close> object with the world.
\<close>

section \<open>The outside world\<close>

type_synonym sock = nat

text \<open>
  \<open>sock_wrap\<close> is \<open>context.wrap_socket(raw, server_hostname=name)\<close>, \<open>sock_sans\<close> the
  subject alternative names of the peer certificate, \<open>token_hex\<close> is
  \<open>secrets.token_hex(16)\<close>, \<open>b64decode\<close> is \<open>base64.b64decode(text, validate=True)\<close>.
  Functions of the standard library that neither read nor change the world have no \<open>'w\<close>.
\<close>

record 'w netops =
  monotonic :: "'w \<Rightarrow> rat \<times> 'w"
  sleep :: "rat \<Rightarrow> 'w \<Rightarrow> 'w"
  token_hex :: "'w \<Rightarrow> pstr \<times> 'w"
  ctx_load :: "pstr \<Rightarrow> pstr \<Rightarrow> pstr \<Rightarrow> 'w \<Rightarrow> unit res \<times> 'w"
  sock_connect :: "pstr \<times> int \<Rightarrow> rat \<Rightarrow> 'w \<Rightarrow> sock res \<times> 'w"
  sock_wrap :: "sock \<Rightarrow> pstr \<Rightarrow> 'w \<Rightarrow> sock res \<times> 'w"
  sock_sans :: "sock \<Rightarrow> 'w \<Rightarrow> (pstr \<times> pstr) list \<times> 'w"
  sock_send :: "sock \<Rightarrow> pbytes \<Rightarrow> 'w \<Rightarrow> unit res \<times> 'w"
  sock_recv :: "sock \<Rightarrow> nat \<Rightarrow> 'w \<Rightarrow> pbytes res \<times> 'w"
  sock_timeout :: "sock \<Rightarrow> rat \<Rightarrow> 'w \<Rightarrow> 'w"
  sock_nodelay :: "sock \<Rightarrow> 'w \<Rightarrow> unit res \<times> 'w"
  sock_close :: "sock \<Rightarrow> 'w \<Rightarrow> 'w"
  json_dumps :: "json \<Rightarrow> pbytes res"
  json_loads :: "pbytes \<Rightarrow> json res"
  b64decode :: "json \<Rightarrow> pbytes res"
  float_parse :: "pstr \<Rightarrow> pyfloat option"
  unicode :: unidb

section \<open>Model\<close>

record Endpoint =
  ep_address :: pstr
  ep_server_name :: pstr

text \<open>\<open>self.address.rsplit(':', 1)\<close> must give two parts; the port is an integer.\<close>

definition socket_address :: "unidb \<Rightarrow> Endpoint \<Rightarrow> (pstr \<times> int) res" where
  "socket_address U ep =
    (let r = rev (ep_address ep); port = rev (takeWhile (\<lambda>c. c \<noteq> 58) r); host = dropWhile (\<lambda>c. c \<noteq> 58) r
     in if host = [] then Inl (ValueError ''not enough values to unpack (expected 2, got 1)'')
        else (case parse_int U port of
          None \<Rightarrow> Inl (ValueError ''invalid literal for int() with base 10'')
        | Some p \<Rightarrow> Inr (rev (List.tl host), p)))"

record TLS =
  tls_ca :: pstr
  tls_cert :: pstr
  tls_key :: pstr

datatype tls_version = TLSv1_2 | TLSv1_3

text \<open>
  The settings of an \<open>ssl.SSLContext\<close> the client chooses or inherits from
  \<open>ssl.create_default_context\<close> (peer certificates and host names are checked).
\<close>

record SSLContext =
  ctx_cafile :: pstr
  ctx_minimum_version :: tls_version
  ctx_maximum_version :: tls_version
  ctx_cert_required :: bool
  ctx_check_hostname :: bool
  ctx_common_name :: bool
  ctx_chain :: "pstr \<times> pstr"

definition tls_context :: "'w netops \<Rightarrow> TLS \<Rightarrow> 'w \<Rightarrow> SSLContext res \<times> 'w" where
  "tls_context N tls w =
    (case ctx_load N (tls_ca tls) (tls_cert tls) (tls_key tls) w of
       (Inl e, w') \<Rightarrow> (Inl e, w')
     | (Inr _, w') \<Rightarrow> (Inr \<lparr>ctx_cafile = tls_ca tls, ctx_minimum_version = TLSv1_3, ctx_maximum_version = TLSv1_3,
         ctx_cert_required = True, ctx_check_hostname = True, ctx_common_name = False,
         ctx_chain = (tls_cert tls, tls_key tls)\<rparr>, w'))"

record Transport =
  t_context :: SSLContext
  t_socket :: "sock option"
  t_endpoint :: "Endpoint option"

type_synonym 'w tstate = "Transport \<times> 'w"

definition transport_new :: "SSLContext \<Rightarrow> Transport" where
  "transport_new ctx = \<lparr>t_context = ctx, t_socket = None, t_endpoint = None\<rparr>"

text \<open>World operations as computations on any state that pairs an object with the world.\<close>

definition worldM :: "('w \<Rightarrow> 'a res \<times> 'w) \<Rightarrow> ('t \<times> 'w, 'a) comp" where
  "worldM f = (\<lambda>(t, w). case f w of (r, w') \<Rightarrow> Some (r, (t, w')))"

definition clockM :: "'w netops \<Rightarrow> ('t \<times> 'w, rat) comp" where
  "clockM N = (\<lambda>(t, w). case monotonic N w of (now, w') \<Rightarrow> Some (Inr now, (t, w')))"

definition effectM :: "('w \<Rightarrow> 'w) \<Rightarrow> ('t \<times> 'w, unit) comp" where
  "effectM f = (\<lambda>(t, w). Some (Inr (), (t, f w)))"

definition remaining :: "'w netops \<Rightarrow> rat \<Rightarrow> ('t \<times> 'w, rat) comp" where
  "remaining N deadline = bindM (clockM N) (\<lambda>now.
    if deadline - now \<le> 0 then raiseM (TimeoutError ''SQLodin operation deadline expired'')
    else retM (deadline - now))"

definition transport_close :: "'w netops \<Rightarrow> ('w tstate, unit) comp" where
  "transport_close N = (\<lambda>(t, w).
    Some (Inr (), (t\<lparr>t_socket := None, t_endpoint := None\<rparr>,
       (case t_socket t of None \<Rightarrow> w | Some s \<Rightarrow> sock_close N s w))))"

text \<open>\<open>self.socket\<close> where the code calls a method on it: \<open>None\<close> has no such method.\<close>

definition socketM :: "('w tstate, sock) comp" where
  "socketM = (\<lambda>(t, w). case t_socket t of
      None \<Rightarrow> Some (Inl AttributeError, (t, w))
    | Some s \<Rightarrow> Some (Inr s, (t, w)))"

definition receive_chunk :: "'w netops \<Rightarrow> nat \<Rightarrow> rat \<Rightarrow> ('w tstate, pbytes) comp" where
  "receive_chunk N n deadline =
    bindM (remaining N deadline) (\<lambda>seconds.
    bindM socketM (\<lambda>k.
    bindM (effectM (sock_timeout N k seconds)) (\<lambda>_.
    worldM (sock_recv N k n))))"

function receive_loop :: "'w netops \<Rightarrow> nat \<Rightarrow> rat \<Rightarrow> pbytes \<Rightarrow> 'w tstate \<Rightarrow> (pbytes res \<times> 'w tstate) option" where
  "receive_loop N sz deadline data s =
    (if length data < sz then
       (case receive_chunk N (sz - length data) deadline s of
          None \<Rightarrow> None
        | Some (Inl e, s') \<Rightarrow> Some (Inl e, s')
        | Some (Inr chunk, s') \<Rightarrow>
            if chunk = [] then Some (Inl (ConnectionError ''Server closed the connection''), s')
            else receive_loop N sz deadline (data @ chunk) s')
     else Some (Inr data, s))"
  by pat_completeness auto
termination
  by (relation "measure (\<lambda>(N, sz, deadline, data, s). sz - length data)")
    (auto simp: diff_less_mono2)

declare receive_loop.simps [simp del]

definition receive :: "'w netops \<Rightarrow> nat \<Rightarrow> rat \<Rightarrow> ('w tstate, pbytes) comp" where
  "receive N sz deadline = receive_loop N sz deadline []"

text \<open>Opening and checking a connection: the statements of the inner \<open>try\<close> and its handler.\<close>

definition secure_socket :: "'w netops \<Rightarrow> Endpoint \<Rightarrow> rat \<Rightarrow> sock \<Rightarrow> ('w tstate, unit) comp" where
  "secure_socket N endpoint deadline raw =
    tryM (bindM (remaining N deadline) (\<lambda>seconds.
          bindM (effectM (sock_timeout N raw seconds)) (\<lambda>_.
          bindM (worldM (sock_nodelay N raw)) (\<lambda>_.
          bindM (worldM (sock_wrap N raw (ep_server_name endpoint))) (\<lambda>k.
          bindM (modM (\<lambda>(t, w). (t\<lparr>t_socket := Some k\<rparr>, w))) (\<lambda>_.
          bindM (worldM (\<lambda>w. case sock_sans N k w of (x, w') \<Rightarrow> (Inr x, w'))) (\<lambda>sans.
          bindM (whenM ((lit ''DNS'', ep_server_name endpoint) \<notin> set sans)
                  (CertificateError ''Server certificate requires an exact DNS SAN'')) (\<lambda>_.
          modM (\<lambda>(t, w). (t\<lparr>t_endpoint := Some endpoint\<rparr>, w))))))))))
      (\<lambda>e. bindM (effectM (sock_close N raw)) (\<lambda>_. bindM (transport_close N) (\<lambda>_. raiseM e)))"

definition open_connection :: "'w netops \<Rightarrow> Endpoint \<Rightarrow> rat \<Rightarrow> ('w tstate, unit) comp" where
  "open_connection N endpoint deadline =
    bindM (transport_close N) (\<lambda>_.
    bindM (liftR (socket_address (unicode N) endpoint)) (\<lambda>address.
    bindM (remaining N deadline) (\<lambda>seconds.
    bindM (worldM (sock_connect N address seconds)) (\<lambda>raw.
    secure_socket N endpoint deadline raw))))"

text \<open>The frames of one request: what is sent, and the statements that read the reply.\<close>

definition frame :: "pbytes \<Rightarrow> pbytes" where
  "frame body = le32 (length body) @ body"

definition read_reply :: "'w netops \<Rightarrow> rat \<Rightarrow> ('w tstate, dict) comp" where
  "read_reply N deadline =
    bindM (receive N 4 deadline) (\<lambda>header.
    bindM (whenM (\<not> (0 < un_le32 header \<and> un_le32 header \<le> 1024 * 1024))
            (ConnectionError ''Invalid response frame length'')) (\<lambda>_.
    bindM (receive N (un_le32 header) deadline) (\<lambda>data.
    bindM (liftR (json_loads N data)) (\<lambda>result.
    (case result of JObj d \<Rightarrow> retM d | _ \<Rightarrow> raiseM (ConnectionError ''Invalid response object''))))))"

definition exchange_body :: "'w netops \<Rightarrow> Endpoint \<Rightarrow> pbytes \<Rightarrow> rat \<Rightarrow> ('w tstate, dict) comp" where
  "exchange_body N endpoint body deadline =
    bindM getM (\<lambda>(t, w).
    bindM (if t_endpoint t \<noteq> Some endpoint \<or> t_socket t = None
           then open_connection N endpoint deadline else retM ()) (\<lambda>_.
    bindM (remaining N deadline) (\<lambda>seconds.
    bindM socketM (\<lambda>k.
    bindM (effectM (sock_timeout N k seconds)) (\<lambda>_.
    bindM (worldM (sock_send N k (frame body))) (\<lambda>_.
    read_reply N deadline))))))"

definition exchange :: "'w netops \<Rightarrow> Endpoint \<Rightarrow> dict \<Rightarrow> rat \<Rightarrow> ('w tstate, dict) comp" where
  "exchange N endpoint request deadline =
    bindM (liftR (json_dumps N (JObj request))) (\<lambda>body.
    bindM (whenM (65536 < length body) (ValueError ''Encoded request exceeds 64 KiB'')) (\<lambda>_.
    tryM (exchange_body N endpoint body deadline)
      (\<lambda>e. if is_OSError e \<or> is_ValueError e \<or> is_ConnectionError e
           then bindM (transport_close N) (\<lambda>_. raiseM (ConnectionError ''str(exc)''))
           else raiseM e)))"

section \<open>Helpers\<close>

lemma wlp_world [simp]:
  "wlp (worldM f) Q E (t, w) = (case f w of (Inl e, w') \<Rightarrow> E e (t, w') | (Inr x, w') \<Rightarrow> Q x (t, w'))"
  "wlp (clockM N) Q2 E (t, w) = (case monotonic N w of (now, w') \<Rightarrow> Q2 now (t, w'))"
  "wlp (effectM g) Q3 E (t, w) = Q3 () (t, g w)"
  by (auto simp: wlp_def worldM_def clockM_def effectM_def split: prod.splits sum.splits)

lemma wlp_close [simp]:
  "wlp (transport_close N) Q E (t, w) =
    Q () (t\<lparr>t_socket := None, t_endpoint := None\<rparr>, case t_socket t of None \<Rightarrow> w | Some s \<Rightarrow> sock_close N s w)"
  by (simp add: wlp_def transport_close_def)

lemma wlp_socket [simp]:
  "wlp socketM Q E (t, w) = (case t_socket t of None \<Rightarrow> E AttributeError (t, w) | Some k \<Rightarrow> Q k (t, w))"
  by (simp add: wlp_def socketM_def split: option.splits)

lemma total_world [total_rules]:
  "total (worldM f)" "total (clockM N)" "total (effectM g)" "total (transport_close N)" "total socketM"
  by (auto simp: total_def returns_def worldM_def clockM_def effectM_def transport_close_def socketM_def
      split: prod.splits option.splits)

lemma total_remaining [total_rules]: "total (remaining N d)"
  unfolding remaining_def by (intro total_rules)

text \<open>A property of the transport object that reading the clock or the world cannot change.\<close>

lemma wlp_remaining:
  "(\<And>x w'. Q x (t, w')) \<Longrightarrow> (\<And>e w'. is_TimeoutError e \<Longrightarrow> E e (t, w')) \<Longrightarrow> wlp (remaining N d) Q E (t, w)"
  by (auto simp: remaining_def is_TimeoutError_def split: prod.splits)

text \<open>
  What the client relies on of sockets, TLS and JSON decoding: they fail with \<open>OSError\<close>,
  \<open>ValueError\<close> or one of their subclasses, and \<open>recv(n)\<close> returns at most \<open>n\<close> bytes.
\<close>

definition net_exn :: "exn \<Rightarrow> bool" where
  "net_exn e \<longleftrightarrow> is_OSError e \<or> is_ValueError e \<or> is_ConnectionError e"

definition well_behaved :: "'w netops \<Rightarrow> bool" where
  "well_behaved N \<longleftrightarrow>
    (\<forall>a d w. case fst (sock_connect N a d w) of Inl e \<Rightarrow> net_exn e | Inr _ \<Rightarrow> True) \<and>
    (\<forall>k n w. case fst (sock_wrap N k n w) of Inl e \<Rightarrow> net_exn e | Inr _ \<Rightarrow> True) \<and>
    (\<forall>k w. case fst (sock_nodelay N k w) of Inl e \<Rightarrow> net_exn e | Inr _ \<Rightarrow> True) \<and>
    (\<forall>k b w. case fst (sock_send N k b w) of Inl e \<Rightarrow> net_exn e | Inr _ \<Rightarrow> True) \<and>
    (\<forall>k n w. case fst (sock_recv N k n w) of Inl e \<Rightarrow> net_exn e | Inr c \<Rightarrow> length c \<le> n) \<and>
    (\<forall>b. case json_loads N b of Inl e \<Rightarrow> net_exn e | Inr _ \<Rightarrow> True)"

definition connected :: "Endpoint \<Rightarrow> Transport \<Rightarrow> bool" where
  "connected ep t \<longleftrightarrow> t_endpoint t = Some ep \<and> t_socket t \<noteq> None"

definition disconnected :: "Transport \<Rightarrow> bool" where
  "disconnected t \<longleftrightarrow> t_endpoint t = None \<and> t_socket t = None"

text \<open>The object invariant: an endpoint is recorded exactly while a socket is open.\<close>

definition t_inv :: "Transport \<Rightarrow> bool" where
  "t_inv t \<longleftrightarrow> (t_socket t = None \<longleftrightarrow> t_endpoint t = None)"

lemma t_inv_cases: "connected ep t \<Longrightarrow> t_inv t" "disconnected t \<Longrightarrow> t_inv t"
  by (auto simp: t_inv_def connected_def disconnected_def)

lemma net_exn_simps [simp]:
  "net_exn (ConnectionError m)" "net_exn (CertificateError m)" "net_exn (ValueError m)" "is_TimeoutError e \<Longrightarrow> net_exn e"
  by (auto simp: net_exn_def py_defs split: exn.splits)

lemma well_behavedD:
  assumes "well_behaved N"
  shows "sock_connect N a d w = (Inl e, w') \<Longrightarrow> net_exn e"
    and "sock_wrap N k n w = (Inl e, w') \<Longrightarrow> net_exn e"
    and "sock_nodelay N k w = (Inl e, w') \<Longrightarrow> net_exn e"
    and "sock_send N k b w = (Inl e, w') \<Longrightarrow> net_exn e"
    and "sock_recv N k m w = (Inl e, w') \<Longrightarrow> net_exn e"
    and "sock_recv N k m w = (Inr c, w') \<Longrightarrow> length c \<le> m"
    and "json_loads N b = Inl e \<Longrightarrow> net_exn e"
  using assms unfolding well_behaved_def
  by (metis (mono_tags, lifting) fst_conv sum.simps(5) sum.simps(6))+

section \<open>Receiving\<close>

lemma receive_chunk_wlp:
  assumes "well_behaved N" and "t_socket (fst s) \<noteq> None"
  shows "wlp (receive_chunk N n d) (\<lambda>c s'. fst s' = fst s \<and> length c \<le> n) (\<lambda>e s'. fst s' = fst s \<and> net_exn e) s"
  using assms well_behavedD [OF assms(1)]
  by (cases s) (auto simp: receive_chunk_def split: prod.splits sum.splits intro!: wlp_remaining)

lemma wlp_receive_loop:
  "wlp (receive_loop N n d data) Q E s =
    (if length data < n
     then wlp (receive_chunk N (n - length data) d)
       (\<lambda>chunk t. if chunk = [] then E (ConnectionError ''Server closed the connection'') t
          else wlp (receive_loop N n d (data @ chunk)) Q E t) E s
     else Q data s)"
  by (subst (1) wlp_def, subst receive_loop.simps) (auto simp: wlp_def split: option.splits sum.splits)

lemma receive_loop_wlp:
  assumes "well_behaved N"
  shows "t_socket (fst s) \<noteq> None \<Longrightarrow> length data \<le> n \<Longrightarrow>
    wlp (receive_loop N n d data) (\<lambda>x s'. fst s' = fst s \<and> length x = n) (\<lambda>e s'. fst s' = fst s \<and> net_exn e) s"
proof (induction "n - length data" arbitrary: data s rule: less_induct)
  case less
  have "wlp (receive_loop N n d (data @ c)) (\<lambda>x s'. fst s' = fst s \<and> length x = n) (\<lambda>e s'. fst s' = fst s \<and> net_exn e) t"
    if "c \<noteq> []" "fst t = fst s" "length c \<le> n - length data" "length data < n" for c t
    using less.hyps [of "data @ c" t] less.prems that by (simp add: diff_less_mono2)
  then show ?case
    using less.prems
    by (subst wlp_receive_loop) (auto intro!: wlp_mono [OF receive_chunk_wlp [OF assms]])
qed

lemma receive_wlp:
  assumes "well_behaved N" and "t_socket t \<noteq> None"
    and "\<And>x w'. length x = n \<Longrightarrow> Q x (t, w')" and "\<And>e w'. net_exn e \<Longrightarrow> E e (t, w')"
  shows "wlp (receive N n d) Q E (t, w)"
  unfolding receive_def
  by (rule wlp_mono [OF receive_loop_wlp [OF assms(1), of "(t, w)"]]) (use assms in auto)

lemma total_receive [total_rules]: "total (receive N n d)"
proof -
  have "receive_loop N sz d data s \<noteq> None" for sz data s
  proof (induction N sz d data s rule: receive_loop.induct)
    case (1 N sz d data s)
    have "total (receive_chunk N (sz - length data) d)"
      unfolding receive_chunk_def by (intro total_rules)
    then have "receive_chunk N (sz - length data) d s \<noteq> None"
      unfolding total_def returns_def by blast
    then obtain r s' where c: "receive_chunk N (sz - length data) d s = Some (r, s')"
      by (metis not_None_eq surj_pair)
    show ?case
    proof (cases "length data < sz")
      case True
      then show ?thesis
        using c 1 [OF True c] by (subst receive_loop.simps) (auto split: sum.splits)
    next
      case False
      then show ?thesis by (subst receive_loop.simps) simp
    qed
  qed
  then show ?thesis by (simp add: total_def returns_def receive_def)
qed

section \<open>Exchanges\<close>

lemma secure_socket_wlp:
  assumes "well_behaved N"
  shows "wlp (secure_socket N ep d raw) (\<lambda>_ s'. connected ep (fst s')) (\<lambda>e s'. disconnected (fst s') \<and> net_exn e) (t, w)"
  using well_behavedD [OF assms]
  by (auto simp: secure_socket_def connected_def disconnected_def split: prod.splits sum.splits
      intro!: wlp_remaining)

lemma open_connection_wlp:
  assumes "well_behaved N"
  shows "wlp (open_connection N ep d) (\<lambda>_ s'. connected ep (fst s')) (\<lambda>e s'. disconnected (fst s') \<and> net_exn e) (t, w)"
  using well_behavedD [OF assms] secure_socket_wlp [OF assms]
  by (auto simp: open_connection_def disconnected_def socket_address_def Let_def
      split: prod.splits sum.splits if_splits option.splits intro!: wlp_remaining)

lemma read_reply_wlp:
  assumes "well_behaved N" and "t_socket t \<noteq> None"
  shows "wlp (read_reply N d) (\<lambda>_ s'. fst s' = t) (\<lambda>e s'. fst s' = t \<and> net_exn e) (t, w)"
  unfolding read_reply_def wlp_simps
  using well_behavedD [OF assms(1)]
  by (intro receive_wlp [OF assms]) (auto split: sum.splits json.splits intro!: receive_wlp [OF assms])

lemma exchange_body_wlp:
  assumes "well_behaved N" and "t_inv t"
  shows "wlp (exchange_body N ep body d) (\<lambda>_ s'. connected ep (fst s')) (\<lambda>e s'. net_exn e) (t, w)"
proof -
  have rest: "wlp (bindM (remaining N d) (\<lambda>seconds. bindM socketM (\<lambda>k. bindM (effectM (sock_timeout N k seconds))
      (\<lambda>_. bindM (worldM (sock_send N k (frame body))) (\<lambda>_. read_reply N d)))))
      (\<lambda>_ s'. connected ep (fst s')) (\<lambda>e s'. net_exn e) s"
    if "connected ep (fst s)" for s
    using that well_behavedD [OF assms(1)]
    by (cases s) (auto simp: connected_def split: prod.splits sum.splits option.splits
        intro!: wlp_remaining wlp_mono [OF read_reply_wlp [OF assms(1)]])
  show ?thesis
  proof (cases "t_endpoint t \<noteq> Some ep \<or> t_socket t = None")
    case True
    then show ?thesis
      unfolding exchange_body_def
      by (simp del: wlp_simps(3) add: wlp_simps(3) [of getM] wlp_simps(3) [of "open_connection N ep d"])
        (rule wlp_mono [OF open_connection_wlp [OF assms(1)]], use rest in auto)
  next
    case False
    then have "connected ep t" by (auto simp: connected_def)
    with False show ?thesis
      unfolding exchange_body_def using rest [of "(t, w)"] by auto
  qed
qed

text \<open>
  The contract of the transport: a reply leaves it connected to the endpoint that was asked; an
  exchange that fails leaves it closed and raises \<open>ConnectionError\<close>; a request that cannot be
  encoded within 64 KiB is refused before anything is touched.
\<close>

lemma exchange_wlp:
  assumes "well_behaved N" and "t_inv t"
  shows "wlp (exchange N ep request d)
     (\<lambda>_ s'. connected ep (fst s'))
     (\<lambda>e s'. disconnected (fst s') \<and> is_ConnectionError e
        \<or> s' = (t, w) \<and> (e = ValueError ''Encoded request exceeds 64 KiB'' \<or> json_dumps N (JObj request) = Inl e)) (t, w)"
proof (cases "json_dumps N (JObj request)")
  case (Inr body)
  then show ?thesis
    unfolding exchange_def
    by (simp, intro impI wlp_mono [OF exchange_body_wlp [OF assms]])
      (auto simp: net_exn_def disconnected_def is_ConnectionError_def)
qed (simp add: exchange_def)

lemma total_exchange [total_rules]: "total (exchange N ep request d)"
  unfolding exchange_def exchange_body_def open_connection_def secure_socket_def read_reply_def
  by (intro total_rules) (auto simp: case_prod_unfold split: json.splits intro!: total_rules)

end
