(* ===== verification/Client.thy ===== *)
theory Client
  imports Parameters Results Transport
begin

text \<open>
  \<open>languages/python/src/sqlodin/client.py\<close>: connections with explicit recovery of uncertain
  writes. A \<open>Connection\<close> object is a record; a method is a computation on the object and the
  world. \<open>comp\<close> values of \<open>None\<close> stand for a call that does not return: only the retry loop
  of \<open>_call\<close> has that possibility. The reentrant lock is its recursion depth, as the thread that
  runs the method sees it.
\<close>

section \<open>Pending writes\<close>

definition is_hex :: "nat \<Rightarrow> bool" where
  "is_hex c \<longleftrightarrow> (48 \<le> c \<and> c \<le> 57) \<or> (97 \<le> c \<and> c \<le> 102)"

text \<open>
  \<open>PendingWrite.__post_init__\<close> on the arguments of the constructor, as JSON values where the
  code checks their type. \<open>re.fullmatch\<close> raises \<open>TypeError\<close> on a session that is no string;
  the other string operations do so on an \<open>sql\<close> argument that is none.
\<close>

definition pending_write :: "json \<Rightarrow> json \<Rightarrow> json \<Rightarrow> pval list \<Rightarrow> json \<Rightarrow> json \<Rightarrow> PendingWrite res" where
  "pending_write session sequence sql parameters read_version epoch =
    (case session of JStr ses \<Rightarrow>
      if \<not> (length ses = 32 \<and> list_all is_hex ses) \<or> list_all (\<lambda>c. c = 48) ses
      then Inl (ValueError ''Session must be 32 lowercase hexadecimal digits, not all zero'')
      else (case sequence of JInt seq \<Rightarrow>
        if \<not> (1 \<le> seq \<and> seq < 2 ^ 63)
        then Inl (ValueError ''Sequence must be a positive signed 64-bit integer'')
        else (case sql of JStr q \<Rightarrow>
          if q = [] \<or> 0 \<in> set q then Inl (ValueError ''Invalid pending SQL body'')
          else (case utf8 q of None \<Rightarrow> Inl UnicodeEncodeError | Some b \<Rightarrow>
          if 4096 < length b then Inl (ValueError ''Invalid pending SQL body'')
          else (case read_version of JInt rv \<Rightarrow>
            if \<not> (0 \<le> rv \<and> rv < 2 ^ 63) then Inl (ValueError ''Invalid transaction read version'')
            else (case epoch of JInt ep \<Rightarrow>
              if \<not> (0 \<le> ep \<and> ep < 2 ^ 63) then Inl (ValueError ''Invalid session epoch'')
              else if 16 < length parameters then Inl (ValueError ''Too many parameters'')
              else if 384 < vec_total parameters
              then Inl (ValueError ''A request supports at most 384 vector components in total'')
              else bindR (mapR encode parameters) (\<lambda>_.
                Inr \<lparr>pw_session = ses, pw_sequence = seq, pw_sql = q, pw_parameters = parameters,
                     pw_read_version = rv, pw_epoch = ep\<rparr>)
            | _ \<Rightarrow> Inl (ValueError ''Invalid session epoch''))
          | _ \<Rightarrow> Inl (ValueError ''Invalid transaction read version'')))
        | _ \<Rightarrow> Inl (TypeError ''a string is required''))
      | _ \<Rightarrow> Inl (ValueError ''Sequence must be a positive signed 64-bit integer''))
    | _ \<Rightarrow> Inl (TypeError ''expected string or bytes-like object''))"

text \<open>\<open>to_json\<close>: the document that \<open>json.dumps\<close> renders; \<open>allow_nan\<close> is off.\<close>

definition param_json :: "pval \<Rightarrow> json" where
  "param_json v = (case v of
      VVector xs \<Rightarrow> JObj [(lit ''vector'', JList (map JFloat xs))]
    | VNone \<Rightarrow> JNull | VBool b \<Rightarrow> JBool b | VInt i \<Rightarrow> JInt i | VFloat x \<Rightarrow> JFloat x | VStr s \<Rightarrow> JStr s
    | VOther \<Rightarrow> JNull)"

definition pending_to_json :: "PendingWrite \<Rightarrow> json" where
  "pending_to_json p = JObj
    [(lit ''session'', JStr (pw_session p)), (lit ''sequence'', JInt (pw_sequence p)), (lit ''sql'', JStr (pw_sql p)),
     (lit ''parameters'', JList (map param_json (pw_parameters p))),
     (lit ''read_version'', JInt (pw_read_version p)), (lit ''epoch'', JInt (pw_epoch p))]"

text \<open>Iterating a decoded JSON value: lists, the keys of objects, the characters of strings.\<close>

definition iter_json :: "json \<Rightarrow> json list res" where
  "iter_json j = (case j of
      JList xs \<Rightarrow> Inr xs
    | JObj d \<Rightarrow> Inr (map (\<lambda>kv. JStr (fst kv)) d)
    | JStr s \<Rightarrow> Inr (map (\<lambda>c. JStr [c]) s)
    | _ \<Rightarrow> Inl (TypeError ''object is not iterable''))"

definition json_val :: "json \<Rightarrow> pval" where
  "json_val j = (case j of
      JNull \<Rightarrow> VNone | JBool b \<Rightarrow> VBool b | JInt i \<Rightarrow> VInt i | JFloat x \<Rightarrow> VFloat x | JStr s \<Rightarrow> VStr s
    | JList _ \<Rightarrow> VOther | JObj _ \<Rightarrow> VOther)"

definition json_iterable :: "json \<Rightarrow> iterable" where
  "json_iterable j = (case j of
      JList xs \<Rightarrow> ISeq (map json_val xs)
    | JObj d \<Rightarrow> ISeq (map (\<lambda>kv. VStr (fst kv)) d)
    | JStr _ \<Rightarrow> IText
    | _ \<Rightarrow> INotIterable)"

definition json_param :: "float_parser \<Rightarrow> json \<Rightarrow> pval res" where
  "json_param pf p = (case p of
      JObj d \<Rightarrow> if fst ` set d = {lit ''vector''}
                then (case dget d ''vector'' of
                    Some x \<Rightarrow> bindR (vector_new pf (json_iterable x)) (\<lambda>v. Inr (VVector v))
                  | None \<Rightarrow> Inl KeyError)
                else Inr VOther
    | _ \<Rightarrow> Inr (json_val p))"

text \<open>
  \<open>from_json\<close> on the decoded document: \<open>cls(**value)\<close> refuses missing and unknown fields.
\<close>

definition pending_from_json :: "float_parser \<Rightarrow> json \<Rightarrow> PendingWrite res" where
  "pending_from_json pf doc = (case doc of
      JObj d \<Rightarrow>
        bindR (case dget d ''parameters'' of None \<Rightarrow> Inr [] | Some ps \<Rightarrow> iter_json ps) (\<lambda>items.
        bindR (mapR (json_param pf) items) (\<lambda>parameters.
        if \<not> fst ` set d \<subseteq> {lit ''session'', lit ''sequence'', lit ''sql'', lit ''parameters'', lit ''read_version'', lit ''epoch''}
        then Inl (TypeError ''unexpected keyword argument'')
        else (case (dget d ''session'', dget d ''sequence'', dget d ''sql'') of
            (Some ses, Some seq, Some q) \<Rightarrow>
              pending_write ses seq q parameters
                (case dget d ''read_version'' of None \<Rightarrow> JInt 0 | Some v \<Rightarrow> v)
                (case dget d ''epoch'' of None \<Rightarrow> JInt 0 | Some v \<Rightarrow> v)
          | _ \<Rightarrow> Inl (TypeError ''missing required positional arguments''))))
    | JList _ \<Rightarrow> Inl (TypeError ''list indices must be integers or slices'')
    | _ \<Rightarrow> Inl (TypeError ''object does not support item assignment''))"

section \<open>Connections\<close>

record Connection =
  c_endpoints :: "Endpoint list"
  c_cluster :: pstr
  c_timeout :: rat
  c_session :: pstr
  c_sequence :: int
  c_pending :: "PendingWrite option"
  c_epoch :: "int option"
  c_transport :: Transport
  c_index :: nat
  c_lock :: nat
  c_closed :: bool
  c_transaction :: bool

type_synonym 'w cstate = "Connection \<times> 'w"

definition connection_new ::
    "'w netops \<Rightarrow> Endpoint list \<Rightarrow> pstr \<Rightarrow> TLS \<Rightarrow> rat \<Rightarrow> PendingWrite option \<Rightarrow> 'w \<Rightarrow> Connection res \<times> 'w" where
  "connection_new N endpoints cluster tls timeout pending w =
    (if endpoints = [] then (Inl (ValueError ''Provide at least one Endpoint(address, server_name)''), w)
     else if cluster = [] \<or> \<not> (0 < timeout \<and> timeout \<le> 60)
     then (Inl (ValueError ''Cluster is required; timeout must be in (0, 60] seconds''), w)
     else (case (case pending of Some p \<Rightarrow> (pw_session p, w) | None \<Rightarrow> token_hex N w) of (session, w) \<Rightarrow>
       (case tls_context N tls w of
          (Inl e, w) \<Rightarrow> (Inl e, w)
        | (Inr ctx, w) \<Rightarrow>
            (Inr \<lparr>c_endpoints = endpoints, c_cluster = cluster, c_timeout = timeout, c_session = session,
              c_sequence = (case pending of Some p \<Rightarrow> pw_sequence p | None \<Rightarrow> 1), c_pending = pending,
              c_epoch = map_option pw_epoch pending, c_transport = transport_new ctx, c_index = 0,
              c_lock = 0, c_closed = False, c_transaction = False\<rparr>, w))))"

text \<open>\<open>with self._lock\<close>: released on every way out.\<close>

definition with_lock :: "('w cstate, 'a) comp \<Rightarrow> ('w cstate, 'a) comp" where
  "with_lock m = (\<lambda>(c, w).
    case m (c\<lparr>c_lock := Suc (c_lock c)\<rparr>, w) of
      None \<Rightarrow> None
    | Some (r, (c', w')) \<Rightarrow> Some (r, (c'\<lparr>c_lock := c_lock c' - 1\<rparr>, w')))"

definition connM :: "('w cstate, Connection) comp" where
  "connM = (\<lambda>(c, w). Some (Inr c, (c, w)))"

definition setM :: "(Connection \<Rightarrow> Connection) \<Rightarrow> ('w cstate, unit) comp" where
  "setM f = (\<lambda>(c, w). Some (Inr (), (f c, w)))"

text \<open>A method of \<open>self._transport\<close>.\<close>

definition onT :: "('w tstate, 'a) comp \<Rightarrow> ('w cstate, 'a) comp" where
  "onT m = (\<lambda>(c, w). case m (c_transport c, w) of
      None \<Rightarrow> None
    | Some (r, (t, w')) \<Rightarrow> Some (r, (c\<lparr>c_transport := t\<rparr>, w')))"

definition conn_close :: "'w netops \<Rightarrow> ('w cstate, unit) comp" where
  "conn_close N = with_lock (bindM (onT (transport_close N)) (\<lambda>_. setM (\<lambda>c. c\<lparr>c_closed := True\<rparr>)))"

definition ready :: "('w cstate, unit) comp" where
  "ready = bindM connM (\<lambda>c.
    bindM (whenM (c_closed c) (ConnectionError ''Connection is closed'')) (\<lambda>_.
    whenM (c_transaction c) (PendingWriteError ''Use the transaction's execute() while building an atomic batch'')))"

text \<open>Python equality of a decoded JSON value with a string and with the integer one.\<close>

definition eq_str :: "json option \<Rightarrow> pstr \<Rightarrow> bool" where
  "eq_str v s \<longleftrightarrow> v = Some (JStr s)"

definition eq_one :: "json option \<Rightarrow> bool" where
  "eq_one v \<longleftrightarrow> v = Some (JInt 1) \<or> v = Some (JBool True) \<or> v = Some (JFloat (Finite False (2 ^ 1074)))"

definition nonneg_int :: "json option \<Rightarrow> bool" where
  "nonneg_int v \<longleftrightarrow> (case v of Some (JInt i) \<Rightarrow> 0 \<le> i | _ \<Rightarrow> False)"

definition validate :: "pstr \<Rightarrow> dict \<Rightarrow> dict \<Rightarrow> unit res" where
  "validate cluster response request =
    (if \<not> eq_str (dget response ''cluster'') cluster \<or> \<not> eq_one (dget response ''protocol'')
     then Inl (ConnectionError ''Response cluster or protocol mismatch'')
     else if \<not> (eq_str (dget response ''status'') (lit ''ok'') \<or> eq_str (dget response ''status'') (lit ''error''))
     then Inl (ConnectionError ''Invalid response status'')
     else if \<not> list_all (\<lambda>name. nonneg_int (dget response name)) [''node'', ''applied'', ''changes'', ''sequence'']
     then Inl (ConnectionError ''Invalid response {name}'')
     else if eq_str (dget request ''op'') (lit ''execute'') \<and> dget response ''sequence'' \<noteq> dget request ''sequence''
     then Inl (ConnectionError ''Write response identity mismatch'')
     else (case dget response ''error'' of
        Some (JStr code) \<Rightarrow>
          if eq_str (dget response ''status'') (lit ''ok'') \<noteq> (code = [])
          then Inl (ConnectionError ''Invalid error/status combination'') else Inr ()
      | _ \<Rightarrow> Inl (ConnectionError ''Invalid error/status combination'')))"

text \<open>\<open>int(x)\<close> of a fraction truncates towards zero.\<close>

definition trunc :: "rat \<Rightarrow> int" where
  "trunc x = (if 0 \<le> x then \<lfloor>x\<rfloor> else \<lceil>x\<rceil>)"

definition transient :: "json option \<Rightarrow> bool" where
  "transient v \<longleftrightarrow> v \<in> {Some (JStr (lit ''Busy'')), Some (JStr (lit ''Unknown_Outcome'')), Some (JStr (lit ''Read_Timeout''))}"

text \<open>
  One pass of the loop body of \<open>_call\<close>: \<open>Some response\<close> returns it, \<open>None\<close> goes round
  again. The four clock readings are in the source's order of evaluation.
\<close>

definition call_try :: "'w netops \<Rightarrow> Endpoint \<Rightarrow> dict \<Rightarrow> rat \<Rightarrow> ('w cstate, dict option) comp" where
  "call_try N endpoint request attempt =
    tryM (bindM (onT (exchange N endpoint request attempt)) (\<lambda>response.
          bindM connM (\<lambda>c.
          bindM (liftR (validate (c_cluster c) response request)) (\<lambda>_.
          retM (if transient (dget response ''error'') then None else Some response)))))
      (\<lambda>e. if is_ConnectionError e \<or> is_TimeoutError e then retM None else raiseM e)"

definition call_next :: "'w netops \<Rightarrow> rat \<Rightarrow> ('w cstate, unit) comp" where
  "call_next N deadline =
    bindM (onT (transport_close N)) (\<lambda>_.
    bindM (setM (\<lambda>c. c\<lparr>c_index := (c_index c + 1) mod length (c_endpoints c)\<rparr>)) (\<lambda>_.
    bindM (clockM N) (\<lambda>now.
    effectM (sleep N (min (1 / 100) (max 0 (deadline - now)))))))"

definition call_pass :: "'w netops \<Rightarrow> rat \<Rightarrow> dict \<Rightarrow> ('w cstate, dict option) comp" where
  "call_pass N deadline request =
    bindM connM (\<lambda>c.
    bindM (liftR (if c_index c < length (c_endpoints c) then Inr (c_endpoints c ! c_index c) else Inl IndexError)) (\<lambda>endpoint.
    bindM (clockM N) (\<lambda>t2.
    bindM (clockM N) (\<lambda>t3.
    bindM (retM (min deadline (t2 + max (1 / 10) ((deadline - t3) / of_nat (length (c_endpoints c)))))) (\<lambda>attempt.
    bindM (clockM N) (\<lambda>t4.
    bindM (call_try N endpoint
        (dset request (lit ''timeout_ms'') (JInt (max 1 (min 60000 (trunc ((attempt - t4) * 900))))))
        attempt) (\<lambda>r.
    (case r of
       Some response \<Rightarrow> retM (Some response)
     | None \<Rightarrow> bindM (call_next N deadline) (\<lambda>_. retM None)))))))))"

partial_function (option) call_loop ::
    "'w netops \<Rightarrow> rat \<Rightarrow> dict \<Rightarrow> 'w cstate \<Rightarrow> (dict res \<times> 'w cstate) option" where
  "call_loop N deadline request s =
    Option.bind (clockM N s) (\<lambda>(now, s1).
      case now of Inl e \<Rightarrow> Some (Inl e, s1) | Inr t1 \<Rightarrow>
      if \<not> t1 < deadline
      then Some (Inl (ConnectionError ''Operation deadline exceeded: {last_error}''), s1)
      else Option.bind (call_pass N deadline request s1) (\<lambda>(r, s2).
        case r of
          Inl e \<Rightarrow> Some (Inl e, s2)
        | Inr (Some response) \<Rightarrow> Some (Inr response, s2)
        | Inr None \<Rightarrow> call_loop N deadline request s2))"

definition call :: "'w netops \<Rightarrow> dict \<Rightarrow> ('w cstate, dict) comp" where
  "call N request =
    bindM connM (\<lambda>c.
    bindM (clockM N) (\<lambda>now.
    call_loop N (now + c_timeout c)
      (dset (dset request (lit ''protocol'') (JInt 1)) (lit ''cluster'') (JStr (c_cluster c)))))"

text \<open>\<open>_raise_query\<close>; \<open>response['status']\<close> is a key that \<open>_validate\<close> has checked.\<close>

definition raise_query :: "dict \<Rightarrow> unit res" where
  "raise_query response =
    (case dget response ''status'' of None \<Rightarrow> Inl KeyError | Some st \<Rightarrow>
      if st \<noteq> JStr (lit ''ok'') then
        (if eq_str (dget response ''error'') (lit ''Conflict'') then Inl (SerializationError (JStr (lit ''Conflict'')))
         else if eq_str (dget response ''error'') (lit ''Constraint'') then Inl (ConstraintError (JStr (lit ''Constraint'')))
         else Inl (QueryError (case dget response ''error'' of None \<Rightarrow> JStr (lit ''Unknown'') | Some e \<Rightarrow> e)))
      else Inr ())"

section \<open>Writes\<close>

text \<open>\<open>response[name]\<close> where \<open>_validate\<close> has established an integer.\<close>

definition int_item :: "dict \<Rightarrow> string \<Rightarrow> int res" where
  "int_item d name = (case dget d name of
      None \<Rightarrow> Inl KeyError
    | Some (JInt i) \<Rightarrow> Inr i
    | Some _ \<Rightarrow> Inl (TypeError ''not an integer''))"

definition write_result :: "dict \<Rightarrow> WriteResult res" where
  "write_result d =
    bindR (int_item d ''changes'') (\<lambda>changes. bindR (int_item d ''applied'') (\<lambda>applied.
    bindR (int_item d ''node'') (\<lambda>node. bindR (int_item d ''sequence'') (\<lambda>sequence.
    Inr \<lparr>wr_changes = changes, wr_applied = applied, wr_node = node, wr_sequence = sequence\<rparr>))))"

definition execute_request :: "PendingWrite \<Rightarrow> dict res" where
  "execute_request p = bindR (mapR encode (pw_parameters p)) (\<lambda>ps.
    Inr [(lit ''op'', JStr (lit ''execute'')), (lit ''sql'', JStr (pw_sql p)), (lit ''session'', JStr (pw_session p)),
         (lit ''sequence'', JInt (pw_sequence p)), (lit ''session_epoch'', JInt (pw_epoch p)),
         (lit ''read_version'', JInt (pw_read_version p)), (lit ''parameters'', JList ps)])"

definition session_codes :: "pstr list" where
  "session_codes = [lit ''Expired'', lit ''Identity_Conflict'', lit ''Session_Limit'']"

definition final_codes :: "pstr list" where
  "final_codes = [lit '''', lit ''Constraint'', lit ''Policy'', lit ''Sequence_Gap'', lit ''Invalid_SQL'',
    lit ''Invalid_Request'', lit ''Unsupported'', lit ''Conflict'']"

text \<open>What \<open>_resolve\<close> does with the reply to the pending write \<open>p\<close>.\<close>

definition settle :: "PendingWrite \<Rightarrow> dict \<Rightarrow> ('w cstate, WriteResult) comp" where
  "settle p response =
    (case (case dget response ''error'' of None \<Rightarrow> JStr [] | Some v \<Rightarrow> v) of
       JStr code \<Rightarrow>
         if code \<in> set session_codes then raiseM (SessionError (JStr code))
         else if code \<notin> set final_codes then raiseM (UnknownOutcome p)
         else bindM (setM (\<lambda>c. c\<lparr>c_pending := None\<rparr>)) (\<lambda>_.
              bindM (if code \<notin> {lit ''Invalid_Request'', lit ''Unsupported''}
                     then setM (\<lambda>c. c\<lparr>c_sequence := c_sequence c + 1\<rparr>) else retM ()) (\<lambda>_.
              if code = lit ''Conflict'' then raiseM (SerializationError (JStr code))
              else if code \<noteq> [] then raiseM (if code = lit ''Constraint'' then ConstraintError (JStr code) else QueryError (JStr code))
              else liftR (write_result response)))
     | _ \<Rightarrow> raiseM (UnknownOutcome p))"

definition resolve :: "'w netops \<Rightarrow> ('w cstate, WriteResult) comp" where
  "resolve N = bindM connM (\<lambda>c.
    (case c_pending c of
       None \<Rightarrow> raiseM AttributeError
     | Some p \<Rightarrow>
         bindM (liftR (execute_request p)) (\<lambda>request.
         bindM (tryM (call N request) (\<lambda>e. if is_ConnectionError e then raiseM (UnknownOutcome p) else raiseM e)) (\<lambda>response.
         settle p response))))"

definition session_epoch :: "'w netops \<Rightarrow> ('w cstate, int) comp" where
  "session_epoch N = with_lock (
    bindM ready (\<lambda>_.
    bindM (call N [(lit ''op'', JStr (lit ''session_epoch''))]) (\<lambda>response.
    if eq_str (dget response ''error'') (lit ''Unsupported'') then retM 0
    else bindM (liftR (raise_query response)) (\<lambda>_.
      (case dget response ''session_epoch'' of
         Some (JInt epoch) \<Rightarrow>
           if 0 \<le> epoch \<and> epoch < 2 ^ 63 then retM epoch else raiseM (ConnectionError ''Malformed session epoch'')
       | _ \<Rightarrow> raiseM (ConnectionError ''Malformed session epoch''))))))"

definition execute_prepared :: "'w netops \<Rightarrow> pstr \<Rightarrow> pval list \<Rightarrow> json \<Rightarrow> ('w cstate, WriteResult) comp" where
  "execute_prepared N sql values read_version = bindM connM (\<lambda>c0.
    bindM (whenM (c_pending c0 \<noteq> None) (PendingWriteError ''Resolve the outstanding write before submitting another'')) (\<lambda>_.
    bindM (if c_epoch c0 = None
           then bindM (session_epoch N) (\<lambda>ep. setM (\<lambda>c. c\<lparr>c_epoch := Some ep\<rparr>)) else retM ()) (\<lambda>_.
    bindM connM (\<lambda>c.
    bindM (liftR (pending_write (JStr (c_session c)) (JInt (c_sequence c)) (JStr sql) values read_version
             (case c_epoch c of None \<Rightarrow> JNull | Some ep \<Rightarrow> JInt ep))) (\<lambda>p.
    bindM (setM (\<lambda>c. c\<lparr>c_pending := Some p\<rparr>)) (\<lambda>_.
    resolve N))))))"

definition execute :: "'w netops \<Rightarrow> pval \<Rightarrow> params \<Rightarrow> ('w cstate, WriteResult) comp" where
  "execute N sql parameters =
    bindM (liftR (prepare (unicode N) sql parameters 0)) (\<lambda>(tx, values).
    with_lock (bindM ready (\<lambda>_. execute_prepared N tx values (JInt 0))))"

definition resolve_pending :: "'w netops \<Rightarrow> ('w cstate, WriteResult) comp" where
  "resolve_pending N = with_lock (bindM ready (\<lambda>_. bindM connM (\<lambda>c.
    bindM (whenM (c_pending c = None) (PendingWriteError ''There is no pending write'')) (\<lambda>_.
    resolve N))))"

section \<open>Reads and administration\<close>

text \<open>A decoded result cell: a JSON value or the bytes of a BLOB.\<close>

datatype cell = CJson json | CBlob pbytes

definition item :: "json \<Rightarrow> string \<Rightarrow> json res" where
  "item v name = (case v of
      JObj d \<Rightarrow> (case dget d name of None \<Rightarrow> Inl KeyError | Some x \<Rightarrow> Inr x)
    | JList _ \<Rightarrow> Inl (TypeError ''list indices must be integers or slices, not str'')
    | JStr _ \<Rightarrow> Inl (TypeError ''string indices must be integers, not str'')
    | _ \<Rightarrow> Inl (TypeError ''object is not subscriptable''))"

definition decode :: "'w netops \<Rightarrow> json \<Rightarrow> cell res" where
  "decode N v = bindR (item v ''kind'') (\<lambda>kind.
    if kind = JStr (lit ''Null'') then Inr (CJson JNull)
    else if kind = JStr (lit ''Integer'') then bindR (item v ''integer'') (\<lambda>x. Inr (CJson x))
    else if kind = JStr (lit ''Real'') then bindR (item v ''real'') (\<lambda>x. Inr (CJson x))
    else if kind = JStr (lit ''Text'') then bindR (item v ''text'') (\<lambda>x. Inr (CJson x))
    else if kind = JStr (lit ''Blob'') then bindR (item v ''text'') (\<lambda>x. bindR (b64decode N x) (\<lambda>b. Inr (CBlob b)))
    else Inl (ValueError ''Unknown result kind: {kind}''))"

definition json_text :: "json \<Rightarrow> pstr option" where
  "json_text j = (case j of JStr s \<Rightarrow> Some s | _ \<Rightarrow> None)"

definition decode_row :: "'w netops \<Rightarrow> json \<Rightarrow> cell list res" where
  "decode_row N row = bindR (iter_json row) (mapR (decode N))"

definition query_rows :: "'w netops \<Rightarrow> dict \<Rightarrow> cell Rows res" where
  "query_rows N response =
    bindR (bindR (item (JObj response) ''columns'') iter_json) (\<lambda>cols.
    if \<not> list_all (\<lambda>c. json_text c \<noteq> None) cols then Inl (ValueError ''Invalid column names'')
    else let columns = map (\<lambda>c. the (json_text c)) cols in
    bindR (bindR (item (JObj response) ''rows'') iter_json) (\<lambda>items.
    bindR (mapR (decode_row N) items) (\<lambda>vals.
    let rows = map (\<lambda>v. \<lparr>row_columns = columns, row_values = v\<rparr>) vals in
    if \<not> list_all (\<lambda>r. length (as_tuple r) = length columns) rows then Inl (ValueError ''Invalid row width'')
    else bindR (int_item response ''applied'') (\<lambda>applied. bindR (int_item response ''node'') (\<lambda>node.
      Inr \<lparr>rows_columns = columns, rows_rows = rows, rows_applied = applied, rows_node = node\<rparr>)))))"

text \<open>The handler turns a \<open>KeyError\<close>, \<open>TypeError\<close> or \<open>ValueError\<close> into \<open>ConnectionError\<close>.\<close>

definition malformed :: "string \<Rightarrow> 'a res \<Rightarrow> 'a res" where
  "malformed msg r = (case r of Inr x \<Rightarrow> Inr x
    | Inl e \<Rightarrow> if e = KeyError \<or> is_TypeError e \<or> is_ValueError e then Inl (ConnectionError msg) else Inl e)"

definition query :: "'w netops \<Rightarrow> pval \<Rightarrow> params \<Rightarrow> pstr \<Rightarrow> ('w cstate, cell Rows) comp" where
  "query N sql parameters consistency =
    (if consistency \<notin> {lit ''linearizable'', lit ''local''}
     then raiseM (ValueError ''Consistency must be linearizable or local'')
     else bindM (liftR (prepare (unicode N) sql parameters 0)) (\<lambda>(tx, values).
       with_lock (
         bindM ready (\<lambda>_.
         bindM (liftR (mapR encode values)) (\<lambda>ps.
         bindM (call N [(lit ''op'', JStr (lit ''query'')), (lit ''sql'', JStr tx),
                        (lit ''consistency'', JStr consistency), (lit ''parameters'', JList ps)]) (\<lambda>response.
         bindM (liftR (raise_query response)) (\<lambda>_.
         liftR (malformed ''Malformed query result'' (query_rows N response)))))))))"

definition status_keys :: "pstr list" where
  "status_keys = [lit ''cluster'', lit ''node'', lit ''protocol'', lit ''policy'', lit ''applied'',
    lit ''snapshot_prefix'', lit ''snapshot_sealed'', lit ''snapshot_error'', lit ''generation_prefix'']"

definition status :: "'w netops \<Rightarrow> ('w cstate, dict) comp" where
  "status N = with_lock (
    bindM ready (\<lambda>_.
    bindM (call N [(lit ''op'', JStr (lit ''status''))]) (\<lambda>result.
    bindM (liftR (raise_query result)) (\<lambda>_.
    retM [(k, the (map_of result k)). k \<leftarrow> status_keys, map_of result k \<noteq> None]))))"

definition retire_sessions :: "'w netops \<Rightarrow> json \<Rightarrow> ('w cstate, int) comp" where
  "retire_sessions N expected_epoch =
    (case expected_epoch of
       JInt expected \<Rightarrow>
         if \<not> (0 \<le> expected \<and> expected < 2 ^ 63 - 1) then raiseM (ValueError ''Invalid expected session epoch'')
         else with_lock (
           bindM ready (\<lambda>_. bindM connM (\<lambda>c.
           bindM (whenM (c_pending c \<noteq> None \<or> c_transaction c)
                   (PendingWriteError ''Resolve pending work before retiring sessions'')) (\<lambda>_.
           bindM (call N [(lit ''op'', JStr (lit ''retire_sessions'')), (lit ''session_epoch'', JInt expected)]) (\<lambda>response.
           bindM (liftR (raise_query response)) (\<lambda>_.
           (case dget response ''session_epoch'' of
              Some (JInt epoch) \<Rightarrow>
                if epoch < expected + 1
                then raiseM (ConnectionError ''Malformed retirement response; retry the same expected_epoch'')
                else retM epoch
            | _ \<Rightarrow> raiseM (ConnectionError ''Malformed retirement response; retry the same expected_epoch''))))))))
     | _ \<Rightarrow> raiseM (ValueError ''Invalid expected session epoch''))"

definition request_snapshot :: "'w netops \<Rightarrow> ('w cstate, int) comp" where
  "request_snapshot N = with_lock (
    bindM ready (\<lambda>_.
    bindM (call N [(lit ''op'', JStr (lit ''snapshot''))]) (\<lambda>response.
    bindM (liftR (raise_query response)) (\<lambda>_.
    (case dget response ''snapshot_requested'' of
       Some (JInt slot) \<Rightarrow> if slot \<le> 0 then raiseM (ConnectionError ''Malformed snapshot admission result'') else retM slot
     | _ \<Rightarrow> raiseM (ConnectionError ''Malformed snapshot admission result''))))))"

section \<open>Optimistic transactions\<close>

definition begin_optimistic :: "'w netops \<Rightarrow> ('w cstate, int) comp" where
  "begin_optimistic N = with_lock (
    bindM ready (\<lambda>_.
    bindM (call N [(lit ''op'', JStr (lit ''begin''))]) (\<lambda>response.
    bindM (liftR (raise_query response)) (\<lambda>_.
    (case (case dget response ''session_epoch'' of None \<Rightarrow> JInt 0 | Some v \<Rightarrow> v) of
       JInt epoch \<Rightarrow>
         if \<not> (0 \<le> epoch \<and> epoch < 2 ^ 63) then raiseM (ConnectionError ''Malformed transaction session epoch'')
         else bindM (setM (\<lambda>c. if c_epoch c = None then c\<lparr>c_epoch := Some epoch\<rparr> else c)) (\<lambda>_.
           (case dget response ''read_version'' of
              Some (JInt version) \<Rightarrow>
                if 1 \<le> version \<and> version < 2 ^ 63 then retM version
                else raiseM (ConnectionError ''Invalid transaction read version'')
            | _ \<Rightarrow> raiseM (ConnectionError ''Invalid transaction read version'')))
     | _ \<Rightarrow> raiseM (ConnectionError ''Malformed transaction session epoch''))))))"

definition preview :: "'w netops \<Rightarrow> pstr \<Rightarrow> pval list \<Rightarrow> json \<Rightarrow> pstr \<Rightarrow> pval list \<Rightarrow> ('w cstate, dict) comp" where
  "preview N body values version qtext qvalues = with_lock (
    bindM ready (\<lambda>_.
    bindM (liftR (mapR encode values)) (\<lambda>ps.
    bindM (liftR (mapR encode qvalues)) (\<lambda>qs.
    bindM (call N [(lit ''op'', JStr (lit ''preview'')), (lit ''sql'', JStr body), (lit ''read_version'', version),
                   (lit ''parameters'', JList ps), (lit ''read_sql'', JStr qtext), (lit ''read_parameters'', JList qs)]) (\<lambda>response.
    bindM (liftR (raise_query response)) (\<lambda>_.
    retM response))))))"

end
