(* ===== verification/World_Invariants.thy ===== *)
theory World_Invariants
  imports Client
begin

text \<open>
  Properties of the outside world that client calls keep. A locale states that a property
  \<open>I\<close> of the world survives every operation of \<open>netops\<close>, sending a frame only if the frame
  satisfies \<open>F\<close>; it follows that \<open>exchange\<close> and the retry loop keep it when the frames of the
  request satisfy \<open>F\<close>. Two uses: what has been sent is recorded by \<open>logged\<close> operations, so
  that \<open>I\<close> can speak of all frames ever sent, and time does not go backwards.
\<close>

section \<open>Computations that keep a property of the world\<close>

definition keeps :: "('w \<Rightarrow> bool) \<Rightarrow> ('t \<times> 'w, 'a) comp \<Rightarrow> bool" where
  "keeps I m \<longleftrightarrow> (\<forall>t w. I w \<longrightarrow> wlp m (\<lambda>_ s. I (snd s)) (\<lambda>_ s. I (snd s)) (t, w))"

named_theorems keeps_rules \<open>computations that keep a property of the world\<close>

lemma keeps_wlp: "keeps I m \<Longrightarrow> I (snd s) \<Longrightarrow> wlp m (\<lambda>_ s. I (snd s)) (\<lambda>_ s. I (snd s)) s"
  by (cases s) (simp add: keeps_def)

lemma keeps_basic [keeps_rules]:
  "keeps I (retM x)" "keeps I (raiseM e)" "keeps I (liftR r)" "keeps I getM" "keeps I (whenM b e)"
  by (auto simp: keeps_def split: sum.splits)

lemma keeps_socket [keeps_rules]: "keeps I socketM"
  by (auto simp: keeps_def wlp_def socketM_def split: option.splits)

lemma keeps_conn [keeps_rules]: "keeps I connM" "keeps I (setM f)"
  by (auto simp: keeps_def wlp_def connM_def setM_def)

lemma keeps_mod [keeps_rules]: "(\<And>t w. snd (g (t, w)) = w) \<Longrightarrow> keeps I (modM g)"
  by (auto simp: keeps_def)

lemma keeps_bind [keeps_rules]:
  assumes "keeps I m" and "\<And>x. keeps I (f x)"
  shows "keeps I (bindM m f)"
proof -
  have "wlp m (\<lambda>x. wlp (f x) (\<lambda>_ s. I (snd s)) (\<lambda>_ s. I (snd s))) (\<lambda>_ s. I (snd s)) (t, w)" if "I w" for t w
    by (rule wlp_mono [OF keeps_wlp [OF assms(1)]]) (use that keeps_wlp [OF assms(2)] in auto)
  then show ?thesis by (simp add: keeps_def)
qed

lemma keeps_try [keeps_rules]:
  assumes "keeps I m" and "\<And>e. keeps I (h e)"
  shows "keeps I (tryM m h)"
proof -
  have "wlp m (\<lambda>_ s. I (snd s)) (\<lambda>e. wlp (h e) (\<lambda>_ s. I (snd s)) (\<lambda>_ s. I (snd s))) (t, w)" if "I w" for t w
    by (rule wlp_mono [OF keeps_wlp [OF assms(1)]]) (use that keeps_wlp [OF assms(2)] in auto)
  then show ?thesis by (simp add: keeps_def)
qed

lemma keeps_if [keeps_rules]: "(b \<Longrightarrow> keeps I m) \<Longrightarrow> (\<not> b \<Longrightarrow> keeps I n) \<Longrightarrow> keeps I (if b then m else n)"
  by simp

lemma keeps_prod [keeps_rules]: "(\<And>a b. keeps I (f a b)) \<Longrightarrow> keeps I (case p of (a, b) \<Rightarrow> f a b)"
  by (cases p) simp

lemma keeps_option [keeps_rules]:
  "keeps I m \<Longrightarrow> (\<And>x. keeps I (f x)) \<Longrightarrow> keeps I (case p of None \<Rightarrow> m | Some x \<Rightarrow> f x)"
  by (cases p) simp_all

lemma keeps_onT [keeps_rules]: "keeps I m \<Longrightarrow> keeps I (onT m)"
  unfolding keeps_def onT_def wlp_def by (auto simp: case_prod_unfold split: option.splits sum.splits)

lemma keeps_lock [keeps_rules]: "keeps I m \<Longrightarrow> keeps I (with_lock m)"
  unfolding keeps_def with_lock_def wlp_def by (auto simp: case_prod_unfold split: option.splits sum.splits)

lemma keeps_worldI: "(\<And>w. I w \<Longrightarrow> I (snd (f w))) \<Longrightarrow> keeps I (worldM f)"
  by (auto simp: keeps_def split: prod.splits sum.splits) (metis snd_conv)+

lemma keeps_effectI: "(\<And>w. I w \<Longrightarrow> I (g w)) \<Longrightarrow> keeps I (effectM g)"
  by (auto simp: keeps_def)

section \<open>The interface\<close>

locale world_invariant =
  fixes N :: "'w netops"
    and I :: "'w \<Rightarrow> bool"
    and F :: "pbytes \<Rightarrow> bool"
  assumes I_clock: "I w \<Longrightarrow> I (snd (monotonic N w))"
    and I_sleep: "I w \<Longrightarrow> 0 \<le> d \<Longrightarrow> I (sleep N d w)"
    and I_connect: "I w \<Longrightarrow> I (snd (sock_connect N a d w))"
    and I_wrap: "I w \<Longrightarrow> I (snd (sock_wrap N k n w))"
    and I_sans: "I w \<Longrightarrow> I (snd (sock_sans N k w))"
    and I_send: "I w \<Longrightarrow> F b \<Longrightarrow> I (snd (sock_send N k b w))"
    and I_recv: "I w \<Longrightarrow> I (snd (sock_recv N k m w))"
    and I_timeout: "I w \<Longrightarrow> I (sock_timeout N k d w)"
    and I_nodelay: "I w \<Longrightarrow> I (snd (sock_nodelay N k w))"
    and I_close: "I w \<Longrightarrow> I (sock_close N k w)"
begin

lemma keeps_clock: "keeps I (clockM N)"
  using I_clock by (auto simp: keeps_def split: prod.splits) (metis snd_conv)

lemma keeps_remaining: "keeps I (remaining N d)"
  unfolding remaining_def by (intro keeps_rules keeps_clock)

lemma keeps_close: "keeps I (transport_close N)"
  using I_close by (auto simp: keeps_def split: option.splits)

lemmas keeps_ops = keeps_clock keeps_remaining keeps_close
  keeps_worldI [of I "sock_connect N a d" for a d, OF I_connect] keeps_worldI [of I "sock_wrap N k n" for k n, OF I_wrap]
  keeps_worldI [of I "sock_recv N k n" for k n, OF I_recv] keeps_worldI [of I "sock_nodelay N k" for k, OF I_nodelay]
  keeps_effectI [of I "sock_timeout N k d" for k d, OF I_timeout] keeps_effectI [of I "sock_close N k" for k, OF I_close]

lemma keeps_receive: "keeps I (receive N n d)"
proof -
  have chunk: "keeps I (receive_chunk N m d)" for m
    unfolding receive_chunk_def by (intro keeps_rules keeps_ops)
  have "wlp (receive_loop N n d data) (\<lambda>_ s. I (snd s)) (\<lambda>_ s. I (snd s)) s" if "I (snd s)" for data and s :: "'w tstate"
    using that
  proof (induction "n - length data" arbitrary: data s rule: less_induct)
    case less
    then show ?case
      by (subst wlp_receive_loop) (auto simp: diff_less_mono2 intro!: wlp_mono [OF keeps_wlp [OF chunk less.prems]])
  qed
  then show ?thesis by (simp add: keeps_def receive_def)
qed

lemma keeps_exchange:
  assumes "\<And>body. json_dumps N (JObj request) = Inr body \<Longrightarrow> F (frame body)"
  shows "keeps I (exchange N ep request d)"
proof -
  have sans: "keeps I (worldM (\<lambda>w. case sock_sans N k w of (x, w') \<Rightarrow> (Inr x, w')))" for k
    using I_sans by (intro keeps_worldI) (auto split: prod.splits, metis snd_conv)
  have open_ok: "keeps I (open_connection N ep d)"
    unfolding open_connection_def secure_socket_def
    by (intro keeps_rules keeps_ops sans) auto
  have reply: "keeps I (read_reply N d)"
    unfolding read_reply_def by (intro keeps_rules keeps_receive) (auto split: json.splits intro!: keeps_rules)
  show ?thesis
  proof (cases "json_dumps N (JObj request)")
    case (Inl e)
    then show ?thesis by (simp add: exchange_def keeps_def)
  next
    case (Inr body)
    have "keeps I (worldM (sock_send N k (frame body)))" for k
      by (rule keeps_worldI) (rule I_send, use assms Inr in auto)
    then have body: "keeps I (exchange_body N ep body d)"
      unfolding exchange_body_def by (intro keeps_rules keeps_ops open_ok reply)
    have "exchange N ep request d = bindM (liftR (Inr body)) (\<lambda>body.
      bindM (whenM (65536 < length body) (ValueError ''Encoded request exceeds 64 KiB'')) (\<lambda>_.
      tryM (exchange_body N ep body d)
      (\<lambda>e. if is_OSError e \<or> is_ValueError e \<or> is_ConnectionError e
           then bindM (transport_close N) (\<lambda>_. raiseM (ConnectionError ''str(exc)''))
           else raiseM e)))"
      unfolding exchange_def Inr ..
    also have "\<dots> = bindM (whenM (65536 < length body) (ValueError ''Encoded request exceeds 64 KiB'')) (\<lambda>_.
      tryM (exchange_body N ep body d)
      (\<lambda>e. if is_OSError e \<or> is_ValueError e \<or> is_ConnectionError e
           then bindM (transport_close N) (\<lambda>_. raiseM (ConnectionError ''str(exc)''))
           else raiseM e))"
      by (rule ext) simp
    finally show ?thesis by (simp only:) (intro keeps_rules keeps_ops body)
  qed
qed

lemma keeps_call_pass:
  assumes "\<And>v body. json_dumps N (JObj (dset request (lit ''timeout_ms'') v)) = Inr body \<Longrightarrow> F (frame body)"
  shows "keeps I (call_pass N d request)"
proof -
  have "keeps I (effectM (sleep N (min (1 / 100) (max 0 x))))" for x
    by (rule keeps_effectI) (rule I_sleep, auto)
  then have "keeps I (call_next N d)"
    unfolding call_next_def by (intro keeps_rules keeps_ops)
  moreover have "keeps I (call_try N ep (dset request (lit ''timeout_ms'') v) a)" for ep v a
    unfolding call_try_def by (intro keeps_rules keeps_ops keeps_exchange assms)
  ultimately show ?thesis
    unfolding call_pass_def by (intro keeps_rules keeps_ops)
qed

end

section \<open>Recording what is sent\<close>

text \<open>
  \<open>logged N\<close> does what \<open>N\<close> does and records every frame given to \<open>sendall\<close>, newest first.
\<close>

definition lift_log :: "('w \<Rightarrow> 'a \<times> 'w) \<Rightarrow> 'w \<times> pbytes list \<Rightarrow> 'a \<times> ('w \<times> pbytes list)" where
  "lift_log f = (\<lambda>(w, l). case f w of (r, w') \<Rightarrow> (r, (w', l)))"

definition logged :: "'w netops \<Rightarrow> ('w \<times> pbytes list) netops" where
  "logged N = \<lparr>monotonic = lift_log (monotonic N), sleep = (\<lambda>d (w, l). (sleep N d w, l)), token_hex = lift_log (token_hex N),
    ctx_load = (\<lambda>a b c. lift_log (ctx_load N a b c)), sock_connect = (\<lambda>a d. lift_log (sock_connect N a d)),
    sock_wrap = (\<lambda>k n. lift_log (sock_wrap N k n)), sock_sans = (\<lambda>k. lift_log (sock_sans N k)),
    sock_send = (\<lambda>k b (w, l). case sock_send N k b w of (r, w') \<Rightarrow> (r, (w', b # l))),
    sock_recv = (\<lambda>k n. lift_log (sock_recv N k n)), sock_timeout = (\<lambda>k d (w, l). (sock_timeout N k d w, l)),
    sock_nodelay = (\<lambda>k. lift_log (sock_nodelay N k)), sock_close = (\<lambda>k (w, l). (sock_close N k w, l)),
    json_dumps = json_dumps N, json_loads = json_loads N, b64decode = b64decode N, float_parse = float_parse N,
    unicode = unicode N\<rparr>"

lemma lift_log_simps [simp]:
  "fst (lift_log f wl) = fst (f (fst wl))" "snd (snd (lift_log f wl)) = snd wl" "fst (snd (lift_log f wl)) = snd (f (fst wl))"
  by (simp_all add: lift_log_def case_prod_unfold)

lemma logged_pure [simp]:
  "json_dumps (logged N) = json_dumps N" "json_loads (logged N) = json_loads N" "unicode (logged N) = unicode N"
  by (simp_all add: logged_def)

text \<open>The frames sent so far are all of the allowed kind: the instance of the interface on the log.\<close>

interpretation sent: world_invariant "logged N" "\<lambda>w. \<forall>b \<in> set (snd w). F b" F for N F
  by unfold_locales (auto simp: logged_def case_prod_unfold)

lemma logged_well_behaved: "well_behaved N \<Longrightarrow> well_behaved (logged N)"
  by (auto simp: well_behaved_def logged_def case_prod_unfold)

end
