(* ===== verification/Client_Facts.thy ===== *)
theory Client_Facts
  imports World_Invariants
begin

text \<open>
  What the client guarantees: the retry loop of \<open>_call\<close> changes nothing but the transport and the
  endpoint index, hands out validated replies only, and ends at the deadline; the connection
  invariant and the write-state machine of \<open>execute\<close> and \<open>resolve_pending\<close>.
\<close>

section \<open>Weakest preconditions of the object operations\<close>

lemma wlp_conn [simp]:
  "wlp connM Q E (c, w) = Q c (c, w)"
  "wlp (setM f) Q2 E (c, w) = Q2 () (f c, w)"
  "wlp (onT m) Q3 E (c, w) =
     wlp m (\<lambda>x s. Q3 x (c\<lparr>c_transport := fst s\<rparr>, snd s)) (\<lambda>e s. E e (c\<lparr>c_transport := fst s\<rparr>, snd s)) (c_transport c, w)"
  "wlp (with_lock m2) Q3 E (c, w) =
     wlp m2 (\<lambda>x s. Q3 x ((fst s)\<lparr>c_lock := c_lock (fst s) - 1\<rparr>, snd s))
           (\<lambda>e s. E e ((fst s)\<lparr>c_lock := c_lock (fst s) - 1\<rparr>, snd s)) (c\<lparr>c_lock := Suc (c_lock c)\<rparr>, w)"
  by (auto simp: wlp_def connM_def setM_def onT_def with_lock_def case_prod_unfold split: option.splits sum.splits)

lemma total_conn [total_rules]:
  "total connM" "total (setM f)" "total m \<Longrightarrow> total (onT m)" "total m2 \<Longrightarrow> total (with_lock m2)"
  by (auto simp: total_def returns_def connM_def setM_def onT_def with_lock_def case_prod_unfold split: option.splits)

lemma returns_lock: "returns m (c\<lparr>c_lock := Suc (c_lock c)\<rparr>, w) \<Longrightarrow> returns (with_lock m) (c, w)"
  by (auto simp: returns_def with_lock_def)

section \<open>The retry loop\<close>

text \<open>
  \<open>same_conn c c'\<close>: the two differ in the transport and the endpoint index only.
\<close>

definition same_conn :: "Connection \<Rightarrow> Connection \<Rightarrow> bool" where
  "same_conn c c' \<longleftrightarrow> c_endpoints c' = c_endpoints c \<and> c_cluster c' = c_cluster c \<and> c_timeout c' = c_timeout c
    \<and> c_session c' = c_session c \<and> c_sequence c' = c_sequence c \<and> c_pending c' = c_pending c \<and> c_epoch c' = c_epoch c
    \<and> c_lock c' = c_lock c \<and> c_closed c' = c_closed c \<and> c_transaction c' = c_transaction c"

text \<open>What the loop needs of the object: an endpoint to start with, a consistent transport.\<close>

definition net_ok :: "Connection \<Rightarrow> bool" where
  "net_ok c \<longleftrightarrow> c_index c < length (c_endpoints c) \<and> t_inv (c_transport c)"

lemma same_conn_refl [simp]: "same_conn c c"
  by (simp add: same_conn_def)

lemmas same_conn_fields = same_conn_def [THEN iffD1]

lemma same_conn_update [intro]:
  "same_conn c c' \<Longrightarrow> same_conn c (c'\<lparr>c_transport := t\<rparr>)"
  "same_conn c c' \<Longrightarrow> same_conn c (c'\<lparr>c_index := i\<rparr>)"
  "same_conn c c' \<Longrightarrow> same_conn c (c'\<lparr>c_transport := t, c_index := i\<rparr>)"
  by (simp_all add: same_conn_def)

text \<open>The reply a pass returns.\<close>

definition accepted :: "pstr \<Rightarrow> dict \<Rightarrow> dict \<Rightarrow> bool" where
  "accepted cluster request response \<longleftrightarrow>
     validate cluster response request = Inr () \<and> \<not> transient (dget response ''error'')"

lemma validate_timeout [simp]:
  "validate cl resp (dset request (lit ''timeout_ms'') v) = validate cl resp request"
  by (simp add: validate_def lit_def)

lemma accepted_timeout [simp]:
  "accepted cl (dset request (lit ''timeout_ms'') v) resp = accepted cl request resp"
  by (simp add: accepted_def)

text \<open>The exceptions a call may raise besides \<open>ConnectionError\<close>.\<close>

definition encoding_exn :: "'w netops \<Rightarrow> dict \<Rightarrow> exn \<Rightarrow> bool" where
  "encoding_exn N request e \<longleftrightarrow> e = ValueError ''Encoded request exceeds 64 KiB''
     \<or> (\<exists>v. json_dumps N (JObj (dset request (lit ''timeout_ms'') v)) = Inl e)"

lemma call_try_wlp:
  assumes "well_behaved N" and "same_conn c0 c" and "t_inv (c_transport c)"
    and "request' = dset request (lit ''timeout_ms'') v"
  shows "wlp (call_try N ep request' d)
     (\<lambda>r s. same_conn c0 (fst s) \<and> c_index (fst s) = c_index c \<and> t_inv (c_transport (fst s))
        \<and> (case r of None \<Rightarrow> True | Some resp \<Rightarrow> accepted (c_cluster c0) request resp))
     (\<lambda>e s. same_conn c0 (fst s) \<and> c_index (fst s) = c_index c \<and> t_inv (c_transport (fst s))
        \<and> \<not> is_ConnectionError e \<and> encoding_exn N request e) (c, w)"
proof -
  have cl: "c_cluster c = c_cluster c0" using same_conn_fields [OF assms(2)] by simp
  show ?thesis
    unfolding call_try_def
    apply simp
    apply (rule wlp_mono [OF exchange_wlp [OF assms(1,3)]])
    subgoal for x s
      using assms cl by (auto simp: accepted_def dest: t_inv_cases split: sum.splits)
        (auto simp: validate_def is_ConnectionError_def split: if_splits option.splits json.splits)
    subgoal for e s
      using assms by (auto simp: encoding_exn_def is_ConnectionError_def dest: t_inv_cases)
    done
qed

lemma call_pass_wlp:
  assumes "well_behaved N" and "same_conn c0 c" and "net_ok c"
  shows "wlp (call_pass N d request)
     (\<lambda>r s. same_conn c0 (fst s) \<and> net_ok (fst s)
        \<and> (case r of None \<Rightarrow> c_index (fst s) = (c_index c + 1) mod length (c_endpoints c)
           | Some resp \<Rightarrow> accepted (c_cluster c0) request resp))
     (\<lambda>e s. same_conn c0 (fst s) \<and> net_ok (fst s) \<and> \<not> is_ConnectionError e \<and> encoding_exn N request e) (c, w)"
proof -
  have ne: "c_index c < length (c_endpoints c)" "t_inv (c_transport c)" using assms(3) by (simp_all add: net_ok_def)
  then have pos: "0 < length (c_endpoints c)" by linarith
  have next_ok: "wlp (call_next N d)
      (\<lambda>_ s. same_conn c0 (fst s) \<and> net_ok (fst s) \<and> c_index (fst s) = (c_index c + 1) mod length (c_endpoints c))
      (\<lambda>_ _. False) s"
    if "same_conn c0 (fst s)" "c_index (fst s) = c_index c" for s
  proof -
    obtain c' w' where s: "s = (c', w')" by (cases s)
    have "c_endpoints c' = c_endpoints c"
      using same_conn_fields [of c0 c'] same_conn_fields [OF assms(2)] that s by simp
    then show ?thesis
      using that pos s
      by (auto simp: call_next_def net_ok_def t_inv_def split: prod.splits)
  qed
  have try_ok: "wlp (call_try N ep (dset request (lit ''timeout_ms'') v) a)
      (\<lambda>r. wlp (case r of None \<Rightarrow> bindM (call_next N d) (\<lambda>_. retM None) | Some response \<Rightarrow> retM (Some response))
        (\<lambda>r s. same_conn c0 (fst s) \<and> net_ok (fst s)
          \<and> (case r of None \<Rightarrow> c_index (fst s) = (c_index c + 1) mod length (c_endpoints c)
             | Some resp \<Rightarrow> accepted (c_cluster c0) request resp))
        (\<lambda>e s. same_conn c0 (fst s) \<and> net_ok (fst s) \<and> \<not> is_ConnectionError e \<and> encoding_exn N request e))
      (\<lambda>e s. same_conn c0 (fst s) \<and> net_ok (fst s) \<and> \<not> is_ConnectionError e \<and> encoding_exn N request e) (c, w')" for ep v a w'
  proof (rule wlp_mono [OF call_try_wlp [OF assms(1,2) ne(2) refl]])
    fix r and s :: "'a cstate"
    assume r: "same_conn c0 (fst s) \<and> c_index (fst s) = c_index c \<and> t_inv (c_transport (fst s))
        \<and> (case r of None \<Rightarrow> True | Some resp \<Rightarrow> accepted (c_cluster c0) request resp)"
    show "wlp (case r of None \<Rightarrow> bindM (call_next N d) (\<lambda>_. retM None) | Some response \<Rightarrow> retM (Some response))
        (\<lambda>r s. same_conn c0 (fst s) \<and> net_ok (fst s)
          \<and> (case r of None \<Rightarrow> c_index (fst s) = (c_index c + 1) mod length (c_endpoints c)
             | Some resp \<Rightarrow> accepted (c_cluster c0) request resp))
        (\<lambda>e s. same_conn c0 (fst s) \<and> net_ok (fst s) \<and> \<not> is_ConnectionError e \<and> encoding_exn N request e) s"
    proof (cases r)
      case None
      then show ?thesis using r next_ok [of s] by (auto elim!: wlp_mono)
    next
      case (Some resp)
      have "c_endpoints (fst s) = c_endpoints c"
        using same_conn_fields [of c0 "fst s"] same_conn_fields [OF assms(2)] r by simp
      then show ?thesis using r Some ne by (simp add: net_ok_def)
    qed
  next
    fix e and s :: "'a cstate"
    assume e: "same_conn c0 (fst s) \<and> c_index (fst s) = c_index c \<and> t_inv (c_transport (fst s))
        \<and> \<not> is_ConnectionError e \<and> encoding_exn N request e"
    then have "c_endpoints (fst s) = c_endpoints c"
      using same_conn_fields [of c0 "fst s"] same_conn_fields [OF assms(2)] by simp
    then show "same_conn c0 (fst s) \<and> net_ok (fst s) \<and> \<not> is_ConnectionError e \<and> encoding_exn N request e"
      using e ne by (simp add: net_ok_def)
  qed
  show ?thesis
    unfolding call_pass_def using ne(1) try_ok by (simp split: prod.splits)
qed

text \<open>Partial correctness of the loop, by fixed-point induction.\<close>

lemma call_loop_rule:
  assumes "I s"
    and clock: "\<And>c w t w'. I (c, w) \<Longrightarrow> monotonic N w = (t, w') \<Longrightarrow> I (c, w')"
    and timeout: "\<And>s. I s \<Longrightarrow> E (ConnectionError ''Operation deadline exceeded: {last_error}'') s"
    and pass: "\<And>s. I s \<Longrightarrow> wlp (call_pass N d request) (\<lambda>r t. case r of None \<Rightarrow> I t | Some resp \<Rightarrow> Q resp t) E s"
  shows "wlp (call_loop N d request) Q E s"
proof -
  define post where "post r = (case r of (Inl e, t) \<Rightarrow> E e t | (Inr x, t) \<Rightarrow> Q x t)" for r :: "dict res \<times> 'a cstate"
  have "N' = N \<and> d' = d \<and> q' = request \<and> I s' \<longrightarrow> post r'"
    if ret: "call_loop N' d' q' s' = Some r'" for N' d' q' s' r'
  proof (rule call_loop.raw_induct [where P = "\<lambda>N' d' q s r. N' = N \<and> d' = d \<and> q = request \<and> I s \<longrightarrow> post r", OF _ ret], rule impI)
    fix F N' d' q s r
    assume IH: "\<And>N' d' q s r. F N' d' q s = Some r \<Longrightarrow> N' = N \<and> d' = d \<and> q = request \<and> I s \<longrightarrow> post r"
      and eq: "Option.bind (clockM N' s) (\<lambda>(now, s1).
      case now of Inl e \<Rightarrow> Some (Inl e, s1) | Inr t1 \<Rightarrow>
      if \<not> t1 < d'
      then Some (Inl (ConnectionError ''Operation deadline exceeded: {last_error}''), s1)
      else Option.bind (call_pass N' d' q s1) (\<lambda>(r, s2).
        case r of
          Inl e \<Rightarrow> Some (Inl e, s2)
        | Inr (Some response) \<Rightarrow> Some (Inr response, s2)
        | Inr None \<Rightarrow> F N' d' q s2)) = Some r"
      and hyp: "N' = N \<and> d' = d \<and> q = request \<and> I s"
    obtain c w where s: "s = (c, w)" by (cases s)
    obtain t1 w' where m: "monotonic N w = (t1, w')" by fastforce
    have I1: "I (c, w')" using clock m hyp s by blast
    note p = pass [OF I1]
    have eqs: "N' = N" "d' = d" "q = request" using hyp by simp_all
    show "post r"
    proof (cases "t1 < d")
      case True
      then have b: "Option.bind (call_pass N d request (c, w')) (\<lambda>(r, s2). case r of Inl e \<Rightarrow> Some (Inl e, s2)
        | Inr (Some response) \<Rightarrow> Some (Inr response, s2) | Inr None \<Rightarrow> F N d request s2) = Some r"
        using eq s m unfolding eqs by (simp add: clockM_def)
      then obtain x s2 where x: "call_pass N d request (c, w') = Some (x, s2)"
        by (auto simp: bind_eq_Some_conv)
      show ?thesis
      proof (cases x)
        case (Inl e)
        then show ?thesis using b x wlp_Inl [OF p, of e s2] by (auto simp: post_def)
      next
        case (Inr y)
        then have y: "case y of None \<Rightarrow> I s2 | Some resp \<Rightarrow> Q resp s2" using wlp_Inr [OF p, of y s2] x by simp
        show ?thesis
        proof (cases y)
          case None
          then show ?thesis using b x y Inr IH by simp
        next
          case (Some resp)
          then show ?thesis using b x y Inr by (auto simp: post_def)
        qed
      qed
    next
      case False
      then show ?thesis using eq hyp s m timeout [OF I1] by (auto simp: clockM_def post_def)
    qed
  qed
  then show ?thesis using assms(1) by (auto simp: wlp_def post_def split: option.splits sum.splits)
qed

text \<open>
  The contract of \<open>_call\<close>: the reply was validated and is not transient; otherwise a
  \<open>ConnectionError\<close>, or the refusal to encode the request.
\<close>

abbreviation full_request :: "Connection \<Rightarrow> dict \<Rightarrow> dict" where
  "full_request c request \<equiv> dset (dset request (lit ''protocol'') (JInt 1)) (lit ''cluster'') (JStr (c_cluster c))"

lemma call_wlp:
  assumes "well_behaved N" and "net_ok c"
  shows "wlp (call N request)
     (\<lambda>resp s. same_conn c (fst s) \<and> net_ok (fst s) \<and> accepted (c_cluster c) (full_request c request) resp)
     (\<lambda>e s. same_conn c (fst s) \<and> net_ok (fst s) \<and> (is_ConnectionError e \<or> encoding_exn N (full_request c request) e)) (c, w)"
proof -
  have "wlp (call_loop N d (full_request c request))
     (\<lambda>resp s. same_conn c (fst s) \<and> net_ok (fst s) \<and> accepted (c_cluster c) (full_request c request) resp)
     (\<lambda>e s. same_conn c (fst s) \<and> net_ok (fst s) \<and> (is_ConnectionError e \<or> encoding_exn N (full_request c request) e)) (c, w')" for d w'
  proof (rule call_loop_rule [where I = "\<lambda>s. same_conn c (fst s) \<and> net_ok (fst s)"])
    fix s :: "'a cstate"
    assume "same_conn c (fst s) \<and> net_ok (fst s)"
    then show "wlp (call_pass N d (full_request c request))
       (\<lambda>r t. case r of None \<Rightarrow> same_conn c (fst t) \<and> net_ok (fst t)
          | Some resp \<Rightarrow> same_conn c (fst t) \<and> net_ok (fst t) \<and> accepted (c_cluster c) (full_request c request) resp)
       (\<lambda>e s. same_conn c (fst s) \<and> net_ok (fst s) \<and> (is_ConnectionError e \<or> encoding_exn N (full_request c request) e)) s"
      by (cases s) (auto intro!: wlp_mono [OF call_pass_wlp [OF assms(1)]] split: option.splits)
  qed (use assms in \<open>auto simp: is_ConnectionError_def\<close>)
  then show ?thesis by (simp add: call_def split: prod.splits)
qed

section \<open>What reaches the wire\<close>

context world_invariant
begin

lemma keeps_call:
  assumes "\<And>v cl body. json_dumps N (JObj (dset (dset (dset request (lit ''protocol'') (JInt 1)) (lit ''cluster'') (JStr cl))
      (lit ''timeout_ms'') v)) = Inr body \<Longrightarrow> F (frame body)"
  shows "keeps I (call N request)"
proof -
  have "keeps I (call_loop N d (dset (dset request (lit ''protocol'') (JInt 1)) (lit ''cluster'') (JStr cl)))" for d cl
    unfolding keeps_def
  proof (intro allI impI)
    fix c w assume "I w"
    then show "wlp (call_loop N d (dset (dset request (lit ''protocol'') (JInt 1)) (lit ''cluster'') (JStr cl)))
        (\<lambda>_ s. I (snd s)) (\<lambda>_ s. I (snd s)) (c, w)"
    proof (intro call_loop_rule [where I = "\<lambda>s. I (snd s)"])
      fix s :: "'w cstate" assume "I (snd s)"
      then show "wlp (call_pass N d (dset (dset request (lit ''protocol'') (JInt 1)) (lit ''cluster'') (JStr cl)))
         (\<lambda>r t. case r of None \<Rightarrow> I (snd t) | Some resp \<Rightarrow> I (snd t)) (\<lambda>_ s. I (snd s)) s"
        by (intro wlp_mono [OF keeps_wlp [OF keeps_call_pass]] assms) (auto split: option.splits)
    qed (auto dest: I_clock)
  qed
  then show ?thesis unfolding call_def by (intro keeps_rules keeps_ops)
qed

end

section \<open>The loop ends at the deadline\<close>

text \<open>
  What the loop relies on of the clock, with \<open>tm w\<close> the time in the world \<open>w\<close>: a reading is
  the current time, no operation turns the clock back, and \<open>sleep d\<close> lasts at least \<open>d\<close>.
\<close>

definition steady :: "'w netops \<Rightarrow> ('w \<Rightarrow> rat) \<Rightarrow> bool" where
  "steady N tm \<longleftrightarrow>
    (\<forall>w. fst (monotonic N w) = tm (snd (monotonic N w)) \<and> tm w \<le> tm (snd (monotonic N w))) \<and>
    (\<forall>d w. 0 \<le> d \<longrightarrow> tm w + d \<le> tm (sleep N d w)) \<and>
    (\<forall>a d w. tm w \<le> tm (snd (sock_connect N a d w))) \<and>
    (\<forall>k n w. tm w \<le> tm (snd (sock_wrap N k n w))) \<and>
    (\<forall>k w. tm w \<le> tm (snd (sock_sans N k w))) \<and>
    (\<forall>k b w. tm w \<le> tm (snd (sock_send N k b w))) \<and>
    (\<forall>k n w. tm w \<le> tm (snd (sock_recv N k n w))) \<and>
    (\<forall>k d w. tm w \<le> tm (sock_timeout N k d w)) \<and>
    (\<forall>k w. tm w \<le> tm (snd (sock_nodelay N k w))) \<and>
    (\<forall>k w. tm w \<le> tm (sock_close N k w))"

lemma steady_keeps:
  assumes "steady N tm"
  shows "world_invariant N (\<lambda>w. b \<le> tm w) (\<lambda>_. True)"
proof
  fix w :: 'a and d :: rat
  assume w: "b \<le> tm w"
  { assume "0 \<le> d"
    then have "tm w + d \<le> tm (sleep N d w)" using assms by (simp add: steady_def)
    then show "b \<le> tm (sleep N d w)" using w \<open>0 \<le> d\<close> by linarith }
qed (use assms in \<open>auto simp: steady_def intro: order_trans\<close>)

lemma total_call_pass [total_rules]: "total (call_pass N d request)"
proof -
  have "total (call_next N d)" unfolding call_next_def by (intro total_rules)
  moreover have "total (call_try N ep r a)" for ep r a unfolding call_try_def by (intro total_rules)
  ultimately show ?thesis
    unfolding call_pass_def by (intro total_rules) (auto split: option.splits intro!: total_rules)
qed

text \<open>A pass that fails lets at least ten milliseconds go by, or reaches the deadline.\<close>

lemma call_next_time:
  assumes "steady N tm" and "b \<le> tm w"
  shows "wlp (call_next N d) (\<lambda>_ s. min (b + 1 / 100) d \<le> tm (snd s)) (\<lambda>_ _. True) (c, w)"
proof -
  have sleep: "min (b + 1 / 100) d \<le> tm (sleep N (min (1 / 100) (max 0 (d - fst (monotonic N w')))) (snd (monotonic N w')))"
    if "b \<le> tm w'" for w'
  proof -
    let ?now = "fst (monotonic N w')" and ?v = "snd (monotonic N w')"
    have now: "?now = tm ?v" "tm w' \<le> tm ?v" using assms(1) by (simp_all add: steady_def)
    have "tm ?v + min (1 / 100) (max 0 (d - ?now)) \<le> tm (sleep N (min (1 / 100) (max 0 (d - ?now))) ?v)"
      using assms(1) by (simp add: steady_def)
    then show ?thesis using now that by (auto simp: min_def max_def split: if_splits)
  qed
  have close: "b \<le> tm (case k of None \<Rightarrow> w | Some x \<Rightarrow> sock_close N x w)" for k
    using assms by (auto simp: steady_def intro: order_trans split: option.splits)
  show ?thesis
    using sleep [OF close] by (auto simp: call_next_def split: prod.splits) (metis fst_conv snd_conv)
qed

lemma call_pass_time:
  assumes "steady N tm" and "b \<le> tm w"
  shows "wlp (call_pass N d request) (\<lambda>r s. r = None \<longrightarrow> min (b + 1 / 100) d \<le> tm (snd s)) (\<lambda>_ _. True) (c, w)"
proof -
  note wi = steady_keeps [OF assms(1), of b]
  have clock: "b \<le> tm (snd (monotonic N v))" if "b \<le> tm v" for v
    using that world_invariant.I_clock [OF wi] by blast
  have "wlp (call_try N ep q a) (\<lambda>r. wlp (case r of None \<Rightarrow> bindM (call_next N d) (\<lambda>_. retM None) | Some response \<Rightarrow> retM (Some response))
      (\<lambda>r s. r = None \<longrightarrow> min (b + 1 / 100) d \<le> tm (snd s)) (\<lambda>_ _. True)) (\<lambda>_ _. True) (c, v)"
    if "b \<le> tm v" for ep q a v
  proof (rule wlp_mono [OF keeps_wlp])
    show "keeps (\<lambda>w. b \<le> tm w) (call_try N ep q a)"
      unfolding call_try_def
      by (intro keeps_rules world_invariant.keeps_ops [OF wi] world_invariant.keeps_exchange [OF wi]) simp
    show "b \<le> tm (snd (c, v))" using that by simp
    fix r and s :: "'a cstate"
    assume "b \<le> tm (snd s)"
    then show "wlp (case r of None \<Rightarrow> bindM (call_next N d) (\<lambda>_. retM None) | Some response \<Rightarrow> retM (Some response))
      (\<lambda>r s. r = None \<longrightarrow> min (b + 1 / 100) d \<le> tm (snd s)) (\<lambda>_ _. True) s"
      by (cases s; cases r) (auto intro!: wlp_mono [OF call_next_time [OF assms(1)]])
  qed simp
  then show ?thesis
    unfolding call_pass_def using clock assms(2)
    by (simp split: prod.splits) (metis snd_conv)
qed

lemma call_loop_returns:
  assumes "steady N tm"
  shows "d - tm (snd s) \<le> of_nat k / 100 \<Longrightarrow> returns (call_loop N d request) s"
proof (induction k arbitrary: s)
  case (0 s)
  obtain c w where s: "s = (c, w)" by (cases s)
  have "fst (monotonic N w) = tm (snd (monotonic N w))" "tm w \<le> tm (snd (monotonic N w))"
    using assms by (simp_all add: steady_def)
  then have "d \<le> fst (monotonic N w)" using 0 s by simp
  then show ?case unfolding returns_def s
    by (subst call_loop.simps) (auto simp: clockM_def split: prod.splits)
next
  case (Suc k s)
  obtain c w where s: "s = (c, w)" by (cases s)
  obtain t1 w1 where m: "monotonic N w = (t1, w1)" by fastforce
  have "fst (monotonic N w) = tm (snd (monotonic N w))" "tm w \<le> tm (snd (monotonic N w))"
    using assms by (simp_all add: steady_def)
  then have t1: "t1 = tm w1" "tm w \<le> tm w1" by (simp_all add: m)
  have "returns (call_pass N d request) (c, w1)" using total_call_pass unfolding total_def by blast
  then obtain x s2 where x: "call_pass N d request (c, w1) = Some (x, s2)" by (auto simp: returns_def)
  have "returns (call_loop N d request) s2" if "x = Inr None" "t1 < d"
  proof (rule Suc.IH)
    have "min (tm w1 + 1 / 100) d \<le> tm (snd s2)"
      using wlp_Inr [OF call_pass_time [OF assms order_refl]] x that by blast
    then show "d - tm (snd s2) \<le> of_nat k / 100" using Suc.prems s t1 by (auto simp: field_simps min_def split: if_splits)
  qed
  then show ?case unfolding returns_def s
    by (subst call_loop.simps) (auto simp: clockM_def m x split: sum.splits option.splits)
qed

lemma total_call:
  assumes "steady N tm"
  shows "total (call N request)"
proof -
  have "total (call_loop N d q)" for d q
    unfolding total_def
  proof
    fix s :: "'a cstate"
    obtain k :: nat where "(d - tm (snd s)) * 100 \<le> of_nat k" using real_arch_simple by blast
    then have "d - tm (snd s) \<le> of_nat k / 100" by (simp add: field_simps)
    then show "returns (call_loop N d q) s" by (rule call_loop_returns [OF assms])
  qed
  then show ?thesis unfolding call_def by (intro total_rules)
qed

section \<open>Replies that were accepted\<close>

lemma accepted_fields:
  assumes "accepted cl request resp"
  obtains code where "dget resp ''error'' = Some (JStr code)"
    and "code \<notin> {lit ''Busy'', lit ''Unknown_Outcome'', lit ''Read_Timeout''}"
    and "dget resp ''status'' = Some (JStr (if code = [] then lit ''ok'' else lit ''error''))"
    and "\<And>name. name \<in> {''node'', ''applied'', ''changes'', ''sequence''} \<Longrightarrow> \<exists>i \<ge> 0. dget resp name = Some (JInt i)"
    and "eq_str (dget request ''op'') (lit ''execute'') \<Longrightarrow> dget resp ''sequence'' = dget request ''sequence''"
proof -
  have v: "validate cl resp request = Inr ()" and t: "\<not> transient (dget resp ''error'')"
    using assms by (simp_all add: accepted_def)
  obtain code where code: "dget resp ''error'' = Some (JStr code)"
    using v by (auto simp: validate_def split: if_splits option.splits json.splits)
  have st: "dget resp ''status'' = Some (JStr (lit ''ok'')) \<or> dget resp ''status'' = Some (JStr (lit ''error''))"
    and iff: "dget resp ''status'' = Some (JStr (lit ''ok'')) \<longleftrightarrow> code = []"
    using v code by (auto simp: validate_def eq_str_def split: if_splits)
  have names: "nonneg_int (dget resp name)" if "name \<in> {''node'', ''applied'', ''changes'', ''sequence''}" for name
    using v that by (auto simp: validate_def split: if_splits)
  have seq: "eq_str (dget request ''op'') (lit ''execute'') \<Longrightarrow> dget resp ''sequence'' = dget request ''sequence''"
    using v by (auto simp: validate_def split: if_splits)
  show thesis
  proof (rule that [OF code])
    show "code \<notin> {lit ''Busy'', lit ''Unknown_Outcome'', lit ''Read_Timeout''}"
      using t code by (auto simp: transient_def)
    show "dget resp ''status'' = Some (JStr (if code = [] then lit ''ok'' else lit ''error''))"
      using st iff by auto
    show "\<exists>i \<ge> 0. dget resp name = Some (JInt i)" if "name \<in> {''node'', ''applied'', ''changes'', ''sequence''}" for name
      using names [OF that] by (auto simp: nonneg_int_def split: option.splits json.splits)
  qed (rule seq)
qed

lemma accepted_write_result:
  assumes "accepted cl request resp"
  shows "\<exists>r. write_result resp = Inr r \<and> 0 \<le> wr_changes r \<and> 0 \<le> wr_applied r \<and> dget resp ''sequence'' = Some (JInt (wr_sequence r))"
proof (rule accepted_fields [OF assms])
  assume names: "\<And>name. name \<in> {''node'', ''applied'', ''changes'', ''sequence''} \<Longrightarrow> \<exists>i \<ge> 0. dget resp name = Some (JInt i)"
  from names [of "''node''"] names [of "''applied''"] names [of "''changes''"] names [of "''sequence''"]
  show ?thesis by (auto simp: write_result_def int_item_def)
qed

lemma accepted_raise_query:
  assumes "accepted cl request resp"
  shows "raise_query resp = Inr () \<longleftrightarrow> dget resp ''error'' = Some (JStr [])"
  by (rule accepted_fields [OF assms]) (auto simp: raise_query_def lit_def split: if_splits)

end
