(* ===== verification/Client_Writes.thy ===== *)
theory Client_Writes
  imports Client_Facts
begin

text \<open>
  The write side of the client: what a valid \<open>PendingWrite\<close> is and that it survives being saved
  and reloaded, the connection invariant, the abstract write machine that \<open>_resolve\<close> and
  \<open>_execute_prepared\<close> implement, and the frames that reach the wire.
\<close>

section \<open>Pending writes\<close>

definition session_ok :: "pstr \<Rightarrow> bool" where
  "session_ok s \<longleftrightarrow> length s = 32 \<and> list_all is_hex s \<and> \<not> list_all (\<lambda>c. c = 48) s"

definition pw_ok :: "PendingWrite \<Rightarrow> bool" where
  "pw_ok p \<longleftrightarrow> session_ok (pw_session p) \<and> 1 \<le> pw_sequence p \<and> pw_sequence p < 2 ^ 63
     \<and> pw_sql p \<noteq> [] \<and> 0 \<notin> set (pw_sql p) \<and> fits 4096 (pw_sql p)
     \<and> 0 \<le> pw_read_version p \<and> pw_read_version p < 2 ^ 63 \<and> 0 \<le> pw_epoch p \<and> pw_epoch p < 2 ^ 63
     \<and> length (pw_parameters p) \<le> 16 \<and> vec_total (pw_parameters p) \<le> 384 \<and> list_all encodable (pw_parameters p)"

lemma mapR_encodable: "(\<exists>ys. mapR encode vs = Inr ys) \<longleftrightarrow> list_all encodable vs"
  by (simp add: mapR_Inr_all encodable_def list_all_iff)

lemma pending_write_Inr_iff:
  "pending_write a b q ps rv ep = Inr p \<longleftrightarrow>
    pw_ok p \<and> a = JStr (pw_session p) \<and> b = JInt (pw_sequence p) \<and> q = JStr (pw_sql p) \<and> ps = pw_parameters p
    \<and> rv = JInt (pw_read_version p) \<and> ep = JInt (pw_epoch p)"
proof
  assume "pending_write a b q ps rv ep = Inr p"
  then show "pw_ok p \<and> a = JStr (pw_session p) \<and> b = JInt (pw_sequence p) \<and> q = JStr (pw_sql p) \<and> ps = pw_parameters p
    \<and> rv = JInt (pw_read_version p) \<and> ep = JInt (pw_epoch p)"
    using mapR_encodable [of ps]
    by (auto simp: pending_write_def pw_ok_def session_ok_def fits_def bindR_Inr_iff
        split: json.splits if_splits option.splits)
next
  assume r: "pw_ok p \<and> a = JStr (pw_session p) \<and> b = JInt (pw_sequence p) \<and> q = JStr (pw_sql p) \<and> ps = pw_parameters p
    \<and> rv = JInt (pw_read_version p) \<and> ep = JInt (pw_epoch p)"
  then obtain ys where ys: "mapR encode (pw_parameters p) = Inr ys" using mapR_encodable by (auto simp: pw_ok_def)
  show "pending_write a b q ps rv ep = Inr p"
    using r ys by (auto simp: pending_write_def pw_ok_def session_ok_def fits_def split: option.splits)
qed

text \<open>Parameters that the application's own objects can hold: vectors satisfy their invariant.\<close>

definition vals_ok :: "pval list \<Rightarrow> bool" where
  "vals_ok vs \<longleftrightarrow> (\<forall>v \<in> set vs. \<forall>xs. v = VVector xs \<longrightarrow> vec_ok xs)"

lemma json_param_roundtrip:
  assumes "encodable v" and "\<And>xs. v = VVector xs \<Longrightarrow> vec_ok xs"
  shows "json_param pf (param_json v) = Inr v"
proof (cases v)
  case (VVector xs)
  then have "vector_new pf (ISeq (map VFloat xs)) = Inr xs" using assms(2) vector_new_id by blast
  then show ?thesis using VVector by (simp add: json_param_def param_json_def json_iterable_def json_val_def o_def)
next
  case VOther
  with assms(1) show ?thesis by (simp add: encodable_def encode_def)
qed (simp_all add: json_param_def param_json_def json_val_def)

lemma pending_json_roundtrip:
  assumes "pw_ok p" and "vals_ok (pw_parameters p)"
  shows "pending_from_json pf (pending_to_json p) = Inr p"
proof -
  have "mapR (json_param pf) (map param_json (pw_parameters p)) = Inr (pw_parameters p)"
    using assms by (auto simp: mapR_Inr_iff list_all2_map1 pw_ok_def list_all_iff vals_ok_def
        intro!: list.rel_refl_strong json_param_roundtrip)
  moreover have "pending_write (JStr (pw_session p)) (JInt (pw_sequence p)) (JStr (pw_sql p)) (pw_parameters p)
      (JInt (pw_read_version p)) (JInt (pw_epoch p)) = Inr p"
    using assms by (simp add: pending_write_Inr_iff)
  ultimately show ?thesis
    by (simp add: pending_from_json_def pending_to_json_def iter_json_def lit_def)
qed

section \<open>The connection invariant\<close>

text \<open>A retained write carries the identity the connection would use next.\<close>

definition conn_inv :: "Connection \<Rightarrow> bool" where
  "conn_inv c \<longleftrightarrow> net_ok c \<and> 1 \<le> c_sequence c
     \<and> (\<forall>ep. c_epoch c = Some ep \<longrightarrow> 0 \<le> ep \<and> ep < 2 ^ 63)
     \<and> (\<forall>p. c_pending c = Some p \<longrightarrow>
          pw_ok p \<and> pw_session p = c_session c \<and> pw_sequence p = c_sequence c \<and> c_epoch c = Some (pw_epoch p))"

lemma same_conn_inv: "same_conn c c' \<Longrightarrow> net_ok c' \<Longrightarrow> conn_inv c \<Longrightarrow> conn_inv c'"
  by (simp add: same_conn_def conn_inv_def)

lemma conn_inv_net: "conn_inv c \<Longrightarrow> net_ok c"
  by (simp add: conn_inv_def)

text \<open>
  What a method may change of the write state: \<open>frame_conn c c'\<close> leaves configuration, session
  and lock alone.
\<close>

definition frame_conn :: "Connection \<Rightarrow> Connection \<Rightarrow> bool" where
  "frame_conn c c' \<longleftrightarrow> c_endpoints c' = c_endpoints c \<and> c_cluster c' = c_cluster c \<and> c_timeout c' = c_timeout c
    \<and> c_session c' = c_session c \<and> c_lock c' = c_lock c \<and> c_closed c' = c_closed c \<and> c_transaction c' = c_transaction c"

lemma same_frame: "same_conn c c' \<Longrightarrow> frame_conn c c'"
  by (simp add: same_conn_def frame_conn_def)

lemma frame_trans: "frame_conn a b \<Longrightarrow> frame_conn b c \<Longrightarrow> frame_conn a c"
  by (simp add: frame_conn_def)

lemma frame_lock: "frame_conn (c\<lparr>c_lock := Suc (c_lock c)\<rparr>) c' \<Longrightarrow> frame_conn c (c'\<lparr>c_lock := c_lock c' - 1\<rparr>)"
  by (simp add: frame_conn_def)

lemma inv_lock [simp]: "conn_inv (c\<lparr>c_lock := n\<rparr>) = conn_inv c"
  by (simp add: conn_inv_def net_ok_def)

lemma wlp_ready [simp]:
  "wlp ready Q E (c, w) =
    (if c_closed c then E (ConnectionError ''Connection is closed'') (c, w)
     else if c_transaction c
       then E (PendingWriteError ''Use the transaction's execute() while building an atomic batch'') (c, w)
     else Q () (c, w))"
  by (simp add: ready_def)

section \<open>The write machine\<close>

text \<open>
  The write state of a connection is the next sequence number and the unresolved write, if any.
  \<open>write_step p\<close> relates the states around one attempt to settle the pending write \<open>p\<close>:
  a definite answer of the server retires the identity (or frees it, when the server did not read
  the request as one), anything else keeps the write pending.
\<close>

definition freeing_codes :: "pstr list" where
  "freeing_codes = [lit ''Invalid_Request'', lit ''Unsupported'']"

inductive write_step :: "(exn \<Rightarrow> bool) \<Rightarrow> PendingWrite \<Rightarrow> int \<Rightarrow> WriteResult res \<Rightarrow> int \<times> PendingWrite option \<Rightarrow> bool" for U p n where
  committed: "wr_sequence r = pw_sequence p \<Longrightarrow> write_step U p n (Inr r) (n + 1, None)"
| rejected: "code \<in> set final_codes - set freeing_codes \<Longrightarrow> code \<noteq> [] \<Longrightarrow>
    e \<in> {QueryError (JStr code), ConstraintError (JStr code), SerializationError (JStr code)} \<Longrightarrow>
    write_step U p n (Inl e) (n + 1, None)"
| freed: "code \<in> set freeing_codes \<Longrightarrow> write_step U p n (Inl (QueryError (JStr code))) (n, None)"
| uncertain: "write_step U p n (Inl (UnknownOutcome p)) (n, Some p)"
| stale: "code \<in> set session_codes \<Longrightarrow> write_step U p n (Inl (SessionError (JStr code))) (n, Some p)"
| unencoded: "U e \<Longrightarrow> write_step U p n (Inl e) (n, Some p)"

inductive_cases write_step_InrE: "write_step U p n (Inr r) s"
inductive_simps write_step_Inr_iff: "write_step U p n (Inr r) (m, q)"

text \<open>Only the sequence number and the pending write differ.\<close>

definition write_only :: "Connection \<Rightarrow> Connection \<Rightarrow> bool" where
  "write_only c c' \<longleftrightarrow> frame_conn c c' \<and> c_epoch c' = c_epoch c \<and> c_index c' = c_index c \<and> c_transport c' = c_transport c"

lemma write_only_updates [simp]:
  "write_only c c" "write_only c (c\<lparr>c_pending := q\<rparr>)" "write_only c (c\<lparr>c_pending := q, c_sequence := n\<rparr>)"
  by (simp_all add: write_only_def frame_conn_def)

text \<open>\<open>_resolve\<close> after the reply: every code of the server is one step of the machine.\<close>

lemma settle_wlp:
  assumes "accepted cl request resp" and "eq_str (dget request ''op'') (lit ''execute'')"
    and "dget request ''sequence'' = Some (JInt (pw_sequence p))" and "c_pending c = Some p"
  shows "wlp (settle p resp)
     (\<lambda>r s. write_step U p (c_sequence c) (Inr r) (c_sequence (fst s), c_pending (fst s))
        \<and> write_only c (fst s))
     (\<lambda>e s. write_step U p (c_sequence c) (Inl e) (c_sequence (fst s), c_pending (fst s))
        \<and> write_only c (fst s)) (c, w)"
proof -
  obtain r where r: "write_result resp = Inr r" "wr_sequence r = pw_sequence p"
    using accepted_write_result [OF assms(1)] accepted_fields [OF assms(1)] assms(2,3) by fastforce
  have fin: "code \<in> set final_codes \<Longrightarrow> code \<notin> set freeing_codes \<Longrightarrow> code \<noteq> [] \<Longrightarrow>
      code \<in> {lit ''Constraint'', lit ''Policy'', lit ''Sequence_Gap'', lit ''Invalid_SQL'', lit ''Conflict''}" for code
    by (auto simp: final_codes_def freeing_codes_def lit_def)
  show ?thesis
  proof (rule accepted_fields [OF assms(1)])
    fix code
    assume code: "dget resp ''error'' = Some (JStr code)"
    consider (session) "code \<in> set session_codes"
      | (unknown) "code \<notin> set session_codes" "code \<notin> set final_codes"
      | (free) "code \<in> set freeing_codes"
      | (ok) "code = []"
      | (final) "code \<notin> set session_codes" "code \<in> set final_codes" "code \<notin> set freeing_codes" "code \<noteq> []"
      by blast
    then show ?thesis
    proof cases
      case session
      then show ?thesis using code assms(4) by (simp add: settle_def write_step.stale)
    next
      case unknown
      then show ?thesis using code assms(4) by (simp add: settle_def write_step.uncertain)
    next
      case free
      then have "code \<notin> set session_codes" "code \<in> set final_codes" "code \<noteq> []"
        "code \<noteq> lit ''Conflict''" "code \<noteq> lit ''Constraint''"
        by (auto simp: freeing_codes_def session_codes_def final_codes_def lit_def)
      then show ?thesis using code free
        by (auto simp: settle_def freeing_codes_def intro!: write_step.freed)
    next
      case ok
      then have "code \<notin> set session_codes" "code \<in> set final_codes" "code \<notin> {lit ''Invalid_Request'', lit ''Unsupported''}"
        "code \<noteq> lit ''Conflict''"
        by (auto simp: session_codes_def final_codes_def lit_def)
      then show ?thesis using code ok r
        by (auto simp: settle_def intro!: write_step.committed)
    next
      case final
      then have "code \<notin> {lit ''Invalid_Request'', lit ''Unsupported''}" by (auto simp: freeing_codes_def)
      with final code show ?thesis
        by (auto simp: settle_def intro!: write_step.rejected [of code])
    qed
  qed
qed

definition unencodable :: "'w netops \<Rightarrow> exn \<Rightarrow> bool" where
  "unencodable N e \<longleftrightarrow> (\<exists>request. encoding_exn N request e)"

text \<open>The state after an attempt to settle \<open>p\<close> on the connection \<open>c\<close>.\<close>

definition settled :: "'w netops \<Rightarrow> PendingWrite \<Rightarrow> Connection \<Rightarrow> WriteResult res \<Rightarrow> Connection \<Rightarrow> bool" where
  "settled N p c r c' \<longleftrightarrow> write_step (unencodable N) p (c_sequence c) r (c_sequence c', c_pending c')
     \<and> frame_conn c c' \<and> c_epoch c' = c_epoch c \<and> conn_inv c'"

lemma write_step_state:
  "write_step U p n r (m, q) \<Longrightarrow> (m = n \<and> (q = None \<or> q = Some p)) \<or> (m = n + 1 \<and> q = None)"
  by (erule write_step.cases) auto

lemma resolve_wlp:
  assumes "well_behaved N" and "conn_inv c" and "c_pending c = Some p"
  shows "wlp (resolve N) (\<lambda>r s. settled N p c (Inr r) (fst s)) (\<lambda>e s. settled N p c (Inl e) (fst s)) (c, w)"
proof -
  have p: "pw_ok p" "pw_sequence p = c_sequence c" using assms(2,3) by (simp_all add: conn_inv_def)
  then obtain ps where ps: "mapR encode (pw_parameters p) = Inr ps" using mapR_encodable by (auto simp: pw_ok_def)
  define req where "req = [(lit ''op'', JStr (lit ''execute'')), (lit ''sql'', JStr (pw_sql p)), (lit ''session'', JStr (pw_session p)),
         (lit ''sequence'', JInt (pw_sequence p)), (lit ''session_epoch'', JInt (pw_epoch p)),
         (lit ''read_version'', JInt (pw_read_version p)), (lit ''parameters'', JList ps)]"
  have req: "execute_request p = Inr req" by (simp add: execute_request_def ps req_def)
  have op: "eq_str (dget (full_request c req) ''op'') (lit ''execute'')"
    "dget (full_request c req) ''sequence'' = Some (JInt (pw_sequence p))"
    by (simp_all add: req_def eq_str_def lit_def)
  have keep: "settled N p c (Inl e) c'"
    if "same_conn c c'" "net_ok c'" "write_step (unencodable N) p (c_sequence c) (Inl e) (c_sequence c, Some p)" for e c'
    using that assms(2,3) same_conn_inv [OF that(1,2)] same_frame [OF that(1)]
    by (auto simp: settled_def same_conn_def)
  have settle: "wlp (settle p resp) (\<lambda>r s. settled N p c (Inr r) (fst s)) (\<lambda>e s. settled N p c (Inl e) (fst s)) s"
    if s: "same_conn c (fst s)" "net_ok (fst s)" and acc: "accepted (c_cluster c) (full_request c req) resp"
    for resp and s :: "'a cstate"
  proof -
    obtain c1 w1 where s1: "s = (c1, w1)" by (cases s)
    have "conn_inv c1" using s s1 assms(2) same_conn_inv by fastforce
    then have c1: "c_pending c1 = Some p" "c_sequence c1 = c_sequence c" "net_ok c1" "conn_inv c1"
      using s s1 assms(3) by (simp_all add: same_conn_def)
    have fin: "settled N p c r c'"
      if "write_step (unencodable N) p (c_sequence c1) r (c_sequence c', c_pending c')"
        "write_only c1 c'" for r c'
    proof -
      have f: "frame_conn c c'" "c_epoch c' = c_epoch c" "net_ok c'"
        using that(2) s(1) s1 c1(3) by (auto simp: write_only_def frame_conn_def same_conn_def net_ok_def)
      have "conn_inv c'"
        using write_step_state [OF that(1)] f c1 assms(2,3) by (auto simp: conn_inv_def frame_conn_def)
      then show ?thesis using that(1) f c1(2) by (simp add: settled_def)
    qed
    show ?thesis unfolding s1
      by (rule wlp_mono [OF settle_wlp [OF acc op c1(1), where U = "unencodable N"]]) (use fin in auto)
  qed
  have un: "write_step (unencodable N) p (c_sequence c) (Inl (UnknownOutcome p)) (c_sequence c, Some p)"
    by (rule write_step.uncertain)
  have en: "write_step (unencodable N) p (c_sequence c) (Inl e) (c_sequence c, Some p)" if "encoding_exn N rq e" for e rq
    by (rule write_step.unencoded) (use that in \<open>auto simp: unencodable_def\<close>)
  show ?thesis
    unfolding resolve_def
    using assms(3)
    by (simp add: req) (rule wlp_mono [OF call_wlp [OF assms(1) conn_inv_net [OF assms(2)], of req]];
        use settle keep un en in auto)
qed

section \<open>Submitting\<close>

lemma session_epoch_wlp:
  assumes "well_behaved N" and "net_ok c"
  shows "wlp (session_epoch N)
     (\<lambda>ep s. same_conn c (fst s) \<and> net_ok (fst s) \<and> 0 \<le> ep \<and> ep < 2 ^ 63)
     (\<lambda>e s. same_conn c (fst s) \<and> net_ok (fst s)) (c, w)"
proof -
  have net: "net_ok (c\<lparr>c_lock := Suc (c_lock c)\<rparr>)" using assms(2) by (simp add: net_ok_def)
  have unlock: "same_conn c (c'\<lparr>c_lock := c_lock c' - 1\<rparr>) \<and> net_ok (c'\<lparr>c_lock := c_lock c' - 1\<rparr>)"
    if "same_conn (c\<lparr>c_lock := Suc (c_lock c)\<rparr>) c'" "net_ok c'" for c'
    using that by (simp add: same_conn_def net_ok_def)
  show ?thesis
    unfolding session_epoch_def
    using unlock [of "c\<lparr>c_lock := Suc (c_lock c)\<rparr>"] net
    by simp (rule impI, rule impI, rule wlp_mono [OF call_wlp [OF assms(1) net]];
        use unlock in \<open>auto split: sum.splits option.splits json.splits\<close>)
qed

text \<open>
  The outcome of submitting a body: \<open>None\<close> for a refusal that changed nothing of the write state,
  \<open>Some p\<close> when the write \<open>p\<close> was made with the connection's identity and one attempt was
  made to settle it.
\<close>

definition submitted :: "'w netops \<Rightarrow> pstr \<Rightarrow> pval list \<Rightarrow> int \<Rightarrow> Connection \<Rightarrow> WriteResult res \<Rightarrow> Connection \<Rightarrow> bool" where
  "submitted N body vs rv c r c' \<longleftrightarrow> conn_inv c' \<and> frame_conn c c' \<and>
    ((\<exists>e. r = Inl e) \<and> c_sequence c' = c_sequence c \<and> c_pending c' = c_pending c
     \<or> c_pending c = None \<and> (\<exists>p. pw_ok p \<and> pw_sql p = body \<and> pw_parameters p = vs \<and> pw_read_version p = rv
          \<and> pw_session p = c_session c \<and> pw_sequence p = c_sequence c
          \<and> write_step (unencodable N) p (c_sequence c) r (c_sequence c', c_pending c')))"

text \<open>The end of \<open>_execute_prepared\<close>, once the epoch is known.\<close>

definition submit :: "'w netops \<Rightarrow> pstr \<Rightarrow> pval list \<Rightarrow> int \<Rightarrow> ('w cstate, WriteResult) comp" where
  "submit N body vs rv = bindM connM (\<lambda>c.
    bindM (liftR (pending_write (JStr (c_session c)) (JInt (c_sequence c)) (JStr body) vs (JInt rv)
             (case c_epoch c of None \<Rightarrow> JNull | Some ep \<Rightarrow> JInt ep))) (\<lambda>p.
    bindM (setM (\<lambda>c. c\<lparr>c_pending := Some p\<rparr>)) (\<lambda>_. resolve N)))"

lemma submit_wlp:
  assumes "well_behaved N" and "frame_conn c c1" "c_sequence c1 = c_sequence c" "c_pending c1 = None" "c_pending c = None"
    "conn_inv c1" "c_epoch c1 \<noteq> None"
  shows "wlp (submit N body vs rv)
     (\<lambda>r s. submitted N body vs rv c (Inr r) (fst s)) (\<lambda>e s. submitted N body vs rv c (Inl e) (fst s)) (c1, w1)"
proof (cases "pending_write (JStr (c_session c1)) (JInt (c_sequence c1)) (JStr body) vs (JInt rv)
             (case c_epoch c1 of None \<Rightarrow> JNull | Some ep \<Rightarrow> JInt ep)")
  case (Inl e)
  then show ?thesis using assms by (simp add: submitted_def submit_def)
next
  case (Inr p)
  then have p: "pw_ok p" "pw_session p = c_session c1" "pw_sequence p = c_sequence c1" "pw_sql p = body"
      "pw_parameters p = vs" "pw_read_version p = rv" "c_epoch c1 = Some (pw_epoch p)"
    using assms(7) by (auto simp: pending_write_Inr_iff)
  have inv: "conn_inv (c1\<lparr>c_pending := Some p\<rparr>)" using assms(6) p by (simp add: conn_inv_def net_ok_def)
  have fin: "submitted N body vs rv c r c'" if "settled N p (c1\<lparr>c_pending := Some p\<rparr>) r c'" for r c'
    using that assms p by (auto simp: settled_def submitted_def frame_conn_def intro!: exI [of _ p])
  have "wlp (resolve N) (\<lambda>r s. submitted N body vs rv c (Inr r) (fst s)) (\<lambda>e s. submitted N body vs rv c (Inl e) (fst s))
      (c1\<lparr>c_pending := Some p\<rparr>, w1)"
    by (rule wlp_mono [OF resolve_wlp [OF assms(1) inv, of p]]) (use fin in simp_all)
  then show ?thesis using Inr by (simp add: submit_def)
qed

lemma execute_prepared_wlp:
  assumes "well_behaved N" and "conn_inv c"
  shows "wlp (execute_prepared N body vs (JInt rv))
     (\<lambda>r s. submitted N body vs rv c (Inr r) (fst s)) (\<lambda>e s. submitted N body vs rv c (Inl e) (fst s)) (c, w)"
proof -
  have refuse: "submitted N body vs rv c (Inl e) c'" if "same_conn c c'" "net_ok c'" for e c'
    using that same_conn_inv [OF that assms(2)] same_frame by (auto simp: submitted_def same_conn_def)
  have split: "execute_prepared N body vs (JInt rv) = bindM connM (\<lambda>c0.
      bindM (whenM (c_pending c0 \<noteq> None) (PendingWriteError ''Resolve the outstanding write before submitting another'')) (\<lambda>_.
      bindM (if c_epoch c0 = None
             then bindM (session_epoch N) (\<lambda>ep. setM (\<lambda>c. c\<lparr>c_epoch := Some ep\<rparr>)) else retM ()) (\<lambda>_. submit N body vs rv)))"
    by (simp add: execute_prepared_def submit_def)
  consider (busy) q where "c_pending c = Some q" | (begun) ep where "c_pending c = None" "c_epoch c = Some ep"
    | (fresh) "c_pending c = None" "c_epoch c = None" by (cases "c_pending c"; cases "c_epoch c") auto
  then show ?thesis
  proof cases
    case busy
    then show ?thesis using refuse [of c] conn_inv_net [OF assms(2)] by (simp add: split)
  next
    case begun
    then show ?thesis using submit_wlp [OF assms(1), of c c] assms(2) by (simp add: split frame_conn_def)
  next
    case fresh
    have "wlp (submit N body vs rv) (\<lambda>r s. submitted N body vs rv c (Inr r) (fst s)) (\<lambda>e s. submitted N body vs rv c (Inl e) (fst s))
        (c2\<lparr>c_epoch := Some ep\<rparr>, w2)" if "same_conn c c2" "net_ok c2" "0 \<le> ep" "ep < 2 ^ 63" for ep c2 w2
    proof -
      have "conn_inv (c2\<lparr>c_epoch := Some ep\<rparr>)"
        using same_conn_inv [OF that(1,2) assms(2)] that fresh by (auto simp: conn_inv_def net_ok_def same_conn_def)
      then show ?thesis
        using submit_wlp [OF assms(1), of c "c2\<lparr>c_epoch := Some ep\<rparr>"] that fresh by (simp add: same_conn_def frame_conn_def)
    qed
    then show ?thesis using fresh
      by (simp add: split) (rule wlp_mono [OF session_epoch_wlp [OF assms(1) conn_inv_net [OF assms(2)]]]; use refuse in auto)
  qed
qed

lemma locked_wlp:
  assumes "\<And>c. conn_inv c \<Longrightarrow> wlp m (\<lambda>r s. submitted N body vs rv c (Inr r) (fst s)) (\<lambda>e s. submitted N body vs rv c (Inl e) (fst s)) (c, w)"
    and "conn_inv c"
  shows "wlp (with_lock (bindM ready (\<lambda>_. m)))
    (\<lambda>r s. submitted N body vs rv c (Inr r) (fst s)) (\<lambda>e s. submitted N body vs rv c (Inl e) (fst s)) (c, w)"
proof -
  let ?c = "c\<lparr>c_lock := Suc (c_lock c)\<rparr>"
  have un: "submitted N body vs rv c r (c'\<lparr>c_lock := c_lock c' - 1\<rparr>)" if "submitted N body vs rv ?c r c'" for r c'
    using that by (auto simp: submitted_def frame_conn_def)
  have id: "submitted N body vs rv ?c (Inl e) ?c" for e
    using assms(2) by (simp add: submitted_def frame_conn_def)
  have m: "wlp m (\<lambda>r s. submitted N body vs rv ?c (Inr r) (fst s)) (\<lambda>e s. submitted N body vs rv ?c (Inl e) (fst s)) (?c, w)"
    by (rule assms(1)) (use assms(2) in simp)
  show ?thesis
    using un [OF id] by simp (rule impI, rule impI, rule wlp_mono [OF m]; use un in auto)
qed

lemma execute_wlp:
  assumes "well_behaved N" and "conn_inv c"
  shows "wlp (execute N sql ps)
     (\<lambda>r s. \<exists>body vs. prepare (unicode N) sql ps 0 = Inr (body, vs) \<and> submitted N body vs 0 c (Inr r) (fst s))
     (\<lambda>e s. prepare (unicode N) sql ps 0 = Inl e \<and> s = (c, w)
        \<or> (\<exists>body vs. prepare (unicode N) sql ps 0 = Inr (body, vs) \<and> submitted N body vs 0 c (Inl e) (fst s))) (c, w)"
proof (cases "prepare (unicode N) sql ps 0")
  case (Inl e)
  then show ?thesis by (simp add: execute_def)
next
  case (Inr b)
  obtain body vs where b: "b = (body, vs)" by (cases b)
  have "wlp (with_lock (bindM ready (\<lambda>_. execute_prepared N body vs (JInt 0))))
    (\<lambda>r s. submitted N body vs 0 c (Inr r) (fst s)) (\<lambda>e s. submitted N body vs 0 c (Inl e) (fst s)) (c, w)"
    by (rule locked_wlp [OF execute_prepared_wlp [OF assms(1)] assms(2)])
  then show ?thesis using Inr b
    by (simp add: execute_def del: wlp_conn)
qed

text \<open>\<open>resolve_pending\<close> retries the retained write and nothing else.\<close>

lemma resolve_pending_wlp:
  assumes "well_behaved N" and "conn_inv c"
  shows "wlp (resolve_pending N)
     (\<lambda>r s. \<exists>p. c_pending c = Some p \<and> settled N p c (Inr r) (fst s))
     (\<lambda>e s. s = (c, w) \<or> (\<exists>p. c_pending c = Some p \<and> settled N p c (Inl e) (fst s))) (c, w)"
proof -
  let ?c = "c\<lparr>c_lock := Suc (c_lock c)\<rparr>"
  have un: "settled N p c r (c'\<lparr>c_lock := c_lock c' - 1\<rparr>)" if "settled N p ?c r c'" for p r c'
    using that by (auto simp: settled_def frame_conn_def)
  show ?thesis
  proof (cases "c_pending c")
    case None
    then show ?thesis by (simp add: resolve_pending_def)
  next
    case (Some p)
    have "wlp (resolve N) (\<lambda>r s. settled N p ?c (Inr r) (fst s)) (\<lambda>e s. settled N p ?c (Inl e) (fst s)) (?c, w)"
      by (rule resolve_wlp [OF assms(1)]) (use assms(2) Some in simp_all)
    then show ?thesis using Some un
      by (simp add: resolve_pending_def) (auto elim!: wlp_mono)
  qed
qed

end
