(* ===== verification/Client_Reads.thy ===== *)
theory Client_Reads
  imports Client_Writes
begin

text \<open>
  Reads and administration of the client: the calls that leave the write state alone, what they
  promise of their results, and the runs of a connection object over any sequence of its methods.
\<close>

section \<open>Locked calls\<close>

abbreviation unlocked :: "Connection \<times> 'w \<Rightarrow> Connection \<times> 'w" where
  "unlocked s \<equiv> ((fst s)\<lparr>c_lock := c_lock (fst s) - 1\<rparr>, snd s)"

lemma same_conn_lock:
  "same_conn (c\<lparr>c_lock := Suc (c_lock c)\<rparr>) c' \<Longrightarrow> same_conn c (c'\<lparr>c_lock := c_lock c' - Suc 0\<rparr>)"
  by (simp add: same_conn_def)

lemma net_ok_lock [simp]: "net_ok (c\<lparr>c_lock := n\<rparr>) = net_ok c"
  by (simp add: net_ok_def)

text \<open>
  The shape shared by the read methods: \<open>with self._lock\<close>, \<open>_ready\<close>, one \<open>_call\<close>, then
  a continuation on the accepted reply.
\<close>

lemma locked_call_wlp:
  assumes "well_behaved N" and "net_ok c"
    and reply: "\<And>resp c' w'. same_conn (c\<lparr>c_lock := Suc (c_lock c)\<rparr>) c' \<Longrightarrow> net_ok c' \<Longrightarrow>
        accepted (c_cluster c) (full_request c request) resp \<Longrightarrow>
        wlp (k resp) (\<lambda>x s. Q x (unlocked s)) (\<lambda>e s. E e (unlocked s)) (c', w')"
    and fail: "\<And>e c' w'. same_conn c c' \<Longrightarrow> net_ok c' \<Longrightarrow> E e (c', w')"
  shows "wlp (with_lock (bindM ready (\<lambda>_. bindM (call N request) k))) Q E (c, w)"
proof -
  let ?c = "c\<lparr>c_lock := Suc (c_lock c)\<rparr>"
  have "wlp (call N request) (\<lambda>x. wlp (k x) (\<lambda>x s. Q x (unlocked s)) (\<lambda>e s. E e (unlocked s))) (\<lambda>e s. E e (unlocked s)) (?c, w)"
  proof (rule wlp_mono [OF call_wlp [OF assms(1)]])
    show "net_ok ?c" using assms(2) by simp
    show "wlp (k x) (\<lambda>x s. Q x (unlocked s)) (\<lambda>e s. E e (unlocked s)) t"
      if "same_conn ?c (fst t) \<and> net_ok (fst t) \<and> accepted (c_cluster ?c) (full_request ?c request) x" for x t
      using that reply [of "fst t" x "snd t"] by simp
    show "E e (unlocked t)"
      if "same_conn ?c (fst t) \<and> net_ok (fst t) \<and> (is_ConnectionError e \<or> encoding_exn N (full_request ?c request) e)" for e t
      using that fail same_conn_lock by simp
  qed
  moreover have "E e (c, w)" for e using fail assms(2) by simp
  ultimately show ?thesis by simp
qed

text \<open>A continuation that only looks at the reply keeps the whole connection.\<close>

definition reads :: "Connection \<Rightarrow> Connection \<times> 'w \<Rightarrow> bool" where
  "reads c s \<longleftrightarrow> same_conn c (fst s) \<and> net_ok (fst s)"

lemma reads_inv: "reads c s \<Longrightarrow> conn_inv c \<Longrightarrow> conn_inv (fst s)"
  by (auto simp: reads_def intro: same_conn_inv)

lemma locked_read_wlp:
  assumes "well_behaved N" and "net_ok c" and "\<And>resp. k resp = liftR (f resp)"
    and "\<And>resp x. accepted (c_cluster c) (full_request c request) resp \<Longrightarrow> f resp = Inr x \<Longrightarrow> P x"
  shows "wlp (with_lock (bindM ready (\<lambda>_. bindM (call N request) k))) (\<lambda>x s. P x \<and> reads c s) (\<lambda>_ s. reads c s) (c, w)"
  using assms(1,2)
  by (rule locked_call_wlp) (auto simp: assms(3) reads_def same_conn_lock split: sum.splits intro: assms(4))

section \<open>Queries\<close>

lemma query_rows_ok: "query_rows N response = Inr rs \<Longrightarrow> rows_ok rs"
  by (auto simp: query_rows_def rows_ok_def bindR_Inr_iff Let_def list_all_iff split: if_splits)

lemma liftR_bind: "bindM (liftR r) (\<lambda>x. liftR (f x)) = liftR (bindR r f)"
  by (auto simp: bindM_def liftR_def bindR_def retM_def raiseM_def split: sum.splits)

lemma query_wlp:
  assumes "well_behaved N" and "net_ok c"
  shows "wlp (query N sql ps' consistency) (\<lambda>rs s. rows_ok rs \<and> reads c s) (\<lambda>e s. reads c s) (c, w)"
proof (cases "prepare (unicode N) sql ps' 0")
  case (Inl e)
  then show ?thesis using assms(2) by (simp add: query_def reads_def)
next
  case (Inr tv)
  obtain tx vs where tv: "tv = (tx, vs)" by (cases tv)
  show ?thesis
  proof (cases "mapR encode vs")
    case (Inl e)
    then show ?thesis using Inr tv assms(2) by (auto simp: query_def reads_def same_conn_def)
  next
    case ps: (Inr ps)
    let ?req = "[(lit ''op'', JStr (lit ''query'')), (lit ''sql'', JStr tx),
                        (lit ''consistency'', JStr consistency), (lit ''parameters'', JList ps)]"
    have "wlp (with_lock (bindM ready (\<lambda>_. bindM (call N ?req) (\<lambda>response.
         bindM (liftR (raise_query response)) (\<lambda>_.
         liftR (malformed ''Malformed query result'' (query_rows N response)))))))
       (\<lambda>rs s. rows_ok rs \<and> reads c s) (\<lambda>e s. reads c s) (c, w)"
      by (rule locked_read_wlp [OF assms liftR_bind])
        (auto simp: bindR_Inr_iff malformed_def split: sum.splits if_splits intro: query_rows_ok)
    moreover have "bindM (liftR (mapR encode vs)) f = f ps" for f :: "json list \<Rightarrow> ('a cstate, cell Rows) comp"
      by (simp add: ps bindM_def liftR_def retM_def fun_eq_iff)
    ultimately have "wlp (bindM (liftR (prepare (unicode N) sql ps' 0)) (\<lambda>(tx, values).
       with_lock (
         bindM ready (\<lambda>_.
         bindM (liftR (mapR encode values)) (\<lambda>ps.
         bindM (call N [(lit ''op'', JStr (lit ''query'')), (lit ''sql'', JStr tx),
                        (lit ''consistency'', JStr consistency), (lit ''parameters'', JList ps)]) (\<lambda>response.
         bindM (liftR (raise_query response)) (\<lambda>_.
         liftR (malformed ''Malformed query result'' (query_rows N response)))))))))
       (\<lambda>rs s. rows_ok rs \<and> reads c s) (\<lambda>e s. reads c s) (c, w)" using Inr tv by (simp del: wlp_conn)
    moreover have "reads c (c, w)" using assms(2) by (simp add: reads_def)
    ultimately show ?thesis unfolding query_def wlp_if
      by (cases "consistency \<notin> {lit ''linearizable'', lit ''local''}") (simp_all only: if_True if_False not_False_eq_True if_cancel wlp_simps(2))
  qed
qed

section \<open>Administration\<close>

lemma status_wlp:
  assumes "well_behaved N" and "net_ok c"
  shows "wlp (status N) (\<lambda>d s. set (map fst d) \<subseteq> set status_keys \<and> reads c s) (\<lambda>e s. reads c s) (c, w)"
  unfolding status_def
  by (rule locked_call_wlp [OF assms]) (auto simp: reads_def same_conn_lock split: sum.splits)

lemma retire_sessions_wlp:
  assumes "well_behaved N" and "net_ok c"
  shows "wlp (retire_sessions N (JInt expected)) (\<lambda>epoch s. expected < epoch \<and> reads c s) (\<lambda>e s. reads c s) (c, w)"
proof -
  let ?k = "\<lambda>response. bindM (liftR (raise_query response)) (\<lambda>_.
           (case dget response ''session_epoch'' of
              Some (JInt epoch) \<Rightarrow>
                if epoch < expected + 1
                then raiseM (ConnectionError ''Malformed retirement response; retry the same expected_epoch'')
                else retM epoch
            | _ \<Rightarrow> raiseM (ConnectionError ''Malformed retirement response; retry the same expected_epoch'')))"
  let ?req = "[(lit ''op'', JStr (lit ''retire_sessions'')), (lit ''session_epoch'', JInt expected)]"
  let ?c = "c\<lparr>c_lock := Suc (c_lock c)\<rparr>"
  have k: "wlp (?k resp) (\<lambda>epoch s. expected < epoch \<and> reads c (unlocked s)) (\<lambda>e s. reads c (unlocked s)) (c', w')"
    if "same_conn ?c c'" "net_ok c'" for resp c' w'
    using that by (auto simp: reads_def same_conn_lock split: sum.splits option.splits json.splits)
  have "wlp (call N ?req) (\<lambda>x. wlp (?k x) (\<lambda>epoch s. expected < epoch \<and> reads c (unlocked s)) (\<lambda>e s. reads c (unlocked s)))
      (\<lambda>e s. reads c (unlocked s)) (?c, w)"
    by (rule wlp_mono [OF call_wlp [OF assms(1)]])
      (use assms(2) k in \<open>auto simp: reads_def same_conn_lock case_prod_unfold\<close>)
  then show ?thesis using assms(2) by (simp add: retire_sessions_def reads_def)
qed

lemma request_snapshot_wlp:
  assumes "well_behaved N" and "net_ok c"
  shows "wlp (request_snapshot N) (\<lambda>slot s. 0 < slot \<and> reads c s) (\<lambda>e s. reads c s) (c, w)"
  unfolding request_snapshot_def
  by (rule locked_call_wlp [OF assms])
    (auto simp: reads_def same_conn_lock split: sum.splits option.splits json.splits)

text \<open>\<open>_begin_optimistic\<close> also pins the session epoch, once.\<close>

definition pinned :: "Connection \<Rightarrow> int option \<Rightarrow> bool" where
  "pinned c ep \<longleftrightarrow> (c_epoch c \<noteq> None \<longrightarrow> ep = c_epoch c) \<and> (\<forall>x. ep = Some x \<longrightarrow> ep = c_epoch c \<or> 0 \<le> x \<and> x < 2 ^ 63)"

lemma begin_optimistic_wlp:
  assumes "well_behaved N" and "net_ok c"
  shows "wlp (begin_optimistic N)
     (\<lambda>v s. 1 \<le> v \<and> v < 2 ^ 63 \<and> (\<exists>ep. c_epoch (fst s) = Some ep)
        \<and> (\<exists>ep. reads (c\<lparr>c_epoch := ep\<rparr>) s \<and> pinned c ep))
     (\<lambda>e s. \<exists>ep. reads (c\<lparr>c_epoch := ep\<rparr>) s \<and> pinned c ep) (c, w)"
  unfolding begin_optimistic_def
  by (rule locked_call_wlp [OF assms])
    (auto simp: reads_def same_conn_def net_ok_def pinned_def split: sum.splits option.splits json.splits)

lemma conn_close_wlp [simp]:
  "wlp (conn_close N) Q E (c, w) =
    Q () (c\<lparr>c_transport := (c_transport c)\<lparr>t_socket := None, t_endpoint := None\<rparr>, c_closed := True\<rparr>,
       case t_socket (c_transport c) of None \<Rightarrow> w | Some k \<Rightarrow> sock_close N k w)"
  by (simp add: conn_close_def)

lemma preview_wlp:
  assumes "well_behaved N" and "net_ok c"
  shows "wlp (preview N body vs version qtext qvs) (\<lambda>resp s. reads c s \<and> (\<exists>i. int_item resp ''changes'' = Inr i)) (\<lambda>e s. reads c s) (c, w)"
proof -
  have un: "reads c (c\<lparr>c_lock := Suc (c_lock c)\<rparr>\<lparr>c_lock := c_lock c\<rparr>, w)" using assms(2) by (simp add: reads_def)
  show ?thesis
  proof (cases "mapR encode vs")
    case (Inl e)
    then show ?thesis using un by (simp add: preview_def)
  next
    case a: (Inr ps)
    show ?thesis
    proof (cases "mapR encode qvs")
      case (Inl e)
      then show ?thesis using un a by (simp add: preview_def)
    next
      case (Inr qs)
      then have eq: "bindM (liftR (mapR encode vs)) (\<lambda>ps. bindM (liftR (mapR encode qvs)) (\<lambda>qs. f ps qs)) = f ps qs"
        for f :: "json list \<Rightarrow> json list \<Rightarrow> ('a cstate, dict) comp"
        using a by (simp add: bindM_def liftR_def retM_def fun_eq_iff)
      have changes: "\<exists>i. int_item resp ''changes'' = Inr i" if "accepted cl request resp" for cl request resp
        using accepted_write_result [OF that] by (auto simp: write_result_def bindR_Inr_iff)
      show ?thesis unfolding preview_def eq
        by (rule locked_call_wlp [OF assms]) (auto simp: reads_def same_conn_lock split: sum.splits intro: changes)
    qed
  qed
qed

section \<open>New connections\<close>

text \<open>What \<open>secrets.token_hex(16)\<close> returns: a session name, all zeros excepted.\<close>

definition session_source :: "'w netops \<Rightarrow> bool" where
  "session_source N \<longleftrightarrow> (\<forall>w. session_ok (fst (token_hex N w)))"

lemma connection_new_inv:
  assumes "connection_new N eps cluster tls timeout pending w = (Inr c, w')"
    and "\<And>p. pending = Some p \<Longrightarrow> pw_ok p"
  shows "conn_inv c"
  using assms
  by (auto simp: connection_new_def conn_inv_def net_ok_def transport_new_def t_inv_def pw_ok_def
      split: if_splits prod.splits sum.splits option.splits)

section \<open>Runs of a connection\<close>

text \<open>One call of a public method that may write, and the methods that only read or close.\<close>

datatype call_op =
    Execute pval params
  | ResolvePending
  | Query pval params pstr
  | Status
  | SessionEpoch
  | RetireSessions json
  | RequestSnapshot
  | BeginOptimistic
  | Close

definition wrote :: "('w cstate, WriteResult) comp \<Rightarrow> ('w cstate, WriteResult option) comp" where
  "wrote m = bindM m (\<lambda>r. retM (Some r))"

definition quiet :: "('w cstate, 'a) comp \<Rightarrow> ('w cstate, WriteResult option) comp" where
  "quiet m = bindM m (\<lambda>_. retM None)"

definition perform :: "'w netops \<Rightarrow> call_op \<Rightarrow> ('w cstate, WriteResult option) comp" where
  "perform N a = (case a of
      Execute sql ps \<Rightarrow> wrote (execute N sql ps)
    | ResolvePending \<Rightarrow> wrote (resolve_pending N)
    | Query sql ps cons \<Rightarrow> quiet (query N sql ps cons)
    | Status \<Rightarrow> quiet (status N)
    | SessionEpoch \<Rightarrow> quiet (session_epoch N)
    | RetireSessions ep \<Rightarrow> quiet (retire_sessions N ep)
    | RequestSnapshot \<Rightarrow> quiet (request_snapshot N)
    | BeginOptimistic \<Rightarrow> quiet (begin_optimistic N)
    | Close \<Rightarrow> quiet (conn_close N))"

text \<open>
  \<open>conn_run N s rs t\<close>: from the state \<open>s\<close> some sequence of calls, raising or not, leads to
  \<open>t\<close>; \<open>rs\<close> are the writes it acknowledged, in order.
\<close>

inductive conn_run :: "'w netops \<Rightarrow> 'w cstate \<Rightarrow> WriteResult list \<Rightarrow> 'w cstate \<Rightarrow> bool" for N s where
  run_refl: "conn_run N s [] s"
| run_write: "conn_run N s rs t \<Longrightarrow> perform N a t = Some (Inr (Some r), u) \<Longrightarrow> conn_run N s (rs @ [r]) u"
| run_read: "conn_run N s rs t \<Longrightarrow> perform N a t = Some (Inr None, u) \<Longrightarrow> conn_run N s rs u"
| run_raise: "conn_run N s rs t \<Longrightarrow> perform N a t = Some (Inl e, u) \<Longrightarrow> conn_run N s rs u"

text \<open>One call: the invariant holds and the sequence number moves on exactly with a result.\<close>

definition stepped :: "Connection \<Rightarrow> WriteResult option res \<Rightarrow> Connection \<Rightarrow> bool" where
  "stepped c r c' \<longleftrightarrow> conn_inv c' \<and> c_session c' = c_session c
     \<and> (case r of Inr (Some x) \<Rightarrow> wr_sequence x = c_sequence c \<and> c_sequence c' = c_sequence c + 1 \<and> c_pending c' = None
        | _ \<Rightarrow> c_sequence c \<le> c_sequence c')"

lemma reads_stepped:
  assumes "reads c s" and "conn_inv c"
  shows "stepped c (Inr None) (fst s)" and "stepped c (Inl e) (fst s)"
  using assms reads_inv [OF assms] by (auto simp: stepped_def reads_def same_conn_def)

lemma quiet_wlp:
  assumes "wlp m (\<lambda>_ s. reads c s) (\<lambda>_ s. reads c s) (c, w)" and "conn_inv c"
  shows "wlp (quiet m) (\<lambda>r s. stepped c (Inr r) (fst s)) (\<lambda>e s. stepped c (Inl e) (fst s)) (c, w)"
  unfolding quiet_def wlp_simps
  by (rule wlp_mono [OF assms(1)]) (use reads_stepped [OF _ assms(2)] in auto)

lemma submitted_stepped:
  "submitted N body vs rv c (Inr r) c' \<Longrightarrow> stepped c (Inr (Some r)) c'"
  "submitted N body vs rv c (Inl e) c' \<Longrightarrow> stepped c (Inl e) c'"
  by (auto simp: submitted_def stepped_def frame_conn_def elim: write_step.cases dest: write_step_state)

lemma settled_stepped:
  assumes "conn_inv c" and "c_pending c = Some p"
  shows "settled N p c (Inr r) c' \<Longrightarrow> stepped c (Inr (Some r)) c'"
    and "settled N p c (Inl e) c' \<Longrightarrow> stepped c (Inl e) c'"
  using assms by (auto simp: settled_def stepped_def frame_conn_def conn_inv_def elim: write_step.cases dest: write_step_state)

lemma perform_wlp:
  assumes "well_behaved N" and "conn_inv c"
  shows "wlp (perform N a) (\<lambda>r s. stepped c (Inr r) (fst s)) (\<lambda>e s. stepped c (Inl e) (fst s)) (c, w)"
proof -
  note net = conn_inv_net [OF assms(2)]
  have id: "stepped c (Inl e) c" for e using assms(2) by (simp add: stepped_def)
  show ?thesis
  proof (cases a)
    case (Execute sql ps)
    show ?thesis unfolding Execute perform_def call_op.case wrote_def wlp_simps
      by (rule wlp_mono [OF execute_wlp [OF assms]]) (auto dest: submitted_stepped intro: id)
  next
    case ResolvePending
    show ?thesis unfolding ResolvePending perform_def call_op.case wrote_def wlp_simps
      by (rule wlp_mono [OF resolve_pending_wlp [OF assms]]) (auto dest: settled_stepped [OF assms(2)] intro: id)
  next
    case (Query sql ps cons)
    show ?thesis unfolding Query perform_def call_op.case
      by (rule quiet_wlp [OF wlp_mono [OF query_wlp [OF assms(1) net]] assms(2)]) auto
  next
    case Status
    show ?thesis unfolding Status perform_def call_op.case
      by (rule quiet_wlp [OF wlp_mono [OF status_wlp [OF assms(1) net]] assms(2)]) auto
  next
    case SessionEpoch
    show ?thesis unfolding SessionEpoch perform_def call_op.case
      by (rule quiet_wlp [OF wlp_mono [OF session_epoch_wlp [OF assms(1) net]] assms(2)]) (auto simp: reads_def)
  next
    case (RetireSessions j)
    have "wlp (retire_sessions N j) (\<lambda>_ s. reads c s) (\<lambda>_ s. reads c s) (c, w)"
    proof (cases j)
      case (JInt i)
      then show ?thesis by (auto intro: wlp_mono [OF retire_sessions_wlp [OF assms(1) net]])
    qed (use net in \<open>simp_all add: retire_sessions_def reads_def\<close>)
    then show ?thesis unfolding RetireSessions perform_def call_op.case by (rule quiet_wlp [OF _ assms(2)])
  next
    case RequestSnapshot
    show ?thesis unfolding RequestSnapshot perform_def call_op.case
      by (rule quiet_wlp [OF wlp_mono [OF request_snapshot_wlp [OF assms(1) net]] assms(2)]) auto
  next
    case BeginOptimistic
    have st: "stepped c (Inr None) (fst s)" "stepped c (Inl e) (fst s)" if "reads (c\<lparr>c_epoch := ep\<rparr>) s" "pinned c ep" for ep s e
    proof -
      have "conn_inv (c\<lparr>c_epoch := ep\<rparr>)" using that(2) assms(2) by (auto simp: pinned_def conn_inv_def net_ok_def)
      then show "stepped c (Inr None) (fst s)" "stepped c (Inl e) (fst s)"
        using reads_stepped [OF that(1)] by (simp_all add: stepped_def)
    qed
    show ?thesis unfolding BeginOptimistic perform_def call_op.case quiet_def wlp_simps
      by (rule wlp_mono [OF begin_optimistic_wlp [OF assms(1) net]]) (use st in blast)+
  next
    case Close
    show ?thesis using assms(2)
      by (simp add: Close perform_def quiet_def stepped_def conn_inv_def net_ok_def t_inv_def)
  qed
qed

text \<open>The identities of the acknowledged writes of a run are consecutive in its range, never reused.\<close>

lemma conn_run_sequences:
  assumes "well_behaved N" and "conn_run N s rs t" and "conn_inv (fst s)"
  shows "conn_inv (fst t) \<and> c_session (fst t) = c_session (fst s) \<and> c_sequence (fst s) \<le> c_sequence (fst t)
    \<and> sorted_wrt (<) (map wr_sequence rs) \<and> (\<forall>r \<in> set rs. c_sequence (fst s) \<le> wr_sequence r \<and> wr_sequence r < c_sequence (fst t))"
  using assms(2)
proof (induction rule: conn_run.induct)
  case run_refl
  then show ?case using assms(3) by simp
next
  case (run_write rs t a r u)
  then have "stepped (fst t) (Inr (Some r)) (fst u)"
    using wlp_Inr [OF perform_wlp [OF assms(1), of "fst t" a "snd t"]] by auto
  then show ?case using run_write.IH by (auto simp: stepped_def sorted_wrt_append)
next
  case (run_read rs t a u)
  then have "stepped (fst t) (Inr None) (fst u)"
    using wlp_Inr [OF perform_wlp [OF assms(1), of "fst t" a "snd t"]] by auto
  then show ?case using run_read.IH by (auto simp: stepped_def)
next
  case (run_raise rs t a e u)
  then have "stepped (fst t) (Inl e) (fst u)"
    using wlp_Inl [OF perform_wlp [OF assms(1), of "fst t" a "snd t"]] by auto
  then show ?case using run_raise.IH by (auto simp: stepped_def)
qed

section \<open>Calls that always return\<close>

lemma total_session_epoch: "steady N tm \<Longrightarrow> total (session_epoch N)"
  unfolding session_epoch_def ready_def
  by (intro total_rules total_call) (auto split: option.splits json.splits intro!: total_rules)

lemma total_resolve: "steady N tm \<Longrightarrow> total (resolve N)"
proof -
  assume s: "steady N tm"
  have "total (settle p response)" for p and response :: dict
    unfolding settle_def by (auto split: json.splits intro!: total_rules)
  then have "total (case c_pending c of None \<Rightarrow> raiseM AttributeError
     | Some p \<Rightarrow> bindM (liftR (execute_request p)) (\<lambda>request.
         bindM (tryM (call N request) (\<lambda>e. if is_ConnectionError e then raiseM (UnknownOutcome p) else raiseM e)) (settle p)))" for c
    using total_call [OF s] by (auto split: option.splits intro!: total_rules)
  then show ?thesis unfolding resolve_def by (intro total_rules)
qed

lemma total_execute_prepared:
  assumes "steady N tm"
  shows "total (execute_prepared N body vs rv)"
  unfolding execute_prepared_def
  by (intro total_rules total_session_epoch [OF assms] total_resolve [OF assms])

lemma total_execute:
  assumes "steady N tm"
  shows "total (execute N sql ps)"
  unfolding execute_def case_prod_unfold ready_def
  by (intro total_rules total_execute_prepared [OF assms])

lemma total_resolve_pending:
  assumes "steady N tm"
  shows "total (resolve_pending N)"
  unfolding resolve_pending_def ready_def by (intro total_rules total_resolve [OF assms])

lemma total_query:
  assumes "steady N tm"
  shows "total (query N sql ps consistency)"
  unfolding query_def case_prod_unfold ready_def by (intro total_rules total_call [OF assms])

section \<open>Outcomes of a retry\<close>

lemma resolve_pending_outcome:
  assumes "well_behaved N" and "steady N tm" and "conn_inv c" and "c_pending c = Some p" and "\<not> c_closed c" and "\<not> c_transaction c"
  shows "\<exists>r c' w'. resolve_pending N (c, w) = Some (r, (c', w')) \<and> conn_inv c' \<and> frame_conn c c'
    \<and> write_step (unencodable N) p (c_sequence c) r (c_sequence c', c_pending c')"
proof -
  let ?c = "c\<lparr>c_lock := Suc (c_lock c)\<rparr>"
  have un: "settled N p c r (c'\<lparr>c_lock := c_lock c' - Suc 0\<rparr>)" if "settled N p ?c r c'" for r c'
    using that by (auto simp: settled_def frame_conn_def)
  have "wlp (resolve N) (\<lambda>r s. settled N p ?c (Inr r) (fst s)) (\<lambda>e s. settled N p ?c (Inl e) (fst s)) (?c, w)"
    by (rule resolve_wlp [OF assms(1)]) (use assms(3,4) in simp_all)
  then have "wlp (resolve N) (\<lambda>r s. settled N p c (Inr r) ((fst s)\<lparr>c_lock := c_lock (fst s) - Suc 0\<rparr>))
      (\<lambda>e s. settled N p c (Inl e) ((fst s)\<lparr>c_lock := c_lock (fst s) - Suc 0\<rparr>)) (?c, w)"
    by (rule wlp_mono) (use un in auto)
  then have "wlp (resolve_pending N) (\<lambda>r s. settled N p c (Inr r) (fst s)) (\<lambda>e s. settled N p c (Inl e) (fst s)) (c, w)"
    using assms(4-6) by (simp add: resolve_pending_def)
  then show ?thesis
    by (rule total_wlp [OF total_resolve_pending [OF assms(2)]]) (auto simp: settled_def)
qed

lemma execute_outcome:
  assumes "well_behaved N" and "steady N tm" and "conn_inv c"
  shows "\<exists>r c' w'. execute N sql ps (c, w) = Some (r, (c', w')) \<and> conn_inv c' \<and> frame_conn c c' \<and>
    ((\<exists>e. r = Inl e) \<and> c_sequence c' = c_sequence c \<and> c_pending c' = c_pending c
     \<or> c_pending c = None \<and> (\<exists>p body vs. prepare (unicode N) sql ps 0 = Inr (body, vs) \<and> pw_ok p \<and> pw_sql p = body
          \<and> pw_parameters p = vs \<and> pw_session p = c_session c \<and> pw_sequence p = c_sequence c
          \<and> write_step (unencodable N) p (c_sequence c) r (c_sequence c', c_pending c')))"
  by (rule total_wlp [OF total_execute [OF assms(2)] execute_wlp [OF assms(1,3), of sql ps w]])
    (use assms(3) in \<open>auto simp: submitted_def frame_conn_def\<close>)

text \<open>The frames of a retry, from the instance of the world invariant on the log.\<close>

lemma resolve_frames:
  assumes "c_pending c = Some p" and "execute_request p = Inr request"
    and "resolve_pending (logged N) (c, (w, [])) = Some (r, (c', (w', frames)))"
  shows "\<forall>b \<in> set frames. \<exists>v cl body. json_dumps N (JObj (dset (dset (dset request (lit ''protocol'') (JInt 1))
      (lit ''cluster'') (JStr cl)) (lit ''timeout_ms'') v)) = Inr body \<and> b = frame body"
    (is "\<forall>b \<in> set frames. ?F b")
proof -
  let ?I = "\<lambda>w. \<forall>b \<in> set (snd w). ?F b"
  have call: "keeps ?I (call (logged N) request)"
    by (rule sent.keeps_call) auto
  have "keeps ?I (settle p resp)" for resp
    unfolding settle_def by (auto split: json.splits intro!: keeps_rules)
  then have rest: "keeps ?I (bindM (tryM (call (logged N) request) (\<lambda>e. if is_ConnectionError e then raiseM (UnknownOutcome p) else raiseM e)) (settle p))"
    by (intro keeps_rules call)
  let ?c = "c\<lparr>c_lock := Suc (c_lock c)\<rparr>"
  have "wlp (bindM (tryM (call (logged N) request) (\<lambda>e. if is_ConnectionError e then raiseM (UnknownOutcome p) else raiseM e)) (settle p))
      (\<lambda>_ s. ?I (snd s)) (\<lambda>_ s. ?I (snd s)) (?c, (w, []))"
    by (rule keeps_wlp [OF rest]) simp
  then have "wlp (resolve_pending (logged N)) (\<lambda>_ s. ?I (snd s)) (\<lambda>_ s. ?I (snd s)) (c, (w, []))"
    using assms(1,2) by (simp add: resolve_pending_def resolve_def)
  then show ?thesis using assms(3) by (cases r) (auto simp: wlp_def)
qed

end
