(* ===== verification/Simulation.thy ===== *)
theory Simulation
  imports Client_Reads
begin

text \<open>
  A concrete outside world on which the assumptions about \<open>netops\<close> hold: a clock that stands
  still except for \<open>sleep\<close>, one server that sends the scripted bytes, and a codec that reads a
  one-byte message as an index into a list of documents. It shows that the assumptions are
  satisfiable together and is the input of the examples.
\<close>

type_synonym sim_world = "rat \<times> pbytes"

definition ascii_unidb :: unidb where
  "ascii_unidb = \<lparr>uni_space = (\<lambda>c. c \<in> {9, 10, 11, 12, 13, 32}), uni_digit = (\<lambda>c. 48 \<le> c \<and> c \<le> 57),
    uni_alpha = (\<lambda>c. 65 \<le> c \<and> c \<le> 90 \<or> 97 \<le> c \<and> c \<le> 122),
    uni_alnum = (\<lambda>c. 48 \<le> c \<and> c \<le> 57 \<or> 65 \<le> c \<and> c \<le> 90 \<or> 97 \<le> c \<and> c \<le> 122),
    uni_upper = (\<lambda>c. [if 97 \<le> c \<and> c \<le> 122 then c - 32 else c]),
    uni_lower = (\<lambda>c. [if 65 \<le> c \<and> c \<le> 90 then c + 32 else c]),
    uni_decimal = (\<lambda>c. if 48 \<le> c \<and> c \<le> 57 then Some (c - 48) else None)\<rparr>"

definition sim :: "json list \<Rightarrow> sim_world netops" where
  "sim docs = \<lparr>monotonic = (\<lambda>w. (fst w, w)), sleep = (\<lambda>d (t, b). (t + d, b)),
    token_hex = (\<lambda>w. (replicate 32 97, w)), ctx_load = (\<lambda>_ _ _ w. (Inr (), w)),
    sock_connect = (\<lambda>_ _ w. (Inr 0, w)), sock_wrap = (\<lambda>k _ w. (Inr k, w)),
    sock_sans = (\<lambda>_ w. ([(lit ''DNS'', lit ''node'')], w)), sock_send = (\<lambda>_ _ w. (Inr (), w)),
    sock_recv = (\<lambda>_ n (t, b). (Inr (take n b), (t, drop n b))), sock_timeout = (\<lambda>_ _ w. w),
    sock_nodelay = (\<lambda>_ w. (Inr (), w)), sock_close = (\<lambda>_ w. w),
    json_dumps = (\<lambda>_. Inr [0]),
    json_loads = (\<lambda>b. case b of [k] \<Rightarrow> if k < length docs then Inr (docs ! k) else Inl JSONDecodeError | _ \<Rightarrow> Inl JSONDecodeError),
    b64decode = (\<lambda>_. Inr []), float_parse = (\<lambda>_. None), unicode = ascii_unidb\<rparr>"

lemma sim_well_behaved [simp]: "well_behaved (sim docs)"
  by (auto simp: well_behaved_def sim_def net_exn_def py_defs split: list.splits)

lemma sim_steady [simp]: "steady (sim docs) fst"
  by (auto simp: steady_def sim_def)

lemma sim_unicode [simp]: "unicode (sim docs) = ascii_unidb"
  by (simp add: sim_def)

definition demo_tls :: SSLContext where
  "demo_tls = \<lparr>ctx_cafile = [], ctx_minimum_version = TLSv1_3, ctx_maximum_version = TLSv1_3,
     ctx_cert_required = True, ctx_check_hostname = True, ctx_common_name = False, ctx_chain = ([], [])\<rparr>"

definition demo_endpoint :: Endpoint where
  "demo_endpoint = \<lparr>ep_address = lit ''db:5433'', ep_server_name = lit ''node''\<rparr>"

definition demo_write :: PendingWrite where
  "demo_write = \<lparr>pw_session = replicate 32 97, pw_sequence = 7, pw_sql = lit ''INSERT INTO t VALUES(?1)'',
     pw_parameters = [VInt 5], pw_read_version = 0, pw_epoch = 2\<rparr>"

definition demo_conn :: Connection where
  "demo_conn = \<lparr>c_endpoints = [demo_endpoint], c_cluster = lit ''demo'', c_timeout = 10, c_session = replicate 32 97,
     c_sequence = 7, c_pending = None, c_epoch = Some 2, c_transport = transport_new demo_tls, c_index = 0,
     c_lock = 0, c_closed = False, c_transaction = False\<rparr>"

lemma demo_write_ok [simp]: "pw_ok demo_write"
proof -
  have "fits 4096 (lit ''INSERT INTO t VALUES(?1)'')" by (simp add: fits_def lit_def utf8_cp_def)
  moreover have "encodable (VInt 5)" by (simp add: encodable_def encode_def)
  ultimately show ?thesis
    by (simp add: pw_ok_def demo_write_def session_ok_def is_hex_def list_all_iff lit_def vec_total_def vec_size_def)
qed

lemma demo_conn_inv [simp]: "conn_inv demo_conn" "conn_inv (demo_conn\<lparr>c_pending := Some demo_write\<rparr>)"
  using demo_write_ok
  by (simp_all add: conn_inv_def net_ok_def demo_conn_def transport_new_def t_inv_def demo_write_def del: demo_write_ok)

end
