(* ===== verification/Batches.thy ===== *)
theory Batches
  imports Parameters
begin

text \<open>
  Statement batches. The buffered transaction of \<open>transaction.py\<close> and the DB-API body of
  \<open>dbapi.py\<close> both prepare statements one after the other, each numbered from the number of
  parameters so far, and join the texts with a separator. A locale states what they rely on of
  \<open>prepare\<close>, and proves once that the joined body is read by a server as exactly the parameters
  \<open>1, ..., n\<close> in order, whatever comments and quotes the statements contain.
\<close>

section \<open>The separator\<close>

abbreviation separator :: pstr where
  "separator \<equiv> [10, 59, 10]"

lemma separator_lit: "lit [CHR 0x0A, CHR '';'', CHR 0x0A] = separator"
  by (simp add: lit_def)

lemma join_snoc: "join sep (xs @ [y]) = (if xs = [] then y else join sep xs @ sep @ y)"
  by (induction sep xs rule: join.induct) (auto simp: neq_Nil_conv)

lemma slots_newline: "slots (10 # k) = slots k"
  by (rule slots_plain) (auto simp: skip_verbatim_def)

lemma slots_separator: "slots (separator @ k) = slots k"
proof -
  have "slots (59 # 10 # k) = slots (10 # k)"
    by (rule slots_plain) (auto simp: skip_verbatim_def)
  then show ?thesis by (simp add: slots_newline)
qed

text \<open>
  A body under construction: what a server reads of it is the parameters \<open>1, ..., length vs\<close>,
  and a new line after it starts afresh.
\<close>

definition batch_ok :: "pstr list \<Rightarrow> pval list \<Rightarrow> bool" where
  "batch_ok texts vs \<longleftrightarrow> (\<forall>k. k = [] \<or> hd k = 10 \<longrightarrow>
     slots (join separator texts @ k) = map_option (append [1 ..< Suc (length vs)]) (slots k))"

lemma batch_ok_Nil [simp]: "batch_ok [] []"
proof -
  have "map_option ((@) []) x = x" for x :: "nat list option" by (cases x) simp_all
  then show ?thesis by (simp add: batch_ok_def)
qed

lemma batch_ok_slots: "batch_ok texts vs \<Longrightarrow> slots (join separator texts) = Some [1 ..< Suc (length vs)]"
  unfolding batch_ok_def by (drule spec [of _ "[]"]) (simp add: slots.simps)

section \<open>The interface\<close>

locale statement_source =
  fixes prep :: "'q \<Rightarrow> 'p \<Rightarrow> nat \<Rightarrow> (pstr \<times> pval list) res"
  assumes prep_slots: "prep q ps off = Inr (t, vs) \<Longrightarrow> k = [] \<or> hd k = 10 \<Longrightarrow>
      slots (t @ k) = map_option (append [Suc off ..< Suc (off + length vs)]) (slots k)"
    and prep_count: "prep q ps off = Inr (t, vs) \<Longrightarrow> off + length vs \<le> 16"
    and prep_text: "prep q ps off = Inr (t, vs) \<Longrightarrow> t \<noteq> [] \<and> 0 \<notin> set t"
    and prep_values: "prep q ps off = Inr (t, vs) \<Longrightarrow> list_all encodable vs"
begin

lemma batch_extend:
  assumes ok: "batch_ok texts vs" and len: "texts = [] \<longrightarrow> vs = []" and p: "prep q ps (length vs) = Inr (t, us)"
  shows "batch_ok (texts @ [t @ [10]]) (vs @ us)"
  unfolding batch_ok_def
proof (intro allI impI)
  fix k :: pstr
  assume k: "k = [] \<or> hd k = 10"
  have t: "slots (t @ 10 # k) = map_option (append [Suc (length vs) ..< Suc (length vs + length us)]) (slots k)"
    using prep_slots [OF p, of "10 # k"] by (simp add: slots_newline)
  show "slots (join separator (texts @ [t @ [10]]) @ k) = map_option (append [1 ..< Suc (length (vs @ us))]) (slots k)"
  proof (cases "texts = []")
    case True
    with t len show ?thesis by simp
  next
    case False
    have "slots (join separator texts @ (separator @ t @ 10 # k)) =
        map_option (append [1 ..< Suc (length vs)]) (slots (separator @ t @ 10 # k))"
      using ok unfolding batch_ok_def by simp
    also have "slots (separator @ t @ 10 # k) = slots (t @ 10 # k)"
      by (rule slots_separator)
    finally have "slots (join separator (texts @ [t @ [10]]) @ k) =
        map_option (append [1 ..< Suc (length vs)]) (slots (t @ 10 # k))"
      using False by (simp add: join_snoc)
    also have "\<dots> = map_option (append ([1 ..< Suc (length vs)] @ [Suc (length vs) ..< Suc (length vs + length us)])) (slots k)"
      unfolding t by (cases "slots k") simp_all
    also have "[1 ..< Suc (length vs)] @ [Suc (length vs) ..< Suc (length vs + length us)] = [1 ..< Suc (length (vs @ us))]"
      using upt_add_eq_append [of 1 "Suc (length vs)" "length us"] by simp
    finally show ?thesis .
  qed
qed

lemma batch_values:
  "list_all encodable vs \<Longrightarrow> prep q ps (length vs) = Inr (t, us) \<Longrightarrow>
    list_all encodable (vs @ us) \<and> length (vs @ us) \<le> 16"
  using prep_values prep_count by fastforce

end

text \<open>\<open>prepare\<close> provides it.\<close>

interpretation prepared: statement_source "prepare U" for U
proof unfold_locales
  fix q ps off t vs and k :: pstr
  assume p: "prepare U q ps off = Inr (t, vs)"
  show "t \<noteq> [] \<and> 0 \<notin> set t" using prepare_text [OF p] by simp
  show "off + length vs \<le> 16" by (rule prepare_cases [OF p])
  show "list_all encodable vs" by (rule prepare_cases [OF p]) (simp add: list_all_iff)
  assume "k = [] \<or> hd k = 10"
  then show "slots (t @ k) = map_option (append [Suc off ..< Suc (off + length vs)]) (slots k)"
    by (rule prepare_slots [OF p])
qed

section \<open>Preparing a list of statements\<close>

text \<open>The loop of \<open>dbapi.Connection._body\<close>: texts and values collected so far are arguments.\<close>

fun collect :: "unidb \<Rightarrow> pstr list \<Rightarrow> pval list \<Rightarrow> (pval \<times> params) list \<Rightarrow> (pstr list \<times> pval list) res" where
  "collect U texts vs [] = Inr (texts, vs)"
| "collect U texts vs ((sql, ps) # rest) =
    bindR (prepare U sql ps (length vs)) (\<lambda>(tx, bound).
      collect U (texts @ [tx @ [10]]) (vs @ bound) rest)"

lemma collect_ok:
  assumes "collect U texts vs stmts = Inr (texts', vs')"
    and "batch_ok texts vs" and "texts = [] \<longrightarrow> vs = []" and "list_all encodable vs" and "length vs \<le> 16"
  shows "batch_ok texts' vs' \<and> list_all encodable vs' \<and> length vs' \<le> 16
    \<and> length texts' = length texts + length stmts"
  using assms
proof (induction U texts vs stmts rule: collect.induct)
  case (2 U texts vs sql ps rest)
  then obtain tx bound where p: "prepare U sql ps (length vs) = Inr (tx, bound)"
    and r: "collect U (texts @ [tx @ [10]]) (vs @ bound) rest = Inr (texts', vs')"
    by (auto simp: bindR_Inr_iff)
  have "batch_ok (texts @ [tx @ [10]]) (vs @ bound)"
    by (rule prepared.batch_extend [OF "2.prems"(2,3) p])
  moreover have "list_all encodable (vs @ bound) \<and> length (vs @ bound) \<le> 16"
    by (rule prepared.batch_values [OF "2.prems"(4) p])
  ultimately show ?case using "2.IH" [OF r] by simp
qed simp

end
