(* ===== verification/Client_Properties.thy ===== *)
theory Client_Properties
  imports Simulation Batches
begin

text \<open>
  The properties of the client library: parameters, vectors, rows, transport and connections. Each
  is stated over the definitions of the model and followed, where it has hypotheses, by an
  instance at a concrete input.
\<close>

section \<open>Statements\<close>


text \<open>
  C6. A prepared text is the SQL text with nothing but its placeholders replaced, and the
  parameters a server reads off it are \<open>off + 1, ..., off + n\<close>, in the order of the values.
\<close>

theorem prepare_numbers_placeholders:
  assumes "prepare U q ps off = Inr (t, vs)"
  shows "\<exists>s ts. q = VStr s \<and> ps = PSeq vs \<and> tokenize U s = Inr ts \<and> concat (map token_src ts) = s
    \<and> t = render off ts \<and> slots t = Some [Suc off ..< Suc (off + length vs)]"
proof -
  have s0: "slots [] = Some []" by (simp add: slots.simps)
  show ?thesis
    using assms prepare_slots [OF assms, of "[]"] lex_src
    by (auto simp: prepare_Inr_iff s0)
qed

lemma demo_prepare:
  "prepare ascii_unidb (VStr (lit ''SELECT ?, [a?b], ?'')) (PSeq [VInt 5, VNone]) 3
    = Inr (lit ''SELECT ?4, [a?b], ?5'', [VInt 5, VNone])"
  by code_simp

theorem prepare_numbers_placeholders_witness:
  "prepare ascii_unidb (VStr (lit ''SELECT ?, [a?b], ?'')) (PSeq [VInt 5, VNone]) 3
      = Inr (lit ''SELECT ?4, [a?b], ?5'', [VInt 5, VNone])
    \<and> slots (lit ''SELECT ?4, [a?b], ?5'') = Some [4, 5]"
  using prepare_numbers_placeholders [OF demo_prepare] demo_prepare by (auto simp: upt_rec)

text \<open>
  C14. Values never reach the SQL text: two calls with the same statement and offset that succeed
  produce the same text, whatever the values are.
\<close>

theorem prepare_text_ignores_values:
  assumes "prepare U q (PSeq vs) off = Inr (t, vs')" and "prepare U q (PSeq us) off = Inr (t', us')"
  shows "t = t' \<and> vs' = vs \<and> us' = us"
  using assms by (auto simp: prepare_Inr_iff)

theorem prepare_text_ignores_values_witness:
  "prepare ascii_unidb (VStr (lit ''SELECT ?'')) (PSeq [VInt 5]) 0 = Inr (lit ''SELECT ?1'', [VInt 5])
    \<and> prepare ascii_unidb (VStr (lit ''SELECT ?'')) (PSeq [VNone]) 0 = Inr (lit ''SELECT ?1'', [VNone])"
proof -
  have a: "prepare ascii_unidb (VStr (lit ''SELECT ?'')) (PSeq [VInt 5]) 0 = Inr (lit ''SELECT ?1'', [VInt 5])" by code_simp
  have b: "prepare ascii_unidb (VStr (lit ''SELECT ?'')) (PSeq [VNone]) 0 = Inr (lit ''SELECT ?1'', [VNone])" by code_simp
  show ?thesis using prepare_text_ignores_values [OF a b] a b by simp
qed

text \<open>
  C15. The bounds of a prepared statement: at most sixteen encodable values with at most 384 vector
  components, a nonempty text without NUL of at most 4096 bytes.
\<close>

theorem prepare_bounds:
  assumes "prepare U q ps off = Inr (t, vs)"
  shows "off + length vs \<le> 16 \<and> vec_total vs \<le> 384 \<and> list_all encodable vs \<and> t \<noteq> [] \<and> 0 \<notin> set t
    \<and> (\<exists>b. utf8 t = Some b \<and> length b \<le> 4096)"
  using prepare_text [OF assms] assms
  by (auto simp: prepare_Inr_iff list_all_iff fits_def split: option.splits)

theorem prepare_bounds_witness:
  "0 < length (lit ''SELECT ?4, [a?b], ?5'') \<and> 3 + length [VInt 5, VNone] \<le> 16"
  using prepare_bounds [OF demo_prepare] by simp

text \<open>
  Statements that are prepared one after the other, as transactions and DB-API bodies do it,
  join to one text in which a server reads every value once and in order, whatever comments and
  quotes the statements contain.
\<close>

lemma batch_slots:
  assumes "collect U [] [] stmts = Inr (texts, vs)"
  shows "slots (join separator texts) = Some [1 ..< Suc (length vs)] \<and> length texts = length stmts
    \<and> list_all encodable vs \<and> length vs \<le> 16"
proof -
  have ok: "batch_ok texts vs" "list_all encodable vs" "length vs \<le> 16" "length texts = length stmts"
    using collect_ok [OF assms] by simp_all
  then show ?thesis using batch_ok_slots by blast
qed

lemma demo_collect:
  "collect ascii_unidb [] [] [(VStr (lit ''INSERT INTO t VALUES(?) -- x''), PSeq [VInt 1]), (VStr (lit ''DELETE FROM u WHERE a=?''), PSeq [VNone])]
    = Inr ([lit ''INSERT INTO t VALUES(?1) -- x'' @ [10], lit ''DELETE FROM u WHERE a=?2'' @ [10]], [VInt 1, VNone])"
  by code_simp

lemma batch_slots_witness:
  "slots (join separator [lit ''INSERT INTO t VALUES(?1) -- x'' @ [10], lit ''DELETE FROM u WHERE a=?2'' @ [10]]) = Some [1, 2]"
  using batch_slots [OF demo_collect] by (simp add: upt_rec)

section \<open>Vectors and rows\<close>

text \<open>
  C19. A vector that satisfies the class invariant survives the conversion to bytes: four bytes a
  component, and reading them back gives the same vector.
\<close>

theorem vector_bytes_roundtrip:
  assumes "vec_ok v"
  shows "\<exists>b. vec_to_bytes v = Inr b \<and> length b = 4 * length v \<and> vec_from_bytes pf b = Inr v"
  using vec_to_bytes_ok [OF assms] vec_bytes_length [OF assms] vec_from_to_bytes [OF assms] by blast

lemma demo_vec_ok: "vec_ok [Finite False 0]"
  by (simp add: vec_ok_def is_f32_def f32_bits_def f32_mag_def rhe_def Let_def)

theorem vector_bytes_roundtrip_witness:
  "vec_ok [Finite False 0] \<and> (\<exists>b. vec_to_bytes [Finite False 0] = Inr b \<and> length b = 4 * length [Finite False 0]
    \<and> vec_from_bytes (\<lambda>_. None) b = Inr [Finite False 0])"
  using demo_vec_ok vector_bytes_roundtrip [OF demo_vec_ok, of "\<lambda>_. None"] by blast

text \<open>
  Every byte string that \<open>Vector.from_bytes\<close> accepts is the encoding of the vector it
  returns: decoding loses nothing.
\<close>

lemma bytes_vector_roundtrip:
  assumes "vec_from_bytes pf bs = Inr v" and "\<And>x. x \<in> set bs \<Longrightarrow> x < 256"
  shows "vec_to_bytes v = Inr bs \<and> length bs = 4 * length v"
  using vec_to_from_bytes [OF assms] vec_from_bytes_Inr(2) [OF assms(1)] by simp

text \<open>
  Whatever iterable it is made of, a constructed vector has between 1 and 384 components, all
  of them finite float32 values.
\<close>

lemma vector_invariant:
  assumes "vector_new pf it = Inr v"
  shows "1 \<le> length v \<and> length v \<le> 384 \<and> list_all is_f32 v"
  using vector_new_ok [OF assms] by (simp add: vec_ok_def)

text \<open>
  Access by column name yields the value of the first column of that name, and fails with
  \<open>KeyError\<close> exactly for names that are no column.
\<close>

lemma row_lookup:
  assumes "length (row_values r) = length (row_columns r)"
  shows "(k \<notin> set (row_columns r) \<longrightarrow> row_getitem r (KStr k) = Inl KeyError)
    \<and> (k \<in> set (row_columns r) \<longrightarrow> (\<exists>i < length (row_columns r). row_columns r ! i = k
        \<and> (\<forall>j < i. row_columns r ! j \<noteq> k) \<and> row_getitem r (KStr k) = Inr (row_values r ! i)))"
proof (intro conjI impI)
  assume "k \<notin> set (row_columns r)"
  then show "row_getitem r (KStr k) = Inl KeyError" by (simp add: row_getitem_def index_of_None [THEN iffD2])
next
  assume "k \<in> set (row_columns r)"
  then show "\<exists>i < length (row_columns r). row_columns r ! i = k \<and> (\<forall>j < i. row_columns r ! j \<noteq> k)
      \<and> row_getitem r (KStr k) = Inr (row_values r ! i)"
    by (rule row_getitem_first [OF _ assms]) blast
qed

section \<open>Transport\<close>

text \<open>
  \<open>_receive\<close> always returns: with exactly the bytes asked for, or with an error of the
  network, and it leaves the transport object alone.
\<close>

lemma receive_exact:
  assumes "well_behaved N" and "t_socket t \<noteq> None"
  shows "\<exists>r w'. receive N n d (t, w) = Some (r, (t, w')) \<and> (case r of Inr x \<Rightarrow> length x = n | Inl e \<Rightarrow> net_exn e)"
proof -
  have "wlp (receive N n d) (\<lambda>x s. fst s = t \<and> length x = n) (\<lambda>e s. fst s = t \<and> net_exn e) (t, w)"
    by (rule receive_wlp [OF assms]) auto
  then show ?thesis by (rule total_wlp [OF total_receive]) auto
qed

text \<open>
  C16. The contract of an exchange, which always returns: a reply leaves the transport connected to
  the endpoint that was asked; a failure closes it and is a \<open>ConnectionError\<close>; a request that
  cannot be encoded within 64 KiB is refused before anything is touched.
\<close>

theorem exchange_contract:
  assumes "well_behaved N" and "t_inv t"
  shows "\<exists>r t' w'. exchange N ep request d (t, w) = Some (r, (t', w')) \<and> t_inv t' \<and>
    (case r of
       Inr _ \<Rightarrow> connected ep t'
     | Inl e \<Rightarrow> disconnected t' \<and> is_ConnectionError e
         \<or> (t', w') = (t, w) \<and> (e = ValueError ''Encoded request exceeds 64 KiB'' \<or> json_dumps N (JObj request) = Inl e))"
  by (rule total_wlp [OF total_exchange exchange_wlp [OF assms, of ep request d w]])
    (use assms(2) in \<open>auto dest: t_inv_cases\<close>)

theorem exchange_contract_witness:
  "\<exists>r t' w'. exchange (sim []) demo_endpoint [] 5 (transport_new demo_tls, (0, [])) = Some (r, (t', w')) \<and> t_inv t' \<and>
    (case r of
       Inr _ \<Rightarrow> connected demo_endpoint t'
     | Inl e \<Rightarrow> disconnected t' \<and> is_ConnectionError e
         \<or> (t', w') = (transport_new demo_tls, (0, [])) \<and> (e = ValueError ''Encoded request exceeds 64 KiB'' \<or> json_dumps (sim []) (JObj []) = Inl e))"
  by (rule exchange_contract) (simp_all add: t_inv_def transport_new_def)

section \<open>Connections\<close>

text \<open>
  C5. A call always returns: on a clock that no operation turns back, the retry loop ends at the
  deadline. What it returns was validated and is not transient; otherwise it raises a
  \<open>ConnectionError\<close> or the refusal to encode. Only transport and endpoint index change.
\<close>

theorem call_returns:
  assumes "well_behaved N" and "steady N tm" and "net_ok c"
  shows "\<exists>r c' w'. call N request (c, w) = Some (r, (c', w')) \<and> same_conn c c' \<and> net_ok c' \<and>
    (case r of
       Inr resp \<Rightarrow> validate (c_cluster c) resp (full_request c request) = Inr () \<and> \<not> transient (dget resp ''error'')
     | Inl e \<Rightarrow> is_ConnectionError e \<or> encoding_exn N (full_request c request) e)"
  by (rule total_wlp [OF total_call [OF assms(2)] call_wlp [OF assms(1,3), of request w]])
    (auto simp: accepted_def)

theorem call_returns_witness:
  "\<exists>r c' w'. call (sim []) [(lit ''op'', JStr (lit ''status''))] (demo_conn, (0, [])) = Some (r, (c', w')) \<and> same_conn demo_conn c' \<and> net_ok c' \<and>
    (case r of
       Inr resp \<Rightarrow> validate (c_cluster demo_conn) resp (full_request demo_conn [(lit ''op'', JStr (lit ''status''))]) = Inr ()
         \<and> \<not> transient (dget resp ''error'')
     | Inl e \<Rightarrow> is_ConnectionError e \<or> encoding_exn (sim []) (full_request demo_conn [(lit ''op'', JStr (lit ''status''))]) e)"
  by (rule call_returns [OF sim_well_behaved sim_steady conn_inv_net [OF demo_conn_inv(1)]])

text \<open>
  C17. A pending write survives being saved and reloaded: reading the JSON document of a valid
  pending write gives it back, identity, SQL text, parameters, read version and epoch.
\<close>

theorem pending_write_roundtrip:
  assumes "pw_ok p" and "vals_ok (pw_parameters p)"
  shows "pending_from_json pf (pending_to_json p) = Inr p"
  by (rule pending_json_roundtrip [OF assms])

theorem pending_write_roundtrip_witness:
  "pending_from_json (\<lambda>_. None) (pending_to_json demo_write) = Inr demo_write"
  by (rule pending_write_roundtrip) (simp_all add: vals_ok_def demo_write_def demo_write_ok [unfolded demo_write_def])

text \<open>
  A new connection satisfies the connection invariant: it starts at the first endpoint with a
  closed transport, and a resumed write carries the identity and epoch of the connection.
\<close>

lemma connection_new_establishes:
  assumes "connection_new N eps cluster tls timeout pending w = (Inr c, w')" and "\<forall>p. pending = Some p \<longrightarrow> pw_ok p"
  shows "conn_inv c \<and> c_pending c = pending \<and> 0 < c_timeout c \<and> c_timeout c \<le> 60 \<and> c_endpoints c \<noteq> []"
  using connection_new_inv [OF assms(1)] assms
  by (auto simp: connection_new_def split: if_splits prod.splits sum.splits option.splits)



text \<open>
  C4. \<open>resolve_pending\<close> always returns, retries the retained write and no other, and leaves
  exactly a state that the write machine allows for it: the write stays pending after an uncertain
  answer, and the sequence number moves on by one after a definite one.
\<close>

theorem resolve_pending_refines:
  assumes "well_behaved N" and "steady N tm" and "conn_inv c" and "c_pending c = Some p" and "\<not> c_closed c" and "\<not> c_transaction c"
  shows "\<exists>r c' w'. resolve_pending N (c, w) = Some (r, (c', w')) \<and> conn_inv c' \<and> frame_conn c c'
    \<and> write_step (unencodable N) p (c_sequence c) r (c_sequence c', c_pending c')"
  by (rule resolve_pending_outcome [OF assms])

theorem resolve_pending_refines_witness:
  "\<exists>r c' w'. resolve_pending (sim []) (demo_conn\<lparr>c_pending := Some demo_write\<rparr>, (0, [])) = Some (r, (c', w')) \<and> conn_inv c'
    \<and> frame_conn (demo_conn\<lparr>c_pending := Some demo_write\<rparr>) c'
    \<and> write_step (unencodable (sim [])) demo_write (c_sequence (demo_conn\<lparr>c_pending := Some demo_write\<rparr>)) r (c_sequence c', c_pending c')"
  by (rule resolve_pending_refines [OF sim_well_behaved sim_steady demo_conn_inv(2)]) (simp_all add: demo_conn_def)





text \<open>
  C18. A query always returns and leaves the whole write state alone; the rows it hands out are
  all as wide as the header and carry its column names.
\<close>

theorem query_returns_rows:
  assumes "well_behaved N" and "steady N tm" and "net_ok c"
  shows "\<exists>r c' w'. query N sql ps consistency (c, w) = Some (r, (c', w')) \<and> same_conn c c' \<and>
    (case r of Inr rs \<Rightarrow> (\<forall>row \<in> set (rows_rows rs). row_columns row = rows_columns rs
        \<and> length (row_values row) = length (rows_columns rs)) | Inl e \<Rightarrow> True)"
  by (rule total_wlp [OF total_query [OF assms(2)] query_wlp [OF assms(1,3), of sql ps consistency w]])
    (auto simp: rows_ok_def reads_def)

theorem query_returns_rows_witness:
  "\<exists>r c' w'. query (sim []) (VStr (lit ''SELECT 1'')) (PSeq []) (lit ''local'') (demo_conn, (0, [])) = Some (r, (c', w')) \<and> same_conn demo_conn c'"
  using query_returns_rows [OF sim_well_behaved sim_steady conn_inv_net [OF demo_conn_inv(1)]] by blast

end
