(* ===== verification/Transaction.thy ===== *)
theory Transaction
  imports Batches Client_Reads
begin

text \<open>
  \<open>languages/python/src/sqlodin/transaction.py\<close>: buffered transaction bodies. A method works on
  the \<open>Transaction\<close> object beside the connection it belongs to and the world. The block
  \<open>with connection.transaction() as tx\<close> is \<open>with_transaction\<close> on the statements of its body.
\<close>

section \<open>Model\<close>

record Transaction =
  tx_result :: "WriteResult option"
  tx_statements :: "pstr list"
  tx_parameters :: "pval list"
  tx_active :: bool
  tx_used :: bool

type_synonym 'w xstate = "Transaction \<times> 'w cstate"

definition transaction_new :: Transaction where
  "transaction_new = \<lparr>tx_result = None, tx_statements = [], tx_parameters = [], tx_active = False, tx_used = False\<rparr>"

definition acquire :: "('w cstate, unit) comp" where
  "acquire = setM (\<lambda>c. c\<lparr>c_lock := Suc (c_lock c)\<rparr>)"

definition release :: "('w cstate, unit) comp" where
  "release = setM (\<lambda>c. c\<lparr>c_lock := c_lock c - 1\<rparr>)"

definition tx_enter :: "('w xstate, unit) comp" where
  "tx_enter = bindM (innerM acquire) (\<lambda>_.
    tryM (bindM (innerM ready) (\<lambda>_. bindM objM (\<lambda>t. bindM (innerM connM) (\<lambda>c.
          bindM (whenM (tx_used t \<or> c_pending c \<noteq> None)
                  (PendingWriteError ''Transaction already used or a write needs resolution'')) (\<lambda>_.
          bindM (updM (\<lambda>t. t\<lparr>tx_active := True, tx_used := True\<rparr>)) (\<lambda>_.
          innerM (setM (\<lambda>c. c\<lparr>c_transaction := True\<rparr>))))))))
      (\<lambda>e. bindM (innerM release) (\<lambda>_. raiseM e)))"

definition tx_execute :: "unidb \<Rightarrow> pval \<Rightarrow> params \<Rightarrow> ('w xstate, unit) comp" where
  "tx_execute U sql parameters = bindM objM (\<lambda>t.
    bindM (whenM (\<not> tx_active t) (PendingWriteError ''Use transaction.execute() inside its with block'')) (\<lambda>_.
    bindM (whenM (8 \<le> length (tx_statements t)) (ValueError ''A transaction supports at most eight statements'')) (\<lambda>_.
    bindM (liftR (prepare U sql parameters (length (tx_parameters t)))) (\<lambda>(tx, values).
    bindM (liftR (case utf8 (join separator (tx_statements t @ [tx @ [10]])) of
        None \<Rightarrow> Inl UnicodeEncodeError
      | Some b \<Rightarrow> if 4096 < length b then Inl (ValueError ''A transaction is limited to 4096 UTF-8 bytes'') else Inr ())) (\<lambda>_.
    updM (\<lambda>t. t\<lparr>tx_statements := tx_statements t @ [tx @ [10]], tx_parameters := tx_parameters t @ values\<rparr>))))))"

definition tx_exit :: "'w netops \<Rightarrow> bool \<Rightarrow> ('w xstate, unit) comp" where
  "tx_exit N raised = finallyM
    (bindM (updM (\<lambda>t. t\<lparr>tx_active := False\<rparr>)) (\<lambda>_.
     bindM (innerM (setM (\<lambda>c. c\<lparr>c_transaction := False\<rparr>))) (\<lambda>_.
     bindM objM (\<lambda>t.
     if \<not> raised \<and> tx_statements t \<noteq> []
     then bindM (innerM (execute_prepared N (join separator (tx_statements t)) (tx_parameters t) (JInt 0))) (\<lambda>r.
          updM (\<lambda>t. t\<lparr>tx_result := Some r\<rparr>))
     else retM ()))))
    (innerM release)"

definition with_transaction :: "'w netops \<Rightarrow> ('w xstate, 'a) comp \<Rightarrow> ('w xstate, 'a) comp" where
  "with_transaction N body = bindM tx_enter (\<lambda>_.
    handleM body (\<lambda>x. bindM (tx_exit N False) (\<lambda>_. retM x)) (\<lambda>e. bindM (tx_exit N True) (\<lambda>_. raiseM e)))"

text \<open>The statements of a block, one \<open>tx.execute\<close> after the other.\<close>

fun tx_run :: "unidb \<Rightarrow> (pval \<times> params) list \<Rightarrow> ('w xstate, unit) comp" where
  "tx_run U [] = retM ()"
| "tx_run U ((sql, ps) # rest) = bindM (tx_execute U sql ps) (\<lambda>_. tx_run U rest)"

text \<open>
  \<open>connection.transaction()\<close> and its whole block: a fresh object, and \<open>tx.result\<close> at the end.
\<close>

definition atomic :: "'w netops \<Rightarrow> (pval \<times> params) list \<Rightarrow> ('w cstate, WriteResult option) comp" where
  "atomic N stmts = (\<lambda>s.
    case with_transaction N (tx_run (unicode N) stmts) (transaction_new, s) of
      None \<Rightarrow> None
    | Some (Inl e, (t, s')) \<Rightarrow> Some (Inl e, s')
    | Some (Inr _, (t, s')) \<Rightarrow> Some (Inr (tx_result t), s'))"

section \<open>The buffer\<close>

text \<open>
  The buffer invariant: at most eight statements, at most sixteen encodable values, a body within
  4096 bytes, and the parameters a server reads off it are the values in order.
\<close>

definition tx_inv :: "Transaction \<Rightarrow> bool" where
  "tx_inv t \<longleftrightarrow> batch_ok (tx_statements t) (tx_parameters t)
     \<and> (tx_statements t = [] \<longrightarrow> tx_parameters t = []) \<and> length (tx_statements t) \<le> 8
     \<and> list_all encodable (tx_parameters t) \<and> length (tx_parameters t) \<le> 16
     \<and> (tx_statements t \<noteq> [] \<longrightarrow> fits 4096 (join separator (tx_statements t)))
     \<and> list_all (\<lambda>s. s \<noteq> [] \<and> 0 \<notin> set s) (tx_statements t)"

lemma tx_inv_new [simp]: "tx_inv transaction_new"
  by (simp add: tx_inv_def transaction_new_def)

lemma tx_inv_flags [simp]:
  "tx_inv (t\<lparr>tx_active := a\<rparr>) = tx_inv t" "tx_inv (t\<lparr>tx_active := a, tx_used := b\<rparr>) = tx_inv t"
  "tx_inv (t\<lparr>tx_result := r\<rparr>) = tx_inv t"
  by (simp_all add: tx_inv_def)

lemma tx_execute_wlp:
  assumes "tx_inv t"
  shows "wlp (tx_execute U sql ps)
     (\<lambda>_ (t', s'). tx_inv t' \<and> s' = s \<and> tx_active t' = tx_active t \<and> tx_used t' = tx_used t \<and> tx_result t' = tx_result t
        \<and> (\<exists>tx vs. prepare U sql ps (length (tx_parameters t)) = Inr (tx, vs)
            \<and> tx_statements t' = tx_statements t @ [tx @ [10]] \<and> tx_parameters t' = tx_parameters t @ vs))
     (\<lambda>e s'. s' = (t, s)) (t, s)"
proof (cases "prepare U sql ps (length (tx_parameters t))")
  case (Inl e)
  then show ?thesis by (simp add: tx_execute_def)
next
  case (Inr b)
  obtain tx vs where p: "prepare U sql ps (length (tx_parameters t)) = Inr (tx, vs)" using Inr by (cases b) auto
  let ?t = "t\<lparr>tx_statements := tx_statements t @ [tx @ [10]], tx_parameters := tx_parameters t @ vs\<rparr>"
  have "batch_ok (tx_statements t @ [tx @ [10]]) (tx_parameters t @ vs)"
    by (rule prepared.batch_extend [OF _ _ p]) (use assms in \<open>auto simp: tx_inv_def\<close>)
  moreover have "list_all encodable (tx_parameters t @ vs) \<and> length (tx_parameters t @ vs) \<le> 16"
    by (rule prepared.batch_values [OF _ p]) (use assms in \<open>auto simp: tx_inv_def\<close>)
  ultimately have "tx_inv ?t"
    if "length (tx_statements t) < 8" "fits 4096 (join separator (tx_statements t @ [tx @ [10]]))"
    using that assms prepared.prep_text [OF p] by (simp add: tx_inv_def)
  then show ?thesis
    by (auto simp: tx_execute_def p fits_def not_le not_less split: option.splits)
qed

text \<open>A whole block body: the statements prepared one after the other, as \<open>collect\<close> does.\<close>

lemma tx_run_wlp:
  assumes "tx_inv t"
  shows "wlp (tx_run U stmts)
     (\<lambda>_ (t', s'). tx_inv t' \<and> s' = s \<and> tx_active t' = tx_active t \<and> tx_used t' = tx_used t \<and> tx_result t' = tx_result t
        \<and> collect U (tx_statements t) (tx_parameters t) stmts = Inr (tx_statements t', tx_parameters t'))
     (\<lambda>e (t', s'). s' = s \<and> tx_inv t' \<and> tx_used t' = tx_used t \<and> tx_result t' = tx_result t) (t, s)"
  using assms
proof (induction U stmts arbitrary: t rule: tx_run.induct)
  case (2 U sql ps rest)
  show ?case unfolding tx_run.simps wlp_simps
  proof (rule wlp_mono [OF tx_execute_wlp [OF "2.prems"]])
    fix x and u :: "'a xstate"
    assume u: "case u of (t', s') \<Rightarrow> tx_inv t' \<and> s' = s \<and> tx_active t' = tx_active t \<and> tx_used t' = tx_used t \<and> tx_result t' = tx_result t
        \<and> (\<exists>tx vs. prepare U sql ps (length (tx_parameters t)) = Inr (tx, vs)
            \<and> tx_statements t' = tx_statements t @ [tx @ [10]] \<and> tx_parameters t' = tx_parameters t @ vs)"
    obtain t1 where t1: "u = (t1, s)" using u by (cases u) auto
    show "wlp (tx_run U rest)
      (\<lambda>_ (t', s'). tx_inv t' \<and> s' = s \<and> tx_active t' = tx_active t \<and> tx_used t' = tx_used t \<and> tx_result t' = tx_result t
        \<and> collect U (tx_statements t) (tx_parameters t) ((sql, ps) # rest) = Inr (tx_statements t', tx_parameters t'))
      (\<lambda>e (t', s'). s' = s \<and> tx_inv t' \<and> tx_used t' = tx_used t \<and> tx_result t' = tx_result t) u"
      unfolding t1 by (rule wlp_mono [OF "2.IH"]) (use u t1 in auto)
  qed (use "2.prems" in auto)
qed simp

end
