(* ===== verification/Dbapi.thy ===== *)
theory Dbapi
  imports Transaction
begin

text \<open>
  \<open>languages/python/src/sqlodin/dbapi.py\<close>: DB-API connections and cursors over optimistic
  transactions. The \<open>DbConnection\<close> object stands beside the native connection and the world, a
  \<open>Cursor\<close> beside its connection. An exception carries the message of its raise site;
  \<open>str(exc)\<close> of a translated one is left symbolic.
\<close>

section \<open>Exceptions and statement kinds\<close>

definition translate :: "exn \<Rightarrow> PendingWrite option \<Rightarrow> exn" where
  "translate e pending =
    (case e of
       SerializationError _ \<Rightarrow> DbSerializationError ''str(exc)''
     | ConstraintError _ \<Rightarrow> DbIntegrityError ''str(exc)''
     | UnknownOutcome p \<Rightarrow> DbOperationalError ''str(exc)'' (Some p)
     | PendingWriteError _ \<Rightarrow> DbOperationalError ''str(exc)'' pending
     | ConnectionError _ \<Rightarrow> DbOperationalError ''str(exc)'' pending
     | _ \<Rightarrow> if is_QueryError e then DbProgrammingError ''str(exc)''
            else if is_ValueError e \<or> is_TypeError e then DbDataError ''str(exc)''
            else DbOperationalError ''str(exc)'' pending)"

text \<open>
  The scanner of \<open>_kind\<close>: comments and quotes are skipped by the same branches as in
  \<open>prepare\<close>; \<open>depth\<close> counts parentheses and may become negative.
\<close>

definition word_char :: "unidb \<Rightarrow> nat \<Rightarrow> bool" where
  "word_char U c \<longleftrightarrow> is_alnum U c \<or> c = 95"

function kind_words :: "unidb \<Rightarrow> pstr list \<Rightarrow> int \<Rightarrow> pstr \<Rightarrow> (pstr list \<times> int) res" where
  "kind_words U words depth sql =
    (case sql of [] \<Rightarrow> Inr (words, depth)
     | c # rest \<Rightarrow>
        (case skip_verbatim sql of
           Unterminated m \<Rightarrow> Inl (DbProgrammingError
             (if m = ''Unterminated SQL comment'' then ''Unterminated comment'' else ''Unterminated quote''))
         | Skip seg rst \<Rightarrow> kind_words U words depth rst
         | NoSkip \<Rightarrow>
             if c = 40 then kind_words U words (depth + 1) rest
             else if c = 41 then kind_words U words (depth - 1) rest
             else if c = 59 \<and> depth = 0 then kind_words U (words @ [[59]]) depth rest
             else if (is_alpha U c \<or> c = 95) \<and> depth = 0
             then kind_words U (words @ [upper U (c # takeWhile (word_char U) rest)]) depth (dropWhile (word_char U) rest)
             else kind_words U words depth rest))"
  by pat_completeness auto
termination
  by (relation "measure (\<lambda>(U, words, depth, sql). length sql)")
    (auto dest!: skip_shorter simp: le_imp_less_Suc length_dropWhile_le)

declare kind_words.simps [simp del]

datatype kind = KQuery | KExecute

text \<open>\<open>while words and words[-1] == ';': words.pop()\<close>\<close>

definition strip_semicolons :: "pstr list \<Rightarrow> pstr list" where
  "strip_semicolons words = rev (dropWhile (\<lambda>w. w = [59]) (rev words))"

definition kind_of :: "unidb \<Rightarrow> pstr \<Rightarrow> kind res" where
  "kind_of U sql = bindR (kind_words U [] 0 sql) (\<lambda>(all_words, depth).
    let words = strip_semicolons all_words in
    if words = [] \<or> [59] \<in> set words \<or> depth \<noteq> 0
    then Inl (DbProgrammingError ''Execute exactly one balanced SQL statement'')
    else if lit ''RETURNING'' \<in> set words
    then Inl (DbNotSupportedError ''DML RETURNING is not supported by the SQLodin service'')
    else let kind = (if hd words = lit ''WITH''
        then (case filter (\<lambda>w. w \<in> {lit ''SELECT'', lit ''INSERT'', lit ''UPDATE'', lit ''DELETE'', lit ''REPLACE''}) (List.tl words) of
                [] \<Rightarrow> [] | w # _ \<Rightarrow> w)
        else hd words) in
      if kind \<in> {lit ''SELECT'', lit ''VALUES''} then Inr KQuery
      else if kind \<in> {lit ''INSERT'', lit ''UPDATE'', lit ''DELETE'', lit ''REPLACE'', lit ''CREATE'', lit ''DROP'', lit ''ALTER''}
      then Inr KExecute
      else Inl (DbNotSupportedError ''Only queries and DML/DDL statements are supported; transaction control uses Connection methods''))"

section \<open>Connections\<close>

type_synonym stmt = "pval \<times> params"

record DbConnection =
  d_closed :: bool
  d_autocommit :: bool
  d_version :: "int option"
  d_statements :: "stmt list"
  d_savepoints :: "(pstr \<times> nat) list"
  d_failed :: bool

type_synonym 'w dstate = "DbConnection \<times> 'w cstate"

definition db_new :: "bool \<Rightarrow> DbConnection" where
  "db_new autocommit = \<lparr>d_closed = False, d_autocommit = autocommit, d_version = None, d_statements = [],
     d_savepoints = [], d_failed = False\<rparr>"

definition db_ready :: "bool \<Rightarrow> ('w dstate, unit) comp" where
  "db_ready allow_failed = bindM objM (\<lambda>d.
    bindM (whenM (d_closed d) (DbInterfaceError ''Connection is closed'')) (\<lambda>_.
    bindM (innerM connM) (\<lambda>c.
    bindM (whenM (c_pending c \<noteq> None)
            (DbOperationalError ''Unresolved commit; recover its identity before reuse'' (c_pending c))) (\<lambda>_.
    whenM (d_failed d \<and> \<not> allow_failed) (DbOperationalError ''Transaction aborted; roll back before reuse'' None)))))"

text \<open>The setter of \<open>autocommit\<close>; \<open>None\<close> is a value that is no bool.\<close>

definition set_autocommit :: "bool option \<Rightarrow> ('w dstate, unit) comp" where
  "set_autocommit v = (case v of
      None \<Rightarrow> raiseM (DbNotSupportedError ''autocommit must be bool'')
    | Some b \<Rightarrow> bindM (db_ready False) (\<lambda>_. bindM objM (\<lambda>d.
        bindM (whenM (b \<noteq> d_autocommit d \<and> d_version d \<noteq> None)
                (DbProgrammingError ''Commit or roll back before changing autocommit'')) (\<lambda>_.
        updM (\<lambda>d. d\<lparr>d_autocommit := b\<rparr>)))))"

definition raise_translated :: "exn \<Rightarrow> ('w dstate, 'a) comp" where
  "raise_translated e = bindM (innerM connM) (\<lambda>c. raiseM (translate e (c_pending c)))"

definition db_begin :: "'w netops \<Rightarrow> ('w dstate, unit) comp" where
  "db_begin N = bindM (db_ready False) (\<lambda>_. bindM objM (\<lambda>d.
    if d_version d = None then
      tryM (bindM (innerM (begin_optimistic N)) (\<lambda>v. updM (\<lambda>d. d\<lparr>d_version := Some v\<rparr>)))
        (\<lambda>e. if is_Error e then bindM (updM (\<lambda>d. d\<lparr>d_failed := True\<rparr>)) (\<lambda>_. raise_translated e) else raiseM e)
    else retM ()))"

definition db_body :: "unidb \<Rightarrow> stmt list \<Rightarrow> (pstr \<times> pval list) res" where
  "db_body U statements = bindR (collect U [] [] statements) (\<lambda>(texts, values).
    let body = join separator texts in
    if 8 < length statements then Inl (DbDataError ''Transaction exceeds eight statements or 4096 SQL bytes'')
    else (case utf8 body of None \<Rightarrow> Inl UnicodeEncodeError | Some b \<Rightarrow>
      if 4096 < length b then Inl (DbDataError ''Transaction exceeds eight statements or 4096 SQL bytes'')
      else if 384 < vec_total values then Inl (DbDataError ''Transaction exceeds 384 vector components'')
      else Inr (body, values)))"

definition version_json :: "int option \<Rightarrow> json" where
  "version_json v = (case v of None \<Rightarrow> JNull | Some i \<Rightarrow> JInt i)"

definition db_preview :: "'w netops \<Rightarrow> stmt list \<Rightarrow> pstr \<Rightarrow> params \<Rightarrow> ('w dstate, dict) comp" where
  "db_preview N statements q values =
    bindM (liftR (db_body (unicode N) statements)) (\<lambda>(body, parameters).
    bindM (liftR (if q \<noteq> [] then prepare (unicode N) (VStr q) values 0 else Inr ([], []))) (\<lambda>(tx, bound).
    bindM (db_begin N) (\<lambda>_. bindM objM (\<lambda>d.
    innerM (preview N body parameters (version_json (d_version d)) tx bound)))))"

definition db_clear :: "DbConnection \<Rightarrow> DbConnection" where
  "db_clear d = d\<lparr>d_version := None, d_statements := [], d_savepoints := [], d_failed := False\<rparr>"

definition db_commit :: "'w netops \<Rightarrow> ('w dstate, unit) comp" where
  "db_commit N = bindM (db_ready False) (\<lambda>_.
    bindM (tryM (bindM objM (\<lambda>d.
        if d_statements d \<noteq> [] then
          bindM (liftR (db_body (unicode N) (d_statements d))) (\<lambda>(body, values).
          bindM (innerM (with_lock (execute_prepared N body values (version_json (d_version d))))) (\<lambda>_. retM ()))
        else retM ()))
      (\<lambda>e. if is_Error e \<or> is_ValueError e \<or> is_TypeError e
           then bindM (updM (\<lambda>d. d\<lparr>d_failed := True\<rparr>)) (\<lambda>_. raise_translated e) else raiseM e)) (\<lambda>_.
    updM db_clear))"

definition db_rollback :: "('w dstate, unit) comp" where
  "db_rollback = bindM (db_ready True) (\<lambda>_. updM db_clear)"

definition db_savepoint :: "'w netops \<Rightarrow> pstr \<Rightarrow> ('w dstate, unit) comp" where
  "db_savepoint N name = bindM objM (\<lambda>d.
    bindM (whenM (d_autocommit d) (DbNotSupportedError ''Savepoints require transactional mode'')) (\<lambda>_.
    bindM (db_begin N) (\<lambda>_.
    updM (\<lambda>d. d\<lparr>d_savepoints := d_savepoints d @ [(name, length (d_statements d))]\<rparr>))))"

text \<open>\<open>for index in range(n - 1, -1, -1)\<close>: the last savepoint of that name.\<close>

fun sp_search :: "(pstr \<times> nat) list \<Rightarrow> pstr \<Rightarrow> nat \<Rightarrow> nat option" where
  "sp_search sps name 0 = None"
| "sp_search sps name (Suc i) = (if fst (sps ! i) = name then Some i else sp_search sps name i)"

definition savepoint_index :: "pstr \<Rightarrow> ('w dstate, nat) comp" where
  "savepoint_index name = bindM (db_ready False) (\<lambda>_. bindM objM (\<lambda>d.
    (case sp_search (d_savepoints d) name (length (d_savepoints d)) of
       Some i \<Rightarrow> retM i | None \<Rightarrow> raiseM (DbProgrammingError ''Unknown savepoint''))))"

definition rollback_savepoint :: "pstr \<Rightarrow> ('w dstate, unit) comp" where
  "rollback_savepoint name = bindM (savepoint_index name) (\<lambda>i.
    updM (\<lambda>d. d\<lparr>d_statements := take (snd (d_savepoints d ! i)) (d_statements d), d_savepoints := take (i + 1) (d_savepoints d)\<rparr>))"

definition release_savepoint :: "pstr \<Rightarrow> ('w dstate, unit) comp" where
  "release_savepoint name = bindM (savepoint_index name) (\<lambda>i.
    updM (\<lambda>d. d\<lparr>d_savepoints := take i (d_savepoints d)\<rparr>))"

definition db_close :: "'w netops \<Rightarrow> ('w dstate, unit) comp" where
  "db_close N = bindM (updM db_clear) (\<lambda>_. bindM (innerM (conn_close N)) (\<lambda>_. updM (\<lambda>d. d\<lparr>d_closed := True\<rparr>)))"

section \<open>Cursors\<close>

text \<open>
  \<open>description\<close> is the list of column names (the other six items are \<open>None\<close>);
  \<open>lastrowid\<close> is a JSON value, \<open>JNull\<close> for \<open>None\<close>.
\<close>

record Cursor =
  cur_description :: "json list option"
  cur_lastrowid :: json
  cur_rowcount :: int
  cur_rows :: "cell list list"
  cur_position :: nat
  cur_closed :: bool

type_synonym 'w ustate = "Cursor \<times> 'w dstate"

definition cursor_new :: Cursor where
  "cursor_new = \<lparr>cur_description = None, cur_lastrowid = JNull, cur_rowcount = -1, cur_rows = [], cur_position = 0, cur_closed = False\<rparr>"

definition db_cursor :: "('w dstate, Cursor) comp" where
  "db_cursor = bindM (db_ready False) (\<lambda>_. retM cursor_new)"

definition cur_ready :: "('w ustate, unit) comp" where
  "cur_ready = bindM objM (\<lambda>u.
    bindM (whenM (cur_closed u) (DbInterfaceError ''Cursor is closed'')) (\<lambda>_. innerM (db_ready False)))"

definition cur_reset :: "int \<Rightarrow> Cursor \<Rightarrow> Cursor" where
  "cur_reset rowcount u = u\<lparr>cur_description := None, cur_lastrowid := JNull, cur_rowcount := rowcount,
     cur_rows := [], cur_position := 0\<rparr>"

text \<open>\<open>tuple(parameters)\<close>; a mapping has been refused before.\<close>

definition tuple_of :: "params \<Rightarrow> pval list res" where
  "tuple_of ps = (case ps of
      PSeq vs \<Rightarrow> Inr vs
    | PText s \<Rightarrow> Inr (map (\<lambda>c. VStr [c]) s)
    | PBytes b \<Rightarrow> Inr (map (\<lambda>x. VInt (int x)) b)
    | PDict \<Rightarrow> Inl (DbProgrammingError ''Use qmark positional parameters'')
    | PNotIterable \<Rightarrow> Inl (TypeError ''object is not iterable''))"

text \<open>The rows of a preview: every cell decoded, no check of widths or names.\<close>

definition preview_rows :: "'w netops \<Rightarrow> dict \<Rightarrow> (json list \<times> cell list list) res" where
  "preview_rows N result =
    bindR (item (JObj result) ''columns'') (\<lambda>columns.
    bindR (bindR (item (JObj result) ''rows'') iter_json) (\<lambda>items.
    bindR (mapR (decode_row N) items) (\<lambda>rows.
    bindR (iter_json columns) (\<lambda>names. Inr (names, rows)))))"

definition cur_query :: "'w netops \<Rightarrow> pstr \<Rightarrow> params \<Rightarrow> ('w ustate, unit) comp" where
  "cur_query N operation parameters = bindM (innerM objM) (\<lambda>d.
    bindM (if d_autocommit d
      then bindM (innerM (innerM (query N (VStr operation) parameters (lit ''linearizable'')))) (\<lambda>result.
           retM (map JStr (rows_columns result), map as_tuple (rows_rows result)))
      else bindM (innerM (db_preview N (d_statements d) operation parameters)) (\<lambda>result.
           liftR (preview_rows N result))) (\<lambda>(columns, rows).
    updM (\<lambda>u. u\<lparr>cur_description := Some columns, cur_rows := rows\<rparr>)))"

definition cur_write :: "'w netops \<Rightarrow> pstr \<Rightarrow> params \<Rightarrow> ('w ustate, unit) comp" where
  "cur_write N operation parameters = bindM (innerM objM) (\<lambda>d.
    bindM (liftR (tuple_of parameters)) (\<lambda>vs.
    bindM (retM (d_statements d @ [(VStr operation, PSeq vs)])) (\<lambda>candidate.
    bindM (innerM (db_preview N candidate [] (PSeq []))) (\<lambda>result.
    bindM (innerM (updM (\<lambda>d. d\<lparr>d_statements := candidate\<rparr>))) (\<lambda>_.
    bindM (liftR (int_item result ''changes'')) (\<lambda>changes.
    bindM (liftR (item (JObj result) ''lastrowid'')) (\<lambda>lastrowid.
    bindM (updM (\<lambda>u. u\<lparr>cur_rowcount := changes, cur_lastrowid := lastrowid\<rparr>)) (\<lambda>_.
    bindM (innerM objM) (\<lambda>d2. if d_autocommit d2 then innerM (db_commit N) else retM ())))))))))"

text \<open>The handlers of \<open>Cursor.execute\<close>.\<close>

definition auto_clear :: "'w dstate \<Rightarrow> bool" where
  "auto_clear s \<longleftrightarrow> d_autocommit (fst s) \<and> c_pending (fst (snd s)) = None"

definition cur_handle :: "exn \<Rightarrow> ('w dstate, unit) comp" where
  "cur_handle e = (
    if is_Error e \<or> is_ValueError e \<or> is_TypeError e then
      bindM getM (\<lambda>s. bindM (
        if auto_clear s then updM db_clear
        else if (case e of SerializationError _ \<Rightarrow> True | ConnectionError _ \<Rightarrow> True | _ \<Rightarrow> False)
        then updM (\<lambda>d. d\<lparr>d_failed := True\<rparr>) else retM ()) (\<lambda>_. raise_translated e))
    else if is_DbError e then
      bindM getM (\<lambda>s. bindM (if auto_clear s then updM db_clear else retM ()) (\<lambda>_. raiseM e))
    else raiseM e)"

definition cur_execute :: "'w netops \<Rightarrow> pstr \<Rightarrow> params \<Rightarrow> ('w ustate, unit) comp" where
  "cur_execute N operation parameters = bindM cur_ready (\<lambda>_.
    bindM (updM (cur_reset (-1))) (\<lambda>_.
    bindM (whenM (parameters = PDict) (DbProgrammingError ''Use qmark positional parameters'')) (\<lambda>_.
    bindM (liftR (kind_of (unicode N) operation)) (\<lambda>kind.
    tryM (case kind of KQuery \<Rightarrow> cur_query N operation parameters | KExecute \<Rightarrow> cur_write N operation parameters)
      (\<lambda>e. innerM (cur_handle e))))))"

text \<open>The loop of \<open>executemany\<close>, adding up the row counts.\<close>

fun many_loop :: "'w netops \<Rightarrow> pstr \<Rightarrow> params list \<Rightarrow> int \<Rightarrow> ('w ustate, int) comp" where
  "many_loop N operation [] count = retM count"
| "many_loop N operation (values # rest) count =
    bindM (cur_execute N operation values) (\<lambda>_. bindM objM (\<lambda>u. many_loop N operation rest (count + cur_rowcount u)))"

definition many_body :: "'w netops \<Rightarrow> pstr \<Rightarrow> params list \<Rightarrow> bool \<Rightarrow> ('w ustate, unit) comp" where
  "many_body N operation parameters auto =
    bindM (many_loop N operation parameters 0) (\<lambda>count.
    bindM (updM (\<lambda>u. u\<lparr>cur_rowcount := count, cur_lastrowid := JNull\<rparr>)) (\<lambda>_.
    if auto then innerM (db_commit N) else retM ()))"

definition many_undo :: "stmt list \<Rightarrow> bool \<Rightarrow> ('w dstate, unit) comp" where
  "many_undo before auto = bindM (updM (\<lambda>d. d\<lparr>d_statements := before\<rparr>)) (\<lambda>_.
    bindM (innerM connM) (\<lambda>c. if auto \<and> c_pending c = None then updM db_clear else retM ()))"

text \<open>\<open>seq\<close> is the elements of the argument, \<open>None\<close> one that is not iterable.\<close>

definition cur_executemany :: "'w netops \<Rightarrow> pstr \<Rightarrow> params list option \<Rightarrow> ('w ustate, unit) comp" where
  "cur_executemany N operation seq = bindM cur_ready (\<lambda>_.
    bindM (liftR (kind_of (unicode N) operation)) (\<lambda>kind.
    bindM (whenM (kind \<noteq> KExecute) (DbNotSupportedError ''executemany only supports writes'')) (\<lambda>_.
    bindM (liftR (case seq of None \<Rightarrow> Inl (TypeError ''object is not iterable'') | Some xs \<Rightarrow> Inr (take 9 xs))) (\<lambda>parameters.
    bindM (whenM (8 < length parameters) (DbNotSupportedError ''An executemany is limited to eight statements'')) (\<lambda>_.
    bindM (updM (cur_reset 0)) (\<lambda>_.
    if parameters = [] then retM ()
    else bindM (innerM objM) (\<lambda>d.
      bindM (innerM (updM (\<lambda>d. d\<lparr>d_autocommit := False\<rparr>))) (\<lambda>_.
      finallyM
        (tryM (many_body N operation parameters (d_autocommit d))
          (\<lambda>e. bindM (innerM (many_undo (d_statements d) (d_autocommit d))) (\<lambda>_. raiseM e)))
        (innerM (updM (\<lambda>d'. d'\<lparr>d_autocommit := d_autocommit d\<rparr>)))))))))))"

section \<open>Fetching\<close>

definition fetchone :: "('w ustate, cell list option) comp" where
  "fetchone = bindM cur_ready (\<lambda>_. bindM objM (\<lambda>u.
    bindM (whenM (cur_description u = None) (DbProgrammingError ''No query result is available'')) (\<lambda>_.
    if cur_position u = length (cur_rows u) then retM None
    else bindM (liftR (py_index (cur_rows u) (int (cur_position u)))) (\<lambda>row.
         bindM (updM (\<lambda>u. u\<lparr>cur_position := cur_position u + 1\<rparr>)) (\<lambda>_. retM (Some row))))))"

fun fetch_loop :: "nat \<Rightarrow> cell list list \<Rightarrow> ('w ustate, cell list list) comp" where
  "fetch_loop 0 rows = retM rows"
| "fetch_loop (Suc n) rows = bindM fetchone (\<lambda>row.
    (case row of None \<Rightarrow> retM rows | Some r \<Rightarrow> fetch_loop n (rows @ [r])))"

text \<open>The \<open>size\<close> argument: absent, an integer, or something else.\<close>

datatype fetch_size = SizeDefault | SizeInt int | SizeOther

definition fetchmany :: "fetch_size \<Rightarrow> ('w ustate, cell list list) comp" where
  "fetchmany sz = bindM cur_ready (\<lambda>_. bindM objM (\<lambda>u.
    bindM (whenM (cur_description u = None) (DbProgrammingError ''No query result is available'')) (\<lambda>_.
    (case (case sz of SizeDefault \<Rightarrow> SizeInt 1 | _ \<Rightarrow> sz) of
       SizeInt n \<Rightarrow> if n < 0 then raiseM (DbProgrammingError ''Invalid fetch size'') else fetch_loop (nat n) []
     | _ \<Rightarrow> raiseM (DbProgrammingError ''Invalid fetch size'')))))"

definition fetchall :: "('w ustate, cell list list) comp" where
  "fetchall = bindM objM (\<lambda>u. fetchmany (SizeInt (int (length (cur_rows u)) - int (cur_position u))))"

definition cur_next :: "('w ustate, cell list) comp" where
  "cur_next = bindM fetchone (\<lambda>row. (case row of None \<Rightarrow> raiseM StopIteration | Some r \<Rightarrow> retM r))"

definition cur_close :: "('w ustate, unit) comp" where
  "cur_close = updM (\<lambda>u. u\<lparr>cur_rows := [], cur_closed := True\<rparr>)"

end
