(* ===== verification/Dbapi_Facts.thy ===== *)
theory Dbapi_Facts
  imports Dbapi
begin

text \<open>
  What the DB-API layer guarantees: the body of accepted statements can always be rebuilt,
  savepoints implement a stack of saved statement lists, and every operation keeps the invariant
  of the connection pair.
\<close>

section \<open>Bodies\<close>

lemma collect_append:
  "collect U texts vs (xs @ ys) = bindR (collect U texts vs xs) (\<lambda>(t, v). collect U t v ys)"
  by (induction U texts vs xs rule: collect.induct) (auto simp: bindR_def split: sum.splits)

lemma collect_extends:
  "collect U texts vs stmts = Inr (t, v) \<Longrightarrow> \<exists>a b. t = texts @ a \<and> v = vs @ b"
  by (induction U texts vs stmts rule: collect.induct) (fastforce simp: bindR_Inr_iff)+

lemma join_prefix: "\<exists>r. join sep (xs @ ys) = join sep xs @ r"
proof (induction ys rule: rev_induct)
  case (snoc y ys)
  then obtain r where r: "join sep (xs @ ys) = join sep xs @ r" by blast
  have "join sep ((xs @ ys) @ [y]) = (if xs @ ys = [] then y else (join sep xs @ r) @ sep @ y)"
    by (simp only: join_snoc r)
  then show ?case by (cases "xs @ ys = []") auto
qed simp

lemma fits_prefix: "fits n (s @ t) \<Longrightarrow> fits n s"
  by (auto simp: fits_def utf8_append split: option.splits)

lemma db_body_Inr_iff:
  "db_body U stmts = Inr (body, vs) \<longleftrightarrow>
    (\<exists>texts. collect U [] [] stmts = Inr (texts, vs) \<and> body = join separator texts \<and> length stmts \<le> 8
      \<and> fits 4096 body \<and> vec_total vs \<le> 384)"
  by (cases "collect U [] [] stmts")
    (auto simp: db_body_def fits_def Let_def not_less split: option.splits if_splits)

text \<open>Every prefix of a list of statements that fits in one transaction fits too.\<close>

lemma db_body_prefix:
  assumes "db_body U (xs @ ys) = Inr (body, vs)"
  shows "\<exists>b. db_body U xs = Inr b"
proof -
  obtain texts where t: "collect U [] [] (xs @ ys) = Inr (texts, vs)" "length (xs @ ys) \<le> 8"
      "fits 4096 (join separator texts)" "vec_total vs \<le> 384"
    using assms by (auto simp: db_body_Inr_iff)
  obtain t1 v1 where c: "collect U [] [] xs = Inr (t1, v1)" "collect U t1 v1 ys = Inr (texts, vs)"
    using t(1) by (auto simp: collect_append bindR_Inr_iff)
  obtain a b where e: "texts = t1 @ a" "vs = v1 @ b" using collect_extends [OF c(2)] by blast
  have "fits 4096 (join separator t1)"
    using t(3) e(1) join_prefix [of separator t1 a] fits_prefix by metis
  moreover have "vec_total v1 \<le> 384" using t(4) e(2) by (simp add: vec_total_def)
  ultimately have "db_body U xs = Inr (join separator t1, v1)"
    using c(1) t(2) by (auto simp: db_body_Inr_iff)
  then show ?thesis by blast
qed

definition body_ok :: "unidb \<Rightarrow> stmt list \<Rightarrow> bool" where
  "body_ok U stmts \<longleftrightarrow> (\<exists>b. db_body U stmts = Inr b)"

lemma body_ok_Nil [simp]: "body_ok U []"
  by (auto simp: body_ok_def db_body_def vec_total_def)

lemma body_ok_take: "body_ok U stmts \<Longrightarrow> body_ok U (take k stmts)"
  using db_body_prefix [of U "take k stmts" "drop k stmts"] by (auto simp: body_ok_def)

section \<open>Savepoints as a stack\<close>

text \<open>
  The abstract transaction: the buffered statements and, newest first, the lists that were saved
  under a name.
\<close>

type_synonym abs_tx = "stmt list \<times> (pstr \<times> stmt list) list"

definition abs_savepoint :: "pstr \<Rightarrow> abs_tx \<Rightarrow> abs_tx" where
  "abs_savepoint name = (\<lambda>(cur, st). (cur, (name, cur) # st))"

definition abs_rollback :: "pstr \<Rightarrow> abs_tx \<Rightarrow> abs_tx option" where
  "abs_rollback name = (\<lambda>(cur, st). case dropWhile (\<lambda>p. fst p \<noteq> name) st of
      [] \<Rightarrow> None | (n, saved) # rest \<Rightarrow> Some (saved, (n, saved) # rest))"

definition abs_release :: "pstr \<Rightarrow> abs_tx \<Rightarrow> abs_tx option" where
  "abs_release name = (\<lambda>(cur, st). case dropWhile (\<lambda>p. fst p \<noteq> name) st of
      [] \<Rightarrow> None | _ # rest \<Rightarrow> Some (cur, rest))"

definition abs_append :: "stmt \<Rightarrow> abs_tx \<Rightarrow> abs_tx" where
  "abs_append s = (\<lambda>(cur, st). (cur @ [s], st))"

definition tx_abs :: "DbConnection \<Rightarrow> abs_tx" where
  "tx_abs d = (d_statements d, rev (map (\<lambda>(n, k). (n, take k (d_statements d))) (d_savepoints d)))"

definition sp_ok :: "DbConnection \<Rightarrow> bool" where
  "sp_ok d \<longleftrightarrow> sorted (map snd (d_savepoints d)) \<and> (\<forall>p \<in> set (d_savepoints d). snd p \<le> length (d_statements d))"

lemma sp_search_spec:
  "n \<le> length sps \<Longrightarrow> dropWhile (\<lambda>p. fst p \<noteq> name) (rev (take n sps)) =
    (case sp_search sps name n of None \<Rightarrow> [] | Some i \<Rightarrow> rev (take (Suc i) sps))"
  by (induction n) (auto simp: take_Suc_conv_app_nth)

lemma sp_search_bound: "sp_search sps name n = Some i \<Longrightarrow> i < n \<and> fst (sps ! i) = name"
  by (induction n) (auto split: if_splits)

text \<open>The stack below the savepoint that the search finds.\<close>

lemma tx_abs_find:
  assumes "sp_search (d_savepoints d) name (length (d_savepoints d)) = Some i"
  shows "dropWhile (\<lambda>p. fst p \<noteq> name) (snd (tx_abs d)) =
    (name, take (snd (d_savepoints d ! i)) (d_statements d)) #
      rev (map (\<lambda>(n, k). (n, take k (d_statements d))) (take i (d_savepoints d)))"
proof -
  let ?f = "\<lambda>(n, k). (n, take k (d_statements d))"
  note b = sp_search_bound [OF assms]
  have "dropWhile (\<lambda>p. fst p \<noteq> name) (map ?f xs) = map ?f (dropWhile (\<lambda>p. fst p \<noteq> name) xs)" for xs :: "(pstr \<times> nat) list"
    by (induction xs) auto
  then have "dropWhile (\<lambda>p. fst p \<noteq> name) (snd (tx_abs d)) = map ?f (dropWhile (\<lambda>p. fst p \<noteq> name) (rev (d_savepoints d)))"
    by (simp add: tx_abs_def rev_map)
  also have "dropWhile (\<lambda>p. fst p \<noteq> name) (rev (d_savepoints d)) = rev (take (Suc i) (d_savepoints d))"
    using sp_search_spec [of "length (d_savepoints d)" "d_savepoints d" name] assms by simp
  finally show ?thesis using b by (simp add: take_Suc_conv_app_nth rev_map case_prod_unfold)
qed

lemma tx_abs_find_None:
  assumes "sp_search (d_savepoints d) name (length (d_savepoints d)) = None"
  shows "dropWhile (\<lambda>p. fst p \<noteq> name) (snd (tx_abs d)) = []"
proof -
  have "dropWhile (\<lambda>p. fst p \<noteq> name) (rev (d_savepoints d)) = []"
    using sp_search_spec [of "length (d_savepoints d)" "d_savepoints d" name] assms by simp
  then show ?thesis by (auto simp: tx_abs_def)
qed

lemma sp_below:
  assumes "sp_ok d" and "i < length (d_savepoints d)" and "p \<in> set (take (Suc i) (d_savepoints d))"
  shows "snd p \<le> snd (d_savepoints d ! i)"
proof -
  obtain j where j: "j < Suc i" "p = d_savepoints d ! j" using assms(2,3) by (fastforce simp: in_set_conv_nth)
  have "map snd (d_savepoints d) ! j \<le> map snd (d_savepoints d) ! i"
    using assms(1,2) j(1) by (intro sorted_nth_mono) (auto simp: sp_ok_def)
  then show ?thesis using j assms(2) by simp
qed

lemma tx_abs_take:
  assumes "sp_ok d" and "i < length (d_savepoints d)"
  shows "tx_abs (d\<lparr>d_statements := take (snd (d_savepoints d ! i)) (d_statements d), d_savepoints := take (Suc i) (d_savepoints d)\<rparr>) =
    (take (snd (d_savepoints d ! i)) (d_statements d),
     rev (map (\<lambda>(n, k). (n, take k (d_statements d))) (take (Suc i) (d_savepoints d))))"
  using sp_below [OF assms] by (auto simp: tx_abs_def min_absorb1 min.absorb2)

lemma sp_ok_take:
  assumes "sp_ok d" and "i < length (d_savepoints d)"
  shows "sp_ok (d\<lparr>d_statements := take (snd (d_savepoints d ! i)) (d_statements d), d_savepoints := take (Suc i) (d_savepoints d)\<rparr>)"
    and "sp_ok (d\<lparr>d_savepoints := take i (d_savepoints d)\<rparr>)"
proof -
  note below = sp_below [OF assms]
  then show "sp_ok (d\<lparr>d_statements := take (snd (d_savepoints d ! i)) (d_statements d), d_savepoints := take (Suc i) (d_savepoints d)\<rparr>)"
    using assms by (auto simp: sp_ok_def sorted_wrt_take simp flip: take_map dest: in_set_takeD)
  show "sp_ok (d\<lparr>d_savepoints := take i (d_savepoints d)\<rparr>)"
    using assms(1) by (auto simp: sp_ok_def sorted_wrt_take simp flip: take_map dest: in_set_takeD)
qed

section \<open>The invariant\<close>

text \<open>
  Buffered statements and savepoints exist only inside a begun transaction, the positions of the
  savepoints grow and lie within the buffer, and the buffer can be turned into a body.
\<close>

definition db_inv :: "unidb \<Rightarrow> DbConnection \<Rightarrow> Connection \<Rightarrow> bool" where
  "db_inv U d c \<longleftrightarrow> conn_inv c \<and> sp_ok d \<and> body_ok U (d_statements d)
     \<and> (d_statements d \<noteq> [] \<or> d_savepoints d \<noteq> [] \<longrightarrow> d_version d \<noteq> None)
     \<and> (\<forall>v. d_version d = Some v \<longrightarrow> 1 \<le> v \<and> v < 2 ^ 63)"

text \<open>Calls that submit no write: only transport, endpoint and a first epoch may change.\<close>

definition idle :: "Connection \<Rightarrow> Connection \<Rightarrow> bool" where
  "idle c c' \<longleftrightarrow> conn_inv c' \<and> frame_conn c c' \<and> c_sequence c' = c_sequence c \<and> c_pending c' = c_pending c"

lemma idle_refl: "conn_inv c \<Longrightarrow> idle c c"
  by (simp add: idle_def frame_conn_def)

lemma idle_trans: "idle a b \<Longrightarrow> idle b c \<Longrightarrow> idle a c"
  by (auto simp: idle_def intro: frame_trans)

lemma reads_idle: "reads c s \<Longrightarrow> conn_inv c \<Longrightarrow> idle c (fst s)"
  using reads_inv [of c s] by (auto simp: idle_def reads_def same_conn_def frame_conn_def)

lemma pinned_idle:
  assumes "reads (c\<lparr>c_epoch := ep\<rparr>) s" and "pinned c ep" and "conn_inv c"
  shows "idle c (fst s)"
proof -
  have "conn_inv (c\<lparr>c_epoch := ep\<rparr>)" using assms(2,3) by (auto simp: pinned_def conn_inv_def net_ok_def)
  then show ?thesis using reads_inv [OF assms(1)] assms(1)
    by (auto simp: idle_def reads_def same_conn_def frame_conn_def)
qed

lemma begin_idle_wlp:
  assumes "well_behaved N" and "conn_inv c"
  shows "wlp (begin_optimistic N) (\<lambda>v s. 1 \<le> v \<and> v < 2 ^ 63 \<and> idle c (fst s)) (\<lambda>e s. idle c (fst s)) (c, w)"
  by (rule wlp_mono [OF begin_optimistic_wlp [OF assms(1) conn_inv_net [OF assms(2)]]])
    (use pinned_idle [OF _ _ assms(2)] in blast)+

lemma db_inv_idle: "db_inv U d c \<Longrightarrow> idle c c' \<Longrightarrow> db_inv U d c'"
  by (simp add: db_inv_def idle_def)

lemma db_inv_flags [simp]:
  "db_inv U (d\<lparr>d_failed := b\<rparr>) c = db_inv U d c" "db_inv U (d\<lparr>d_autocommit := b\<rparr>) c = db_inv U d c"
  "db_inv U (d\<lparr>d_closed := b\<rparr>) c = db_inv U d c"
  by (simp_all add: db_inv_def sp_ok_def)

lemma db_inv_clear: "db_inv U d c \<Longrightarrow> conn_inv c' \<Longrightarrow> db_inv U (db_clear d) c'"
  by (simp add: db_inv_def db_clear_def sp_ok_def)

lemma db_inv_version: "db_inv U d c \<Longrightarrow> 1 \<le> v \<Longrightarrow> v < 2 ^ 63 \<Longrightarrow> db_inv U (d\<lparr>d_version := Some v\<rparr>) c"
  by (auto simp: db_inv_def sp_ok_def)

text \<open>The buffer and the mode are as before; a begun transaction keeps its version.\<close>

definition same_buffer :: "DbConnection \<Rightarrow> DbConnection \<Rightarrow> bool" where
  "same_buffer d d' \<longleftrightarrow> d_statements d' = d_statements d \<and> d_savepoints d' = d_savepoints d
     \<and> d_autocommit d' = d_autocommit d \<and> d_closed d' = d_closed d
     \<and> (d_version d \<noteq> None \<longrightarrow> d_version d' = d_version d)"

lemma same_buffer_simps [simp]:
  "same_buffer d d" "same_buffer d (d\<lparr>d_failed := b\<rparr>)"
  "d_version d = None \<Longrightarrow> same_buffer d (d\<lparr>d_version := v\<rparr>)"
  by (simp_all add: same_buffer_def)

lemma same_buffer_trans: "same_buffer a b \<Longrightarrow> same_buffer b c \<Longrightarrow> same_buffer a c"
  by (auto simp: same_buffer_def)

section \<open>Operations of a connection\<close>

lemma db_ready_wlp [simp]:
  "wlp (db_ready b) Q E (d, (c, w)) =
    (if d_closed d then E (DbInterfaceError ''Connection is closed'') (d, (c, w))
     else if c_pending c \<noteq> None
       then E (DbOperationalError ''Unresolved commit; recover its identity before reuse'' (c_pending c)) (d, (c, w))
     else if d_failed d \<and> \<not> b then E (DbOperationalError ''Transaction aborted; roll back before reuse'' None) (d, (c, w))
     else Q () (d, (c, w)))"
  by (simp add: db_ready_def)

lemma raise_translated_wlp [simp]:
  "wlp (raise_translated e) Q E (d, (c, w)) = E (translate e (c_pending c)) (d, (c, w))"
  by (simp add: raise_translated_def)

lemma translate_not_KeyError [simp]: "translate e p \<noteq> KeyError"
  by (cases e) (auto simp: translate_def py_defs)

definition kept :: "unidb \<Rightarrow> DbConnection \<Rightarrow> Connection \<Rightarrow> 'w dstate \<Rightarrow> bool" where
  "kept U d c s \<longleftrightarrow> db_inv U (fst s) (fst (snd s)) \<and> idle c (fst (snd s)) \<and> same_buffer d (fst s)"

definition begun :: "unidb \<Rightarrow> DbConnection \<Rightarrow> Connection \<Rightarrow> 'w dstate \<Rightarrow> bool" where
  "begun U d c s \<longleftrightarrow> kept U d c s \<and> d_failed (fst s) = d_failed d \<and> d_version (fst s) \<noteq> None"

lemma kept_refl: "db_inv U d c \<Longrightarrow> kept U d c (d, (c, w))"
  by (simp add: kept_def db_inv_def idle_refl)

lemma kept_failed: "kept U d c (d', t) \<Longrightarrow> kept U d c (d'\<lparr>d_failed := b\<rparr>, t)"
  by (auto simp: kept_def same_buffer_def)

lemma kept_native:
  assumes "kept U d c (d', (c', w'))" and "idle c' (fst t)"
  shows "kept U d c (d', t)"
  using assms idle_trans [OF _ assms(2)] db_inv_idle [OF _ assms(2)] by (auto simp: kept_def)

lemma db_begin_wlp:
  assumes "well_behaved N" and "db_inv (unicode N) d c"
  shows "wlp (db_begin N) (\<lambda>_ s. begun (unicode N) d c s) (\<lambda>e s. kept (unicode N) d c s) (d, (c, w))"
proof -
  have ci: "conn_inv c" using assms(2) by (simp add: db_inv_def)
  have "wlp (begin_optimistic N)
     (\<lambda>v t. db_inv (unicode N) (d\<lparr>d_version := Some v\<rparr>) (fst t) \<and> idle c (fst t))
     (\<lambda>e t. db_inv (unicode N) d (fst t) \<and> idle c (fst t)) (c, w)"
    by (rule wlp_mono [OF begin_idle_wlp [OF assms(1) ci]])
      (use db_inv_version db_inv_idle [OF assms(2)] in auto)
  then show ?thesis using kept_refl [OF assms(2)]
    by (auto simp: db_begin_def begun_def kept_def elim!: wlp_mono)
qed

lemma db_preview_wlp:
  assumes "well_behaved N" and "db_inv (unicode N) d c"
  shows "wlp (db_preview N stmts q ps)
    (\<lambda>resp s. begun (unicode N) d c s \<and> body_ok (unicode N) stmts \<and> (\<exists>i. int_item resp ''changes'' = Inr i))
    (\<lambda>e s. kept (unicode N) d c s) (d, (c, w))"
    (is "wlp _ ?Q ?E _")
proof (cases "db_body (unicode N) stmts")
  case (Inl e)
  then show ?thesis using kept_refl [OF assms(2)] by (simp add: db_preview_def)
next
  case (Inr b)
  then have ok: "body_ok (unicode N) stmts" by (auto simp: body_ok_def)
  have go: "wlp (bindM (db_begin N) (\<lambda>_. bindM objM (\<lambda>d. innerM (preview N (fst b) (snd b) (version_json (d_version d)) tx bound)))) ?Q ?E (d, (c, w))"
    for tx bound
    unfolding wlp_fun
  proof (rule wlp_mono [OF db_begin_wlp [OF assms]])
    fix x and u :: "'a dstate"
    assume u: "begun (unicode N) d c u"
    obtain d1 c1 w1 where u1: "u = (d1, c1, w1)" by (cases u)
    have c1: "conn_inv c1" using u u1 by (simp add: begun_def kept_def db_inv_def)
    have k: "kept (unicode N) d c (d1, t)" if "reads c1 t" for t :: "'a cstate"
      using kept_native reads_idle [OF that c1] u u1 by (fastforce simp: begun_def)
    have "wlp (preview N (fst b) (snd b) v tx bound) (\<lambda>resp t. ?Q resp (d1, t)) (\<lambda>e t. ?E e (d1, t)) (c1, w1)" for v
      by (rule wlp_mono [OF preview_wlp [OF assms(1) conn_inv_net [OF c1]]]) (use k u u1 ok in \<open>auto simp: begun_def\<close>)
    then show "wlp objM (\<lambda>x. wlp (innerM (preview N (fst b) (snd b) (version_json (d_version x)) tx bound)) ?Q ?E) ?E u"
      unfolding u1 by simp
  qed (auto simp: begun_def)
  show ?thesis
    unfolding db_preview_def case_prod_unfold using Inr go kept_refl [OF assms(2)]
    by (auto simp del: wlp_simps(3) simp: wlp_simps(3) [of "liftR r" for r] split: sum.splits)
qed

lemma lock_wlp:
  assumes "well_behaved N" and "conn_inv c"
  shows "wlp (with_lock (execute_prepared N body vs (JInt rv)))
    (\<lambda>r s. submitted N body vs rv c (Inr r) (fst s)) (\<lambda>e s. submitted N body vs rv c (Inl e) (fst s)) (c, w)"
proof -
  let ?c = "c\<lparr>c_lock := Suc (c_lock c)\<rparr>"
  have un: "submitted N body vs rv c r (c'\<lparr>c_lock := c_lock c' - Suc 0\<rparr>)" if "submitted N body vs rv ?c r c'" for r c'
    using that by (auto simp: submitted_def frame_conn_def)
  have inv: "conn_inv ?c" using assms(2) by simp
  show ?thesis by simp (rule wlp_mono [OF execute_prepared_wlp [OF assms(1) inv]]; use un in auto)
qed

text \<open>The one write that a commit makes of the buffer, with the version the transaction read at.\<close>

definition committed_by :: "'w netops \<Rightarrow> DbConnection \<Rightarrow> Connection \<Rightarrow> WriteResult res \<Rightarrow> Connection \<Rightarrow> bool" where
  "committed_by N d c r c' \<longleftrightarrow> (\<exists>body vs rv. db_body (unicode N) (d_statements d) = Inr (body, vs)
     \<and> d_version d = Some rv \<and> submitted N body vs rv c r c')"

definition caught :: "exn \<Rightarrow> bool" where
  "caught e \<longleftrightarrow> is_Error e \<or> is_ValueError e \<or> is_TypeError e"

definition commit_failed :: "'w netops \<Rightarrow> DbConnection \<Rightarrow> Connection \<Rightarrow> exn \<Rightarrow> 'w dstate \<Rightarrow> bool" where
  "commit_failed N d c e s \<longleftrightarrow> d_statements d \<noteq> [] \<and> (\<exists>e0. committed_by N d c (Inl e0) (fst (snd s)) \<and>
     (if caught e0 then fst s = d\<lparr>d_failed := True\<rparr> \<and> e = translate e0 (c_pending (fst (snd s))) else fst s = d \<and> e = e0))"

lemma db_commit_wlp:
  assumes "well_behaved N" and "db_inv (unicode N) d c"
  shows "wlp (db_commit N)
    (\<lambda>_ s. fst s = db_clear d \<and> (if d_statements d = [] then snd s = (c, w) else \<exists>r. committed_by N d c (Inr r) (fst (snd s))))
    (\<lambda>e s. s = (d, (c, w)) \<or> commit_failed N d c e s) (d, (c, w))"
proof (cases "d_statements d = []")
  case True
  then show ?thesis by (simp add: db_commit_def)
next
  case False
  then obtain body vs rv where b: "db_body (unicode N) (d_statements d) = Inr (body, vs)" and rv: "d_version d = Some rv"
    using assms(2) by (fastforce simp: db_inv_def body_ok_def)
  have ci: "conn_inv c" using assms(2) by (simp add: db_inv_def)
  have com: "committed_by N d c r c'" if "submitted N body vs rv c r c'" for r c'
    using that b rv by (auto simp: committed_by_def)
  let ?E = "\<lambda>e s. s = (d, (c, w)) \<or> commit_failed N d c e s"
  let ?Q = "\<lambda>_ s. fst s = db_clear d \<and> (\<exists>r. committed_by N d c (Inr r) (fst (snd s)))"
  have fail: "caught e \<Longrightarrow> commit_failed N d c (translate e (c_pending c')) (d\<lparr>d_failed := True\<rparr>, (c', w'))"
      "\<not> caught e \<Longrightarrow> commit_failed N d c e (d, (c', w'))"
    if "submitted N body vs rv c (Inl e) c'" for e c' and w' :: 'a
    using com [OF that] False by (auto simp: commit_failed_def intro!: exI [of _ e])
  have "wlp (with_lock (execute_prepared N body vs (JInt rv)))
     (\<lambda>x t. ?Q () (db_clear d, t))
     (\<lambda>e t. wlp (if caught e then bindM (updM (\<lambda>d. d\<lparr>d_failed := True\<rparr>)) (\<lambda>_. raise_translated e) else raiseM e) ?Q ?E (d, t)) (c, w)"
    by (rule wlp_mono [OF lock_wlp [OF assms(1) ci]])
      (use com fail in \<open>simp_all add: case_prod_unfold prod_eq_iff\<close>, use com fail in auto)
  then show ?thesis using False b rv
    by (auto simp: db_commit_def version_json_def caught_def [symmetric] elim!: wlp_mono)
qed

lemma submitted_inv: "submitted N body vs rv c r c' \<Longrightarrow> conn_inv c'"
  by (simp add: submitted_def)

lemma commit_inv:
  assumes "db_inv (unicode N) d c"
  shows "committed_by N d c r c' \<Longrightarrow> db_inv (unicode N) (db_clear d) c'"
    and "commit_failed N d c e s \<Longrightarrow> db_inv (unicode N) (fst s) (fst (snd s))"
proof -
  assume "committed_by N d c r c'"
  then show "db_inv (unicode N) (db_clear d) c'"
    using assms submitted_inv by (fastforce simp: committed_by_def intro: db_inv_clear)
next
  assume f: "commit_failed N d c e s"
  then obtain e0 where e0: "committed_by N d c (Inl e0) (fst (snd s))" and d: "fst s = d \<or> fst s = d\<lparr>d_failed := True\<rparr>"
    by (auto simp: commit_failed_def split: if_splits)
  have "conn_inv (fst (snd s))" using e0 submitted_inv by (fastforce simp: committed_by_def)
  then have "db_inv (unicode N) d (fst (snd s))" using assms by (simp add: db_inv_def)
  then show "db_inv (unicode N) (fst s) (fst (snd s))" using d by auto
qed

section \<open>Savepoint operations\<close>

lemma savepoint_index_wlp [simp]:
  "wlp (savepoint_index name) Q E (d, (c, w)) = wlp (db_ready False) (\<lambda>_ s.
    case sp_search (d_savepoints (fst s)) name (length (d_savepoints (fst s))) of
       Some i \<Rightarrow> Q i s | None \<Rightarrow> E (DbProgrammingError ''Unknown savepoint'') s) E (d, (c, w))"
  by (simp add: savepoint_index_def split: option.splits)

text \<open>Rolling back and releasing refine the operations of the stack.\<close>

lemma rollback_savepoint_wlp:
  assumes "db_inv U d c"
  shows "wlp (rollback_savepoint name)
    (\<lambda>_ s. snd s = (c, w) \<and> db_inv U (fst s) c \<and> abs_rollback name (tx_abs d) = Some (tx_abs (fst s)))
    (\<lambda>e s. s = (d, (c, w)) \<and> (e = DbProgrammingError ''Unknown savepoint'' \<longrightarrow> abs_rollback name (tx_abs d) = None)) (d, (c, w))"
proof (cases "sp_search (d_savepoints d) name (length (d_savepoints d))")
  case None
  have "abs_rollback name (tx_abs d) = None"
    unfolding abs_rollback_def case_prod_unfold tx_abs_find_None [OF None] by simp
  with None show ?thesis by (simp add: rollback_savepoint_def)
next
  case (Some i)
  note b = sp_search_bound [OF Some]
  have sp: "sp_ok d" using assms by (simp add: db_inv_def)
  let ?d = "d\<lparr>d_statements := take (snd (d_savepoints d ! i)) (d_statements d), d_savepoints := take (Suc i) (d_savepoints d)\<rparr>"
  have "db_inv U ?d c"
    using assms sp_ok_take(1) [OF sp] b body_ok_take by (auto simp: db_inv_def)
  moreover have "abs_rollback name (tx_abs d) = Some (tx_abs ?d)"
    using tx_abs_find [OF Some] tx_abs_take [OF sp, of i] b
    by (simp add: abs_rollback_def case_prod_unfold take_Suc_conv_app_nth)
  ultimately show ?thesis using Some by (simp add: rollback_savepoint_def)
qed

lemma release_savepoint_wlp:
  assumes "db_inv U d c"
  shows "wlp (release_savepoint name)
    (\<lambda>_ s. snd s = (c, w) \<and> db_inv U (fst s) c \<and> abs_release name (tx_abs d) = Some (tx_abs (fst s)))
    (\<lambda>e s. s = (d, (c, w)) \<and> (e = DbProgrammingError ''Unknown savepoint'' \<longrightarrow> abs_release name (tx_abs d) = None)) (d, (c, w))"
proof (cases "sp_search (d_savepoints d) name (length (d_savepoints d))")
  case None
  have "abs_release name (tx_abs d) = None"
    unfolding abs_release_def case_prod_unfold tx_abs_find_None [OF None] by simp
  with None show ?thesis by (simp add: release_savepoint_def)
next
  case (Some i)
  note b = sp_search_bound [OF Some]
  have sp: "sp_ok d" using assms by (simp add: db_inv_def)
  let ?d = "d\<lparr>d_savepoints := take i (d_savepoints d)\<rparr>"
  have "db_inv U ?d c" using assms sp_ok_take(2) [OF sp] b by (auto simp: db_inv_def)
  moreover have "abs_release name (tx_abs d) = Some (tx_abs ?d)"
    using tx_abs_find [OF Some] by (simp add: abs_release_def case_prod_unfold tx_abs_def)
  ultimately show ?thesis using Some by (simp add: release_savepoint_def)
qed

lemma db_savepoint_wlp:
  assumes "well_behaved N" and "db_inv (unicode N) d c"
  shows "wlp (db_savepoint N name)
    (\<lambda>_ s. db_inv (unicode N) (fst s) (fst (snd s)) \<and> idle c (fst (snd s)) \<and> tx_abs (fst s) = abs_savepoint name (tx_abs d))
    (\<lambda>e s. kept (unicode N) d c s) (d, (c, w))"
proof -
  have ok: "db_inv (unicode N) (d'\<lparr>d_savepoints := d_savepoints d' @ [(name, length (d_statements d'))]\<rparr>) c'
      \<and> tx_abs (d'\<lparr>d_savepoints := d_savepoints d' @ [(name, length (d_statements d'))]\<rparr>) = abs_savepoint name (tx_abs d)"
    if "begun (unicode N) d c (d', c', w')" for d' c' and w' :: 'a
  proof -
    have d': "d_statements d' = d_statements d" "d_savepoints d' = d_savepoints d" "d_version d' \<noteq> None" "db_inv (unicode N) d' c'"
      using that by (simp_all add: begun_def kept_def same_buffer_def)
    have "sp_ok (d'\<lparr>d_savepoints := d_savepoints d' @ [(name, length (d_statements d'))]\<rparr>)"
      using d'(4) by (auto simp: db_inv_def sp_ok_def sorted_append)
    then show ?thesis using d' by (simp add: db_inv_def tx_abs_def abs_savepoint_def)
  qed
  have "wlp (db_begin N) (\<lambda>_ s. db_inv (unicode N) ((fst s)\<lparr>d_savepoints := d_savepoints (fst s) @ [(name, length (d_statements (fst s)))]\<rparr>) (fst (snd s))
      \<and> idle c (fst (snd s)) \<and> tx_abs ((fst s)\<lparr>d_savepoints := d_savepoints (fst s) @ [(name, length (d_statements (fst s)))]\<rparr>) = abs_savepoint name (tx_abs d))
      (\<lambda>e s. kept (unicode N) d c s) (d, (c, w))"
    by (rule wlp_mono [OF db_begin_wlp [OF assms]])
      (use ok in \<open>auto simp: begun_def kept_def split: prod.splits\<close>)
  then show ?thesis using kept_refl [OF assms(2), of w]
    by (simp add: db_savepoint_def wlp_fun_objects)
qed

end
