(* ===== verification/Dbapi_Cursors.thy ===== *)
theory Dbapi_Cursors
  imports Dbapi_Facts
begin

text \<open>
  Cursors: what \<open>execute\<close> and \<open>executemany\<close> leave in the transaction buffer on every way out,
  and the order in which rows are fetched.
\<close>

section \<open>Growing the buffer\<close>

text \<open>The buffer has grown by \<open>xs\<close>; savepoints, mode and a begun version are as before.\<close>

definition grown :: "unidb \<Rightarrow> DbConnection \<Rightarrow> stmt list \<Rightarrow> 'w dstate \<Rightarrow> bool" where
  "grown U d xs s \<longleftrightarrow> db_inv U (fst s) (fst (snd s)) \<and> d_statements (fst s) = d_statements d @ xs
     \<and> d_savepoints (fst s) = d_savepoints d \<and> d_autocommit (fst s) = d_autocommit d \<and> d_closed (fst s) = d_closed d
     \<and> (d_version d \<noteq> None \<longrightarrow> d_version (fst s) = d_version d)"

lemma kept_grown: "kept U d c s \<Longrightarrow> grown U d [] s"
  by (auto simp: kept_def grown_def same_buffer_def)

lemma kept_idle: "kept U d c s \<Longrightarrow> idle c (fst (snd s))"
  by (simp add: kept_def)

lemma grown_inv: "grown U d xs s \<Longrightarrow> db_inv U (fst s) (fst (snd s))"
  by (simp add: grown_def)

lemma grown_trans: "grown U d xs s \<Longrightarrow> grown U (fst s) ys t \<Longrightarrow> grown U d (xs @ ys) t"
  by (auto simp: grown_def)

lemma grown_failed: "grown U d xs (d', t) \<Longrightarrow> grown U d xs (d'\<lparr>d_failed := b\<rparr>, t)"
  by (auto simp: grown_def)

lemma begun_grown:
  assumes "begun U d c s" and "body_ok U (d_statements d @ xs)"
  shows "grown U d xs ((fst s)\<lparr>d_statements := d_statements d @ xs\<rparr>, snd s)"
proof -
  have s: "db_inv U (fst s) (fst (snd s))" "d_version (fst s) \<noteq> None" "same_buffer d (fst s)"
    using assms(1) by (simp_all add: begun_def kept_def)
  have "sp_ok ((fst s)\<lparr>d_statements := d_statements d @ xs\<rparr>)"
    using s(1,3) by (auto simp: db_inv_def sp_ok_def same_buffer_def)
  then show ?thesis using s assms(2) by (auto simp: grown_def db_inv_def same_buffer_def)
qed

section \<open>Executing\<close>

lemma cur_ready_wlp [simp]:
  "wlp cur_ready Q E (u, s) =
    (if cur_closed u then E (DbInterfaceError ''Cursor is closed'') (u, s)
     else wlp (db_ready False) (\<lambda>_ t. Q () (u, t)) (\<lambda>e t. E e (u, t)) s)"
  by (simp add: cur_ready_def)

lemma cur_write_wlp:
  assumes "well_behaved N" and "db_inv (unicode N) d c" and "\<not> d_autocommit d"
  shows "wlp (cur_write N op ps)
    (\<lambda>_ s. \<exists>vs. tuple_of ps = Inr vs \<and> grown (unicode N) d [(VStr op, PSeq vs)] (snd s) \<and> idle c (fst (snd (snd s))))
    (\<lambda>e s. idle c (fst (snd (snd s))) \<and> (grown (unicode N) d [] (snd s) \<or> e = KeyError \<and> (\<exists>x. grown (unicode N) d [x] (snd s))))
    (u, (d, (c, w)))"
    (is "wlp _ ?Q ?E _")
proof (cases "tuple_of ps")
  case (Inl e)
  then show ?thesis using kept_grown [OF kept_refl [OF assms(2), of w]] kept_idle [OF kept_refl [OF assms(2), of w]]
    by (simp add: cur_write_def)
next
  case (Inr vs)
  let ?x = "(VStr op, PSeq vs)"
  let ?k = "\<lambda>result. bindM (innerM (updM (\<lambda>d'. d'\<lparr>d_statements := d_statements d @ [?x]\<rparr>))) (\<lambda>_.
    bindM (liftR (int_item result ''changes'')) (\<lambda>changes.
    bindM (liftR (item (JObj result) ''lastrowid'')) (\<lambda>lastrowid.
    bindM (updM (\<lambda>u. u\<lparr>cur_rowcount := changes, cur_lastrowid := lastrowid\<rparr>)) (\<lambda>_.
    bindM (innerM objM) (\<lambda>d2. if d_autocommit d2 then innerM (db_commit N) else retM ())))))"
  have k: "wlp (?k resp) ?Q ?E (u, s)"
    if b: "begun (unicode N) d c s" "body_ok (unicode N) (d_statements d @ [?x])" "int_item resp ''changes'' = Inr i" for resp s i
  proof -
    have g: "grown (unicode N) d [?x] ((fst s)\<lparr>d_statements := d_statements d @ [?x]\<rparr>, snd s)" "idle c (fst (snd s))"
      using begun_grown [OF b(1,2)] b(1) by (simp_all add: begun_def kept_def)
    have ac: "\<not> d_autocommit (fst s)" using b(1) assms(3) by (simp add: begun_def kept_def same_buffer_def)
    show ?thesis using g Inr ac b(3)
      by (cases s) (auto simp: item_def split: sum.splits option.splits)
  qed
  have "wlp (db_preview N (d_statements d @ [?x]) [] (PSeq []))
     (\<lambda>resp t. wlp (?k resp) ?Q ?E (u, t)) (\<lambda>e t. ?E e (u, t)) (d, (c, w))"
    by (rule wlp_mono [OF db_preview_wlp [OF assms(1,2)]])
      (use k kept_grown kept_idle in fastforce)+
  then show ?thesis using Inr unfolding cur_write_def
    by (simp add: wlp_fun wlp_fun_objects del: wlp_simps)
qed

lemma cur_query_wlp:
  assumes "well_behaved N" and "db_inv (unicode N) d c" and "\<not> d_autocommit d"
  shows "wlp (cur_query N op ps) (\<lambda>_ s. kept (unicode N) d c (snd s)) (\<lambda>e s. kept (unicode N) d c (snd s)) (u, (d, (c, w)))"
    (is "wlp _ ?Q ?E _")
proof -
  have "wlp (db_preview N (d_statements d) op ps)
     (\<lambda>resp t. wlp (bindM (liftR (preview_rows N resp)) (\<lambda>(columns, rows). updM (\<lambda>u. u\<lparr>cur_description := Some columns, cur_rows := rows\<rparr>))) ?Q ?E (u, t))
     (\<lambda>e t. ?E e (u, t)) (d, (c, w))"
    by (rule wlp_mono [OF db_preview_wlp [OF assms(1,2)]])
      (auto simp: begun_def split: sum.splits)
  then show ?thesis using assms(3) unfolding cur_query_def
    by (simp add: wlp_fun wlp_fun_objects del: wlp_simps)
qed

text \<open>In transactional mode the handlers keep the buffer.\<close>

lemma cur_handle_wlp:
  assumes "\<not> d_autocommit d"
  shows "wlp (cur_handle e) Q E (d, (c, w)) =
    E (if caught e then translate e (c_pending c) else e)
      (if caught e \<and> (case e of SerializationError _ \<Rightarrow> True | ConnectionError _ \<Rightarrow> True | _ \<Rightarrow> False)
       then d\<lparr>d_failed := True\<rparr> else d, (c, w))"
  using assms by (simp add: cur_handle_def caught_def auto_clear_def)

text \<open>The statements one call adds to the buffer.\<close>

definition adds :: "unidb \<Rightarrow> pstr \<Rightarrow> params \<Rightarrow> stmt list \<Rightarrow> bool" where
  "adds U op ps xs \<longleftrightarrow> (kind_of U op = Inr KQuery \<and> xs = []) \<or>
     (kind_of U op = Inr KExecute \<and> (\<exists>vs. tuple_of ps = Inr vs \<and> xs = [(VStr op, PSeq vs)]))"

lemma cur_execute_wlp:
  assumes "well_behaved N" and "db_inv (unicode N) d c" and "\<not> d_autocommit d"
  shows "wlp (cur_execute N op ps)
    (\<lambda>_ s. \<exists>xs. adds (unicode N) op ps xs \<and> grown (unicode N) d xs (snd s) \<and> idle c (fst (snd (snd s))))
    (\<lambda>e s. idle c (fst (snd (snd s))) \<and> (grown (unicode N) d [] (snd s) \<or> e = KeyError \<and> (\<exists>x. grown (unicode N) d [x] (snd s))))
    (u, (d, (c, w)))"
    (is "wlp _ ?Q ?E _")
proof -
  have id: "grown (unicode N) d [] (d, (c, w))" "idle c c"
    using kept_grown [OF kept_refl [OF assms(2), of w]] assms(2) idle_refl by (simp_all add: db_inv_def)
  have kept_ok: "?E e s" "grown (unicode N) d [] (snd s)" "idle c (fst (snd (snd s)))" if "kept (unicode N) d c (snd s)" for e and s :: "'a ustate"
    using kept_grown [OF that] kept_idle [OF that] by simp_all
  have hand: "wlp (innerM (cur_handle e)) ?Q ?E s" if e: "?E e s" for e s
  proof -
    obtain u1 d1 c1 w1 where s: "s = (u1, (d1, (c1, w1)))" by (cases s) auto
    have ac: "\<not> d_autocommit d1" using e s assms(3) by (auto simp: grown_def)
    have k: "\<not> caught KeyError" by (simp add: caught_def py_defs)
    show ?thesis using e k unfolding s
      by (auto simp: cur_handle_wlp [OF ac] intro: grown_failed)
  qed
  have wr: "wlp (cur_write N op ps) ?Q (\<lambda>e. wlp (innerM (cur_handle e)) ?Q ?E) (u', (d, (c, w)))"
    if "kind_of (unicode N) op = Inr KExecute" for u'
    by (rule wlp_mono [OF cur_write_wlp [OF assms]]) (use that hand in \<open>auto simp: adds_def\<close>)
  have qu: "wlp (cur_query N op ps) ?Q (\<lambda>e. wlp (innerM (cur_handle e)) ?Q ?E) (u', (d, (c, w)))"
    if "kind_of (unicode N) op = Inr KQuery" for u'
    by (rule wlp_mono [OF cur_query_wlp [OF assms]])
      (use that kept_ok hand [OF kept_ok(1)] in \<open>simp_all add: adds_def\<close>)
  show ?thesis
  proof (cases "kind_of (unicode N) op")
    case (Inl e)
    then show ?thesis using id by (simp add: cur_execute_def)
  next
    case (Inr kind)
    then show ?thesis using id wr qu unfolding cur_execute_def
      by (cases kind) (simp_all add: wlp_fun)
  qed
qed

section \<open>Many statements\<close>

lemma many_loop_wlp:
  assumes "well_behaved N"
  shows "\<not> d_autocommit d \<Longrightarrow> db_inv (unicode N) d c \<Longrightarrow> wlp (many_loop N op pss count)
    (\<lambda>_ s. \<exists>xss. list_all2 (adds (unicode N) op) pss xss \<and> grown (unicode N) d (concat xss) (snd s) \<and> idle c (fst (snd (snd s))))
    (\<lambda>e s. \<exists>xs. grown (unicode N) d xs (snd s) \<and> idle c (fst (snd (snd s)))) (u, (d, (c, w)))"
proof (induction pss arbitrary: count u d c w)
  case Nil
  then show ?case using kept_grown [OF kept_refl [OF Nil(2), of w]] idle_refl [of c]
    unfolding many_loop.simps wlp_fun by (simp add: db_inv_def)
next
  case (Cons ps pss)
  let ?Q = "\<lambda>_ s. \<exists>xss. list_all2 (adds (unicode N) op) (ps # pss) xss \<and> grown (unicode N) d (concat xss) (snd s) \<and> idle c (fst (snd (snd s)))"
  let ?E = "\<lambda>e s. \<exists>xs. grown (unicode N) d xs (snd s) \<and> idle c (fst (snd (snd s)))"
  have "wlp (many_loop N op pss n) ?Q ?E s"
    if xs: "adds (unicode N) op ps xs" "grown (unicode N) d xs (snd s)" "idle c (fst (snd (snd s)))" for n xs s
  proof -
    obtain u1 d1 c1 w1 where s: "s = (u1, (d1, (c1, w1)))" by (cases s) auto
    have d1: "\<not> d_autocommit d1" "db_inv (unicode N) d1 c1" using xs(2) s Cons.prems by (auto simp: grown_def)
    have "?Q n t" if "list_all2 (adds (unicode N) op) pss xss" "grown (unicode N) d1 (concat xss) (snd t)" "idle c1 (fst (snd (snd t)))" for xss t
      using that xs(1) s grown_trans [OF xs(2), of "concat xss" "snd t"] idle_trans [OF xs(3), of "fst (snd (snd t))"]
      by (auto intro!: exI [of _ "xs # xss"])
    moreover have "?E e t" if "grown (unicode N) d1 ys (snd t)" "idle c1 (fst (snd (snd t)))" for e ys t
      using that s grown_trans [OF xs(2), of ys "snd t"] idle_trans [OF xs(3), of "fst (snd (snd t))"] by auto
    ultimately show ?thesis unfolding s
      by (intro wlp_mono [OF Cons.IH [OF d1]]) blast+
  qed
  then show ?case unfolding many_loop.simps wlp_fun wlp_fun_objects
    by (intro wlp_mono [OF cur_execute_wlp [OF assms Cons.prems(2,1)]]) blast+
qed

text \<open>Undoing restores the buffer, or empties it in autocommit mode.\<close>

lemma many_undo_wlp:
  assumes "grown U d xs s" and "db_inv U d c0" and "d = d0\<lparr>d_autocommit := False\<rparr>"
  shows "wlp (many_undo (d_statements d0) auto)
    (\<lambda>_ t. snd t = snd s \<and> db_inv U (fst t) (fst (snd t)) \<and> (d_statements (fst t) = d_statements d0 \<or> auto \<and> d_statements (fst t) = []))
    (\<lambda>_ _. False) s"
proof -
  obtain d1 c1 w1 where s: "s = (d1, (c1, w1))" by (cases s) auto
  have "db_inv U (d1\<lparr>d_statements := d_statements d0\<rparr>) c1"
    using assms s by (auto simp: grown_def db_inv_def sp_ok_def)
  then show ?thesis unfolding s many_undo_def
    using db_inv_clear [of U "d1\<lparr>d_statements := d_statements d0\<rparr>" c1 c1]
    by (auto simp: db_clear_def db_inv_def)
qed

lemma many_body_wlp:
  assumes "well_behaved N" and "\<not> d_autocommit d" and "db_inv (unicode N) d c"
  shows "wlp (many_body N op pss auto)
    (\<lambda>_ s. \<exists>xss. list_all2 (adds (unicode N) op) pss xss \<and> db_inv (unicode N) (fst (snd s)) (fst (snd (snd s))) \<and>
       (if auto then d_statements (fst (snd s)) = [] else grown (unicode N) d (concat xss) (snd s) \<and> idle c (fst (snd (snd s)))))
    (\<lambda>e s. \<exists>xs. grown (unicode N) d xs (snd s)) (u, (d, (c, w)))"
    (is "wlp _ ?Q ?E _")
proof -
  have fin: "wlp (if auto then innerM (db_commit N) else retM ()) ?Q ?E (u', s)"
    if xs: "list_all2 (adds (unicode N) op) pss xss" "grown (unicode N) d (concat xss) s" "idle c (fst (snd s))" for u' s xss
  proof (cases auto)
    case True
    obtain d1 c1 w1 where s: "s = (d1, (c1, w1))" by (cases s) auto
    have inv: "db_inv (unicode N) d1 c1" using grown_inv [OF xs(2)] s by simp
    have bad: "grown (unicode N) d (concat xss) t" if "t = (d1, (c1, w1)) \<or> commit_failed N d1 c1 e t" for e t
    proof -
      have "fst t = d1 \<or> fst t = d1\<lparr>d_failed := True\<rparr>"
        using that by (auto simp: commit_failed_def split: if_splits)
      moreover have "db_inv (unicode N) (fst t) (fst (snd t))" using that commit_inv(2) [OF inv, of e t] inv by auto
      ultimately show ?thesis using xs(2) s by (auto simp: grown_def)
    qed
    have good: "db_inv (unicode N) (fst t) (fst (snd t)) \<and> d_statements (fst t) = []"
      if "fst t = db_clear d1 \<and> (if d_statements d1 = [] then snd t = (c1, w1) else \<exists>r. committed_by N d1 c1 (Inr r) (fst (snd t)))" for t
      using that commit_inv(1) [OF inv] db_inv_clear [OF inv] inv by (auto simp: db_clear_def db_inv_def split: if_splits)
    show ?thesis using True xs(1) unfolding s
      by simp (rule wlp_mono [OF db_commit_wlp [OF assms(1) inv]]; use good bad in blast)
  next
    case False
    then show ?thesis using xs grown_inv [OF xs(2)] by auto
  qed
  show ?thesis unfolding many_body_def wlp_fun wlp_fun_objects
    by (rule wlp_mono [OF many_loop_wlp [OF assms]]) (use fin in blast)+
qed

text \<open>
  \<open>executemany\<close> adds all its statements or none, in either mode, and restores the mode.
\<close>

lemma cur_executemany_wlp:
  assumes "well_behaved N" and "db_inv (unicode N) d c"
  shows "wlp (cur_executemany N op (Some pss))
    (\<lambda>_ s. d_autocommit (fst (snd s)) = d_autocommit d \<and> db_inv (unicode N) (fst (snd s)) (fst (snd (snd s))) \<and>
       (if pss = [] then snd s = (d, (c, w))
        else if d_autocommit d then d_statements (fst (snd s)) = []
        else \<exists>xss. list_all2 (adds (unicode N) op) pss xss \<and> d_statements (fst (snd s)) = d_statements d @ concat xss))
    (\<lambda>e s. d_autocommit (fst (snd s)) = d_autocommit d \<and> db_inv (unicode N) (fst (snd s)) (fst (snd (snd s))) \<and>
       (d_statements (fst (snd s)) = d_statements d \<or> d_autocommit d \<and> d_statements (fst (snd s)) = []))
    (u, (d, (c, w)))"
    (is "wlp _ ?Q ?E _")
proof (cases "kind_of (unicode N) op = Inr KExecute \<and> length pss \<le> 8 \<and> pss \<noteq> []")
  case False
  have "length (take 9 pss) \<le> 8 \<longleftrightarrow> length pss \<le> 8" by auto
  then show ?thesis using False assms(2)
    by (cases "kind_of (unicode N) op") (auto simp: cur_executemany_def not_less not_le)
next
  case True
  let ?d = "d\<lparr>d_autocommit := False\<rparr>"
  let ?r = "\<lambda>s. (fst s, (fst (snd s))\<lparr>d_autocommit := d_autocommit d\<rparr>, snd (snd s))"
  have inv: "\<not> d_autocommit ?d" "db_inv (unicode N) ?d c" using assms(2) by simp_all
  have undo: "wlp (many_undo (d_statements d) (d_autocommit d))
     (\<lambda>_ t. ?E e (?r (fst s, t))) (\<lambda>e t. ?E e (?r (fst s, t))) (snd s)" if "grown (unicode N) ?d xs (snd s)" for e xs s
    by (rule wlp_mono [OF many_undo_wlp [OF that inv(2) refl]]) auto
  have "wlp (many_body N op pss (d_autocommit d)) (\<lambda>x s. ?Q x (?r s))
     (\<lambda>e s. wlp (innerM (many_undo (d_statements d) (d_autocommit d))) (\<lambda>_ t. ?E e (?r t)) (\<lambda>e t. ?E e (?r t)) s) (u', (?d, (c, w)))" for u'
    by (rule wlp_mono [OF many_body_wlp [OF assms(1) inv]])
      (use True undo in \<open>auto simp: grown_def wlp_fun_objects split: if_splits\<close>)
  then show ?thesis using True assms(2) unfolding cur_executemany_def
    by (cases "d_autocommit d") (simp_all add: wlp_fun wlp_fun_objects)
qed

section \<open>Fetching\<close>

definition cur_inv :: "Cursor \<Rightarrow> bool" where
  "cur_inv u \<longleftrightarrow> cur_position u \<le> length (cur_rows u)"

text \<open>The connection of the cursor accepts calls.\<close>

definition usable :: "'w ustate \<Rightarrow> bool" where
  "usable s \<longleftrightarrow> \<not> cur_closed (fst s) \<and> cur_description (fst s) \<noteq> None \<and> \<not> d_closed (fst (snd s))
     \<and> c_pending (fst (snd (snd s))) = None \<and> \<not> d_failed (fst (snd s))"

lemma fetchone_usable:
  assumes "usable (u, s)" and "cur_inv u"
  shows "fetchone (u, s) = Some (Inr (if cur_position u = length (cur_rows u) then None else Some (cur_rows u ! cur_position u)),
    (if cur_position u = length (cur_rows u) then u else u\<lparr>cur_position := Suc (cur_position u)\<rparr>, s))"
  using assms
  by (cases s) (auto simp: fetchone_def cur_ready_def db_ready_def usable_def cur_inv_def bindM_def objM_def innerM_def
      updM_def connM_def whenM_def)

lemma fetch_loop_usable:
  "usable (u, s) \<Longrightarrow> cur_inv u \<Longrightarrow> fetch_loop n acc (u, s) =
    Some (Inr (acc @ take n (drop (cur_position u) (cur_rows u))),
      (u\<lparr>cur_position := min (cur_position u + n) (length (cur_rows u))\<rparr>, s))"
proof (induction n arbitrary: acc u)
  case 0
  then show ?case by (simp add: cur_inv_def)
next
  case (Suc n)
  show ?case
  proof (cases "cur_position u = length (cur_rows u)")
    case True
    then show ?thesis using fetchone_usable [OF Suc.prems] by (simp add: bindM_def)
  next
    case False
    let ?u = "u\<lparr>cur_position := Suc (cur_position u)\<rparr>"
    have lt: "cur_position u < length (cur_rows u)" using False Suc.prems(2) by (simp add: cur_inv_def)
    have u: "usable (?u, s)" "cur_inv ?u" using Suc.prems lt by (simp_all add: usable_def cur_inv_def)
    show ?thesis using fetchone_usable [OF Suc.prems] False Suc.IH [OF u] lt
      by (simp add: bindM_def Cons_nth_drop_Suc [symmetric])
  qed
qed

end
