(* ===== verification/Search.thy ===== *)
theory Search
  imports Transaction
begin

text \<open>
  \<open>languages/python/src/sqlodin/search.py\<close>: full-text and vector search over one index. The
  methods are computations on the client connection; the SQL texts are those of the source with
  the quoted table names of the index spliced in.
\<close>

section \<open>Names and bounds\<close>

abbreviation ascii_letter :: "nat \<Rightarrow> bool" where
  "ascii_letter c \<equiv> 65 \<le> c \<and> c \<le> 90 \<or> 97 \<le> c \<and> c \<le> 122"

abbreviation ident_char :: "nat \<Rightarrow> bool" where
  "ident_char c \<equiv> ascii_letter c \<or> 48 \<le> c \<and> c \<le> 57 \<or> c = 95"

definition quote_identifier :: "unidb \<Rightarrow> pval \<Rightarrow> pstr res" where
  "quote_identifier U name = (case name of
      VStr s \<Rightarrow>
        if \<not> (s \<noteq> [] \<and> ascii_letter (hd s) \<and> list_all ident_char (List.tl s) \<and> length s \<le> 64)
        then Inl (ValueError ''Index names need 1..64 ASCII letters, digits or underscores, starting with a letter'')
        else if starts_with (lower U s) (lit ''sqlite_'') then Inl (ValueError ''Reserved index name'')
        else Inr (34 # s @ [34])
    | _ \<Rightarrow> Inl (ValueError ''Index names need 1..64 ASCII letters, digits or underscores, starting with a letter''))"

definition bound :: "pval \<Rightarrow> int \<Rightarrow> int res" where
  "bound v maximum = (case v of
      VInt i \<Rightarrow> if 1 \<le> i \<and> i \<le> maximum then Inr i else Inl (ValueError ''{name} must be an integer in 1..{maximum}'')
    | _ \<Rightarrow> Inl (ValueError ''{name} must be an integer in 1..{maximum}''))"

record SearchIndex =
  si_table :: pstr
  si_fts :: pstr
  si_dimensions :: int

definition search_index :: "unidb \<Rightarrow> pval \<Rightarrow> pval \<Rightarrow> SearchIndex res" where
  "search_index U name dimensions = (case name of
      VStr s \<Rightarrow>
        if 60 < length s then Inl (ValueError ''Search index names must be at most 60 characters'')
        else bindR (quote_identifier U (VStr s)) (\<lambda>table. bindR (quote_identifier U (VStr (s @ lit ''_fts''))) (\<lambda>fts.
          bindR (bound dimensions 384) (\<lambda>dims. Inr \<lparr>si_table = table, si_fts = fts, si_dimensions = dims\<rparr>)))
    | _ \<Rightarrow> Inl (ValueError ''Search index names must be at most 60 characters''))"

section \<open>Documents\<close>

definition search_create :: "'w netops \<Rightarrow> SearchIndex \<Rightarrow> ('w cstate, WriteResult) comp" where
  "search_create N ix = execute N (VStr (
     lit ''CREATE TABLE '' @ si_table ix @ lit ''(id INTEGER PRIMARY KEY,title TEXT NOT NULL,body TEXT NOT NULL,''
     @ lit ''embedding BLOB NOT NULL CHECK(length(embedding)='' @ dec_int (si_dimensions ix * 4) @ lit ''));''
     @ lit ''CREATE VIRTUAL TABLE '' @ si_fts ix @ lit '' USING fts5(title,body);'')) (PSeq [])"

text \<open>A vector argument: a \<open>Vector\<close> or something to make one of.\<close>

datatype vec_arg = IsVector "pyfloat list" | MakeVector iterable

definition search_vector :: "float_parser \<Rightarrow> SearchIndex \<Rightarrow> vec_arg \<Rightarrow> pyfloat list res" where
  "search_vector pf ix v =
    bindR (case v of IsVector xs \<Rightarrow> Inr xs | MakeVector it \<Rightarrow> vector_new pf it) (\<lambda>xs.
    if int (length xs) \<noteq> si_dimensions ix
    then Inl (ValueError ''Expected {self.dimensions} vector dimensions, received {len(value)}'')
    else Inr xs)"

definition document_id :: "string \<Rightarrow> pval \<Rightarrow> int res" where
  "document_id msg v = (case v of VInt i \<Rightarrow> if 1 \<le> i \<and> i < 2 ^ 63 - 1 then Inr i else Inl (ValueError msg)
     | _ \<Rightarrow> Inl (ValueError msg))"

definition put_statements :: "SearchIndex \<Rightarrow> int \<Rightarrow> pval \<Rightarrow> pval \<Rightarrow> pyfloat list \<Rightarrow> (pval \<times> params) list" where
  "put_statements ix i title body vec =
    [(VStr (lit ''INSERT INTO '' @ si_table ix @ lit ''(id,title,body,embedding) VALUES(?,?,?,?) ''
        @ lit ''ON CONFLICT(id) DO UPDATE SET title=excluded.title,body=excluded.body,''
        @ lit ''embedding=excluded.embedding''), PSeq [VInt i, title, body, VVector vec]),
     (VStr (lit ''DELETE FROM '' @ si_fts ix @ lit '' WHERE rowid=?''), PSeq [VInt i]),
     (VStr (lit ''INSERT INTO '' @ si_fts ix @ lit ''(rowid,title,body) VALUES(?,?,?)''), PSeq [VInt i, title, body])]"

definition search_put :: "'w netops \<Rightarrow> SearchIndex \<Rightarrow> pval \<Rightarrow> pval \<Rightarrow> pval \<Rightarrow> vec_arg \<Rightarrow> ('w cstate, WriteResult option) comp" where
  "search_put N ix doc title body vector =
    bindM (liftR (document_id ''Document ID must be a positive integer below SQLite maximum rowid'' doc)) (\<lambda>i.
    bindM (liftR (search_vector (float_parse N) ix vector)) (\<lambda>vec.
    atomic N (put_statements ix i title body vec)))"

definition delete_statements :: "SearchIndex \<Rightarrow> int \<Rightarrow> (pval \<times> params) list" where
  "delete_statements ix i =
    [(VStr (lit ''DELETE FROM '' @ si_fts ix @ lit '' WHERE rowid=?''), PSeq [VInt i]),
     (VStr (lit ''DELETE FROM '' @ si_table ix @ lit '' WHERE id=?''), PSeq [VInt i])]"

definition search_delete :: "'w netops \<Rightarrow> SearchIndex \<Rightarrow> pval \<Rightarrow> ('w cstate, WriteResult option) comp" where
  "search_delete N ix doc =
    bindM (liftR (document_id ''Invalid document ID'' doc)) (\<lambda>i. atomic N (delete_statements ix i))"

section \<open>Queries\<close>

definition full_text :: "'w netops \<Rightarrow> SearchIndex \<Rightarrow> pval \<Rightarrow> pval \<Rightarrow> ('w cstate, cell Rows) comp" where
  "full_text N ix match limit = bindM (liftR (bound limit 100)) (\<lambda>n.
    query N (VStr (lit ''SELECT d.id,d.title,d.body,bm25('' @ si_fts ix @ lit '') AS score ''
      @ lit ''FROM '' @ si_fts ix @ lit '' JOIN '' @ si_table ix @ lit '' AS d ON d.id='' @ si_fts ix @ lit ''.rowid ''
      @ lit ''WHERE '' @ si_fts ix @ lit '' MATCH ? ORDER BY score,d.id LIMIT ?''))
      (PSeq [match, VInt n]) (lit ''linearizable''))"

definition search_metric :: "pstr \<Rightarrow> pstr res" where
  "search_metric m = (if m \<notin> {lit ''l2'', lit ''cosine''} then Inl (ValueError ''Metric must be l2 or cosine'')
     else Inr (lit ''vec_distance_'' @ m))"

text \<open>The truth value of a float: \<open>any(value)\<close>.\<close>

definition float_truth :: "pyfloat \<Rightarrow> bool" where
  "float_truth x = (case x of Finite _ m \<Rightarrow> m \<noteq> 0 | _ \<Rightarrow> True)"

definition query_vector :: "float_parser \<Rightarrow> SearchIndex \<Rightarrow> pstr \<Rightarrow> vec_arg \<Rightarrow> pyfloat list res" where
  "query_vector pf ix metric vector = bindR (search_vector pf ix vector) (\<lambda>vec.
    if metric = lit ''cosine'' \<and> \<not> list_ex float_truth vec
    then Inl (ValueError ''Cosine distance requires a nonzero query vector'') else Inr vec)"

definition nearest :: "'w netops \<Rightarrow> SearchIndex \<Rightarrow> vec_arg \<Rightarrow> pval \<Rightarrow> pstr \<Rightarrow> ('w cstate, cell Rows) comp" where
  "nearest N ix vector limit metric =
    bindM (liftR (search_metric metric)) (\<lambda>f.
    bindM (liftR (query_vector (float_parse N) ix metric vector)) (\<lambda>vec.
    bindM (liftR (bound limit 100)) (\<lambda>n.
    query N (VStr (lit ''SELECT id,title,body,'' @ f @ lit ''(embedding,?) AS distance FROM '' @ si_table ix @ lit '' ''
      @ lit ''ORDER BY distance,id LIMIT ?'')) (PSeq [VVector vec, VInt n]) (lit ''linearizable''))))"

definition gap :: pstr where
  "gap = [10, 32, 32, 32, 32, 32, 32, 32, 32, 32, 32]"

definition gap2 :: pstr where
  "gap2 = [10, 32, 32, 32, 32, 32, 32, 32, 32, 32, 32, 32, 32]"

definition hybrid_sql :: "SearchIndex \<Rightarrow> pstr \<Rightarrow> pstr" where
  "hybrid_sql ix f =
    lit ''WITH'' @ gap
    @ lit ''ft AS MATERIALIZED (SELECT rowid AS id,bm25('' @ si_fts ix @ lit '') AS score FROM '' @ si_fts ix @ gap2
    @ lit ''WHERE '' @ si_fts ix @ lit '' MATCH ? ORDER BY score,id LIMIT ?),'' @ gap
    @ lit ''vt AS MATERIALIZED (SELECT id,'' @ f @ lit ''(embedding,?) AS distance FROM '' @ si_table ix @ gap2
    @ lit ''ORDER BY distance,id LIMIT ?),'' @ gap
    @ lit ''ranks AS (SELECT id,ROW_NUMBER() OVER(ORDER BY score,id) AS rank FROM ft'' @ gap2
    @ lit ''UNION ALL SELECT id,ROW_NUMBER() OVER(ORDER BY distance,id) AS rank FROM vt),'' @ gap
    @ lit ''fused AS (SELECT id,SUM(1.0 / (? + rank)) AS score FROM ranks GROUP BY id)'' @ gap
    @ lit ''SELECT d.id,d.title,d.body,f.score FROM fused AS f JOIN '' @ si_table ix @ lit '' AS d ON d.id=f.id'' @ gap
    @ lit ''ORDER BY f.score DESC,d.id LIMIT ?''"

definition hybrid :: "'w netops \<Rightarrow> SearchIndex \<Rightarrow> pval \<Rightarrow> vec_arg \<Rightarrow> pval \<Rightarrow> pval \<Rightarrow> pval \<Rightarrow> pstr \<Rightarrow> ('w cstate, cell Rows) comp" where
  "hybrid N ix match vector limit candidates rank_constant metric =
    bindM (liftR (bound limit 100)) (\<lambda>n.
    bindM (liftR (bound candidates 100)) (\<lambda>m.
    bindM (liftR (bound rank_constant 1000)) (\<lambda>k.
    bindM (whenM (m < n) (ValueError ''Candidates must be at least limit'')) (\<lambda>_.
    bindM (liftR (search_metric metric)) (\<lambda>f.
    bindM (liftR (query_vector (float_parse N) ix metric vector)) (\<lambda>vec.
    query N (VStr (hybrid_sql ix f)) (PSeq [match, VInt m, VVector vec, VInt m, VInt k, VInt n]) (lit ''linearizable'')))))))"

section \<open>Quoted names\<close>

text \<open>
  A quoted name is one verbatim token of the scanner, whatever follows it: it cannot end early,
  open a comment or contain a placeholder.
\<close>

definition quoted :: "pstr \<Rightarrow> bool" where
  "quoted q \<longleftrightarrow> (\<exists>s. q = 34 # s @ [34] \<and> s \<noteq> [] \<and> length s \<le> 64 \<and> list_all ident_char s)"

lemma identifier_quoted: "quote_identifier U name = Inr q \<Longrightarrow> quoted q"
  by (auto simp: quote_identifier_def quoted_def neq_Nil_conv split: pval.splits if_splits)

lemma search_index_quoted:
  assumes "search_index U name dims = Inr ix"
  shows "quoted (si_table ix)" and "quoted (si_fts ix)" and "1 \<le> si_dimensions ix" and "si_dimensions ix \<le> 384"
  using assms
  by (auto simp: search_index_def bound_def bindR_Inr_iff split: pval.splits if_splits dest: identifier_quoted)

lemma quote_end_plain: "cl \<notin> set s \<Longrightarrow> r = [] \<or> hd r \<noteq> cl \<Longrightarrow> quote_end cl (s @ cl # r) = Some (s @ [cl], r)"
  by (induction s) (auto split: list.splits)

lemma skip_quoted:
  assumes "quoted q" and "r = [] \<or> hd r \<noteq> 34"
  shows "skip_verbatim (q @ r) = Skip q r"
proof -
  obtain s where s: "q = 34 # s @ [34]" "list_all ident_char s" using assms(1) by (auto simp: quoted_def)
  have "34 \<notin> set s" using s(2) by (auto simp: list_all_iff)
  then show ?thesis using s(1) quote_end_plain [OF _ assms(2), of s] by (simp add: skip_verbatim_def)
qed

section \<open>Counting placeholders\<close>

definition marks_of :: "unidb \<Rightarrow> pstr \<Rightarrow> nat option" where
  "marks_of U s = (case tokenize U s of Inl _ \<Rightarrow> None | Inr ts \<Rightarrow> Some (marks ts))"

named_theorems marks_simps \<open>placeholders of a text, piece by piece\<close>

lemma marks_of_Nil [marks_simps]: "marks_of U [] = Some 0"
  by (simp add: marks_of_def tokenize.simps)

lemma marks_of_plain [marks_simps]:
  "c \<notin> {39, 34, 96, 91, 63, 58, 64, 36, 45, 47} \<Longrightarrow> marks_of U (c # r) = marks_of U r"
  by (subst (1) marks_of_def, subst tokenize.simps) (auto simp: marks_of_def skip_verbatim_def bindR_def split: sum.splits)

lemma marks_of_slash [marks_simps]: "c \<noteq> 42 \<Longrightarrow> marks_of U (47 # c # r) = marks_of U (c # r)"
  by (subst (1) marks_of_def, subst tokenize.simps) (auto simp: marks_of_def skip_verbatim_def bindR_def split: sum.splits)

lemma marks_of_mark [marks_simps]:
  "r = [] \<or> \<not> is_digit U (hd r) \<Longrightarrow> marks_of U (63 # r) = map_option Suc (marks_of U r)"
  by (subst (1) marks_of_def, subst tokenize.simps) (auto simp: marks_of_def skip_verbatim_def bindR_def split: sum.splits)

lemma marks_of_quoted [marks_simps]:
  assumes "quoted q" and "r = [] \<or> hd r \<noteq> 34"
  shows "marks_of U (q @ r) = marks_of U r"
proof -
  obtain c t where q: "q = c # t" using assms(1) by (auto simp: quoted_def)
  show ?thesis using skip_quoted [OF assms] q
    by (subst (1) marks_of_def, subst tokenize.simps) (auto simp: marks_of_def bindR_def split: sum.splits)
qed

end
