(* ===== verification/Transaction_Facts.thy ===== *)
theory Transaction_Facts
  imports Transaction
begin

text \<open>
  What a buffered transaction guarantees: the lock is balanced on every way out, a block that
  raises leaves the connection and the world alone, and a block that ends submits exactly one
  write whose body the server reads as the bound values in order.
\<close>

section \<open>Entering and leaving\<close>

lemma wlp_acquire [simp]:
  "wlp acquire Q E (c, w) = Q () (c\<lparr>c_lock := Suc (c_lock c)\<rparr>, w)"
  "wlp release Q E (c, w) = Q () (c\<lparr>c_lock := c_lock c - 1\<rparr>, w)"
  by (simp_all add: acquire_def release_def)

lemma tx_enter_wlp [simp]:
  "wlp tx_enter Q E (t, (c, w)) =
    (if c_closed c then E (ConnectionError ''Connection is closed'') (t, (c, w))
     else if c_transaction c
       then E (PendingWriteError ''Use the transaction's execute() while building an atomic batch'') (t, (c, w))
     else if tx_used t \<or> c_pending c \<noteq> None
       then E (PendingWriteError ''Transaction already used or a write needs resolution'') (t, (c, w))
     else Q () (t\<lparr>tx_active := True, tx_used := True\<rparr>, (c\<lparr>c_lock := Suc (c_lock c), c_transaction := True\<rparr>, w)))"
  by (simp add: tx_enter_def)

lemma tx_exit_raised_wlp [simp]:
  "wlp (tx_exit N True) Q E (t, (c, w)) =
    Q () (t\<lparr>tx_active := False\<rparr>, (c\<lparr>c_transaction := False, c_lock := c_lock c - 1\<rparr>, w))"
  by (simp add: tx_exit_def)

lemma restore_conn: "\<not> c_transaction c \<Longrightarrow>
  c\<lparr>c_lock := Suc (c_lock c), c_transaction := True\<rparr>\<lparr>c_transaction := False, c_lock := c_lock c\<rparr> = c"
  by (cases c) simp

section \<open>Blocks\<close>

lemma submitted_unlock:
  assumes "submitted N body vs rv (c\<lparr>c_lock := Suc (c_lock c), c_transaction := False\<rparr>) r c'" and "\<not> c_transaction c"
  shows "submitted N body vs rv c r (c'\<lparr>c_lock := c_lock c' - Suc 0\<rparr>)"
  using assms by (auto simp: submitted_def frame_conn_def)

lemma tx_exit_wlp:
  assumes "well_behaved N" and "conn_inv c" and "\<not> c_transaction c" and "tx_statements t \<noteq> []"
  shows "wlp (tx_exit N False)
    (\<lambda>_ (t', s). \<exists>r. tx_result t' = Some r \<and> submitted N (join separator (tx_statements t)) (tx_parameters t) 0 c (Inr r) (fst s))
    (\<lambda>e (t', s). submitted N (join separator (tx_statements t)) (tx_parameters t) 0 c (Inl e) (fst s))
    (t, (c\<lparr>c_lock := Suc (c_lock c), c_transaction := True\<rparr>, w))"
proof -
  let ?c = "c\<lparr>c_lock := Suc (c_lock c), c_transaction := False\<rparr>"
  have inv: "conn_inv ?c" using assms(2) by (simp add: conn_inv_def net_ok_def)
  show ?thesis
    unfolding tx_exit_def using assms(4)
    by simp (rule wlp_mono [OF execute_prepared_wlp [OF assms(1) inv]];
        auto intro: submitted_unlock [OF _ assms(3)])
qed

text \<open>
  The contract of a block: it returns the result of one write made of all its statements, or
  raises with the connection as it was, or with the outcome of that one write.
\<close>

lemma atomic_wlp:
  assumes "well_behaved N" and "conn_inv c"
  shows "wlp (atomic N stmts)
    (\<lambda>r s. \<exists>texts vs. collect (unicode N) [] [] stmts = Inr (texts, vs) \<and>
       (if stmts = [] then r = None \<and> s = (c, w)
        else \<exists>x. r = Some x \<and> submitted N (join separator texts) vs 0 c (Inr x) (fst s)))
    (\<lambda>e s. s = (c, w) \<or> (\<exists>texts vs. collect (unicode N) [] [] stmts = Inr (texts, vs) \<and>
        submitted N (join separator texts) vs 0 c (Inl e) (fst s))) (c, w)"
    (is "wlp _ ?Q ?E _")
proof -
  have split: "wlp (atomic N stmts) ?Q ?E (c, w) =
    wlp (with_transaction N (tx_run (unicode N) stmts)) (\<lambda>_ (t, s). ?Q (tx_result t) s) (\<lambda>e (t, s). ?E e s) (transaction_new, (c, w))"
    by (simp add: wlp_def atomic_def case_prod_unfold split: option.splits sum.splits)
  let ?t = "transaction_new\<lparr>tx_active := True, tx_used := True\<rparr>"
  let ?c = "c\<lparr>c_lock := Suc (c_lock c), c_transaction := True\<rparr>"
  have run: "wlp (tx_run (unicode N) stmts)
      (\<lambda>x. wlp (tx_exit N False) (\<lambda>_ (t, s). ?Q (tx_result t) s) (\<lambda>e (t, s). ?E e s))
      (\<lambda>e. wlp (tx_exit N True) (\<lambda>_ (t, s). ?E e s) (\<lambda>e (t, s). ?E e s)) (?t, (?c, w))"
    if c: "\<not> c_transaction c"
  proof (rule wlp_mono [OF tx_run_wlp])
    show "tx_inv ?t" by simp
    fix x and u :: "'a xstate"
    assume u: "case u of (t', s') \<Rightarrow> tx_inv t' \<and> s' = (?c, w) \<and> tx_active t' = tx_active ?t \<and> tx_used t' = tx_used ?t
        \<and> tx_result t' = tx_result ?t \<and> collect (unicode N) (tx_statements ?t) (tx_parameters ?t) stmts = Inr (tx_statements t', tx_parameters t')"
    obtain t' where t': "u = (t', (?c, w))" using u by (cases u) auto
    have col: "collect (unicode N) [] [] stmts = Inr (tx_statements t', tx_parameters t')" "tx_result t' = None"
      using u t' by (simp_all add: transaction_new_def)
    have "length (tx_statements t') = length stmts" using collect_ok [OF col(1)] by simp
    then have empty: "tx_statements t' = [] \<longleftrightarrow> stmts = []" by auto
    show "wlp (tx_exit N False) (\<lambda>_ (t, s). ?Q (tx_result t) s) (\<lambda>e (t, s). ?E e s) u"
    proof (cases "stmts = []")
      case True
      then show ?thesis using col empty c restore_conn [OF c] by (simp add: t' tx_exit_def)
    next
      case False
      then show ?thesis unfolding t'
        by (intro wlp_mono [OF tx_exit_wlp [OF assms c]]) (use col empty in auto)
    qed
  next
    fix e and u :: "'a xstate"
    assume "case u of (t', s') \<Rightarrow> s' = (?c, w) \<and> tx_inv t' \<and> tx_used t' = tx_used ?t \<and> tx_result t' = tx_result ?t"
    then show "wlp (tx_exit N True) (\<lambda>_ (t, s). ?E e s) (\<lambda>e (t, s). ?E e s) u"
      using restore_conn [OF c] by (cases u) simp
  qed
  show ?thesis unfolding split with_transaction_def
    unfolding wlp_fun tx_enter_wlp using run by (auto simp: transaction_new_def)
qed

lemma total_atomic:
  assumes "steady N tm"
  shows "total (atomic N stmts)"
proof -
  have run: "total (tx_run U stmts)" for U
    by (induction U stmts rule: tx_run.induct)
      (simp_all only: tx_run.simps tx_execute_def case_prod_unfold, intro total_rules, intro total_rules)
  have exit: "total (tx_exit N b)" for b
    unfolding tx_exit_def release_def by (intro total_rules total_execute_prepared [OF assms])
  have enter: "total tx_enter"
    unfolding tx_enter_def ready_def acquire_def release_def by (intro total_rules)
  have "total (with_transaction N (tx_run (unicode N) stmts))"
    unfolding with_transaction_def by (intro total_rules enter run exit)
  then have "with_transaction N (tx_run (unicode N) stmts) (transaction_new, s) \<noteq> None" for s
    unfolding total_def returns_def by blast
  then show ?thesis unfolding total_def returns_def atomic_def by (auto split: option.splits sum.splits)
qed

text \<open>What was collected is what a server reads.\<close>

lemma collect_body:
  assumes "collect U [] [] stmts = Inr (texts, vs)"
  shows "slots (join separator texts) = Some [1 ..< Suc (length vs)]" and "length texts = length stmts"
    and "list_all encodable vs" and "length vs \<le> 16"
proof -
  have ok: "batch_ok texts vs" using collect_ok [OF assms] by simp
  show "slots (join separator texts) = Some [1 ..< Suc (length vs)]" by (rule batch_ok_slots [OF ok])
qed (use collect_ok [OF assms] in simp_all)

end
