(* ===== verification/Search_Facts.thy ===== *)
theory Search_Facts
  imports Search Transaction_Facts
begin

text \<open>
  The SQL that the search index sends: its texts always prepare, with as many placeholders as
  values, for every index name that the constructor accepts; and a document is written by exactly
  one atomic write.
\<close>

section \<open>Texts that prepare\<close>

lemma dec_length: "n < 100 \<Longrightarrow> length (dec n) \<le> 2"
proof -
  assume "n < 100"
  then have "n div 10 < 10" by auto
  then show ?thesis by (simp add: dec.simps [of n] dec.simps [of "n div 10"])
qed

lemma length_render:
  "off + marks ts \<le> 99 \<Longrightarrow> length (render off ts) \<le> length (concat (map token_src ts)) + 2 * marks ts"
proof (induction off ts rule: render.induct)
  case (3 off ts)
  then show ?case using dec_length [of "Suc off"] by simp
qed simp_all

definition ascii_text :: "pstr \<Rightarrow> bool" where
  "ascii_text s \<longleftrightarrow> (\<forall>c \<in> set s. 0 < c \<and> c < 128)"

lemma ascii_text_simps [simp]:
  "ascii_text []" "ascii_text (c # s) \<longleftrightarrow> 0 < c \<and> c < 128 \<and> ascii_text s" "ascii_text (s @ t) \<longleftrightarrow> ascii_text s \<and> ascii_text t"
  by (auto simp: ascii_text_def)

lemma fits_ascii: "ascii_text s \<Longrightarrow> length s \<le> n \<Longrightarrow> fits n s"
  using utf8_ascii [of s] by (auto simp: fits_def ascii_text_def)

lemma strip_nonspace:
  assumes "s \<noteq> []" and "\<not> is_space U (hd s)"
  shows "strip U s \<noteq> []"
proof -
  obtain c r where s: "s = c # r" "\<not> is_space U c" using assms by (cases s) auto
  then have "dropWhile (is_space U) s = s" by simp
  then show ?thesis using s by (auto simp: strip_def dropWhile_eq_Nil_conv)
qed

lemma prepare_ascii:
  assumes "ascii_text s" and "s \<noteq> []" and "\<not> is_space U (hd s)" and "marks_of U s = Some (length vs)" and "off + length vs \<le> 16"
    and "vec_total vs \<le> 384" and "list_all encodable vs" and "length s \<le> 4000"
  obtains t where "prepare U (VStr s) (PSeq vs) off = Inr (t, vs)" and "ascii_text t" and "length t \<le> length s + 2 * length vs"
proof -
  obtain ts where ts: "tokenize U s = Inr ts" "marks ts = length vs"
    using assms(4) by (auto simp: marks_of_def split: sum.splits)
  have len: "length (render off ts) \<le> length s + 2 * length vs"
    using length_render [of off ts] assms(5) ts lex_src [OF ts(1)] by simp
  have asc: "ascii_text (render off ts)"
    using set_render [OF ts(1), of off] assms(1) by (fastforce simp: ascii_text_def)
  have "0 \<notin> set s" using assms(1) by (auto simp: ascii_text_def)
  moreover have "fits 4096 (render off ts)" using fits_ascii [OF asc, of 4096] len assms(5,8) by simp
  ultimately have "prepare U (VStr s) (PSeq vs) off = Inr (render off ts, vs)"
    using assms ts strip_nonspace [OF assms(2,3)] by (auto simp: prepare_Inr_iff list_all_iff)
  then show thesis using that len asc by blast
qed

section \<open>Texts of the index\<close>

definition index_ok :: "SearchIndex \<Rightarrow> bool" where
  "index_ok ix \<longleftrightarrow> quoted (si_table ix) \<and> quoted (si_fts ix) \<and> 1 \<le> si_dimensions ix \<and> si_dimensions ix \<le> 384"

lemma quoted_ascii: "quoted q \<Longrightarrow> ascii_text q \<and> length q \<le> 66 \<and> 34 \<in> set q"
  by (force simp: quoted_def list_all_iff ascii_text_def)

lemma encodable_simps [simp]:
  "encodable (VInt i) \<longleftrightarrow> - (2 ^ 63) \<le> i \<and> i < 2 ^ 63" "encodable (VVector xs)"
  by (auto simp: encodable_def encode_def)

lemma vec_total_simps [simp]: "vec_total [] = 0" "vec_total (v # vs) = vec_size v + vec_total vs"
  "vec_size (VInt i) = 0" "vec_size (VVector xs) = length xs"
  by (simp_all add: vec_total_def vec_size_def)

lemma plain_size:
  assumes "\<And>xs. v \<noteq> VVector xs"
  shows "vec_size v = 0"
  using assms by (auto simp: vec_size_def split: pval.splits)

text \<open>The three statements of \<open>put\<close> and the two of \<open>delete\<close> always prepare.\<close>

lemma put_collect:
  assumes ix: "index_ok ix" and i: "1 \<le> i" "i < 2 ^ 63 - 1" and vec: "int (length vec) = si_dimensions ix"
    and enc: "encodable title" "encodable body" "\<And>xs. title \<noteq> VVector xs" "\<And>xs. body \<noteq> VVector xs"
  shows "\<exists>texts. collect U [] [] (put_statements ix i title body vec)
      = Inr (texts, [VInt i, title, body, VVector vec, VInt i, VInt i, title, body])
    \<and> length texts = 3 \<and> fits 4096 (join separator texts)"
proof -
  have q: "quoted (si_table ix)" "quoted (si_fts ix)" using ix by (simp_all add: index_ok_def)
  note qa = quoted_ascii [OF q(1)] quoted_ascii [OF q(2)]
  have sz: "vec_size title = 0" "vec_size body = 0" "length vec \<le> 384"
    using plain_size [OF enc(3)] plain_size [OF enc(4)] vec ix by (auto simp: index_ok_def)
  let ?s1 = "lit ''INSERT INTO '' @ si_table ix @ lit ''(id,title,body,embedding) VALUES(?,?,?,?) ''
        @ lit ''ON CONFLICT(id) DO UPDATE SET title=excluded.title,body=excluded.body,''
        @ lit ''embedding=excluded.embedding''"
  let ?s2 = "lit ''DELETE FROM '' @ si_fts ix @ lit '' WHERE rowid=?''"
  let ?s3 = "lit ''INSERT INTO '' @ si_fts ix @ lit ''(rowid,title,body) VALUES(?,?,?)''"
  obtain t1 where t1: "prepare U (VStr ?s1) (PSeq [VInt i, title, body, VVector vec]) 0 = Inr (t1, [VInt i, title, body, VVector vec])"
      "ascii_text t1" "length t1 \<le> length ?s1 + 8"
    by (rule prepare_ascii [of ?s1 U "[VInt i, title, body, VVector vec]" 0])
      (use qa sz enc i in \<open>simp_all add: lit_def marks_simps q is_digit_def is_space_def\<close>)
  obtain t2 where t2: "prepare U (VStr ?s2) (PSeq [VInt i]) 4 = Inr (t2, [VInt i])" "ascii_text t2" "length t2 \<le> length ?s2 + 2"
    by (rule prepare_ascii [of ?s2 U "[VInt i]" 4])
      (use qa i in \<open>simp_all add: lit_def marks_simps q is_digit_def is_space_def\<close>)
  obtain t3 where t3: "prepare U (VStr ?s3) (PSeq [VInt i, title, body]) 5 = Inr (t3, [VInt i, title, body])" "ascii_text t3"
      "length t3 \<le> length ?s3 + 6"
    by (rule prepare_ascii [of ?s3 U "[VInt i, title, body]" 5])
      (use qa sz enc i in \<open>simp_all add: lit_def marks_simps q is_digit_def is_space_def\<close>)
  have "collect U [] [] (put_statements ix i title body vec) =
      Inr ([t1 @ [10], t2 @ [10], t3 @ [10]], [VInt i, title, body, VVector vec, VInt i, VInt i, title, body])"
    using t1(1) t2(1) t3(1) by (simp add: put_statements_def eval_nat_numeral)
  moreover have "fits 4096 (join separator [t1 @ [10], t2 @ [10], t3 @ [10]])"
    by (rule fits_ascii) (use t1 t2 t3 qa in \<open>simp_all add: lit_def\<close>)
  ultimately show ?thesis by fastforce
qed

lemma delete_collect:
  assumes ix: "index_ok ix" and i: "1 \<le> i" "i < 2 ^ 63 - 1"
  shows "\<exists>texts. collect U [] [] (delete_statements ix i) = Inr (texts, [VInt i, VInt i])
    \<and> length texts = 2 \<and> fits 4096 (join separator texts)"
proof -
  have q: "quoted (si_table ix)" "quoted (si_fts ix)" using ix by (simp_all add: index_ok_def)
  note qa = quoted_ascii [OF q(1)] quoted_ascii [OF q(2)]
  let ?s1 = "lit ''DELETE FROM '' @ si_fts ix @ lit '' WHERE rowid=?''"
  let ?s2 = "lit ''DELETE FROM '' @ si_table ix @ lit '' WHERE id=?''"
  obtain t1 where t1: "prepare U (VStr ?s1) (PSeq [VInt i]) 0 = Inr (t1, [VInt i])" "ascii_text t1" "length t1 \<le> length ?s1 + 2"
    by (rule prepare_ascii [of ?s1 U "[VInt i]" 0])
      (use qa i in \<open>simp_all add: lit_def marks_simps q is_digit_def is_space_def\<close>)
  obtain t2 where t2: "prepare U (VStr ?s2) (PSeq [VInt i]) 1 = Inr (t2, [VInt i])" "ascii_text t2" "length t2 \<le> length ?s2 + 2"
    by (rule prepare_ascii [of ?s2 U "[VInt i]" 1])
      (use qa i in \<open>simp_all add: lit_def marks_simps q is_digit_def is_space_def\<close>)
  have "collect U [] [] (delete_statements ix i) = Inr ([t1 @ [10], t2 @ [10]], [VInt i, VInt i])"
    using t1(1) t2(1) by (simp add: delete_statements_def)
  moreover have "fits 4096 (join separator [t1 @ [10], t2 @ [10]])"
    by (rule fits_ascii) (use t1 t2 qa in \<open>simp_all add: lit_def\<close>)
  ultimately show ?thesis by fastforce
qed

text \<open>The longest query: six values for six placeholders.\<close>

lemma hybrid_prepares:
  assumes ix: "index_ok ix" and m: "search_metric metric = Inr f" and vec: "int (length vec) = si_dimensions ix"
    and enc: "encodable match" "\<And>xs. match \<noteq> VVector xs" and b: "list_all (\<lambda>i. 1 \<le> i \<and> i \<le> 1000) [m, k, n]"
  shows "\<exists>t. prepare U (VStr (hybrid_sql ix f)) (PSeq [match, VInt m, VVector vec, VInt m, VInt k, VInt n]) 0
    = Inr (t, [match, VInt m, VVector vec, VInt m, VInt k, VInt n])"
proof -
  have q: "quoted (si_table ix)" "quoted (si_fts ix)" using ix by (simp_all add: index_ok_def)
  note qa = quoted_ascii [OF q(1)] quoted_ascii [OF q(2)]
  have sz: "vec_size match = 0" "length vec \<le> 384" using plain_size [OF enc(2)] vec ix by (auto simp: index_ok_def)
  have f: "f = lit ''vec_distance_l2'' \<or> f = lit ''vec_distance_cosine''"
    using m by (auto simp: search_metric_def lit_def split: if_splits)
  show ?thesis
    by (rule prepare_ascii [of "hybrid_sql ix f" U "[match, VInt m, VVector vec, VInt m, VInt k, VInt n]" 0])
      (use qa sz enc b f in \<open>auto simp: hybrid_sql_def gap_def gap2_def lit_def marks_simps q is_digit_def is_space_def\<close>)
qed

section \<open>Documents\<close>

lemma collect_values:
  "collect U texts vs stmts = Inr (t, v) \<Longrightarrow> \<exists>vss. list_all2 (\<lambda>st us. snd st = PSeq us) stmts vss \<and> v = vs @ concat vss"
proof (induction U texts vs stmts arbitrary: t v rule: collect.induct)
  case (2 U texts vs sql ps rest)
  then obtain tx us where p: "prepare U sql ps (length vs) = Inr (tx, us)"
    and r: "collect U (texts @ [tx @ [10]]) (vs @ us) rest = Inr (t, v)" by (auto simp: bindR_Inr_iff)
  obtain vss where "list_all2 (\<lambda>st us. snd st = PSeq us) rest vss" "v = (vs @ us) @ concat vss"
    using "2.IH" [OF r] by blast
  then show ?case using p by (auto simp: prepare_Inr_iff intro!: exI [of _ "us # vss"])
qed simp

text \<open>
  \<open>put\<close> is one atomic write of the document, or changes nothing: the body the server executes
  binds the eight values in order.
\<close>

lemma search_put_wlp:
  assumes "well_behaved N" and "conn_inv c"
  shows "wlp (search_put N ix doc title body vector)
    (\<lambda>r s. \<exists>i vec texts x. doc = VInt i \<and> search_vector (float_parse N) ix vector = Inr vec \<and> r = Some x
        \<and> slots (join separator texts) = Some [1..<9] \<and> length texts = 3
        \<and> submitted N (join separator texts) [VInt i, title, body, VVector vec, VInt i, VInt i, title, body] 0 c (Inr x) (fst s))
    (\<lambda>e s. s = (c, w) \<or> (\<exists>i vec texts. slots (join separator texts) = Some [1..<9] \<and> length texts = 3 \<and>
        submitted N (join separator texts) [VInt i, title, body, VVector vec, VInt i, VInt i, title, body] 0 c (Inl e) (fst s))) (c, w)"
proof -
  have eight: "vs = [VInt i, title, body, VVector vec, VInt i, VInt i, title, body] \<and> slots (join separator texts) = Some [1..<9] \<and> length texts = 3"
    if "collect U [] [] (put_statements ix i title body vec) = Inr (texts, vs)" for U i vec texts vs
  proof -
    have v: "vs = [VInt i, title, body, VVector vec, VInt i, VInt i, title, body]"
      using collect_values [OF that] by (auto simp: put_statements_def list_all2_Cons1)
    then have l: "Suc (length vs) = 9" by simp
    show ?thesis using v collect_body(1,2) [OF that] unfolding l by (simp add: put_statements_def)
  qed
  have ne: "put_statements ix i title body vec \<noteq> []" for i vec by (simp add: put_statements_def)
  have put: "wlp (atomic N (put_statements ix i title body vec))
      (\<lambda>r s. \<exists>texts x. r = Some x \<and> slots (join separator texts) = Some [1..<9] \<and> length texts = 3
        \<and> submitted N (join separator texts) [VInt i, title, body, VVector vec, VInt i, VInt i, title, body] 0 c (Inr x) (fst s))
      (\<lambda>e s. s = (c, w) \<or> (\<exists>texts. slots (join separator texts) = Some [1..<9] \<and> length texts = 3 \<and>
        submitted N (join separator texts) [VInt i, title, body, VVector vec, VInt i, VInt i, title, body] 0 c (Inl e) (fst s))) (c, w)" for i vec
    by (rule wlp_mono [OF atomic_wlp [OF assms]]) (use ne eight in \<open>force\<close>)+
  show ?thesis
    unfolding search_put_def wlp_fun wlp_fun_objects document_id_def
    by (auto split: pval.splits sum.splits intro!: wlp_mono [OF put])
qed

end
