(* ===== verification/Dbapi_Total.thy ===== *)
theory Dbapi_Total
  imports Dbapi_Cursors Search_Facts
begin

text \<open>
  Termination of the operations above the client connection: on a clock that is never turned back
  every one of them returns a result or an exception.
\<close>

lemma total_db_ready [total_rules]: "total (db_ready b)"
  unfolding db_ready_def by (intro total_rules)

lemma total_raise_translated [total_rules]: "total (raise_translated e)"
  unfolding raise_translated_def by (intro total_rules)

lemma total_begin_optimistic: "steady N tm \<Longrightarrow> total (begin_optimistic N)"
  unfolding begin_optimistic_def ready_def
  by (intro total_rules total_call total_session_epoch) (auto split: option.splits json.splits intro!: total_rules)

lemma total_preview: "steady N tm \<Longrightarrow> total (preview N body vs v q b)"
  unfolding preview_def ready_def
  by (intro total_rules total_call) (auto split: option.splits json.splits intro!: total_rules)

lemma total_db_begin: "steady N tm \<Longrightarrow> total (db_begin N)"
  unfolding db_begin_def by (intro total_rules total_begin_optimistic)

lemma total_db_preview: "steady N tm \<Longrightarrow> total (db_preview N stmts q vs)"
  unfolding db_preview_def case_prod_unfold by (intro total_rules total_db_begin total_preview)

lemma total_db_commit: "steady N tm \<Longrightarrow> total (db_commit N)"
  unfolding db_commit_def case_prod_unfold by (intro total_rules total_execute_prepared)

lemma total_db_savepoint: "steady N tm \<Longrightarrow> total (db_savepoint N name)"
  unfolding db_savepoint_def by (intro total_rules total_db_begin)

lemma total_savepoint_index [total_rules]: "total (savepoint_index name)"
  unfolding savepoint_index_def by (intro total_rules) (auto split: option.splits intro!: total_rules)

lemma total_rollback_savepoint: "total (rollback_savepoint name)"
  unfolding rollback_savepoint_def by (intro total_rules)

lemma total_release_savepoint: "total (release_savepoint name)"
  unfolding release_savepoint_def by (intro total_rules)

lemma total_cur_ready [total_rules]: "total cur_ready"
  unfolding cur_ready_def by (intro total_rules)

lemma total_cur_handle [total_rules]: "total (cur_handle e)"
  unfolding cur_handle_def by (intro total_rules)

lemma total_cur_query: "steady N tm \<Longrightarrow> total (cur_query N op ps)"
  unfolding cur_query_def case_prod_unfold by (intro total_rules total_query total_db_preview)

lemma total_cur_write: "steady N tm \<Longrightarrow> total (cur_write N op ps)"
  unfolding cur_write_def by (intro total_rules total_db_preview total_db_commit)

lemma total_cur_execute: "steady N tm \<Longrightarrow> total (cur_execute N op ps)"
  unfolding cur_execute_def
  by (intro total_rules) (auto split: kind.splits intro!: total_rules total_cur_query total_cur_write)

lemma total_many_loop: "steady N tm \<Longrightarrow> total (many_loop N op pss count)"
  by (induction pss arbitrary: count) (auto intro!: total_rules total_cur_execute)

lemma total_cur_executemany: "steady N tm \<Longrightarrow> total (cur_executemany N op seq)"
  unfolding cur_executemany_def many_body_def many_undo_def
  by (intro total_rules total_many_loop total_db_commit)

lemma total_search_put: "steady N tm \<Longrightarrow> total (search_put N ix doc title body vector)"
  unfolding search_put_def by (intro total_rules total_atomic)

end
