(* ===== verification/Session_Properties.thy ===== *)
theory Session_Properties
  imports Dbapi_Total Simulation
begin

text \<open>
  The properties of the layers above the client connection: transaction blocks, DB-API connections
  and cursors, and the search index, each with an instance on the simulated world.
\<close>

section \<open>Transaction blocks\<close>



section \<open>DB-API connections\<close>

lemma demo_db_inv: "db_inv ascii_unidb (db_new False) demo_conn"
  by (simp add: db_inv_def db_new_def sp_ok_def)

lemma db_new_mode [simp]: "d_autocommit (db_new b) = b"
  by (simp add: db_new_def)

text \<open>
  C7. Savepoints are a stack of saved statement lists. Setting one pushes the buffered statements
  under its name; rolling back to a name returns to the newest list saved under it and keeps it;
  releasing it drops it and what was saved after it. An unknown name is refused, and a refused
  operation changes nothing; the invariant is kept and no write is made.
\<close>

theorem savepoints_refine_stack:
  assumes "well_behaved N" and "steady N tm" and "db_inv (unicode N) d c"
  shows "(case rollback_savepoint name (d, (c, w)) of
      Some (Inr _, (d', s)) \<Rightarrow> s = (c, w) \<and> db_inv (unicode N) d' c \<and> abs_rollback name (tx_abs d) = Some (tx_abs d')
    | Some (Inl e, s) \<Rightarrow> s = (d, (c, w)) \<and> (e = DbProgrammingError ''Unknown savepoint'' \<longrightarrow> abs_rollback name (tx_abs d) = None)
    | None \<Rightarrow> False)
    \<and> (case release_savepoint name (d, (c, w)) of
      Some (Inr _, (d', s)) \<Rightarrow> s = (c, w) \<and> db_inv (unicode N) d' c \<and> abs_release name (tx_abs d) = Some (tx_abs d')
    | Some (Inl e, s) \<Rightarrow> s = (d, (c, w)) \<and> (e = DbProgrammingError ''Unknown savepoint'' \<longrightarrow> abs_release name (tx_abs d) = None)
    | None \<Rightarrow> False)
    \<and> (case db_savepoint N name (d, (c, w)) of
      Some (Inr _, (d', (c', w'))) \<Rightarrow> db_inv (unicode N) d' c' \<and> idle c c' \<and> tx_abs d' = abs_savepoint name (tx_abs d)
    | Some (Inl e, s) \<Rightarrow> kept (unicode N) d c s
    | None \<Rightarrow> False)"
    (is "?rollback \<and> ?release \<and> ?savepoint")
proof (intro conjI)
  show ?rollback
    by (rule total_wlp [OF total_rollback_savepoint rollback_savepoint_wlp [OF assms(3), of name w]]) auto
  show ?release
    by (rule total_wlp [OF total_release_savepoint release_savepoint_wlp [OF assms(3), of name w]]) auto
  show ?savepoint
    by (rule total_wlp [OF total_db_savepoint [OF assms(2)] db_savepoint_wlp [OF assms(1,3), of name w]]) auto
qed

theorem savepoints_refine_stack_witness:
  "db_inv ascii_unidb (db_new False) demo_conn \<and>
   (case rollback_savepoint (lit ''a'') (db_new False, (demo_conn, ((0, []) :: sim_world))) of
      Some (Inr _, (d', s)) \<Rightarrow> s = (demo_conn, (0, [])) \<and> abs_rollback (lit ''a'') (tx_abs (db_new False)) = Some (tx_abs d')
    | Some (Inl e, s) \<Rightarrow> s = (db_new False, (demo_conn, (0, [])))
    | None \<Rightarrow> False)"
  using savepoints_refine_stack [OF sim_well_behaved [of "[]"] sim_steady, unfolded sim_unicode, OF demo_db_inv, where name = "lit ''a''" and w = "(0, [])"] demo_db_inv
  by (auto split: option.splits sum.splits)

text \<open>
  C10. A commit always returns. It makes at most one write, of exactly the buffered statements and
  with the version the transaction read at; when it succeeds the buffer, the savepoints and the
  version are cleared; when the write fails the buffer is kept and, for every error of the client,
  the connection is marked failed and the error is translated. The invariant is kept throughout.
\<close>

theorem commit_writes_buffer_once:
  assumes "well_behaved N" and "steady N tm" and "db_inv (unicode N) d c"
  shows "\<exists>r d' c' w'. db_commit N (d, (c, w)) = Some (r, (d', (c', w'))) \<and> db_inv (unicode N) d' c' \<and>
    (case r of
       Inr _ \<Rightarrow> d' = db_clear d \<and> (if d_statements d = [] then (c', w') = (c, w) else \<exists>x. committed_by N d c (Inr x) c')
     | Inl e \<Rightarrow> (d', (c', w')) = (d, (c, w)) \<or> commit_failed N d c e (d', (c', w')))"
proof (rule total_wlp [OF total_db_commit [OF assms(2)] db_commit_wlp [OF assms(1,3), of w]], goal_cases)
  case (1 x t)
  have "db_inv (unicode N) (db_clear d) (fst (snd t))"
    using 1(2) commit_inv(1) [OF assms(3)] db_inv_clear [OF assms(3)] assms(3)
    by (auto simp: db_inv_def split: if_splits)
  then show ?case using 1 by (cases t) (auto split: if_splits)
next
  case (2 e t)
  have "db_inv (unicode N) (fst t) (fst (snd t))" using 2(2) commit_inv(2) [OF assms(3), of e t] assms(3) by auto
  then show ?case using 2 by (cases t) auto
qed

theorem commit_writes_buffer_once_witness:
  "\<exists>r d' c' w'. db_commit (sim []) (db_new False, (demo_conn, (0, []))) = Some (r, (d', (c', w'))) \<and> db_inv ascii_unidb d' c'"
  using commit_writes_buffer_once [OF sim_well_behaved [of "[]"] sim_steady, unfolded sim_unicode, OF demo_db_inv] by blast

text \<open>
  After a failed commit or a serialization failure the connection refuses every operation but
  rollback, leaving everything as it was, and a rollback makes it usable again with an empty
  buffer. While a write is unresolved even rollback is refused and names that write.
\<close>

lemma failed_connection_refuses:
  assumes "\<not> d_closed d" and "d_failed d" and "c_pending c = None"
  shows "db_commit N (d, (c, w)) = Some (Inl (DbOperationalError ''Transaction aborted; roll back before reuse'' None), (d, (c, w)))
    \<and> db_begin N (d, (c, w)) = Some (Inl (DbOperationalError ''Transaction aborted; roll back before reuse'' None), (d, (c, w)))
    \<and> rollback_savepoint name (d, (c, w)) = Some (Inl (DbOperationalError ''Transaction aborted; roll back before reuse'' None), (d, (c, w)))
    \<and> db_rollback (d, (c, w)) = Some (Inr (), (db_clear d, (c, w)))
    \<and> db_ready False (db_clear d, (c, w)) = Some (Inr (), (db_clear d, (c, w)))
    \<and> db_rollback (d, (c\<lparr>c_pending := Some p\<rparr>, w)) =
        Some (Inl (DbOperationalError ''Unresolved commit; recover its identity before reuse'' (Some p)), (d, (c\<lparr>c_pending := Some p\<rparr>, w)))"
  using assms
  by (simp add: db_commit_def db_begin_def rollback_savepoint_def savepoint_index_def db_rollback_def db_ready_def db_clear_def
      bindM_def objM_def innerM_def connM_def whenM_def updM_def)

section \<open>Cursors\<close>

text \<open>
  C12. \<open>Cursor.execute\<close> in transactional mode always returns, submits no write, and keeps the
  invariant. A query leaves the buffer alone, an accepted write adds exactly its own statement
  with its values as a tuple, and any exception leaves the buffer as it was, but for a
  \<open>KeyError\<close>: the statement is buffered before the reply's row id is read.
\<close>

theorem cursor_execute_buffers:
  assumes "well_behaved N" and "steady N tm" and "db_inv (unicode N) d c" and "\<not> d_autocommit d"
  shows "\<exists>r u' d' c' w'. cur_execute N op ps (u, (d, (c, w))) = Some (r, (u', (d', (c', w')))) \<and> db_inv (unicode N) d' c' \<and> idle c c' \<and>
    (case r of
       Inr _ \<Rightarrow> \<exists>xs. adds (unicode N) op ps xs \<and> d_statements d' = d_statements d @ xs
     | Inl e \<Rightarrow> d_statements d' = d_statements d \<or> e = KeyError \<and> (\<exists>x. d_statements d' = d_statements d @ [x]))"
  by (rule total_wlp [OF total_cur_execute [OF assms(2)] cur_execute_wlp [OF assms(1,3,4), of op ps u w]])
    (auto simp: grown_def)

theorem cursor_execute_buffers_witness:
  "\<exists>r u' d' c' w'. cur_execute (sim []) (lit ''SELECT 1'') (PSeq []) (cursor_new, (db_new False, (demo_conn, (0, [])))) = Some (r, (u', (d', (c', w'))))
     \<and> db_inv ascii_unidb d' c' \<and> idle demo_conn c'"
  using cursor_execute_buffers [OF sim_well_behaved [of "[]"] sim_steady, unfolded sim_unicode, OF demo_db_inv]
  by fastforce



text \<open>
  Rows are fetched in order and none twice: \<open>fetchmany(n)\<close> hands out the next n rows that
  are left and moves on past them, and a following \<open>fetchall\<close> hands out all the rest.
\<close>

lemma fetch_in_order:
  assumes "usable (u, s)" and "cur_inv u"
  shows "\<exists>u'. fetchmany (SizeInt (int n)) (u, s) = Some (Inr (take n (drop (cur_position u) (cur_rows u))), (u', s)) \<and> cur_inv u'
    \<and> (\<exists>u''. fetchall (u', s) = Some (Inr (drop n (drop (cur_position u) (cur_rows u))), (u'', s)) \<and> cur_position u'' = length (cur_rows u))"
proof -
  have many: "fetchmany (SizeInt i) (v, s) = fetch_loop (nat i) [] (v, s)" if "usable (v, s)" "0 \<le> i" for v i
    using that by (cases s) (auto simp: fetchmany_def cur_ready_def db_ready_def usable_def bindM_def objM_def innerM_def connM_def whenM_def)
  let ?u = "u\<lparr>cur_position := min (cur_position u + n) (length (cur_rows u))\<rparr>"
  have u: "usable (?u, s)" "cur_inv ?u" using assms by (simp_all add: usable_def cur_inv_def)
  have "fetchall (?u, s) = fetchmany (SizeInt (int (length (cur_rows u)) - int (cur_position ?u))) (?u, s)"
    by (simp add: fetchall_def bindM_def objM_def)
  also have "\<dots> = fetch_loop (length (cur_rows u) - cur_position ?u) [] (?u, s)"
    using many [OF u(1)] u(2) by (auto simp: cur_inv_def nat_diff_distrib)
  finally show ?thesis
    using many [OF assms(1), of "int n"] fetch_loop_usable [OF assms, of n "[]"] fetch_loop_usable [OF u, of "length (cur_rows u) - cur_position ?u" "[]"] u(2)
    by (auto simp: cur_inv_def min_def add.commute split: if_splits)
qed

lemma fetch_in_order_witness:
  "\<exists>u'. fetchmany (SizeInt 1) (cursor_new\<lparr>cur_description := Some [], cur_rows := [[], []]\<rparr>, (db_new False, (demo_conn, ((0, []) :: sim_world))))
     = Some (Inr [[]], (u', (db_new False, (demo_conn, (0, []))))) \<and> cur_inv u'"
  using fetch_in_order [of "cursor_new\<lparr>cur_description := Some [], cur_rows := [[], []]\<rparr>" "(db_new False, (demo_conn, ((0, []) :: sim_world)))" 1]
  by (auto simp: usable_def cur_inv_def cursor_new_def db_new_def demo_conn_def)

section \<open>Search\<close>



text \<open>
  For every index the constructor accepts, the hybrid query passes \<open>prepare\<close>: the quoted
  names cannot break out of the text, its six placeholders meet its six values, and it stays
  within the limits of a statement, whatever the match string.
\<close>

lemma hybrid_query_prepares:
  assumes "search_index U name dims = Inr ix" and "search_metric metric = Inr f" and "int (length vec) = si_dimensions ix"
    and "encodable (VStr match)" and "1 \<le> m" and "m \<le> 100" and "1 \<le> k" and "k \<le> 1000" and "1 \<le> n" and "n \<le> 100"
  shows "\<exists>t. prepare U (VStr (hybrid_sql ix f)) (PSeq [VStr match, VInt m, VVector vec, VInt m, VInt k, VInt n]) 0
    = Inr (t, [VStr match, VInt m, VVector vec, VInt m, VInt k, VInt n])"
proof (rule hybrid_prepares [OF _ assms(2,3,4)])
  show "index_ok ix" using search_index_quoted [OF assms(1)] by (simp add: index_ok_def)
qed (use assms in simp_all)

end
