(* ===== verification/Dialect.thy ===== *)
theory Dialect
  imports Dbapi Search
begin

text \<open>
  \<open>languages/python/src/sqlodin/sqlalchemy.py\<close>: the part of the SQLAlchemy dialect that is the
  package's own logic. SQLAlchemy itself (\<open>SQLiteDialect\<close>, \<open>create_engine\<close>, the connection
  facade) is not modelled; the hooks it calls are functions on the DB-API connection.
\<close>

section \<open>Isolation levels\<close>

definition get_isolation_level :: "DbConnection \<Rightarrow> pstr" where
  "get_isolation_level d = (if d_autocommit d then lit ''AUTOCOMMIT'' else lit ''SERIALIZABLE'')"

definition isolation_levels :: "pstr list" where
  "isolation_levels = [lit ''SERIALIZABLE'', lit ''AUTOCOMMIT'']"

definition set_isolation_level :: "pstr \<Rightarrow> ('w dstate, unit) comp" where
  "set_isolation_level level =
    (if level \<notin> {lit ''SERIALIZABLE'', lit ''AUTOCOMMIT''}
     then raiseM (DbNotSupportedError ''Supported isolation levels: SERIALIZABLE and AUTOCOMMIT'')
     else set_autocommit (Some (level = lit ''AUTOCOMMIT'')))"

section \<open>Savepoints and two-phase commit\<close>

definition do_savepoint :: "'w netops \<Rightarrow> pstr \<Rightarrow> ('w dstate, unit) comp" where
  "do_savepoint N name = db_savepoint N name"

definition do_rollback_to_savepoint :: "pstr \<Rightarrow> ('w dstate, unit) comp" where
  "do_rollback_to_savepoint name = rollback_savepoint name"

definition do_release_savepoint :: "pstr \<Rightarrow> ('w dstate, unit) comp" where
  "do_release_savepoint name = release_savepoint name"

definition do_begin_twophase :: "('w dstate, unit) comp" where
  "do_begin_twophase = raiseM (DbNotSupportedError ''Two-phase transactions are unsupported'')"

text \<open>\<open>create_connect_args\<close>: the parts of the URL that must be empty; the arguments are none.\<close>

definition create_connect_args :: "pstr \<Rightarrow> pstr \<Rightarrow> pstr \<Rightarrow> pstr \<Rightarrow> (pstr \<times> pstr) list \<Rightarrow> unit res" where
  "create_connect_args host database username password q =
    (if host \<noteq> [] \<or> database \<noteq> [] \<or> username \<noteq> [] \<or> password \<noteq> [] \<or> q \<noteq> []
     then Inl (ValueError ''Use sqlodin:// with explicit connect_args for endpoints, cluster and TLS'') else Inr ())"

text \<open>\<open>create_engine\<close> before it calls SQLAlchemy: the isolation level it asks for.\<close>

definition engine_isolation :: "bool option \<Rightarrow> pstr list \<Rightarrow> pstr res" where
  "engine_isolation autocommit options = (case autocommit of
      None \<Rightarrow> Inl (ValueError ''autocommit must be bool'')
    | Some b \<Rightarrow>
        if lit ''connect_args'' \<in> set options \<or> lit ''isolation_level'' \<in> set options
        then Inl (ValueError ''Connection arguments and isolation are set by this helper'')
        else Inr (if b then lit ''AUTOCOMMIT'' else lit ''SERIALIZABLE''))"

section \<open>Vector columns\<close>

definition vector_type :: "pval \<Rightarrow> nat res" where
  "vector_type dimensions = (case dimensions of
      VInt n \<Rightarrow> if 1 \<le> n \<and> n \<le> 384 then Inr (nat n) else Inl (ValueError ''Vector dimensions must be in 1..384'')
    | _ \<Rightarrow> Inl (ValueError ''Vector dimensions must be in 1..384''))"

definition bind_processor :: "float_parser \<Rightarrow> nat \<Rightarrow> vec_arg option \<Rightarrow> pyfloat list option res" where
  "bind_processor pf dims v = (case v of
      None \<Rightarrow> Inr None
    | Some a \<Rightarrow> bindR (case a of IsVector xs \<Rightarrow> Inr xs | MakeVector it \<Rightarrow> vector_new pf it) (\<lambda>xs.
        if length xs \<noteq> dims then Inl (ValueError ''Vector dimension mismatch'') else Inr (Some xs)))"

definition result_processor :: "float_parser \<Rightarrow> nat \<Rightarrow> pbytes option \<Rightarrow> pyfloat list option res" where
  "result_processor pf dims v = (case v of
      None \<Rightarrow> Inr None
    | Some b \<Rightarrow> bindR (vec_from_bytes pf b) (\<lambda>xs.
        if length xs \<noteq> dims then Inl (ValueError ''Stored vector dimension mismatch'') else Inr (Some xs)))"

section \<open>Lemmas\<close>

text \<open>A bound vector, stored as the server stores it, reads back as itself.\<close>

lemma vector_column_roundtrip:
  assumes "bind_processor pf dims (Some a) = Inr (Some xs)" and "\<And>ys. a = IsVector ys \<Longrightarrow> vec_ok ys"
  shows "\<exists>b. vec_to_bytes xs = Inr b \<and> length b = 4 * dims \<and> result_processor pf dims (Some b) = Inr (Some xs)"
proof -
  have xs: "vec_ok xs" "length xs = dims"
    using assms vector_new_ok by (auto simp: bind_processor_def bindR_Inr_iff split: vec_arg.splits if_splits)
  then show ?thesis
    using vec_to_bytes_ok [OF xs(1)] vec_bytes_length [OF xs(1)] vec_from_to_bytes [OF xs(1)]
    by (auto simp: result_processor_def)
qed

end
