(* ===== verification/History.thy ===== *)
theory History
  imports Py_Prelude
begin

text \<open>
  \<open>tools/check_transaction_history.py\<close>: the decision procedure \<open>serial_history\<close> that looks for
  a serial order explaining a recorded history of predicate reads and toggle transactions, with
  memoised depth-first search over bit masks. The specification is an order of all committed
  operations that replays and respects real time.
\<close>

unbundle bit_operations_syntax

section \<open>Model\<close>

datatype hkind = ReadOp | ReadonlyTransaction | TransactionOp

text \<open>\<open>after\<close> and \<open>key\<close> are read for the kinds that record them only.\<close>

record hop =
  h_id :: int
  h_start :: int
  h_end :: int
  h_ok :: bool
  h_kind :: hkind
  h_observed :: "int list"
  h_after :: "int list"
  h_key :: int

type_synonym hstate = "int list"

text \<open>\<open>sorted(set(state) ^ {key})\<close>\<close>

definition toggle :: "int \<Rightarrow> hstate \<Rightarrow> hstate" where
  "toggle k st = sorted_list_of_set ((set st - {k}) \<union> ({k} - set st))"

text \<open>\<open>before[i]\<close>: the operations that ended before this one started.\<close>

definition before_mask :: "hop list \<Rightarrow> hop \<Rightarrow> int" where
  "before_mask ops a = (\<Sum>j \<leftarrow> [0..<length ops]. if h_end (ops ! j) < h_start a then push_bit j 1 else 0)"

definition full_mask :: "hop list \<Rightarrow> int" where
  "full_mask ops = push_bit (length ops) 1 - 1"

text \<open>The body of the loop for one operation: \<open>None\<close> is a \<open>continue\<close>.\<close>

definition try_op :: "hop list \<Rightarrow> int \<Rightarrow> hstate \<Rightarrow> nat \<Rightarrow> hstate option" where
  "try_op ops msk st i =
    (let a = ops ! i in
     if msk AND push_bit i 1 \<noteq> 0 \<or> before_mask ops a AND NOT msk \<noteq> 0 \<or> h_observed a \<noteq> st then None
     else if h_kind a = TransactionOp \<and> h_after a \<noteq> toggle (h_key a) st then None
     else if h_kind a = ReadonlyTransaction \<and> h_after a \<noteq> st then None
     else Some (if h_kind a = TransactionOp then toggle (h_key a) st else st))"

text \<open>How many operations are not yet placed: the measure of the search.\<close>

definition unset :: "hop list \<Rightarrow> int \<Rightarrow> nat" where
  "unset ops msk = card {j. j < length ops \<and> \<not> bit msk j}"

lemma and_exp [simp]: "msk AND 2 ^ i = 0 \<longleftrightarrow> \<not> bit (msk :: int) i"
  by (auto simp: bit_eq_iff [where 'a = int] bit_simps)

lemma try_op_unset:
  assumes "i < length ops" and "try_op ops msk st i = Some st'"
  shows "unset ops (msk OR push_bit i 1) < unset ops msk"
proof -
  have "\<not> bit msk i" using assms(2) by (auto simp: try_op_def Let_def split: if_splits)
  then have "{j. j < length ops \<and> \<not> bit (msk OR push_bit i 1) j} \<subset> {j. j < length ops \<and> \<not> bit msk j}"
    using assms(1) by (auto simp: bit_simps psubset_eq)
  then show ?thesis unfolding unset_def by (intro psubset_card_mono) auto
qed

lemmas try_op_decreases = try_op_unset [simplified push_bit_of_1]

type_synonym memo = "(int \<times> hstate) set"

text \<open>
  \<open>search\<close> and its loop over the operations, with the set \<open>visited\<close> passed along.
\<close>

function search :: "hop list \<Rightarrow> int \<Rightarrow> hstate \<Rightarrow> int list \<Rightarrow> memo \<Rightarrow> (hstate \<times> int list) option \<times> memo"
  and search_ops :: "hop list \<Rightarrow> nat \<Rightarrow> int \<Rightarrow> hstate \<Rightarrow> int list \<Rightarrow> memo \<Rightarrow> (hstate \<times> int list) option \<times> memo" where
  "search ops msk st order visited =
    (if msk = full_mask ops then (Some (st, order), visited)
     else if (msk, st) \<in> visited then (None, visited)
     else search_ops ops 0 msk st order (insert (msk, st) visited))"
| "search_ops ops i msk st order visited =
    (if i < length ops then
       (case try_op ops msk st i of
          None \<Rightarrow> search_ops ops (Suc i) msk st order visited
        | Some st' \<Rightarrow>
            (case search ops (msk OR push_bit i 1) st' (order @ [h_id (ops ! i)]) visited of
               (Some r, v) \<Rightarrow> (Some r, v)
             | (None, v) \<Rightarrow> search_ops ops (Suc i) msk st order v))
     else (None, visited))"
  by pat_completeness auto
termination
proof (relation "measures [\<lambda>x. case x of Inl (ops, msk, st, order, v) \<Rightarrow> unset ops msk
      | Inr (ops, i, msk, st, order, v) \<Rightarrow> unset ops msk,
    \<lambda>x. case x of Inl (ops, msk, st, order, v) \<Rightarrow> Suc (length ops)
      | Inr (ops, i, msk, st, order, v) \<Rightarrow> length ops - i]")
qed (auto dest: try_op_decreases)

declare search.simps [simp del] search_ops.simps [simp del]

definition serial_history :: "hstate \<Rightarrow> hop list \<Rightarrow> (hstate \<times> int list) option" where
  "serial_history initial history = fst (search (filter h_ok history) 0 (sort initial) [] {})"

definition negative_controls :: "string list res" where
  "negative_controls =
    (let write = \<lparr>h_id = 0, h_start = 1, h_end = 2, h_ok = True, h_kind = TransactionOp, h_observed = [], h_after = [1], h_key = 1\<rparr>;
         stale = \<lparr>h_id = 1, h_start = 3, h_end = 4, h_ok = True, h_kind = ReadOp, h_observed = [], h_after = [], h_key = 0\<rparr>;
         skew = \<lparr>h_id = 1, h_start = 1, h_end = 3, h_ok = True, h_kind = TransactionOp, h_observed = [], h_after = [2], h_key = 2\<rparr>;
         valid = stale\<lparr>h_observed := [1]\<rparr>
     in if serial_history [] [write, stale] \<noteq> None then Inl (AssertionError ''stale'')
        else if serial_history [] [write, skew] \<noteq> None then Inl (AssertionError ''skew'')
        else (case serial_history [] [write, valid] of
            None \<Rightarrow> Inl (TypeError ''NoneType object is not subscriptable'')
          | Some (state, _) \<Rightarrow> if state \<noteq> [1] then Inl (AssertionError ''valid'')
              else Inr [''completed_write_then_stale_predicate_rejected'', ''committed_write_skew_rejected'',
                ''ordered_write_and_fresh_predicate_accepted'']))"

section \<open>Specification\<close>

text \<open>The effect of one operation on the state it must have observed.\<close>

definition op_effect :: "hop \<Rightarrow> hstate \<Rightarrow> hstate option" where
  "op_effect a st =
    (if h_observed a \<noteq> st then None
     else (case h_kind a of
        ReadOp \<Rightarrow> Some st
      | ReadonlyTransaction \<Rightarrow> if h_after a = st then Some st else None
      | TransactionOp \<Rightarrow> if h_after a = toggle (h_key a) st then Some (h_after a) else None))"

fun replay :: "hop list \<Rightarrow> hstate \<Rightarrow> nat list \<Rightarrow> hstate option" where
  "replay ops st [] = Some st"
| "replay ops st (i # is) = Option.bind (op_effect (ops ! i) st) (\<lambda>st'. replay ops st' is)"

text \<open>No operation stands after one that had started only when it was over.\<close>

definition real_time :: "hop list \<Rightarrow> nat list \<Rightarrow> bool" where
  "real_time ops is \<longleftrightarrow> sorted_wrt (\<lambda>i j. \<not> h_end (ops ! j) < h_start (ops ! i)) is"

definition explains :: "hop list \<Rightarrow> hstate \<Rightarrow> nat list \<Rightarrow> hstate \<Rightarrow> bool" where
  "explains ops st is st' \<longleftrightarrow> distinct is \<and> set is = {..<length ops} \<and> real_time ops is \<and> replay ops st is = Some st'"

section \<open>Masks\<close>

lemma bit_before:
  "bit (\<Sum>j \<leftarrow> [0..<n]. if P j then push_bit j 1 else (0::int)) k \<longleftrightarrow> k < n \<and> P k"
proof (induction n arbitrary: k)
  case (Suc n)
  let ?s = "\<Sum>j \<leftarrow> [0..<n]. if P j then push_bit j 1 else (0::int)"
  let ?t = "if P n then push_bit n 1 else (0::int)"
  have "?s AND ?t = 0" using Suc by (auto simp: bit_eq_iff [where 'a = int] bit_simps)
  then have "?s + ?t = ?s OR ?t" by (rule disjunctive_add_eq_or)
  then show ?case using Suc by (auto simp: bit_simps less_Suc_eq)
qed simp

lemma bit_before_mask: "bit (before_mask ops a) j \<longleftrightarrow> j < length ops \<and> h_end (ops ! j) < h_start a"
  by (simp add: before_mask_def bit_before)

text \<open>A mask stands for a set of operations.\<close>

definition marks_set :: "hop list \<Rightarrow> int \<Rightarrow> nat set \<Rightarrow> bool" where
  "marks_set ops m S \<longleftrightarrow> S \<subseteq> {..<length ops} \<and> (\<forall>j. bit m j \<longleftrightarrow> j \<in> S)"

lemma marks_full: "marks_set ops m S \<Longrightarrow> m = full_mask ops \<longleftrightarrow> S = {..<length ops}"
  by (auto simp: marks_set_def full_mask_def bit_eq_iff [where 'a = int] bit_mask_iff simp flip: mask_eq_exp_minus_1)

lemma marks_insert: "marks_set ops m S \<Longrightarrow> i < length ops \<Longrightarrow> marks_set ops (m OR push_bit i 1) (insert i S)"
  by (auto simp: marks_set_def bit_simps)

lemma try_op_iff:
  assumes "marks_set ops m S"
  shows "try_op ops m st i = Some st' \<longleftrightarrow>
    i \<notin> S \<and> (\<forall>j < length ops. h_end (ops ! j) < h_start (ops ! i) \<longrightarrow> j \<in> S) \<and> op_effect (ops ! i) st = Some st'"
proof -
  have "(before_mask ops (ops ! i) AND NOT m \<noteq> 0) = (\<exists>j < length ops. h_end (ops ! j) < h_start (ops ! i) \<and> j \<notin> S)"
    using assms by (auto simp: bit_eq_iff [where 'a = int] bit_simps bit_before_mask marks_set_def)
  then show ?thesis
    using assms by (auto simp: try_op_def op_effect_def Let_def marks_set_def split: hkind.splits)
qed

section \<open>Completions of a partial order\<close>

text \<open>
  \<open>completion ops S st is st'\<close>: with the operations \<open>S\<close> placed and the state \<open>st\<close>
  reached, the rest can be placed in the order \<open>is\<close>, ending in \<open>st'\<close>.
\<close>

inductive completion :: "hop list \<Rightarrow> nat set \<Rightarrow> hstate \<Rightarrow> nat list \<Rightarrow> hstate \<Rightarrow> bool" for ops where
  placed: "completion ops {..<length ops} st [] st"
| place: "i < length ops \<Longrightarrow> i \<notin> S \<Longrightarrow> (\<forall>j < length ops. h_end (ops ! j) < h_start (ops ! i) \<longrightarrow> j \<in> S) \<Longrightarrow>
    op_effect (ops ! i) st = Some st1 \<Longrightarrow> completion ops (insert i S) st1 is st' \<Longrightarrow> completion ops S st (i # is) st'"

inductive_cases completion_ConsE: "completion ops S st (i # is) st'"
inductive_cases completion_NilE: "completion ops S st [] st'"

definition dead :: "hop list \<Rightarrow> int \<Rightarrow> hstate \<Rightarrow> bool" where
  "dead ops m st \<longleftrightarrow> (\<forall>S is st'. marks_set ops m S \<longrightarrow> \<not> completion ops S st is st')"

lemma marks_unique: "marks_set ops m S \<Longrightarrow> marks_set ops m T \<Longrightarrow> S = T"
  by (auto simp: marks_set_def)

lemma completion_step:
  assumes "completion ops S st is st'" and "S \<noteq> {..<length ops}"
  obtains i js st1 where "is = i # js" and "i < length ops" and "i \<notin> S"
    and "\<forall>j < length ops. h_end (ops ! j) < h_start (ops ! i) \<longrightarrow> j \<in> S"
    and "op_effect (ops ! i) st = Some st1" and "completion ops (insert i S) st1 js st'"
  using assms by (cases rule: completion.cases) auto

section \<open>Correctness of the search\<close>

text \<open>The memo is sound below a level: keys with at most \<open>u\<close> operations to place are dead.\<close>

definition memo_ok :: "hop list \<Rightarrow> nat \<Rightarrow> memo \<Rightarrow> bool" where
  "memo_ok ops u V \<longleftrightarrow> (\<forall>(m, st) \<in> V. unset ops m \<le> u \<longrightarrow> dead ops m st)"

definition found :: "hop list \<Rightarrow> nat set \<Rightarrow> hstate \<Rightarrow> int list \<Rightarrow> hstate \<times> int list \<Rightarrow> bool" where
  "found ops S st order r \<longleftrightarrow> (\<exists>is. completion ops S st is (fst r) \<and> snd r = order @ map (\<lambda>i. h_id (ops ! i)) is)"

definition level_ok :: "hop list \<Rightarrow> nat \<Rightarrow> memo \<Rightarrow> memo \<Rightarrow> bool" where
  "level_ok ops u V V' \<longleftrightarrow> memo_ok ops u V' \<and> (\<forall>x \<in> V' - V. unset ops (fst x) \<le> u)"

lemma level_trans: "level_ok ops u V V1 \<Longrightarrow> level_ok ops u V1 V2 \<Longrightarrow> level_ok ops u V V2"
  by (auto simp: level_ok_def)

lemma level_step:
  assumes "level_ok ops u (insert (m, st) V) V'" and "dead ops m st" and "memo_ok ops (unset ops m) V" and "unset ops m = Suc u"
  shows "level_ok ops (unset ops m) V V'"
proof -
  have "dead ops k s" if "(k, s) \<in> V'" "unset ops k \<le> unset ops m" for k s
  proof (cases "(k, s) \<in> insert (m, st) V")
    case True
    then show ?thesis using assms(2,3) that(2) by (auto simp: memo_ok_def)
  next
    case False
    then have "unset ops k \<le> u" using assms(1) that(1) by (force simp: level_ok_def)
    then show ?thesis using assms(1) that(1) by (auto simp: level_ok_def memo_ok_def)
  qed
  moreover have "unset ops (fst x) \<le> unset ops m" if "x \<in> V' - V" for x
    using assms(1,4) that by (cases "x = (m, st)") (force simp: level_ok_def)+
  ultimately show ?thesis by (auto simp: level_ok_def memo_ok_def)
qed

lemma unset_insert:
  assumes "marks_set ops m S" and "i < length ops" and "i \<notin> S" and "unset ops m = Suc u"
  shows "unset ops (m OR push_bit i 1) = u"
proof -
  have "{j. j < length ops \<and> \<not> bit (m OR push_bit i 1) j} = {j. j < length ops \<and> \<not> bit m j} - {i}"
    by (auto simp: bit_simps)
  then show ?thesis using assms by (simp add: unset_def marks_set_def)
qed

lemma unset_Suc:
  assumes "marks_set ops m S" and "m \<noteq> full_mask ops"
  shows "\<exists>u. unset ops m = Suc u"
proof -
  have "S \<noteq> {..<length ops}" using marks_full [OF assms(1)] assms(2) by simp
  then have "{j. j < length ops \<and> \<not> bit m j} \<noteq> {}" using assms(1) by (auto simp: marks_set_def)
  then show ?thesis unfolding unset_def by (metis card_eq_0_iff finite_Collect_less_nat finite_Collect_conjI not0_implies_Suc)
qed

definition ops_dead :: "hop list \<Rightarrow> nat \<Rightarrow> int \<Rightarrow> hstate \<Rightarrow> bool" where
  "ops_dead ops i m st \<longleftrightarrow> (\<forall>k st1. i \<le> k \<and> k < length ops \<and> try_op ops m st k = Some st1 \<longrightarrow> dead ops (m OR push_bit k 1) st1)"

lemma ops_dead_Suc:
  "ops_dead ops (Suc i) m st \<Longrightarrow> (\<And>st1. try_op ops m st i = Some st1 \<Longrightarrow> dead ops (m OR push_bit i 1) st1) \<Longrightarrow> ops_dead ops i m st"
  unfolding ops_dead_def
proof (intro allI impI)
  fix k st1
  assume h: "\<forall>k st1. Suc i \<le> k \<and> k < length ops \<and> try_op ops m st k = Some st1 \<longrightarrow> dead ops (m OR push_bit k 1) st1"
    and here: "\<And>st1. try_op ops m st i = Some st1 \<Longrightarrow> dead ops (m OR push_bit i 1) st1"
    and k: "i \<le> k \<and> k < length ops \<and> try_op ops m st k = Some st1"
  show "dead ops (m OR push_bit k 1) st1"
    using h here k by (cases "k = i") auto
qed

lemma ops_dead_dead:
  assumes "marks_set ops m S" and "m \<noteq> full_mask ops" and "ops_dead ops 0 m st"
  shows "dead ops m st"
  unfolding dead_def
proof (intro allI impI notI)
  fix T js st'
  assume T: "marks_set ops m T" and c: "completion ops T st js st'"
  have "T \<noteq> {..<length ops}" using marks_full [OF T] assms(2) by simp
  with c show False
  proof (rule completion_step)
    fix i js' st1
    assume i: "i < length ops" "i \<notin> T" "\<forall>j<length ops. h_end (ops ! j) < h_start (ops ! i) \<longrightarrow> j \<in> T"
      "op_effect (ops ! i) st = Some st1" "completion ops (insert i T) st1 js' st'"
    then have "try_op ops m st i = Some st1" using try_op_iff [OF T] by simp
    then have "dead ops (m OR push_bit i 1) st1" using assms(3) i(1) by (simp add: ops_dead_def)
    then show False using marks_insert [OF T i(1)] i(5) by (auto simp: dead_def)
  qed
qed

lemma found_step:
  assumes "marks_set ops m S" and "i < length ops" and "try_op ops m st i = Some st1"
    and "found ops (insert i S) st1 (order @ [h_id (ops ! i)]) r"
  shows "found ops S st order r"
proof -
  obtain js where c: "completion ops (insert i S) st1 js (fst r)" "snd r = (order @ [h_id (ops ! i)]) @ map (\<lambda>i. h_id (ops ! i)) js"
    using assms(4) by (auto simp: found_def)
  have "completion ops S st (i # js) (fst r)"
    using try_op_iff [OF assms(1), of st i st1] assms(2,3) c(1) by (auto intro: completion.place)
  then show ?thesis using c(2) unfolding found_def by (intro exI [of _ "i # js"]) simp
qed

lemma search_correct:
  "marks_set ops m S \<Longrightarrow> memo_ok ops (unset ops m) V \<Longrightarrow>
     (case search ops m st order V of
        (Some r, V') \<Rightarrow> found ops S st order r
      | (None, V') \<Rightarrow> dead ops m st \<and> level_ok ops (unset ops m) V V')"
  "marks_set ops m S \<Longrightarrow> unset ops m = Suc u \<Longrightarrow> memo_ok ops u V \<Longrightarrow>
     (case search_ops ops i m st order V of
        (Some r, V') \<Rightarrow> found ops S st order r
      | (None, V') \<Rightarrow> ops_dead ops i m st \<and> level_ok ops u V V')"
proof (induction ops m st order V and ops i m st order V arbitrary: S and S u rule: search_search_ops.induct)
  case (1 ops m st order V)
  consider (full) "m = full_mask ops" | (known) "m \<noteq> full_mask ops" "(m, st) \<in> V"
    | (new) "m \<noteq> full_mask ops" "(m, st) \<notin> V" by blast
  then show ?case
  proof cases
    case full
    then have "S = {..<length ops}" using marks_full [OF "1.prems"(1)] by simp
    then have "found ops S st order (st, order)"
      unfolding found_def by (intro exI [of _ "[]"]) (auto intro: completion.placed)
    then show ?thesis using full by (simp add: search.simps)
  next
    case known
    then have "dead ops m st" using "1.prems"(2) by (auto simp: memo_ok_def)
    then show ?thesis using known "1.prems"(2) by (simp add: search.simps level_ok_def)
  next
    case new
    obtain u where u: "unset ops m = Suc u" using unset_Suc [OF "1.prems"(1) new(1)] by blast
    let ?V = "insert (m, st) V"
    have "memo_ok ops u ?V" using "1.prems"(2) u by (auto simp: memo_ok_def)
    note ih = "1.IH" [OF new "1.prems"(1) u this]
    show ?thesis
    proof (cases "search_ops ops 0 m st order ?V")
      case (Pair r V')
      show ?thesis
      proof (cases r)
        case None
        then have d: "ops_dead ops 0 m st" "level_ok ops u ?V V'" using ih Pair by simp_all
        have "dead ops m st" by (rule ops_dead_dead [OF "1.prems"(1) new(1) d(1)])
        then show ?thesis using None Pair new level_step [OF d(2) _ "1.prems"(2) u] by (simp add: search.simps)
      next
        case (Some x)
        then show ?thesis using ih Pair new by (simp add: search.simps)
      qed
    qed
  qed
next
  case (2 ops i m st order V)
  show ?case
  proof (cases "i < length ops")
    case False
    then show ?thesis using "2.prems" by (auto simp: search_ops.simps ops_dead_def level_ok_def)
  next
    case i: True
    show ?thesis
    proof (cases "try_op ops m st i")
      case None
      note ih = "2.IH"(1) [OF i None "2.prems"]
      have "ops_dead ops (Suc i) m st \<Longrightarrow> ops_dead ops i m st" by (rule ops_dead_Suc) (simp_all add: None)
      moreover have "search_ops ops i m st order V = search_ops ops (Suc i) m st order V"
        using i None by (subst search_ops.simps) simp
      ultimately show ?thesis using ih by (auto split: prod.splits option.splits)
    next
      case (Some st1)
      have ni: "i \<notin> S" using Some try_op_iff [OF "2.prems"(1)] by simp
      have m: "marks_set ops (m OR push_bit i 1) (insert i S)" by (rule marks_insert [OF "2.prems"(1) i])
      have u: "unset ops (m OR push_bit i 1) = u" by (rule unset_insert [OF "2.prems"(1) i ni "2.prems"(2)])
      note child = "2.IH"(2) [OF i Some m, unfolded u, OF "2.prems"(3)]
      obtain r v where rv: "search ops (m OR push_bit i 1) st1 (order @ [h_id (ops ! i)]) V = (r, v)" by fastforce
      show ?thesis
      proof (cases r)
        case None
        have c: "dead ops (m OR push_bit i 1) st1" "level_ok ops u V v" using child rv None by simp_all
        have "memo_ok ops u v" using c(2) by (simp add: level_ok_def)
        note ih = "2.IH"(3) [OF i Some rv [symmetric] None "2.prems"(1,2) this]
        have "ops_dead ops (Suc i) m st \<Longrightarrow> ops_dead ops i m st" by (rule ops_dead_Suc) (use Some c(1) in auto)
        moreover have "search_ops ops i m st order V = search_ops ops (Suc i) m st order v"
          using i Some rv None by (subst search_ops.simps) simp
        ultimately show ?thesis using ih level_trans [OF c(2)] by (auto split: prod.splits option.splits)
      next
        case r: (Some x)
        have "found ops S st order x"
          by (rule found_step [OF "2.prems"(1) i Some]) (use child rv r in simp)
        then show ?thesis using i Some rv r by (subst search_ops.simps) simp
      qed
    qed
  qed
qed

section \<open>Completions are explanations\<close>

lemma completion_explains:
  "completion ops S st is st' \<Longrightarrow> S \<subseteq> {..<length ops} \<Longrightarrow>
    distinct is \<and> set is = {..<length ops} - S \<and> real_time ops is \<and> replay ops st is = Some st'"
proof (induction rule: completion.induct)
  case (place i S st st1 js st')
  then have ih: "distinct js" "set js = {..<length ops} - insert i S" "real_time ops js" "replay ops st1 js = Some st'" by auto
  have "\<not> h_end (ops ! j) < h_start (ops ! i)" if "j \<in> set js" for j
    using that ih(2) place.hyps(3) by auto
  then show ?case using ih place.hyps by (auto simp: real_time_def)
qed (simp add: real_time_def)

text \<open>An operation does not end before it starts: what the monotonic clock guarantees.\<close>

definition timed :: "hop list \<Rightarrow> bool" where
  "timed ops \<longleftrightarrow> (\<forall>a \<in> set ops. h_start a \<le> h_end a)"

lemma explains_completion:
  assumes "timed ops"
  shows "distinct is \<Longrightarrow> S \<subseteq> {..<length ops} \<Longrightarrow> set is = {..<length ops} - S \<Longrightarrow> real_time ops is \<Longrightarrow>
    replay ops st is = Some st' \<Longrightarrow> completion ops S st is st'"
proof (induction "is" arbitrary: S st)
  case Nil
  then have "S = {..<length ops}" by auto
  then show ?case using Nil.prems(5) by (auto intro: completion.placed)
next
  case (Cons i js)
  obtain st1 where st1: "op_effect (ops ! i) st = Some st1" "replay ops st1 js = Some st'"
    using Cons.prems(5) by (auto simp: bind_eq_Some_conv)
  have i: "i < length ops" "i \<notin> S" using Cons.prems(3) by auto
  have pre: "j \<in> S" if j: "j < length ops" "h_end (ops ! j) < h_start (ops ! i)" for j
  proof (rule ccontr)
    assume "j \<notin> S"
    then consider "j = i" | "j \<in> set js" using j(1) Cons.prems(3) by auto
    then show False
    proof cases
      case 1
      have "h_start (ops ! i) \<le> h_end (ops ! i)" using assms i(1) by (simp add: timed_def)
      then show False using 1 j(2) by simp
    next
      case 2
      then show False using j(2) Cons.prems(4) by (simp add: real_time_def)
    qed
  qed
  have "completion ops (insert i S) st1 js st'"
    using Cons.prems i st1(2) by (intro Cons.IH) (auto simp: real_time_def)
  then show ?case using i pre st1(1) by (auto intro: completion.place)
qed

lemma completion_iff_explains:
  assumes "timed ops"
  shows "completion ops {} st is st' \<longleftrightarrow> explains ops st is st'"
  using completion_explains [of ops "{}" st "is" st'] explains_completion [OF assms, of "is" "{}" st st']
  by (auto simp: explains_def)

lemma marks_empty: "marks_set ops 0 {}"
  by (simp add: marks_set_def)

lemma serial_history_search:
  fixes history
  defines "ops \<equiv> filter h_ok history"
  shows "serial_history initial history = Some (st', order) \<Longrightarrow>
      \<exists>is. completion ops {} (sort initial) is st' \<and> order = map (\<lambda>i. h_id (ops ! i)) is"
    and "serial_history initial history = None \<Longrightarrow> \<not> completion ops {} (sort initial) is st'"
proof -
  have c: "case search ops 0 (sort initial) [] {} of
        (Some r, V') \<Rightarrow> found ops {} (sort initial) [] r
      | (None, V') \<Rightarrow> dead ops 0 (sort initial) \<and> level_ok ops (unset ops 0) {} V'"
    by (rule search_correct(1) [OF marks_empty]) (simp add: memo_ok_def)
  { assume "serial_history initial history = Some (st', order)"
    then show "\<exists>is. completion ops {} (sort initial) is st' \<and> order = map (\<lambda>i. h_id (ops ! i)) is"
      using c by (auto simp: serial_history_def ops_def found_def split: prod.splits) }
  { assume "serial_history initial history = None"
    then have "dead ops 0 (sort initial)" using c by (auto simp: serial_history_def ops_def split: prod.splits)
    then show "\<not> completion ops {} (sort initial) is st'" using marks_empty by (auto simp: dead_def) }
qed

end
