(* ===== verification/History_Properties.thy ===== *)
theory History_Properties
  imports Dialect History Simulation
begin

text \<open>
  The properties of the SQLAlchemy vector column and of the checker of transaction histories.
\<close>

section \<open>Vector columns\<close>

text \<open>
  A vector bound to a SQLAlchemy vector column is stored as four bytes per component and
  reads back as itself, for every value the column accepts.
\<close>

lemma vector_column_stores:
  assumes "bind_processor pf dims (Some a) = Inr (Some xs)" and "\<forall>ys. a = IsVector ys \<longrightarrow> vec_ok ys"
  shows "\<exists>b. vec_to_bytes xs = Inr b \<and> length b = 4 * dims \<and> result_processor pf dims (Some b) = Inr (Some xs)"
  by (rule vector_column_roundtrip [OF assms(1)]) (use assms(2) in blast)

section \<open>Transaction histories\<close>

text \<open>
  C9. The history checker is sound and complete. When it returns an order, that order replays all
  committed operations from the initial state to the state it returns and respects real time; when
  it returns none, no order does. Completeness needs that no operation ends before it starts.
\<close>

theorem serial_history_decides:
  assumes "timed (filter h_ok history)"
  shows "case serial_history initial history of
      Some (st, order) \<Rightarrow> \<exists>is. explains (filter h_ok history) (sort initial) is st \<and> order = map (\<lambda>i. h_id (filter h_ok history ! i)) is
    | None \<Rightarrow> \<nexists>is st. explains (filter h_ok history) (sort initial) is st"
proof (cases "serial_history initial history")
  case None
  then show ?thesis
    using serial_history_search(2) [OF None] completion_iff_explains [OF assms] by auto
next
  case (Some r)
  then obtain st order where r: "serial_history initial history = Some (st, order)" by (cases r) auto
  then show ?thesis
    using serial_history_search(1) [OF r] completion_iff_explains [OF assms] by auto
qed

theorem serial_history_decides_witness:
  "\<nexists>is st. explains [\<lparr>h_id = 0, h_start = 1, h_end = 2, h_ok = True, h_kind = ReadOp, h_observed = [7], h_after = [], h_key = 0\<rparr>] [] is st"
proof -
  let ?h = "[\<lparr>h_id = 0, h_start = 1, h_end = 2, h_ok = True, h_kind = ReadOp, h_observed = [7], h_after = [], h_key = 0\<rparr>]"
  have "serial_history [] ?h = None"
    by (simp add: serial_history_def search.simps search_ops.simps full_mask_def try_op_def Let_def)
  moreover have "timed (filter h_ok ?h)" by (simp add: timed_def)
  ultimately show ?thesis using serial_history_decides [of ?h "[]"] by simp
qed

text \<open>
  The negative controls of the checker hold: a completed write followed by a stale read and a
  committed write skew are both rejected, and the ordered write with a fresh read is accepted with
  the state it leaves.
\<close>

lemma negative_controls_hold:
  "negative_controls = Inr [''completed_write_then_stale_predicate_rejected'', ''committed_write_skew_rejected'',
    ''ordered_write_and_fresh_predicate_accepted'']"
  by code_simp

end
