(* ===== verification/Tool_Prelude.thy ===== *)
theory Tool_Prelude
  imports Client "HOL-Library.AList"
begin

text \<open>
  What the tools share: loops as computations with their rules, numbers and lists as the scripts
  format and slice them, and the outside world of a script as operations on its state.
\<close>

section \<open>Loops\<close>

text \<open>\<open>for x in xs: body\<close>; with an accumulator; with a \<open>return\<close> or \<open>break\<close> that carries a value.\<close>

fun forM :: "'a list \<Rightarrow> ('a \<Rightarrow> ('s, unit) comp) \<Rightarrow> ('s, unit) comp" where
  "forM [] body = retM ()"
| "forM (x # xs) body = bindM (body x) (\<lambda>_. forM xs body)"

fun foldM :: "'a list \<Rightarrow> 'b \<Rightarrow> ('a \<Rightarrow> 'b \<Rightarrow> ('s, 'b) comp) \<Rightarrow> ('s, 'b) comp" where
  "foldM [] acc body = retM acc"
| "foldM (x # xs) acc body = bindM (body x acc) (\<lambda>acc'. foldM xs acc' body)"

fun untilM :: "'a list \<Rightarrow> ('a \<Rightarrow> ('s, 'b option) comp) \<Rightarrow> ('s, 'b option) comp" where
  "untilM [] body = retM None"
| "untilM (x # xs) body = bindM (body x) (\<lambda>r. case r of None \<Rightarrow> untilM xs body | Some y \<Rightarrow> retM (Some y))"

fun mapM :: "('a \<Rightarrow> ('s, 'b) comp) \<Rightarrow> 'a list \<Rightarrow> ('s, 'b list) comp" where
  "mapM f [] = retM []"
| "mapM f (x # xs) = bindM (f x) (\<lambda>y. bindM (mapM f xs) (\<lambda>ys. retM (y # ys)))"

text \<open>
  \<open>while cond: body\<close>, where the body yields \<open>Some\<close> to leave the loop. A loop that does not
  end is \<open>None\<close>.
\<close>

partial_function (option) whileM :: "('s, bool) comp \<Rightarrow> ('s, 'b option) comp \<Rightarrow> 's \<Rightarrow> ('b option res \<times> 's) option" where
  "whileM cond body s =
    Option.bind (cond s) (\<lambda>(c, s1). case c of Inl e \<Rightarrow> Some (Inl e, s1) | Inr go \<Rightarrow>
      if \<not> go then Some (Inr None, s1)
      else Option.bind (body s1) (\<lambda>(r, s2). case r of
          Inl e \<Rightarrow> Some (Inl e, s2)
        | Inr (Some y) \<Rightarrow> Some (Inr (Some y), s2)
        | Inr None \<Rightarrow> whileM cond body s2))"

definition assertM :: "bool \<Rightarrow> string \<Rightarrow> ('s, unit) comp" where
  "assertM b m = whenM (\<not> b) (AssertionError m)"

definition ifM :: "bool \<Rightarrow> ('s, unit) comp \<Rightarrow> ('s, unit) comp" where
  "ifM b m = (if b then m else retM ())"

text \<open>An operation of the outside world, and the outcome of a call as a value.\<close>

definition extM :: "('w \<Rightarrow> 'a res \<times> 'w) \<Rightarrow> ('w, 'a) comp" where
  "extM f = (\<lambda>w. Some (f w))"

definition outcomeM :: "('s, 'a) comp \<Rightarrow> ('s, 'a res) comp" where
  "outcomeM m = (\<lambda>s. case m s of None \<Rightarrow> None | Some (r, t) \<Rightarrow> Some (Inr r, t))"

text \<open>
  A local variable that a loop changes, beside the state; a question to the world that cannot
  fail, on a state that pairs an object with the world.
\<close>

definition localM :: "'x \<Rightarrow> ('x \<times> 's, 'a) comp \<Rightarrow> ('s, 'a) comp" where
  "localM x m = (\<lambda>s. case m (x, s) of None \<Rightarrow> None | Some (r, (_, t)) \<Rightarrow> Some (r, t))"

definition askM :: "('w \<Rightarrow> 'a \<times> 'w) \<Rightarrow> ('o \<times> 'w, 'a) comp" where
  "askM f = (\<lambda>(x, w). case f w of (a, w') \<Rightarrow> Some (Inr a, (x, w')))"

section \<open>Rules\<close>

lemma wlp_forM:
  assumes "I xs s" and "\<And>x ys t. I (x # ys) t \<Longrightarrow> wlp (body x) (\<lambda>_ u. I ys u) E t" and "\<And>t. I [] t \<Longrightarrow> Q () t"
  shows "wlp (forM xs body) Q E s"
  using assms(1)
proof (induction xs arbitrary: s)
  case (Cons x xs)
  then show ?case by (auto intro: wlp_mono [OF assms(2)])
qed (simp add: assms(3))

lemma wlp_foldM:
  assumes "I xs acc s" and "\<And>x ys a t. I (x # ys) a t \<Longrightarrow> wlp (body x a) (\<lambda>a' u. I ys a' u) E t" and "\<And>a t. I [] a t \<Longrightarrow> Q a t"
  shows "wlp (foldM xs acc body) Q E s"
  using assms(1)
proof (induction xs arbitrary: acc s)
  case (Cons x xs)
  then show ?case by (auto intro: wlp_mono [OF assms(2)])
qed (simp add: assms(3))

lemma wlp_untilM:
  assumes "I xs s" and "\<And>x ys t. I (x # ys) t \<Longrightarrow> wlp (body x) (\<lambda>r u. case r of None \<Rightarrow> I ys u | Some y \<Rightarrow> Q (Some y) u) E t"
    and "\<And>t. I [] t \<Longrightarrow> Q None t"
  shows "wlp (untilM xs body) Q E s"
  using assms(1)
proof (induction xs arbitrary: s)
  case (Cons x xs)
  show ?case
    unfolding untilM.simps wlp_simps
    by (rule wlp_mono [OF assms(2) [OF Cons.prems]]) (auto split: option.splits intro: Cons.IH)
qed (simp add: assms(3))

lemma wlp_mapM:
  assumes "I xs [] s"
    and "\<And>x ys acc t. I (x # ys) acc t \<Longrightarrow> wlp (f x) (\<lambda>y u. I ys (acc @ [y]) u) E t" and "\<And>acc t. I [] acc t \<Longrightarrow> Q acc t"
  shows "wlp (mapM f xs) Q E s"
proof -
  have "I xs acc s \<Longrightarrow> wlp (mapM f xs) (\<lambda>ys. Q (acc @ ys)) E s" for acc
  proof (induction xs arbitrary: acc s)
    case (Cons x xs)
    show ?case
      unfolding mapM.simps wlp_simps
      by (rule wlp_mono [OF assms(2) [OF Cons.prems]]) (auto dest!: Cons.IH)
  qed (simp add: assms(3))
  from this [OF assms(1)] show ?thesis by simp
qed

lemma total_ok:
  assumes "total m" and "wlp m Q (\<lambda>_ _. False) s"
  shows "\<exists>x t. m s = Some (Inr x, t) \<and> Q x t"
proof -
  obtain r t where "m s = Some (r, t)" using assms(1) by (fastforce simp: total_def returns_def)
  then show ?thesis using assms(2) by (cases r) (auto simp: wlp_def)
qed

lemma whileM_eval:
  "cond s = Some (Inr False, s1) \<Longrightarrow> whileM cond body s = Some (Inr None, s1)"
  "cond s = Some (Inr True, s1) \<Longrightarrow> body s1 = Some (Inr None, s2) \<Longrightarrow> whileM cond body s = whileM cond body s2"
  by (subst whileM.simps, simp)+

lemma wlp_whileM:
  assumes "I s" and "\<And>t. I t \<Longrightarrow> wlp cond (\<lambda>go u. if go then J u else Q None u) E t"
    and "\<And>t. J t \<Longrightarrow> wlp body (\<lambda>r u. case r of None \<Rightarrow> I u | Some y \<Rightarrow> Q (Some y) u) E t"
  shows "wlp (whileM cond body) Q E s"
proof -
  define post where "post r = (case r of (Inl e, t) \<Rightarrow> E e t | (Inr x, t) \<Rightarrow> Q x t)" for r :: "'b option res \<times> 'a"
  have "C = cond \<and> B = body \<and> I s \<longrightarrow> post r" if ret: "whileM C B s = Some r" for C B s r
  proof (rule whileM.raw_induct [where P = "\<lambda>C B s r. C = cond \<and> B = body \<and> I s \<longrightarrow> post r", OF _ ret], rule impI)
    fix F C B s r
    assume IH: "\<And>C B s r. F C B s = Some r \<Longrightarrow> C = cond \<and> B = body \<and> I s \<longrightarrow> post r"
      and eq: "Option.bind (C s) (\<lambda>(c, s1). case c of Inl e \<Rightarrow> Some (Inl e, s1) | Inr go \<Rightarrow>
        if \<not> go then Some (Inr None, s1)
        else Option.bind (B s1) (\<lambda>(r, s2). case r of Inl e \<Rightarrow> Some (Inl e, s2)
          | Inr (Some y) \<Rightarrow> Some (Inr (Some y), s2) | Inr None \<Rightarrow> F C B s2)) = Some r"
      and hyp: "C = cond \<and> B = body \<and> I s"
    obtain c s1 where c: "cond s = Some (c, s1)" using eq hyp by (cases "cond s") auto
    have w: "case c of Inl e \<Rightarrow> E e s1 | Inr go \<Rightarrow> if go then J s1 else Q None s1"
      using assms(2) [of s] hyp c by (simp add: wlp_def split: sum.splits)
    show "post r"
    proof (cases "c = Inr True")
      case False
      then have "r = (case c of Inl e \<Rightarrow> (Inl e, s1) | Inr go \<Rightarrow> (Inr None, s1))"
        using eq hyp c by (auto split: sum.splits)
      then show ?thesis using w False by (auto simp: post_def split: sum.splits)
    next
      case True
      then have b: "Option.bind (body s1) (\<lambda>(r, s2). case r of Inl e \<Rightarrow> Some (Inl e, s2)
          | Inr (Some y) \<Rightarrow> Some (Inr (Some y), s2) | Inr None \<Rightarrow> F cond body s2) = Some r"
        using eq hyp c by auto
      obtain x s2 where x: "body s1 = Some (x, s2)" using b by (cases "body s1") auto
      have "case x of Inl e \<Rightarrow> E e s2 | Inr None \<Rightarrow> I s2 | Inr (Some y) \<Rightarrow> Q (Some y) s2"
        using assms(3) [of s1] w True x by (auto simp: wlp_def split: sum.splits option.splits)
      then show ?thesis using b x IH [of cond body s2 r] by (auto simp: post_def split: sum.splits option.splits)
    qed
  qed
  from this [of cond body s] show ?thesis
    using assms(1) by (auto simp: wlp_def post_def split: option.splits sum.splits)
qed

text \<open>A loop ends when every pass that goes on lowers a measure.\<close>

lemma returns_whileM:
  fixes f :: "'s \<Rightarrow> nat"
  assumes "I s" and "total cond" and "total body"
    and "\<And>t u v. I t \<Longrightarrow> cond t = Some (Inr True, u) \<Longrightarrow> body u = Some (Inr None, v) \<Longrightarrow> I v \<and> f v < f t"
  shows "returns (whileM cond body) s"
  using assms(1)
proof (induction "f s" arbitrary: s rule: less_induct)
  case less
  obtain c u where c: "cond s = Some (c, u)" using assms(2) unfolding total_def returns_def by (metis not_None_eq surj_pair)
  obtain r v where r: "body u = Some (r, v)" using assms(3) unfolding total_def returns_def by (metis not_None_eq surj_pair)
  have "returns (whileM cond body) v" if "c = Inr True" "r = Inr None"
    using less assms(4) [OF less.prems, of u v] c r that by blast
  then show ?case unfolding returns_def
    by (subst whileM.simps) (auto simp: c r split: sum.splits option.splits)
qed

lemma total_loops [total_rules]:
  "(\<And>x. total (body x)) \<Longrightarrow> total (forM xs body)"
  "(\<And>x a. total (step x a)) \<Longrightarrow> total (foldM xs acc step)"
  "(\<And>x. total (try x)) \<Longrightarrow> total (untilM xs try)"
  "(\<And>x. total (f x)) \<Longrightarrow> total (mapM f xs)"
proof -
  show "(\<And>x. total (body x)) \<Longrightarrow> total (forM xs body)" by (induction xs) (auto intro: total_rules)
  show "(\<And>x a. total (step x a)) \<Longrightarrow> total (foldM xs acc step)" by (induction xs arbitrary: acc) (auto intro!: total_rules)
  show "(\<And>x. total (f x)) \<Longrightarrow> total (mapM f xs)" by (induction xs) (auto intro!: total_rules)
  show "(\<And>x. total (try x)) \<Longrightarrow> total (untilM xs try)"
    by (induction xs) (auto intro!: total_rules split: option.splits)
qed

lemma total_effects [total_rules]:
  "total (assertM b m)" "total m1 \<Longrightarrow> total (ifM b m1)" "total (extM g)" "total m2 \<Longrightarrow> total (outcomeM m2)"
  by (auto simp: assertM_def ifM_def total_def returns_def extM_def outcomeM_def comp_defs split: option.splits)

lemma total_local [total_rules]: "total m \<Longrightarrow> total (localM x m)" "total (askM g)"
  by (auto simp: total_def returns_def localM_def askM_def split: option.splits prod.splits)

lemma wlp_local [simp]:
  "wlp (localM x m) Q E s = wlp m (\<lambda>r t. Q r (snd t)) (\<lambda>e t. E e (snd t)) (x, s)"
  "wlp (askM g) Q2 E2 (a, w) = Q2 (fst (g w)) (a, snd (g w))"
  by (auto simp: wlp_def localM_def askM_def split: option.splits sum.splits prod.splits)

lemma wlp_effects [simp]:
  "wlp (assertM b m) Q E s = (if b then Q () s else E (AssertionError m) s)"
  "wlp (ifM b m1) Q E s = (if b then wlp m1 Q E s else Q () s)"
  "wlp (extM g) Q2 E s = (case g s of (Inl e, t) \<Rightarrow> E e t | (Inr x, t) \<Rightarrow> Q2 x t)"
  "wlp (outcomeM m2) Q3 E s = wlp m2 (\<lambda>x. Q3 (Inr x)) (\<lambda>e. Q3 (Inl e)) s"
  by (auto simp: assertM_def ifM_def wlp_def extM_def outcomeM_def comp_defs split: option.splits sum.splits)

section \<open>Relations between the state before and after\<close>

text \<open>
  \<open>keepsR R proj m\<close>: whatever \<open>m\<close> does, the part \<open>proj\<close> of the state is related to what it
  was. For a reflexive and transitive relation the property is compositional.
\<close>

definition keepsR :: "('a \<Rightarrow> 'a \<Rightarrow> bool) \<Rightarrow> ('s \<Rightarrow> 'a) \<Rightarrow> ('s, 'b) comp \<Rightarrow> bool" where
  "keepsR R proj m \<longleftrightarrow> (\<forall>s. wlp m (\<lambda>_ t. R (proj s) (proj t)) (\<lambda>_ t. R (proj s) (proj t)) s)"

named_theorems relation_rules \<open>computations that keep a relation\<close>

locale step_relation =
  fixes R :: "'a \<Rightarrow> 'a \<Rightarrow> bool"
  assumes step_refl: "R x x" and step_trans: "R x y \<Longrightarrow> R y z \<Longrightarrow> R x z"
begin

lemma step_wlp: "keepsR R proj m \<Longrightarrow> wlp m (\<lambda>_ t. R (proj s) (proj t)) (\<lambda>_ t. R (proj s) (proj t)) s"
  by (simp add: keepsR_def)

lemma step_basic [relation_rules]:
  "keepsR R proj (retM x)" "keepsR R proj (raiseM e)" "keepsR R proj (liftR r)" "keepsR R proj (whenM b e)"
  "keepsR R proj getM" "keepsR R proj (assertM b msg)"
  by (auto simp: keepsR_def step_refl split: sum.splits)

lemma step_bind [relation_rules]:
  assumes "keepsR R proj m" and "\<And>x. keepsR R proj (f x)"
  shows "keepsR R proj (bindM m f)"
  unfolding keepsR_def wlp_simps
proof
  fix s
  show "wlp m (\<lambda>x. wlp (f x) (\<lambda>_ t. R (proj s) (proj t)) (\<lambda>_ t. R (proj s) (proj t))) (\<lambda>_ t. R (proj s) (proj t)) s"
    by (rule wlp_mono [OF step_wlp [OF assms(1)]]) (auto intro: wlp_mono [OF step_wlp [OF assms(2)]] step_trans)
qed

lemma step_try [relation_rules]:
  assumes "keepsR R proj m" and "\<And>e. keepsR R proj (h e)"
  shows "keepsR R proj (tryM m h)"
  unfolding keepsR_def wlp_simps
proof
  fix s
  show "wlp m (\<lambda>_ t. R (proj s) (proj t)) (\<lambda>e. wlp (h e) (\<lambda>_ t. R (proj s) (proj t)) (\<lambda>_ t. R (proj s) (proj t))) s"
    by (rule wlp_mono [OF step_wlp [OF assms(1)]]) (auto intro: wlp_mono [OF step_wlp [OF assms(2)]] step_trans)
qed

lemma step_finally [relation_rules]:
  assumes "keepsR R proj m" and "keepsR R proj f"
  shows "keepsR R proj (finallyM m f)"
  unfolding keepsR_def wlp_finally
proof
  fix s
  show "wlp m (\<lambda>x. wlp f (\<lambda>_ t. R (proj s) (proj t)) (\<lambda>_ t. R (proj s) (proj t))) (\<lambda>e. wlp f (\<lambda>_ t. R (proj s) (proj t)) (\<lambda>_ t. R (proj s) (proj t))) s"
    by (rule wlp_mono [OF step_wlp [OF assms(1)]]) (auto intro: wlp_mono [OF step_wlp [OF assms(2)]] step_trans)
qed

lemma step_if [relation_rules]: "keepsR R proj m \<Longrightarrow> keepsR R proj n \<Longrightarrow> keepsR R proj (if b then m else n)"
  "keepsR R proj m1 \<Longrightarrow> keepsR R proj (ifM b m1)"
  by (auto simp: keepsR_def step_refl)

lemma step_cases [relation_rules]:
  "keepsR R proj m \<Longrightarrow> (\<And>y. keepsR R proj (f y)) \<Longrightarrow> keepsR R proj (case v of None \<Rightarrow> m | Some y \<Rightarrow> f y)"
  "(\<And>a b. keepsR R proj (g a b)) \<Longrightarrow> keepsR R proj (case p of (a, b) \<Rightarrow> g a b)"
  by (auto split: option.splits prod.splits)

lemma step_loops [relation_rules]:
  "(\<And>x. keepsR R proj (body x)) \<Longrightarrow> keepsR R proj (forM xs body)"
  "(\<And>x a. keepsR R proj (step x a)) \<Longrightarrow> keepsR R proj (foldM ys acc step)"
  "(\<And>x. keepsR R proj (attempt x)) \<Longrightarrow> keepsR R proj (untilM zs attempt)"
  "(\<And>x. keepsR R proj (f x)) \<Longrightarrow> keepsR R proj (mapM f us)"
proof -
  show "(\<And>x. keepsR R proj (body x)) \<Longrightarrow> keepsR R proj (forM xs body)"
    by (induction xs) (auto intro: relation_rules)
  show "(\<And>x a. keepsR R proj (step x a)) \<Longrightarrow> keepsR R proj (foldM ys acc step)"
    by (induction ys arbitrary: acc) (auto intro!: relation_rules)
  show "(\<And>x. keepsR R proj (attempt x)) \<Longrightarrow> keepsR R proj (untilM zs attempt)"
    by (induction zs) (auto intro!: relation_rules)
  show "(\<And>x. keepsR R proj (f x)) \<Longrightarrow> keepsR R proj (mapM f us)"
    by (induction us) (auto intro!: relation_rules)
qed

lemma step_while [relation_rules]:
  assumes "keepsR R proj cond" and "keepsR R proj body"
  shows "keepsR R proj (whileM cond body)"
  unfolding keepsR_def
proof
  fix s
  show "wlp (whileM cond body) (\<lambda>_ t. R (proj s) (proj t)) (\<lambda>_ t. R (proj s) (proj t)) s"
    by (rule wlp_whileM [where I = "\<lambda>t. R (proj s) (proj t)" and J = "\<lambda>t. R (proj s) (proj t)"])
      (auto intro: step_refl wlp_mono [OF step_wlp [OF assms(1)]] wlp_mono [OF step_wlp [OF assms(2)]] step_trans split: option.splits)
qed

lemma step_outcome [relation_rules]: "keepsR R proj m \<Longrightarrow> keepsR R proj (outcomeM m)"
  by (simp add: keepsR_def)

text \<open>A method on an object beside the state, and a local variable.\<close>

lemma step_inner [relation_rules]: "keepsR R proj m \<Longrightarrow> keepsR R (\<lambda>s. proj (snd s)) (innerM m)"
  by (auto simp: keepsR_def)

lemma step_local [relation_rules]: "keepsR R (\<lambda>s. proj (snd s)) m \<Longrightarrow> keepsR R proj (localM x m)"
  by (auto simp: keepsR_def)

lemma step_objects [relation_rules]:
  "keepsR R proj objM" "keepsR R (\<lambda>s. proj2 (snd s)) (updM g)" "keepsR R (\<lambda>s. proj3 (fst s)) (askM h)"
  "keepsR R (\<lambda>s. proj3 (fst s)) (worldM k)" "keepsR R fst (askM h)" "keepsR R fst (worldM k)"
  by (auto simp: keepsR_def step_refl objM_def updM_def askM_def wlp_def worldM_def split: prod.splits sum.splits)

lemma step_upd: "(\<And>x. R x (g x)) \<Longrightarrow> keepsR R fst (updM g)"
  by (auto simp: keepsR_def)

end

section \<open>Lists and numbers\<close>

text \<open>\<open>range(start, stop, step)\<close> for a positive step, \<open>str.split()\<close>, \<open>sorted\<close> of numbers.\<close>

definition range_step :: "nat \<Rightarrow> nat \<Rightarrow> nat \<Rightarrow> nat list" where
  "range_step start stop step = map (\<lambda>k. start + k * step) [0 ..< (stop - start + step - 1) div step]"

fun split_on :: "('c \<Rightarrow> bool) \<Rightarrow> 'c list \<Rightarrow> 'c list list" where
  "split_on p [] = [[]]"
| "split_on p (c # cs) = (if p c then [] # split_on p cs
     else (case split_on p cs of [] \<Rightarrow> [[c]] | w # ws \<Rightarrow> (c # w) # ws))"

definition split_words :: "unidb \<Rightarrow> pstr \<Rightarrow> pstr list" where
  "split_words U s = filter (\<lambda>w. w \<noteq> []) (split_on (is_space U) s)"

text \<open>\<open>s.rsplit(c, 1)[1]\<close>: what follows the last occurrence, an \<open>IndexError\<close> without one.\<close>

definition after_last :: "nat \<Rightarrow> pstr \<Rightarrow> pstr res" where
  "after_last c s = (if c \<in> set s then Inr (rev (takeWhile (\<lambda>x. x \<noteq> c) (rev s))) else Inl IndexError)"

definition nth_res :: "'a list \<Rightarrow> nat \<Rightarrow> 'a res" where
  "nth_res xs i = (if i < length xs then Inr (xs ! i) else Inl IndexError)"

definition int_res :: "unidb \<Rightarrow> pstr \<Rightarrow> int res" where
  "int_res U s = (case parse_int U s of None \<Rightarrow> Inl (ValueError ''invalid literal for int() with base 10'') | Some i \<Rightarrow> Inr i)"

text \<open>\<open>needle in text\<close>\<close>

fun has_text :: "pstr \<Rightarrow> pstr \<Rightarrow> bool" where
  "has_text needle [] \<longleftrightarrow> needle = []"
| "has_text needle (c # cs) \<longleftrightarrow> starts_with (c # cs) needle \<or> has_text needle cs"

text \<open>Fields of JSON objects as the scripts index them.\<close>

definition key_res :: "dict \<Rightarrow> string \<Rightarrow> json res" where
  "key_res d k = (case dget d k of None \<Rightarrow> Inl KeyError | Some v \<Rightarrow> Inr v)"

definition field :: "json \<Rightarrow> string \<Rightarrow> json res" where
  "field j k = (case j of JObj d \<Rightarrow> key_res d k | JList _ \<Rightarrow> Inl (TypeError ''list indices must be integers or slices, not str'')
     | JStr _ \<Rightarrow> Inl (TypeError ''string indices must be integers, not str'') | _ \<Rightarrow> Inl (TypeError ''object is not subscriptable''))"

definition int_field :: "json \<Rightarrow> string \<Rightarrow> int res" where
  "int_field j k = bindR (field j k) (\<lambda>v. case v of JInt i \<Rightarrow> Inr i | _ \<Rightarrow> Inl (TypeError ''unsupported operand type''))"

text \<open>The truth value of a JSON value: empty containers and zero are false.\<close>

definition json_truth :: "json \<Rightarrow> bool" where
  "json_truth v = (case v of JNull \<Rightarrow> False | JBool b \<Rightarrow> b | JInt i \<Rightarrow> i \<noteq> 0 | JFloat x \<Rightarrow> (case x of Finite _ m \<Rightarrow> m \<noteq> 0 | _ \<Rightarrow> True)
     | JStr s \<Rightarrow> s \<noteq> [] | JList xs \<Rightarrow> xs \<noteq> [] | JObj d \<Rightarrow> d \<noteq> [])"

text \<open>\<open>value or []\<close> where a list or nothing is expected.\<close>

definition list_or_empty :: "json \<Rightarrow> json list res" where
  "list_or_empty v = (case v of JNull \<Rightarrow> Inr [] | JList xs \<Rightarrow> Inr xs | _ \<Rightarrow> Inl (TypeError ''object is not iterable''))"

lemma range_step_length: "0 < step \<Longrightarrow> length (range_step a b step) = (b - a + step - 1) div step"
  by (simp add: range_step_def)

end
