(* ===== verification/Process_Cluster.thy ===== *)
theory Process_Cluster
  imports Tool_Prelude
begin

text \<open>
  \<open>tools/check_process_cluster.py\<close>: the controller of three voter processes. It routes the
  packets that the voters emit, injects partitions, kills and restarts voters, and verifies the
  accounts workload. The processes, their pipes, the clock and the random generator are the
  parameter \<open>procops\<close>; the calls a round makes in parallel are made one after the other.
\<close>

section \<open>Workers\<close>

text \<open>
  \<open>pr_spawn\<close> starts a worker in its directory and returns its pid, \<open>pr_writable\<close> and
  \<open>pr_readable\<close> are \<open>select\<close> with a timeout, \<open>pr_file\<close> reads a file that may not exist.
\<close>

record 'w procops =
  pr_clock :: "'w \<Rightarrow> rat \<times> 'w"
  pr_random :: "'w \<Rightarrow> rat \<times> 'w"
  pr_spawn :: "nat \<Rightarrow> bool \<Rightarrow> 'w \<Rightarrow> nat res \<times> 'w"
  pr_writable :: "nat \<Rightarrow> rat \<Rightarrow> 'w \<Rightarrow> bool \<times> 'w"
  pr_write :: "nat \<Rightarrow> pbytes \<Rightarrow> 'w \<Rightarrow> nat res \<times> 'w"
  pr_readable :: "nat \<Rightarrow> rat \<Rightarrow> 'w \<Rightarrow> bool \<times> 'w"
  pr_read :: "nat \<Rightarrow> nat \<Rightarrow> 'w \<Rightarrow> pbytes res \<times> 'w"
  pr_poll :: "nat \<Rightarrow> 'w \<Rightarrow> int option \<times> 'w"
  pr_kill :: "nat \<Rightarrow> 'w \<Rightarrow> unit \<times> 'w"
  pr_close_stdin :: "nat \<Rightarrow> 'w \<Rightarrow> unit \<times> 'w"
  pr_close_stdout :: "nat \<Rightarrow> 'w \<Rightarrow> unit \<times> 'w"
  pr_close_log :: "nat \<Rightarrow> 'w \<Rightarrow> unit \<times> 'w"
  pr_wait :: "nat \<Rightarrow> 'w \<Rightarrow> int res \<times> 'w"
  pr_file :: "pstr \<Rightarrow> 'w \<Rightarrow> pstr option \<times> 'w"
  pr_clk_tck :: rat
  pr_dumps :: "json \<Rightarrow> pbytes"
  pr_loads :: "pbytes \<Rightarrow> json res"
  pr_unicode :: unidb

record Worker =
  wk_node :: nat
  wk_pid :: nat

definition MAX_FRAME :: nat where
  "MAX_FRAME = 8 * 1024 * 1024"

definition worker_new :: "'w procops \<Rightarrow> nat \<Rightarrow> bool \<Rightarrow> ('o \<times> 'w, Worker) comp" where
  "worker_new P node create = bindM (worldM (pr_spawn P node create)) (\<lambda>pid.
    retM \<lparr>wk_node = node, wk_pid = pid\<rparr>)"

text \<open>\<open>while data\<close>: the local variable is what is left to write.\<close>

definition write_step_rpc :: "'w procops \<Rightarrow> Worker \<Rightarrow> rat \<Rightarrow> (pbytes \<times> 'o \<times> 'w, unit option) comp" where
  "write_step_rpc P k deadline = bindM objM (\<lambda>data.
    bindM (innerM (askM (pr_clock P))) (\<lambda>now.
    bindM (innerM (askM (pr_writable P (wk_pid k) (max 0 (deadline - now))))) (\<lambda>ready.
    bindM (whenM (\<not> ready) (TimeoutError ''Worker {self.node} write timeout'')) (\<lambda>_.
    bindM (innerM (worldM (pr_write P (wk_pid k) data))) (\<lambda>n.
    bindM (updM (drop n)) (\<lambda>_.
    retM None))))))"

definition write_all :: "'w procops \<Rightarrow> Worker \<Rightarrow> pbytes \<Rightarrow> rat \<Rightarrow> ('o \<times> 'w, unit option) comp" where
  "write_all P k bytes deadline =
    localM bytes (whileM (bindM objM (\<lambda>data. retM (data \<noteq> []))) (write_step_rpc P k deadline))"

text \<open>The local variables are \<open>count\<close> and the bytes of \<open>chunks\<close>.\<close>

definition read_step_rpc :: "'w procops \<Rightarrow> Worker \<Rightarrow> rat \<Rightarrow> ((nat \<times> pbytes) \<times> 'o \<times> 'w, unit option) comp" where
  "read_step_rpc P k deadline = bindM objM (\<lambda>(count, chunks).
    bindM (innerM (askM (pr_clock P))) (\<lambda>now.
    bindM (innerM (askM (pr_readable P (wk_pid k) (max 0 (deadline - now))))) (\<lambda>ready.
    bindM (whenM (\<not> ready) (TimeoutError ''Worker {self.node} response timeout'')) (\<lambda>_.
    bindM (innerM (worldM (pr_read P (wk_pid k) count))) (\<lambda>chunk.
    bindM (whenM (chunk = []) (RuntimeError ''Worker {self.node} exited; see its stderr.log'')) (\<lambda>_.
    bindM (updM (\<lambda>_. (count - length chunk, chunks @ chunk))) (\<lambda>_.
    retM None)))))))"

definition read_exact :: "'w procops \<Rightarrow> Worker \<Rightarrow> nat \<Rightarrow> rat \<Rightarrow> ('o \<times> 'w, pbytes) comp" where
  "read_exact P k count deadline = localM (count, []) (bindM (whileM (bindM objM (\<lambda>(count, _). retM (count \<noteq> 0))) (read_step_rpc P k deadline)) (\<lambda>_.
    bindM objM (\<lambda>(_, chunks).
    retM chunks)))"

definition rpc :: "'w procops \<Rightarrow> Worker \<Rightarrow> json \<Rightarrow> ('o \<times> 'w, json) comp" where
  "rpc P k command = (let payload = pr_dumps P command in
    bindM (whenM (MAX_FRAME < length payload) (RuntimeError ''Controller frame exceeds its budget'')) (\<lambda>_.
    bindM (askM (pr_clock P)) (\<lambda>now.
    let deadline = now + 45 in
    bindM (write_all P k (frame payload) deadline) (\<lambda>_.
    bindM (read_exact P k 4 deadline) (\<lambda>header.
    let size = un_le32 header in
    bindM (whenM (\<not> (0 < size \<and> size \<le> MAX_FRAME)) (RuntimeError ''Invalid worker frame length'')) (\<lambda>_.
    bindM (read_exact P k size deadline) (\<lambda>body.
    liftR (pr_loads P body))))))))"

text \<open>\<open>stop\<close>: \<open>returncode\<close> is what the last \<open>poll\<close> or \<open>wait\<close> reported.\<close>

definition worker_stop :: "'w procops \<Rightarrow> Worker \<Rightarrow> bool \<Rightarrow> ('o \<times> 'w, unit) comp" where
  "worker_stop P k kill = bindM (askM (pr_poll P (wk_pid k))) (\<lambda>state.
    bindM ((case state of
        Some code \<Rightarrow> retM code
      | None \<Rightarrow> bindM (if kill then askM (pr_kill P (wk_pid k)) else askM (pr_close_stdin P (wk_pid k))) (\<lambda>_.
          tryM (worldM (pr_wait P (wk_pid k))) (\<lambda>e. if e = TimeoutExpired
            then bindM (askM (pr_kill P (wk_pid k))) (\<lambda>_. worldM (pr_wait P (wk_pid k)))
            else raiseM e)))) (\<lambda>code.
    bindM (askM (pr_close_stdin P (wk_pid k))) (\<lambda>_.
    bindM (askM (pr_close_stdout P (wk_pid k))) (\<lambda>_.
    bindM (askM (pr_close_log P (wk_pid k))) (\<lambda>_.
    whenM (\<not> kill \<and> code \<noteq> 0) (RuntimeError ''Worker {self.node} did not close cleanly''))))))"

section \<open>The cluster\<close>

text \<open>A request's identity as the voters report it.\<close>

type_synonym wkey = "json \<times> json"

record ProcCluster =
  pc_workers :: "Worker option list"
  pc_queues :: "json list list"
  pc_partition :: "(int \<times> int) set"
  pc_completed :: "wkey \<Rightarrow> json option"
  pc_first :: "wkey \<Rightarrow> rat option"
  pc_counts :: "wkey \<Rightarrow> nat option"
  pc_awaited :: "wkey \<Rightarrow> nat option"
  pc_peak_rss :: "int option list"
  pc_pids :: "nat list"
  pc_cpu :: "(nat \<times> rat) list"
  pc_latency :: "rat list"

text \<open>A subclass of \<open>Cluster\<close> adds fields: an extension of the record.\<close>

type_synonym ('x, 'w) pcstate = "'x ProcCluster_scheme \<times> 'w"

record WriteReq =
  rq_client :: int
  rq_sequence :: int
  rq_sql :: pstr

definition rq_key :: "WriteReq \<Rightarrow> wkey" where
  "rq_key r = (JInt (rq_client r), JInt (rq_sequence r))"

definition rq_json :: "WriteReq \<Rightarrow> json" where
  "rq_json r = JObj [(lit ''client'', JInt (rq_client r)), (lit ''sequence'', JInt (rq_sequence r)), (lit ''sql'', JStr (rq_sql r))]"

definition cluster_empty :: ProcCluster where
  "cluster_empty = \<lparr>pc_workers = [None, None, None], pc_queues = [[], [], []], pc_partition = {},
     pc_completed = Map.empty, pc_first = Map.empty, pc_counts = Map.empty, pc_awaited = Map.empty,
     pc_peak_rss = [None, None, None], pc_pids = [], pc_cpu = [], pc_latency = []\<rparr>"

definition pc_start :: "'w procops \<Rightarrow> nat \<Rightarrow> bool \<Rightarrow> (('x, 'w) pcstate, unit) comp" where
  "pc_start P node create = bindM (worker_new P node create) (\<lambda>k.
    updM (\<lambda>c. c\<lparr>pc_workers := (pc_workers c)[node := Some k], pc_pids := pc_pids c @ [wk_pid k]\<rparr>))"

definition worker_of :: "nat \<Rightarrow> (('x, 'w) pcstate, Worker) comp" where
  "worker_of node = bindM objM (\<lambda>c.
    bindM (liftR (nth_res (pc_workers c) node)) (\<lambda>k.
    (case k of None \<Rightarrow> raiseM AttributeError | Some k \<Rightarrow> retM k)))"

definition pc_stop :: "'w procops \<Rightarrow> nat \<Rightarrow> (('x, 'w) pcstate, unit) comp" where
  "pc_stop P node = bindM (worker_of node) (\<lambda>k.
    bindM (worker_stop P k True) (\<lambda>_.
    updM (\<lambda>c. c\<lparr>pc_workers := (pc_workers c)[node := None], pc_queues := (pc_queues c)[node := []]\<rparr>)))"

definition pc_close :: "'w procops \<Rightarrow> (('x, 'w) pcstate, unit) comp" where
  "pc_close P = bindM objM (\<lambda>c.
    forM (pc_workers c) (\<lambda>k. case k of None \<Rightarrow> retM () | Some k \<Rightarrow> worker_stop P k True))"

definition pc_init :: "'w procops \<Rightarrow> ((unit, 'w) pcstate, unit) comp" where
  "pc_init P = bindM (updM (\<lambda>_. cluster_empty)) (\<lambda>_.
    tryM (forM [0, 1, 2] (\<lambda>node. pc_start P node True))
      (\<lambda>e. bindM (pc_close P) (\<lambda>_. raiseM e)))"

text \<open>\<open>/proc/{pid}/stat\<close> after the command name, and \<open>/proc/{pid}/status\<close>.\<close>

definition stat_ticks :: "unidb \<Rightarrow> pstr \<Rightarrow> int res" where
  "stat_ticks U contents = bindR (after_last 41 contents) (\<lambda>rest.
    let fields = split_words U rest in
    bindR (bindR (nth_res fields 11) (int_res U)) (\<lambda>a.
    bindR (bindR (nth_res fields 12) (int_res U)) (\<lambda>b.
    Inr (a + b))))"

definition sample_cpu :: "'w procops \<Rightarrow> nat \<Rightarrow> (('x, 'w) pcstate, unit) comp" where
  "sample_cpu P node = bindM (worker_of node) (\<lambda>k.
    bindM (askM (pr_file P (lit ''/proc/'' @ dec (wk_pid k) @ lit ''/stat''))) (\<lambda>stat.
    (case stat of None \<Rightarrow> retM () | Some contents \<Rightarrow> bindM (liftR (stat_ticks (pr_unicode P) contents)) (\<lambda>ticks.
      updM (\<lambda>c. c\<lparr>pc_cpu := AList.update (wk_pid k) (of_int ticks / pr_clk_tck P) (pc_cpu c)\<rparr>)))))"

definition peak_line :: "unidb \<Rightarrow> pstr \<Rightarrow> int option \<Rightarrow> int option res" where
  "peak_line U line peak =
    (if starts_with line (lit ''VmHWM:'')
     then bindR (bindR (nth_res (split_words U line) 1) (int_res U)) (\<lambda>n. Inr (Some (max (case peak of None \<Rightarrow> 0 | Some p \<Rightarrow> p) (n * 1024))))
     else Inr peak)"

definition sample_peak :: "'w procops \<Rightarrow> nat \<Rightarrow> (('x, 'w) pcstate, unit) comp" where
  "sample_peak P node = bindM (worker_of node) (\<lambda>k.
    bindM (askM (pr_file P (lit ''/proc/'' @ dec (wk_pid k) @ lit ''/status''))) (\<lambda>status.
    (case status of None \<Rightarrow> retM () | Some contents \<Rightarrow>
      forM (split_on (\<lambda>c. c = 10) contents) (\<lambda>line. bindM objM (\<lambda>c.
        bindM (liftR (peak_line (pr_unicode P) line (pc_peak_rss c ! node))) (\<lambda>peak.
        updM (\<lambda>c. c\<lparr>pc_peak_rss := (pc_peak_rss c)[node := peak]\<rparr>)))))))"

section \<open>A round\<close>

definition round_command :: "(nat \<times> WriteReq list) list \<Rightarrow> bool \<Rightarrow> (nat \<times> pstr) list \<Rightarrow> (nat \<times> dict) list \<Rightarrow> nat \<Rightarrow> json list \<Rightarrow> json" where
  "round_command writes tick reads controls node incoming =
    JObj (fold (\<lambda>(k, v) d. dset d k v) (case map_of controls node of None \<Rightarrow> [] | Some d \<Rightarrow> d)
      [(lit ''action'', JStr (if map_of reads node \<noteq> None then lit ''read'' else if tick then lit ''tick'' else lit ''drive'')),
       (lit ''packets'', JList incoming),
       (lit ''writes'', JList (map rq_json (case map_of writes node of None \<Rightarrow> [] | Some rs \<Rightarrow> rs))),
       (lit ''sql'', JStr (case map_of reads node of None \<Rightarrow> [] | Some q \<Rightarrow> q))])"

text \<open>One node of the first loop: take up to 128 queued packets and make the call.\<close>

definition round_job :: "'w procops \<Rightarrow> (nat \<Rightarrow> json list \<Rightarrow> json) \<Rightarrow> nat \<Rightarrow> (('x, 'w) pcstate, (nat \<times> json res) list) comp" where
  "round_job P command node = bindM objM (\<lambda>c.
    (case pc_workers c ! node of
       None \<Rightarrow> bindM (updM (\<lambda>c. c\<lparr>pc_queues := (pc_queues c)[node := []]\<rparr>)) (\<lambda>_.
         retM [])
     | Some k \<Rightarrow> (let queue = pc_queues c ! node in
         bindM (updM (\<lambda>c. c\<lparr>pc_queues := (pc_queues c)[node := drop 128 queue]\<rparr>)) (\<lambda>_.
         bindM (outcomeM (rpc P k (command node (take 128 queue)))) (\<lambda>r.
         retM [(node, r)])))))"

text \<open>Routing one packet: drops it across the partition and to a stopped voter.\<close>

definition deliver :: "json \<Rightarrow> (('x, 'w) pcstate, unit) comp" where
  "deliver packet = bindM (liftR (int_field packet ''from'')) (\<lambda>source.
    bindM (liftR (int_field packet ''to'')) (\<lambda>target.
    bindM objM (\<lambda>c.
    if (source - 1, target - 1) \<in> pc_partition c then retM ()
    else bindM (liftR (py_index (pc_workers c) (target - 1))) (\<lambda>k.
      if k = None then retM ()
      else (let i = nat ((target - 1) mod 3) in
        bindM (whenM (4096 \<le> length (pc_queues c ! i)) (RuntimeError ''Controller peer queue exceeded its budget'')) (\<lambda>_.
        updM (\<lambda>c. c\<lparr>pc_queues := (pc_queues c)[i := pc_queues c ! i @ [packet]]\<rparr>)))))))"

definition complete :: "'w procops \<Rightarrow> json \<Rightarrow> (('x, 'w) pcstate, unit) comp" where
  "complete P completion = bindM (liftR (field completion ''client'')) (\<lambda>client.
    bindM (liftR (field completion ''sequence'')) (\<lambda>sequence.
    let key = (client, sequence) in
    bindM objM (\<lambda>c.
    bindM ((case pc_completed c key of
       Some previous \<Rightarrow> whenM (json_truth previous \<and> previous \<noteq> completion) (RuntimeError ''Unstable retry outcome: {previous} / {completion}'')
     | None \<Rightarrow> retM ())) (\<lambda>_.
    bindM (updM (\<lambda>c. c\<lparr>pc_completed := (pc_completed c)(key \<mapsto> completion),
       pc_counts := (pc_counts c)(key \<mapsto> (case pc_counts c key of None \<Rightarrow> 0 | Some n \<Rightarrow> n) + 1)\<rparr>)) (\<lambda>_.
    bindM (askM (pr_clock P)) (\<lambda>now.
    updM (\<lambda>c. c\<lparr>pc_first := (case pc_first c key of None \<Rightarrow> (pc_first c)(key \<mapsto> now) | Some _ \<Rightarrow> pc_first c)\<rparr>)))))))"

text \<open>One node of the second loop: the reply of its call.\<close>

definition round_reply :: "(nat \<Rightarrow> (('x, 'w) pcstate, unit) comp) \<Rightarrow> 'w procops \<Rightarrow> nat \<times> json res \<Rightarrow> (('x, 'w) pcstate, nat \<times> json) comp" where
  "round_reply sample P = (\<lambda>(node, job). bindM (liftR job) (\<lambda>response.
    bindM ((case response of JObj d \<Rightarrow> retM d | _ \<Rightarrow> raiseM AttributeError)) (\<lambda>d.
    bindM (whenM ((case dget d ''sql_error'' of None \<Rightarrow> JStr (lit ''None'') | Some v \<Rightarrow> v) \<noteq> JStr (lit ''None''))
      (RuntimeError ''Worker {node} read failed'')) (\<lambda>_.
    bindM (liftR (bindR (key_res d ''packets'') list_or_empty)) (\<lambda>packets.
    bindM (forM packets deliver) (\<lambda>_.
    bindM (liftR (bindR (key_res d ''completed'') list_or_empty)) (\<lambda>completed.
    bindM (forM completed (complete P)) (\<lambda>_.
    bindM (sample node) (\<lambda>_.
    bindM (sample_peak P node) (\<lambda>_.
    retM (node, response)))))))))))"

text \<open>The methods below call \<open>self.round\<close> and it calls \<open>self.sample_cpu\<close>, which a subclass overrides: they are arguments.\<close>

type_synonym ('x, 'w) rounds = "(nat \<times> WriteReq list) list \<Rightarrow> bool \<Rightarrow> (nat \<times> pstr) list \<Rightarrow> (nat \<times> dict) list
    \<Rightarrow> (('x, 'w) pcstate, (nat \<times> json) list) comp"

definition round_with :: "(nat \<Rightarrow> (('x, 'w) pcstate, unit) comp) \<Rightarrow> 'w procops \<Rightarrow> ('x, 'w) rounds" where
  "round_with sample P writes tick reads controls = bindM (mapM (round_job P (round_command writes tick reads controls)) [0, 1, 2]) (\<lambda>jobs.
    mapM (round_reply sample P) (concat jobs))"

definition proc_round :: "'w procops \<Rightarrow> ('x, 'w) rounds" where
  "proc_round P = round_with (sample_cpu P) P"

section \<open>Waiting, submitting and fenced reads\<close>

definition settled_keys :: "wkey set \<Rightarrow> 'x ProcCluster_scheme \<Rightarrow> bool" where
  "settled_keys keys c \<longleftrightarrow> (\<forall>k \<in> keys. (case pc_awaited c k of None \<Rightarrow> 1 | Some n \<Rightarrow> n) \<le> (case pc_counts c k of None \<Rightarrow> 0 | Some n \<Rightarrow> n))
     \<and> list_all (\<lambda>q. q = []) (pc_queues c)"

definition settle_with :: "('x, 'w) rounds \<Rightarrow> WriteReq list \<Rightarrow> nat \<Rightarrow> (('x, 'w) pcstate, unit) comp" where
  "settle_with rnd requests rounds = bindM (untilM [0..<rounds] (\<lambda>attempt. bindM objM (\<lambda>c.
      if settled_keys (rq_key ` set requests) c then retM (Some ())
      else bindM (rnd [] (attempt mod 8 = 7) [] []) (\<lambda>_.
        retM None)))) (\<lambda>r.
    (case r of Some _ \<Rightarrow> retM () | None \<Rightarrow> raiseM (RuntimeError ''Cluster did not settle; missing {keys - self.completed.keys()}'')))"

definition settle_cluster :: "'w procops \<Rightarrow> WriteReq list \<Rightarrow> nat \<Rightarrow> (('x, 'w) pcstate, unit) comp" where
  "settle_cluster P = settle_with (proc_round P)"

text \<open>\<open>groups.setdefault(node, []).append(request)\<close> on a dictionary in insertion order.\<close>

fun group_append :: "'k \<Rightarrow> 'a \<Rightarrow> ('k \<times> 'a list) list \<Rightarrow> ('k \<times> 'a list) list" where
  "group_append k x [] = [(k, [x])]"
| "group_append k x ((k', xs) # rest) = (if k' = k then (k', xs @ [x]) # rest else (k', xs) # group_append k x rest)"

definition submit_groups :: "WriteReq list \<Rightarrow> nat \<Rightarrow> nat list \<Rightarrow> (nat \<times> WriteReq list) list" where
  "submit_groups requests offset alive =
    fold (\<lambda>(i, r). group_append (alive ! ((i + offset) mod length alive)) r) (List.enumerate 0 requests) []"

definition await :: "WriteReq \<Rightarrow> 'x ProcCluster_scheme \<Rightarrow> 'x ProcCluster_scheme" where
  "await r c = c\<lparr>pc_awaited := (pc_awaited c)(rq_key r \<mapsto> (case pc_counts c (rq_key r) of None \<Rightarrow> 0 | Some n \<Rightarrow> n) + 1)\<rparr>"

text \<open>The reply of a node must accept its whole group.\<close>

definition accept_group :: "(nat \<times> json) list \<Rightarrow> nat \<times> WriteReq list \<Rightarrow> (('x, 'w) pcstate, unit) comp" where
  "accept_group result g = bindM ((case map_of result (fst g) of None \<Rightarrow> raiseM KeyError | Some r \<Rightarrow> retM r)) (\<lambda>reply.
    bindM (liftR (field reply ''accepted'')) (\<lambda>accepted.
    bindM (whenM (accepted \<noteq> JInt (int (length (snd g)))) (RuntimeError ''Unexpected bounded-workload backpressure'')) (\<lambda>_.
    bindM (liftR (field reply ''backpressure'')) (\<lambda>backpressure.
    whenM (json_truth backpressure) (RuntimeError ''Unexpected bounded-workload backpressure'')))))"

definition submit_with :: "('x, 'w) rounds \<Rightarrow> WriteReq list \<Rightarrow> nat \<Rightarrow> nat list \<Rightarrow> (('x, 'w) pcstate, unit) comp" where
  "submit_with rnd requests offset alive = bindM (updM (fold await requests)) (\<lambda>_.
    let groups = submit_groups requests offset alive in
    bindM (rnd groups False [] []) (\<lambda>result.
    forM groups (accept_group result)))"

definition submit_requests :: "'w procops \<Rightarrow> WriteReq list \<Rightarrow> nat \<Rightarrow> nat list \<Rightarrow> (('x, 'w) pcstate, unit) comp" where
  "submit_requests P = submit_with (proc_round P)"

text \<open>A reply of a round, and a field of it.\<close>

definition reply_field :: "(nat \<times> json) list \<Rightarrow> nat \<Rightarrow> string \<Rightarrow> json res" where
  "reply_field replies n k = (case map_of replies n of None \<Rightarrow> Inl KeyError | Some r \<Rightarrow> field r k)"

definition begin_control :: dict where
  "begin_control = [(lit ''action'', JStr (lit ''begin_read''))]"

definition poll_control :: "json \<Rightarrow> pstr \<Rightarrow> dict" where
  "poll_control ticket sql = [(lit ''action'', JStr (lit ''poll_read'')), (lit ''ticket'', ticket), (lit ''sql'', JStr sql)]"

text \<open>One node of the polling loop: the tickets that are left and the rows read so far.\<close>

type_synonym reads_state = "(nat \<times> json) list \<times> (nat \<times> json) list"

definition poll_reply :: "('x, 'w) rounds \<Rightarrow> 'w procops \<Rightarrow> rat \<Rightarrow> (nat \<times> json) list \<Rightarrow> nat \<Rightarrow> reads_state \<Rightarrow> (('x, 'w) pcstate, reads_state) comp" where
  "poll_reply rnd P started replies n = (\<lambda>(tickets, results). bindM (liftR (reply_field replies n ''read_result'')) (\<lambda>read.
    bindM (liftR (field read ''status'')) (\<lambda>status.
    if status = JStr (lit ''Ready'') then bindM (liftR (field read ''sql_error'')) (\<lambda>error.
      bindM (whenM (error \<noteq> JStr (lit ''None'')) (RuntimeError ''Fenced read failed: {read}'')) (\<lambda>_.
      bindM (liftR (field read ''rows'')) (\<lambda>rows.
      bindM (askM (pr_clock P)) (\<lambda>now.
      bindM (updM (\<lambda>c. c\<lparr>pc_latency := pc_latency c @ [1000 * (now - started)]\<rparr>)) (\<lambda>_.
      retM (AList.delete n tickets, AList.update n rows results))))))
    else if status = JStr (lit ''Displaced'') then bindM (rnd [] False [] [(n, begin_control)]) (\<lambda>restart.
      bindM (liftR (reply_field restart n ''ticket'')) (\<lambda>ticket.
      retM (AList.update n ticket tickets, results)))
    else retM (tickets, results))))"

definition fenced_with :: "('x, 'w) rounds \<Rightarrow> 'w procops \<Rightarrow> (nat \<times> pstr) list \<Rightarrow> (('x, 'w) pcstate, (nat \<times> json) list) comp" where
  "fenced_with rnd P queries = bindM (askM (pr_clock P)) (\<lambda>started.
    bindM (rnd [] False [] (map (\<lambda>(n, _). (n, begin_control)) queries)) (\<lambda>replies.
    bindM (mapM (\<lambda>(n, _). liftR (bindR (reply_field replies n ''ticket'') (\<lambda>t. Inr (n, t)))) queries) (\<lambda>tickets.
    localM (tickets, []) (bindM (untilM [0..<300] (\<lambda>attempt. bindM (ifM (attempt mod 4 = (3 :: nat)) (bindM (innerM (rnd [] True [] [])) (\<lambda>_. retM ()))) (\<lambda>_.
        bindM objM (\<lambda>(tickets, results).
        bindM (mapM (\<lambda>(n, t). case map_of queries n of None \<Rightarrow> raiseM KeyError | Some q \<Rightarrow> retM (n, poll_control t q)) tickets) (\<lambda>controls.
        bindM (innerM (rnd [] False [] controls)) (\<lambda>replies.
        bindM (innerM (foldM (map fst tickets) (tickets, results) (poll_reply rnd P started replies))) (\<lambda>st.
        bindM (updM (\<lambda>_. st)) (\<lambda>_.
        retM (if fst st = [] then Some (snd st) else None))))))))) (\<lambda>r.
      (case r of Some results \<Rightarrow> retM results | None \<Rightarrow> raiseM (RuntimeError ''Read barrier did not complete'')))))))"

definition fenced_reads :: "'w procops \<Rightarrow> (nat \<times> pstr) list \<Rightarrow> (('x, 'w) pcstate, (nat \<times> json) list) comp" where
  "fenced_reads P = fenced_with (proc_round P) P"

section \<open>The workload\<close>

text \<open>The acknowledged transfers: identifier and amount, in insertion order.\<close>

type_synonym transfers = "(nat \<times> nat) list"

text \<open>\<open>balances[source] -= value; balances[(source + 1) % 3] += value\<close>.\<close>

definition apply_transfer :: "nat \<times> nat \<Rightarrow> int list \<Rightarrow> int list" where
  "apply_transfer = (\<lambda>(identifier, value) balances.
    let source = identifier mod 3; b = balances[source := balances ! source - int value]
    in b[(source + 1) mod 3 := b ! ((source + 1) mod 3) + int value])"

definition balances_of :: "transfers \<Rightarrow> int list" where
  "balances_of ts = fold apply_transfer ts [1000000, 1000000, 1000000]"

definition invariant_query :: "transfers \<Rightarrow> pstr" where
  "invariant_query ts =
    (let count = length ts; amount = sum_list (map snd ts) in
     lit ''SELECT 1 WHERE (SELECT count(*) FROM transfers)='' @ dec count
     @ lit '' AND (SELECT coalesce(sum(amount),0) FROM transfers)='' @ dec amount
     @ lit '' AND (SELECT count(*) FROM ledger)='' @ dec (count * 2)
     @ lit '' AND (SELECT coalesce(sum(delta),0) FROM ledger)=0''
     @ lit '' AND (SELECT sum(balance) FROM accounts)=3000000''
     @ lit '' AND NOT EXISTS(SELECT 1 FROM accounts WHERE balance<0)''
     @ lit '' AND NOT EXISTS(SELECT tx FROM ledger GROUP BY tx HAVING count(*)!=2)'')"

definition balances_query :: "int list \<Rightarrow> pstr" where
  "balances_query balances = lit ''SELECT id FROM accounts WHERE '' @ join (lit '' OR '')
    (map (\<lambda>(i, b). lit ''(id='' @ dec (i + 1) @ lit '' AND balance='' @ dec_int b @ lit '')'') (List.enumerate 0 balances))"

definition expected_row :: "nat \<times> nat \<Rightarrow> pstr" where
  "expected_row = (\<lambda>(i, amount). lit ''('' @ dec i @ lit '','' @ dec (i mod 3 + 1) @ lit '','' @ dec ((i mod 3 + 1) mod 3 + 1)
    @ lit '','' @ dec amount @ lit '')'')"

definition transfers_query :: "transfers \<Rightarrow> pstr" where
  "transfers_query ts =
    lit ''WITH expected(id,src,dst,amount) AS (VALUES '' @ join (lit '','') (map expected_row ts) @ lit '') ''
    @ lit ''SELECT t.id FROM expected e JOIN transfers t ON t.id=e.id ''
    @ lit ''JOIN ledger l ON l.tx=e.id ''
    @ lit ''WHERE t.src=e.src AND t.dst=e.dst AND t.amount=e.amount ''
    @ lit ''AND t.payload='' @ [39] @ replicate 256 120 @ [39] @ lit '' ''
    @ lit ''AND ((l.account=e.src AND l.delta=-e.amount) ''
    @ lit ''OR (l.account=e.dst AND l.delta=e.amount)) ''
    @ lit ''GROUP BY t.id HAVING count(*)=2 AND count(DISTINCT l.account)=2''"

text \<open>Every reply of a read must report the same number of rows.\<close>

definition expect_rows :: "(nat \<times> json) list \<Rightarrow> nat \<Rightarrow> string \<Rightarrow> (('x, 'w) pcstate, unit) comp" where
  "expect_rows replies n message = forM replies (\<lambda>(_, response). bindM (liftR (field response ''rows'')) (\<lambda>rows.
    whenM (rows \<noteq> JInt (int n)) (RuntimeError message)))"

definition verify :: "'w procops \<Rightarrow> transfers \<Rightarrow> (('x, 'w) pcstate, unit) comp" where
  "verify P ts = bindM (settle_cluster P [] 300) (\<lambda>_.
    bindM objM (\<lambda>c.
    let live = filter (\<lambda>n. pc_workers c ! n \<noteq> None) [0, 1, 2] in
    bindM (proc_round P [] False (map (\<lambda>n. (n, invariant_query ts)) live) []) (\<lambda>result.
    bindM (expect_rows result 1 ''Account/transfer/ledger invariant failed on node {node}'') (\<lambda>_.
    bindM (proc_round P [] False (map (\<lambda>(n, _). (n, balances_query (balances_of ts))) result) []) (\<lambda>result2.
    bindM (expect_rows result2 3 ''Exact per-account balance mismatch'') (\<lambda>_.
    forM (range_step 0 (length ts) 32) (\<lambda>start. (let part = take 32 (drop start ts) in
      bindM (proc_round P [] False (map (\<lambda>(n, _). (n, transfers_query part)) result) []) (\<lambda>result3.
      expect_rows result3 (length part) ''Exact transfer or audit-pair verification failed'')))))))))"

definition transaction_of :: "nat \<Rightarrow> WriteReq \<times> nat" where
  "transaction_of identifier =
    (let source = identifier mod 3 + 1; target = source mod 3 + 1; amount = identifier mod 17 + 1 in
     (\<lparr>rq_client = int identifier + 100, rq_sequence = 1, rq_sql =
        lit ''INSERT INTO transfers VALUES('' @ dec identifier @ lit '','' @ dec source @ lit '','' @ dec target @ lit '','' @ dec amount
        @ lit '','' @ [39] @ replicate 256 120 @ [39] @ lit '');''
        @ lit ''UPDATE accounts SET balance=balance-'' @ dec amount @ lit '' WHERE id='' @ dec source @ lit '';''
        @ lit ''UPDATE accounts SET balance=balance+'' @ dec amount @ lit '' WHERE id='' @ dec target @ lit '';''\<rparr>, amount))"

end
