(* ===== verification/Process_Exercise.thy ===== *)
theory Process_Exercise
  imports Process_Cluster
begin

text \<open>
  \<open>exercise\<close> of \<open>tools/check_process_cluster.py\<close>: the mixed workload and the fault phases that
  the controller drives, phase by phase in the order of the script.
\<close>

section \<open>The mixed workload\<close>

definition setup_request :: WriteReq where
  "setup_request = \<lparr>rq_client = 1, rq_sequence = 1, rq_sql =
     lit ''CREATE TABLE accounts(id INTEGER PRIMARY KEY,balance INTEGER CHECK(balance>=0));''
     @ lit ''INSERT INTO accounts VALUES(1,1000000),(2,1000000),(3,1000000);''
     @ lit ''CREATE TABLE transfers(id INTEGER PRIMARY KEY,src REFERENCES accounts(id),''
     @ lit ''dst REFERENCES accounts(id),amount INTEGER CHECK(amount>0),payload TEXT);''
     @ lit ''CREATE TABLE ledger(tx REFERENCES transfers(id),account REFERENCES accounts(id),delta INTEGER);''
     @ lit ''CREATE INDEX ledger_tx ON ledger(tx);''
     @ lit ''CREATE TRIGGER audit AFTER INSERT ON transfers BEGIN ''
     @ lit ''INSERT INTO ledger VALUES(new.id,new.src,-new.amount);''
     @ lit ''INSERT INTO ledger VALUES(new.id,new.dst,new.amount); END;''\<rparr>"

text \<open>The next transfer of a run: its request, and the transfers with it.\<close>

definition next_transfer :: "transfers \<Rightarrow> WriteReq \<times> transfers" where
  "next_transfer expected =
    (let identifier = length expected + 1; (request, amount) = transaction_of identifier
     in (request, expected @ [(identifier, amount)]))"

fun next_transfers :: "nat \<Rightarrow> transfers \<Rightarrow> WriteReq list \<times> transfers" where
  "next_transfers 0 expected = ([], expected)"
| "next_transfers (Suc n) expected =
    (let (r, e) = next_transfer expected; (rs, e') = next_transfers n e in (r # rs, e'))"

record exercise_state =
  ex_expected :: transfers
  ex_requests :: "WriteReq list"
  ex_latencies :: "rat list"
  ex_reads :: nat
  ex_writes :: nat

type_synonym 'w exstate = "exercise_state \<times> (unit, 'w) pcstate"

text \<open>Up to twelve operations: seven in ten are reads.\<close>

definition draw_wave :: "'w procops \<Rightarrow> nat \<Rightarrow> transfers \<Rightarrow> ((unit, 'w) pcstate, WriteReq list \<times> nat \<times> transfers) comp" where
  "draw_wave P n expected = foldM [0..<n] ([], 0, expected) (\<lambda>_ (requests, read_count, expected). bindM (askM (pr_random P)) (\<lambda>x.
    retM (if x < 7 / 10 then (requests, read_count + 1, expected)
      else (case next_transfer expected of (request, expected') \<Rightarrow> (requests @ [request], read_count, expected')))))"

definition completion_kind :: "ProcCluster \<Rightarrow> WriteReq \<Rightarrow> json res" where
  "completion_kind c r = (case pc_completed c (JInt (rq_client r), JInt 1) of None \<Rightarrow> Inl KeyError | Some v \<Rightarrow> field v ''kind'')"

definition wave_writes :: "'w procops \<Rightarrow> WriteReq list \<Rightarrow> ((unit, 'w) pcstate, rat list) comp" where
  "wave_writes P requests = bindM (askM (pr_clock P)) (\<lambda>before.
    if requests = [] then retM []
    else bindM (submit_requests P requests 0 [0, 1, 2]) (\<lambda>_.
      bindM (settle_cluster P requests 300) (\<lambda>_.
      mapM (\<lambda>r. bindM objM (\<lambda>c.
        bindM (liftR (case pc_first c (JInt (rq_client r), JInt 1) of None \<Rightarrow> Inl KeyError | Some t \<Rightarrow> Inr t)) (\<lambda>first.
        bindM (liftR (completion_kind c r)) (\<lambda>kind.
        bindM (whenM (kind \<noteq> JStr (lit ''Applied'')) (RuntimeError ''Healthy transaction rejected: {completed}'')) (\<lambda>_.
        retM (1000 * (first - before))))))) requests)))"

text \<open>The balance of account 1 that a fenced read must see.\<close>

definition first_balance :: "transfers \<Rightarrow> int" where
  "first_balance expected = 1000000 + sum_list (map (\<lambda>(key, value). int value * (if (key mod 3 + 1) mod 3 = 0 then 1 else -1))
     (filter (\<lambda>(key, _). key mod 3 \<in> {0, 2}) expected))"

datatype read_mode = Fenced | Local

definition wave_reads :: "'w procops \<Rightarrow> read_mode \<Rightarrow> transfers \<Rightarrow> nat \<Rightarrow> ((unit, 'w) pcstate, unit) comp" where
  "wave_reads P mode expected read_count = forM (range_step 0 read_count 3) (\<lambda>offset. (let queries = map (\<lambda>n. (n, lit ''SELECT balance FROM accounts WHERE id=1 AND balance='' @ dec_int (first_balance expected)))
      [0..<min 3 (read_count - offset)] in
    (case mode of
       Fenced \<Rightarrow> bindM (fenced_reads P queries) (\<lambda>results.
         whenM (list_ex (\<lambda>(_, rows). rows \<noteq> JInt 1) results) (RuntimeError ''Fenced read returned an unexpected account set''))
     | Local \<Rightarrow> bindM (proc_round P [] False queries []) (\<lambda>_. retM ()))))"

definition exercise_wave :: "'w procops \<Rightarrow> read_mode \<Rightarrow> nat \<Rightarrow> ('w exstate, unit) comp" where
  "exercise_wave P mode n = bindM objM (\<lambda>x.
    bindM (innerM (draw_wave P n (ex_expected x))) (\<lambda>(requests, read_count, expected).
    bindM (innerM (wave_writes P requests)) (\<lambda>latencies.
    bindM (innerM (wave_reads P mode expected read_count)) (\<lambda>_.
    updM (\<lambda>x. x\<lparr>ex_expected := expected, ex_requests := ex_requests x @ requests, ex_latencies := ex_latencies x @ latencies,
      ex_reads := ex_reads x + read_count, ex_writes := ex_writes x + length requests\<rparr>)))))"

definition exercise_mixed :: "'w procops \<Rightarrow> read_mode \<Rightarrow> nat \<Rightarrow> ('w exstate, unit) comp" where
  "exercise_mixed P mode operations =
    forM (range_step 0 operations 12) (\<lambda>start. exercise_wave P mode (min 12 (operations - start)))"

section \<open>Fault phases\<close>

definition all_accounts :: pstr where
  "all_accounts = lit ''SELECT id FROM accounts''"

text \<open>A transfer or several, added to what is expected.\<close>

definition add_transfers :: "nat \<Rightarrow> ('w exstate, WriteReq list) comp" where
  "add_transfers n = bindM objM (\<lambda>x.
    let (requests, expected) = next_transfers n (ex_expected x) in
    bindM (updM (\<lambda>x. x\<lparr>ex_expected := expected\<rparr>)) (\<lambda>_.
    retM requests))"

definition verify_expected :: "'w procops \<Rightarrow> ('w exstate, unit) comp" where
  "verify_expected P = bindM objM (\<lambda>x. innerM (verify P (ex_expected x)))"

definition restart_all :: "'w procops \<Rightarrow> ((unit, 'w) pcstate, unit) comp" where
  "restart_all P = bindM (forM [0, 1, 2] (pc_stop P)) (\<lambda>_.
    forM [0, 1, 2] (\<lambda>node. pc_start P node False))"

definition ticks :: "'w procops \<Rightarrow> nat \<Rightarrow> ((unit, 'w) pcstate, unit) comp" where
  "ticks P n = forM [0..<n] (\<lambda>_. bindM (proc_round P [] True [] []) (\<lambda>_. retM ()))"

text \<open>Kill every voter after submission and before its packets are delivered, then retry elsewhere.\<close>

definition phase_sigkill :: "'w procops \<Rightarrow> ('w exstate, unit) comp" where
  "phase_sigkill P = bindM (add_transfers 9) (\<lambda>uncertain.
    bindM (innerM (submit_requests P uncertain 0 [0, 1, 2])) (\<lambda>_.
    bindM (innerM (restart_all P)) (\<lambda>_.
    bindM (innerM (updM (\<lambda>c. c\<lparr>pc_queues := [[], [], []]\<rparr>))) (\<lambda>_.
    bindM (innerM (submit_requests P uncertain 1 [0, 1, 2])) (\<lambda>_.
    bindM (innerM (settle_cluster P uncertain 300)) (\<lambda>_.
    verify_expected P))))))"

definition phase_retry :: "'w procops \<Rightarrow> ('w exstate, unit) comp" where
  "phase_retry P = bindM objM (\<lambda>x.
    let retries = take 6 (ex_requests x) in
    bindM (innerM (submit_requests P retries 2 [0, 1, 2])) (\<lambda>_.
    bindM (innerM (settle_cluster P retries 300)) (\<lambda>_.
    verify_expected P)))"

text \<open>A minority may accept a write but must not acknowledge it, nor complete a fenced read.\<close>

definition phase_minority :: "'w procops \<Rightarrow> ('w exstate, WriteReq \<times> json) comp" where
  "phase_minority P = bindM objM (\<lambda>x.
    let (minority, amount) = transaction_of (length (ex_expected x) + 1) in
    bindM (innerM (updM (\<lambda>c. c\<lparr>pc_partition := {(0, 1), (0, 2), (1, 0), (2, 0)}\<rparr>))) (\<lambda>_.
    bindM (innerM (proc_round P [] False [] [(0, begin_control)])) (\<lambda>begun.
    bindM (liftR (reply_field begun 0 ''ticket'')) (\<lambda>barrier.
    bindM (innerM (submit_requests P [minority] 0 [0])) (\<lambda>_.
    bindM (innerM (ticks P 16)) (\<lambda>_.
    bindM (innerM objM) (\<lambda>c.
    bindM (whenM (pc_completed c (JInt (rq_client minority), JInt 1) \<noteq> None) (RuntimeError ''Minority acknowledged a write'')) (\<lambda>_.
    bindM (innerM (proc_round P [] False [] [(0, poll_control barrier all_accounts)])) (\<lambda>result.
    bindM (liftR (reply_field result 0 ''read_result'')) (\<lambda>read.
    bindM (liftR (field read ''status'')) (\<lambda>status.
    bindM (whenM (status \<noteq> JStr (lit ''Pending'')) (RuntimeError ''Minority completed a fenced read without quorum'')) (\<lambda>_.
    bindM (innerM (updM (\<lambda>c. c\<lparr>pc_partition := {}\<rparr>))) (\<lambda>_.
    retM (minority, barrier))))))))))))))"

definition phase_heal :: "'w procops \<Rightarrow> WriteReq \<times> json \<Rightarrow> ('w exstate, unit) comp" where
  "phase_heal P = (\<lambda>(minority, barrier). bindM (innerM (submit_requests P [minority] 0 [1])) (\<lambda>_.
    bindM (innerM (settle_cluster P [minority] 300)) (\<lambda>_.
    bindM (add_transfers 1) (\<lambda>_.
    bindM (verify_expected P) (\<lambda>_.
    bindM (innerM (untilM [0..<300] (\<lambda>attempt. bindM (ifM (attempt mod 4 = (3 :: nat)) (ticks P 1)) (\<lambda>_.
      bindM (proc_round P [] False [] [(0, poll_control barrier all_accounts)]) (\<lambda>response.
      bindM (liftR (reply_field response 0 ''read_result'')) (\<lambda>read.
      bindM (liftR (field read ''status'')) (\<lambda>status.
      retM (if status \<noteq> JStr (lit ''Pending'') then Some () else None)))))))) (\<lambda>r.
    bindM (whenM (r = None) (RuntimeError ''Old read barrier did not resolve after partition healing: {barrier}'')) (\<lambda>_.
    bindM (innerM (fenced_reads P [(0, all_accounts)])) (\<lambda>rows.
    assertM (rows = [(0, JInt 3)]) ''fenced_reads''))))))))"

text \<open>The remaining quorum writes while one voter is down; the voter must not serve a stale read.\<close>

definition phase_offline :: "'w procops \<Rightarrow> ('w exstate, unit) comp" where
  "phase_offline P = bindM (innerM (pc_stop P 0)) (\<lambda>_.
    bindM (add_transfers 12) (\<lambda>more.
    bindM (innerM (submit_requests P more 0 [1, 2])) (\<lambda>_.
    bindM (innerM (settle_cluster P more 300)) (\<lambda>_.
    bindM (innerM (pc_start P 0 False)) (\<lambda>_.
    bindM objM (\<lambda>x.
    bindM (innerM (fenced_reads P [(0, lit ''SELECT 1 WHERE (SELECT count(*) FROM transfers)='' @ dec (length (ex_expected x)))])) (\<lambda>rows.
    bindM (whenM (rows \<noteq> [(0, JInt 1)]) (RuntimeError ''Restarted replica served a stale fenced read'')) (\<lambda>_.
    bindM (innerM (ticks P 40)) (\<lambda>_.
    bindM (innerM (settle_cluster P [] 300)) (\<lambda>_.
    verify_expected P))))))))))"

definition phase_final :: "'w procops \<Rightarrow> ('w exstate, unit) comp" where
  "phase_final P = bindM (innerM (restart_all P)) (\<lambda>_.
    bindM (innerM (ticks P 12)) (\<lambda>_.
    verify_expected P))"

section \<open>The report\<close>

text \<open>\<open>values[min(len(values) - 1, int(len(values) * p / 100))]\<close> of sorted values.\<close>

definition percentile :: "nat \<Rightarrow> rat list \<Rightarrow> rat" where
  "percentile p xs = sort xs ! min (length xs - 1) (length xs * p div 100)"

definition percentiles :: "rat list \<Rightarrow> (nat \<times> rat) list" where
  "percentiles xs = (if xs = [] then [] else map (\<lambda>p. (p, percentile p xs)) [50, 95, 99])"

record exercise_report =
  er_operations :: nat
  er_reads :: nat
  er_writes :: nat
  er_seconds :: rat
  er_rate :: rat
  er_cpu :: "rat option"
  er_read_latency :: "(nat \<times> rat) list"
  er_write_latency :: "(nat \<times> rat) list"
  er_transfers :: nat
  er_peak_rss :: "int option list"
  er_checks :: "string list"

definition exercise_checks :: "string list" where
  "exercise_checks = [''mixed_transactions_indexes_triggers_foreign_keys_all_voters'',
    ''fresh_ordered_read_barrier_on_every_voter'', ''all_processes_sigkill_uncertain_retry_other_master'',
    ''acknowledged_retry_other_master_after_restart'', ''minority_cannot_complete_fenced_read'', ''minority_no_ack_heal_retry'',
    ''restarted_stale_voter_fenced_read_observes_acknowledged_writes'', ''surviving_quorum_writes_offline_voter_catchup'',
    ''all_acknowledged_transactions_survive_final_sigkill'']"

definition cpu_total :: "ProcCluster \<Rightarrow> rat" where
  "cpu_total c = sum_list (map snd (pc_cpu c))"

definition exercise :: "'w procops \<Rightarrow> nat \<Rightarrow> read_mode \<Rightarrow> ((unit, 'w) pcstate, exercise_report) comp" where
  "exercise P operations mode = bindM (submit_requests P [setup_request] 0 [0, 1, 2]) (\<lambda>_.
    bindM (settle_cluster P [setup_request] 300) (\<lambda>_.
    bindM objM (\<lambda>c0.
    bindM (askM (pr_clock P)) (\<lambda>started.
    localM \<lparr>ex_expected = [], ex_requests = [], ex_latencies = [], ex_reads = 0, ex_writes = 0\<rparr> (bindM (exercise_mixed P mode operations) (\<lambda>_.
      bindM (innerM (askM (pr_clock P))) (\<lambda>ended.
      bindM (innerM objM) (\<lambda>c1.
      bindM (verify_expected P) (\<lambda>_.
      bindM (innerM (fenced_reads P [(0, all_accounts), (1, all_accounts), (2, all_accounts)])) (\<lambda>rows.
      bindM (assertM (length rows = 3 \<and> (\<forall>n \<in> {0, 1, 2}. map_of rows n = Some (JInt 3))) ''fenced_reads'') (\<lambda>_.
      bindM (phase_sigkill P) (\<lambda>_.
      bindM (phase_retry P) (\<lambda>_.
      bindM (phase_minority P) (\<lambda>healed.
      bindM (phase_heal P healed) (\<lambda>_.
      bindM (phase_offline P) (\<lambda>_.
      bindM (phase_final P) (\<lambda>_.
      bindM objM (\<lambda>x.
      bindM (innerM objM) (\<lambda>c2.
      bindM (whenM (ended = started) ZeroDivisionError) (\<lambda>_.
      retM \<lparr>er_operations = operations, er_reads = ex_reads x, er_writes = ex_writes x, er_seconds = ended - started,
        er_rate = of_nat operations / (ended - started),
        er_cpu = (if pc_cpu c2 \<noteq> [] then Some (cpu_total c1 - cpu_total c0) else None),
        er_read_latency = percentiles (drop (length (pc_latency c0)) (pc_latency c1)),
        er_write_latency = percentiles (ex_latencies x), er_transfers = length (ex_expected x),
        er_peak_rss = pc_peak_rss c2, er_checks = exercise_checks\<rparr>))))))))))))))))))))"

end
