(* ===== verification/Process_Facts.thy ===== *)
theory Process_Facts
  imports Process_Exercise
begin

text \<open>
  What the controller guarantees whatever the voters answer: the routing tables stay within their
  bounds, a recorded outcome is never replaced by another one, and the run ends.
\<close>

section \<open>The invariant of the controller\<close>

definition pc_inv :: "'x ProcCluster_scheme \<Rightarrow> bool" where
  "pc_inv c \<longleftrightarrow> length (pc_workers c) = 3 \<and> length (pc_queues c) = 3 \<and> length (pc_peak_rss c) = 3
     \<and> (\<forall>q \<in> set (pc_queues c). length q \<le> 4096)"

text \<open>What only grows: outcomes, their counts and the times of the first ones.\<close>

definition outcomes_kept :: "'x ProcCluster_scheme \<Rightarrow> 'x ProcCluster_scheme \<Rightarrow> bool" where
  "outcomes_kept c c' \<longleftrightarrow>
    (\<forall>k v. pc_completed c k = Some v \<and> json_truth v \<longrightarrow> pc_completed c' k = Some v) \<and>
    (\<forall>k n. pc_counts c k = Some n \<longrightarrow> (\<exists>m. pc_counts c' k = Some m \<and> n \<le> m)) \<and>
    (\<forall>k t. pc_first c k = Some t \<longrightarrow> pc_first c' k = Some t)"

definition controlled :: "'x ProcCluster_scheme \<Rightarrow> 'x ProcCluster_scheme \<Rightarrow> bool" where
  "controlled c c' \<longleftrightarrow> (pc_inv c \<longrightarrow> pc_inv c' \<and> outcomes_kept c c')"

lemma outcomes_kept_trans: "outcomes_kept a b \<Longrightarrow> outcomes_kept b c \<Longrightarrow> outcomes_kept a c"
  unfolding outcomes_kept_def by (meson order_trans)

interpretation ctl: step_relation controlled
  by unfold_locales (auto simp: controlled_def outcomes_kept_def dest: outcomes_kept_trans, (metis order_trans)+)

lemma controlled_same:
  "pc_completed c' = pc_completed c \<Longrightarrow> pc_counts c' = pc_counts c \<Longrightarrow> pc_first c' = pc_first c
    \<Longrightarrow> (pc_inv c \<Longrightarrow> pc_inv c') \<Longrightarrow> controlled c c'"
  by (auto simp: controlled_def outcomes_kept_def)

lemma pc_inv_updates:
  "pc_inv c \<Longrightarrow> pc_inv (c\<lparr>pc_workers := (pc_workers c)[n := k]\<rparr>)"
  "pc_inv c \<Longrightarrow> length q \<le> 4096 \<Longrightarrow> pc_inv (c\<lparr>pc_queues := (pc_queues c)[n := q]\<rparr>)"
  "pc_inv c \<Longrightarrow> pc_inv (c\<lparr>pc_peak_rss := (pc_peak_rss c)[n := p]\<rparr>)"
  by (auto simp: pc_inv_def dest!: subsetD [OF set_update_subset_insert])

section \<open>Operations of the cluster\<close>

lemma keeps_rpc [relation_rules]: "keepsR controlled fst (rpc P k command)"
  unfolding rpc_def write_all_def write_step_rpc_def read_exact_def read_step_rpc_def Let_def case_prod_unfold
  by (intro relation_rules)

lemma keeps_worker_of [relation_rules]: "keepsR controlled fst (worker_of node)"
  unfolding worker_of_def by (intro relation_rules)

lemma keeps_worker_stop [relation_rules]: "keepsR controlled fst (worker_stop P k b)"
  unfolding worker_stop_def by (intro relation_rules)

lemma keeps_start [relation_rules]: "keepsR controlled fst (pc_start P node create)"
  unfolding pc_start_def worker_new_def
  by (intro relation_rules ctl.step_upd controlled_same) (auto simp: pc_inv_def)

lemma keeps_stop [relation_rules]: "keepsR controlled fst (pc_stop P node)"
  unfolding pc_stop_def
  by (intro relation_rules ctl.step_upd controlled_same) (auto simp: pc_inv_def dest!: subsetD [OF set_update_subset_insert])

lemma keeps_sample_cpu [relation_rules]: "keepsR controlled fst (sample_cpu P node)"
  unfolding sample_cpu_def by (intro relation_rules ctl.step_upd controlled_same) (auto simp: pc_inv_def)

lemma keeps_sample_peak [relation_rules]: "keepsR controlled fst (sample_peak P node)"
  unfolding sample_peak_def by (intro relation_rules ctl.step_upd controlled_same) (auto simp: pc_inv_def)

lemma keeps_deliver [relation_rules]: "keepsR controlled fst (deliver packet)"
proof -
  have ok: "controlled c (c\<lparr>pc_queues := (pc_queues c)[i := pc_queues c ! i @ [packet]]\<rparr>)"
    if "\<not> 4096 \<le> length (pc_queues c ! i)" for c i
    by (rule controlled_same) (use that pc_inv_updates(2) [of c "pc_queues c ! i @ [packet]" i] in auto)
  show ?thesis
    unfolding keepsR_def deliver_def Let_def
    using ok by (auto simp: ctl.step_refl split: sum.splits)
qed

lemma keeps_complete [relation_rules]: "keepsR controlled fst (complete P completion)"
  unfolding keepsR_def complete_def Let_def
  by (auto simp: controlled_def outcomes_kept_def pc_inv_def split: sum.splits option.split)

lemma keeps_round_job [relation_rules]: "keepsR controlled fst (round_job P command node :: (('x, 'w) pcstate, _) comp)"
proof -
  have q: "controlled c (c\<lparr>pc_queues := (pc_queues c)[node := drop n (pc_queues c ! node)]\<rparr>)" for c :: "'x ProcCluster_scheme" and n
  proof (rule controlled_same)
    assume inv: "pc_inv c"
    have "length (drop n (pc_queues c ! node)) \<le> 4096 \<or> length (pc_queues c) \<le> node"
      using inv by (cases "node < length (pc_queues c)") (auto simp: pc_inv_def not_less intro: le_trans [OF diff_le_self] dest: nth_mem)
    then show "pc_inv (c\<lparr>pc_queues := (pc_queues c)[node := drop n (pc_queues c ! node)]\<rparr>)"
      using pc_inv_updates(2) [OF inv, of "drop n (pc_queues c ! node)" node] inv by (auto simp: list_update_beyond)
  qed simp_all
  have e: "controlled c (c\<lparr>pc_queues := (pc_queues c)[node := []]\<rparr>)" for c :: "'x ProcCluster_scheme"
    by (rule controlled_same) (auto intro: pc_inv_updates)
  have call: "wlp (rpc P k cmd) (\<lambda>_ t. controlled c0 (fst t)) (\<lambda>_ t. controlled c0 (fst t)) (c, w)" if "controlled c0 c" for k cmd w and c0 c :: "'x ProcCluster_scheme"
    using keeps_rpc [of P k cmd, unfolded keepsR_def, rule_format, of "(c, w)"]
    by (auto elim!: wlp_mono intro: ctl.step_trans [OF that])
  show ?thesis
    unfolding keepsR_def round_job_def Let_def
    using q e call by (auto simp: ctl.step_refl wlp_fun split: option.splits)
qed

lemma keeps_round [relation_rules]: "keepsR controlled fst (proc_round P writes tick reads controls)"
  unfolding proc_round_def round_with_def round_reply_def case_prod_unfold
  by (intro relation_rules) (auto split: json.splits intro!: relation_rules)

lemma keeps_settle [relation_rules]: "keepsR controlled fst (settle_cluster P requests rounds)"
  unfolding settle_cluster_def settle_with_def by (intro relation_rules)

lemma fold_await: "\<exists>a. fold await requests c = c\<lparr>pc_awaited := a\<rparr>"
proof (induction requests arbitrary: c)
  case Nil
  show ?case by (rule exI [of _ "pc_awaited c"]) simp
next
  case (Cons r rs)
  obtain b where b: "await r c = c\<lparr>pc_awaited := b\<rparr>" by (simp add: await_def)
  obtain a where "fold await rs (await r c) = (await r c)\<lparr>pc_awaited := a\<rparr>" using Cons by blast
  then show ?case by (auto simp: b)
qed

lemma keeps_submit [relation_rules]: "keepsR controlled fst (submit_requests P requests offset alive)"
proof -
  have "controlled c (fold await requests c)" for c
    using fold_await [of requests c] by (auto intro!: controlled_same simp: pc_inv_def)
  then show ?thesis
    unfolding submit_requests_def submit_with_def accept_group_def case_prod_unfold Let_def by (intro relation_rules ctl.step_upd)
qed

lemma keeps_fenced [relation_rules]: "keepsR controlled fst (fenced_reads P queries)"
proof -
  have "keepsR controlled fst (updM (\<lambda>c. c\<lparr>pc_latency := pc_latency c @ x\<rparr>))" for x
    by (rule ctl.step_upd) (auto intro!: controlled_same simp: pc_inv_def)
  then have "keepsR controlled fst (poll_reply (proc_round P) P started replies n st)" for started replies n st
    unfolding poll_reply_def case_prod_unfold by (intro relation_rules)
  then show ?thesis
    unfolding fenced_reads_def fenced_with_def case_prod_unfold by (intro relation_rules)
qed

lemma keeps_verify [relation_rules]: "keepsR controlled fst (verify P ts)"
  unfolding verify_def expect_rows_def case_prod_unfold Let_def by (intro relation_rules)

section \<open>The whole exercise\<close>

abbreviation of_exercise :: "'x \<times> ProcCluster \<times> 'w \<Rightarrow> ProcCluster" where
  "of_exercise s \<equiv> fst (snd s)"

lemma keeps_phase_parts [relation_rules]:
  "keepsR controlled of_exercise (add_transfers n)"
  "keepsR controlled of_exercise (verify_expected P)"
  "keepsR controlled fst (restart_all P)"
  "keepsR controlled fst (ticks P n)"
  unfolding add_transfers_def verify_expected_def restart_all_def ticks_def Let_def case_prod_unfold
  by (intro relation_rules)+

lemma keeps_reset: "keepsR controlled of_exercise (innerM (updM (\<lambda>c. c\<lparr>pc_queues := [[], [], []]\<rparr>)))"
  "keepsR controlled of_exercise (innerM (updM (\<lambda>c. c\<lparr>pc_partition := p\<rparr>)))"
  by (intro relation_rules ctl.step_upd controlled_same; simp add: pc_inv_def)+

lemma keeps_phases [relation_rules]:
  "keepsR controlled of_exercise (phase_sigkill P)"
  "keepsR controlled of_exercise (phase_retry P)"
  "keepsR controlled of_exercise (phase_minority P)"
  "keepsR controlled of_exercise (phase_heal P m)"
  "keepsR controlled of_exercise (phase_offline P)"
  "keepsR controlled of_exercise (phase_final P)"
  unfolding phase_sigkill_def phase_retry_def phase_minority_def phase_heal_def phase_offline_def phase_final_def
    Let_def case_prod_unfold
  by (intro relation_rules keeps_reset)+

lemma keeps_mixed [relation_rules]: "keepsR controlled of_exercise (exercise_mixed P mode n)"
proof -
  have "keepsR controlled fst (wave_reads P mode expected k)" for expected k
    unfolding wave_reads_def Let_def case_prod_unfold
    by (cases mode) (simp_all, (intro relation_rules)+)
  then show ?thesis
    unfolding exercise_mixed_def exercise_wave_def draw_wave_def wave_writes_def case_prod_unfold
    by (intro relation_rules)
qed

lemma keeps_exercise: "keepsR controlled fst (exercise P operations mode)"
  unfolding exercise_def by (intro relation_rules)

section \<open>Termination\<close>

text \<open>\<open>os.write\<close> on a pipe that is ready for writing writes at least one byte, or raises.\<close>

definition writes_progress :: "'w procops \<Rightarrow> bool" where
  "writes_progress P \<longleftrightarrow> (\<forall>pid b w n w'. b \<noteq> [] \<and> pr_write P pid b w = (Inr n, w') \<longrightarrow> 0 < n)"

lemma total_cases [total_rules]:
  "total m \<Longrightarrow> (\<And>y. total (f y)) \<Longrightarrow> total (case v of None \<Rightarrow> m | Some y \<Rightarrow> f y)"
  "(\<And>d. total (g d)) \<Longrightarrow> total h \<Longrightarrow> total (case j of JObj d \<Rightarrow> g d | _ \<Rightarrow> h)"
  by (auto split: option.splits json.splits)

lemma total_write_all:
  assumes "writes_progress P"
  shows "total (write_all P k bytes deadline)"
proof -
  have body: "total (write_step_rpc P k deadline)"
    unfolding write_step_rpc_def by (intro total_rules)
  have cond: "total (bindM objM (\<lambda>data. retM (data \<noteq> [])))" by (intro total_rules)
  have "returns (whileM (bindM objM (\<lambda>data. retM (data \<noteq> []))) (write_step_rpc P k deadline)) s" for s :: "pbytes \<times> 'b \<times> 'a"
  proof (rule returns_whileM [where I = "\<lambda>_. True" and f = "\<lambda>s. length (fst s)"])
    fix t u v :: "pbytes \<times> 'b \<times> 'a"
    assume c: "bindM objM (\<lambda>data. retM (data \<noteq> [])) t = Some (Inr True, u)" and b: "write_step_rpc P k deadline u = Some (Inr None, v)"
    have u: "u = t" "fst t \<noteq> []" using c by (auto simp: bindM_def objM_def split: prod.splits)
    obtain d x w where t: "t = (d, (x, w))" by (cases t)
    have "wlp (write_step_rpc P k deadline) (\<lambda>_ v. length (fst v) < length d) (\<lambda>_ _. True) (d, (x, w))"
      using assms u(2) t unfolding write_step_rpc_def writes_progress_def
      by (auto split: prod.splits sum.splits)
    then show "True \<and> length (fst v) < length (fst t)" using b u t by (auto dest: wlp_Inr)
  qed (use body cond in auto)
  then show ?thesis unfolding write_all_def by (intro total_rules) (simp add: total_def)
qed

lemma total_read_exact:
  fixes P :: "'a procops"
  shows "total (read_exact P k count deadline :: ('b \<times> 'a, pbytes) comp)"
proof -
  let ?cond = "bindM objM (\<lambda>(count, _). retM (count \<noteq> 0)) :: ((nat \<times> pbytes) \<times> 'b \<times> 'a, bool) comp"
  have body: "total (read_step_rpc P k deadline :: ((nat \<times> pbytes) \<times> 'b \<times> 'a, unit option) comp)"
    unfolding read_step_rpc_def case_prod_unfold by (intro total_rules)
  have cond: "total ?cond" unfolding case_prod_unfold by (intro total_rules)
  have "returns (whileM ?cond (read_step_rpc P k deadline)) s" for s
  proof (rule returns_whileM [where I = "\<lambda>_. True" and f = "\<lambda>s. fst (fst s)"])
    fix t u v :: "(nat \<times> pbytes) \<times> 'b \<times> 'a"
    assume c: "?cond t = Some (Inr True, u)" and b: "read_step_rpc P k deadline u = Some (Inr None, v)"
    have u: "u = t" "fst (fst t) \<noteq> 0" using c by (auto simp: bindM_def objM_def split: prod.splits)
    obtain n d x w where t: "t = ((n, d), (x, w))" by (metis surj_pair)
    have "wlp (read_step_rpc P k deadline) (\<lambda>_ v. fst (fst v) < n) (\<lambda>_ _. True) ((n, d), (x, w))"
      using u(2) t unfolding read_step_rpc_def
      by (auto split: prod.splits sum.splits)
    then show "True \<and> fst (fst v) < fst (fst t)" using b u t by (auto dest: wlp_Inr)
  qed (use body cond in auto)
  then show ?thesis unfolding read_exact_def case_prod_unfold
    by (intro total_rules) (simp add: total_def case_prod_unfold)
qed

lemma total_world2 [total_rules]: "total (worldM f)"
  by (auto simp: total_def returns_def worldM_def split: prod.splits)

lemma total_rpc:
  assumes "writes_progress P"
  shows "total (rpc P k command)"
  unfolding rpc_def Let_def by (intro total_rules total_write_all [OF assms] total_read_exact)

lemma total_round:
  assumes "writes_progress P"
  shows "total (proc_round P writes tick reads controls)"
  unfolding proc_round_def round_with_def round_job_def round_reply_def deliver_def complete_def sample_cpu_def sample_peak_def worker_of_def
    Let_def case_prod_unfold
  by (intro total_rules total_rpc [OF assms])

lemma total_controller:
  assumes "writes_progress P"
  shows "total (settle_cluster P requests rounds)" and "total (submit_requests P requests offset alive)"
    and "total (fenced_reads P queries)" and "total (verify P ts)" and "total (pc_start P node create)" and "total (pc_stop P node)"
proof -
  note r = total_round [OF assms]
  show settle: "total (settle_cluster P requests rounds)" for requests rounds
    unfolding settle_cluster_def settle_with_def by (intro total_rules r)
  show "total (submit_requests P requests offset alive)"
    unfolding submit_requests_def submit_with_def accept_group_def Let_def case_prod_unfold by (intro total_rules r)
  have "total (poll_reply (proc_round P) P started replies n st)" for started replies n st
    unfolding poll_reply_def case_prod_unfold by (intro total_rules r)
  then show "total (fenced_reads P queries)"
    unfolding fenced_reads_def fenced_with_def case_prod_unfold by (intro total_rules r)
  show "total (verify P ts)"
    unfolding verify_def expect_rows_def Let_def case_prod_unfold by (intro total_rules r settle)
  show "total (pc_start P node create)"
    unfolding pc_start_def worker_new_def by (intro total_rules)
  show "total (pc_stop P node)"
    unfolding pc_stop_def worker_of_def worker_stop_def by (intro total_rules)
qed

lemma total_exercise:
  assumes "writes_progress P"
  shows "total (exercise P operations mode)"
proof -
  note t = total_controller [OF assms] total_round [OF assms]
  have reads: "total (wave_reads P mode e k)" for e k
    unfolding wave_reads_def Let_def case_prod_unfold
    by (cases mode) (simp_all, (intro total_rules t)+)
  show ?thesis
    unfolding exercise_def exercise_mixed_def exercise_wave_def draw_wave_def wave_writes_def verify_expected_def add_transfers_def
      phase_sigkill_def phase_retry_def phase_minority_def phase_heal_def phase_offline_def phase_final_def restart_all_def ticks_def
      Let_def case_prod_unfold
    by (intro total_rules t reads)
qed

section \<open>Settling and balances\<close>

lemma settle_cluster_wlp:
  "wlp (settle_cluster P requests rounds) (\<lambda>_ s. settled_keys (rq_key ` set requests) (fst s)) (\<lambda>_ _. True) (c, w)"
proof -
  have r: "wlp (proc_round P [] b [] []) (\<lambda>_ _. True) (\<lambda>_ _. True) s" for b s
    by (auto simp: wlp_def split: option.splits sum.splits)
  show ?thesis
    unfolding settle_cluster_def settle_with_def wlp_simps
    by (rule wlp_untilM [where I = "\<lambda>_ _. True"]) (auto simp: r wlp_fun intro!: wlp_mono [OF r])
qed

lemma sum_three: "length b = 3 \<Longrightarrow> sum_list b = b ! 0 + b ! 1 + (b ! 2 :: int)"
  by (cases b; cases "List.tl b"; cases "List.tl (List.tl b)") (auto simp: numeral_2_eq_2)

lemma apply_transfer_sum:
  assumes "length b = 3"
  shows "length (apply_transfer t b) = 3 \<and> sum_list (apply_transfer t b) = sum_list b
    \<and> apply_transfer t b ! 0 = b ! 0 + (if fst t mod 3 = 0 then - int (snd t) else if fst t mod 3 = 2 then int (snd t) else 0)"
proof -
  obtain x y z where b: "b = [x, y, z]" using assms by (auto simp: length_Suc_conv numeral_3_eq_3)
  have "fst t mod 3 = 0 \<or> fst t mod 3 = 1 \<or> fst t mod 3 = 2" by linarith
  then show ?thesis by (auto simp: apply_transfer_def case_prod_unfold Let_def b numeral_2_eq_2)
qed

lemma balances_fold:
  "length b = 3 \<Longrightarrow> length (fold apply_transfer ts b) = 3 \<and> sum_list (fold apply_transfer ts b) = sum_list b
    \<and> fold apply_transfer ts b ! 0 = b ! 0 + first_balance ts - 1000000"
proof (induction ts arbitrary: b)
  case (Cons t ts)
  obtain i v where t: "t = (i, v)" by (cases t)
  have m: "(if i mod 3 = 0 then - int v else if i mod 3 = 2 then int v else 0) =
      (if i mod 3 \<in> {0, 2} then int v * (if (i mod 3 + 1) mod 3 = 0 then 1 else -1) else 0)"
    by auto
  show ?case using Cons.IH [of "apply_transfer t b"] apply_transfer_sum [OF Cons.prems, of t] m
    by (simp add: t first_balance_def)
qed (simp add: first_balance_def)

section \<open>What is awaited\<close>

text \<open>A round leaves the awaited counts alone, and counts only what it records as completed.\<close>

definition awaiting :: "'x ProcCluster_scheme \<Rightarrow> 'x ProcCluster_scheme \<Rightarrow> bool" where
  "awaiting c c' \<longleftrightarrow> pc_awaited c' = pc_awaited c \<and> (dom (pc_counts c) \<subseteq> dom (pc_completed c) \<longrightarrow> dom (pc_counts c') \<subseteq> dom (pc_completed c'))"

interpretation aw: step_relation awaiting
  by unfold_locales (auto simp: awaiting_def)

lemma keeps_awaiting_parts [relation_rules]:
  "keepsR awaiting fst (rpc P k command)" "keepsR awaiting fst (worker_of node)"
  "keepsR awaiting fst (sample_cpu P node)" "keepsR awaiting fst (sample_peak P node)"
  unfolding rpc_def write_all_def write_step_rpc_def read_exact_def read_step_rpc_def worker_of_def sample_cpu_def sample_peak_def
    Let_def case_prod_unfold
  by ((intro relation_rules aw.step_upd)?; simp add: awaiting_def)+

lemma keeps_awaiting_deliver [relation_rules]: "keepsR awaiting fst (deliver packet)"
  unfolding deliver_def Let_def by (intro relation_rules aw.step_upd) (auto simp: awaiting_def)

lemma keeps_awaiting_complete [relation_rules]: "keepsR awaiting fst (complete P completion)"
  unfolding keepsR_def complete_def Let_def
  by (auto simp: awaiting_def split: sum.splits option.split)

lemma keeps_awaiting_job [relation_rules]: "keepsR awaiting fst (round_job P command node)"
  unfolding round_job_def Let_def by (intro relation_rules aw.step_upd) (auto simp: awaiting_def)

lemma keeps_awaiting_round [relation_rules]: "keepsR awaiting fst (proc_round P writes tick reads controls)"
  unfolding proc_round_def round_with_def round_reply_def case_prod_unfold
  by (intro relation_rules) (auto split: json.splits intro!: relation_rules)

lemma keeps_awaiting_settle: "keepsR awaiting fst (settle_cluster P requests rounds)"
  unfolding settle_cluster_def settle_with_def by (intro relation_rules)

lemma fold_await_awaited:
  "pc_counts (fold await rs c) = pc_counts c \<and> pc_completed (fold await rs c) = pc_completed c
   \<and> pc_awaited (fold await rs c) k = (if k \<in> rq_key ` set rs then Some ((case pc_counts c k of None \<Rightarrow> 0 | Some n \<Rightarrow> n) + 1) else pc_awaited c k)"
  by (induction rs arbitrary: c) (auto simp: await_def)

definition submitted_once :: "'x ProcCluster_scheme \<Rightarrow> WriteReq list \<Rightarrow> 'x ProcCluster_scheme \<Rightarrow> bool" where
  "submitted_once c rs d \<longleftrightarrow> dom (pc_counts d) \<subseteq> dom (pc_completed d)
     \<and> (\<forall>r \<in> set rs. pc_awaited d (rq_key r) = Some ((case pc_counts c (rq_key r) of None \<Rightarrow> 0 | Some n \<Rightarrow> n) + 1))"

lemma submit_awaits:
  assumes "dom (pc_counts c) \<subseteq> dom (pc_completed c)"
  shows "wlp (submit_requests P rs offset alive) (\<lambda>_ s. submitted_once c rs (fst s)) (\<lambda>_ _. True) (c, w)"
proof -
  have rest: "keepsR awaiting fst (bindM (proc_round P gs False [] []) (\<lambda>result. forM gs (accept_group result)))" for gs
    unfolding accept_group_def by (intro relation_rules)
  have "wlp (submit_requests P rs offset alive) Q E (c, w) = wlp (bindM (proc_round P (submit_groups rs offset alive) False [] [])
      (\<lambda>result. forM (submit_groups rs offset alive) (accept_group result))) Q E (fold await rs c, w)" for Q E
    by (simp add: submit_requests_def submit_with_def Let_def)
  then show ?thesis
    by (simp only:) (rule wlp_mono [OF aw.step_wlp [OF rest]];
      use assms in \<open>simp add: awaiting_def fold_await_awaited submitted_once_def\<close>)
qed

lemma settle_acknowledges:
  assumes "submitted_once c rs d"
  shows "wlp (settle_cluster P rs rounds) (\<lambda>_ s. settled_keys (rq_key ` set rs) (fst s) \<and> submitted_once c rs (fst s)) (\<lambda>_ _. True) (d, w)"
  by (rule wlp_mono [OF wlp_conj [OF settle_cluster_wlp aw.step_wlp [OF keeps_awaiting_settle]]])
    (use assms in \<open>auto simp: submitted_once_def awaiting_def\<close>)

lemma settled_submitted:
  assumes "settled_keys (rq_key ` set rs) d" and "submitted_once c rs d" and "r \<in> set rs"
  shows "\<exists>n completion. pc_counts d (rq_key r) = Some n \<and> (case pc_counts c (rq_key r) of None \<Rightarrow> 0 | Some m \<Rightarrow> m) < n
    \<and> pc_completed d (rq_key r) = Some completion"
proof -
  have "(case pc_counts c (rq_key r) of None \<Rightarrow> 0 | Some m \<Rightarrow> m) < (case pc_counts d (rq_key r) of None \<Rightarrow> 0 | Some n \<Rightarrow> n)"
    using assms by (simp add: settled_keys_def submitted_once_def Suc_le_eq)
  moreover from this obtain n where "pc_counts d (rq_key r) = Some n" by (cases "pc_counts d (rq_key r)") auto
  moreover have "dom (pc_counts d) \<subseteq> dom (pc_completed d)" using assms(2) by (simp add: submitted_once_def)
  ultimately show ?thesis by auto
qed

end
