(* ===== verification/Sqlite_Reference.thy ===== *)
theory Sqlite_Reference
  imports Tool_Prelude
begin

text \<open>
  The SQLite reference of the benchmarks: the ctypes wrapper \<open>SQLite\<close> of
  \<open>tools/calibrate_native_mixed.py\<close> and the FIFO group committer of
  \<open>tools/sqlite_group_reference.py\<close>. The C library is the parameter \<open>sqliteops\<close>; a result code
  is zero on success.
\<close>

section \<open>The wrapper\<close>

record 'w sqliteops =
  sq_open :: "pstr \<Rightarrow> 'w \<Rightarrow> (int \<times> nat) \<times> 'w"
  sq_busy_timeout :: "nat \<Rightarrow> int \<Rightarrow> 'w \<Rightarrow> int \<times> 'w"
  sq_exec :: "nat \<Rightarrow> pstr \<Rightarrow> 'w \<Rightarrow> int \<times> 'w"
  sq_prepare :: "nat \<Rightarrow> pstr \<Rightarrow> 'w \<Rightarrow> (int \<times> nat) \<times> 'w"
  sq_step :: "nat \<Rightarrow> 'w \<Rightarrow> int \<times> 'w"
  sq_column_int64 :: "nat \<Rightarrow> nat \<Rightarrow> 'w \<Rightarrow> int \<times> 'w"
  sq_finalize :: "nat \<Rightarrow> 'w \<Rightarrow> int \<times> 'w"
  sq_close :: "nat \<Rightarrow> 'w \<Rightarrow> int \<times> 'w"

text \<open>\<open>self.run(text)\<close> with \<open>write\<close> false; the methods work on the handle.\<close>

definition sql_exec :: "'w sqliteops \<Rightarrow> nat \<Rightarrow> pstr \<Rightarrow> ('o \<times> 'w, unit) comp" where
  "sql_exec S db sql = bindM (askM (sq_exec S db sql)) (\<lambda>rc.
    whenM (rc \<noteq> 0) (RuntimeError ''SQLite {rc}: {sqlite3_errmsg}''))"

definition sql_run :: "'w sqliteops \<Rightarrow> nat \<Rightarrow> pstr \<Rightarrow> bool \<Rightarrow> ('o \<times> 'w, unit) comp" where
  "sql_run S db sql write = bindM (ifM write (sql_exec S db (lit ''BEGIN IMMEDIATE''))) (\<lambda>_.
    tryM (bindM (sql_exec S db sql) (\<lambda>_.
        ifM write (sql_exec S db (lit ''COMMIT''))))
      (\<lambda>e. bindM (ifM write (sql_exec S db (lit ''ROLLBACK''))) (\<lambda>_.
        raiseM e)))"

definition sql_open :: "'w sqliteops \<Rightarrow> pstr \<Rightarrow> ('o \<times> 'w, nat) comp" where
  "sql_open S path = bindM (askM (sq_open S path)) (\<lambda>(rc, db).
    bindM (assertM (rc = 0) ''sqlite3_open'') (\<lambda>_.
    bindM (askM (sq_busy_timeout S db 30000)) (\<lambda>busy.
    bindM (assertM (busy = 0) ''sqlite3_busy_timeout'') (\<lambda>_.
    bindM (sql_run S db (lit ''PRAGMA journal_mode=WAL;PRAGMA synchronous=FULL;PRAGMA foreign_keys=ON'') False) (\<lambda>_.
    retM db)))))"

definition sql_scalar :: "'w sqliteops \<Rightarrow> nat \<Rightarrow> pstr \<Rightarrow> ('o \<times> 'w, int) comp" where
  "sql_scalar S db sql = bindM (askM (sq_prepare S db sql)) (\<lambda>(rc, stmt).
    bindM (assertM (rc = 0) ''sqlite3_prepare_v2'') (\<lambda>_.
    finallyM (bindM (askM (sq_step S stmt)) (\<lambda>row.
        bindM (assertM (row = 100) ''sqlite3_step'') (\<lambda>_.
        askM (sq_column_int64 S stmt 0))))
      (bindM (askM (sq_finalize S stmt)) (\<lambda>_. retM ()))))"

definition sql_close :: "'w sqliteops \<Rightarrow> nat \<Rightarrow> ('o \<times> 'w, unit) comp" where
  "sql_close S db = bindM (askM (sq_close S db)) (\<lambda>rc.
    assertM (rc = 0) ''sqlite3_close'')"

section \<open>Group commits\<close>

text \<open>
  A request is its text, whether it writes, and the identity of the waiting caller (its event and
  result list). \<open>None\<close> in the queue is what \<open>close\<close> puts there.
\<close>

record group_request =
  gq_text :: pstr
  gq_write :: bool
  gq_caller :: nat

record GroupReference =
  gr_database :: nat
  gr_maximum :: nat
  gr_queue :: "group_request option list"
  gr_groups :: "(nat \<times> nat) list"
  gr_answers :: "(nat \<times> exn option) list"

type_synonym 'w grstate = "GroupReference \<times> 'w"

definition group_reference :: "nat \<Rightarrow> nat \<Rightarrow> GroupReference" where
  "group_reference database maximum = \<lparr>gr_database = database, gr_maximum = maximum, gr_queue = [], gr_groups = [], gr_answers = []\<rparr>"

text \<open>\<open>any(request[1] for request in group)\<close> and \<open>sum(r[1] for r in group)\<close>: indexing \<open>None\<close> fails.\<close>

fun any_write :: "group_request option list \<Rightarrow> bool res" where
  "any_write [] = Inr False"
| "any_write (None # rest) = Inl (TypeError ''NoneType object is not subscriptable'')"
| "any_write (Some r # rest) = (if gq_write r then Inr True else any_write rest)"

fun sum_writes :: "group_request option list \<Rightarrow> nat res" where
  "sum_writes [] = Inr 0"
| "sum_writes (None # rest) = Inl (TypeError ''NoneType object is not subscriptable'')"
| "sum_writes (Some r # rest) = bindR (sum_writes rest) (\<lambda>n. Inr (n + (if gq_write r then 1 else 0)))"

definition unpack_request :: "group_request option \<Rightarrow> group_request res" where
  "unpack_request q = (case q of None \<Rightarrow> Inl (TypeError ''cannot unpack non-iterable NoneType object'') | Some r \<Rightarrow> Inr r)"

definition group_exec :: "'w sqliteops \<Rightarrow> nat \<Rightarrow> group_request option \<Rightarrow> ('w grstate, unit) comp" where
  "group_exec S db q = bindM (liftR (unpack_request q)) (\<lambda>r. sql_exec S db (gq_text r))"

text \<open>The transaction of a group; an error of the rollback ends the thread.\<close>

definition group_transaction :: "'w sqliteops \<Rightarrow> group_request option list \<Rightarrow> bool \<Rightarrow> ('w grstate, exn option) comp" where
  "group_transaction S batch writing = bindM objM (\<lambda>g.
    let db = gr_database g in
    tryM (bindM (ifM writing (sql_exec S db (lit ''BEGIN IMMEDIATE''))) (\<lambda>_.
        bindM (forM batch (group_exec S db)) (\<lambda>_.
        bindM (ifM writing (sql_exec S db (lit ''COMMIT''))) (\<lambda>_.
        retM None))))
      (\<lambda>e. bindM (ifM writing (sql_exec S db (lit ''ROLLBACK''))) (\<lambda>_.
        retM (Some e))))"

text \<open>\<open>result.append(error); done.set()\<close>\<close>

definition group_done :: "exn option \<Rightarrow> group_request option \<Rightarrow> ('w grstate, unit) comp" where
  "group_done error q = bindM (liftR (unpack_request q)) (\<lambda>r.
    updM (\<lambda>g. g\<lparr>gr_answers := gr_answers g @ [(gq_caller r, error)]\<rparr>))"

text \<open>What a pass does with the group it drained.\<close>

definition serve_group :: "'w sqliteops \<Rightarrow> group_request option list \<Rightarrow> ('w grstate, bool) comp" where
  "serve_group S batch = bindM (liftR (any_write batch)) (\<lambda>writing.
    bindM (group_transaction S batch writing) (\<lambda>error.
    bindM (liftR (sum_writes batch)) (\<lambda>writes.
    bindM (updM (\<lambda>g. g\<lparr>gr_groups := gr_groups g @ [(length batch, writes)]\<rparr>)) (\<lambda>_.
    bindM (forM batch (group_done error)) (\<lambda>_.
    retM False)))))"

text \<open>
  One pass of \<open>_serve\<close> on a queue that holds a request, \<open>True\<close> when the thread returns. What is
  queued while it drains counts as waiting already.
\<close>

definition serve_once :: "'w sqliteops \<Rightarrow> ('w grstate, bool) comp" where
  "serve_once S = bindM objM (\<lambda>g.
    (case gr_queue g of
       [] \<Rightarrow> retM False
     | None # rest \<Rightarrow> bindM (updM (\<lambda>g. g\<lparr>gr_queue := rest\<rparr>)) (\<lambda>_. retM True)
     | Some first # rest \<Rightarrow> bindM (updM (\<lambda>h. h\<lparr>gr_queue := drop (gr_maximum g - 1) rest\<rparr>)) (\<lambda>_.
         serve_group S (Some first # take (gr_maximum g - 1) rest))))"

text \<open>\<open>GroupConnection.run\<close>: enqueue, wait for the answer, raise what it holds.\<close>

definition group_put :: "group_request option \<Rightarrow> ('w grstate, unit) comp" where
  "group_put q = bindM objM (\<lambda>g.
    bindM (whenM (64 \<le> length (gr_queue g)) QueueFull) (\<lambda>_.
    updM (\<lambda>g. g\<lparr>gr_queue := gr_queue g @ [q]\<rparr>)))"

definition group_answer :: "nat \<Rightarrow> ('w grstate, unit) comp" where
  "group_answer caller = bindM objM (\<lambda>g.
    (case map_of (gr_answers g) caller of
       None \<Rightarrow> raiseM (AssertionError ''Reference worker did not respond'')
     | Some None \<Rightarrow> retM ()
     | Some (Some e) \<Rightarrow> raiseM e))"

text \<open>
  The reference as a labelled step relation: callers of \<open>run\<close> and \<open>close\<close> put into the bounded
  queue when it has room, the thread serves a group when one is queued. \<open>Submit None\<close> is the put of
  \<open>close\<close>; after it the thread returns.
\<close>

datatype group_event = Submit "group_request option" | Serve

inductive group_step :: "'w sqliteops \<Rightarrow> 'w grstate \<Rightarrow> group_event \<Rightarrow> 'w grstate \<Rightarrow> bool" for S where
  submit: "length (gr_queue g) < 64 \<Longrightarrow> group_step S (g, w) (Submit q) (g\<lparr>gr_queue := gr_queue g @ [q]\<rparr>, w)"
| serve: "gr_queue g \<noteq> [] \<Longrightarrow> serve_once S (g, w) = Some (Inr stop, s) \<Longrightarrow> group_step S (g, w) Serve s"

inductive group_run :: "'w sqliteops \<Rightarrow> 'w grstate \<Rightarrow> group_event list \<Rightarrow> 'w grstate \<Rightarrow> bool" for S where
  start: "group_run S s [] s"
| more: "group_run S s es t \<Longrightarrow> group_step S t e u \<Longrightarrow> group_run S s (es @ [e]) u"

section \<open>What reaches the database\<close>

text \<open>The same library with the statements it executes recorded beside the world.\<close>

definition sql_logged :: "'w sqliteops \<Rightarrow> ('w \<times> pstr list) sqliteops" where
  "sql_logged S = \<lparr>
    sq_open = (\<lambda>p (w, l). (fst (sq_open S p w), (snd (sq_open S p w), l))),
    sq_busy_timeout = (\<lambda>d n (w, l). (fst (sq_busy_timeout S d n w), (snd (sq_busy_timeout S d n w), l))),
    sq_exec = (\<lambda>d t (w, l). (fst (sq_exec S d t w), (snd (sq_exec S d t w), l @ [t]))),
    sq_prepare = (\<lambda>d t (w, l). (fst (sq_prepare S d t w), (snd (sq_prepare S d t w), l))),
    sq_step = (\<lambda>k (w, l). (fst (sq_step S k w), (snd (sq_step S k w), l))),
    sq_column_int64 = (\<lambda>k n (w, l). (fst (sq_column_int64 S k n w), (snd (sq_column_int64 S k n w), l))),
    sq_finalize = (\<lambda>k (w, l). (fst (sq_finalize S k w), (snd (sq_finalize S k w), l))),
    sq_close = (\<lambda>d (w, l). (fst (sq_close S d w), (snd (sq_close S d w), l)))\<rparr>"

lemma sql_exec_logged [simp]:
  "wlp (sql_exec (sql_logged S) db t) Q E (x, (w, l)) =
    (let r = sq_exec S db t w in if fst r = 0 then Q () (x, (snd r, l @ [t])) else E (RuntimeError ''SQLite {rc}: {sqlite3_errmsg}'') (x, (snd r, l @ [t])))"
  by (simp add: sql_exec_def sql_logged_def Let_def)

text \<open>A write is bracketed: what was begun is committed, or a rollback was sent.\<close>

lemma sql_run_log:
  "wlp (sql_run (sql_logged S) db t True)
    (\<lambda>_ s. snd (snd s) = l @ [lit ''BEGIN IMMEDIATE'', t, lit ''COMMIT''])
    (\<lambda>_ s. snd (snd s) = l @ [lit ''BEGIN IMMEDIATE''] \<or> snd (snd s) = l @ [lit ''BEGIN IMMEDIATE'', t, lit ''ROLLBACK'']
       \<or> snd (snd s) = l @ [lit ''BEGIN IMMEDIATE'', t, lit ''COMMIT'', lit ''ROLLBACK'']) (x, (w, l))"
  by (simp add: sql_run_def Let_def wlp_fun)

section \<open>Groups\<close>

lemma group_exec_Some [simp]: "group_exec S db (Some r) = sql_exec S db (gq_text r)"
  by (simp add: group_exec_def unpack_request_def fun_eq_iff)

text \<open>The texts of a group are executed in order, up to the first that fails.\<close>

lemma group_texts_log:
  "wlp (forM (map Some rs) (group_exec (sql_logged S) db))
    (\<lambda>_ s. fst s = g \<and> snd (snd s) = l @ map gq_text rs)
    (\<lambda>_ s. fst s = g \<and> (\<exists>n \<le> length rs. snd (snd s) = l @ map gq_text (take n rs))) (g, (w, l))"
proof (induction rs arbitrary: w l)
  case (Cons r rs)
  have "wlp (forM (map Some rs) (group_exec (sql_logged S) db))
    (\<lambda>_ s. fst s = g \<and> snd (snd s) = l @ gq_text r # map gq_text rs)
    (\<lambda>_ s. fst s = g \<and> (\<exists>n \<le> Suc (length rs). snd (snd s) = l @ map gq_text (take n (r # rs)))) (g, (w1, l @ [gq_text r]))" for w1
    by (rule wlp_mono [OF Cons.IH]) (auto intro: exI [of _ "Suc n" for n])
  then show ?case
    by (auto simp: Let_def intro!: exI [of _ "Suc 0"])
qed simp

lemma group_texts:
  assumes "\<And>w2. Q () (g, (w2, l @ map gq_text rs))" and "\<And>e n w2. n \<le> length rs \<Longrightarrow> E e (g, (w2, l @ map gq_text (take n rs)))"
  shows "wlp (forM (map Some rs) (group_exec (sql_logged S) db)) Q E (g, (w, l))"
  by (rule wlp_mono [OF group_texts_log]) (use assms in \<open>auto simp: split_paired_all\<close>)

lemma any_write_requests [simp]: "any_write (map Some rs) = Inr (list_ex gq_write rs)"
  by (induction rs) auto

lemma sum_writes_requests [simp]: "sum_writes (map Some rs) = Inr (length (filter gq_write rs))"
  by (induction rs) auto

text \<open>The statements of one group: a whole transaction, or a prefix with a rollback.\<close>

definition group_log :: "group_request list \<Rightarrow> bool \<Rightarrow> exn option \<Rightarrow> pstr list \<Rightarrow> bool" where
  "group_log rs writing error stmts \<longleftrightarrow>
    (case error of
       None \<Rightarrow> stmts = (if writing then lit ''BEGIN IMMEDIATE'' # map gq_text rs @ [lit ''COMMIT''] else map gq_text rs)
     | Some e \<Rightarrow> if writing then stmts = [lit ''BEGIN IMMEDIATE'', lit ''ROLLBACK'']
           \<or> (\<exists>n \<le> length rs. stmts = lit ''BEGIN IMMEDIATE'' # map gq_text (take n rs) @ [lit ''ROLLBACK''])
           \<or> stmts = lit ''BEGIN IMMEDIATE'' # map gq_text rs @ [lit ''COMMIT'', lit ''ROLLBACK'']
         else \<exists>n \<le> length rs. stmts = map gq_text (take n rs))"

lemma group_transaction_log:
  "wlp (group_transaction (sql_logged S) (map Some rs) writing)
    (\<lambda>error s. fst s = g \<and> (\<exists>stmts. snd (snd s) = l @ stmts \<and> group_log rs writing error stmts))
    (\<lambda>_ s. fst s = g) (g, (w, l))"
  unfolding group_transaction_def Let_def
  by (cases writing) (auto simp: group_log_def Let_def wlp_fun intro!: group_texts)

lemma group_done_Some [simp]:
  "group_done error (Some r) = updM (\<lambda>g. g\<lparr>gr_answers := gr_answers g @ [(gq_caller r, error)]\<rparr>)"
  by (simp add: group_done_def unpack_request_def fun_eq_iff)

lemma group_done_wlp [simp]:
  "wlp (forM (map Some rs) (group_done error)) Q E (g, w) = Q () (g\<lparr>gr_answers := gr_answers g @ map (\<lambda>r. (gq_caller r, error)) rs\<rparr>, w)"
  by (induction rs arbitrary: g) simp_all

text \<open>A pass over a queue of requests: the oldest ones, together, all with the same answer.\<close>

lemma serve_group_wlp:
  "wlp (serve_group (sql_logged S) (map Some rs))
    (\<lambda>stop s. \<not> stop \<and> (\<exists>error stmts.
       fst s = g\<lparr>gr_groups := gr_groups g @ [(length rs, length (filter gq_write rs))],
         gr_answers := gr_answers g @ map (\<lambda>r. (gq_caller r, error)) rs\<rparr>
       \<and> snd (snd s) = l @ stmts \<and> group_log rs (list_ex gq_write rs) error stmts))
    (\<lambda>_ s. gr_answers (fst s) = gr_answers g) (g, (w, l))"
  unfolding serve_group_def
  by (simp add: Let_def wlp_fun) (rule wlp_mono [OF group_transaction_log [where g = g]]; auto simp: split_paired_all)

lemma serve_once_wlp:
  assumes "gr_queue g = map Some rs" and "rs \<noteq> []" and "0 < gr_maximum g"
  defines "now \<equiv> take (gr_maximum g) rs"
  shows "wlp (serve_once (sql_logged S))
    (\<lambda>stop s. \<not> stop \<and> (\<exists>error stmts.
       fst s = g\<lparr>gr_queue := map Some (drop (gr_maximum g) rs), gr_groups := gr_groups g @ [(length now, length (filter gq_write now))],
         gr_answers := gr_answers g @ map (\<lambda>r. (gq_caller r, error)) now\<rparr>
       \<and> snd (snd s) = l @ stmts \<and> group_log now (list_ex gq_write now) error stmts))
    (\<lambda>_ s. gr_answers (fst s) = gr_answers g) (g, (w, l))"
proof -
  obtain r0 rs' where rs: "rs = r0 # rs'" using assms(2) by (cases rs) auto
  obtain m where m: "gr_maximum g = Suc m" using assms(3) by (cases "gr_maximum g") auto
  have batch: "Some r0 # take m (map Some rs') = map Some now" by (simp add: now_def rs m take_map)
  let ?g = "g\<lparr>gr_queue := map Some (drop (gr_maximum g) rs)\<rparr>"
  have "wlp (serve_once (sql_logged S)) Q E (g, (w, l)) = wlp (serve_group (sql_logged S) (map Some now)) Q E (?g, (w, l))" for Q E
    unfolding serve_once_def using assms(1) by (simp add: rs m batch drop_map)
  then show ?thesis
    using serve_group_wlp [of S now ?g l w] by simp
qed

text \<open>
  A pass that drains the sentinel of \<open>close\<close> together with requests answers none of them: the
  thread ends with a \<open>TypeError\<close> and their callers wait until their timeout.
\<close>

lemma sum_writes_None: "None \<in> set qs \<Longrightarrow> \<exists>e. sum_writes qs = Inl e"
  by (induction qs rule: sum_writes.induct) (auto simp: bindR_def split: sum.splits)

definition same_answers :: "GroupReference \<Rightarrow> GroupReference \<Rightarrow> bool" where
  "same_answers a b \<longleftrightarrow> gr_answers b = gr_answers a"

interpretation answers: step_relation same_answers
  by unfold_locales (auto simp: same_answers_def)

lemmas answers_rules = answers.step_basic answers.step_bind answers.step_try answers.step_if answers.step_loops answers.step_objects

lemma keeps_group_transaction: "keepsR same_answers fst (group_transaction S batch writing)"
  unfolding group_transaction_def group_exec_def sql_exec_def Let_def by (intro answers_rules)

lemma serve_group_sentinel:
  assumes "None \<in> set batch"
  shows "wlp (serve_group S batch) (\<lambda>_ _. False) (\<lambda>_ s. gr_answers (fst s) = gr_answers g) (g, w)"
proof -
  obtain e where e: "sum_writes batch = Inl e" using sum_writes_None [OF assms] by auto
  have tx: "wlp (group_transaction S batch writing) (\<lambda>_ s. gr_answers (fst s) = gr_answers g)
      (\<lambda>_ s. gr_answers (fst s) = gr_answers g) (g, w)" for writing
    by (rule wlp_mono [OF answers.step_wlp [OF keeps_group_transaction]]) (auto simp: same_answers_def)
  show ?thesis
    unfolding serve_group_def by (auto simp: e split: sum.splits intro!: wlp_mono [OF tx])
qed

lemma serve_sentinel:
  assumes "gr_queue g = Some r # rest" and "None \<in> set (take (gr_maximum g - 1) rest)"
  shows "wlp (serve_once S) (\<lambda>_ _. False) (\<lambda>_ s. gr_answers (fst s) = gr_answers g) (g, w)"
  unfolding serve_once_def using assms(1)
  by simp (rule wlp_mono [OF serve_group_sentinel]; use assms(2) in auto)

section \<open>Order\<close>

definition callers :: "group_request option list \<Rightarrow> nat list" where
  "callers qs = concat (map (\<lambda>q. case q of None \<Rightarrow> [] | Some r \<Rightarrow> [gq_caller r]) qs)"

definition put_callers :: "group_event list \<Rightarrow> nat list" where
  "put_callers es = concat (map (\<lambda>e. case e of Submit q \<Rightarrow> callers [q] | Serve \<Rightarrow> []) es)"

lemma callers_append [simp]: "callers (xs @ ys) = callers xs @ callers ys" "callers [] = []"
  "callers (None # qs) = callers qs" "callers (Some r # qs) = gq_caller r # callers qs"
  by (auto simp: callers_def)

lemma put_callers_simps [simp]: "put_callers [] = []" "put_callers (es @ [Submit q]) = put_callers es @ callers [q]"
  "put_callers (es @ [Serve]) = put_callers es"
  by (auto simp: put_callers_def)

text \<open>A pass that returns answers exactly what it takes from the front of the queue.\<close>

definition served :: "GroupReference \<Rightarrow> GroupReference \<Rightarrow> bool" where
  "served g h \<longleftrightarrow> map fst (gr_answers h) @ callers (gr_queue h) = map fst (gr_answers g) @ callers (gr_queue g)
     \<and> length (gr_queue h) \<le> length (gr_queue g)"

lemma group_done_callers:
  "wlp (forM batch (group_done error)) (\<lambda>_ s. map fst (gr_answers (fst s)) = map fst (gr_answers g) @ callers batch \<and> gr_queue (fst s) = gr_queue g)
     (\<lambda>_ _. True) (g, w)"
proof (induction batch arbitrary: g)
  case (Cons q batch)
  show ?case
  proof (cases q)
    case None
    then show ?thesis by (simp add: group_done_def unpack_request_def)
  next
    case (Some r)
    then show ?thesis
      using Cons.IH [of "g\<lparr>gr_answers := gr_answers g @ [(gq_caller r, error)]\<rparr>"]
      by simp
  qed
qed simp

definition same_queue :: "GroupReference \<Rightarrow> GroupReference \<Rightarrow> bool" where
  "same_queue a b \<longleftrightarrow> gr_answers b = gr_answers a \<and> gr_queue b = gr_queue a"

interpretation queued: step_relation same_queue
  by unfold_locales (auto simp: same_queue_def)

lemmas queued_rules = queued.step_basic queued.step_bind queued.step_try queued.step_if queued.step_loops queued.step_objects

lemma keeps_queue_transaction: "keepsR same_queue fst (group_transaction S batch writing)"
  unfolding group_transaction_def group_exec_def sql_exec_def Let_def by (intro queued_rules)

lemma serve_group_callers:
  "wlp (serve_group S batch) (\<lambda>_ s. map fst (gr_answers (fst s)) = map fst (gr_answers g) @ callers batch \<and> gr_queue (fst s) = gr_queue g)
     (\<lambda>_ _. True) (g, w)"
proof -
  have fin: "wlp (forM batch (group_done error))
      (\<lambda>_ s. map fst (gr_answers (fst s)) = map fst (gr_answers g) @ callers batch \<and> gr_queue (fst s) = gr_queue g) (\<lambda>_ _. True)
      (h\<lparr>gr_groups := gs\<rparr>, v)" if "same_queue g h" for error h gs v
    using group_done_callers [of batch error "h\<lparr>gr_groups := gs\<rparr>" v] that by (simp add: same_queue_def)
  have tx: "wlp (group_transaction S batch writing) (\<lambda>_ s. same_queue g (fst s)) (\<lambda>_ s. same_queue g (fst s)) (g, w)" for writing
    using queued.step_wlp [OF keeps_queue_transaction, where s = "(g, w)"] by simp
  show ?thesis
    unfolding serve_group_def by (auto simp: split_paired_all wlp_fun split: sum.splits intro!: wlp_mono [OF tx] fin)
qed

lemma serve_once_served: "wlp (serve_once S) (\<lambda>_ s. served g (fst s)) (\<lambda>_ _. True) (g, w)"
proof (cases "gr_queue g")
  case (Cons q rest)
  show ?thesis
  proof (cases q)
    case None
    then show ?thesis by (simp add: serve_once_def Cons served_def)
  next
    case (Some r)
    let ?m = "gr_maximum g - 1"
    have split: "callers (take ?m rest) @ callers (drop ?m rest) = callers rest"
      by (metis append_take_drop_id callers_append(1))
    show ?thesis
      unfolding serve_once_def using Some Cons
      by simp (rule wlp_mono [OF serve_group_callers]; use split in \<open>simp add: served_def\<close>)
  qed
qed (simp add: serve_once_def served_def)

lemma group_step_served:
  assumes "group_step S s e t" and "length (gr_queue (fst s)) \<le> 64"
  shows "map fst (gr_answers (fst t)) @ callers (gr_queue (fst t))
      = map fst (gr_answers (fst s)) @ callers (gr_queue (fst s)) @ put_callers [e] \<and> length (gr_queue (fst t)) \<le> 64"
  using assms
proof cases
  case (serve g w stop)
  have "served g (fst t)" by (rule wlp_Inr [OF serve_once_served serve(4)])
  with serve assms(2) show ?thesis by (simp add: served_def put_callers_def)
qed (auto simp: put_callers_def)

lemma group_run_fifo:
  assumes "group_run S s es t" and "length (gr_queue (fst s)) \<le> 64"
  shows "map fst (gr_answers (fst t)) @ callers (gr_queue (fst t))
      = map fst (gr_answers (fst s)) @ callers (gr_queue (fst s)) @ put_callers es \<and> length (gr_queue (fst t)) \<le> 64"
  using assms
proof (induction rule: group_run.induct)
  case (more s es t e u)
  have "put_callers (es @ [e]) = put_callers es @ put_callers [e]" by (simp add: put_callers_def)
  with more group_step_served [OF more.hyps(2)] show ?case by simp
qed simp

end
