(* ===== verification/Process_Properties.thy ===== *)
theory Process_Properties
  imports Process_Facts Sqlite_Reference Simulation
begin

text \<open>
  The properties of the process cluster controller and of the SQLite group reference.
\<close>

section \<open>The controller\<close>

definition dead_world :: "nat procops" where
  "dead_world = \<lparr>pr_clock = (\<lambda>w. (of_nat w, Suc w)), pr_random = (\<lambda>w. (0, w)), pr_spawn = (\<lambda>n b w. (Inr n, w)),
    pr_writable = (\<lambda>p t w. (True, w)), pr_write = (\<lambda>p b w. (Inr 1, w)), pr_readable = (\<lambda>p t w. (False, w)),
    pr_read = (\<lambda>p n w. (Inr [], w)), pr_poll = (\<lambda>p w. (Some 0, w)), pr_kill = (\<lambda>p w. ((), w)),
    pr_close_stdin = (\<lambda>p w. ((), w)), pr_close_stdout = (\<lambda>p w. ((), w)), pr_close_log = (\<lambda>p w. ((), w)),
    pr_wait = (\<lambda>p w. (Inr 0, w)), pr_file = (\<lambda>p w. (None, w)), pr_clk_tck = 100, pr_dumps = (\<lambda>j. [0]),
    pr_loads = (\<lambda>b. Inr JNull), pr_unicode = ascii_unidb\<rparr>"

text \<open>
  C21. The fault exercise always comes to an end, with a report or an exception, whatever the voters
  answer and however long the workload, as long as a write to a ready pipe makes progress. All along, the controller stays well formed (three voters, no peer
  queue above its budget of 4096 packets), no outcome of a write that was once reported changes, the counts of
  acknowledgements never fall and the time of the first one is never overwritten.
\<close>

theorem exercise_ends_outcomes_stable:
  assumes "writes_progress P" and "pc_inv c"
  shows "\<exists>r c' w'. exercise P operations mode (c, w) = Some (r, (c', w')) \<and> pc_inv c' \<and> outcomes_kept c c'"
proof -
  obtain r c' w' where e: "exercise P operations mode (c, w) = Some (r, (c', w'))"
    using total_exercise [OF assms(1)] by (fastforce simp: total_def returns_def)
  have "controlled c c'"
    using ctl.step_wlp [OF keeps_exercise, of P operations mode "(c, w)"] e by (cases r) (auto simp: wlp_def)
  then show ?thesis using e assms(2) by (auto simp: controlled_def)
qed

theorem exercise_ends_outcomes_stable_witness:
  "writes_progress dead_world \<and> pc_inv cluster_empty
    \<and> (\<exists>r c' w'. exercise dead_world 24 Fenced (cluster_empty, 0) = Some (r, (c', w')) \<and> pc_inv c' \<and> outcomes_kept cluster_empty c')"
proof -
  have p: "writes_progress dead_world" by (simp add: writes_progress_def dead_world_def)
  have i: "pc_inv cluster_empty" by (simp add: pc_inv_def cluster_empty_def)
  show ?thesis using exercise_ends_outcomes_stable [OF p i, of 24 Fenced 0] p i by simp
qed

text \<open>
  C22. Submitting requests and settling is a barrier: when both return, every request has a recorded
  outcome that was acknowledged after the submission (its count has grown), and no packet is left
  in a peer queue.
\<close>

theorem submit_settle_acknowledged:
  assumes "dom (pc_counts c) \<subseteq> dom (pc_completed c)"
    and "bindM (submit_requests P rs offset alive) (\<lambda>_. settle_cluster P rs rounds) (c, w) = Some (Inr (), (d, w'))"
    and "r \<in> set rs"
  shows "(\<exists>n completion. pc_counts d (rq_key r) = Some n \<and> (case pc_counts c (rq_key r) of None \<Rightarrow> 0 | Some m \<Rightarrow> m) < n
      \<and> pc_completed d (rq_key r) = Some completion) \<and> (\<forall>q \<in> set (pc_queues d). q = [])"
proof -
  have "wlp (bindM (submit_requests P rs offset alive) (\<lambda>_. settle_cluster P rs rounds))
      (\<lambda>_ s. settled_keys (rq_key ` set rs) (fst s) \<and> submitted_once c rs (fst s)) (\<lambda>_ _. True) (c, w)"
    by (simp, rule wlp_mono [OF submit_awaits [OF assms(1)]]) (auto simp: split_paired_all intro: settle_acknowledges)
  from wlp_Inr [OF this assms(2)] have d: "settled_keys (rq_key ` set rs) d" "submitted_once c rs d" by simp_all
  show ?thesis using settled_submitted [OF d assms(3)] d(1) by (simp add: settled_keys_def list_all_iff)
qed

definition echo_done :: json where
  "echo_done = JObj [(lit ''client'', JInt 101), (lit ''sequence'', JInt 1)]"

definition echo_dict :: dict where
  "echo_dict = [(lit ''packets'', JNull), (lit ''completed'', JList [echo_done]), (lit ''accepted'', JInt 1), (lit ''backpressure'', JBool False)]"

abbreviation echo_reply :: json where
  "echo_reply \<equiv> JObj echo_dict"

definition echo_world :: "nat procops" where
  "echo_world = dead_world\<lparr>pr_write := (\<lambda>p b w. (Inr (length b), w)), pr_readable := (\<lambda>p t w. (True, w)),
     pr_read := (\<lambda>p n w. (Inr (if n = 4 then [1, 0, 0, 0] else [0]), w)), pr_loads := (\<lambda>b. Inr echo_reply)\<rparr>"

lemmas run_defs = askM_def worldM_def innerM_def updM_def objM_def comp_defs localM_def

lemma echo_fields:
  "pr_dumps echo_world j = [0]" "pr_clock echo_world = (\<lambda>w. (of_nat w, Suc w))" "pr_loads echo_world b = Inr echo_reply"
  "pr_file echo_world = (\<lambda>p w. (None, w))" "writes_progress echo_world"
  by (simp_all add: echo_world_def dead_world_def writes_progress_def)

lemma echo_steps:
  "write_step_rpc echo_world k d (x, c, w) = Some (Inr None, ([], c, Suc w))"
  "read_step_rpc echo_world k d ((n, bs), c, w)
    = Some (Inr None, ((n - (if n = 4 then 4 else 1), bs @ (if n = 4 then [1, 0, 0, 0] else [0])), c, Suc w))"
  by (simp_all add: write_step_rpc_def read_step_rpc_def echo_world_def dead_world_def run_defs)

lemma echo_pipes:
  "write_all echo_world k bytes d (c, w) = Some (Inr None, (c, if bytes = [] then w else Suc w))"
  "read_exact echo_world k 4 d (c, w) = Some (Inr [Suc 0, 0, 0, 0], (c, Suc w))"
  "read_exact echo_world k (Suc 0) d (c, w) = Some (Inr [0], (c, Suc w))"
  by (cases "bytes = []"; simp add: write_all_def read_exact_def whileM_eval echo_steps run_defs)+

lemma echo_rpc: "wlp (rpc echo_world k command) Q E (c, w) = Q echo_reply (c, w + 4)"
proof -
  have "frame [0] \<noteq> []" "un_le32 [Suc 0, 0, 0, 0] = 1" by (simp_all add: frame_def)
  then have "rpc echo_world k command (c, w) = Some (Inr echo_reply, (c, w + 4))"
    by (simp add: rpc_def echo_pipes run_defs echo_fields MAX_FRAME_def Let_def)
  then show ?thesis by (simp add: wlp_def)
qed

lemma echo_jobs:
  assumes "pc_workers c = [Some k, None, None]"
  shows "wlp (round_job echo_world cmd 0) Q E (c, w) = Q [(0, Inr echo_reply)] (c\<lparr>pc_queues := (pc_queues c)[0 := drop 128 (pc_queues c ! 0)]\<rparr>, w + 4)"
    and "n = Suc 0 \<or> n = 2 \<Longrightarrow> wlp (round_job echo_world cmd n) Q E (c, w) = Q [] (c\<lparr>pc_queues := (pc_queues c)[n := []]\<rparr>, w)"
    and "wlp (sample_cpu echo_world 0) Q2 E (c, w) = Q2 () (c, w)" and "wlp (sample_peak echo_world 0) Q2 E (c, w) = Q2 () (c, w)"
  using assms by (auto simp: round_job_def sample_cpu_def sample_peak_def worker_of_def nth_res_def echo_fields Let_def echo_rpc wlp_fun)

definition echo_key :: wkey where
  "echo_key = (JInt 101, JInt 1)"

lemma echo_complete:
  assumes "pc_completed c = Map.empty"
  shows "wlp (complete echo_world echo_done) Q E (c, w) = Q () (c\<lparr>pc_completed := [echo_key \<mapsto> echo_done],
    pc_counts := (pc_counts c)(echo_key \<mapsto> (case pc_counts c echo_key of None \<Rightarrow> 0 | Some n \<Rightarrow> n) + 1),
    pc_first := (case pc_first c echo_key of None \<Rightarrow> (pc_first c)(echo_key \<mapsto> of_nat w) | Some _ \<Rightarrow> pc_first c)\<rparr>, Suc w)"
  using assms by (simp add: complete_def echo_done_def echo_key_def field_def key_res_def lit_def Let_def wlp_fun echo_fields split: option.splits)

lemma echo_keys:
  "dget echo_dict ''sql_error'' = None" "key_res echo_dict ''packets'' = Inr JNull" "key_res echo_dict ''completed'' = Inr (JList [echo_done])"
  "key_res echo_dict ''accepted'' = Inr (JInt 1)" "key_res echo_dict ''backpressure'' = Inr (JBool False)"
  by (simp_all add: echo_dict_def key_res_def lit_def)

lemma echo_round_reply:
  assumes "pc_workers c = [Some k, None, None]" and "pc_completed c = Map.empty"
  shows "wlp (round_reply (sample_cpu echo_world) echo_world (0, Inr echo_reply)) Q E (c, w) = Q (0, echo_reply) (c\<lparr>pc_completed := [echo_key \<mapsto> echo_done],
    pc_counts := (pc_counts c)(echo_key \<mapsto> (case pc_counts c echo_key of None \<Rightarrow> 0 | Some n \<Rightarrow> n) + 1),
    pc_first := (case pc_first c echo_key of None \<Rightarrow> (pc_first c)(echo_key \<mapsto> of_nat w) | Some _ \<Rightarrow> pc_first c)\<rparr>, Suc w)"
  using assms by (simp add: round_reply_def echo_keys echo_complete echo_jobs list_or_empty_def bindR_def wlp_fun)

abbreviation one_voter :: ProcCluster where
  "one_voter \<equiv> cluster_empty\<lparr>pc_workers := [Some \<lparr>wk_node = 0, wk_pid = 7\<rparr>, None, None]\<rparr>"

abbreviation one_write :: WriteReq where
  "one_write \<equiv> \<lparr>rq_client = 101, rq_sequence = 1, rq_sql = []\<rparr>"

lemma echo_submit_settle:
  "wlp (bindM (submit_requests echo_world [one_write] 0 [0]) (\<lambda>_. settle_cluster echo_world [one_write] 1))
    (\<lambda>_ _. True) (\<lambda>_ _. False) (one_voter, 0)"
  apply (simp add: submit_requests_def submit_with_def submit_groups_def proc_round_def round_with_def Let_def wlp_fun echo_jobs cluster_empty_def await_def)
  apply (simp add: echo_round_reply wlp_fun)
  apply (simp add: accept_group_def field_def echo_keys json_truth_def settle_cluster_def settle_with_def settled_keys_def rq_key_def echo_key_def wlp_fun)
  done

theorem submit_settle_acknowledged_witness:
  "\<exists>d w'. bindM (submit_requests echo_world [one_write] 0 [0]) (\<lambda>_. settle_cluster echo_world [one_write] 1) (one_voter, 0) = Some (Inr (), (d, w'))
    \<and> (\<exists>n completion. pc_counts d (rq_key one_write) = Some n \<and> 0 < n \<and> pc_completed d (rq_key one_write) = Some completion)"
proof -
  have "total (bindM (submit_requests echo_world [one_write] 0 [0]) (\<lambda>_. settle_cluster echo_world [one_write] 1))"
    by (intro total_rules total_controller echo_fields)
  then obtain d w' where run: "bindM (submit_requests echo_world [one_write] 0 [0]) (\<lambda>_. settle_cluster echo_world [one_write] 1) (one_voter, 0)
      = Some (Inr (), (d, w'))"
    using total_ok [OF _ echo_submit_settle] by fastforce
  have e: "pc_counts one_voter = Map.empty" "pc_completed one_voter = Map.empty" by (simp_all add: cluster_empty_def)
  show ?thesis using submit_settle_acknowledged [OF _ run, of one_write] run e by auto
qed

text \<open>
  The balances the controller expects always add up to what the accounts were opened with,
  and the closed form the mixed phase uses for the first account agrees with them.
\<close>

lemma expected_balances_conserved:
  "length (balances_of ts) = 3 \<and> sum_list (balances_of ts) = 3000000 \<and> balances_of ts ! 0 = first_balance ts"
  using balances_fold [of "[1000000, 1000000, 1000000]" ts] by (simp add: balances_of_def)

section \<open>The group reference\<close>


definition accepting_sqlite :: "unit sqliteops" where
  "accepting_sqlite = \<lparr>sq_open = (\<lambda>p w. ((0, 1), w)), sq_busy_timeout = (\<lambda>d n w. (0, w)), sq_exec = (\<lambda>d t w. (0, w)),
    sq_prepare = (\<lambda>d t w. ((0, 1), w)), sq_step = (\<lambda>k w. (100, w)), sq_column_int64 = (\<lambda>k n w. (7, w)),
    sq_finalize = (\<lambda>k w. (0, w)), sq_close = (\<lambda>d w. (0, w))\<rparr>"

definition nth_request :: "nat \<Rightarrow> group_request" where
  "nth_request n = \<lparr>gq_text = dec n, gq_write = odd n, gq_caller = n\<rparr>"

definition three_waiting :: GroupReference where
  "three_waiting = (group_reference 1 2)\<lparr>gr_queue := map Some [nth_request 1, nth_request 2, nth_request 3]\<rparr>"




text \<open>
  C25. A defect of the reference: a pass that drains the sentinel of \<open>close\<close> together with waiting
  requests never answers them. It ends the thread with an exception, so the callers run into
  their timeout.
\<close>

theorem group_close_strands_callers:
  assumes "gr_queue g = Some r # rest" and "None \<in> set (take (gr_maximum g - 1) rest)"
    and "serve_once S (g, w) = Some (out, (h, w'))"
  shows "(\<exists>e. out = Inl e) \<and> gr_answers h = gr_answers g"
  using serve_sentinel [OF assms(1,2), of S w] assms(3) by (cases out) (auto simp: wlp_def)

theorem group_close_strands_callers_witness:
  "\<exists>e h w'. serve_once accepting_sqlite ((group_reference 1 16)\<lparr>gr_queue := [Some \<lparr>gq_text = lit ''A'', gq_write = True, gq_caller = 5\<rparr>, None]\<rparr>, ())
    = Some (Inl e, (h, w')) \<and> gr_answers h = []"
proof -
  let ?g = "(group_reference 1 16)\<lparr>gr_queue := [Some \<lparr>gq_text = lit ''A'', gq_write = True, gq_caller = 5\<rparr>, None]\<rparr>"
  obtain out h w' where run: "serve_once accepting_sqlite (?g, ()) = Some (out, (h, w'))"
    by (simp add: serve_once_def serve_group_def group_transaction_def group_exec_def unpack_request_def sql_exec_def accepting_sqlite_def
        group_reference_def Let_def ifM_def askM_def updM_def objM_def comp_defs)
  show ?thesis using group_close_strands_callers [OF _ _ run] run by (auto simp: group_reference_def)
qed

end
