(* ===== verification/Net_Cluster.thy ===== *)
theory Net_Cluster
  imports Tool_Prelude Transaction
begin

text \<open>
  The cluster of native service processes that the network checks drive: \<open>Cluster\<close> of
  \<open>tools/check_network_service.py\<close>, the certificates of \<open>tools/check_mtls.py\<close> and \<open>ready\<close> of
  \<open>tools/check_majority.py\<close>, on top of the modelled client. Processes, files and the standard
  library are the parameter \<open>hostops\<close>.
\<close>

section \<open>The host\<close>

text \<open>
  \<open>ho_run\<close> is \<open>subprocess.run\<close> with captured output: return code, stdout, stderr;
  \<open>ho_popen argv log\<close> starts a process that writes to an open log and returns its pid. A
  generator \<open>random.Random(seed)\<close> is a state of its own: \<open>ho_seed\<close> makes it, \<open>ho_random\<close> and
  \<open>ho_randrange\<close> draw from it. \<open>ho_tls_reset\<close> recognises \<open>ssl.SSLError\<close> and
  \<open>ConnectionResetError\<close> among the socket errors, \<open>ho_str\<close> is \<open>str\<close> of an exception (the
  exceptions of the model carry the templates of their messages). \<open>ho_tree\<close> lists the files below
  a directory with their sizes and block counts, \<open>ho_sqlite\<close> are the rows of a query on a database
  file, \<open>ho_rglob\<close> their sorted paths, \<open>ho_free\<close> is the free space of
  a file system in bytes.
\<close>

datatype rv = RB bool | RI int | RT rat | RS pstr | RJ json | RL "rv list" | RD "(pstr \<times> rv) list"

type_synonym report = "(pstr \<times> rv) list"

record 'w hostops =
  ho_net :: "'w netops"
  ho_open_log :: "pstr \<Rightarrow> 'w \<Rightarrow> nat res \<times> 'w"
  ho_close_log :: "nat \<Rightarrow> 'w \<Rightarrow> unit \<times> 'w"
  ho_popen :: "pstr list \<Rightarrow> nat \<Rightarrow> 'w \<Rightarrow> nat res \<times> 'w"
  ho_poll :: "nat \<Rightarrow> 'w \<Rightarrow> int option \<times> 'w"
  ho_kill :: "nat \<Rightarrow> 'w \<Rightarrow> unit \<times> 'w"
  ho_terminate :: "nat \<Rightarrow> 'w \<Rightarrow> unit \<times> 'w"
  ho_wait :: "nat \<Rightarrow> 'w \<Rightarrow> int res \<times> 'w"
  ho_run :: "pstr list \<Rightarrow> 'w \<Rightarrow> (int \<times> pstr \<times> pstr) res \<times> 'w"
  ho_read :: "pstr \<Rightarrow> 'w \<Rightarrow> pstr res \<times> 'w"
  ho_write :: "pstr \<Rightarrow> pstr \<Rightarrow> 'w \<Rightarrow> unit res \<times> 'w"
  ho_exists :: "pstr \<Rightarrow> 'w \<Rightarrow> bool \<times> 'w"
  ho_mkdir :: "pstr \<Rightarrow> 'w \<Rightarrow> unit res \<times> 'w"
  ho_chmod :: "pstr \<Rightarrow> 'w \<Rightarrow> unit res \<times> 'w"
  ho_glob :: "pstr \<Rightarrow> pstr \<Rightarrow> 'w \<Rightarrow> pstr list \<times> 'w"
  ho_sha256 :: "pstr \<Rightarrow> 'w \<Rightarrow> pstr res \<times> 'w"
  ho_mkdtemp :: "pstr \<Rightarrow> 'w \<Rightarrow> pstr res \<times> 'w"
  ho_rmtree :: "pstr \<Rightarrow> 'w \<Rightarrow> unit res \<times> 'w"
  ho_rglob :: "pstr \<Rightarrow> 'w \<Rightarrow> pstr list \<times> 'w"
  ho_utcnow :: "'w \<Rightarrow> pstr \<times> 'w"
  ho_platform :: pstr
  ho_linux :: bool
  ho_tls_reset :: "exn \<Rightarrow> bool"
  ho_tree :: "pstr \<Rightarrow> 'w \<Rightarrow> (pstr \<times> nat \<times> nat) list \<times> 'w"
  ho_sqlite :: "pstr \<Rightarrow> pstr \<Rightarrow> 'w \<Rightarrow> cell list list res \<times> 'w"
  ho_rename :: "pstr \<Rightarrow> pstr \<Rightarrow> 'w \<Rightarrow> unit res \<times> 'w"
  ho_resolve :: "pstr \<Rightarrow> 'w \<Rightarrow> pstr \<times> 'w"
  ho_copytree :: "pstr \<Rightarrow> pstr \<Rightarrow> 'w \<Rightarrow> unit res \<times> 'w"
  ho_read_bytes :: "pstr \<Rightarrow> 'w \<Rightarrow> pbytes res \<times> 'w"
  ho_write_bytes :: "pstr \<Rightarrow> pbytes \<Rightarrow> 'w \<Rightarrow> unit res \<times> 'w"
  ho_unlink :: "pstr \<Rightarrow> 'w \<Rightarrow> unit res \<times> 'w"
  ho_symlink :: "pstr \<Rightarrow> pstr \<Rightarrow> 'w \<Rightarrow> unit res \<times> 'w"
  ho_free :: "pstr \<Rightarrow> 'w \<Rightarrow> int \<times> 'w"
  ho_rcvbuf :: "sock \<Rightarrow> int \<Rightarrow> 'w \<Rightarrow> unit res \<times> 'w"
  ho_clk_tck :: rat
  ho_page_size :: int
  ho_str :: "exn \<Rightarrow> pstr"
  ho_port :: "'w \<Rightarrow> nat \<times> 'w"
  ho_repr :: "exn \<Rightarrow> pstr"
  ho_dumps :: "report \<Rightarrow> pstr"
  ho_loads :: "pstr \<Rightarrow> json res"
  ho_seed :: "int \<Rightarrow> nat"
  ho_random :: "nat \<Rightarrow> rat \<times> nat"
  ho_randrange :: "nat \<Rightarrow> nat \<Rightarrow> nat \<times> nat"

section \<open>Scopes\<close>

text \<open>
  A script works on its variables beside the world. \<open>scopeM y m\<close> adds a variable for \<open>m\<close>,
  \<open>upM\<close> reaches the ones outside, \<open>dbM\<close> calls a method of the connection in scope.
\<close>

definition scopeM :: "'y \<Rightarrow> (('y \<times> 'x) \<times> 'w, 'a) comp \<Rightarrow> ('x \<times> 'w, 'a) comp" where
  "scopeM y m = (\<lambda>(x, w). case m ((y, x), w) of None \<Rightarrow> None | Some (r, ((_, x'), w')) \<Rightarrow> Some (r, (x', w')))"

definition upM :: "('x \<times> 'w, 'a) comp \<Rightarrow> (('y \<times> 'x) \<times> 'w, 'a) comp" where
  "upM m = (\<lambda>((y, x), w). case m (x, w) of None \<Rightarrow> None | Some (r, (x', w')) \<Rightarrow> Some (r, ((y, x'), w')))"

definition dbM :: "('w cstate, 'a) comp \<Rightarrow> ((Connection \<times> 'x) \<times> 'w, 'a) comp" where
  "dbM m = (\<lambda>((c, x), w). case m (c, w) of None \<Rightarrow> None | Some (r, (c', w')) \<Rightarrow> Some (r, ((c', x), w')))"

text \<open>\<open>with opening as db: body\<close>: the connection is closed on every way out.\<close>

definition with_db :: "'w netops \<Rightarrow> ('x \<times> 'w, Connection) comp \<Rightarrow> ((Connection \<times> 'x) \<times> 'w, 'a) comp \<Rightarrow> ('x \<times> 'w, 'a) comp" where
  "with_db N opening body = bindM opening (\<lambda>db.
    scopeM db (bindM (dbM ready) (\<lambda>_. finallyM body (dbM (conn_close N)))))"

text \<open>\<open>for x in xs\<close> over a generator expression with a test: \<open>all(p(x) for x in xs)\<close> of fallible tests.\<close>

fun allR :: "('a \<Rightarrow> bool res) \<Rightarrow> 'a list \<Rightarrow> bool res" where
  "allR p [] = Inr True"
| "allR p (x # xs) = bindR (p x) (\<lambda>b. if b then allR p xs else Inr False)"

fun maxR :: "int list \<Rightarrow> int res" where
  "maxR [] = Inl (ValueError ''max() arg is an empty sequence'')"
| "maxR (x # xs) = Inr (fold max xs x)"

text \<open>Python equality of a result cell with an integer: booleans and floats compare as numbers.\<close>

definition num_eq :: "json \<Rightarrow> int \<Rightarrow> bool" where
  "num_eq j n = (case j of JInt i \<Rightarrow> i = n | JBool b \<Rightarrow> (if b then 1 else 0) = n
     | JFloat (Finite neg m) \<Rightarrow> int m = abs n * 2 ^ 1074 \<and> (m = 0 \<or> neg = (n < 0)) | _ \<Rightarrow> False)"

definition cell_is :: "cell \<Rightarrow> int \<Rightarrow> bool" where
  "cell_is c n = (case c of CJson j \<Rightarrow> num_eq j n | CBlob _ \<Rightarrow> False)"

text \<open>The methods of the connection with the arguments that the scripts give.\<close>

definition scalar_of :: "'w netops \<Rightarrow> pstr \<Rightarrow> pval list \<Rightarrow> ('w cstate, cell) comp" where
  "scalar_of N sql ps = bindM (query N (VStr sql) (PSeq ps) (lit ''linearizable'')) (\<lambda>rs. liftR (rows_scalar rs))"

text \<open>\<open>assert db.query(sql, ps).scalar() == n\<close>\<close>

definition assert_is :: "'w netops \<Rightarrow> pstr \<Rightarrow> pval list \<Rightarrow> int \<Rightarrow> ('w cstate, unit) comp" where
  "assert_is N sql ps n = bindM (scalar_of N sql ps) (\<lambda>c. assertM (cell_is c n) ''scalar'')"

definition status_field :: "'w netops \<Rightarrow> string \<Rightarrow> ('w cstate, int) comp" where
  "status_field N k = bindM (status N) (\<lambda>d. liftR (int_field (JObj d) k))"

definition run_sql :: "'w netops \<Rightarrow> pstr \<Rightarrow> pval list \<Rightarrow> ((Connection \<times> 'x) \<times> 'w, WriteResult) comp" where
  "run_sql N sql ps = dbM (execute N (VStr sql) (PSeq ps))"

definition read_sql :: "'w netops \<Rightarrow> pstr \<Rightarrow> pval list \<Rightarrow> ((Connection \<times> 'x) \<times> 'w, cell Rows) comp" where
  "read_sql N sql ps = dbM (query N (VStr sql) (PSeq ps) (lit ''linearizable''))"

definition scalar_sql :: "'w netops \<Rightarrow> pstr \<Rightarrow> pval list \<Rightarrow> ((Connection \<times> 'x) \<times> 'w, cell) comp" where
  "scalar_sql N sql ps = dbM (scalar_of N sql ps)"

definition assert_scalar :: "'w netops \<Rightarrow> pstr \<Rightarrow> pval list \<Rightarrow> int \<Rightarrow> ((Connection \<times> 'x) \<times> 'w, unit) comp" where
  "assert_scalar N sql ps n = dbM (assert_is N sql ps n)"

text \<open>Several connections in scope: a method of one of them, and closing all.\<close>

definition clientM :: "nat \<Rightarrow> ('w cstate, 'a) comp \<Rightarrow> ((Connection list \<times> 'x) \<times> 'w, 'a) comp" where
  "clientM i m = (\<lambda>((cs, x), w). if i < length cs
     then (case m (cs ! i, w) of None \<Rightarrow> None | Some (r, (c, w')) \<Rightarrow> Some (r, ((cs[i := c], x), w')))
     else Some (Inl IndexError, ((cs, x), w)))"

definition close_clients :: "'w netops \<Rightarrow> ((Connection list \<times> 'x) \<times> 'w, unit) comp" where
  "close_clients N = bindM objM (\<lambda>(cs, _). forM [0..<length cs] (\<lambda>i. clientM i (conn_close N)))"

text \<open>
  \<open>try: m except E: pass else: raise AssertionError\<close>, where \<open>p\<close> says which exceptions the
  handler accepts; \<open>check\<close> is the assertion in the handler.
\<close>

definition rejectedM :: "('s, 'a) comp \<Rightarrow> (exn \<Rightarrow> bool) \<Rightarrow> (exn \<Rightarrow> bool) \<Rightarrow> string \<Rightarrow> ('s, unit) comp" where
  "rejectedM m p check msg = handleM m (\<lambda>_. raiseM (AssertionError msg))
    (\<lambda>e. if p e then assertM (check e) msg else raiseM e)"

definition query_code :: "exn \<Rightarrow> json option" where
  "query_code e = (case e of QueryError c \<Rightarrow> Some c | ConstraintError c \<Rightarrow> Some c | SerializationError c \<Rightarrow> Some c
     | SessionError c \<Rightarrow> Some c | _ \<Rightarrow> None)"

definition has_code :: "string \<Rightarrow> exn \<Rightarrow> bool" where
  "has_code k e \<longleftrightarrow> query_code e = Some (JStr (lit k))"

section \<open>Certificates\<close>

definition path_join :: "pstr \<Rightarrow> pstr \<Rightarrow> pstr" where
  "path_join a b = a @ lit ''/'' @ b"

text \<open>\<open>check_mtls.run\<close>: a command that must succeed.\<close>

definition run_command :: "'w hostops \<Rightarrow> pstr list \<Rightarrow> ('x \<times> 'w, pstr \<times> pstr) comp" where
  "run_command H argv = bindM (worldM (ho_run H argv)) (\<lambda>(code, out, err).
    bindM (whenM (code \<noteq> 0) (RuntimeError ''Command failed: {argv[0]}'')) (\<lambda>_.
    retM (out, err)))"

definition make_ca :: "'w hostops \<Rightarrow> pstr \<Rightarrow> pstr \<Rightarrow> pstr \<Rightarrow> ('x \<times> 'w, unit) comp" where
  "make_ca H openssl directory name = bindM (run_command H [openssl, (lit ''req''), (lit ''-x509''), (lit ''-newkey''), (lit ''ed25519''), (lit ''-noenc''), (lit ''-days''), (lit ''2''),
      (lit ''-subj''), (lit ''/CN='' @ name), (lit ''-keyout''), path_join directory (name @ lit ''.key''),
      (lit ''-out''), path_join directory (name @ lit ''.pem''),
      (lit ''-addext''), (lit ''basicConstraints=critical,CA:TRUE''),
      (lit ''-addext''), (lit ''keyUsage=critical,keyCertSign,cRLSign'')]) (\<lambda>_.
    retM ())"

record leaf_options =
  lo_name :: pstr
  lo_dns :: pstr
  lo_issuer :: pstr
  lo_purpose :: pstr
  lo_san :: bool
  lo_days :: nat

definition leaf_extensions :: "leaf_options \<Rightarrow> pstr" where
  "leaf_extensions l = (lit ''basicConstraints=critical,CA:FALSE'' @ [10] @ lit ''keyUsage=critical,digitalSignature'' @ [10] @ lit ''extendedKeyUsage='' @ lo_purpose l @ [10])
     @ (if lo_san l then (lit ''subjectAltName=DNS:'' @ lo_dns l @ [10]) else [])"

definition make_leaf :: "'w hostops \<Rightarrow> pstr \<Rightarrow> pstr \<Rightarrow> leaf_options \<Rightarrow> ('x \<times> 'w, unit) comp" where
  "make_leaf H openssl directory l = (let name = lo_name l in
    bindM (run_command H [openssl, (lit ''req''), (lit ''-new''), (lit ''-newkey''), (lit ''ed25519''), (lit ''-noenc''), (lit ''-subj''), (lit ''/CN='' @ lo_dns l),
      (lit ''-keyout''), path_join directory (name @ lit ''.key''), (lit ''-out''), path_join directory (name @ lit ''.csr'')]) (\<lambda>_.
    bindM (worldM (ho_write H (path_join directory (name @ lit ''.ext'')) (leaf_extensions l))) (\<lambda>_.
    bindM (askM (ho_glob H directory (lit ''*.pem''))) (\<lambda>pems.
    bindM (run_command H [openssl, (lit ''x509''), (lit ''-req''), (lit ''-in''), path_join directory (name @ lit ''.csr''),
      (lit ''-CA''), path_join directory (lo_issuer l @ lit ''.pem''), (lit ''-CAkey''), path_join directory (lo_issuer l @ lit ''.key''),
      (lit ''-set_serial''), dec (length pems + 1), (lit ''-days''), dec (lo_days l),
      (lit ''-extfile''), path_join directory (name @ lit ''.ext''), (lit ''-out''), path_join directory (name @ lit ''.pem'')]) (\<lambda>_.
    retM ())))))"

definition leaf_new :: "pstr \<Rightarrow> pstr \<Rightarrow> leaf_options" where
  "leaf_new name dns = \<lparr>lo_name = name, lo_dns = dns, lo_issuer = (lit ''ca''), lo_purpose = (lit ''serverAuth,clientAuth''), lo_san = True, lo_days = 2\<rparr>"

definition certificate_leaves :: "leaf_options list" where
  "certificate_leaves =
    [leaf_new (lit ''server'') (lit ''node-1.test.sqlodin''),
     leaf_new (lit ''client'') (lit ''node-2.test.sqlodin''),
     (leaf_new (lit ''rogue'') (lit ''node-2.test.sqlodin''))\<lparr>lo_issuer := (lit ''rogue-ca'')\<rparr>,
     leaf_new (lit ''wildcard'') (lit ''*.test.sqlodin''),
     (leaf_new (lit ''cn-only'') (lit ''node-2.test.sqlodin''))\<lparr>lo_san := False\<rparr>,
     (leaf_new (lit ''wrong-purpose'') (lit ''node-2.test.sqlodin''))\<lparr>lo_purpose := (lit ''serverAuth'')\<rparr>,
     (leaf_new (lit ''expired'') (lit ''node-2.test.sqlodin''))\<lparr>lo_days := 0\<rparr>]"

definition certificates :: "'w hostops \<Rightarrow> pstr \<Rightarrow> pstr \<Rightarrow> ('x \<times> 'w, unit) comp" where
  "certificates H directory openssl = bindM (make_ca H openssl directory (lit ''ca'')) (\<lambda>_.
    bindM (make_ca H openssl directory (lit ''rogue-ca'')) (\<lambda>_.
    forM certificate_leaves (make_leaf H openssl directory)))"

definition generate :: "'w hostops \<Rightarrow> pstr \<Rightarrow> pstr \<Rightarrow> ('x \<times> 'w, unit) comp" where
  "generate H directory openssl = bindM (certificates H directory openssl) (\<lambda>_.
    bindM (forM [1, 2, 3] (\<lambda>node. (let name = (lit ''node'' @ dec node) in
      bindM (run_command H [openssl, (lit ''req''), (lit ''-new''), (lit ''-newkey''), (lit ''ed25519''), (lit ''-noenc''), (lit ''-subj''), (lit ''/CN='' @ name),
        (lit ''-keyout''), path_join directory (name @ lit ''.key''), (lit ''-out''), path_join directory (name @ lit ''.csr'')]) (\<lambda>_.
      let ext = path_join directory (name @ lit ''.ext'') in
      bindM (worldM (ho_write H ext (lit ''basicConstraints=critical,CA:FALSE'' @ [10] @ lit ''keyUsage=critical,digitalSignature'' @ [10] @ lit ''extendedKeyUsage=serverAuth,clientAuth'' @ [10] @ lit ''subjectAltName=DNS:'' @ name @ lit ''.sqlodin.test'' @ [10]))) (\<lambda>_.
      bindM (run_command H [openssl, (lit ''x509''), (lit ''-req''), (lit ''-in''), path_join directory (name @ lit ''.csr''),
        (lit ''-CA''), path_join directory (lit ''ca.pem''), (lit ''-CAkey''), path_join directory (lit ''ca.key''),
        (lit ''-set_serial''), dec (100 + node), (lit ''-days''), (lit ''2''), (lit ''-extfile''), ext,
        (lit ''-out''), path_join directory (name @ lit ''.pem'')]) (\<lambda>_.
      retM ())))))) (\<lambda>_.
    bindM (askM (ho_glob H directory (lit ''*.key''))) (\<lambda>keys.
    forM keys (\<lambda>path. worldM (ho_chmod H path)))))"

section \<open>The cluster\<close>

text \<open>
  What \<open>__init__\<close> fixes is a record of its own, an argument of the methods; the processes and logs change and
  are part of the state, beside the report of the script.
\<close>

record Member =
  mb_id :: nat
  mb_address :: pstr
  mb_identity :: pstr

record NetCluster =
  nc_root :: pstr
  nc_binary :: pstr
  nc_members :: "Member list"
  nc_namespace :: pstr
  nc_remote :: bool

record NetRun =
  nr_processes :: "(nat \<times> nat) list"
  nr_logs :: "nat list"
  nr_report :: report

type_synonym 'w nrstate = "NetRun \<times> 'w"

definition run_empty :: "report \<Rightarrow> NetRun" where
  "run_empty rep = \<lparr>nr_processes = [], nr_logs = [], nr_report = rep\<rparr>"

definition member_rv :: "Member \<Rightarrow> rv" where
  "member_rv m = RD [((lit ''id''), RI (int (mb_id m))), ((lit ''address''), RS (mb_address m)), ((lit ''identity''), RS (mb_identity m))]"

definition node_config :: "nat \<Rightarrow> pstr \<Rightarrow> pstr \<Rightarrow> Member list \<Rightarrow> Member \<Rightarrow> report" where
  "node_config storage_format maintenance home members m =
    (let node = mb_id m in
     [((lit ''storage_format''), RI (int storage_format)), ((lit ''maintenance''), RS maintenance), ((lit ''cluster''), RS (lit ''network-qualification'')),
      ((lit ''node''), RI (int node)), ((lit ''listen''), RS (mb_address m)), ((lit ''data''), RS (path_join home (lit ''data'' @ dec node))),
      ((lit ''certificate''), RS (path_join home (lit ''node'' @ dec node @ lit ''.pem''))), ((lit ''key''), RS (path_join home (lit ''node'' @ dec node @ lit ''.key''))),
      ((lit ''ca''), RS (path_join home (lit ''ca.pem''))), ((lit ''members''), RL (map member_rv members)), ((lit ''clients''), RL [RS (lit ''node-2.test.sqlodin'')])])"

definition net_cluster :: "'w hostops \<Rightarrow> pstr \<Rightarrow> pstr \<Rightarrow> pstr \<Rightarrow> nat \<Rightarrow> pstr \<Rightarrow> ('x \<times> 'w, NetCluster) comp" where
  "net_cluster H home binary openssl storage_format maintenance = bindM (generate H home openssl) (\<lambda>_.
    bindM (mapM (\<lambda>i. bindM (askM (ho_port H)) (\<lambda>p.
      retM \<lparr>mb_id = i, mb_address = (lit ''127.0.0.1:'' @ dec p), mb_identity = (lit ''node'' @ dec i @ lit ''.sqlodin.test'')\<rparr>)) [1, 2, 3]) (\<lambda>members.
    bindM (forM members (\<lambda>m. bindM (worldM (ho_mkdir H (path_join home (lit ''data'' @ (dec (mb_id m)))))) (\<lambda>_.
      worldM (ho_write H (path_join home (lit ''node'' @ (dec (mb_id m)) @ lit ''.json'')) (ho_dumps H (node_config storage_format maintenance home members m)))))) (\<lambda>_.
    retM \<lparr>nc_root = home, nc_binary = binary, nc_members = members, nc_namespace = (lit ''network-qualification''), nc_remote = False\<rparr>)))"

definition node_file :: "NetCluster \<Rightarrow> nat \<Rightarrow> string \<Rightarrow> pstr" where
  "node_file c node suffix = path_join (nc_root c) (lit ''node'' @ dec node @ lit suffix)"

definition net_start :: "'w hostops \<Rightarrow> NetCluster \<Rightarrow> nat \<Rightarrow> bool \<Rightarrow> ('w nrstate, unit) comp" where
  "net_start H c node create = bindM (worldM (ho_open_log H (node_file c node ''.log''))) (\<lambda>log_file.
    bindM (updM (\<lambda>r. r\<lparr>nr_logs := nr_logs r @ [log_file]\<rparr>)) (\<lambda>_.
    bindM (worldM (ho_popen H ([nc_binary c, (lit ''serve''), node_file c node ''.json''] @ (if create then [(lit ''--create'')] else [])) log_file)) (\<lambda>pid.
    bindM (updM (\<lambda>r. r\<lparr>nr_processes := AList.update node pid (nr_processes r)\<rparr>)) (\<lambda>_.
    bindM (effectM (sleep (ho_net H) (15 / 100))) (\<lambda>_.
    bindM (askM (ho_poll H pid)) (\<lambda>state.
    assertM (state = None) ''The log of the process''))))))"

definition net_stop :: "'w hostops \<Rightarrow> nat \<Rightarrow> ('w nrstate, unit) comp" where
  "net_stop H node = bindM objM (\<lambda>r.
    bindM ((case map_of (nr_processes r) node of None \<Rightarrow> raiseM KeyError | Some pid \<Rightarrow> retM pid)) (\<lambda>pid.
    bindM (askM (ho_poll H pid)) (\<lambda>state.
    bindM (ifM (state = None) (askM (ho_kill H pid))) (\<lambda>_.
    bindM (worldM (ho_wait H pid)) (\<lambda>_.
    retM ())))))"

definition net_close :: "'w hostops \<Rightarrow> ('w nrstate, unit) comp" where
  "net_close H = bindM objM (\<lambda>r.
    bindM (forM (map fst (nr_processes r)) (net_stop H)) (\<lambda>_.
    forM (nr_logs r) (\<lambda>l. askM (ho_close_log H l))))"

definition net_tls :: "NetCluster \<Rightarrow> pstr \<Rightarrow> pstr \<Rightarrow> TLS" where
  "net_tls c cert key = \<lparr>tls_ca = path_join (nc_root c) (lit ''ca.pem''), tls_cert = path_join (nc_root c) (cert @ lit ''.pem''),
     tls_key = path_join (nc_root c) (key @ lit ''.key'')\<rparr>"

definition net_endpoints :: "NetCluster \<Rightarrow> nat list \<Rightarrow> Endpoint list" where
  "net_endpoints c nodes = map (\<lambda>m. \<lparr>ep_address = mb_address m, ep_server_name = mb_identity m\<rparr>)
     (filter (\<lambda>m. mb_id m \<in> set nodes) (nc_members c))"

definition net_connect :: "'w hostops \<Rightarrow> NetCluster \<Rightarrow> nat list \<Rightarrow> rat \<Rightarrow> PendingWrite option \<Rightarrow> ('x \<times> 'w, Connection) comp" where
  "net_connect H c nodes timeout pending =
    worldM (connection_new (ho_net H) (net_endpoints c nodes) (nc_namespace c) (net_tls c (lit ''client'') (lit ''client'')) timeout pending)"

definition net_with :: "'w hostops \<Rightarrow> NetCluster \<Rightarrow> nat list \<Rightarrow> rat \<Rightarrow> PendingWrite option
    \<Rightarrow> ((Connection \<times> 'x) \<times> 'w, 'a) comp \<Rightarrow> ('x \<times> 'w, 'a) comp" where
  "net_with H c nodes timeout pending body = with_db (ho_net H) (net_connect H c nodes timeout pending) body"

section \<open>Waiting for a node\<close>

text \<open>
  \<open>ready\<close>: one attempt, then the loop. The attempt's own timeout is at most two seconds; an
  exhausted budget makes the client refuse it with a \<open>ValueError\<close>, as the code does.
\<close>

definition ready_attempt :: "'w hostops \<Rightarrow> NetCluster \<Rightarrow> nat \<Rightarrow> rat \<Rightarrow> rat \<Rightarrow> ('x \<times> 'w, rat option) comp" where
  "ready_attempt H c node seconds start = tryM (bindM (clockM (ho_net H)) (\<lambda>now.
      net_with H c [node] (min 2 (seconds - (now - start))) None (bindM (assert_scalar (ho_net H) (lit ''SELECT 1'') [] 1) (\<lambda>_.
        bindM (clockM (ho_net H)) (\<lambda>ended.
        retM (Some (ended - start)))))))
    (\<lambda>e. if is_ConnectionError e then bindM (effectM (sleep (ho_net H) (2 / 100))) (\<lambda>_. retM None) else raiseM e)"

definition node_ready :: "'w hostops \<Rightarrow> NetCluster \<Rightarrow> nat \<Rightarrow> rat \<Rightarrow> ('x \<times> 'w, rat) comp" where
  "node_ready H c node seconds = bindM (clockM (ho_net H)) (\<lambda>start.
    bindM (whileM (bindM (clockM (ho_net H)) (\<lambda>now. retM (now - start < seconds))) (ready_attempt H c node seconds start)) (\<lambda>r.
    (case r of Some elapsed \<Rightarrow> retM elapsed | None \<Rightarrow> raiseM (TimeoutError ''Node {node} not quorum-ready: {last}''))))"

text \<open>\<open>report[key] = value\<close> and \<open>record(name)\<close>, which also prints.\<close>

definition put_report :: "pstr \<Rightarrow> rv \<Rightarrow> ('w nrstate, unit) comp" where
  "put_report k v = updM (\<lambda>r. r\<lparr>nr_report := AList.update k v (nr_report r)\<rparr>)"

text \<open>\<open>report[key][name] = value\<close>\<close>

definition put_sub :: "pstr \<Rightarrow> pstr \<Rightarrow> rv \<Rightarrow> ('w nrstate, unit) comp" where
  "put_sub k name v = bindM objM (\<lambda>r.
    (case map_of (nr_report r) k of
       None \<Rightarrow> raiseM KeyError
     | Some (RD d) \<Rightarrow> put_report k (RD (AList.update name v d))
     | Some _ \<Rightarrow> raiseM (TypeError ''object does not support item assignment'')))"

text \<open>An entry of the dictionary that was last appended to \<open>report[list]\<close>: the script holds a reference to it.\<close>

definition last_entry :: "report \<Rightarrow> pstr \<Rightarrow> (pstr \<times> rv) list res" where
  "last_entry rep k = (case map_of rep k of None \<Rightarrow> Inl KeyError
     | Some (RL xs) \<Rightarrow> if xs = [] then Inl IndexError else (case last xs of RD d \<Rightarrow> Inr d | _ \<Rightarrow> Inl (TypeError ''not a dict''))
     | Some _ \<Rightarrow> Inl (TypeError ''not a list''))"

definition append_entry :: "pstr \<Rightarrow> rv \<Rightarrow> ('w nrstate, unit) comp" where
  "append_entry k v = bindM objM (\<lambda>r.
    (case map_of (nr_report r) k of
       None \<Rightarrow> raiseM KeyError
     | Some (RL xs) \<Rightarrow> put_report k (RL (xs @ [v]))
     | Some _ \<Rightarrow> raiseM AttributeError))"

definition put_entry :: "pstr \<Rightarrow> pstr \<Rightarrow> rv \<Rightarrow> ('w nrstate, unit) comp" where
  "put_entry k name v = bindM objM (\<lambda>r.
    bindM (liftR (last_entry (nr_report r) k)) (\<lambda>d.
    (case map_of (nr_report r) k of
       Some (RL xs) \<Rightarrow> put_report k (RL (butlast xs @ [RD (AList.update name v d)]))
     | _ \<Rightarrow> raiseM KeyError)))"

definition bump_entry :: "pstr \<Rightarrow> pstr \<Rightarrow> ('w nrstate, unit) comp" where
  "bump_entry k name = bindM objM (\<lambda>r.
    bindM (liftR (last_entry (nr_report r) k)) (\<lambda>d.
    (case map_of d name of
       Some (RI n) \<Rightarrow> put_entry k name (RI (n + 1))
     | _ \<Rightarrow> raiseM KeyError)))"

definition record_check :: "string \<Rightarrow> ('w nrstate, unit) comp" where
  "record_check name = append_entry (lit ''checks'') (RD [((lit ''name''), RS (lit name)), ((lit ''passed''), RB True)])"

section \<open>Scripts\<close>

text \<open>
  What every campaign script does around its body: a temporary directory on a real file system, a
  report that names the error of a failed run and is written on every way out, the tails of the
  logs.
\<close>

definition reportedM :: "'w hostops \<Rightarrow> ('w nrstate, unit) comp \<Rightarrow> ('w nrstate, unit) comp \<Rightarrow> ('w nrstate, unit) comp" where
  "reportedM H body save = finallyM
    (tryM body (\<lambda>e. bindM (put_report (lit ''error'') (RS (ho_repr H e))) (\<lambda>_. raiseM e)))
    save"

definition save_report :: "'w hostops \<Rightarrow> pstr \<Rightarrow> ('w nrstate, unit) comp" where
  "save_report H output = bindM objM (\<lambda>r. worldM (ho_write H output (ho_dumps H (nr_report r) @ [10])))"

text \<open>\<open>path.parent.mkdir(parents=True, exist_ok=True)\<close>\<close>

definition parent_of :: "pstr \<Rightarrow> pstr" where
  "parent_of p = (let d = rev (tl (dropWhile (\<lambda>c. c \<noteq> 47) (rev p))) in if 47 \<notin> set p then (lit ''.'') else if d = [] then (lit ''/'') else d)"

definition make_parent :: "'w hostops \<Rightarrow> pstr \<Rightarrow> ('x \<times> 'w, unit) comp" where
  "make_parent H path = worldM (ho_mkdir H (parent_of path))"

definition resolveM :: "'w hostops \<Rightarrow> pstr \<Rightarrow> ('x \<times> 'w, pstr) comp" where
  "resolveM H path = askM (ho_resolve H path)"

definition temp_dirM :: "'w hostops \<Rightarrow> pstr \<Rightarrow> (pstr \<Rightarrow> ('x \<times> 'w, 'a) comp) \<Rightarrow> ('x \<times> 'w, 'a) comp" where
  "temp_dirM H parent body = bindM (worldM (ho_mkdtemp H parent)) (\<lambda>d. finallyM (body d) (worldM (ho_rmtree H d)))"

definition check_output :: "'w hostops \<Rightarrow> pstr list \<Rightarrow> ('x \<times> 'w, pstr) comp" where
  "check_output H argv = bindM (worldM (ho_run H argv)) (\<lambda>(code, out, err).
    if code \<noteq> 0 then raiseM CalledProcessError else retM out)"

definition first_item :: "json \<Rightarrow> json res" where
  "first_item j = (case j of JList (x # _) \<Rightarrow> Inr x | JList [] \<Rightarrow> Inl IndexError | JObj _ \<Rightarrow> Inl KeyError
     | _ \<Rightarrow> Inl (TypeError ''object is not subscriptable''))"

definition check_filesystem :: "'w hostops \<Rightarrow> pstr \<Rightarrow> ('w nrstate, unit) comp" where
  "check_filesystem H directory = bindM (check_output H [(lit ''findmnt''), (lit ''-J''), (lit ''-T''), directory]) (\<lambda>out.
    bindM (liftR (ho_loads H out)) (\<lambda>document.
    bindM (put_report (lit ''filesystem'') (RJ document)) (\<lambda>_.
    bindM (liftR (bindR (bindR (field document ''filesystems'') first_item) (\<lambda>f. field f ''fstype''))) (\<lambda>kind.
    assertM (kind \<noteq> JStr (lit ''tmpfs'') \<and> kind \<noteq> JStr (lit ''ramfs'')) ''A real file system is required''))))"

text \<open>\<open>text[-n:]\<close> and the file name of a path.\<close>

definition tail_of :: "nat \<Rightarrow> pstr \<Rightarrow> pstr" where
  "tail_of n s = drop (length s - n) s"

definition base_name :: "pstr \<Rightarrow> pstr" where
  "base_name p = rev (takeWhile (\<lambda>c. c \<noteq> 47) (rev p))"

definition log_tails :: "'w hostops \<Rightarrow> pstr \<Rightarrow> pstr \<Rightarrow> (pstr \<Rightarrow> pstr) \<Rightarrow> ('w nrstate, unit) comp" where
  "log_tails H home pattern shorten = bindM (askM (ho_glob H home pattern)) (\<lambda>paths.
    bindM (mapM (\<lambda>p. bindM (worldM (ho_read H p)) (\<lambda>contents. retM (base_name p, RS (shorten contents)))) paths) (\<lambda>logs.
    put_report (lit ''logs'') (RD logs)))"

text \<open>\<open>{str(p.relative_to(root)): sha256(p)}\<close> over the files under some folders.\<close>

definition ends_with :: "pstr \<Rightarrow> string \<Rightarrow> bool" where
  "ends_with s suffix \<longleftrightarrow> drop (length s - length suffix) s = lit suffix"

definition source_digests :: "'w hostops \<Rightarrow> pstr \<Rightarrow> pstr list \<Rightarrow> (pstr \<Rightarrow> bool) \<Rightarrow> ('x \<times> 'w, rv) comp" where
  "source_digests H home folders want = bindM (mapM (\<lambda>d. askM (ho_rglob H (path_join home d))) folders) (\<lambda>found.
    bindM (mapM (\<lambda>p. bindM (worldM (ho_sha256 H p)) (\<lambda>h. retM (drop (length home + 1) p, RS h))) (filter want (concat found))) (\<lambda>entries.
    retM (RD entries)))"

text \<open>
  The common frame of the campaigns: a fresh cluster in a temporary directory, closed with its log
  tails kept on every way out, then what the script does after its run.
\<close>

definition campaignM :: "'w hostops \<Rightarrow> pstr \<Rightarrow> pstr \<Rightarrow> ('w nrstate, pstr) comp \<Rightarrow> pstr \<Rightarrow> pstr \<Rightarrow> nat \<Rightarrow> (NetCluster \<Rightarrow> ('w nrstate, unit) comp)
    \<Rightarrow> ('w nrstate, unit) comp \<Rightarrow> ('w nrstate, unit) comp" where
  "campaignM H project folder binary openssl maintenance keep body after = (let work_root = path_join project folder in
    bindM (worldM (ho_mkdir H work_root)) (\<lambda>_.
    reportedM H (temp_dirM H work_root (\<lambda>home. bindM (ifM (ho_linux H) (check_filesystem H home)) (\<lambda>_.
        bindM binary (\<lambda>resolved.
        bindM (net_cluster H home resolved openssl 5 maintenance) (\<lambda>c.
        finallyM (body c)
          (bindM (net_close H) (\<lambda>_. log_tails H home (lit ''*.log'') (tail_of keep))))))))
      after))"

definition put_sources :: "'w hostops \<Rightarrow> pstr \<Rightarrow> ('w nrstate, unit) comp" where
  "put_sources H project = bindM (source_digests H project [(lit ''src''), (lit ''service''), (lit ''cli''), (lit ''transport'')] (\<lambda>p. ends_with p ''.odin'')) (\<lambda>sources.
    put_report (lit ''sources'') sources)"

definition start_all :: "'w hostops \<Rightarrow> NetCluster \<Rightarrow> bool \<Rightarrow> ('w nrstate, unit) comp" where
  "start_all H c create = forM [1, 2, 3] (\<lambda>node. net_start H c node create)"

definition ready_all :: "'w hostops \<Rightarrow> NetCluster \<Rightarrow> ('x \<times> 'w, unit) comp" where
  "ready_all H c = forM [1, 2, 3] (\<lambda>node. bindM (node_ready H c node 60) (\<lambda>_. retM ()))"

definition complete_report :: "('w nrstate, unit) comp" where
  "complete_report = bindM (put_report (lit ''complete'') (RB True)) (\<lambda>_. put_report (lit ''passed'') (RB True))"

end
