(* ===== verification/Network_Checks.thy ===== *)
theory Network_Checks
  imports Net_Cluster
begin

text \<open>
  \<open>tools/check_network_service.py\<close>: the qualification of the native service through the client,
  as the script runs it against three voters. The six writers of \<open>concurrent_checks\<close> run one after the
  other.
\<close>

abbreviation all_nodes :: "nat list" where
  "all_nodes \<equiv> [1, 2, 3]"

section \<open>Command line\<close>

definition cli_config :: "NetCluster \<Rightarrow> Member \<Rightarrow> report" where
  "cli_config c m = [((lit ''cluster''), RS (lit ''network-qualification'')), ((lit ''address''), RS (mb_address m)), ((lit ''identity''), RS (mb_identity m)),
     ((lit ''certificate''), RS (path_join (nc_root c) (lit ''client.pem''))), ((lit ''key''), RS (path_join (nc_root c) (lit ''client.key''))),
     ((lit ''ca''), RS (path_join (nc_root c) (lit ''ca.pem'')))]"

definition cli_requests :: "report list" where
  "cli_requests =
    [[((lit ''op''), RS (lit ''status''))],
     [((lit ''op''), RS (lit ''execute'')), ((lit ''session''), RS (replicate 32 50)), ((lit ''sequence''), RI 1),
      ((lit ''sql''), RS (lit ''CREATE TABLE cli_test(id INTEGER PRIMARY KEY)''))],
     [((lit ''op''), RS (lit ''query'')), ((lit ''sql''), RS (lit ''SELECT count(*) AS n FROM cli_test''))]]"

definition cli_checks :: "'w hostops \<Rightarrow> NetCluster \<Rightarrow> ('w nrstate, unit) comp" where
  "cli_checks H c = bindM (liftR (nth_res (nc_members c) 0)) (\<lambda>m.
    let cfgpath = path_join (nc_root c) (lit ''client.json'') in
    let reqpath = path_join (nc_root c) (lit ''request.json'') in
    bindM (worldM (ho_write H cfgpath (ho_dumps H (cli_config c m)))) (\<lambda>_.
    bindM (forM cli_requests (\<lambda>request. bindM (worldM (ho_write H reqpath (ho_dumps H request))) (\<lambda>_.
      bindM (worldM (ho_run H [nc_binary c, (lit ''request''), cfgpath, reqpath])) (\<lambda>(code, out, err).
      bindM (assertM (code = 0) ''result.stderr + result.stdout'') (\<lambda>_.
      bindM (liftR (ho_loads H out)) (\<lambda>response.
      bindM (liftR (field response ''status'')) (\<lambda>state.
      bindM (assertM (state = JStr (lit ''ok'')) ''response status'') (\<lambda>_.
      ifM (map_of request (lit ''op'') = Some (RS (lit ''query''))) (bindM (liftR (bindR (bindR (bindR (field response ''rows'') first_item) first_item) (\<lambda>cell. field cell ''integer''))) (\<lambda>n.
        assertM (num_eq n 0) ''rows'')))))))))) (\<lambda>_.
    record_check ''native_cli_status_write_and_query'')))"

section \<open>Security\<close>

text \<open>A \<open>Transport\<close> of its own, closed on every way out.\<close>

definition transportM :: "'w netops \<Rightarrow> TLS \<Rightarrow> (Transport \<times> 'w, 'a) comp \<Rightarrow> ('x \<times> 'w, 'a) comp" where
  "transportM N tls body = bindM (worldM (tls_context N tls)) (\<lambda>ctx.
    (\<lambda>(x, w). case finallyM body (transport_close N) (transport_new ctx, w) of
       None \<Rightarrow> None | Some (r, (_, w')) \<Rightarrow> Some (r, (x, w'))))"

definition status_request :: dict where
  "status_request = [((lit ''protocol''), JInt 1), ((lit ''cluster''), JStr (lit ''network-qualification'')), ((lit ''op''), JStr (lit ''status''))]"

definition nested_request :: pbytes where
  "nested_request = (lit ''{'' @ [34] @ lit ''op'' @ [34] @ lit '':'' @ [34] @ lit ''status'' @ [34] @ lit '','' @ [34] @ lit ''junk'' @ [34] @ lit '':'') @ replicate 4096 91 @ [48] @ replicate 4096 93 @ (lit ''}'')"

definition bad_frames :: "pbytes list" where
  "bad_frames = [le32 0, le32 65537, le32 1 @ (lit ''{''), le32 (length nested_request) @ nested_request]"

definition send_bad_frame :: "'w hostops \<Rightarrow> Endpoint \<Rightarrow> pbytes \<Rightarrow> ('x \<times> 'w, unit) comp" where
  "send_bad_frame H endpoint bytes = (let N = ho_net H in
    bindM (liftR (socket_address (unicode N) endpoint)) (\<lambda>address.
    bindM (worldM (sock_connect N address 2)) (\<lambda>raw.
    bindM (worldM (sock_wrap N raw (ep_server_name endpoint))) (\<lambda>peer.
    finallyM (bindM (worldM (sock_send N peer bytes)) (\<lambda>_.
        tryM (bindM (worldM (sock_recv N peer 1)) (\<lambda>reply.
            assertM (reply = []) ''peer.recv(1)''))
          (\<lambda>e. if ho_tls_reset H e then retM () else raiseM e)))
      (effectM (sock_close N peer))))))"

definition security_checks :: "'w hostops \<Rightarrow> NetCluster \<Rightarrow> ('w nrstate, unit) comp" where
  "security_checks H c = (let N = ho_net H in
    bindM (liftR (nth_res (nc_members c) 0)) (\<lambda>member.
    let endpoint = \<lparr>ep_address = mb_address member, ep_server_name = mb_identity member\<rparr> in
    bindM (forM [(lit ''rogue''), (lit ''server''), (lit ''node2'')] (\<lambda>cert.
      transportM N (net_tls c cert cert) (bindM (clockM N) (\<lambda>now.
        rejectedM (exchange N endpoint status_request (now + 2)) is_ConnectionError (\<lambda>_. True) ''Unauthorized identity/role accepted'')))) (\<lambda>_.
    bindM (record_check ''untrusted_unlisted_and_peer_as_client_rejected'') (\<lambda>_.
    bindM (worldM (tls_context N (net_tls c (lit ''client'') (lit ''client'')))) (\<lambda>_.
    bindM (forM bad_frames (send_bad_frame H endpoint)) (\<lambda>_.
    bindM (net_with H c all_nodes 10 None (assert_scalar N (lit ''SELECT count(*) FROM account'') [] 3)) (\<lambda>_.
    record_check ''malformed_frames_close_only_offending_connection'')))))))"

section \<open>Concurrent sessions\<close>

definition counter_writer :: "'w hostops \<Rightarrow> NetCluster \<Rightarrow> nat \<Rightarrow> ('x \<times> 'w, unit) comp" where
  "counter_writer H c i = (let N = ho_net H in
    net_with H c [i mod 3 + 1] 30 None (forM [0..<20] (\<lambda>_. bindM (run_sql N (lit ''UPDATE counters SET n=n+1 WHERE id=?'') [VInt (int i)]) (\<lambda>_.
      bindM (scalar_sql N (lit ''SELECT n FROM counters WHERE id=?'') [VInt (int i)]) (\<lambda>cell.
      bindM (liftR (case cell of CJson (JInt n) \<Rightarrow> Inr n | _ \<Rightarrow> Inl (TypeError ''not supported between these instances''))) (\<lambda>n.
      assertM (1 \<le> n) ''n''))))))"

definition concurrent_checks :: "'w hostops \<Rightarrow> NetCluster \<Rightarrow> ('w nrstate, unit) comp" where
  "concurrent_checks H c = (let N = ho_net H in
    bindM (net_with H c all_nodes 10 None (bindM (run_sql N (lit ''CREATE TABLE counters(id INTEGER PRIMARY KEY, n INTEGER);'') []) (\<lambda>_.
      forM [0..<6] (\<lambda>i. bindM (run_sql N (lit ''INSERT INTO counters VALUES(?, 0)'') [VInt (int i)]) (\<lambda>_. retM ()))))) (\<lambda>_.
    bindM (forM [0..<6] (counter_writer H c)) (\<lambda>_.
    bindM (net_with H c all_nodes 10 None (bindM (read_sql N (lit ''SELECT n FROM counters ORDER BY id'') []) (\<lambda>rows.
      bindM (liftR (mapR (\<lambda>r. row_getitem r (KStr (lit ''n''))) (rows_rows rows))) (\<lambda>values.
      assertM (length values = 6 \<and> list_all (\<lambda>v. cell_is v 20) values) ''counters'')))) (\<lambda>_.
    record_check ''six_concurrent_sessions_mixed_writes_and_fenced_reads''))))"

section \<open>Lifecycle\<close>

definition lifecycle_checks :: "'w hostops \<Rightarrow> NetCluster \<Rightarrow> ('w nrstate, unit) comp" where
  "lifecycle_checks H c = bindM objM (\<lambda>r.
    bindM ((case map_of (nr_processes r) 1 of None \<Rightarrow> raiseM KeyError | Some pid \<Rightarrow> retM pid)) (\<lambda>pid.
    bindM (askM (ho_terminate H pid)) (\<lambda>_.
    bindM (worldM (ho_wait H pid)) (\<lambda>code.
    bindM (assertM (code = 0) ''wait'') (\<lambda>_.
    bindM (askM (ho_glob H (path_join (nc_root c) (lit ''data1'')) (lit ''node.db*''))) (\<lambda>files.
    bindM (mapM (\<lambda>p. worldM (ho_sha256 H p)) files) (\<lambda>before.
    bindM (worldM (ho_run H [nc_binary c, (lit ''serve''), node_file c 1 ''.json'', (lit ''--create'')])) (\<lambda>(created, out, err).
    bindM (assertM (created = 1) ''result.stdout + result.stderr'') (\<lambda>_.
    bindM (mapM (\<lambda>p. worldM (ho_sha256 H p)) files) (\<lambda>later.
    bindM (assertM (later = before) ''files changed'') (\<lambda>_.
    bindM (net_start H c 1 False) (\<lambda>_.
    bindM (net_with H c [1] 20 None (assert_scalar (ho_net H) (lit ''SELECT SUM(amount) FROM account'') [] 312)) (\<lambda>_.
    record_check ''graceful_shutdown_and_exclusive_creation'')))))))))))))"

section \<open>The checks in order\<close>

definition check_schema :: "'w netops \<Rightarrow> ((Connection \<times> NetRun) \<times> 'w, unit) comp" where
  "check_schema N = bindM (run_sql N (lit ''CREATE TABLE account(id INTEGER PRIMARY KEY, amount INTEGER CHECK(amount>=0), name TEXT);'') []) (\<lambda>_.
    bindM (upM (record_check ''native_cluster_schema'')) (\<lambda>_.
    bindM (rejectedM (run_sql N (lit ''CREATE TABLE ambiguous(rowid,_rowid_,oid); INSERT INTO account VALUES(99,1,'' @ [39] @ lit ''reject'' @ [39] @ lit '')'') [])
      is_QueryError (has_code ''Policy'') ''Snapshot-incompatible schema was acknowledged'') (\<lambda>_.
    bindM (assert_scalar N (lit ''SELECT count(*) FROM sqlite_schema WHERE name='' @ [39] @ lit ''ambiguous'' @ [39]) [] 0) (\<lambda>_.
    bindM (assert_scalar N (lit ''SELECT count(*) FROM account WHERE id=99'') [] 0) (\<lambda>_.
    bindM (dbM (status N)) (\<lambda>state.
    bindM (liftR (field (JObj state) ''policy'')) (\<lambda>policy.
    bindM (assertM (num_eq policy 9) ''policy'') (\<lambda>_.
    upM (record_check ''schema_policy_rejects_complete_request_before_snapshot_failure'')))))))))"

definition check_rows :: "'w hostops \<Rightarrow> NetCluster \<Rightarrow> ((Connection \<times> NetRun) \<times> 'w, unit) comp" where
  "check_rows H c = (let N = ho_net H in
    bindM (forM all_nodes (\<lambda>node. net_with H c [node] 10 None (bindM (run_sql N (lit ''INSERT INTO account VALUES(?, ?, ?)'') [VInt (int node), VInt 100, VStr (lit ''node-'' @ dec node)]) (\<lambda>_.
      retM ())))) (\<lambda>_.
    bindM (read_sql N (lit ''SELECT id, amount, name FROM account ORDER BY id'') []) (\<lambda>rows.
    bindM (liftR (mapR (\<lambda>r. row_getitem r (KStr (lit ''id''))) (rows_rows rows))) (\<lambda>ids.
    bindM (assertM (length ids = 3 \<and> list_all2 cell_is ids [1, 2, 3]) ''ids'') (\<lambda>_.
    bindM (liftR (bindR (rows_getitem rows 1) (\<lambda>r. row_getitem r (KInt 2)))) (\<lambda>name.
    bindM (assertM (name = CJson (JStr (lit ''node-2''))) ''name'') (\<lambda>_.
    bindM (upM (record_check ''write_any_node_fenced_rows'')) (\<lambda>_.
    bindM (read_sql N (lit ''SELECT ? AS txt, ? AS big, ? AS nil, ? AS real, X'' @ [39] @ lit ''00FF'' @ [39] @ lit '' AS blob'')
      [VStr [97, 0, 98], VInt (2 ^ 63 - 1), VNone, VFloat (Finite False (5 * 2 ^ 1072))]) (\<lambda>typed.
    bindM (liftR (rows_one typed)) (\<lambda>row.
    bindM (assertM (case as_tuple row of [c1, c2, c3, c4, c5] \<Rightarrow> c1 = CJson (JStr [97, 0, 98]) \<and> cell_is c2 (2 ^ 63 - 1)
        \<and> c3 = CJson JNull \<and> c4 = CJson (JFloat (Finite False (5 * 2 ^ 1072))) \<and> c5 = CBlob [0, 255] | _ \<Rightarrow> False) ''row'') (\<lambda>_.
    upM (record_check ''typed_parameters_and_results''))))))))))))"

definition check_batch :: "'w netops \<Rightarrow> ((Connection \<times> NetRun) \<times> 'w, unit) comp" where
  "check_batch N = bindM (dbM (atomic N [(VStr (lit ''UPDATE account SET amount=amount-? WHERE id=?''), PSeq [VInt 10, VInt 1]),
      (VStr (lit ''UPDATE account SET amount=amount+? WHERE id=?''), PSeq [VInt 10, VInt 2])])) (\<lambda>result.
    bindM ((case result of None \<Rightarrow> raiseM AttributeError | Some r \<Rightarrow> retM r)) (\<lambda>r.
    bindM (assertM (wr_changes r = 2) ''changes'') (\<lambda>_.
    bindM (assert_scalar N (lit ''SELECT amount FROM account WHERE id=?'') [VInt 1] 90) (\<lambda>_.
    bindM (rejectedM (dbM (atomic N [(VStr (lit ''UPDATE account SET amount=amount-? WHERE id=?''), PSeq [VInt 1000, VInt 1]),
        (VStr (lit ''UPDATE account SET amount=amount+? WHERE id=?''), PSeq [VInt 1000, VInt 2])]))
      (\<lambda>e. case e of ConstraintError _ \<Rightarrow> True | _ \<Rightarrow> False) (\<lambda>_. True) ''Constraint should reject complete batch'') (\<lambda>_.
    bindM (assert_scalar N (lit ''SELECT SUM(amount) FROM account'') [] 300) (\<lambda>_.
    upM (record_check ''atomic_batch_rollback_and_next_sequence'')))))))"

definition check_read_policy :: "'w netops \<Rightarrow> ((Connection \<times> NetRun) \<times> 'w, unit) comp" where
  "check_read_policy N = bindM (forM [(lit ''SELECT 1; SELECT 2;''), (lit ''DELETE FROM account''), (lit ''SELECT * FROM _sqlodin_sessions'')] (\<lambda>sql.
      rejectedM (read_sql N sql []) is_QueryError (\<lambda>_. True) ''Read policy accepted'')) (\<lambda>_.
    bindM (rejectedM (read_sql N (lit ''WITH RECURSIVE x(n) AS (VALUES(1) UNION ALL SELECT n+1 FROM x WHERE n<5000) SELECT n FROM x'') [])
      is_QueryError (has_code ''Query_Limit'') ''Expected bounded result rejection'') (\<lambda>_.
    upM (record_check ''readonly_policy_and_result_limit'')))"

definition check_local_pragma :: "'w netops \<Rightarrow> ((Connection \<times> NetRun) \<times> 'w, unit) comp" where
  "check_local_pragma N = bindM (forM [(lit ''PrAgMa_data_version''), (lit ''PRAGMA_DATA_VERSION'')] (\<lambda>module.
      rejectedM (run_sql N (lit ''INSERT INTO account(id,amount,name) SELECT 999,data_version,'' @ [39] @ lit ''local'' @ [39] @ lit '' FROM '' @ module) [])
        is_QueryError (has_code ''Policy'') ''Mixed-case local pragma entered replicated data'')) (\<lambda>_.
    bindM (rejectedM (run_sql N (lit ''INSERT INTO account VALUES(999,1,'' @ [39] @ lit ''discarded'' @ [39] @ lit '') RETURNING id'') [])
      is_QueryError (has_code ''Policy'') ''Write API silently discarded RETURNING results'') (\<lambda>_.
    assert_scalar N (lit ''SELECT count(*) FROM account WHERE id=999'') [] 0))"

text \<open>The same identity through every master; it changes the row once.\<close>

definition transfer_pending :: "nat \<Rightarrow> int \<Rightarrow> int \<Rightarrow> int \<Rightarrow> PendingWrite res" where
  "transfer_pending digit amount node epoch = pending_write (JStr (replicate 32 digit)) (JInt 1)
     (JStr (lit ''UPDATE account SET amount=amount+?1 WHERE id=?2'')) [VInt amount, VInt node] (JInt 0) (JInt epoch)"

definition check_deduplication :: "'w hostops \<Rightarrow> NetCluster \<Rightarrow> ('w nrstate, unit) comp" where
  "check_deduplication H c = (let N = ho_net H in
    bindM (liftR (transfer_pending 49 7 3 0)) (\<lambda>pending.
    bindM (forM all_nodes (\<lambda>node. net_with H c [node] 10 (Some pending) (bindM (dbM (resolve_pending N)) (\<lambda>r.
      assertM (wr_changes r = 1) ''changes'')))) (\<lambda>_.
    bindM (net_with H c all_nodes 10 None (assert_scalar N (lit ''SELECT amount FROM account WHERE id=3'') [] 107)) (\<lambda>_.
    record_check ''cross_master_durable_deduplication''))))"

definition unknown_pending :: "exn \<Rightarrow> PendingWrite option" where
  "unknown_pending e = (case e of UnknownOutcome p \<Rightarrow> Some p | _ \<Rightarrow> None)"

definition minority_block :: "'w netops \<Rightarrow> ((Connection \<times> 'x) \<times> 'w, PendingWrite) comp" where
  "minority_block N = bindM (handleM (dbM (resolve_pending N)) (\<lambda>_. raiseM (AssertionError ''Minority write acknowledged''))
      (\<lambda>e. case unknown_pending e of None \<Rightarrow> raiseM e | Some p \<Rightarrow> bindM (liftR (pending_from_json (float_parse N) (pending_to_json p))) (\<lambda>saved.
        bindM (dbM connM) (\<lambda>db.
        bindM (assertM (c_pending db = Some saved) ''saved'') (\<lambda>_.
        retM saved))))) (\<lambda>saved.
    bindM (rejectedM (run_sql N (lit ''DELETE FROM account'') []) (\<lambda>e. case e of PendingWriteError _ \<Rightarrow> True | _ \<Rightarrow> False) (\<lambda>_. True)
      ''Pending identity was abandoned'') (\<lambda>_.
    bindM (rejectedM (read_sql N (lit ''SELECT count(*) FROM account'') []) is_ConnectionError (\<lambda>_. True) ''Minority fenced read completed'') (\<lambda>_.
    bindM (dbM (query N (VStr (lit ''SELECT count(*) FROM account'')) (PSeq []) (lit ''local''))) (\<lambda>rows.
    bindM (liftR (rows_scalar rows)) (\<lambda>n.
    bindM (assertM (cell_is n 3) ''local read'') (\<lambda>_.
    retM saved))))))"

definition check_minority :: "'w hostops \<Rightarrow> NetCluster \<Rightarrow> ('w nrstate, unit) comp" where
  "check_minority H c = (let N = ho_net H in
    bindM (net_with H c [1] 10 None (dbM (session_epoch N))) (\<lambda>epoch.
    bindM (liftR (transfer_pending 51 5 1 epoch)) (\<lambda>isolated.
    bindM (net_stop H 2) (\<lambda>_.
    bindM (net_stop H 3) (\<lambda>_.
    bindM (net_with H c [1] (8 / 10) (Some isolated) (minority_block N)) (\<lambda>saved.
    bindM (record_check ''minority_no_ack_and_explicit_stale_read'') (\<lambda>_.
    bindM (net_start H c 2 False) (\<lambda>_.
    bindM (net_start H c 3 False) (\<lambda>_.
    bindM (net_with H c all_nodes 20 (Some saved) (bindM (dbM (resolve_pending N)) (\<lambda>_.
      assert_scalar N (lit ''SELECT amount FROM account WHERE id=1'') [] 95))) (\<lambda>_.
    record_check ''recover_uncertain_write_after_quorum_restored''))))))))))"

definition check_restart :: "'w hostops \<Rightarrow> NetCluster \<Rightarrow> ('w nrstate, unit) comp" where
  "check_restart H c = bindM (forM all_nodes (net_stop H)) (\<lambda>_.
    bindM (forM all_nodes (\<lambda>node. net_start H c node False)) (\<lambda>_.
    bindM (forM all_nodes (\<lambda>node. net_with H c [node] 20 None (assert_scalar (ho_net H) (lit ''SELECT SUM(amount) FROM account'') [] 312))) (\<lambda>_.
    record_check ''all_process_sigkill_reopen_fenced_convergence'')))"

definition network_checks :: "'w hostops \<Rightarrow> NetCluster \<Rightarrow> ('w nrstate, unit) comp" where
  "network_checks H c = (let N = ho_net H in
    bindM (forM all_nodes (\<lambda>node. net_start H c node True)) (\<lambda>_.
    bindM (effectM (sleep N 2)) (\<lambda>_.
    bindM (ifM (\<not> nc_remote c) (cli_checks H c)) (\<lambda>_.
    bindM (net_with H c all_nodes 10 None (bindM (check_schema N) (\<lambda>_.
      bindM (check_rows H c) (\<lambda>_.
      bindM (check_batch N) (\<lambda>_.
      check_read_policy N))))) (\<lambda>_.
    bindM (net_with H c all_nodes 10 None (check_local_pragma N)) (\<lambda>_.
    bindM (record_check ''mixed_case_local_pragma_cannot_mutate_replicated_state'') (\<lambda>_.
    bindM (security_checks H c) (\<lambda>_.
    bindM (concurrent_checks H c) (\<lambda>_.
    bindM (check_deduplication H c) (\<lambda>_.
    bindM (check_minority H c) (\<lambda>_.
    bindM (check_restart H c) (\<lambda>_.
    ifM (\<not> nc_remote c) (lifecycle_checks H c)))))))))))))"

text \<open>The arguments of the command line that a script uses.\<close>

record script_args =
  sa_home :: pstr
  sa_binary :: pstr
  sa_openssl :: pstr
  sa_output :: pstr
  sa_storage_format :: nat

definition network_report :: "'w hostops \<Rightarrow> script_args \<Rightarrow> pstr \<Rightarrow> pstr \<Rightarrow> rv \<Rightarrow> report" where
  "network_report H a now digest sources =
    [((lit ''complete''), RB False), ((lit ''passed''), RB False),
     ((lit ''scope''), RS (lit ''three native mTLS SQL service processes on one host; disk-backed'')),
     ((lit ''platform''), RS (ho_platform H)), ((lit ''started_utc''), RS now), ((lit ''checks''), RL []),
     ((lit ''storage_format''), RI (int (sa_storage_format a))),
     ((lit ''durability''), RS (if sa_storage_format a = 5 then (lit ''FULL journal; NORMAL replayable application'') else (lit ''FULL combined store''))),
     ((lit ''binary_sha256''), RS digest), ((lit ''source_sha256''), sources)]"

definition network_main :: "'w hostops \<Rightarrow> script_args \<Rightarrow> ('w nrstate, unit) comp" where
  "network_main H a = bindM (askM (ho_utcnow H)) (\<lambda>now.
    bindM (worldM (ho_sha256 H (sa_binary a))) (\<lambda>digest.
    bindM (source_digests H (sa_home a) [(lit ''src''), (lit ''service''), (lit ''transport''), (lit ''cli''), (lit ''languages/python/src'')]
      (\<lambda>p. ends_with p ''.odin'' \<or> ends_with p ''.py'')) (\<lambda>sources.
    bindM (updM (\<lambda>_. run_empty (network_report H a now digest sources))) (\<lambda>_.
    bindM (make_parent H (sa_output a)) (\<lambda>_.
    reportedM H ((let work_root = path_join (sa_home a) (lit ''build/network-work'') in
        bindM (worldM (ho_mkdir H work_root)) (\<lambda>_.
        temp_dirM H work_root (\<lambda>home. bindM (ifM (ho_linux H) (check_filesystem H home)) (\<lambda>_.
          bindM (resolveM H (sa_binary a)) (\<lambda>binary.
          bindM (net_cluster H home binary (sa_openssl a) (sa_storage_format a) (lit ''manual'')) (\<lambda>c.
          finallyM (bindM (network_checks H c) (\<lambda>_.
              bindM (put_report (lit ''complete'') (RB True)) (\<lambda>_.
              put_report (lit ''passed'') (RB True))))
            (bindM (net_close H) (\<lambda>_. log_tails H home (lit ''*.log'') (tail_of 6000))))))))))
      (save_report H (sa_output a)))))))"

end
