(* ===== verification/Availability_Checks.thy ===== *)
theory Availability_Checks
  imports Network_Checks
begin

text \<open>
  \<open>tools/check_majority.py\<close> and \<open>tools/check_admission.py\<close>: each voter stays down while the others
  serve, and saturated client pools.
\<close>

section \<open>Majority\<close>

definition survivors_of :: "nat \<Rightarrow> nat list" where
  "survivors_of victim = filter (\<lambda>n. n \<noteq> victim) all_nodes"

text \<open>One operation: the number of writes so far and the state of the generator are carried along.\<close>

definition majority_step :: "'w hostops \<Rightarrow> rat \<Rightarrow> nat \<Rightarrow> nat \<times> nat \<Rightarrow> ((Connection list \<times> NetRun) \<times> 'w, nat \<times> nat) comp" where
  "majority_step H start i acc = (let N = ho_net H in
    let (writes, rng) = acc in
    let (draw, rng') = (if i = 0 then (0, rng) else ho_random H rng) in
    bindM ((if i = 0 \<or> draw < 3 / 10
      then bindM (clientM (i mod 2) (execute N (VStr (lit ''INSERT INTO durable_majority VALUES(?,?)'')) (PSeq [VInt (int writes + 1), VStr (replicate 256 120)]))) (\<lambda>_.
        bindM (upM (bump_entry (lit ''cases'') (lit ''writes''))) (\<lambda>_.
        retM (writes + 1)))
      else bindM (clientM (i mod 2) (assert_is N (lit ''SELECT count(*) FROM durable_majority'') [] (int writes))) (\<lambda>_.
        retM writes))) (\<lambda>writes'.
    bindM (upM (bump_entry (lit ''cases'') (lit ''operations''))) (\<lambda>_.
    bindM (ifM (i = 0) (bindM (clockM N) (\<lambda>now. upM (put_entry (lit ''cases'') (lit ''quorum_first_write_seconds'') (RT (now - start)))))) (\<lambda>_.
    retM (writes', rng')))))"

definition first_write_seconds :: "(pstr \<times> rv) list \<Rightarrow> rat res" where
  "first_write_seconds d = (case map_of d (lit ''quorum_first_write_seconds'') of Some (RT t) \<Rightarrow> Inr t | _ \<Rightarrow> Inl KeyError)"

definition majority_survivors :: "'w hostops \<Rightarrow> nat \<Rightarrow> nat \<Rightarrow> int \<Rightarrow> nat \<Rightarrow> rat \<Rightarrow> ((Connection list \<times> NetRun) \<times> 'w, nat \<times> int) comp" where
  "majority_survivors H victim operations before writes start = (let N = ho_net H in
    bindM (foldM [0..<operations] (writes, ho_seed H (24000 + int victim)) (majority_step H start)) (\<lambda>(writes', _).
    bindM objM (\<lambda>(_, r).
    bindM (liftR (bindR (last_entry (nr_report r) (lit ''cases'')) first_write_seconds)) (\<lambda>seconds.
    bindM (assertM (seconds \<le> 5) ''row'') (\<lambda>_.
    bindM (mapM (\<lambda>i. clientM i (status_field N ''applied'')) [0, 1]) (\<lambda>prefixes.
    bindM (liftR (maxR prefixes)) (\<lambda>prefix.
    bindM (assertM (64 < prefix - before) ''before,prefix'') (\<lambda>_.
    bindM (upM (put_entry (lit ''cases'') (lit ''lag_slots'') (RI (prefix - before)))) (\<lambda>_.
    retM (writes', prefix))))))))))"

definition majority_victim :: "'w hostops \<Rightarrow> NetCluster \<Rightarrow> nat \<Rightarrow> nat \<Rightarrow> nat \<Rightarrow> ('w nrstate, nat) comp" where
  "majority_victim H c operations victim writes = (let N = ho_net H in
    bindM (net_with H c [victim] 10 None (dbM (status_field N ''applied''))) (\<lambda>before.
    bindM (net_stop H victim) (\<lambda>_.
    bindM (append_entry (lit ''cases'') (RD [((lit ''absent''), RI (int victim)), ((lit ''operations''), RI 0), ((lit ''writes''), RI 0), ((lit ''passed''), RB False)])) (\<lambda>_.
    bindM (clockM N) (\<lambda>start.
    bindM (mapM (\<lambda>n. net_connect H c [n] 5 None) (survivors_of victim)) (\<lambda>clients.
    bindM (scopeM clients (finallyM (majority_survivors H victim operations before writes start) (close_clients N))) (\<lambda>(writes', prefix).
    bindM (net_start H c victim False) (\<lambda>_.
    bindM (node_ready H c victim 60) (\<lambda>elapsed.
    bindM (put_entry (lit ''cases'') (lit ''recovery_seconds'') (RT elapsed)) (\<lambda>_.
    bindM (net_with H c [victim] 10 None (bindM (assert_scalar N (lit ''SELECT count(*) FROM durable_majority'') [] (int writes')) (\<lambda>_.
      bindM (dbM (status_field N ''applied'')) (\<lambda>applied.
      assertM (prefix \<le> applied) ''applied'')))) (\<lambda>_.
    bindM (put_entry (lit ''cases'') (lit ''passed'') (RB True)) (\<lambda>_.
    retM writes'))))))))))))"

definition majority_body :: "'w hostops \<Rightarrow> NetCluster \<Rightarrow> nat \<Rightarrow> ('w nrstate, unit) comp" where
  "majority_body H c operations = (let N = ho_net H in
    bindM (forM all_nodes (\<lambda>node. net_start H c node True)) (\<lambda>_.
    bindM (forM all_nodes (\<lambda>node. bindM (node_ready H c node 60) (\<lambda>_. retM ()))) (\<lambda>_.
    bindM (net_with H c all_nodes 10 None (run_sql N (lit ''CREATE TABLE durable_majority(id INTEGER PRIMARY KEY, payload TEXT)'') [])) (\<lambda>_.
    bindM (foldM all_nodes 0 (majority_victim H c operations)) (\<lambda>writes.
    bindM (forM all_nodes (net_stop H)) (\<lambda>_.
    bindM (forM all_nodes (\<lambda>node. net_start H c node False)) (\<lambda>_.
    bindM (forM all_nodes (\<lambda>node. bindM (node_ready H c node 60) (\<lambda>_.
      net_with H c [node] 10 None (assert_scalar N (lit ''SELECT count(*) FROM durable_majority'') [] (int writes))))) (\<lambda>_.
    bindM (put_report (lit ''complete'') (RB True)) (\<lambda>_.
    bindM (put_report (lit ''passed'') (RB True)) (\<lambda>_.
    bindM (put_report (lit ''verified_writes'') (RI (int writes))) (\<lambda>_.
    put_report (lit ''all_voter_restart'') (RB True))))))))))))"

definition majority_main :: "'w hostops \<Rightarrow> script_args \<Rightarrow> pstr \<Rightarrow> nat \<Rightarrow> ('w nrstate, unit) comp" where
  "majority_main H a harness operations = bindM (askM (ho_exists H (sa_output a))) (\<lambda>exists.
    bindM (whenM (operations < 90 \<or> exists) (SystemExit ''Use at least 90 operations and a new output path'')) (\<lambda>_.
    let work_root = path_join (sa_home a) (lit ''build/majority-work'') in
    bindM (worldM (ho_mkdir H work_root)) (\<lambda>_.
    bindM (source_digests H (sa_home a) [(lit ''src''), (lit ''service'')] (\<lambda>p. ends_with p ''.odin'')) (\<lambda>sources.
    bindM (worldM (ho_sha256 H harness)) (\<lambda>own.
    bindM (worldM (ho_sha256 H (sa_binary a))) (\<lambda>digest.
    bindM (updM (\<lambda>_. run_empty [((lit ''complete''), RB False), ((lit ''passed''), RB False), ((lit ''cases''), RL []),
      ((lit ''operations_per_failure''), RI (int operations)), ((lit ''storage_format''), RI (int (sa_storage_format a))),
      ((lit ''platform''), RS (ho_platform H)), ((lit ''source_sha256''), sources), ((lit ''harness_sha256''), RS own), ((lit ''binary_sha256''), RS digest)])) (\<lambda>_.
    bindM (make_parent H (sa_output a)) (\<lambda>_.
    reportedM H (temp_dirM H work_root (\<lambda>name. bindM (ifM (ho_linux H) (check_filesystem H name)) (\<lambda>_.
        bindM (resolveM H (sa_binary a)) (\<lambda>binary.
        bindM (net_cluster H name binary (sa_openssl a) (sa_storage_format a) (lit ''manual'')) (\<lambda>c.
        finallyM (majority_body H c operations)
          (bindM (net_close H) (\<lambda>_. log_tails H name (lit ''node*.log'') (\<lambda>s. s))))))))
      (save_report H (sa_output a))))))))))"

section \<open>Admission\<close>

text \<open>The script's variables: the client pools by node and the stalled sockets.\<close>

type_synonym pools = "(nat \<times> Connection list) list \<times> sock list"

definition pool_of :: "pools \<Rightarrow> nat \<Rightarrow> Connection list res" where
  "pool_of p node = (case map_of (fst p) node of None \<Rightarrow> Inl KeyError | Some cs \<Rightarrow> Inr cs)"

definition poolM :: "nat \<Rightarrow> nat \<Rightarrow> ('w cstate, 'a) comp \<Rightarrow> ((pools \<times> 'x) \<times> 'w, 'a) comp" where
  "poolM node i m = (\<lambda>((p, x), w). case pool_of p node of
      Inl e \<Rightarrow> Some (Inl e, ((p, x), w))
    | Inr cs \<Rightarrow> if i < length cs
        then (case m (cs ! i, w) of None \<Rightarrow> None
          | Some (r, (c, w')) \<Rightarrow> Some (r, (((AList.update node (cs[i := c]) (fst p), snd p), x), w')))
        else Some (Inl IndexError, ((p, x), w)))"

definition set_pool :: "nat \<Rightarrow> (Connection list \<Rightarrow> Connection list) \<Rightarrow> ((pools \<times> 'x) \<times> 'w, unit) comp" where
  "set_pool node f = updM (\<lambda>((cs, st), x). ((AList.update node (f (case map_of cs node of None \<Rightarrow> [] | Some c \<Rightarrow> c)) cs, st), x))"

definition close_pool :: "'w netops \<Rightarrow> nat \<Rightarrow> ((pools \<times> 'x) \<times> 'w, unit) comp" where
  "close_pool N node = bindM objM (\<lambda>(p, _).
    bindM (liftR (pool_of p node)) (\<lambda>cs.
    forM [0..<length cs] (\<lambda>i. poolM node i (conn_close N))))"

definition close_stalled :: "'w netops \<Rightarrow> ((pools \<times> 'x) \<times> 'w, unit) comp" where
  "close_stalled N = bindM objM (\<lambda>((_, st), _). forM st (\<lambda>k. effectM (sock_close N k)))"

text \<open>Filling a pool: 24 connections that answer, then one more that is refused as busy.\<close>

definition expect_busy :: "'w hostops \<Rightarrow> NetCluster \<Rightarrow> nat \<Rightarrow> ('x \<times> 'w, unit) comp" where
  "expect_busy H c node = (let N = ho_net H in
    bindM (liftR (nth_res (nc_members c) (node - 1))) (\<lambda>m.
    transportM N (net_tls c (lit ''client'') (lit ''client'')) (bindM (clockM N) (\<lambda>now.
      bindM (exchange N \<lparr>ep_address = mb_address m, ep_server_name = mb_identity m\<rparr>
        [((lit ''op''), JStr (lit ''status'')), ((lit ''protocol''), JInt 1), ((lit ''cluster''), JStr (lit ''network-qualification''))] (now + 2)) (\<lambda>response.
      bindM (liftR (key_res response ''status'')) (\<lambda>state.
      bindM (assertM (state = JStr (lit ''error'')) ''response'') (\<lambda>_.
      bindM (liftR (key_res response ''error'')) (\<lambda>code.
      assertM (code = JStr (lit ''Busy'')) ''response''))))))))"

definition fill_pool :: "'w hostops \<Rightarrow> NetCluster \<Rightarrow> nat \<Rightarrow> ((pools \<times> NetRun) \<times> 'w, unit) comp" where
  "fill_pool H c node = (let N = ho_net H in
    bindM (set_pool node (\<lambda>_. [])) (\<lambda>_.
    bindM (forM [0..<24] (\<lambda>_. bindM (net_connect H c [node] 10 None) (\<lambda>db.
      bindM (scopeM db (bindM (dbM (status_field N ''node'')) (\<lambda>n.
        bindM (assertM (n = int node) ''node'') (\<lambda>_.
        dbM connM)))) (\<lambda>db'.
      set_pool node (\<lambda>cs. cs @ [db']))))) (\<lambda>_.
    expect_busy H c node)))"

definition stall_handshakes :: "'w hostops \<Rightarrow> NetCluster \<Rightarrow> nat \<Rightarrow> ((pools \<times> NetRun) \<times> 'w, unit) comp" where
  "stall_handshakes H c node = (let N = ho_net H in
    bindM (liftR (nth_res (nc_members c) (node - 1))) (\<lambda>m.
    forM [0..<4] (\<lambda>_. bindM (liftR (socket_address (unicode N) \<lparr>ep_address = mb_address m, ep_server_name = mb_identity m\<rparr>)) (\<lambda>address.
      bindM (worldM (sock_connect N address 2)) (\<lambda>k.
      updM (\<lambda>((cs, st), x). ((cs, st @ [k]), x)))))))"

definition admission_insert :: "'w netops \<Rightarrow> nat \<Rightarrow> int \<Rightarrow> ((pools \<times> 'x) \<times> 'w, WriteResult) comp" where
  "admission_insert N node n = poolM node 0 (execute N (VStr (lit ''INSERT INTO admission_items VALUES('' @ dec_int n @ lit '')'')) (PSeq []))"

definition admission_count :: "'w netops \<Rightarrow> nat \<Rightarrow> int \<Rightarrow> ((pools \<times> 'x) \<times> 'w, unit) comp" where
  "admission_count N node n = poolM node 0 (assert_is N (lit ''SELECT count(*) FROM admission_items'') [] n)"

definition admission_full :: "'w hostops \<Rightarrow> NetCluster \<Rightarrow> ((pools \<times> NetRun) \<times> 'w, unit) comp" where
  "admission_full H c = (let N = ho_net H in
    bindM (forM all_nodes (fill_pool H c)) (\<lambda>_.
    bindM (upM (record_check ''24_clients_per_voter_and_explicit_busy_without_peer_eviction'')) (\<lambda>_.
    bindM (poolM 1 0 (execute N (VStr (lit ''CREATE TABLE admission_items(id INTEGER PRIMARY KEY)'')) (PSeq []))) (\<lambda>_.
    bindM (forM all_nodes (\<lambda>node. bindM
      (poolM node 0 (execute N (VStr (lit ''INSERT INTO admission_items VALUES(?)'')) (PSeq [VInt (int node)]))) (\<lambda>_. retM ()))) (\<lambda>_.
    upM (record_check ''all_voters_write_with_every_client_pool_full''))))))"

definition admission_crash :: "'w hostops \<Rightarrow> NetCluster \<Rightarrow> ((pools \<times> NetRun) \<times> 'w, unit) comp" where
  "admission_crash H c = (let N = ho_net H in
    bindM (forM [1, 2] (stall_handshakes H c)) (\<lambda>_.
    bindM (upM (net_stop H 3)) (\<lambda>_.
    bindM (clockM N) (\<lambda>started.
    bindM (admission_insert N 1 4) (\<lambda>_.
    bindM (admission_insert N 2 5) (\<lambda>_.
    bindM (clockM N) (\<lambda>ended.
    bindM (upM (put_report (lit ''survivor_two_writes_seconds'') (RT (ended - started)))) (\<lambda>_.
    bindM (admission_count N 2 5) (\<lambda>_.
    bindM (upM (record_check ''healthy_quorum_progress_with_full_clients_stalled_handshakes_and_one_crash'')) (\<lambda>_.
    bindM (close_stalled N) (\<lambda>_.
    bindM (updM (\<lambda>((cs, st), x). ((cs, []), x))) (\<lambda>_.
    bindM (close_pool N 3) (\<lambda>_.
    bindM (set_pool 3 (\<lambda>_. [])) (\<lambda>_.
    bindM (upM (net_start H c 3 False)) (\<lambda>_.
    bindM (node_ready H c 3 60) (\<lambda>_.
    bindM (net_with H c [3] 10 None (bindM (assert_scalar N (lit ''SELECT count(*) FROM admission_items'') [] 5) (\<lambda>_.
      run_sql N (lit ''INSERT INTO admission_items VALUES(6)'') []))) (\<lambda>_.
    bindM (forM [1, 2] (\<lambda>node. admission_count N node 6)) (\<lambda>_.
    upM (record_check ''restarted_peer_reconnects_and_catches_up_with_survivor_client_pools_full'')))))))))))))))))))"

definition admission_reuse :: "'w hostops \<Rightarrow> NetCluster \<Rightarrow> ((pools \<times> NetRun) \<times> 'w, unit) comp" where
  "admission_reuse H c = (let N = ho_net H in
    bindM objM (\<lambda>(p, _).
    bindM (liftR (pool_of p 1)) (\<lambda>cs.
    bindM (whenM (cs = []) IndexError) (\<lambda>_.
    bindM (set_pool 1 butlast) (\<lambda>_.
    bindM (scopeM (last cs) (dbM (conn_close N))) (\<lambda>_.
    bindM (net_with H c [1] 10 None (assert_scalar N (lit ''SELECT count(*) FROM admission_items'') [] 6)) (\<lambda>_.
    upM (record_check ''released_client_capacity_is_reusable''))))))))"

definition admission_main :: "'w hostops \<Rightarrow> script_args \<Rightarrow> ('w nrstate, unit) comp" where
  "admission_main H a = (let N = ho_net H in
    bindM (askM (ho_exists H (sa_output a))) (\<lambda>exists.
    bindM (whenM exists (SystemExit ''Use a new evidence path'')) (\<lambda>_.
    bindM (askM (ho_utcnow H)) (\<lambda>now.
    bindM (worldM (ho_sha256 H (sa_binary a))) (\<lambda>digest.
    bindM (updM (\<lambda>_. run_empty [((lit ''complete''), RB False), ((lit ''passed''), RB False), ((lit ''checks''), RL []),
      ((lit ''run_at_utc''), RS now), ((lit ''binary_sha256''), RS digest)])) (\<lambda>_.
    bindM (make_parent H (sa_output a)) (\<lambda>_.
    let work_root = path_join (sa_home a) (lit ''build/admission-work'') in
    bindM (worldM (ho_mkdir H work_root)) (\<lambda>_.
    reportedM H (temp_dirM H work_root (\<lambda>home. bindM (ifM (ho_linux H) (check_filesystem H home)) (\<lambda>_.
        bindM (resolveM H (sa_binary a)) (\<lambda>binary.
        bindM (net_cluster H home binary (sa_openssl a) 5 (lit ''manual'')) (\<lambda>c.
        scopeM ([], []) (finallyM (bindM (upM (forM all_nodes (\<lambda>node. net_start H c node True))) (\<lambda>_.
            bindM (forM all_nodes (\<lambda>node. bindM (node_ready H c node 60) (\<lambda>_. retM ()))) (\<lambda>_.
            bindM (admission_full H c) (\<lambda>_.
            bindM (admission_crash H c) (\<lambda>_.
            bindM (admission_reuse H c) (\<lambda>_.
            bindM (upM (put_report (lit ''complete'') (RB True))) (\<lambda>_.
            upM (put_report (lit ''passed'') (RB True)))))))))
          (bindM (close_stalled N) (\<lambda>_.
            bindM objM (\<lambda>(p, _).
            bindM (forM (map fst (fst p)) (close_pool N)) (\<lambda>_.
            bindM (upM (net_close H)) (\<lambda>_.
            upM (log_tails H home (lit ''*.log'') (tail_of 8000)))))))))))))
      (bindM (source_digests H (sa_home a) [(lit ''src''), (lit ''service''), (lit ''cli''), (lit ''transport'')] (\<lambda>p. ends_with p ''.odin'')) (\<lambda>sources.
        bindM (put_report (lit ''sources'') sources) (\<lambda>_.
        save_report H (sa_output a))))))))))))"

end
