(* ===== verification/Demo_Host.thy ===== *)
theory Demo_Host
  imports Net_Cluster Simulation
begin

text \<open>A host on which every call of a script succeeds and changes nothing, for the examples; its random generator counts.\<close>

definition demo_host :: "sim_world hostops" where
  "demo_host = \<lparr>ho_net = sim [], ho_open_log = (\<lambda>_ w. (Inr 0, w)), ho_close_log = (\<lambda>_ w. ((), w)),
    ho_popen = (\<lambda>_ _ w. (Inr 0, w)), ho_poll = (\<lambda>_ w. (None, w)), ho_kill = (\<lambda>_ w. ((), w)),
    ho_terminate = (\<lambda>_ w. ((), w)), ho_wait = (\<lambda>_ w. (Inr 0, w)), ho_run = (\<lambda>_ w. (Inr (0, [], []), w)),
    ho_read = (\<lambda>_ w. (Inr [], w)), ho_write = (\<lambda>_ _ w. (Inr (), w)), ho_exists = (\<lambda>_ w. (False, w)),
    ho_mkdir = (\<lambda>_ w. (Inr (), w)), ho_chmod = (\<lambda>_ w. (Inr (), w)), ho_glob = (\<lambda>_ _ w. ([], w)),
    ho_sha256 = (\<lambda>_ w. (Inr [], w)), ho_mkdtemp = (\<lambda>_ w. (Inr [], w)), ho_rmtree = (\<lambda>_ w. (Inr (), w)),
    ho_rglob = (\<lambda>_ w. ([], w)), ho_utcnow = (\<lambda>w. ([], w)), ho_platform = [],
    ho_linux = False, ho_tls_reset = (\<lambda>_. False), ho_tree = (\<lambda>_ w. ([], w)),
    ho_sqlite = (\<lambda>_ _ w. (Inr [], w)), ho_rename = (\<lambda>_ _ w. (Inr (), w)), ho_resolve = (\<lambda>_ w. ([], w)),
    ho_copytree = (\<lambda>_ _ w. (Inr (), w)), ho_read_bytes = (\<lambda>_ w. (Inr [], w)), ho_write_bytes = (\<lambda>_ _ w. (Inr (), w)),
    ho_unlink = (\<lambda>_ w. (Inr (), w)), ho_symlink = (\<lambda>_ _ w. (Inr (), w)), ho_free = (\<lambda>_ w. (0, w)),
    ho_rcvbuf = (\<lambda>_ _ w. (Inr (), w)), ho_clk_tck = 1, ho_page_size = 1,
    ho_str = (\<lambda>_. []), ho_port = (\<lambda>w. (0, w)), ho_repr = (\<lambda>_. []),
    ho_dumps = (\<lambda>_. []), ho_loads = (\<lambda>_. Inr JNull), ho_seed = nat,
    ho_random = (\<lambda>g. (1 / 2, g)), ho_randrange = (\<lambda>g n. (7 * g mod n, g + 1))\<rparr>"

end
