(* ===== verification/History_Campaign.thy ===== *)
theory History_Campaign
  imports Network_Checks Dialect History
begin

text \<open>
  The campaign of \<open>tools/check_transaction_history.py\<close>: batches of concurrent operations on a live cluster, each batch
  judged by \<open>serial_history\<close>. SQLAlchemy is the parameter \<open>alchemy\<close>. The jobs of the pool run in an order that the
  parameter chooses, each as a whole: the pool's threads interleave in the running program, but the
  campaign only keeps what each operation saw and when it started and ended. Identifiers and row
  keys are integer primary keys; a cell that is no integer is a \<open>TypeError\<close> of the model.
\<close>

section \<open>Operations\<close>

text \<open>
  \<open>al_begin\<close>, \<open>al_commit\<close> and \<open>al_rollback\<close> are the \<open>with engine.begin()\<close> block on the engine of a node, and
  \<open>al_execute\<close> gives the rows of a statement on its connection. The errors are those of the driver,
  which SQLAlchemy wraps. \<open>al_order n\<close> is the order in which \<open>n\<close> jobs complete.
\<close>

record 'w alchemy =
  al_begin :: "nat \<Rightarrow> 'w \<Rightarrow> nat res \<times> 'w"
  al_execute :: "nat \<Rightarrow> pstr \<Rightarrow> (pstr \<times> pval) list \<Rightarrow> 'w \<Rightarrow> cell list list res \<times> 'w"
  al_commit :: "nat \<Rightarrow> 'w \<Rightarrow> unit res \<times> 'w"
  al_rollback :: "nat \<Rightarrow> 'w \<Rightarrow> unit res \<times> 'w"
  al_dispose :: "nat \<Rightarrow> 'w \<Rightarrow> unit \<times> 'w"
  al_order :: "nat \<Rightarrow> 'w \<Rightarrow> nat list \<times> 'w"

record history_entry =
  he_id :: int
  he_node :: nat
  he_start :: int
  he_end :: int
  he_kind :: hkind
  he_key :: "int option"
  he_ok :: bool
  he_observed :: "int list option"
  he_after :: "int list option"
  he_error :: "pstr option"

definition hop_of :: "history_entry \<Rightarrow> hop" where
  "hop_of e = \<lparr>h_id = he_id e, h_start = he_start e, h_end = he_end e, h_ok = he_ok e, h_kind = he_kind e,
     h_observed = (case he_observed e of None \<Rightarrow> [] | Some xs \<Rightarrow> xs), h_after = (case he_after e of None \<Rightarrow> [] | Some xs \<Rightarrow> xs),
     h_key = (case he_key e of None \<Rightarrow> 0 | Some k \<Rightarrow> k)\<rparr>"

definition monotonic_ns :: "'w netops \<Rightarrow> ('x \<times> 'w, int) comp" where
  "monotonic_ns N = bindM (clockM N) (\<lambda>t. retM \<lfloor>t * 10 ^ 9\<rfloor>)"

definition history_query :: pstr where
  "history_query = (lit ''SELECT id FROM history_rows WHERE active=1 ORDER BY id'')"

definition id_cell :: "cell \<Rightarrow> int res" where
  "id_cell v = (case v of CJson (JInt i) \<Rightarrow> Inr i | _ \<Rightarrow> Inl (TypeError ''not an identifier''))"

definition row_ids :: "cell Rows \<Rightarrow> int list res" where
  "row_ids rs = mapR (\<lambda>r. bindR (row_getitem r (KInt 0)) id_cell) (rows_rows rs)"

text \<open>\<open>list(result.scalars())\<close>\<close>

definition scalar_ids :: "cell list list \<Rightarrow> int list res" where
  "scalar_ids rows = mapR (\<lambda>r. bindR (nth_res r 0) id_cell) rows"

definition kind_of_key :: "int option \<Rightarrow> hkind" where
  "kind_of_key key = (case key of None \<Rightarrow> ReadOp | Some k \<Rightarrow> if k = 0 then ReadonlyTransaction else TransactionOp)"

definition with_engine :: "'w alchemy \<Rightarrow> nat \<Rightarrow> (nat \<Rightarrow> ('y \<times> 'x \<times> 'w, unit) comp) \<Rightarrow> ('y \<times> 'x \<times> 'w, unit) comp" where
  "with_engine A node body = bindM (innerM (worldM (al_begin A node))) (\<lambda>conn.
    handleM (body conn)
      (\<lambda>_. innerM (worldM (al_commit A conn)))
      (\<lambda>e. bindM (innerM (worldM (al_rollback A conn))) (\<lambda>_. raiseM e)))"

definition transaction_steps :: "'w alchemy \<Rightarrow> int \<Rightarrow> nat \<Rightarrow> (history_entry \<times> 'x \<times> 'w, unit) comp" where
  "transaction_steps A key conn = bindM (innerM (worldM (al_execute A conn history_query []))) (\<lambda>rows.
    bindM (liftR (scalar_ids rows)) (\<lambda>observed.
    bindM (updM (\<lambda>e. e\<lparr>he_observed := Some observed\<rparr>)) (\<lambda>_.
    bindM (ifM (key \<noteq> 0) ((let active = (if key \<notin> set observed then 1 else 0) in
      bindM (innerM (worldM (al_execute A conn (lit ''UPDATE history_rows SET active=:active WHERE id=:key'') [((lit ''active''), VInt active), ((lit ''key''), VInt key)]))) (\<lambda>_.
      retM ())))) (\<lambda>_.
    bindM (innerM (worldM (al_execute A conn history_query []))) (\<lambda>rows'.
    bindM (liftR (scalar_ids rows')) (\<lambda>after.
    updM (\<lambda>e. e\<lparr>he_after := Some after\<rparr>)))))))"

definition operation_steps :: "'w alchemy \<Rightarrow> 'w hostops \<Rightarrow> NetCluster \<Rightarrow> nat \<Rightarrow> int option \<Rightarrow> (history_entry \<times> 'x \<times> 'w, unit) comp" where
  "operation_steps A H c node key = bindM ((case key of
       None \<Rightarrow> bindM (innerM (net_with H c [node] 15 None (read_sql (ho_net H) history_query []))) (\<lambda>rows.
         bindM (liftR (row_ids rows)) (\<lambda>observed.
         updM (\<lambda>e. e\<lparr>he_observed := Some observed\<rparr>)))
     | Some k \<Rightarrow> with_engine A node (transaction_steps A k))) (\<lambda>_.
    updM (\<lambda>e. e\<lparr>he_ok := True\<rparr>))"

definition is_serialization :: "exn \<Rightarrow> bool" where
  "is_serialization e = (case e of DbSerializationError _ \<Rightarrow> True | _ \<Rightarrow> False)"

definition operation :: "'w alchemy \<Rightarrow> 'w hostops \<Rightarrow> NetCluster \<Rightarrow> nat \<Rightarrow> int \<Rightarrow> int option \<Rightarrow> ('x \<times> 'w, history_entry) comp" where
  "operation A H c node ident key = (let N = ho_net H in
    bindM (monotonic_ns N) (\<lambda>started.
    localM \<lparr>he_id = ident, he_node = node, he_start = started, he_end = 0, he_kind = kind_of_key key, he_key = key, he_ok = False,
        he_observed = None, he_after = None, he_error = None\<rparr> (bindM (finallyM
        (tryM (operation_steps A H c node key)
          (\<lambda>e. if is_serialization e then updM (\<lambda>x. x\<lparr>he_error := Some (ho_str H e)\<rparr>) else raiseM e))
        (bindM (innerM (monotonic_ns N)) (\<lambda>ended.
          updM (\<lambda>x. x\<lparr>he_end := ended\<rparr>)))) (\<lambda>_.
      objM))))"

section \<open>Batches\<close>

record history_batch =
  hb_absent :: "nat option"
  hb_batch :: nat
  hb_initial :: "int list"
  hb_history :: "history_entry list"
  hb_witness :: "(int list \<times> int list) option"

text \<open>The variables of the campaign and the parts of its report.\<close>

record history_vars =
  hv_state :: "int list"
  hv_ident :: int
  hv_rng :: nat
  hv_batches :: "history_batch list"
  hv_rejoin :: "history_entry list"
  hv_restart :: "history_entry list"

type_synonym 'w hvstate = "(history_vars \<times> NetRun) \<times> 'w"

definition varsM :: "('w hvstate, history_vars) comp" where
  "varsM = bindM objM (\<lambda>(v, _). retM v)"

definition setV :: "(history_vars \<Rightarrow> history_vars) \<Rightarrow> ('w hvstate, unit) comp" where
  "setV f = updM (\<lambda>(v, r). (f v, r))"

definition on_last :: "('a \<Rightarrow> 'a) \<Rightarrow> 'a list \<Rightarrow> 'a list" where
  "on_last f xs = (if xs = [] then [] else butlast xs @ [f (last xs)])"

definition add_history :: "history_entry \<Rightarrow> ('w hvstate, unit) comp" where
  "add_history e = setV (\<lambda>v. v\<lparr>hv_batches := on_last (\<lambda>b. b\<lparr>hb_history := hb_history b @ [e]\<rparr>) (hv_batches v)\<rparr>)"

definition nextid :: "('w hvstate, int) comp" where
  "nextid = bindM varsM (\<lambda>v. bindM (setV (\<lambda>v. v\<lparr>hv_ident := hv_ident v + 1\<rparr>)) (\<lambda>_. retM (hv_ident v)))"

text \<open>\<open>rng.randint(1, 4) if i % 2 == 0 else (0 if i % 4 == 3 else None)\<close>\<close>

definition draw_key :: "'w hostops \<Rightarrow> nat \<Rightarrow> ('w hvstate, int option) comp" where
  "draw_key H i = (if i mod 2 = 0
     then bindM varsM (\<lambda>v. case ho_randrange H (hv_rng v) 4 of (k, rng) \<Rightarrow>
       bindM (setV (\<lambda>v. v\<lparr>hv_rng := rng\<rparr>)) (\<lambda>_. retM (Some (int k + 1))))
     else retM (if i mod 4 = 3 then Some 0 else None))"

definition draw_job :: "'w hostops \<Rightarrow> nat list \<Rightarrow> nat \<Rightarrow> ('w hvstate, nat \<times> int \<times> int option) comp" where
  "draw_job H live i = (let node = live ! (i mod length live) in
    bindM (draw_key H i) (\<lambda>key.
    bindM nextid (\<lambda>ident.
    retM (node, ident, key))))"

text \<open>The pool waits for all jobs; the first failure in completion order ends the batch.\<close>

definition run_jobs :: "'w alchemy \<Rightarrow> 'w hostops \<Rightarrow> NetCluster \<Rightarrow> nat list \<Rightarrow> ('w hvstate, unit) comp" where
  "run_jobs A H c live = bindM (mapM (draw_job H live) [0..<8]) (\<lambda>jobs.
    bindM (askM (al_order A 8)) (\<lambda>order.
    bindM (mapM (\<lambda>i. case jobs ! i of (node, ident, key) \<Rightarrow> outcomeM (operation A H c node ident key)) (filter (\<lambda>i. i < length jobs) order)) (\<lambda>outcomes.
    forM outcomes (\<lambda>r. bindM (liftR r) add_history))))"

definition made_progress :: "history_entry list \<Rightarrow> bool" where
  "made_progress es \<longleftrightarrow> list_ex (\<lambda>e. he_kind e = TransactionOp \<and> he_ok e) es"

definition judge_batch :: "('w hvstate, unit) comp" where
  "judge_batch = bindM varsM (\<lambda>v.
    let entry = last (hv_batches v) in
    (case serial_history (hv_state v) (map hop_of (hb_history entry)) of
       None \<Rightarrow> raiseM (AssertionError ''No serial explanation: {entry}'')
     | Some (state, order) \<Rightarrow> bindM (setV (\<lambda>v. v\<lparr>hv_batches := on_last (\<lambda>b. b\<lparr>hb_witness := Some (state, order)\<rparr>) (hv_batches v), hv_state := state\<rparr>)) (\<lambda>_.
         assertM (made_progress (hb_history entry)) ''No transaction made progress'')))"

definition run_batch :: "'w alchemy \<Rightarrow> 'w hostops \<Rightarrow> NetCluster \<Rightarrow> nat list \<Rightarrow> nat option \<Rightarrow> nat \<Rightarrow> ('w hvstate, unit) comp" where
  "run_batch A H c live absent batch = bindM (setV (\<lambda>v. v\<lparr>hv_batches := hv_batches v @ [\<lparr>hb_absent = absent, hb_batch = batch, hb_initial = hv_state v, hb_history = [], hb_witness = None\<rparr>]\<rparr>)) (\<lambda>_.
    bindM (run_jobs A H c live) (\<lambda>_.
    bindM nextid (\<lambda>ident.
    bindM (operation A H c (live ! (batch mod length live)) ident None) (\<lambda>anchor.
    bindM (add_history anchor) (\<lambda>_.
    judge_batch)))))"

section \<open>The campaign\<close>

definition anchor_read :: "'w alchemy \<Rightarrow> 'w hostops \<Rightarrow> NetCluster \<Rightarrow> (history_entry \<Rightarrow> history_vars \<Rightarrow> history_vars) \<Rightarrow> nat \<Rightarrow> ('w hvstate, unit) comp" where
  "anchor_read A H c add node = bindM nextid (\<lambda>ident.
    bindM (operation A H c node ident None) (\<lambda>anchor.
    bindM (setV (add anchor)) (\<lambda>_.
    bindM varsM (\<lambda>v.
    assertM (he_observed anchor = Some (hv_state v)) ''observed''))))"

definition add_rejoin :: "history_entry \<Rightarrow> history_vars \<Rightarrow> history_vars" where
  "add_rejoin e v = v\<lparr>hv_rejoin := hv_rejoin v @ [e]\<rparr>"

definition add_restart :: "history_entry \<Rightarrow> history_vars \<Rightarrow> history_vars" where
  "add_restart e v = v\<lparr>hv_restart := hv_restart v @ [e]\<rparr>"

definition absent_phase :: "'w alchemy \<Rightarrow> 'w hostops \<Rightarrow> NetCluster \<Rightarrow> nat \<Rightarrow> nat option \<Rightarrow> ('w hvstate, unit) comp" where
  "absent_phase A H c rounds absent = (let live = filter (\<lambda>node. Some node \<noteq> absent) all_nodes in
    bindM ((case absent of None \<Rightarrow> retM () | Some node \<Rightarrow> upM (net_stop H node))) (\<lambda>_.
    bindM (finallyM (forM [0..<rounds] (run_batch A H c live absent))
      (case absent of None \<Rightarrow> retM () | Some node \<Rightarrow> upM (net_start H c node False))) (\<lambda>_.
    forM all_nodes (anchor_read A H c add_rejoin))))"

definition history_setup :: "'w hostops \<Rightarrow> NetCluster \<Rightarrow> ('w hvstate, unit) comp" where
  "history_setup H c = bindM (upM (start_all H c True)) (\<lambda>_.
    net_with H c all_nodes 20 None (bindM (run_sql (ho_net H) (lit ''CREATE TABLE history_rows(id INTEGER PRIMARY KEY, active INTEGER NOT NULL)'') []) (\<lambda>_.
      bindM (run_sql (ho_net H) (lit ''INSERT INTO history_rows VALUES(1,0),(2,0),(3,0),(4,0)'') []) (\<lambda>_.
      retM ()))))"

definition history_campaign :: "'w alchemy \<Rightarrow> 'w hostops \<Rightarrow> NetCluster \<Rightarrow> nat \<Rightarrow> ('w hvstate, unit) comp" where
  "history_campaign A H c rounds = bindM (liftR (engine_isolation (Some False) [])) (\<lambda>_.
    finallyM (bindM (history_setup H c) (\<lambda>_.
        bindM (forM [None, Some 1, Some 2, Some 3] (absent_phase A H c rounds)) (\<lambda>_.
        bindM (forM all_nodes (\<lambda>node. upM (net_stop H node))) (\<lambda>_.
        bindM (upM (start_all H c False)) (\<lambda>_.
        forM all_nodes (anchor_read A H c add_restart))))))
      (forM (map mb_id (nc_members c)) (\<lambda>node. askM (al_dispose A node))))"

section \<open>The report\<close>

definition ids_rv :: "int list \<Rightarrow> rv" where
  "ids_rv xs = RL (map RI xs)"

definition kind_text :: "hkind \<Rightarrow> pstr" where
  "kind_text k = (case k of ReadOp \<Rightarrow> (lit ''read'') | ReadonlyTransaction \<Rightarrow> (lit ''readonly_transaction'') | TransactionOp \<Rightarrow> (lit ''transaction''))"

definition entry_rv :: "history_entry \<Rightarrow> rv" where
  "entry_rv e = RD ([((lit ''id''), RI (he_id e)), ((lit ''node''), RI (int (he_node e))), ((lit ''start''), RI (he_start e)), ((lit ''kind''), RS (kind_text (he_kind e))),
      ((lit ''key''), case he_key e of None \<Rightarrow> RJ JNull | Some k \<Rightarrow> RI k), ((lit ''status''), RS (if he_ok e then (lit ''ok'') else (lit ''serialization_abort'')))]
    @ (case he_observed e of None \<Rightarrow> [] | Some xs \<Rightarrow> [((lit ''observed''), ids_rv xs)])
    @ (case he_after e of None \<Rightarrow> [] | Some xs \<Rightarrow> [((lit ''after''), ids_rv xs)])
    @ (case he_error e of None \<Rightarrow> [] | Some t \<Rightarrow> [((lit ''error''), RS t)])
    @ [((lit ''end''), RI (he_end e))])"

definition batch_rv :: "history_batch \<Rightarrow> rv" where
  "batch_rv b = RD ([((lit ''absent''), case hb_absent b of None \<Rightarrow> RJ JNull | Some n \<Rightarrow> RI (int n)), ((lit ''batch''), RI (int (hb_batch b))),
      ((lit ''initial''), ids_rv (hb_initial b)), ((lit ''history''), RL (map entry_rv (hb_history b)))]
    @ (case hb_witness b of None \<Rightarrow> [] | Some (state, order) \<Rightarrow> [((lit ''witness''), RD [((lit ''state''), ids_rv state), ((lit ''order''), ids_rv order)])]))"

definition vars_new :: "'w hostops \<Rightarrow> int \<Rightarrow> history_vars" where
  "vars_new H seed = \<lparr>hv_state = [], hv_ident = 0, hv_rng = ho_seed H seed, hv_batches = [], hv_rejoin = [], hv_restart = []\<rparr>"

text \<open>The campaign writes into the report as it goes: what it has written is there on every way out.\<close>

definition campaign_report :: "('w hvstate, unit) comp" where
  "campaign_report = bindM varsM (\<lambda>v.
    bindM (upM (put_report (lit ''batches'') (RL (map batch_rv (hv_batches v))))) (\<lambda>_.
    bindM (upM (put_report (lit ''rejoin_reads'') (RL (map entry_rv (hv_rejoin v))))) (\<lambda>_.
    upM (put_report (lit ''restart_reads'') (RL (map entry_rv (hv_restart v)))))))"

definition history_body :: "'w alchemy \<Rightarrow> 'w hostops \<Rightarrow> nat \<Rightarrow> int \<Rightarrow> NetCluster \<Rightarrow> ('w nrstate, unit) comp" where
  "history_body A H rounds seed c = bindM (scopeM (vars_new H seed) (finallyM (history_campaign A H c rounds) campaign_report)) (\<lambda>_.
    bindM (net_with H c all_nodes 10 None (bindM (dbM (status (ho_net H))) (\<lambda>d. retM (dget d ''policy'')))) (\<lambda>policy.
    bindM (put_report (lit ''policy'') (case policy of None \<Rightarrow> RJ JNull | Some j \<Rightarrow> RJ j)) (\<lambda>_.
    put_report (lit ''complete'') (RB True))))"

definition history_main :: "'w alchemy \<Rightarrow> 'w hostops \<Rightarrow> script_args \<Rightarrow> pstr \<Rightarrow> nat \<Rightarrow> int \<Rightarrow> ('w nrstate, unit) comp" where
  "history_main A H s harness rounds seed = bindM (askM (ho_exists H (sa_output s))) (\<lambda>exists.
    bindM (whenM (\<not> (1 \<le> rounds \<and> rounds \<le> 32) \<or> exists) (SystemExit ''Use 1..32 rounds and a new output path'')) (\<lambda>_.
    bindM (liftR negative_controls) (\<lambda>controls.
    bindM (worldM (ho_sha256 H (sa_binary s))) (\<lambda>digest.
    bindM (worldM (ho_sha256 H harness)) (\<lambda>own.
    bindM (source_digests H (sa_home s) [(lit ''src''), (lit ''service''), (lit ''languages/python/src'')] (\<lambda>p. ends_with p ''.odin'' \<or> ends_with p ''.py'')) (\<lambda>sources.
    bindM (updM (\<lambda>_. run_empty [((lit ''complete''), RB False), ((lit ''format''), RI 5), ((lit ''policy''), RJ JNull), ((lit ''seed''), RI seed), ((lit ''rounds''), RI (int rounds)),
      ((lit ''batches''), RL []), ((lit ''rejoin_reads''), RL []), ((lit ''restart_reads''), RL []), ((lit ''platform''), RS (ho_platform H)),
      ((lit ''negative_controls''), RL (map (\<lambda>n. RS (lit n)) controls)), ((lit ''binary_sha256''), RS digest), ((lit ''harness_sha256''), RS own), ((lit ''sources''), sources)])) (\<lambda>_.
    campaignM H (sa_home s) (lit ''build/history-work'') (resolveM H (sa_binary s)) (sa_openssl s) (lit ''manual'') 6000
      (history_body A H rounds seed) (bindM (make_parent H (sa_output s)) (\<lambda>_. save_report H (sa_output s))))))))))"

end
