(* ===== verification/Net_Facts.thy ===== *)
theory Net_Facts
  imports History_Campaign
begin

text \<open>
  What the computations of the network scripts leave alone: a block with a connection changes the
  world and the connection only, so the script's own variables are as they were. The rules feed
  \<open>relation_rules\<close>; the history campaign is their first client.
\<close>

section \<open>Scopes\<close>

context step_relation
begin

lemma step_scope [relation_rules]: "keepsR R (\<lambda>s. snd (fst s)) m \<Longrightarrow> keepsR R fst (scopeM y m)"
  by (fastforce simp: keepsR_def scopeM_def wlp_def split: option.splits sum.splits)

lemma step_db [relation_rules]: "keepsR R (\<lambda>s. f (snd (fst s))) (dbM m)" "keepsR R (\<lambda>s. snd (fst s)) (dbM m)"
  by (auto simp: keepsR_def dbM_def wlp_def step_refl split: option.splits sum.splits)

lemma step_up [relation_rules]: "keepsR R (\<lambda>s. f (fst (fst s))) (upM m)" "keepsR R (\<lambda>s. fst (fst s)) (upM m)"
  by (auto simp: keepsR_def upM_def wlp_def step_refl split: option.splits sum.splits)

lemma step_world [relation_rules]:
  "keepsR R (\<lambda>s. f (fst s)) (clockM N)" "keepsR R fst (clockM N)" "keepsR R (\<lambda>s. f (fst s)) (effectM g)" "keepsR R fst (effectM g)"
  by (auto simp: keepsR_def clockM_def effectM_def wlp_def step_refl split: option.splits sum.splits prod.splits)

lemma step_handle [relation_rules]:
  assumes "keepsR R proj m" and "\<And>x. keepsR R proj (f x)" and "\<And>e. keepsR R proj (h e)"
  shows "keepsR R proj (handleM m f h)"
  unfolding keepsR_def
proof
  fix s
  show "wlp (handleM m f h) (\<lambda>_ t. R (proj s) (proj t)) (\<lambda>_ t. R (proj s) (proj t)) s"
    unfolding wlp_handle
    by (rule wlp_mono [OF step_wlp [OF assms(1)]]) (auto intro: wlp_mono [OF step_wlp [OF assms(2)]] wlp_mono [OF step_wlp [OF assms(3)]] step_trans)
qed

end

text \<open>What leaves the script's variables alone respects any relation on a part of them.\<close>

interpretation kept: step_relation "(=)"
  by unfold_locales auto

context step_relation
begin

lemma step_kept: "keepsR (=) fst m \<Longrightarrow> keepsR R (\<lambda>s. f (fst s)) m"
  by (fastforce simp: keepsR_def wlp_def step_refl split: option.splits sum.splits)

end

lemma keeps_net_with:
  assumes "keepsR (=) (\<lambda>s. snd (fst s)) body"
  shows "keepsR (=) fst (net_with H c nodes timeout pending body)"
  unfolding net_with_def with_db_def net_connect_def
  by (intro relation_rules assms)

lemma keeps_operation: "keepsR (=) fst (operation A H c node ident key)"
  unfolding operation_def operation_steps_def with_engine_def transaction_steps_def monotonic_ns_def read_sql_def Let_def
  by (intro relation_rules keeps_net_with)

end
