(* ===== verification/History_Facts.thy ===== *)
theory History_Facts
  imports Net_Facts
begin

text \<open>
  The course of the history campaign: every batch that is behind the campaign has a serial
  explanation, and each batch starts from the state that the explanation of its predecessor ends in.
\<close>

section \<open>Explained batches\<close>

definition explained :: "history_batch \<Rightarrow> int list \<Rightarrow> bool" where
  "explained b st \<longleftrightarrow> (\<exists>order is. hb_witness b = Some (st, order)
     \<and> explains (filter h_ok (map hop_of (hb_history b))) (sort (hb_initial b)) is st
     \<and> order = map (\<lambda>i. h_id (filter h_ok (map hop_of (hb_history b)) ! i)) is \<and> made_progress (hb_history b))"

fun course :: "int list \<Rightarrow> history_batch list \<Rightarrow> int list \<Rightarrow> bool" where
  "course st [] st' \<longleftrightarrow> st = st'"
| "course st (b # bs) st' \<longleftrightarrow> hb_initial b = st \<and> (\<exists>mid. explained b mid \<and> course mid bs st')"

lemma course_append: "course st (bs @ [b]) st' \<longleftrightarrow> (\<exists>mid. course st bs mid \<and> hb_initial b = mid \<and> explained b st')"
  by (induction bs arbitrary: st) auto

lemma explained_serial:
  assumes "serial_history (hb_initial b) (map hop_of (hb_history b)) = Some (st, order)" and "made_progress (hb_history b)"
  shows "explained (b\<lparr>hb_witness := Some (st, order)\<rparr>) st"
proof -
  obtain "is" where "completion (filter h_ok (map hop_of (hb_history b))) {} (sort (hb_initial b)) is st"
    and "order = map (\<lambda>i. h_id (filter h_ok (map hop_of (hb_history b)) ! i)) is"
    using serial_history_search(1) [OF assms(1)] by blast
  then show ?thesis
    using completion_explains [of "filter h_ok (map hop_of (hb_history b))" "{}" "sort (hb_initial b)" "is" st] assms(2)
    by (auto simp: explained_def explains_def intro!: exI [of _ "is"])
qed

section \<open>What a batch leaves alone\<close>

definition same_course :: "history_vars \<Rightarrow> history_vars \<Rightarrow> bool" where
  "same_course v u \<longleftrightarrow> hv_state u = hv_state v \<and> hv_restart u = hv_restart v
     \<and> length (hv_batches u) = length (hv_batches v) \<and> butlast (hv_batches u) = butlast (hv_batches v)
     \<and> (hv_batches v \<noteq> [] \<longrightarrow> hb_initial (last (hv_batches u)) = hb_initial (last (hv_batches v)))"

interpretation crs: step_relation same_course
  by unfold_locales (auto simp: same_course_def dest: arg_cong [where f = length])

lemma keeps_setV: "(\<And>v. same_course v (f v)) \<Longrightarrow> keepsR same_course (\<lambda>s. fst (fst s)) (setV f)"
  by (auto simp: keepsR_def setV_def)

lemma keeps_varsM [relation_rules]: "keepsR same_course (\<lambda>s. fst (fst s)) varsM"
  unfolding varsM_def by (intro relation_rules)

lemma keeps_run_jobs: "keepsR same_course (\<lambda>s. fst (fst s)) (run_jobs A H c live)"
  unfolding run_jobs_def draw_job_def draw_key_def nextid_def add_history_def Let_def
  by (intro relation_rules keeps_setV crs.step_kept [OF keeps_operation])
    (auto simp: same_course_def on_last_def)

section \<open>The campaign\<close>

definition good :: "nat \<Rightarrow> history_vars \<Rightarrow> bool" where
  "good n v \<longleftrightarrow> course [] (hv_batches v) (hv_state v) \<and> length (hv_batches v) = n \<and> hv_restart v = []"

definition safe :: "history_vars \<Rightarrow> bool" where
  "safe v \<longleftrightarrow> (\<exists>st. course [] (butlast (hv_batches v)) st)"

lemma course_safe: "course [] (hv_batches v) st \<Longrightarrow> safe v"
  by (cases "hv_batches v" rule: rev_cases) (auto simp: safe_def course_append)

lemma good_safe: "good n v \<Longrightarrow> safe v"
  by (auto simp: good_def course_safe)

lemma wlp_vars [simp]:
  "wlp varsM Q E ((v, r), w) = Q v ((v, r), w)" "wlp (setV f) Q2 E ((v, r), w) = Q2 () ((f v, r), w)"
  by (simp_all add: varsM_def setV_def)

lemma wlp_bind_fun: "wlp (bindM m f) Q E = wlp m (\<lambda>x. wlp (f x) Q E) E"
  by (rule ext) simp

lemma bindM_assoc: "bindM (bindM m f) g = bindM m (\<lambda>x. bindM (f x) g)"
  by (rule ext) (auto simp: bindM_def split: option.splits sum.splits prod.splits)

lemma wlp_finally_rule:
  "wlp m Q E s \<Longrightarrow> (\<And>x t. Q x t \<Longrightarrow> wlp f (\<lambda>_. Q' x) E' t) \<Longrightarrow> (\<And>e t. E e t \<Longrightarrow> wlp f (\<lambda>_. E' e) E' t)
    \<Longrightarrow> wlp (finallyM m f) Q' E' s"
  by (simp add: wlp_mono)

lemma on_last_append [simp]: "on_last f (xs @ [x]) = xs @ [f x]"
  by (simp add: on_last_def)

lemma judge_batch_good:
  assumes "hv_batches v = bs @ [b]" and "course [] bs (hv_state v)" and "hb_initial b = hv_state v" and "hv_restart v = []"
  shows "wlp judge_batch (\<lambda>_ t. good (Suc (length bs)) (fst (fst t))) (\<lambda>_ t. safe (fst (fst t))) ((v, r), w)"
  using assms explained_serial [of b]
  by (auto simp: judge_batch_def good_def safe_def course_append split: option.splits)

lemma run_batch_good:
  assumes "good n v"
  shows "wlp (run_batch A H c live absent batch) (\<lambda>_ t. good (Suc n) (fst (fst t))) (\<lambda>_ t. safe (fst (fst t))) ((v, r), w)"
proof -
  define u where "u = v\<lparr>hv_batches := hv_batches v @ [\<lparr>hb_absent = absent, hb_batch = batch, hb_initial = hv_state v, hb_history = [], hb_witness = None\<rparr>]\<rparr>"
  define work :: "('a hvstate, unit) comp" where
    "work = bindM (run_jobs A H c live) (\<lambda>_. bindM nextid (\<lambda>ident. bindM (operation A H c (live ! (batch mod length live)) ident None) add_history))"
  have "keepsR same_course (\<lambda>s. fst (fst s)) work"
    unfolding work_def nextid_def add_history_def
    by (intro relation_rules keeps_run_jobs keeps_setV crs.step_kept [OF keeps_operation]) (auto simp: same_course_def on_last_def)
  then have w: "wlp work (\<lambda>_ t. same_course u (fst (fst t))) (\<lambda>_ t. same_course u (fst (fst t))) ((u, r), w)"
    using crs.step_wlp [of "\<lambda>s. fst (fst s)" work "((u, r), w)"] by simp
  have judged: "wlp judge_batch (\<lambda>_ t. good (Suc n) (fst (fst t))) (\<lambda>_ t. safe (fst (fst t))) t" if "same_course u (fst (fst t))" for t
  proof -
    obtain x y z where t: "t = ((x, y), z)" by (metis surj_pair)
    then have x: "hv_batches x = hv_batches v @ [last (hv_batches x)]"
      using that by (cases "hv_batches x" rule: rev_cases) (auto simp: same_course_def u_def)
    show ?thesis
      using judge_batch_good [OF x] that assms t by (auto simp: same_course_def u_def good_def)
  qed
  have "safe (fst (fst t))" if "same_course u (fst (fst t))" for t :: "'a hvstate"
    using that assms by (auto simp: same_course_def u_def safe_def good_def)
  then have "wlp work (\<lambda>_. wlp judge_batch (\<lambda>_ t. good (Suc n) (fst (fst t))) (\<lambda>_ t. safe (fst (fst t)))) (\<lambda>_ t. safe (fst (fst t))) ((u, r), w)"
    by (auto intro: wlp_mono [OF w] judged)
  then show ?thesis by (simp add: run_batch_def work_def u_def wlp_bind_fun)
qed

text \<open>What does not touch batches, state and restart reads.\<close>

definition essence :: "history_vars \<Rightarrow> history_batch list \<times> int list \<times> history_entry list" where
  "essence v = (hv_batches v, hv_state v, hv_restart v)"

definition apart :: "('w hvstate, 'b) comp \<Rightarrow> bool" where
  "apart m \<longleftrightarrow> keepsR (=) (\<lambda>s. essence (fst (fst s))) m"

lemma keeps_setV_apart: "(\<And>v. essence (f v) = essence v) \<Longrightarrow> keepsR (=) (\<lambda>s. essence (fst (fst s))) (setV f)"
  by (auto simp: keepsR_def setV_def)

lemma apart_anchor: "apart (anchor_read A H c add_rejoin node)"
  unfolding apart_def anchor_read_def nextid_def varsM_def add_rejoin_def
  by (intro relation_rules keeps_setV_apart kept.step_kept [OF keeps_operation]) (auto simp: essence_def)

lemma apart_up: "apart (upM m)"
  unfolding apart_def by (intro relation_rules)

lemma apart_keeps:
  assumes "apart m" and "P (fst (fst s))" and "\<And>v u. essence v = essence u \<Longrightarrow> P v \<Longrightarrow> P u"
  shows "wlp m (\<lambda>_ t. P (fst (fst t))) (\<lambda>_ t. P (fst (fst t))) s"
  by (rule wlp_mono [OF kept.step_wlp [OF assms(1) [unfolded apart_def]]]) (use assms(2, 3) in blast)+

text \<open>
  \<open>leads n m n'\<close>: from a good course of \<open>n\<close> batches \<open>m\<close> goes on to one of \<open>n'\<close> batches, and a failure leaves
  the batches before the last one explained.
\<close>

definition leads :: "nat \<Rightarrow> ('w hvstate, 'b) comp \<Rightarrow> nat \<Rightarrow> bool" where
  "leads n m n' \<longleftrightarrow> (\<forall>s. good n (fst (fst s)) \<longrightarrow> wlp m (\<lambda>_ t. good n' (fst (fst t))) (\<lambda>_ t. safe (fst (fst t))) s)"

lemma leadsD: "leads n m n' \<Longrightarrow> good n (fst (fst s)) \<Longrightarrow> wlp m (\<lambda>_ t. good n' (fst (fst t))) (\<lambda>_ t. safe (fst (fst t))) s"
  unfolding leads_def by blast

lemma leads_apart: "apart m \<Longrightarrow> leads n m n"
  by (auto simp: leads_def apart_def good_def essence_def intro!: wlp_mono [OF kept.step_wlp] course_safe)

lemma leads_bind: "leads n m k \<Longrightarrow> (\<And>x. leads k (f x) n') \<Longrightarrow> leads n (bindM m f) n'"
  unfolding leads_def wlp_bind_fun by (blast intro: wlp_mono)

lemma leads_forM: "(\<And>x n. leads n (body x) (n + k)) \<Longrightarrow> leads n (forM xs body) (n + length xs * k)"
proof (induction xs arbitrary: n)
  case (Cons x xs)
  then have "leads (n + k) (forM xs body) (n + length (x # xs) * k)" by (metis add.assoc length_Cons mult_Suc)
  with Cons.prems show ?case by (auto intro: leads_bind)
next
  case Nil
  then show ?case by (simp add: leads_def wlp_def)
qed

lemma leads_finally: "leads n m n' \<Longrightarrow> apart f \<Longrightarrow> leads n (finallyM m f) n'"
proof -
  assume m: "leads n m n'" and f: "apart f"
  have "wlp f (\<lambda>_ t. safe (fst (fst t))) (\<lambda>_ t. safe (fst (fst t))) t" if "safe (fst (fst t))" for t
    using apart_keeps [OF f, of safe] that by (auto simp: safe_def essence_def)
  then show ?thesis
    using leadsD [OF leads_apart [OF f]] unfolding leads_def by (auto intro!: wlp_mono [OF leadsD [OF m]])
qed

lemma apart_basic: "apart (case a of None \<Rightarrow> retM () | Some y \<Rightarrow> upM (g y))"
  by (cases a) (auto simp: apart_up apart_def intro: relation_rules)

lemma absent_phase_leads: "leads n (absent_phase A H c rounds absent) (n + rounds)"
proof -
  have "leads m (run_batch A H c live absent x) (m + 1)" for m live x
    by (auto simp: leads_def run_batch_good)
  then have rounds: "leads n (forM [0..<rounds] (run_batch A H c live absent)) (n + rounds)" for live
    using leads_forM [where k = 1 and xs = "[0..<rounds]" and body = "run_batch A H c live absent" and n = n] by simp
  have anchors: "leads m (forM all_nodes (anchor_read A H c add_rejoin)) m" for m
    using leads_forM [where k = 0 and xs = all_nodes and body = "anchor_read A H c add_rejoin" and n = m] leads_apart [OF apart_anchor]
    unfolding mult_0_right add_0_right by blast
  show ?thesis
    unfolding absent_phase_def Let_def
    by (rule leads_bind [OF leads_apart [OF apart_basic]] leads_bind [OF leads_finally [OF rounds apart_basic] anchors])+
qed

lemma restart_read_good:
  assumes "course [] (hv_batches v) (hv_state v)" and "map he_observed (hv_restart v) = replicate k (Some (hv_state v))"
  shows "wlp (anchor_read A H c add_restart node)
    (\<lambda>_ t. hv_batches (fst (fst t)) = hv_batches v \<and> hv_state (fst (fst t)) = hv_state v
       \<and> map he_observed (hv_restart (fst (fst t))) = replicate (Suc k) (Some (hv_state v)))
    (\<lambda>_ t. safe (fst (fst t))) ((v, r), w)"
  unfolding anchor_read_def nextid_def wlp_bind_fun
  using assms course_safe [OF assms(1)]
  by (auto simp: add_restart_def replicate_append_same [symmetric] safe_def
      intro!: wlp_mono [OF kept.step_wlp [OF keeps_operation]] exI [where P = "course [] (butlast (hv_batches v))"])

definition finished :: "nat \<Rightarrow> history_vars \<Rightarrow> bool" where
  "finished n v \<longleftrightarrow> course [] (hv_batches v) (hv_state v) \<and> length (hv_batches v) = n
     \<and> map he_observed (hv_restart v) = replicate 3 (Some (hv_state v))"

lemma restart_reads_good:
  assumes "good n (fst (fst s))"
  shows "wlp (forM all_nodes (anchor_read A H c add_restart))
    (\<lambda>_ t. (case fst (fst t) of v \<Rightarrow> course [] (hv_batches v) (hv_state v) \<and> length (hv_batches v) = n
       \<and> map he_observed (hv_restart v) = replicate 3 (Some (hv_state v))))
    (\<lambda>_ t. safe (fst (fst t))) s"
proof (rule wlp_forM [where I = "\<lambda>xs t. course [] (hv_batches (fst (fst t))) (hv_state (fst (fst t))) \<and> length (hv_batches (fst (fst t))) = n
       \<and> length xs \<le> 3 \<and> map he_observed (hv_restart (fst (fst t))) = replicate (3 - length xs) (Some (hv_state (fst (fst t))))"])
  fix x :: nat and ys and t :: "'a hvstate"
  assume t: "course [] (hv_batches (fst (fst t))) (hv_state (fst (fst t))) \<and> length (hv_batches (fst (fst t))) = n
       \<and> length (x # ys) \<le> 3 \<and> map he_observed (hv_restart (fst (fst t))) = replicate (3 - length (x # ys)) (Some (hv_state (fst (fst t))))"
  obtain v r w where v: "t = ((v, r), w)" by (metis surj_pair)
  have k: "Suc (3 - length (x # ys)) = 3 - length ys" using t by (auto simp: Suc_diff_le)
  show "wlp (anchor_read A H c add_restart x) (\<lambda>_ t. course [] (hv_batches (fst (fst t))) (hv_state (fst (fst t))) \<and> length (hv_batches (fst (fst t))) = n
       \<and> length ys \<le> 3 \<and> map he_observed (hv_restart (fst (fst t))) = replicate (3 - length ys) (Some (hv_state (fst (fst t))))) (\<lambda>_ t. safe (fst (fst t))) t"
    using restart_read_good [of v "3 - length (x # ys)" A H c x r w] t unfolding v k
    by (auto intro: wlp_mono)
qed (use assms in \<open>auto simp: good_def\<close>)

lemma history_setup_apart: "apart (history_setup H c)"
proof -
  have "keepsR (=) fst (net_with H c all_nodes 20 None (bindM (dbM m1) (\<lambda>_. bindM (dbM m2) (\<lambda>_. retM ()))))" for m1 m2 :: "('a cstate, WriteResult) comp"
    by (intro keeps_net_with relation_rules)
  then show ?thesis
    unfolding history_setup_def apart_def run_sql_def
    by (rule kept.step_bind [OF kept.step_up(1) kept.step_kept [where f = "\<lambda>x. essence (fst x)"]])
qed

lemma dispose_apart: "apart (forM xs (\<lambda>node. askM (al_dispose A node)))"
  unfolding apart_def by (intro relation_rules)

lemma phases_lead:
  "leads 0 (bindM (history_setup H c) (\<lambda>_. bindM (forM [None, Some 1, Some 2, Some 3] (absent_phase A H c rounds)) (\<lambda>_.
     bindM (forM all_nodes (\<lambda>node. upM (net_stop H node))) (\<lambda>_. upM (start_all H c False))))) (4 * rounds)"
proof -
  have phases: "leads 0 (forM [None, Some 1, Some 2, Some 3] (absent_phase A H c rounds)) (4 * rounds)"
    using leads_forM [where n = 0 and xs = "[None, Some 1, Some 2, Some 3]" and k = rounds and body = "absent_phase A H c rounds", OF absent_phase_leads]
    by (simp del: forM.simps add: numeral_eq_Suc)
  have stops: "apart (forM all_nodes (\<lambda>node. upM (net_stop H node)))"
    unfolding apart_def by (intro relation_rules)
  show ?thesis
    by (rule leads_bind [OF leads_apart [OF history_setup_apart] leads_bind [OF phases leads_bind [OF leads_apart [OF stops] leads_apart [OF apart_up]]]])
qed

lemma history_campaign_finishes:
  assumes "good 0 (fst (fst s))"
  shows "wlp (history_campaign A H c rounds) (\<lambda>_ t. finished (4 * rounds) (fst (fst t))) (\<lambda>_ t. safe (fst (fst t))) s"
proof -
  let ?D = "forM (map mb_id (nc_members c)) (\<lambda>node. askM (al_dispose A node))"
  note kept = apart_keeps [OF dispose_apart [of "map mb_id (nc_members c)" A]]
  have finish: "wlp ?D (\<lambda>_ t. finished (4 * rounds) (fst (fst t))) (\<lambda>_ t. safe (fst (fst t))) t" if "finished (4 * rounds) (fst (fst t))" for t :: "'a hvstate"
    using kept [of "finished (4 * rounds)" t] that by (auto simp: finished_def essence_def intro: wlp_mono course_safe)
  have safe: "wlp ?D (\<lambda>_ t. safe (fst (fst t))) (\<lambda>_ t. safe (fst (fst t))) t" if "safe (fst (fst t))" for t :: "'a hvstate"
    using kept [of safe t] that by (auto simp: safe_def essence_def)
  have "wlp (forM all_nodes (anchor_read A H c add_restart)) (\<lambda>_ t. finished (4 * rounds) (fst (fst t))) (\<lambda>_ t. safe (fst (fst t))) t"
    if "good (4 * rounds) (fst (fst t))" for t
    using restart_reads_good [OF that] by (simp add: finished_def)
  then have "wlp (bindM (history_setup H c) (\<lambda>_. bindM (forM [None, Some 1, Some 2, Some 3] (absent_phase A H c rounds)) (\<lambda>_.
     bindM (forM all_nodes (\<lambda>node. upM (net_stop H node))) (\<lambda>_. bindM (upM (start_all H c False)) (\<lambda>_. forM all_nodes (anchor_read A H c add_restart))))))
     (\<lambda>_ t. finished (4 * rounds) (fst (fst t))) (\<lambda>_ t. safe (fst (fst t))) s"
    using wlp_mono [OF leadsD [OF phases_lead assms, of H c A rounds]] by (subst bindM_assoc [symmetric])+ (simp only: wlp_bind_fun)
  from wlp_finally_rule [OF this finish safe] show ?thesis
    by (simp add: history_campaign_def engine_isolation_def del: wlp_finally forM.simps)
qed

end
