(* ===== verification/Resource_Load.thy ===== *)
theory Resource_Load
  imports Network_Checks
begin

text \<open>
  \<open>tools/check_resource_load.py\<close>: bounded saturation of the native service. The jobs of the thread
  pool run one after the other; the passes of the sampling thread, as many as the argument says,
  run between the load and its evaluation.
\<close>

section \<open>Samples\<close>

record node_sample =
  ns_cpu :: rat
  ns_rss :: int
  ns_io :: "(pstr \<times> int) list"

record load_sample =
  ls_time :: rat
  ls_nodes :: "(nat \<times> node_sample) list"

text \<open>\<open>line.split(': ')\<close> unpacked into a pair by \<open>dict\<close>.\<close>

fun split_colon :: "pstr \<Rightarrow> pstr list" where
  "split_colon [] = [[]]"
| "split_colon [c] = [[c]]"
| "split_colon (c # d # cs) = (if c = 58 \<and> d = 32 then [] # split_colon cs
     else (case split_colon (d # cs) of [] \<Rightarrow> [[c]] | w # ws \<Rightarrow> (c # w) # ws))"

definition io_pair :: "pstr \<Rightarrow> (pstr \<times> pstr) res" where
  "io_pair line = (case split_colon line of [k, v] \<Rightarrow> Inr (k, v)
     | _ \<Rightarrow> Inl (ValueError ''dictionary update sequence element has the wrong length''))"

text \<open>\<open>text.splitlines()\<close> on line feeds: no empty last line.\<close>

definition split_lines :: "pstr \<Rightarrow> pstr list" where
  "split_lines s = (let ls = split_on (\<lambda>c. c = 10) s in if last ls = [] then butlast ls else ls)"

definition sample_node :: "'w hostops \<Rightarrow> nat \<Rightarrow> ('x \<times> 'w, node_sample) comp" where
  "sample_node H pid = (let U = unicode (ho_net H) in
    bindM (worldM (ho_read H (lit ''/proc/'' @ dec pid @ lit ''/stat''))) (\<lambda>stat.
    bindM (liftR (bindR (after_last 41 stat) (\<lambda>rest. Inr (split_words U rest)))) (\<lambda>fields.
    bindM (worldM (ho_read H (lit ''/proc/'' @ dec pid @ lit ''/io''))) (\<lambda>contents.
    bindM (liftR (mapR io_pair (split_lines contents))) (\<lambda>pairs.
    bindM (liftR (bindR (nth_res fields 11) (int_res U))) (\<lambda>user.
    bindM (liftR (bindR (nth_res fields 12) (int_res U))) (\<lambda>system.
    bindM (liftR (bindR (nth_res fields 21) (int_res U))) (\<lambda>pages.
    bindM (liftR (mapR (\<lambda>(k, v). bindR (int_res U v) (\<lambda>n. Inr (k, n))) (fold (\<lambda>(k, v). AList.update k v) pairs []))) (\<lambda>counts.
    retM \<lparr>ns_cpu = of_int (user + system) / ho_clk_tck H, ns_rss = pages * ho_page_size H, ns_io = counts\<rparr>)))))))))"

definition sample_cluster :: "'w hostops \<Rightarrow> ('w nrstate, load_sample) comp" where
  "sample_cluster H = bindM (clockM (ho_net H)) (\<lambda>now.
    bindM objM (\<lambda>r.
    bindM (mapM (\<lambda>(node, pid). bindM (sample_node H pid) (\<lambda>s. retM (node, s))) (nr_processes r)) (\<lambda>nodes.
    retM \<lparr>ls_time = now, ls_nodes = nodes\<rparr>)))"

section \<open>Operations and their summary\<close>

datatype op_kind = Op_Write | Op_Limited_Read | Op_Read | Op_Snapshot

record load_op =
  lo_kind :: op_kind
  lo_start :: rat
  lo_end :: rat
  lo_target :: int
  lo_node :: nat
  lo_identity :: nat

text \<open>\<open>values[math.ceil(.99*len(values))-1]\<close> of sorted values.\<close>

definition p99 :: "rat list \<Rightarrow> rat" where
  "p99 xs = sort xs ! ((99 * length xs + 99) div 100 - 1)"

definition kind_name :: "op_kind \<Rightarrow> pstr" where
  "kind_name k = (case k of Op_Write \<Rightarrow> (lit ''write'') | Op_Limited_Read \<Rightarrow> (lit ''limited_read'') | Op_Read \<Rightarrow> (lit ''read'') | Op_Snapshot \<Rightarrow> (lit ''snapshot''))"

text \<open>The kinds in the order of their names.\<close>

definition summarize_kinds :: "load_op list \<Rightarrow> (op_kind \<times> nat \<times> rat) list" where
  "summarize_kinds ops = map (\<lambda>k. let ds = map (\<lambda>q. lo_end q - lo_start q) (filter (\<lambda>q. lo_kind q = k) ops) in (k, length ds, 1000 * p99 ds))
     (filter (\<lambda>k. k \<in> set (map lo_kind ops)) [Op_Limited_Read, Op_Read, Op_Write])"

record node_summary =
  su_cores :: rat
  su_peaks :: "int list"
  su_io :: "(pstr \<times> int) list"

definition node_of :: "load_sample \<Rightarrow> nat \<Rightarrow> node_sample res" where
  "node_of s node = (case map_of (ls_nodes s) node of None \<Rightarrow> Inl KeyError | Some v \<Rightarrow> Inr v)"

definition quarters :: "'a list \<Rightarrow> 'a list list" where
  "quarters xs = map (\<lambda>i. take (length xs * (i + 1) div 4 - length xs * i div 4) (drop (length xs * i div 4) xs)) [0, 1, 2, 3]"

definition summarize_node :: "load_sample list \<Rightarrow> nat \<Rightarrow> node_summary res" where
  "summarize_node samples node =
    (if samples = [] then Inl IndexError
     else bindR (node_of (hd samples) node) (\<lambda>first. bindR (node_of (last samples) node) (\<lambda>final.
       if ls_time (last samples) = ls_time (hd samples) then Inl ZeroDivisionError
       else bindR (mapR (\<lambda>part. bindR (mapR (\<lambda>s. bindR (node_of s node) (\<lambda>n. Inr (ns_rss n))) part) maxR) (quarters samples)) (\<lambda>peaks.
         bindR (mapR (\<lambda>(k, n). case map_of (ns_io final) k of None \<Rightarrow> Inl KeyError | Some m \<Rightarrow> Inr (k, m - n)) (ns_io first)) (\<lambda>delta.
         Inr \<lparr>su_cores = (ns_cpu final - ns_cpu first) / (ls_time (last samples) - ls_time (hd samples)), su_peaks = peaks, su_io = delta\<rparr>)))))"

record load_summary =
  sy_elapsed :: rat
  sy_rate :: rat
  sy_kinds :: "(op_kind \<times> nat \<times> rat) list"
  sy_nodes :: "(nat \<times> node_summary) list"

definition summarize :: "rat \<Rightarrow> rat \<Rightarrow> load_op list \<Rightarrow> load_sample list \<Rightarrow> load_summary res" where
  "summarize started finished all_ops samples =
    (let elapsed = finished - started; ops = filter (\<lambda>q. lo_kind q \<noteq> Op_Snapshot) all_ops in
     bindR (mapR (\<lambda>node. bindR (summarize_node samples node) (\<lambda>s. Inr (node, s))) all_nodes) (\<lambda>nodes.
     if elapsed = 0 then Inl ZeroDivisionError
     else Inr \<lparr>sy_elapsed = elapsed, sy_rate = of_nat (length ops) / elapsed, sy_kinds = summarize_kinds ops, sy_nodes = nodes\<rparr>))"

section \<open>A worker\<close>

definition worker_snapshot :: "'w netops \<Rightarrow> bool \<Rightarrow> nat \<Rightarrow> rat \<Rightarrow> ('w cstate, load_op list) comp" where
  "worker_snapshot N request i before = (if request \<and> i = 1
     then bindM (request_snapshot N) (\<lambda>target.
       bindM (clockM N) (\<lambda>now.
       retM [\<lparr>lo_kind = Op_Snapshot, lo_start = before, lo_end = now, lo_target = target, lo_node = 0, lo_identity = 0\<rparr>]))
     else retM [])"

definition worker_op :: "'w hostops \<Rightarrow> nat \<Rightarrow> nat \<Rightarrow> ('w cstate, op_kind) comp" where
  "worker_op H identity i = (let N = ho_net H in
    (if i mod 4 = 0 then bindM (execute N (VStr (lit ''UPDATE resource_rows SET value=value+1 WHERE id=?'')) (PSeq [VInt (int identity)])) (\<lambda>_.
       retM Op_Write)
     else if i mod 4 = 3 then bindM (rejectedM (query N (VStr (lit ''SELECT count(*) FROM seed a,seed b,seed c,seed d'')) (PSeq []) (lit ''linearizable''))
         is_QueryError (\<lambda>e. has_text (lit ''Query_Limit'') (ho_str H e)) ''Expensive read did not hit its instruction budget'') (\<lambda>_.
       retM Op_Limited_Read)
     else bindM (assert_is N (lit ''SELECT count(*) FROM resource_rows'') [] 60) (\<lambda>_.
       retM Op_Read)))"

definition load_worker :: "'w hostops \<Rightarrow> nat \<Rightarrow> nat \<Rightarrow> nat \<Rightarrow> bool \<Rightarrow> ('w cstate, load_op list) comp" where
  "load_worker H node identity operations request = foldM [0..<operations] [] (\<lambda>i results. (let N = ho_net H in
    bindM (clockM N) (\<lambda>before.
    bindM (worker_snapshot N request i before) (\<lambda>snap.
    bindM (worker_op H identity i) (\<lambda>kind.
    bindM (clockM N) (\<lambda>now.
    retM (results @ snap @ [\<lparr>lo_kind = kind, lo_start = before, lo_end = now, lo_target = 0, lo_node = node, lo_identity = identity\<rparr>])))))))"

section \<open>The campaign\<close>

text \<open>The script's variables: clients with their nodes, transports that do not read, stalled sockets.\<close>

record load_vars =
  lv_clients :: "(nat \<times> Connection) list"
  lv_slow :: "Transport list"
  lv_stalled :: "sock list"

type_synonym 'w lvstate = "(load_vars \<times> NetRun) \<times> 'w"

definition lv_clientM :: "nat \<Rightarrow> ('w cstate, 'a) comp \<Rightarrow> ('w lvstate, 'a) comp" where
  "lv_clientM i m = (\<lambda>((v, x), w). if i < length (lv_clients v)
     then (case m (snd (lv_clients v ! i), w) of None \<Rightarrow> None
       | Some (r, (c, w')) \<Rightarrow> Some (r, ((v\<lparr>lv_clients := (lv_clients v)[i := (fst (lv_clients v ! i), c)]\<rparr>, x), w')))
     else Some (Inl IndexError, ((v, x), w)))"

definition lv_upd :: "(load_vars \<Rightarrow> load_vars) \<Rightarrow> ('w lvstate, unit) comp" where
  "lv_upd f = updM (\<lambda>(v, x). (f v, x))"

definition load_schema :: "'w netops \<Rightarrow> ((Connection \<times> 'x) \<times> 'w, unit) comp" where
  "load_schema N = forM
    [(lit ''CREATE TABLE seed(id INTEGER PRIMARY KEY)''),
     (lit ''INSERT INTO seed VALUES '') @ join (lit '','') (map (\<lambda>i. (lit ''('' @ dec i @ lit '')'')) [1..<65]),
     (lit ''CREATE TABLE resource_rows(id INTEGER PRIMARY KEY,value INTEGER NOT NULL)''),
     (lit ''INSERT INTO resource_rows SELECT id,0 FROM seed WHERE id<=60''),
     (lit ''CREATE TABLE payload(id INTEGER PRIMARY KEY, value BLOB)''),
     (lit ''INSERT INTO payload SELECT a.id*64+b.id,zeroblob(1024) FROM seed a,seed b''),
     (lit ''CREATE TABLE work_result(value INTEGER)'')]
    (\<lambda>sql. bindM (run_sql N sql []) (\<lambda>_. retM ()))"

definition large_read :: dict where
  "large_read = [((lit ''op''), JStr (lit ''query'')), ((lit ''consistency''), JStr (lit ''local'')), ((lit ''sql''), JStr (lit ''SELECT hex(zeroblob(60000))'')),
     ((lit ''timeout_ms''), JInt 5000), ((lit ''cluster''), JStr (lit ''network-qualification'')), ((lit ''protocol''), JInt 1)]"

text \<open>\<open>frame\<close>: the request with the header fields before it.\<close>

definition load_frame :: "'w netops \<Rightarrow> dict \<Rightarrow> pbytes res" where
  "load_frame N request = bindR (json_dumps N (JObj ([((lit ''cluster''), JStr (lit ''network-qualification'')), ((lit ''protocol''), JInt 1)] @ request)))
     (\<lambda>body. Inr (frame body))"

definition large_frame :: "'w netops \<Rightarrow> pbytes res" where
  "large_frame N = load_frame N [((lit ''op''), JStr (lit ''query'')), ((lit ''consistency''), JStr (lit ''local'')), ((lit ''timeout_ms''), JInt 5000),
     ((lit ''sql''), JStr (lit ''SELECT hex(zeroblob(60000))''))]"

definition slow_reader :: "'w hostops \<Rightarrow> Endpoint \<Rightarrow> (Transport \<times> 'w, unit) comp" where
  "slow_reader H endpoint = (let N = ho_net H in
    bindM (clockM N) (\<lambda>now.
    bindM (exchange N endpoint status_request (now + 5)) (\<lambda>response.
    bindM (liftR (key_res response ''status'')) (\<lambda>state.
    bindM (assertM (state = JStr (lit ''ok'')) ''status'') (\<lambda>_.
    bindM (clockM N) (\<lambda>later.
    bindM (exchange N endpoint large_read (later + 5)) (\<lambda>reply.
    bindM (liftR (key_res reply ''status'')) (\<lambda>state2.
    bindM (liftR (bindR (bindR (bindR (key_res reply ''rows'') first_item) first_item) (\<lambda>cell. field cell ''text''))) (\<lambda>contents.
    bindM (assertM (state2 = JStr (lit ''ok'') \<and> (case contents of JStr s \<Rightarrow> length s = 120000 | _ \<Rightarrow> False)) ''response'') (\<lambda>_.
    bindM socketM (\<lambda>k.
    worldM (ho_rcvbuf H k 4096))))))))))))"

definition open_slow :: "'w hostops \<Rightarrow> NetCluster \<Rightarrow> Endpoint \<Rightarrow> ('w lvstate, unit) comp" where
  "open_slow H c endpoint = (let N = ho_net H in
    bindM (worldM (tls_context N (net_tls c (lit ''client'') (lit ''client'')))) (\<lambda>ctx.
    bindM ((\<lambda>(x, w). case bindM (slow_reader H endpoint) (\<lambda>_. objM) (transport_new ctx, w) of
        None \<Rightarrow> None | Some (r, (_, w')) \<Rightarrow> Some (r, (x, w')))) (\<lambda>t.
    lv_upd (\<lambda>v. v\<lparr>lv_slow := lv_slow v @ [t]\<rparr>))))"

definition open_client :: "'w hostops \<Rightarrow> NetCluster \<Rightarrow> nat \<Rightarrow> ('w lvstate, unit) comp" where
  "open_client H c node = (let N = ho_net H in
    bindM (net_connect H c [node] 20 None) (\<lambda>db.
    bindM (scopeM db (bindM (dbM (status_field N ''node'')) (\<lambda>n.
      bindM (assertM (n = int node) ''node'') (\<lambda>_.
      dbM connM)))) (\<lambda>db'.
    lv_upd (\<lambda>v. v\<lparr>lv_clients := lv_clients v @ [(node, db')]\<rparr>))))"

definition refuse_excess :: "'w hostops \<Rightarrow> NetCluster \<Rightarrow> Endpoint \<Rightarrow> ('x \<times> 'w, unit) comp" where
  "refuse_excess H c endpoint = transportM (ho_net H) (net_tls c (lit ''client'') (lit ''client'')) ((let N = ho_net H in
    bindM (clockM N) (\<lambda>now.
    bindM (exchange N endpoint status_request (now + 5)) (\<lambda>response.
    assertM (dget response ''error'' = Some (JStr (lit ''Busy''))) ''response''))))"

definition fill_node :: "'w hostops \<Rightarrow> NetCluster \<Rightarrow> nat \<Rightarrow> ('w lvstate, unit) comp" where
  "fill_node H c node = bindM (liftR (nth_res (nc_members c) (node - 1))) (\<lambda>m.
    let endpoint = \<lparr>ep_address = mb_address m, ep_server_name = mb_identity m\<rparr> in
    bindM (forM [0..<4] (\<lambda>_. open_slow H c endpoint)) (\<lambda>_.
    bindM (forM [0..<20] (\<lambda>_. open_client H c node)) (\<lambda>_.
    forM [0..<4] (\<lambda>_. refuse_excess H c endpoint))))"

text \<open>Requests sent without reading the replies, and handshakes that never finish.\<close>

definition send_slow :: "'w hostops \<Rightarrow> Transport \<Rightarrow> ('x \<times> 'w, unit) comp" where
  "send_slow H t = (let N = ho_net H in
    bindM (liftR (large_frame N)) (\<lambda>bytes.
    (case t_socket t of None \<Rightarrow> raiseM AttributeError | Some k \<Rightarrow> worldM (sock_send N k (concat (replicate 64 bytes))))))"

definition stall_member :: "'w hostops \<Rightarrow> Member \<Rightarrow> ('w lvstate, unit) comp" where
  "stall_member H m = (let N = ho_net H in
    bindM (liftR (socket_address (unicode N) \<lparr>ep_address = mb_address m, ep_server_name = mb_identity m\<rparr>)) (\<lambda>address.
    forM [0..<4] (\<lambda>_. bindM (worldM (sock_connect N address 2)) (\<lambda>k.
      lv_upd (\<lambda>v. v\<lparr>lv_stalled := lv_stalled v @ [k]\<rparr>)))))"

definition close_slow :: "'w netops \<Rightarrow> Transport \<Rightarrow> ('x \<times> 'w, unit) comp" where
  "close_slow N t = (\<lambda>(x, w). case transport_close N (t, w) of None \<Rightarrow> None | Some (r, (_, w')) \<Rightarrow> Some (r, (x, w')))"

definition release_load :: "'w netops \<Rightarrow> ('w lvstate, unit) comp" where
  "release_load N = bindM objM (\<lambda>(v, _).
    bindM (forM (lv_stalled v) (\<lambda>k. effectM (sock_close N k))) (\<lambda>_.
    bindM (lv_upd (\<lambda>v. v\<lparr>lv_stalled := []\<rparr>)) (\<lambda>_.
    bindM (forM (lv_slow v) (close_slow N)) (\<lambda>_.
    lv_upd (\<lambda>v. v\<lparr>lv_slow := []\<rparr>)))))"

definition run_workers :: "'w hostops \<Rightarrow> nat \<Rightarrow> ('w lvstate, load_op list) comp" where
  "run_workers H operations = bindM objM (\<lambda>(v, _).
    bindM (mapM (\<lambda>i. lv_clientM i (load_worker H (fst (lv_clients v ! i)) (i + 1) operations (i = 0))) [0..<length (lv_clients v)]) (\<lambda>results.
    retM (concat results)))"

definition node_result :: "'w hostops \<Rightarrow> nat \<Rightarrow> nat \<Rightarrow> ('w lvstate, nat \<times> dict) comp" where
  "node_result H operations node = (let N = ho_net H in
    let i = (node - 1) * 20 in
    bindM (lv_clientM i (assert_is N (lit ''SELECT count(*) FROM resource_rows WHERE value=?'') [VInt (int ((operations + 3) div 4))] 60)) (\<lambda>_.
    bindM (lv_clientM i (assert_is N (lit ''SELECT value FROM work_result'') [] (64 ^ 3))) (\<lambda>_.
    bindM (lv_clientM i (status N)) (\<lambda>state.
    retM (node, state)))))"

text \<open>Polling until every node has published the snapshot, then the final look at the last states.\<close>

definition published :: "int \<Rightarrow> dict \<Rightarrow> bool res" where
  "published target state = bindR (int_field (JObj state) ''generation_prefix'') (\<lambda>n. Inr (target \<le> n))"

definition poll_states :: "'w hostops \<Rightarrow> int \<Rightarrow> (dict list option \<times> 'w lvstate, unit option) comp" where
  "poll_states H target = (let N = ho_net H in
    bindM (innerM (mapM (\<lambda>i. lv_clientM (i * 20) (status N)) [0, 1, 2])) (\<lambda>states.
    bindM (updM (\<lambda>_. Some states)) (\<lambda>_.
    bindM (liftR (allR (\<lambda>s. bindR (field (JObj s) ''snapshot_error'') (\<lambda>e. Inr (\<not> json_truth e))) states)) (\<lambda>clean.
    bindM (assertM clean ''states'') (\<lambda>_.
    bindM (liftR (allR (published target) states)) (\<lambda>finished.
    (if finished then retM (Some ()) else bindM (innerM (effectM (sleep N (1 / 10)))) (\<lambda>_. retM None))))))))"

definition wait_published :: "'w hostops \<Rightarrow> int \<Rightarrow> ('w lvstate, dict list) comp" where
  "wait_published H target = (let N = ho_net H in
    bindM (clockM N) (\<lambda>start.
    localM None (bindM (whileM (bindM (innerM (clockM N)) (\<lambda>now. retM (now < start + 60))) (poll_states H target)) (\<lambda>_.
      bindM objM (\<lambda>seen.
      bindM ((case seen of None \<Rightarrow> raiseM NameError | Some states \<Rightarrow> retM states)) (\<lambda>states.
      bindM (liftR (allR (published target) states)) (\<lambda>finished.
      bindM (assertM finished ''states'') (\<lambda>_.
      retM states))))))))"

section \<open>The whole run\<close>

definition node_rv :: "node_sample \<Rightarrow> rv" where
  "node_rv s = RD [((lit ''cpu_seconds''), RT (ns_cpu s)), ((lit ''rss_bytes''), RI (ns_rss s)), ((lit ''io''), RD (map (\<lambda>(k, n). (k, RI n)) (ns_io s)))]"

definition sample_rv :: "load_sample \<Rightarrow> rv" where
  "sample_rv s = RD [((lit ''time''), RT (ls_time s)), ((lit ''nodes''), RD (map (\<lambda>(n, v). (dec n, node_rv v)) (ls_nodes s)))]"

definition op_rv :: "load_op \<Rightarrow> rv" where
  "op_rv q = RD ([((lit ''kind''), RS (kind_name (lo_kind q)))] @ (if lo_kind q = Op_Snapshot then [((lit ''target''), RI (lo_target q))] else [])
     @ [((lit ''start''), RT (lo_start q)), ((lit ''end''), RT (lo_end q))]
     @ (if lo_kind q = Op_Snapshot then [] else [((lit ''node''), RI (int (lo_node q))), ((lit ''identity''), RI (int (lo_identity q)))]))"

definition summary_rv :: "load_summary \<Rightarrow> rv" where
  "summary_rv s = RD [((lit ''scope''), RS (lit ''closed-loop admitted saturation; excess connections separately rejected'')),
     ((lit ''elapsed_seconds''), RT (sy_elapsed s)), ((lit ''completed_per_second''), RT (sy_rate s)),
     ((lit ''operations''), RD (map (\<lambda>(k, n, p). (kind_name k, RD [((lit ''completed''), RI (int n)), ((lit ''p99_ms''), RT p)])) (sy_kinds s))),
     ((lit ''nodes''), RD (map (\<lambda>(n, v). (dec n, RD [((lit ''average_cpu_cores''), RT (su_cores v)), ((lit ''rss_quarter_peaks''), RL (map RI (su_peaks v))),
        ((lit ''kernel_io_delta''), RD (map (\<lambda>(k, i). (k, RI i)) (su_io v)))])) (sy_nodes s)))]"

text \<open>The passes of the sampling thread; a failing sample ends it.\<close>

definition monitor_passes :: "'w hostops \<Rightarrow> nat \<Rightarrow> (load_sample list \<times> 'w nrstate, unit) comp" where
  "monitor_passes H passes = bindM (untilM [0..<passes] (\<lambda>_. tryM (bindM (innerM (sample_cluster H)) (\<lambda>s.
        bindM (updM (\<lambda>ss. ss @ [s])) (\<lambda>_.
        retM None)))
      (\<lambda>e. bindM (innerM (put_report (lit ''monitor_error'') (RS (ho_repr H e)))) (\<lambda>_. retM (Some ())))))
    (\<lambda>_. retM ())"

definition collect_samples :: "'w hostops \<Rightarrow> nat \<Rightarrow> ('w nrstate, load_sample list) comp" where
  "collect_samples H passes = bindM (localM [] (bindM (monitor_passes H passes) (\<lambda>_. objM))) (\<lambda>samples.
    bindM (put_report (lit ''samples'') (RL (map sample_rv samples))) (\<lambda>_.
    retM samples))"

definition snapshot_target :: "load_op list \<Rightarrow> int res" where
  "snapshot_target ops = (case filter (\<lambda>q. lo_kind q = Op_Snapshot) ops of [] \<Rightarrow> Inl StopIteration | q # _ \<Rightarrow> Inr (lo_target q))"

definition rss_peak :: "load_sample list \<Rightarrow> nat \<Rightarrow> int res" where
  "rss_peak samples node = bindR (mapR (\<lambda>s. bindR (node_of s node) (\<lambda>n. Inr (ns_rss n))) samples) maxR"

definition campaign_setup :: "'w hostops \<Rightarrow> NetCluster \<Rightarrow> ('w lvstate, unit) comp" where
  "campaign_setup H c = bindM (upM (forM all_nodes (\<lambda>node. net_start H c node True))) (\<lambda>_.
    bindM (forM all_nodes (\<lambda>node. bindM (node_ready H c node 60) (\<lambda>_. retM ()))) (\<lambda>_.
    bindM (net_with H c all_nodes 10 None (load_schema (ho_net H))) (\<lambda>_.
    bindM (upM (sample_cluster H)) (\<lambda>first.
    bindM (upM (put_report (lit ''idle_start'') (sample_rv first))) (\<lambda>_.
    bindM (effectM (sleep (ho_net H) 1)) (\<lambda>_.
    bindM (upM (sample_cluster H)) (\<lambda>second.
    bindM (upM (put_report (lit ''idle_end'') (sample_rv second))) (\<lambda>_.
    bindM (forM all_nodes (fill_node H c)) (\<lambda>_.
    upM (put_report (lit ''capacity'') (RD [((lit ''active_clients''), RI 60), ((lit ''slow_readers''), RI 12), ((lit ''rejected_excess''), RI 12)])))))))))))"

definition campaign_load :: "'w hostops \<Rightarrow> NetCluster \<Rightarrow> nat \<Rightarrow> ('w lvstate, rat \<times> rat \<times> load_op list) comp" where
  "campaign_load H c operations = bindM objM (\<lambda>(v, _).
    bindM (forM (lv_slow v) (send_slow H)) (\<lambda>_.
    bindM (forM (nc_members c) (stall_member H)) (\<lambda>_.
    bindM (clockM (ho_net H)) (\<lambda>started.
    bindM (upM (put_report (lit ''load_started'') (RT started))) (\<lambda>_.
    bindM (run_workers H operations) (\<lambda>ops.
    bindM (upM (put_report (lit ''operations'') (RL (map op_rv ops)))) (\<lambda>_.
    bindM (clockM (ho_net H)) (\<lambda>finished.
    bindM (upM (put_report (lit ''load_finished'') (RT finished))) (\<lambda>_.
    bindM (release_load (ho_net H)) (\<lambda>_.
    retM (started, finished, ops)))))))))))"

definition campaign_evaluate :: "'w hostops \<Rightarrow> nat \<Rightarrow> nat \<Rightarrow> rat \<times> rat \<times> load_op list \<Rightarrow> ('w lvstate, unit) comp" where
  "campaign_evaluate H operations passes load = (let N = ho_net H in
    let (started, finished, ops) = load in
    bindM (clockM N) (\<lambda>before.
    bindM (lv_clientM 0 (execute N (VStr (lit ''INSERT INTO work_result SELECT count(*) FROM seed a,seed b,seed c'')) (PSeq []))) (\<lambda>_.
    bindM (clockM N) (\<lambda>now.
    bindM (upM (put_report (lit ''expensive_write_seconds'') (RT (now - before)))) (\<lambda>_.
    bindM (mapM (node_result H operations) all_nodes) (\<lambda>after.
    bindM (upM (put_report (lit ''status_after'') (RD (map (\<lambda>(n, d). (dec n, RJ (JObj d))) after)))) (\<lambda>_.
    bindM (liftR (snapshot_target ops)) (\<lambda>target.
    bindM (wait_published H target) (\<lambda>states.
    bindM (upM (put_report (lit ''snapshot_states'') (RL (map (\<lambda>d. RJ (JObj d)) states)))) (\<lambda>_.
    bindM (upM (collect_samples H passes)) (\<lambda>samples.
    bindM objM (\<lambda>(_, r).
    bindM (assertM (map_of (nr_report r) (lit ''monitor_error'') = None) ''monitor_error'') (\<lambda>_.
    bindM (liftR (mapR (rss_peak samples) all_nodes)) (\<lambda>peaks.
    bindM (upM (put_report (lit ''rss_peak_bytes'') (RD (zip (map dec all_nodes) (map RI peaks))))) (\<lambda>_.
    bindM (liftR (maxR peaks)) (\<lambda>peak.
    bindM (assertM (peak \<le> 512 * 1024 * 1024) ''rss_peak_bytes'') (\<lambda>_.
    bindM (liftR (summarize started finished ops samples)) (\<lambda>summary.
    bindM (upM (put_report (lit ''summary'') (summary_rv summary))) (\<lambda>_.
    bindM (mapM (\<lambda>(_, pid). askM (ho_poll H pid)) (nr_processes r)) (\<lambda>alive.
    assertM (list_all (\<lambda>s. s = None) alive) ''processes''))))))))))))))))))))"

definition load_campaign :: "'w hostops \<Rightarrow> NetCluster \<Rightarrow> nat \<Rightarrow> nat \<Rightarrow> ('w nrstate, unit) comp" where
  "load_campaign H c operations passes = scopeM \<lparr>lv_clients = [], lv_slow = [], lv_stalled = []\<rparr> (finallyM (bindM (campaign_setup H c) (\<lambda>_.
      bindM (campaign_load H c operations) (\<lambda>load.
      campaign_evaluate H operations passes load)))
    (bindM objM (\<lambda>(v, _).
      bindM (forM [0..<length (lv_clients v)] (\<lambda>i. lv_clientM i (conn_close (ho_net H)))) (\<lambda>_.
      bindM (forM (lv_slow v) (close_slow (ho_net H))) (\<lambda>_.
      forM (lv_stalled v) (\<lambda>k. effectM (sock_close (ho_net H) k)))))))"

text \<open>The profiles that the processes print into their logs: exactly one line each.\<close>

definition profile_line :: "'w hostops \<Rightarrow> pstr \<Rightarrow> json res" where
  "profile_line H line = ho_loads H (List.tl (dropWhile (\<lambda>c. c \<noteq> 32) line))"

definition node_profile :: "'w hostops \<Rightarrow> NetCluster \<Rightarrow> pstr \<Rightarrow> (json \<Rightarrow> bool res) \<Rightarrow> nat \<Rightarrow> ('x \<times> 'w, pstr \<times> rv) comp" where
  "node_profile H c marker ok node = bindM (worldM (ho_read H (node_file c node ''.log''))) (\<lambda>contents.
    bindM (liftR (mapR (profile_line H) (filter (\<lambda>l. starts_with l (marker @ [32])) (split_lines contents)))) (\<lambda>profiles.
    bindM (assertM (length profiles = 1) ''profiles'') (\<lambda>_.
    bindM (liftR (ok (hd profiles))) (\<lambda>good.
    bindM (assertM good ''profiles'') (\<lambda>_.
    retM (dec node, RJ (hd profiles)))))))"

definition allocation_ok :: "json \<Rightarrow> bool res" where
  "allocation_ok p = bindR (int_field p ''heap_calls'') (\<lambda>h. if \<not> 1000 < h then Inr False
     else bindR (int_field p ''frame_copy_bytes'') (\<lambda>f. Inr (0 < f)))"

definition io_ok :: "json \<Rightarrow> bool res" where
  "io_ok p = bindR (int_field p ''sync_calls'') (\<lambda>s. if \<not> 0 < s then Inr False
     else bindR (int_field p ''write_bytes'') (\<lambda>b. if \<not> 0 < b then Inr False
     else bindR (int_field p ''errors'') (\<lambda>e. Inr (e = 0))))"

record load_args =
  la_operations :: nat
  la_profile :: bool
  la_io_library :: "pstr option"
  la_harness :: pstr
  la_passes :: nat

definition finish_processes :: "'w hostops \<Rightarrow> ('w nrstate, unit) comp" where
  "finish_processes H = bindM objM (\<lambda>r.
    bindM (forM (nr_processes r) (\<lambda>(_, pid). askM (ho_terminate H pid))) (\<lambda>_.
    forM (nr_processes r) (\<lambda>(_, pid). bindM (worldM (ho_wait H pid)) (\<lambda>code.
      assertM (code = 0) ''wait''))))"

definition load_body :: "'w hostops \<Rightarrow> NetCluster \<Rightarrow> load_args \<Rightarrow> ('w nrstate, unit) comp" where
  "load_body H c a = bindM (load_campaign H c (la_operations a) (la_passes a)) (\<lambda>_.
    bindM (finish_processes H) (\<lambda>_.
    bindM (ifM (la_profile a) (bindM (mapM (node_profile H c (lit ''SQLODIN_RESOURCE_PROFILE'') allocation_ok) all_nodes) (\<lambda>ps.
      put_report (lit ''allocation_profiles'') (RD ps)))) (\<lambda>_.
    bindM (ifM (la_io_library a \<noteq> None) (bindM (mapM (node_profile H c (lit ''SQLODIN_IO_PROFILE'') io_ok) all_nodes) (\<lambda>ps.
      put_report (lit ''io_profiles'') (RD ps)))) (\<lambda>_.
    put_report (lit ''complete'') (RB True)))))"

definition load_main :: "'w hostops \<Rightarrow> script_args \<Rightarrow> load_args \<Rightarrow> ('w nrstate, unit) comp" where
  "load_main H s a = bindM (askM (ho_exists H (lit ''/proc/self/stat''))) (\<lambda>proc.
    bindM (askM (ho_exists H (sa_output s))) (\<lambda>exists.
    bindM (whenM (\<not> proc \<or> exists \<or> \<not> (4 \<le> la_operations a \<and> la_operations a \<le> 64))
      (SystemExit ''Linux, a new output path, and 4..64 operations/client are required'')) (\<lambda>_.
    bindM (worldM (ho_sha256 H (sa_binary s))) (\<lambda>digest.
    bindM (worldM (ho_sha256 H (la_harness a))) (\<lambda>own.
    bindM (updM (\<lambda>_. run_empty [((lit ''complete''), RB False), ((lit ''operations_per_client''), RI (int (la_operations a))),
      ((lit ''instrumented''), RB (la_profile a)), ((lit ''binary_sha256''), RS digest), ((lit ''harness_sha256''), RS own)])) (\<lambda>_.
    let work_root = path_join (sa_home s) (lit ''build/resource-work'') in
    bindM (worldM (ho_mkdir H work_root)) (\<lambda>_.
    reportedM H (temp_dirM H work_root (\<lambda>work. bindM (check_filesystem H work) (\<lambda>_.
        bindM (resolveM H (sa_binary s)) (\<lambda>binary.
        bindM (net_cluster H work binary (sa_openssl s) 5 (lit ''auto'')) (\<lambda>c.
        bindM ((case la_io_library a of None \<Rightarrow> retM () | Some path \<Rightarrow> bindM (resolveM H path) (\<lambda>library.
          bindM (worldM (ho_sha256 H library)) (\<lambda>d1.
          bindM (put_report (lit ''io_library_sha256'') (RS d1)) (\<lambda>_.
          bindM (worldM (ho_sha256 H (path_join (sa_home s) (lit ''internal/io_profile/profile.c'')))) (\<lambda>d2.
          bindM (put_report (lit ''io_source_sha256'') (RS d2)) (\<lambda>_.
          put_report (lit ''io_scope'') (RS (lit ''whole-process sync/pwrite calls, including setup/maintenance/shutdown; forwarded unchanged''))))))))) (\<lambda>_.
        finallyM (load_body H c a)
          (bindM (net_close H) (\<lambda>_. log_tails H (nc_root c) (lit ''*.log'') (tail_of 10000)))))))))
      (bindM (source_digests H (sa_home s) [(lit ''src''), (lit ''service''), (lit ''transport'')] (\<lambda>p. ends_with p ''.odin'')) (\<lambda>sources.
        bindM (put_report (lit ''sources'') sources) (\<lambda>_.
        bindM (make_parent H (sa_output s)) (\<lambda>_.
        save_report H (sa_output s))))))))))))"

end
