(* ===== verification/Mixed_Workload.thy ===== *)
theory Mixed_Workload
  imports Resource_Load Sqlite_Reference
begin

text \<open>
  \<open>tools/calibrate_native_mixed.py\<close>, its workload and measurement: \<open>workload\<close> and \<open>measure\<close>. The clients of a
  measurement are threads; here a schedule, an argument, says which client makes its next
  operation, and what it leaves over runs client by client. An operation is one step. A client is
  either a connection of the modelled library or a handle of the pinned SQLite; clients of the
  grouping reference, whose requests wait for each other, are modelled by their own steps in
  \<open>Sqlite_Reference\<close>.
\<close>

section \<open>The workload\<close>

definition update_text :: "nat \<Rightarrow> nat \<times> nat \<Rightarrow> pstr" where
  "update_text payload r = (case r of (first, stop) \<Rightarrow>
     (lit ''UPDATE account SET balance=balance+1,payload=zeroblob('' @ dec payload @ lit '') WHERE id>='' @ dec first @ lit '' AND id<'' @ dec stop))"

definition select_text :: "nat \<Rightarrow> pstr" where
  "select_text key = (lit ''SELECT id,balance,length(payload) FROM account WHERE id='' @ dec key)"

text \<open>The ids \<open>first \<le> id < stop\<close> of one statement of a write.\<close>

definition piece :: "nat \<Rightarrow> nat \<Rightarrow> nat \<Rightarrow> nat \<Rightarrow> nat \<times> nat" where
  "piece key rows statements statement =
    (let first = key + statement * rows div statements; stop = key + (statement + 1) * rows div statements
     in (first, if first = stop then first + 1 else stop))"

definition pieces :: "nat \<Rightarrow> nat \<Rightarrow> nat \<Rightarrow> (nat \<times> nat) list" where
  "pieces key rows statements = map (piece key rows statements) [0..<statements]"

fun join_with :: "pstr \<Rightarrow> pstr list \<Rightarrow> pstr" where
  "join_with sep [] = []"
| "join_with sep [s] = s"
| "join_with sep (s # t # ss) = s @ sep @ join_with sep (t # ss)"

record mix_case =
  mc_clients :: nat
  mc_read_percent :: nat
  mc_payload :: nat
  mc_statements :: nat
  mc_rows :: nat
  mc_skew :: bool
  mc_seed :: int
  mc_rate :: nat

text \<open>One draw: the key of the block of rows and whether it is written, and the generator after it.\<close>

definition draw_block :: "'w hostops \<Rightarrow> mix_case \<Rightarrow> nat \<Rightarrow> (nat \<times> bool) \<times> nat" where
  "draw_block H c rng =
    (let (hot, rng1) = (if mc_skew c then (case ho_random H rng of (x, r) \<Rightarrow> (x < 9 / 10, r)) else (False, rng));
         (k, rng2) = ho_randrange H rng1 (if hot then 32 else 1024);
         (p, rng3) = ho_randrange H rng2 100
     in ((k - k mod mc_rows c, mc_read_percent c \<le> p), rng3))"

definition operation_text :: "mix_case \<Rightarrow> nat \<times> bool \<Rightarrow> bool \<times> pstr" where
  "operation_text c b = (case b of (key, write) \<Rightarrow>
     (write, if write then join_with (lit '';'') (map (update_text (mc_payload c)) (pieces key (mc_rows c) (mc_statements c))) else select_text key))"

fun draw_blocks :: "'w hostops \<Rightarrow> mix_case \<Rightarrow> nat \<Rightarrow> nat \<Rightarrow> (nat \<times> bool) list" where
  "draw_blocks H c 0 rng = []"
| "draw_blocks H c (Suc n) rng = (case draw_block H c rng of (b, rng') \<Rightarrow> b # draw_blocks H c n rng')"

definition workload :: "'w hostops \<Rightarrow> mix_case \<Rightarrow> int \<Rightarrow> nat \<Rightarrow> (bool \<times> pstr) list" where
  "workload H c seed count = map (operation_text c) (draw_blocks H c count (ho_seed H seed))"

section \<open>Clients\<close>

datatype mix_db = NativeDb Connection | SqliteDb nat

datatype mix_status = Op_Ok | Op_Error | Op_Resolved

record mix_op =
  mo_start :: rat
  mo_due :: rat
  mo_end :: rat
  mo_write :: bool
  mo_client :: nat
  mo_number :: nat
  mo_status :: mix_status
  mo_reply :: "(int \<times> int) option"
  mo_error :: "pstr option"
  mo_pending :: "json option"
  mo_resolution :: "pstr option"

record mix_worker =
  mw_db :: mix_db
  mw_ops :: "(bool \<times> pstr) list"
  mw_number :: nat
  mw_open :: bool

record mixer =
  mx_workers :: "mix_worker list"
  mx_epoch :: rat
  mx_raw :: "mix_op list"
  mx_failure :: "exn option"

type_synonym ('x, 'w) mxstate = "(mixer \<times> 'x) \<times> 'w"

definition setX :: "(mixer \<Rightarrow> mixer) \<Rightarrow> (('x, 'w) mxstate, unit) comp" where
  "setX f = updM (\<lambda>(m, x). (f m, x))"

definition mixM :: "(('x, 'w) mxstate, mixer) comp" where
  "mixM = bindM objM (\<lambda>(m, _). retM m)"

text \<open>A method of the connection of a native client.\<close>

definition nativeM :: "nat \<Rightarrow> Connection \<Rightarrow> ('w cstate, 'a) comp \<Rightarrow> (('x, 'w) mxstate, 'a) comp" where
  "nativeM i c m = (\<lambda>((x, y), w). case m (c, w) of None \<Rightarrow> None
     | Some (r, (c', w')) \<Rightarrow> Some (r, ((x\<lparr>mx_workers := (mx_workers x)[i := (mx_workers x ! i)\<lparr>mw_db := NativeDb c'\<rparr>]\<rparr>, y), w')))"

definition connection_of :: "nat \<Rightarrow> (('x, 'w) mxstate, Connection option) comp" where
  "connection_of i = bindM mixM (\<lambda>m. retM (case mw_db (mx_workers m ! i) of NativeDb c \<Rightarrow> Some c | SqliteDb _ \<Rightarrow> None))"

text \<open>What the operation does: the reply's position and node, where there is one.\<close>

definition mix_attempt :: "'w hostops \<Rightarrow> 'w sqliteops \<Rightarrow> nat \<Rightarrow> bool \<Rightarrow> pstr \<Rightarrow> (('x, 'w) mxstate, (int \<times> int) option) comp" where
  "mix_attempt H S i write sql = (let N = ho_net H in
    bindM mixM (\<lambda>m.
    (case mw_db (mx_workers m ! i) of
       SqliteDb h \<Rightarrow> bindM (sql_run S h sql write) (\<lambda>_. retM None)
     | NativeDb c \<Rightarrow>
         if write
         then bindM (nativeM i c (execute N (VStr sql) (PSeq []))) (\<lambda>r. retM (Some (wr_applied r, wr_node r)))
         else bindM (nativeM i c (query N (VStr sql) (PSeq []) (lit ''linearizable''))) (\<lambda>rows.
           bindM (assertM (rows_len rows = 1) ''len(reply)'') (\<lambda>_. retM (Some (rows_applied rows, rows_node rows)))))))"

text \<open>
  The handler of a failed operation: an unresolved write of a native client is kept in the result
  and retried once under its identity.
\<close>

definition mix_handler :: "'w hostops \<Rightarrow> nat \<Rightarrow> mix_op \<Rightarrow> exn \<Rightarrow> (('x, 'w) mxstate, mix_op) comp" where
  "mix_handler H i result e = (let failed = result\<lparr>mo_status := Op_Error, mo_error := Some (ho_repr H e)\<rparr> in
    bindM (connection_of i) (\<lambda>conn.
    (case conn of None \<Rightarrow> retM failed
     | Some c \<Rightarrow> (case c_pending c of None \<Rightarrow> retM failed
       | Some p \<Rightarrow> (let kept = failed\<lparr>mo_pending := Some (pending_to_json p)\<rparr> in
           tryM (bindM (nativeM i c (resolve_pending (ho_net H))) (\<lambda>_. retM (kept\<lparr>mo_status := Op_Resolved\<rparr>)))
             (\<lambda>e2. retM (kept\<lparr>mo_resolution := Some (ho_repr H e2)\<rparr>)))))))"

definition due_time :: "mix_case \<Rightarrow> rat \<Rightarrow> nat \<Rightarrow> nat \<Rightarrow> rat option" where
  "due_time c epoch i number = (if mc_rate c = 0 then None
     else Some (epoch + of_nat (number * mc_clients c + i) / of_nat (mc_rate c)))"

definition mix_operation :: "'w hostops \<Rightarrow> 'w sqliteops \<Rightarrow> mix_case \<Rightarrow> nat \<Rightarrow> nat \<Rightarrow> bool \<Rightarrow> pstr \<Rightarrow> (('x, 'w) mxstate, mix_op) comp" where
  "mix_operation H S c i number write sql = (let N = ho_net H in
    bindM mixM (\<lambda>m.
    let due = due_time c (mx_epoch m) i number in
    bindM ((case due of None \<Rightarrow> retM () | Some t \<Rightarrow> bindM (clockM N) (\<lambda>now. effectM (sleep N (max 0 (t - now)))))) (\<lambda>_.
    bindM (clockM N) (\<lambda>started.
    let result = \<lparr>mo_start = started, mo_due = (case due of None \<Rightarrow> started | Some t \<Rightarrow> t), mo_end = started, mo_write = write, mo_client = i,
      mo_number = number, mo_status = Op_Ok, mo_reply = None, mo_error = None, mo_pending = None, mo_resolution = None\<rparr> in
    bindM (tryM (bindM (mix_attempt H S i write sql) (\<lambda>reply. retM (result\<lparr>mo_reply := reply\<rparr>))) (mix_handler H i result)) (\<lambda>final.
    bindM (clockM N) (\<lambda>ended.
    retM (final\<lparr>mo_end := ended\<rparr>)))))))"

definition close_worker :: "'w hostops \<Rightarrow> 'w sqliteops \<Rightarrow> nat \<Rightarrow> (('x, 'w) mxstate, unit) comp" where
  "close_worker H S i = bindM mixM (\<lambda>m.
    (case mw_db (mx_workers m ! i) of SqliteDb h \<Rightarrow> sql_close S h | NativeDb c \<Rightarrow> nativeM i c (conn_close (ho_net H))))"

text \<open>The end of a client's thread: its connection is closed, and a failure there is the thread's own.\<close>

definition finish_worker :: "'w hostops \<Rightarrow> 'w sqliteops \<Rightarrow> nat \<Rightarrow> (('x, 'w) mxstate, unit) comp" where
  "finish_worker H S i = bindM (setX (\<lambda>m. m\<lparr>mx_workers := (mx_workers m)[i := (mx_workers m ! i)\<lparr>mw_open := False\<rparr>]\<rparr>)) (\<lambda>_.
    bindM (outcomeM (close_worker H S i)) (\<lambda>r.
    (case r of Inl e \<Rightarrow> setX (\<lambda>m. m\<lparr>mx_failure := (case mx_failure m of None \<Rightarrow> Some e | Some d \<Rightarrow> Some d)\<rparr>) | Inr _ \<Rightarrow> retM ())))"

definition advance :: "mix_op \<Rightarrow> (bool \<times> pstr) list \<Rightarrow> mix_worker \<Rightarrow> mix_worker" where
  "advance result rest k = k\<lparr>mw_ops := (if mo_status result = Op_Error then [] else rest), mw_number := mw_number k + 1\<rparr>"

definition mix_step :: "'w hostops \<Rightarrow> 'w sqliteops \<Rightarrow> mix_case \<Rightarrow> nat \<Rightarrow> (('x, 'w) mxstate, unit) comp" where
  "mix_step H S c i = bindM mixM (\<lambda>m.
    let k = mx_workers m ! i in
    (if \<not> (i < length (mx_workers m) \<and> mw_open k) then retM ()
     else (case mw_ops k of
        [] \<Rightarrow> finish_worker H S i
      | (write, sql) # rest \<Rightarrow> bindM (mix_operation H S c i (mw_number k) write sql) (\<lambda>result.
          setX (\<lambda>m. m\<lparr>mx_raw := mx_raw m @ [result], mx_workers := (mx_workers m)[i := advance result rest (mx_workers m ! i)]\<rparr>)))))"

section \<open>Measurements\<close>

text \<open>Opening: a native client discovers the epoch and reads once before the start.\<close>

definition open_worker :: "'w hostops \<Rightarrow> 'w sqliteops \<Rightarrow> mix_case \<Rightarrow> nat \<Rightarrow> (nat \<Rightarrow> (('x, 'w) mxstate, mix_db) comp) \<Rightarrow> nat \<Rightarrow> (('x, 'w) mxstate, unit) comp" where
  "open_worker H S c count factory i = (let N = ho_net H in
    bindM (factory i) (\<lambda>db.
    bindM (setX (\<lambda>m. m\<lparr>mx_workers := mx_workers m @ [\<lparr>mw_db = db, mw_ops = workload H c (mc_seed c + int i) count, mw_number = 0, mw_open = True\<rparr>]\<rparr>)) (\<lambda>_.
    (case db of SqliteDb _ \<Rightarrow> retM ()
     | NativeDb conn \<Rightarrow> bindM (nativeM i conn (session_epoch N)) (\<lambda>_.
         bindM (connection_of i) (\<lambda>again.
         (case again of None \<Rightarrow> retM () | Some conn2 \<Rightarrow> bindM (nativeM i conn2 (query N (VStr (lit ''SELECT 1'')) (PSeq []) (lit ''linearizable''))) (\<lambda>_. retM ()))))))))"

text \<open>A client that cannot start breaks the barrier: every client that is open is closed.\<close>

definition start_workers :: "'w hostops \<Rightarrow> 'w sqliteops \<Rightarrow> mix_case \<Rightarrow> nat \<Rightarrow> (nat \<Rightarrow> (('x, 'w) mxstate, mix_db) comp) \<Rightarrow> (('x, 'w) mxstate, unit) comp" where
  "start_workers H S c count factory = bindM (tryM (forM [0..<mc_clients c] (open_worker H S c count factory))
      (\<lambda>e. bindM mixM (\<lambda>m.
        bindM (forM [0..<length (mx_workers m)] (finish_worker H S)) (\<lambda>_.
        raiseM e)))) (\<lambda>_.
    bindM (clockM (ho_net H)) (\<lambda>now.
    setX (\<lambda>m. m\<lparr>mx_epoch := now + 2 / 100\<rparr>)))"

definition run_clients :: "'w hostops \<Rightarrow> 'w sqliteops \<Rightarrow> mix_case \<Rightarrow> nat \<Rightarrow> nat list \<Rightarrow> (('x, 'w) mxstate, unit) comp" where
  "run_clients H S c count schedule = forM (schedule @ concat (map (replicate (count + 1)) [0..<mc_clients c])) (mix_step H S c)"

definition rank :: "nat \<Rightarrow> nat \<Rightarrow> nat" where
  "rank percent n = (percent * n + 99) div 100 - 1"

record mix_latency =
  ml_count :: nat
  ml_p50 :: rat
  ml_p99 :: rat

record mix_summary =
  ms_elapsed :: rat
  ms_offered :: nat
  ms_invoked :: nat
  ms_completed :: nat
  ms_errors :: nat
  ms_resolved :: nat
  ms_per_second :: rat
  ms_read :: "mix_latency option"
  ms_write :: "mix_latency option"
  ms_raw :: "mix_op list"

definition latency_of :: "mix_op list \<Rightarrow> bool \<Rightarrow> mix_latency option" where
  "latency_of raw write = (let vs = sort (map (\<lambda>x. 1000 * (mo_end x - mo_due x)) (filter (\<lambda>x. mo_write x = write) raw)) in
     if vs = [] then None else Some \<lparr>ml_count = length vs, ml_p50 = vs ! rank 50 (length vs), ml_p99 = vs ! rank 99 (length vs)\<rparr>)"

definition completed_of :: "mix_op list \<Rightarrow> nat" where
  "completed_of raw = length (filter (\<lambda>x. mo_status x \<noteq> Op_Error) raw)"

definition summarize_mix :: "mix_case \<Rightarrow> nat \<Rightarrow> mix_op list \<Rightarrow> mix_summary res" where
  "summarize_mix c count raw =
    (if raw = [] then Inl (AssertionError ''No workload operations recorded'')
     else let elapsed = Max (set (map mo_end raw)) - Min (set (map mo_start raw)) in
       if elapsed = 0 then Inl ZeroDivisionError
       else Inr \<lparr>ms_elapsed = elapsed, ms_offered = count * mc_clients c, ms_invoked = length raw, ms_completed = completed_of raw,
         ms_errors = length (filter (\<lambda>x. mo_status x = Op_Error) raw), ms_resolved = length (filter (\<lambda>x. mo_status x = Op_Resolved) raw),
         ms_per_second = of_nat (completed_of raw) / elapsed, ms_read = latency_of raw False, ms_write = latency_of raw True, ms_raw = raw\<rparr>)"

definition mixer_new :: mixer where
  "mixer_new = \<lparr>mx_workers = [], mx_epoch = 0, mx_raw = [], mx_failure = None\<rparr>"

definition measure_mix :: "'w hostops \<Rightarrow> 'w sqliteops \<Rightarrow> mix_case \<Rightarrow> nat \<Rightarrow> nat list \<Rightarrow> (nat \<Rightarrow> (('x, 'w) mxstate, mix_db) comp) \<Rightarrow> ('x \<times> 'w, mix_summary) comp" where
  "measure_mix H S c count schedule factory = scopeM mixer_new (bindM (start_workers H S c count factory) (\<lambda>_.
    bindM (run_clients H S c count schedule) (\<lambda>_.
    bindM mixM (\<lambda>m.
    bindM ((case mx_failure m of Some e \<Rightarrow> raiseM e | None \<Rightarrow> retM ())) (\<lambda>_.
    liftR (summarize_mix c count (mx_raw m)))))))"

end
