(* ===== verification/Workload_Facts.thy ===== *)
theory Workload_Facts
  imports Mixed_Workload
begin

text \<open>
  What a write of the mixed workload touches: the statements of a write cover its block of rows
  and add one to \<open>max rows statements\<close> balances, which is what the campaign multiplies the number
  of writes by.
\<close>

section \<open>Pieces of a block\<close>

lemma piece_bounds:
  assumes "0 < rows" and "i < statements"
  shows "case piece key rows statements i of (first, stop) \<Rightarrow> key \<le> first \<and> first < stop \<and> stop \<le> key + rows"
proof -
  have "i * rows div statements < rows"
    using assms by (metis div_less_iff_less_mult mult.commute mult_less_mono1 order_le_less_trans zero_le)
  moreover have "(i + 1) * rows div statements \<le> rows"
    using assms by (metis Suc_eq_plus1 Suc_leI div_le_mono mult_le_mono1 nonzero_mult_div_cancel_left not_less_zero)
  moreover have "i * rows div statements \<le> (i + 1) * rows div statements"
    by (simp add: div_le_mono)
  ultimately show ?thesis by (auto simp: piece_def Let_def)
qed

definition touched :: "(nat \<times> nat) list \<Rightarrow> nat" where
  "touched rs = (\<Sum>(first, stop) \<leftarrow> rs. stop - first)"

lemma touched_wide:
  assumes "statements \<le> rows" and "n \<le> statements"
  shows "touched (map (piece key rows statements) [0..<n]) = n * rows div statements"
  using assms(2)
proof (induction n)
  case (Suc n)
  have pos: "0 < statements" using Suc.prems by simp
  have "n * rows div statements + 1 = (n * rows + statements) div statements" using pos by simp
  also have "\<dots> \<le> Suc n * rows div statements" using assms(1) by (intro div_le_mono) simp
  finally have "n * rows div statements < Suc n * rows div statements" by simp
  then show ?case using Suc by (simp add: touched_def piece_def Let_def)
qed (simp add: touched_def)

lemma touched_narrow:
  assumes "rows < statements" and "n \<le> statements"
  shows "touched (map (piece key rows statements) [0..<n]) = n"
  using assms(2)
proof (induction n)
  case (Suc n)
  have pos: "0 < statements" using Suc.prems by simp
  have "Suc n * rows div statements \<le> (n * rows + statements) div statements" using assms(1) by (intro div_le_mono) simp
  also have "\<dots> = n * rows div statements + 1" using pos by simp
  finally have "Suc n * rows div statements \<le> n * rows div statements + 1" .
  moreover have "n * rows div statements \<le> Suc n * rows div statements" by (simp add: div_le_mono)
  ultimately show ?case using Suc by (auto simp: touched_def piece_def Let_def)
qed (simp add: touched_def)

lemma touched_pieces: "0 < statements \<Longrightarrow> touched (pieces key rows statements) = max rows statements"
  using touched_wide [of statements rows statements key] touched_narrow [of rows statements statements key]
  by (cases "statements \<le> rows") (auto simp: pieces_def max_def)

section \<open>Blocks of a table of 1024 rows\<close>

lemma aligned_block:
  fixes rows k n :: nat
  assumes "0 < rows" and "k < n" and "rows dvd n"
  shows "k - k mod rows + rows \<le> n"
proof -
  obtain m where m: "n = rows * m" using assms(3) by (rule dvdE)
  have "k div rows < m" using assms(2) m by (metis div_less_iff_less_mult assms(1) mult.commute)
  then have "rows * (k div rows + 1) \<le> rows * m" by (intro mult_le_mono2) simp
  then show ?thesis using m by (simp add: minus_mod_eq_mult_div)
qed

section \<open>The balances\<close>

text \<open>
  The table \<open>account\<close> with the ids \<open>0 \<le> id < 1024\<close> as the list of its balances, and what an \<open>UPDATE\<close> of the
  workload does to it.
\<close>

definition add_range :: "nat \<times> nat \<Rightarrow> int list \<Rightarrow> int list" where
  "add_range r bal = (case r of (first, stop) \<Rightarrow> map (\<lambda>(i, b). if first \<le> i \<and> i < stop then b + 1 else b) (enumerate 0 bal))"

definition run_block :: "mix_case \<Rightarrow> nat \<times> bool \<Rightarrow> int list \<Rightarrow> int list" where
  "run_block c b bal = (case b of (key, write) \<Rightarrow> if write then fold add_range (pieces key (mc_rows c) (mc_statements c)) bal else bal)"

lemma add_range_length [simp]: "length (add_range r bal) = length bal"
  by (simp add: add_range_def split: prod.splits)

lemma add_range_sum_from:
  "sum_list (map (\<lambda>(i, b). if first \<le> i \<and> i < stop then b + 1 else b) (enumerate n bal))
    = sum_list bal + int (card ({first..<stop} \<inter> {n..<n + length bal}))"
proof (induction bal arbitrary: n)
  case (Cons b bal)
  have "{first..<stop} \<inter> {n..<n + length (b # bal)}
      = (if first \<le> n \<and> n < stop then {n} else {}) \<union> ({first..<stop} \<inter> {Suc n..<Suc n + length bal})"
    by auto
  moreover have "n \<notin> {Suc n..<Suc n + length bal}" by simp
  ultimately have "card ({first..<stop} \<inter> {n..<n + length (b # bal)})
      = (if first \<le> n \<and> n < stop then 1 else 0) + card ({first..<stop} \<inter> {Suc n..<Suc n + length bal})"
    by (auto simp: card_insert_if)
  then show ?case using Cons.IH [of "Suc n"] by simp
qed simp

lemma add_range_sum: "stop \<le> length bal \<Longrightarrow> sum_list (add_range (first, stop) bal) = sum_list bal + int (stop - first)"
  using add_range_sum_from [of first stop 0 bal] by (simp add: add_range_def Int_absorb2 subset_iff)

lemma add_ranges_sum:
  "list_all (\<lambda>(first, stop). stop \<le> length bal) rs \<Longrightarrow> sum_list (fold add_range rs bal) = sum_list bal + int (touched rs)"
proof (induction rs arbitrary: bal)
  case (Cons r rs)
  then show ?case by (cases r) (auto simp: add_range_sum touched_def)
qed (simp add: touched_def)

lemma add_ranges_length: "length (fold add_range rs bal) = length bal"
  by (induction rs arbitrary: bal) auto

lemma run_block_sum:
  assumes "0 < mc_rows c" and "0 < mc_statements c" and "key + mc_rows c \<le> length bal"
  shows "sum_list (run_block c (key, write) bal) = sum_list bal + (if write then int (max (mc_rows c) (mc_statements c)) else 0)"
proof -
  have "list_all (\<lambda>(first, stop). stop \<le> length bal) (pieces key (mc_rows c) (mc_statements c))"
    using piece_bounds [OF assms(1), of _ "mc_statements c" key] assms(3)
    by (fastforce simp: pieces_def list_all_iff)
  then show ?thesis using assms(2) by (simp add: run_block_def add_ranges_sum touched_pieces)
qed

lemma draw_block_key:
  assumes "\<And>g n. 0 < n \<Longrightarrow> fst (ho_randrange H g n) < n" and "0 < mc_rows c" and "mc_rows c dvd 32"
  shows "fst (fst (draw_block H c rng)) + mc_rows c \<le> 1024"
proof -
  have "mc_rows c dvd 32 * 32" using assms(3) by (rule dvd_mult2)
  then have "mc_rows c dvd 1024" by simp
  note big = aligned_block [OF assms(2) _ this]
  have small: "k - k mod mc_rows c + mc_rows c \<le> 1024" if "k < 32" for k
    using big [of k] that by simp
  define hot rng1 where "hot = (mc_skew c \<and> fst (ho_random H rng) < 9 / 10)" and "rng1 = (if mc_skew c then snd (ho_random H rng) else rng)"
  define k where "k = fst (ho_randrange H rng1 (if hot then 32 else 1024))"
  have "fst (fst (draw_block H c rng)) = k - k mod mc_rows c"
    by (auto simp: draw_block_def k_def hot_def rng1_def Let_def split: prod.splits if_splits)
  moreover have "k < (if hot then 32 else 1024)" unfolding k_def by (rule assms(1)) simp
  ultimately show ?thesis using big [of k] small [of k] by (auto split: if_splits)
qed

lemma workload_sum_from:
  assumes "\<And>g n. 0 < n \<Longrightarrow> fst (ho_randrange H g n) < n" and "0 < mc_rows c" and "mc_rows c dvd 32" and "0 < mc_statements c"
    and "length bal = 1024"
  shows "sum_list (fold (run_block c) (draw_blocks H c n rng) bal)
    = sum_list bal + int (max (mc_rows c) (mc_statements c)) * int (length (filter snd (draw_blocks H c n rng)))"
  using assms(5)
proof (induction n arbitrary: rng bal)
  case (Suc n)
  obtain key wr rng' where d: "draw_block H c rng = ((key, wr), rng')" by (metis surj_pair)
  have "length (run_block c (key, wr) bal) = 1024" using Suc.prems by (simp add: run_block_def add_ranges_length)
  note IH = Suc.IH [OF this, of rng']
  have "key + mc_rows c \<le> length bal" using draw_block_key [OF assms(1,2,3), of rng] d Suc.prems by simp
  then show ?case using IH run_block_sum [OF assms(2,4), of key bal wr] d by (auto simp: algebra_simps)
qed simp

end
