(* ===== verification/Calibration.thy ===== *)
theory Calibration
  imports Mixed_Workload
begin

text \<open>
  The campaign of \<open>tools/calibrate_native_mixed.py\<close> and the reference process of
  \<open>tools/sqlite_reference_worker.py\<close>. The environment of child processes (the preloaded profiling library) is
  not part of the model; the passes of the sampling thread, as many as the argument says, run
  before the measurement.
\<close>

section \<open>Reports\<close>

definition latency_rv :: "mix_latency \<Rightarrow> rv" where
  "latency_rv l = RD [((lit ''count''), RI (int (ml_count l))), ((lit ''p50''), RT (ml_p50 l)), ((lit ''p99''), RT (ml_p99 l))]"

definition status_text :: "mix_status \<Rightarrow> pstr" where
  "status_text s = (case s of Op_Ok \<Rightarrow> (lit ''ok'') | Op_Error \<Rightarrow> (lit ''error'') | Op_Resolved \<Rightarrow> (lit ''resolved_unknown''))"

definition mix_op_rv :: "mix_op \<Rightarrow> rv" where
  "mix_op_rv x = RD ([((lit ''start''), RT (mo_start x)), ((lit ''due''), RT (mo_due x)), ((lit ''write''), RB (mo_write x)), ((lit ''client''), RI (int (mo_client x))),
      ((lit ''operation''), RI (int (mo_number x))), ((lit ''status''), RS (status_text (mo_status x)))]
    @ (case mo_reply x of None \<Rightarrow> [] | Some (applied, node) \<Rightarrow> [((lit ''applied''), RI applied), ((lit ''node''), RI node)])
    @ (case mo_error x of None \<Rightarrow> [] | Some t \<Rightarrow> [((lit ''error''), RS t)])
    @ (case mo_pending x of None \<Rightarrow> [] | Some j \<Rightarrow> [((lit ''pending''), RJ j)])
    @ (case mo_resolution x of None \<Rightarrow> [] | Some t \<Rightarrow> [((lit ''resolution_error''), RS t)])
    @ [((lit ''end''), RT (mo_end x))])"

definition mix_summary_rv :: "mix_case \<Rightarrow> mix_summary \<Rightarrow> rv" where
  "mix_summary_rv c s = RD [((lit ''elapsed''), RT (ms_elapsed s)),
     ((lit ''scheduled_rate''), if mc_rate c = 0 then RJ JNull else RI (int (mc_rate c))),
     ((lit ''latency_basis''), RS (if mc_rate c = 0 then (lit ''closed-loop invocation'') else (lit ''scheduled arrival''))),
     ((lit ''offered''), RI (int (ms_offered s))), ((lit ''invoked''), RI (int (ms_invoked s))), ((lit ''completed''), RI (int (ms_completed s))),
     ((lit ''errors''), RI (int (ms_errors s))), ((lit ''resolved_unknown''), RI (int (ms_resolved s))), ((lit ''per_second''), RT (ms_per_second s)),
     ((lit ''latency_ms''), RD ((case ms_read s of None \<Rightarrow> [] | Some l \<Rightarrow> [((lit ''read''), latency_rv l)])
        @ (case ms_write s of None \<Rightarrow> [] | Some l \<Rightarrow> [((lit ''write''), latency_rv l)]))),
     ((lit ''raw''), RL (map mix_op_rv (ms_raw s)))]"

definition case_rv :: "mix_case \<Rightarrow> (pstr \<times> rv) list" where
  "case_rv c = [((lit ''clients''), RI (int (mc_clients c))), ((lit ''read_percent''), RI (int (mc_read_percent c))), ((lit ''payload''), RI (int (mc_payload c))),
     ((lit ''statements''), RI (int (mc_statements c))), ((lit ''rows''), RI (int (mc_rows c))), ((lit ''skew''), RB (mc_skew c)), ((lit ''seed''), RI (mc_seed c)),
     ((lit ''rate''), RI (int (mc_rate c)))]"

text \<open>\<open>case[name] = value\<close> on the case that was last appended to \<open>report['cases']\<close>.\<close>

definition put_case :: "pstr \<Rightarrow> rv \<Rightarrow> ('w nrstate, unit) comp" where
  "put_case name v = put_entry (lit ''cases'') name v"

section \<open>The reference process\<close>

record mix_args =
  ma_operations :: nat
  ma_clients :: "nat list"
  ma_reads :: "nat list"
  ma_payload :: nat
  ma_statements :: nat
  ma_rows :: nat
  ma_skew :: bool
  ma_seed :: int
  ma_group :: nat
  ma_rate :: nat
  ma_io_library :: "pstr option"
  ma_python :: pstr
  ma_harness :: pstr
  ma_schedule :: "nat list"
  ma_passes :: nat

definition get_default :: "json \<Rightarrow> string \<Rightarrow> json \<Rightarrow> json res" where
  "get_default j k d = (case j of JObj o1 \<Rightarrow> Inr (case dget o1 k of None \<Rightarrow> d | Some v \<Rightarrow> v) | _ \<Rightarrow> Inl AttributeError)"

definition io_profiles :: "'w hostops \<Rightarrow> pstr \<Rightarrow> json list res" where
  "io_profiles H contents = mapR (profile_line H) (filter (\<lambda>l. starts_with l (lit ''SQLODIN_IO_PROFILE '')) (split_lines contents))"

text \<open>\<open>len(profiles) == 1 and profiles[0]['errors'] == 0\<close>\<close>

definition one_profile :: "json list \<Rightarrow> bool res" where
  "one_profile ps = (case ps of [p] \<Rightarrow> bindR (field p ''errors'') (\<lambda>e. Inr (num_eq e 0)) | _ \<Rightarrow> Inr False)"

definition read_reference :: "'w hostops \<Rightarrow> pstr \<Rightarrow> ('w nrstate, bool) comp" where
  "read_reference H output = bindM (worldM (ho_read H output)) (\<lambda>contents.
    bindM (liftR (ho_loads H contents)) (\<lambda>result.
    bindM (liftR (get_default result ''measurement'' (JObj []))) (\<lambda>measurement.
    bindM (put_case (lit ''sqlite'') (RJ measurement)) (\<lambda>_.
    bindM (liftR (get_default result ''groups'' (JList []))) (\<lambda>groups.
    bindM (put_case (lit ''sqlite_groups'') (RJ groups)) (\<lambda>_.
    bindM (liftR (get_default result ''before'' JNull)) (\<lambda>before.
    bindM (liftR (get_default result ''after'' JNull)) (\<lambda>after.
    bindM (put_case (lit ''sqlite_resources'') (RD [((lit ''before''), RJ before), ((lit ''after''), RJ after)])) (\<lambda>_.
    bindM (liftR (get_default result ''complete'' (JBool False))) (\<lambda>complete.
    bindM (put_case (lit ''sqlite_verified'') (RJ complete)) (\<lambda>_.
    retM (json_truth complete))))))))))))"

definition reference_measure :: "'w hostops \<Rightarrow> script_args \<Rightarrow> mix_args \<Rightarrow> pstr \<Rightarrow> pstr \<Rightarrow> pstr list \<Rightarrow> ('w nrstate, unit) comp" where
  "reference_measure H s a shared folder setup_texts = bindM (resolveM H shared) (\<lambda>library.
    bindM (resolveM H (path_join folder (lit ''reference.db''))) (\<lambda>database.
    bindM (resolveM H (path_join folder (lit ''reference-result.json''))) (\<lambda>output.
    bindM objM (\<lambda>r.
    bindM (liftR (last_entry (nr_report r) (lit ''cases''))) (\<lambda>c.
    let job_path = path_join folder (lit ''reference-job.json'') in
    bindM (worldM (ho_write H job_path (ho_dumps H [((lit ''library''), RS library), ((lit ''database''), RS database), ((lit ''setup''), RL (map RS setup_texts)),
      ((lit ''case''), RD c), ((lit ''count''), RI (int (ma_operations a))), ((lit ''group''), RI (int (ma_group a))), ((lit ''output''), RS output)]))) (\<lambda>_.
    bindM (worldM (ho_run H [ma_python a, path_join (sa_home s) (lit ''tools/sqlite_reference_worker.py''), job_path])) (\<lambda>(code, _, err).
    bindM (askM (ho_exists H output)) (\<lambda>exists.
    bindM ((if exists then read_reference H output else retM False)) (\<lambda>verified.
    bindM (put_case (lit ''sqlite_group_limit'') (RI (int (ma_group a)))) (\<lambda>_.
    bindM (put_case (lit ''sqlite_worker_exit'') (RI code)) (\<lambda>_.
    bindM (put_case (lit ''sqlite_worker_stderr'') (RS err)) (\<lambda>_.
    bindM (assertM (code = 0 \<and> verified) ''stderr'') (\<lambda>_.
    ifM (ma_io_library a \<noteq> None) (bindM (liftR (io_profiles H err)) (\<lambda>profiles.
      bindM (liftR (one_profile profiles)) (\<lambda>ok.
      bindM (assertM ok ''profiles'') (\<lambda>_.
      put_case (lit ''sqlite_io_profile'') (RJ (hd profiles)))))))))))))))))))"

text \<open>
  \<open>sqlite_reference_worker.main\<close> without grouping: the job's schema on the pinned library, the measurement on
  connections of their own, and the sum of the balances.
\<close>

record reference_job =
  rj_database :: pstr
  rj_setup :: "pstr list"
  rj_case :: mix_case
  rj_count :: nat
  rj_output :: pstr

definition usage :: "'w hostops \<Rightarrow> ('w \<Rightarrow> (rat \<times> int) \<times> 'w) \<Rightarrow> ('x \<times> 'w, rv) comp" where
  "usage H rusage = bindM (askM rusage) (\<lambda>(seconds, rss).
    bindM (worldM (ho_read H (lit ''/proc/self/io''))) (\<lambda>contents.
    bindM (liftR (mapR io_pair (split_lines contents))) (\<lambda>pairs.
    bindM (liftR (mapR (\<lambda>(k, v). bindR (int_res (unicode (ho_net H)) v) (\<lambda>n. Inr (k, RI n))) pairs)) (\<lambda>counts.
    retM (RD [((lit ''cpu_seconds''), RT seconds), ((lit ''peak_rss_bytes''), RI (rss * 1024)), ((lit ''io''), RD counts)])))))"

definition writes_of :: "mix_op list \<Rightarrow> nat" where
  "writes_of raw = length (filter mo_write raw)"

definition increments :: "mix_case \<Rightarrow> int" where
  "increments c = int (max (mc_rows c) (mc_statements c))"

definition reference_work :: "'w hostops \<Rightarrow> 'w sqliteops \<Rightarrow> ('w \<Rightarrow> (rat \<times> int) \<times> 'w) \<Rightarrow> reference_job \<Rightarrow> nat list \<Rightarrow> nat \<Rightarrow> ('w nrstate, unit) comp" where
  "reference_work H S rusage job schedule reference = (let c = rj_case job in
    bindM (forM (rj_setup job) (\<lambda>sql. sql_run S reference sql True)) (\<lambda>_.
    bindM (usage H rusage) (\<lambda>before.
    bindM (put_report (lit ''before'') before) (\<lambda>_.
    bindM (measure_mix H S c (rj_count job) schedule (\<lambda>_. bindM (sql_open S (rj_database job)) (\<lambda>h. retM (SqliteDb h)))) (\<lambda>measured.
    bindM (put_report (lit ''measurement'') (mix_summary_rv c measured)) (\<lambda>_.
    bindM (usage H rusage) (\<lambda>after.
    bindM (put_report (lit ''after'') after) (\<lambda>_.
    bindM (assertM (ms_errors measured = 0 \<and> ms_completed measured = rj_count job * mc_clients c) ''errors'') (\<lambda>_.
    bindM (sql_scalar S reference (lit ''SELECT sum(balance) FROM account'')) (\<lambda>total.
    bindM (assertM (total = increments c * int (writes_of (ms_raw measured))) ''sum'') (\<lambda>_.
    put_report (lit ''complete'') (RB True))))))))))))"

definition reference_main :: "'w hostops \<Rightarrow> 'w sqliteops \<Rightarrow> ('w \<Rightarrow> (rat \<times> int) \<times> 'w) \<Rightarrow> reference_job \<Rightarrow> nat list \<Rightarrow> ('w nrstate, unit) comp" where
  "reference_main H S rusage job schedule = bindM (sql_open S (rj_database job)) (\<lambda>reference.
    bindM (updM (\<lambda>_. run_empty [((lit ''complete''), RB False)])) (\<lambda>_.
    reportedM H (reference_work H S rusage job schedule reference)
      (bindM (sql_close S reference) (\<lambda>_. save_report H (rj_output job)))))"

section \<open>Observations\<close>

definition history_bytes :: "'w hostops \<Rightarrow> NetCluster \<Rightarrow> nat \<Rightarrow> ('x \<times> 'w, int) comp" where
  "history_bytes H c node = bindM (askM (ho_tree H (path_join (nc_root c) (lit ''data'' @ dec node)))) (\<lambda>files.
    retM (sum_list (map (\<lambda>(_, bytes, _). int bytes) (filter (\<lambda>(p, _, _). starts_with (base_name p) (lit ''consensus.db'')) files))))"

definition observe_node :: "'w hostops \<Rightarrow> NetCluster \<Rightarrow> nat \<Rightarrow> ('x \<times> 'w, nat \<times> dict \<times> int) comp" where
  "observe_node H c node = bindM (net_with H c [node] 30 None (dbM (status (ho_net H)))) (\<lambda>d.
    bindM (history_bytes H c node) (\<lambda>bytes.
    retM (node, d, bytes)))"

definition spread :: "int list \<Rightarrow> int res" where
  "spread xs = (if xs = [] then Inl (ValueError ''max() arg is an empty sequence'') else Inr (Max (set xs) - Min (set xs)))"

definition observe :: "'w hostops \<Rightarrow> NetCluster \<Rightarrow> ('w nrstate, rv) comp" where
  "observe H c = bindM (sample_cluster H) (\<lambda>resources.
    bindM (mapM (observe_node H c) all_nodes) (\<lambda>nodes.
    bindM (liftR (mapR (\<lambda>(_, d, _). int_field (JObj d) ''applied'') nodes)) (\<lambda>frontiers.
    bindM (liftR (spread frontiers)) (\<lambda>gap.
    retM (RD [((lit ''resources''), sample_rv resources),
      ((lit ''nodes''), RD (map (\<lambda>(n, d, bytes). (dec n, RD (map (\<lambda>(k, v). (k, RJ v)) d @ [((lit ''history_bytes''), RI bytes)]))) nodes)),
      ((lit ''observed_prefix_spread''), RI gap)])))))"

definition sample_pass :: "'w hostops \<Rightarrow> (load_sample list \<times> 'w nrstate, unit option) comp" where
  "sample_pass H = tryM (bindM (innerM (sample_cluster H)) (\<lambda>x.
      bindM (updM (\<lambda>xs. xs @ [x])) (\<lambda>_.
      retM None)))
    (\<lambda>e. bindM (innerM (put_case (lit ''monitor_error'') (RS (ho_repr H e)))) (\<lambda>_. retM (Some ())))"

definition native_measure :: "'w hostops \<Rightarrow> 'w sqliteops \<Rightarrow> NetCluster \<Rightarrow> mix_case \<Rightarrow> mix_args \<Rightarrow> ('w nrstate, mix_summary) comp" where
  "native_measure H S c k a = bindM (put_case (lit ''samples'') (RL [])) (\<lambda>_.
    bindM (localM [] (bindM (untilM [0..<ma_passes a] (\<lambda>_. sample_pass H)) (\<lambda>_. objM))) (\<lambda>samples.
    bindM (put_case (lit ''samples'') (RL (map sample_rv samples))) (\<lambda>_.
    measure_mix H S k (ma_operations a) (ma_schedule a)
      (\<lambda>i. bindM (net_connect H c [i mod 3 + 1] 30 None) (\<lambda>db. retM (NativeDb db))))))"

section \<open>The campaign\<close>

definition setup_texts :: "nat \<Rightarrow> pstr list" where
  "setup_texts payload = [(lit ''CREATE TABLE seed(id INTEGER PRIMARY KEY)''),
     (lit ''INSERT INTO seed VALUES '') @ join_with (lit '','') (map (\<lambda>i. (lit ''('' @ dec i @ lit '')'')) [0..<32]),
     (lit ''CREATE TABLE account(id INTEGER PRIMARY KEY,balance INTEGER,payload BLOB)''),
     (lit ''INSERT INTO account SELECT a.id*32+b.id,0,zeroblob('' @ dec payload @ lit '') FROM seed a,seed b'')]"

definition case_native :: "'w hostops \<Rightarrow> 'w sqliteops \<Rightarrow> NetCluster \<Rightarrow> mix_case \<Rightarrow> mix_args \<Rightarrow> ('w nrstate, unit) comp" where
  "case_native H S c k a = (let N = ho_net H in
    bindM (start_all H c True) (\<lambda>_.
    bindM (ready_all H c) (\<lambda>_.
    bindM (net_with H c all_nodes 10 None (forM (setup_texts (ma_payload a)) (\<lambda>sql. bindM (run_sql N sql []) (\<lambda>_. retM ())))) (\<lambda>_.
    bindM (observe H c) (\<lambda>before_frontiers.
    bindM (put_case (lit ''frontiers_before'') before_frontiers) (\<lambda>_.
    bindM (sample_cluster H) (\<lambda>before.
    bindM (put_case (lit ''before'') (sample_rv before)) (\<lambda>_.
    bindM (native_measure H S c k a) (\<lambda>measured.
    bindM (put_case (lit ''sqlodin'') (mix_summary_rv k measured)) (\<lambda>_.
    bindM (sample_cluster H) (\<lambda>after.
    bindM (put_case (lit ''after'') (sample_rv after)) (\<lambda>_.
    bindM (observe H c) (\<lambda>after_frontiers.
    bindM (put_case (lit ''frontiers_after'') after_frontiers) (\<lambda>_.
    bindM (assertM (ms_completed measured = ma_operations a * mc_clients k \<and> ms_errors measured = 0) ''completed'') (\<lambda>_.
    bindM (forM all_nodes (\<lambda>node. net_with H c [node] 10 None
      (assert_scalar N (lit ''SELECT sum(balance) FROM account'') [] (increments k * int (writes_of (ms_raw measured)))))) (\<lambda>_.
    bindM (put_case (lit ''verified'') (RB True)) (\<lambda>_.
    bindM objM (\<lambda>r.
    bindM (liftR (last_entry (nr_report r) (lit ''cases''))) (\<lambda>d.
    bindM ((case map_of d (lit ''sqlite'') of Some (RJ j) \<Rightarrow> bindM (liftR (field j ''per_second'')) (\<lambda>_. retM ()) | _ \<Rightarrow> raiseM KeyError)) (\<lambda>_.
    finish_processes H))))))))))))))))))))"

definition case_profile :: "'w hostops \<Rightarrow> bool \<Rightarrow> pstr \<times> pstr \<Rightarrow> ('w nrstate, pstr \<times> rv) comp" where
  "case_profile H verified entry = (let (name, log_text) = entry in
    bindM (liftR (io_profiles H log_text)) (\<lambda>profiles.
    bindM (ifM verified (bindM (liftR (one_profile profiles)) (\<lambda>ok.
      assertM ok ''profiles''))) (\<lambda>_.
    retM (name, if length profiles = 1 then RJ (hd profiles) else RJ JNull))))"

definition case_verified :: "report \<Rightarrow> bool" where
  "case_verified rep = (case last_entry rep (lit ''cases'') of Inr d \<Rightarrow> map_of d (lit ''verified'') = Some (RB True) | Inl _ \<Rightarrow> False)"

definition case_cleanup :: "'w hostops \<Rightarrow> pstr \<Rightarrow> mix_args \<Rightarrow> ('w nrstate, unit) comp" where
  "case_cleanup H cluster_dir a = bindM (net_close H) (\<lambda>_.
    bindM (askM (ho_glob H cluster_dir (lit ''*.log''))) (\<lambda>paths.
    bindM (mapM (\<lambda>p. bindM (worldM (ho_read H p)) (\<lambda>contents. retM (base_name p, tail_of 4000 contents))) paths) (\<lambda>logs.
    bindM (put_case (lit ''logs'') (RD (map (\<lambda>(n, t). (n, RS t)) logs))) (\<lambda>_.
    ifM (ma_io_library a \<noteq> None) (bindM (put_case (lit ''io_profiles'') (RD [])) (\<lambda>_.
      bindM objM (\<lambda>r.
      bindM (mapM (case_profile H (case_verified (nr_report r))) logs) (\<lambda>ps.
      put_case (lit ''io_profiles'') (RD ps)))))))))"

definition case_filesystem :: "'w hostops \<Rightarrow> pstr \<Rightarrow> ('w nrstate, unit) comp" where
  "case_filesystem H work = bindM (check_output H [(lit ''findmnt''), (lit ''-J''), (lit ''-T''), work]) (\<lambda>out.
    bindM (liftR (ho_loads H out)) (\<lambda>document.
    bindM (put_case (lit ''filesystem'') (RJ document)) (\<lambda>_.
    bindM (liftR (bindR (bindR (field document ''filesystems'') first_item) (\<lambda>f. field f ''fstype''))) (\<lambda>kind.
    assertM (kind \<noteq> JStr (lit ''tmpfs'') \<and> kind \<noteq> JStr (lit ''ramfs'')) ''filesystem''))))"

definition case_of :: "mix_args \<Rightarrow> nat \<Rightarrow> nat \<Rightarrow> mix_case" where
  "case_of a clients percent = \<lparr>mc_clients = clients, mc_read_percent = percent, mc_payload = ma_payload a, mc_statements = ma_statements a,
     mc_rows = ma_rows a, mc_skew = ma_skew a, mc_seed = ma_seed a, mc_rate = ma_rate a\<rparr>"

definition calibrate_case :: "'w hostops \<Rightarrow> 'w sqliteops \<Rightarrow> script_args \<Rightarrow> mix_args \<Rightarrow> pstr \<Rightarrow> pstr \<Rightarrow> nat \<Rightarrow> nat \<Rightarrow> ('w nrstate, unit) comp" where
  "calibrate_case H S s a work_root shared clients percent = (let k = case_of a clients percent in
    bindM (append_entry (lit ''cases'') (RD (case_rv k))) (\<lambda>_.
    bindM (updM (\<lambda>r. r\<lparr>nr_processes := [], nr_logs := []\<rparr>)) (\<lambda>_.
    bindM (temp_dirM H work_root (\<lambda>work. bindM (case_filesystem H work) (\<lambda>_.
      bindM (reference_measure H s a shared work (setup_texts (ma_payload a))) (\<lambda>_.
      let cluster_dir = path_join work (lit ''cluster'') in
      bindM (worldM (ho_mkdir H cluster_dir)) (\<lambda>_.
      bindM (resolveM H (sa_binary s)) (\<lambda>binary.
      bindM (net_cluster H cluster_dir binary (path_join (sa_home s) (lit ''build/native/openssl'')) 5 (lit ''auto'')) (\<lambda>c.
      bindM (ifM (ma_io_library a \<noteq> None) (put_case (lit ''io_scope'') (RS (lit ''whole native process including setup, validation and shutdown'')))) (\<lambda>_.
      finallyM (case_native H S c k a) (case_cleanup H cluster_dir a))))))))) (\<lambda>_.
    save_report H (sa_output s)))))"

definition args_ok :: "mix_args \<Rightarrow> bool" where
  "args_ok a \<longleftrightarrow> 10 \<le> ma_operations a \<and> ma_operations a \<le> 1000 \<and> ma_rate a \<le> 10000
     \<and> list_all (\<lambda>n. 1 \<le> n \<and> n \<le> 64) (ma_clients a) \<and> list_all (\<lambda>n. n \<le> 100) (ma_reads a)"

text \<open>\<open>sourceid\<close> loads the shared library and asks it for its source identifier.\<close>

definition calibrate_main :: "'w hostops \<Rightarrow> 'w sqliteops \<Rightarrow> (pstr \<Rightarrow> 'w \<Rightarrow> pstr res \<times> 'w) \<Rightarrow> script_args \<Rightarrow> mix_args \<Rightarrow> ('w nrstate, unit) comp" where
  "calibrate_main H S sourceid s a = bindM (askM (ho_exists H (sa_output s))) (\<lambda>exists.
    bindM (assertM (\<not> exists \<and> args_ok a) ''arguments'') (\<lambda>_.
    let work_root = path_join (sa_home s) (lit ''build/mixed-calibration'') in
    bindM (worldM (ho_mkdir H work_root)) (\<lambda>_.
    let shared = path_join work_root (lit ''pinned-sqlite.so'') in
    let archive = path_join (sa_home s) (lit ''build/native/libsqlite3.a'') in
    bindM (check_output H [(lit ''cc''), (lit ''-shared''), (lit ''-o''), shared, (lit ''-Wl,--whole-archive''), archive, (lit ''-Wl,--no-whole-archive''), (lit ''-lm''), (lit ''-lpthread''), (lit ''-ldl'')]) (\<lambda>_.
    bindM (worldM (sourceid shared)) (\<lambda>source.
    bindM (worldM (ho_sha256 H archive)) (\<lambda>d1.
    bindM (worldM (ho_sha256 H (sa_binary s))) (\<lambda>d2.
    bindM (worldM (ho_sha256 H (ma_harness a))) (\<lambda>d3.
    bindM (worldM (ho_sha256 H (path_join (sa_home s) (lit ''tools/sqlite_group_reference.py'')))) (\<lambda>d4.
    bindM (updM (\<lambda>_. run_empty [((lit ''complete''), RB False),
      ((lit ''scope''), RS (lit ''selected bounded transaction shape; scheduled-arrival latency when rate is nonzero'')),
      ((lit ''sqlite_sourceid''), RS source), ((lit ''sqlite_archive_sha256''), RS d1), ((lit ''binary_sha256''), RS d2), ((lit ''harness_sha256''), RS d3),
      ((lit ''group_reference_sha256''), RS d4), ((lit ''cases''), RL [])])) (\<lambda>_.
    bindM ((case ma_io_library a of None \<Rightarrow> retM () | Some lib \<Rightarrow> bindM (worldM (ho_sha256 H lib)) (\<lambda>d5.
      put_report (lit ''io_library_sha256'') (RS d5)))) (\<lambda>_.
    bindM (worldM (ho_sha256 H (path_join (sa_home s) (lit ''tools/sqlite_reference_worker.py'')))) (\<lambda>d6.
    bindM (put_report (lit ''reference_worker_sha256'') (RS d6)) (\<lambda>_.
    reportedM H (bindM (forM (ma_clients a) (\<lambda>clients. forM (ma_reads a) (calibrate_case H S s a work_root shared clients))) (\<lambda>_.
        put_report (lit ''complete'') (RB True)))
      (bindM (make_parent H (sa_output s)) (\<lambda>_. save_report H (sa_output s))))))))))))))))"

end
