(* ===== verification/Capacity.thy ===== *)
theory Capacity
  imports Resource_Load
begin

text \<open>
  \<open>tools/check_capacity.py\<close>: bulk loading, live snapshots and recovery of three voters. The
  sampling thread makes its passes, as many as the argument says, where it is started.
\<close>

definition GIB :: nat where
  "GIB = 1024 ^ 3"

definition VERIFY_RANGE_ROWS :: nat where
  "VERIFY_RANGE_ROWS = 16384"

section \<open>Work directory and retained clusters\<close>

definition retained_workspace :: "'w hostops \<Rightarrow> pstr \<Rightarrow> pstr option \<Rightarrow> (pstr \<Rightarrow> ('w nrstate, unit) comp) \<Rightarrow> ('w nrstate, unit) comp" where
  "retained_workspace H base resume body = bindM ((case resume of Some d \<Rightarrow> retM d | None \<Rightarrow> worldM (ho_mkdtemp H base))) (\<lambda>home.
    bindM (put_report (lit ''work_directory'') (RS home)) (\<lambda>_.
    handleM (body home)
      (\<lambda>_. worldM (ho_rmtree H home))
      (\<lambda>e. bindM (put_report (lit ''failed_data_retained'') (RB True)) (\<lambda>_.
        raiseM e))))"

definition str_field :: "json \<Rightarrow> string \<Rightarrow> pstr res" where
  "str_field j k = bindR (field j k) (\<lambda>v. case v of JStr s \<Rightarrow> Inr s | _ \<Rightarrow> Inl (TypeError ''expected str''))"

definition member_of :: "json \<Rightarrow> Member res" where
  "member_of j = bindR (int_field j ''id'') (\<lambda>i. bindR (str_field j ''address'') (\<lambda>a. bindR (str_field j ''identity'') (\<lambda>n.
     Inr \<lparr>mb_id = nat i, mb_address = a, mb_identity = n\<rparr>)))"

definition same_path :: "'w hostops \<Rightarrow> json \<Rightarrow> string \<Rightarrow> pstr \<Rightarrow> ('x \<times> 'w, unit) comp" where
  "same_path H config k expected = bindM (liftR (str_field config k)) (\<lambda>p.
    bindM (askM (ho_resolve H p)) (\<lambda>q.
    assertM (q = expected) ''path''))"

definition check_config :: "'w hostops \<Rightarrow> pstr \<Rightarrow> json \<Rightarrow> nat \<Rightarrow> ('x \<times> 'w, unit) comp" where
  "check_config H home members node = bindM (worldM (ho_read H (path_join home (lit ''node'' @ dec node @ lit ''.json'')))) (\<lambda>contents.
    bindM (liftR (ho_loads H contents)) (\<lambda>config.
    bindM (liftR (field config ''node'')) (\<lambda>n.
    bindM (liftR (field config ''members'')) (\<lambda>m.
    bindM (assertM (num_eq n (int node) \<and> m = members) ''node and members'') (\<lambda>_.
    bindM (liftR (field config ''cluster'')) (\<lambda>name.
    bindM (liftR (field config ''storage_format'')) (\<lambda>format.
    bindM (assertM (name = JStr (lit ''network-qualification'') \<and> num_eq format 5) ''cluster and format'') (\<lambda>_.
    bindM (liftR (field config ''maintenance'')) (\<lambda>maintenance.
    bindM (assertM (maintenance = JStr (lit ''auto'')) ''maintenance'') (\<lambda>_.
    bindM (same_path H config ''data'' (path_join home (lit ''data'' @ dec node))) (\<lambda>_.
    bindM (same_path H config ''certificate'' (path_join home (lit ''node'' @ dec node @ lit ''.pem''))) (\<lambda>_.
    bindM (same_path H config ''key'' (path_join home (lit ''node'' @ dec node @ lit ''.key''))) (\<lambda>_.
    same_path H config ''ca'' (path_join home (lit ''ca.pem'')))))))))))))))"

definition retained_cluster :: "'w hostops \<Rightarrow> pstr \<Rightarrow> pstr \<Rightarrow> ('x \<times> 'w, NetCluster) comp" where
  "retained_cluster H home binary = bindM (worldM (ho_read H (path_join home (lit ''node1.json'')))) (\<lambda>contents.
    bindM (liftR (ho_loads H contents)) (\<lambda>config.
    bindM (liftR (field config ''members'')) (\<lambda>members.
    bindM (liftR (bindR (iter_json members) (mapR member_of))) (\<lambda>ms.
    bindM (assertM (map mb_id ms = [1, 2, 3]) ''members'') (\<lambda>_.
    bindM (assertM (list_all (\<lambda>m. starts_with (mb_address m) (lit ''127.0.0.1:'')) ms) ''addresses'') (\<lambda>_.
    bindM (forM all_nodes (check_config H home members)) (\<lambda>_.
    retM \<lparr>nc_root = home, nc_binary = binary, nc_members = ms, nc_namespace = (lit ''network-qualification''), nc_remote = False\<rparr>)))))))"

definition inventory :: "'w hostops \<Rightarrow> pstr \<Rightarrow> ('x \<times> 'w, (pstr \<times> nat \<times> nat) list) comp" where
  "inventory H home = bindM (askM (ho_tree H home)) (\<lambda>files.
    retM (map (\<lambda>(p, size_bytes, blocks). (drop (length home + 1) p, size_bytes, blocks * 512))
      (filter (\<lambda>(p, _, _). \<not> ends_with p ''.pem'' \<and> \<not> ends_with p ''.key'' \<and> \<not> ends_with p ''.csr'') files)))"

definition inventory_rv :: "(pstr \<times> nat \<times> nat) list \<Rightarrow> rv" where
  "inventory_rv fs = RL (map (\<lambda>(p, b, a). RD [((lit ''path''), RS p), ((lit ''bytes''), RI (int b)), ((lit ''allocated''), RI (int a))]) fs)"

definition states :: "'w hostops \<Rightarrow> NetCluster \<Rightarrow> ('x \<times> 'w, (nat \<times> dict) list) comp" where
  "states H c = mapM (\<lambda>node. bindM (net_with H c [node] 5 None (dbM (status (ho_net H)))) (\<lambda>d. retM (node, d))) all_nodes"

section \<open>Writes that may be uncertain\<close>

definition resolve_attempt :: "'w netops \<Rightarrow> nat \<Rightarrow> ('w cstate, WriteResult option) comp" where
  "resolve_attempt N attempt = tryM (bindM (resolve_pending N) (\<lambda>r. retM (Some r)))
    (\<lambda>e. if unknown_pending e \<noteq> None \<and> attempt \<noteq> 2 then retM None else raiseM e)"

definition cap_execute :: "'w netops \<Rightarrow> pstr \<Rightarrow> pval list \<Rightarrow> ('w cstate, WriteResult option) comp" where
  "cap_execute N sql ps = tryM (bindM (execute N (VStr sql) (PSeq ps)) (\<lambda>r. retM (Some r)))
    (\<lambda>e. if unknown_pending e = None then raiseM e else untilM [0, 1, 2] (resolve_attempt N))"

section \<open>Snapshots\<close>

definition int_of :: "dict \<Rightarrow> string \<Rightarrow> int res" where
  "int_of d k = int_field (JObj d) k"

definition working :: "dict \<Rightarrow> bool res" where
  "working s = bindR (int_of s ''snapshot_prefix'') (\<lambda>a. bindR (int_of s ''snapshot_sealed'') (\<lambda>b.
     bindR (int_of s ''generation_prefix'') (\<lambda>g. Inr (g < max a b))))"

definition anyR :: "('a \<Rightarrow> bool res) \<Rightarrow> 'a list \<Rightarrow> bool res" where
  "anyR p xs = bindR (allR (\<lambda>x. bindR (p x) (\<lambda>b. Inr (\<not> b))) xs) (\<lambda>none. Inr (\<not> none))"

definition reached :: "int \<Rightarrow> dict \<Rightarrow> bool res" where
  "reached n s = bindR (int_of s ''generation_prefix'') (\<lambda>g. Inr (n \<le> g))"

text \<open>\<open>target or required\<close>: a target is positive, so it is never false.\<close>

definition states_rv :: "(nat \<times> dict) list \<Rightarrow> rv" where
  "states_rv current = RD (map (\<lambda>(n, d). (dec n, RJ (JObj d))) current)"

definition busy_retry :: "'w hostops \<Rightarrow> exn \<Rightarrow> ('w nrstate, unit) comp" where
  "busy_retry H e = (if is_ConnectionError e \<and> ho_str H e = (lit ''Operation deadline exceeded: Busy'')
     then bindM objM (\<lambda>r.
       bindM (liftR (last_entry (nr_report r) (lit ''stages''))) (\<lambda>d.
       put_entry (lit ''stages'') (lit ''snapshot_busy_retries'') (RI ((case map_of d (lit ''snapshot_busy_retries'') of Some (RI n) \<Rightarrow> n | _ \<Rightarrow> 0) + 1))))
     else raiseM e)"

definition request_target :: "'w hostops \<Rightarrow> NetCluster \<Rightarrow> (int option \<times> 'w nrstate, unit) comp" where
  "request_target H c = tryM (bindM (innerM (net_with H c all_nodes 5 None (dbM (request_snapshot (ho_net H))))) (\<lambda>t.
      bindM (updM (\<lambda>_. Some t)) (\<lambda>_.
      innerM (put_entry (lit ''stages'') (lit ''snapshot_target'') (RI t)))))
    (\<lambda>e. innerM (busy_retry H e))"

definition checkpoint_pass :: "'w hostops \<Rightarrow> NetCluster \<Rightarrow> ('w nrstate, unit) comp \<Rightarrow> int \<Rightarrow> rat \<Rightarrow> (int option \<times> 'w nrstate, unit option) comp" where
  "checkpoint_pass H c output required before = bindM (innerM (states H c)) (\<lambda>current.
    bindM (innerM (put_entry (lit ''stages'') (lit ''last_snapshot_states'') (states_rv current))) (\<lambda>_.
    bindM (liftR (allR (\<lambda>(_, s). bindR (field (JObj s) ''snapshot_error'') (\<lambda>e. Inr (\<not> json_truth e))) current)) (\<lambda>clean.
    bindM (assertM clean ''current'') (\<lambda>_.
    bindM objM (\<lambda>target.
    let goal = (case target of None \<Rightarrow> required | Some t \<Rightarrow> t) in
    bindM (liftR (allR (\<lambda>(_, s). reached goal s) current)) (\<lambda>published.
    (if published then bindM (liftR (mapR (\<lambda>(_, s). int_of s ''generation_prefix'') current)) (\<lambda>prefixes.
       bindM (innerM (put_entry (lit ''stages'') (lit ''snapshot_target'') (RI (case target of Some t \<Rightarrow> t | None \<Rightarrow> fold min prefixes (hd prefixes))))) (\<lambda>_.
       bindM (innerM (clockM (ho_net H))) (\<lambda>now.
       bindM (innerM (put_entry (lit ''stages'') (lit ''snapshot_seconds'') (RT (now - before)))) (\<lambda>_.
       retM (Some ())))))
     else bindM (liftR (anyR (\<lambda>(_, s). working s) current)) (\<lambda>busy.
       bindM (ifM (target = None \<and> \<not> busy) (request_target H c)) (\<lambda>_.
       bindM (innerM output) (\<lambda>_.
       bindM (innerM (effectM (sleep (ho_net H) 1))) (\<lambda>_.
       retM None)))))))))))"

definition checkpoint :: "'w hostops \<Rightarrow> NetCluster \<Rightarrow> nat \<Rightarrow> ('w nrstate, unit) comp \<Rightarrow> ('w nrstate, unit) comp" where
  "checkpoint H c target_bytes output = bindM (clockM (ho_net H)) (\<lambda>before.
    bindM (states H c) (\<lambda>current.
    bindM (liftR (mapR (\<lambda>(_, s). int_of s ''applied'') current)) (\<lambda>applied.
    bindM (liftR (maxR applied)) (\<lambda>required.
    let watchdog = max 1800 (90 * of_nat target_bytes / of_nat GIB) in
    bindM (put_entry (lit ''stages'') (lit ''snapshot_watchdog_seconds'') (RT watchdog)) (\<lambda>_.
    bindM (put_entry (lit ''stages'') (lit ''required_snapshot_prefix'') (RI required)) (\<lambda>_.
    bindM (localM None (whileM (bindM (innerM (clockM (ho_net H))) (\<lambda>now. retM (now - before < watchdog)))
      (checkpoint_pass H c output required before))) (\<lambda>r.
    (case r of Some _ \<Rightarrow> retM ()
     | None \<Rightarrow> raiseM (TimeoutError ''Capacity snapshot did not publish within the campaign watchdog'')))))))))"

section \<open>Verification\<close>

definition count_range :: "'w netops \<Rightarrow> nat \<Rightarrow> nat \<Rightarrow> int \<Rightarrow> ((Connection \<times> 'x) \<times> 'w, int) comp" where
  "count_range N rows first counted = bindM (scalar_sql N (lit ''SELECT count(*) FROM capacity WHERE id>=? AND id<?'')
      [VInt (int first), VInt (int (min rows (first + VERIFY_RANGE_ROWS)))]) (\<lambda>cell.
    bindM (liftR (case cell of CJson (JInt n) \<Rightarrow> Inr n | _ \<Rightarrow> Inl (TypeError ''unsupported operand type''))) (\<lambda>n.
    retM (counted + n)))"

text \<open>\<open>payload[:32].encode().hex().upper()\<close> of printable characters.\<close>

definition hex_digit :: "nat \<Rightarrow> nat" where
  "hex_digit n = (if n < 10 then 48 + n else 55 + n)"

definition hex_upper :: "pbytes \<Rightarrow> pstr" where
  "hex_upper bs = concat (map (\<lambda>b. [hex_digit (b div 16), hex_digit (b mod 16)]) bs)"

definition check_sample :: "'w netops \<Rightarrow> pstr list \<Rightarrow> nat \<Rightarrow> ((Connection \<times> 'x) \<times> 'w, unit) comp" where
  "check_sample N payloads key = bindM (read_sql N (lit ''SELECT length(payload),hex(substr(payload,1,32)) FROM capacity WHERE id=?'') [VInt (int key)]) (\<lambda>rows.
    bindM (liftR (rows_one rows)) (\<lambda>row.
    bindM (liftR (case utf8 (take 32 (payloads ! (key mod length payloads))) of None \<Rightarrow> Inl UnicodeEncodeError | Some b \<Rightarrow> Inr b)) (\<lambda>bytes.
    assertM (case as_tuple row of [n, h] \<Rightarrow> cell_is n 4096 \<and> h = CJson (JStr (hex_upper bytes)) | _ \<Rightarrow> False) ''actual'')))"

definition verify_node :: "'w hostops \<Rightarrow> NetCluster \<Rightarrow> nat \<Rightarrow> pstr list \<Rightarrow> nat \<Rightarrow> nat \<Rightarrow> ('x \<times> 'w, nat) comp" where
  "verify_node H c rows payloads node rng = (let N = ho_net H in
    net_with H c [node] 60 None (bindM (assert_scalar N (lit ''SELECT min(id) FROM capacity'') [] 0) (\<lambda>_.
      bindM (assert_scalar N (lit ''SELECT max(id) FROM capacity'') [] (int rows - 1)) (\<lambda>_.
      bindM (foldM (range_step 0 rows VERIFY_RANGE_ROWS) 0 (count_range N rows)) (\<lambda>counted.
      bindM (assertM (counted = int rows) ''node, counted, rows'') (\<lambda>_.
      foldM [0..<8] rng (\<lambda>_ g. (let (key, g') = ho_randrange H rows g in
        bindM (check_sample N payloads key) (\<lambda>_.
        retM g')))))))))"

definition cap_verify :: "'w hostops \<Rightarrow> NetCluster \<Rightarrow> nat \<Rightarrow> pstr list \<Rightarrow> int \<Rightarrow> ('x \<times> 'w, unit) comp" where
  "cap_verify H c rows payloads seed = bindM (foldM all_nodes (ho_seed H seed) (verify_node H c rows payloads)) (\<lambda>_. retM ())"

section \<open>The campaign\<close>

definition gen_payload :: "'w hostops \<Rightarrow> nat \<Rightarrow> pstr \<times> nat" where
  "gen_payload H rng = fold (\<lambda>_ (s, g). case ho_randrange H 94 g of (n, g') \<Rightarrow> (s @ [33 + n], g')) [0..<4096] ([], rng)"

definition gen_payloads :: "'w hostops \<Rightarrow> nat \<Rightarrow> pstr list \<times> nat" where
  "gen_payloads H rng = fold (\<lambda>_ (ps, g). case gen_payload H g of (p, g') \<Rightarrow> (ps @ [p], g')) [0..<256] ([], rng)"

definition insert_payload :: "'w netops \<Rightarrow> nat \<times> pstr \<Rightarrow> ((Connection \<times> 'x) \<times> 'w, unit) comp" where
  "insert_payload N kp = (case kp of (key, payload) \<Rightarrow> bindM
     (dbM (cap_execute N (lit ''INSERT INTO capacity VALUES('' @ dec key @ lit '',0,CAST('' @ (join (lit ''||'') (replicate 16 (lit ''?''))) @ lit '' AS BLOB))'')
       (map (\<lambda>i. VStr (take 256 (drop i payload))) (range_step 0 4096 256)))) (\<lambda>_. retM ()))"

definition load_fresh :: "'w netops \<Rightarrow> pstr list \<Rightarrow> ((Connection \<times> 'x) \<times> 'w, nat) comp" where
  "load_fresh N payloads = bindM (dbM (cap_execute N (lit ''CREATE TABLE capacity(id INTEGER PRIMARY KEY,balance INTEGER NOT NULL,payload BLOB)'') [])) (\<lambda>_.
    bindM (forM (List.enumerate 0 payloads) (insert_payload N)) (\<lambda>_.
    retM (length payloads)))"

definition load_resumed :: "'w hostops \<Rightarrow> NetCluster \<Rightarrow> pstr list \<Rightarrow> int \<Rightarrow> nat \<Rightarrow> ((Connection \<times> NetRun) \<times> 'w, nat) comp" where
  "load_resumed H c payloads seed largest = (let N = ho_net H in
    bindM (scalar_sql N (lit ''SELECT max(id) FROM capacity'') []) (\<lambda>cell.
    bindM (liftR (case cell of CJson (JInt n) \<Rightarrow> Inr n | _ \<Rightarrow> Inl (TypeError ''unsupported operand type''))) (\<lambda>top.
    bindM (assert_scalar N (lit ''SELECT min(id) FROM capacity'') [] 0) (\<lambda>_.
    bindM (assert_scalar N (lit ''SELECT max(id) FROM capacity'') [] top) (\<lambda>_.
    bindM (assertM (int (length payloads) \<le> top + 1 \<and> top + 1 \<le> int (largest div 4096)) ''rows'') (\<lambda>_.
    bindM (cap_verify H c (nat (top + 1)) payloads seed) (\<lambda>_.
    bindM (upM (put_sub (lit ''resume'') (lit ''verified_rows_before_continuation'') (RI (top + 1)))) (\<lambda>_.
    retM (nat (top + 1))))))))))"

text \<open>\<open>while rows < target\<close>: the table is copied onto itself in chunks.\<close>

definition grow_chunk :: "nat \<Rightarrow> nat \<Rightarrow> nat" where
  "grow_chunk rows target = min (min rows 4096) (target - rows)"

definition grow_step :: "'w hostops \<Rightarrow> pstr \<Rightarrow> bool \<Rightarrow> ('w nrstate, unit) comp \<Rightarrow> nat
    \<Rightarrow> (nat \<times> (Connection \<times> NetRun) \<times> 'w, unit option) comp" where
  "grow_step H home resumed save target = bindM objM (\<lambda>rows.
    let chunk = grow_chunk rows target in
    let verb = (if resumed then (lit ''INSERT OR IGNORE'') else (lit ''INSERT'')) in
    bindM (innerM (dbM (cap_execute (ho_net H)
      (verb @ lit '' INTO capacity SELECT id+'' @ dec rows @ lit '',0,payload FROM capacity WHERE id<'' @ dec chunk) []))) (\<lambda>_.
    bindM (updM (\<lambda>n. n + chunk)) (\<lambda>_.
    bindM (ifM ((rows + chunk) mod (64 * 4096) = 0) (bindM (innerM (askM (ho_free H home))) (\<lambda>free.
      bindM (innerM (upM (put_entry (lit ''stages'') (lit ''rows'') (RI (int (rows + chunk)))))) (\<lambda>_.
      bindM (innerM (upM (put_entry (lit ''stages'') (lit ''free_bytes'') (RI free)))) (\<lambda>_.
      bindM (assertM (int (20 * GIB) < free) ''free_bytes'') (\<lambda>_.
      innerM (upM save))))))) (\<lambda>_.
    retM None))))"

definition grow :: "'w hostops \<Rightarrow> pstr \<Rightarrow> bool \<Rightarrow> ('w nrstate, unit) comp \<Rightarrow> nat \<Rightarrow> nat \<Rightarrow> ((Connection \<times> NetRun) \<times> 'w, nat) comp" where
  "grow H home resumed save target rows = localM rows (bindM (whileM (bindM objM (\<lambda>n. retM (n < target))) (grow_step H home resumed save target)) (\<lambda>_.
    objM))"

text \<open>Short transactions on rows of the whole table.\<close>

definition touch_row :: "'w hostops \<Rightarrow> NetCluster \<Rightarrow> nat \<Rightarrow> nat \<Rightarrow> nat \<Rightarrow> ('x \<times> 'w, nat) comp" where
  "touch_row H c rows operation rng = (let N = ho_net H in
    let (key, rng') = ho_randrange H rows rng in
    bindM (net_with H c [operation mod 3 + 1] 60 None (bindM (dbM (cap_execute N (lit ''UPDATE capacity SET balance=balance+1 WHERE id=?'') [VInt (int key)])) (\<lambda>_.
      bindM (scalar_sql N (lit ''SELECT balance FROM capacity WHERE id=?'') [VInt (int key)]) (\<lambda>cell.
      bindM (liftR (case cell of CJson (JInt n) \<Rightarrow> Inr n | _ \<Rightarrow> Inl (TypeError ''not supported between these instances''))) (\<lambda>n.
      assertM (1 \<le> n) ''balance''))))) (\<lambda>_.
    retM rng'))"

definition stage_restart :: "'w hostops \<Rightarrow> NetCluster \<Rightarrow> ('w nrstate, rat) comp" where
  "stage_restart H c = bindM (forM all_nodes (net_stop H)) (\<lambda>_.
    bindM (clockM (ho_net H)) (\<lambda>started.
    bindM (forM all_nodes (\<lambda>node. net_start H c node False)) (\<lambda>_.
    bindM (forM all_nodes (\<lambda>node. bindM (node_ready H c node 60) (\<lambda>_. retM ()))) (\<lambda>_.
    bindM (clockM (ho_net H)) (\<lambda>now.
    retM (now - started))))))"

record capacity_args =
  ca_sizes :: "nat list"
  ca_resume :: "pstr option"
  ca_interrupt :: bool
  ca_seed :: int
  ca_passes :: nat

text \<open>
  The sampling thread: a process that is gone is a gap, a denied read is recorded, any other
  exception ends the thread.
\<close>

definition process_gone :: "exn \<Rightarrow> bool" where
  "process_gone e \<longleftrightarrow> e = FileNotFoundError \<or> e = OSError ''ProcessLookupError''"

definition watch_pass :: "'w hostops \<Rightarrow> ('w nrstate, unit option) comp" where
  "watch_pass H = tryM (bindM (sample_cluster H) (\<lambda>s.
      bindM (append_entry (lit ''samples'') (sample_rv s)) (\<lambda>_.
      retM None)))
    (\<lambda>e. if process_gone e then retM None
      else if e = OSError ''PermissionError'' then bindM objM (\<lambda>r.
        bindM (ifM (map_of (nr_report r) (lit ''sampling_errors'') = None) (put_report (lit ''sampling_errors'') (RL []))) (\<lambda>_.
        bindM (append_entry (lit ''sampling_errors'') (RS (ho_repr H e))) (\<lambda>_.
        retM None)))
      else retM (Some ()))"

definition watch :: "'w hostops \<Rightarrow> nat \<Rightarrow> ('w nrstate, unit) comp" where
  "watch H passes = bindM (untilM [0..<passes] (\<lambda>_. watch_pass H)) (\<lambda>_. retM ())"

text \<open>\<open>max((s['nodes'].get(node,{}).get('rss_bytes',0) for s in report['samples']), default=0)\<close>\<close>

definition get_entry :: "rv \<Rightarrow> pstr \<Rightarrow> rv option" where
  "get_entry v k = (case v of RD d \<Rightarrow> map_of d k | _ \<Rightarrow> None)"

definition sample_rss :: "nat \<Rightarrow> rv \<Rightarrow> int" where
  "sample_rss node s = (case Option.bind (Option.bind (get_entry s (lit ''nodes'')) (\<lambda>ns. get_entry ns (dec node))) (\<lambda>n. get_entry n (lit ''rss_bytes'')) of
     Some (RI i) \<Rightarrow> i | _ \<Rightarrow> 0)"

definition peak_rss :: "report \<Rightarrow> nat \<Rightarrow> int" where
  "peak_rss rep node = (case map_of rep (lit ''samples'') of
     Some (RL (s # ss)) \<Rightarrow> fold max (map (sample_rss node) ss) (sample_rss node s) | _ \<Rightarrow> 0)"

text \<open>
  The work of one stage on the connection of the campaign; the generator is carried along. At its
  end the script closes the connection and binds \<open>db\<close> to a new one, while the \<open>with\<close>
  statement still refers to the first: \<open>cv_original\<close> tells whether \<open>db\<close> is that one.
\<close>

record cap_vars =
  cv_db :: Connection
  cv_original :: bool

definition viewM :: "((Connection \<times> 'x) \<times> 'w, 'a) comp \<Rightarrow> ((cap_vars \<times> 'x) \<times> 'w, 'a) comp" where
  "viewM m = (\<lambda>((v, x), w). case m ((cv_db v, x), w) of None \<Rightarrow> None
     | Some (r, ((c, x'), w')) \<Rightarrow> Some (r, ((v\<lparr>cv_db := c\<rparr>, x'), w')))"

definition stage_work :: "'w hostops \<Rightarrow> NetCluster \<Rightarrow> capacity_args \<Rightarrow> ('w nrstate, unit) comp \<Rightarrow> pstr list \<Rightarrow> nat \<Rightarrow> nat \<times> nat
    \<Rightarrow> ((Connection \<times> NetRun) \<times> 'w, nat \<times> nat) comp" where
  "stage_work H c a save payloads target_bytes acc = (let N = ho_net H in
    let (rows, rng) = acc in
    bindM (clockM N) (\<lambda>started.
    bindM (upM (append_entry (lit ''stages'') (RD [((lit ''target_payload_bytes''), RI (int target_bytes)), ((lit ''started''), RT started)]))) (\<lambda>_.
    bindM (grow H (nc_root c) (ca_resume a \<noteq> None) save (target_bytes div 4096) rows) (\<lambda>rows'.
    bindM (clockM N) (\<lambda>now.
    bindM (upM (put_entry (lit ''stages'') (lit ''rows'') (RI (int rows')))) (\<lambda>_.
    bindM (upM (put_entry (lit ''stages'') (lit ''load_seconds'') (RT (now - started)))) (\<lambda>_.
    bindM (cap_verify H c rows' payloads (ca_seed a)) (\<lambda>_.
    bindM (ifM (ca_interrupt a) (bindM (upM (put_report (lit ''expected_fixture_interruption'') (RB True))) (\<lambda>_.
      raiseM (RuntimeError ''Requested fixture interruption after verified load'')))) (\<lambda>_.
    bindM (inventory H (nc_root c)) (\<lambda>before.
    bindM (upM (put_entry (lit ''stages'') (lit ''before_snapshot_files'') (inventory_rv before))) (\<lambda>_.
    bindM (upM (checkpoint H c target_bytes save)) (\<lambda>_.
    bindM (inventory H (nc_root c)) (\<lambda>after.
    bindM (upM (put_entry (lit ''stages'') (lit ''after_snapshot_files'') (inventory_rv after))) (\<lambda>_.
    bindM (foldM [0..<90] rng (touch_row H c rows')) (\<lambda>rng'.
    bindM (upM (stage_restart H c)) (\<lambda>seconds.
    bindM (upM (put_entry (lit ''stages'') (lit ''restart_seconds'') (RT seconds))) (\<lambda>_.
    bindM (cap_verify H c rows' payloads (ca_seed a + 1)) (\<lambda>_.
    bindM (upM (put_entry (lit ''stages'') (lit ''restart_goal_met'') (RB (seconds \<le> 60)))) (\<lambda>_.
    bindM (upM (put_entry (lit ''stages'') (lit ''complete'') (RB True))) (\<lambda>_.
    bindM (upM save) (\<lambda>_.
    bindM (dbM (conn_close N)) (\<lambda>_.
    retM (rows', rng')))))))))))))))))))))))"

definition capacity_stage :: "'w hostops \<Rightarrow> NetCluster \<Rightarrow> capacity_args \<Rightarrow> ('w nrstate, unit) comp \<Rightarrow> pstr list \<Rightarrow> nat \<Rightarrow> nat \<times> nat
    \<Rightarrow> ((cap_vars \<times> NetRun) \<times> 'w, nat \<times> nat) comp" where
  "capacity_stage H c a save payloads target_bytes acc = bindM (viewM (stage_work H c a save payloads target_bytes acc)) (\<lambda>acc'.
    bindM (net_connect H c all_nodes 60 None) (\<lambda>db.
    bindM (updM (\<lambda>(_, x). (\<lparr>cv_db = db, cv_original = False\<rparr>, x))) (\<lambda>_.
    retM acc')))"

definition capacity_ready :: "'w hostops \<Rightarrow> NetCluster \<Rightarrow> bool \<Rightarrow> ('w nrstate, unit) comp" where
  "capacity_ready H c resumed = (let N = ho_net H in
    bindM (clockM N) (\<lambda>startup.
    bindM (forM all_nodes (\<lambda>node. net_start H c node (\<not> resumed))) (\<lambda>_.
    let watchdog = (if resumed then 600 else 60) in
    bindM (put_report (lit ''initial_readiness_watchdog_seconds'') (RT watchdog)) (\<lambda>_.
    bindM (forM all_nodes (\<lambda>node. bindM (clockM N) (\<lambda>now.
      bindM (node_ready H c node (max 1 (watchdog - (now - startup)))) (\<lambda>_.
      retM ())))) (\<lambda>_.
    bindM (clockM N) (\<lambda>now.
    bindM (put_report (lit ''initial_readiness_seconds'') (RT (now - startup))) (\<lambda>_.
    put_report (lit ''initial_sixty_second_goal_met'') (RB (now - startup \<le> 60)))))))))"

definition capacity_campaign :: "'w hostops \<Rightarrow> NetCluster \<Rightarrow> capacity_args \<Rightarrow> ('w nrstate, unit) comp \<Rightarrow> ('w nrstate, unit) comp" where
  "capacity_campaign H c a save = (let N = ho_net H in
    bindM (capacity_ready H c (ca_resume a \<noteq> None)) (\<lambda>_.
    bindM save (\<lambda>_.
    bindM (watch H (ca_passes a)) (\<lambda>_.
    let (payloads, rng) = gen_payloads H (ho_seed H (ca_seed a)) in
    bindM (net_connect H c all_nodes 60 None) (\<lambda>db.
    bindM (scopeM \<lparr>cv_db = db, cv_original = True\<rparr> (bindM (viewM (dbM ready)) (\<lambda>_.
      finallyM (bindM (viewM (if ca_resume a \<noteq> None then load_resumed H c payloads (ca_seed a) (fold max (ca_sizes a) 0) else load_fresh N payloads)) (\<lambda>rows.
          bindM (foldM (ca_sizes a) (rows, rng) (capacity_stage H c a save payloads)) (\<lambda>_.
          viewM (dbM (conn_close N)))))
        (bindM objM (\<lambda>(v, _). ifM (cv_original v) (viewM (dbM (conn_close N)))))))) (\<lambda>_.
    put_report (lit ''complete'') (RB True)))))))"

definition returncodes :: "'w hostops \<Rightarrow> ('w nrstate, unit) comp" where
  "returncodes H = bindM objM (\<lambda>r.
    bindM (mapM (\<lambda>(node, pid). bindM (askM (ho_poll H pid)) (\<lambda>s. retM (dec node, case s of None \<Rightarrow> RJ JNull | Some n \<Rightarrow> RI n))) (nr_processes r)) (\<lambda>codes.
    put_report (lit ''process_returncodes_before_cleanup'') (RD codes)))"

definition capacity_work :: "'w hostops \<Rightarrow> script_args \<Rightarrow> capacity_args \<Rightarrow> pstr \<Rightarrow> ('w nrstate, unit) comp" where
  "capacity_work H s a home = (let save = save_report H (sa_output s) in
    bindM (check_filesystem H home) (\<lambda>_.
    bindM (askM (ho_free H home)) (\<lambda>free.
    bindM (put_report (lit ''initial_free_bytes'') (RI free)) (\<lambda>_.
    bindM ((if ca_resume a \<noteq> None
      then bindM (inventory H home) (\<lambda>fs. retM (sum_list (map (\<lambda>(_, _, allocated). int allocated) fs))) else retM 0)) (\<lambda>existing.
    bindM (put_report (lit ''initial_allocated_bytes'') (RI existing)) (\<lambda>_.
    bindM (assertM (int (fold max (ca_sizes a) 0 * 12 + 20 * GIB) < free + existing) ''Insufficient staging reserve'') (\<lambda>_.
    bindM (resolveM H (sa_binary s)) (\<lambda>binary.
    bindM ((if ca_resume a \<noteq> None then retained_cluster H home binary
      else net_cluster H home binary (sa_openssl s) 5 (lit ''auto''))) (\<lambda>c.
    finallyM (capacity_campaign H c a save)
      (bindM objM (\<lambda>r.
        bindM (put_report (lit ''peak_rss'') (RD (map (\<lambda>node. (dec node, RI (peak_rss (nr_report r) node))) all_nodes))) (\<lambda>_.
        bindM (returncodes H) (\<lambda>_.
        bindM (net_close H) (\<lambda>_.
        log_tails H home (lit ''*.log'') (tail_of 12000)))))))))))))))"

text \<open>\<open>args.gib == sorted(set(args.gib))\<close>: strictly ascending.\<close>

definition capacity_sizes :: "nat list \<Rightarrow> nat option \<Rightarrow> nat list res" where
  "capacity_sizes gib fixture_mib =
    (if \<not> sorted_wrt (<) gib then Inl (AssertionError ''sizes'')
     else if \<not> list_all (\<lambda>n. 1 \<le> n \<and> n \<le> 100) gib then Inl (AssertionError ''sizes'')
     else (case fixture_mib of
        None \<Rightarrow> Inr (map (\<lambda>n. n * GIB) gib)
      | Some m \<Rightarrow> if 2 \<le> m \<and> m \<le> 64 then Inr [m * 1024 ^ 2] else Inl (AssertionError ''fixture''))) "

definition resume_report :: "'w hostops \<Rightarrow> pstr \<Rightarrow> int \<Rightarrow> bool \<Rightarrow> ('w nrstate, pstr) comp" where
  "resume_report H path seed fixture_only = bindM (worldM (ho_read H path)) (\<lambda>contents.
    bindM (liftR (ho_loads H contents)) (\<lambda>previous.
    bindM (liftR (field previous ''complete'')) (\<lambda>finished.
    bindM (assertM (\<not> json_truth finished) ''complete'') (\<lambda>_.
    bindM (liftR (field previous ''failed_data_retained'')) (\<lambda>retained.
    bindM (assertM (json_truth retained) ''failed_data_retained'') (\<lambda>_.
    bindM (liftR (field previous ''seed'')) (\<lambda>s.
    bindM (liftR (field previous ''fixture_only'')) (\<lambda>f.
    bindM (assertM (num_eq s seed \<and> f = JBool fixture_only) ''seed'') (\<lambda>_.
    bindM (liftR (str_field previous ''work_directory'')) (\<lambda>resume.
    bindM (askM (ho_resolve H resume)) (\<lambda>resolved.
    bindM (askM (ho_exists H resume)) (\<lambda>exists.
    bindM (assertM (take 1 resume = (lit ''/'') \<and> resolved = resume \<and> exists) ''work_directory'') (\<lambda>_.
    bindM (resolveM H path) (\<lambda>full.
    bindM (worldM (ho_sha256 H path)) (\<lambda>own.
    bindM (liftR (field previous ''binary_sha256'')) (\<lambda>binary.
    bindM (put_report (lit ''resume'') (RD [((lit ''report''), RS full), ((lit ''report_sha256''), RS own), ((lit ''previous_binary_sha256''), RJ binary),
      ((lit ''note''), RS (lit ''Explicit recovery continuation; previous failure remains, retained files are reopened in place''))])) (\<lambda>_.
    retM resume)))))))))))))))))"

definition capacity_main :: "'w hostops \<Rightarrow> script_args \<Rightarrow> nat list \<Rightarrow> nat option \<Rightarrow> pstr option \<Rightarrow> bool \<Rightarrow> pstr \<Rightarrow> nat \<Rightarrow> ('w nrstate, unit) comp" where
  "capacity_main H s gib fixture_mib resume_path interrupt harness passes = bindM (askM (ho_exists H (sa_output s))) (\<lambda>exists.
    bindM (assertM (\<not> exists) ''output'') (\<lambda>_.
    bindM (liftR (capacity_sizes gib fixture_mib)) (\<lambda>sizes.
    bindM (assertM (\<not> interrupt \<or> fixture_mib \<noteq> None) ''interrupt'') (\<lambda>_.
    let base = path_join (sa_home s) (lit ''build/capacity-work'') in
    bindM (worldM (ho_mkdir H base)) (\<lambda>_.
    bindM (worldM (ho_sha256 H (sa_binary s))) (\<lambda>digest.
    bindM (worldM (ho_sha256 H harness)) (\<lambda>own.
    bindM (updM (\<lambda>_. run_empty [((lit ''complete''), RB False), ((lit ''stages''), RL []), ((lit ''seed''), RI 20260925),
      ((lit ''binary_sha256''), RS digest), ((lit ''harness_sha256''), RS own),
      ((lit ''scope''), RS (lit ''4 KiB printable random payloads cast to BLOB; public SQL; allocated bytes recorded separately'')),
      ((lit ''fixture_only''), RB (fixture_mib \<noteq> None)),
      ((lit ''verification''), RD [((lit ''kind''), RS (lit ''complete primary-key range counts plus payload samples'')), ((lit ''rows_per_query''), RI (int VERIFY_RANGE_ROWS))]),
      ((lit ''samples''), RL [])])) (\<lambda>_.
    bindM (make_parent H (sa_output s)) (\<lambda>_.
    bindM ((case resume_path of None \<Rightarrow> retM None
      | Some p \<Rightarrow> bindM (resume_report H p 20260925 (fixture_mib \<noteq> None)) (\<lambda>d. retM (Some d)))) (\<lambda>resume.
    let a = \<lparr>ca_sizes = sizes, ca_resume = resume, ca_interrupt = interrupt, ca_seed = 20260925, ca_passes = passes\<rparr> in
    reportedM H (retained_workspace H base resume (capacity_work H s a)) (save_report H (sa_output s))))))))))))"

end
