(* ===== verification/Recovery_Checks.thy ===== *)
theory Recovery_Checks
  imports Network_Checks
begin

text \<open>
  Snapshots, compaction, restored namespaces and retired sessions: \<open>tools/check_snapshot_service.py\<close>,
  \<open>tools/check_live_compaction.py\<close>, \<open>tools/check_restore_service.py\<close>, \<open>tools/check_session_retirement.py\<close> and \<open>wait_caught_up\<close> of
  \<open>tools/check_snapshot_catchup.py\<close>. A \<open>RecoveryCluster\<close> is a cluster whose namespace the script changes.
\<close>

section \<open>Waiting for snapshots\<close>

definition int_default :: "dict \<Rightarrow> string \<Rightarrow> int res" where
  "int_default d k = (case dget d k of None \<Rightarrow> Inr 0 | Some (JInt i) \<Rightarrow> Inr i | Some _ \<Rightarrow> Inl (TypeError ''not supported between these instances''))"

definition sealed_pass :: "'w hostops \<Rightarrow> NetCluster \<Rightarrow> int \<Rightarrow> nat list \<Rightarrow> ((nat \<times> dict) list \<times> 'x \<times> 'w, unit option) comp" where
  "sealed_pass H c target nodes = bindM (forM nodes (\<lambda>node. bindM (innerM (net_with H c [node] 5 None (dbM (status (ho_net H))))) (\<lambda>state.
      bindM (updM (AList.update node state)) (\<lambda>_.
      assertM (case dget state ''snapshot_error'' of None \<Rightarrow> True | Some e \<Rightarrow> \<not> json_truth e) ''states'')))) (\<lambda>_.
    bindM objM (\<lambda>states.
    bindM (liftR (allR (\<lambda>(_, s). bindR (int_default s ''snapshot_sealed'') (\<lambda>n. Inr (target \<le> n))) states)) (\<lambda>finished.
    (if finished then retM (Some ()) else bindM (innerM (effectM (sleep (ho_net H) (2 / 100)))) (\<lambda>_. retM None)))))"

definition wait_sealed :: "'w hostops \<Rightarrow> NetCluster \<Rightarrow> int \<Rightarrow> nat list \<Rightarrow> ('x \<times> 'w, (nat \<times> dict) list) comp" where
  "wait_sealed H c target nodes = bindM (clockM (ho_net H)) (\<lambda>start.
    localM [] (bindM (whileM (bindM (innerM (clockM (ho_net H))) (\<lambda>now. retM (now < start + 60))) (sealed_pass H c target nodes)) (\<lambda>r.
      bindM objM (\<lambda>states.
      (case r of Some _ \<Rightarrow> retM states | None \<Rightarrow> raiseM (TimeoutError ''No certified snapshot for {target}: {states}''))))))"

definition caught_up_pass :: "'w hostops \<Rightarrow> NetCluster \<Rightarrow> int \<Rightarrow> int \<Rightarrow> rat \<Rightarrow> ('x \<times> 'w, unit option) comp" where
  "caught_up_pass H c target frontier deadline = (let N = ho_net H in
    bindM (tryM (net_with H c [3] 2 None (bindM (dbM (status N)) (\<lambda>state.
        bindM (liftR (int_field (JObj state) ''generation_prefix'')) (\<lambda>g.
        bindM ((if target \<le> g then liftR (int_field (JObj state) ''applied'') else retM 0)) (\<lambda>a.
        (if target \<le> g \<and> frontier \<le> a then bindM (clockM N) (\<lambda>now.
           bindM (net_with H c [3] (min 10 (deadline - now)) None (assert_scalar N (lit ''SELECT 1'') [] 1)) (\<lambda>_.
           retM (Some ())))
         else retM None))))))
      (\<lambda>e. bindM (clockM N) (\<lambda>now.
        if deadline \<le> now then raiseM e else retM None))) (\<lambda>r.
    (case r of Some _ \<Rightarrow> retM r | None \<Rightarrow> bindM (effectM (sleep N (1 / 10))) (\<lambda>_. retM None))))"

definition wait_caught_up :: "'w hostops \<Rightarrow> NetCluster \<Rightarrow> int \<Rightarrow> int \<Rightarrow> rat \<Rightarrow> ('x \<times> 'w, unit) comp" where
  "wait_caught_up H c target frontier deadline = bindM (whileM (bindM (clockM (ho_net H)) (\<lambda>now. retM (now < deadline))) (caught_up_pass H c target frontier deadline)) (\<lambda>r.
    (case r of Some _ \<Rightarrow> retM ()
     | None \<Rightarrow> raiseM (TimeoutError ''Voter 3 did not recover certified prefix {target} and frontier {frontier}'')))"

section \<open>Snapshot service\<close>

definition states_entry :: "(nat \<times> dict) list \<Rightarrow> rv" where
  "states_entry ss = RD (map (\<lambda>(n, d). (dec n, RJ (JObj d))) ss)"

definition snapshot_body :: "'w hostops \<Rightarrow> nat \<Rightarrow> NetCluster \<Rightarrow> ('w nrstate, unit) comp" where
  "snapshot_body H operations c = (let N = ho_net H in
    bindM (start_all H c True) (\<lambda>_.
    bindM (ready_all H c) (\<lambda>_.
    bindM (net_with H c all_nodes 10 None (bindM (run_sql N (lit ''CREATE TABLE items(id INTEGER PRIMARY KEY, value TEXT)'') []) (\<lambda>_.
      bindM (run_sql N (lit ''INSERT INTO items VALUES(1,'' @ [39] @ lit ''before'' @ [39] @ lit '')'') []) (\<lambda>_.
      dbM (request_snapshot N))))) (\<lambda>target.
    bindM (forM [0..<operations] (\<lambda>i. net_with H c [i mod 3 + 1] 10 None (bindM (run_sql N (lit ''INSERT INTO items VALUES(?,?)'') [VInt (int i + 2), VStr (lit ''after-'' @ dec i)]) (\<lambda>_.
      retM ())))) (\<lambda>_.
    bindM (wait_sealed H c target all_nodes) (\<lambda>first.
    bindM (put_report (lit ''first'') (states_entry first)) (\<lambda>_.
    bindM (record_check ''quorum_snapshot_certified_while_all_voters_continue_writes'') (\<lambda>_.
    bindM (forM all_nodes (net_stop H)) (\<lambda>_.
    bindM (start_all H c False) (\<lambda>_.
    bindM (forM all_nodes (\<lambda>node. bindM (node_ready H c node 60) (\<lambda>_.
      net_with H c [node] 10 None (bindM (dbM (status_field N ''snapshot_sealed'')) (\<lambda>sealed.
        bindM (assertM (target \<le> sealed) ''snapshot_sealed'') (\<lambda>_.
        assert_scalar N (lit ''SELECT count(*) FROM items'') [] (int operations + 1))))))) (\<lambda>_.
    bindM (record_check ''chosen_certificate_and_all_acknowledged_writes_survive_full_restart'') (\<lambda>_.
    bindM (net_stop H 3) (\<lambda>_.
    bindM (net_with H c [1, 2] 10 None (bindM (dbM (request_snapshot N)) (\<lambda>slot.
      bindM (run_sql N (lit ''UPDATE items SET value='' @ [39] @ lit ''survives'' @ [39] @ lit '' WHERE id=1'') []) (\<lambda>_.
      retM slot)))) (\<lambda>second.
    bindM (wait_sealed H c second [1, 2]) (\<lambda>later.
    bindM (put_report (lit ''second'') (states_entry later)) (\<lambda>_.
    bindM (record_check ''two_survivors_capture_and_certify_without_third_voter'') (\<lambda>_.
    bindM (net_start H c 3 False) (\<lambda>_.
    bindM (node_ready H c 3 60) (\<lambda>_.
    bindM (net_with H c [3] 10 None (bindM (scalar_sql N (lit ''SELECT value FROM items WHERE id=1'') []) (\<lambda>v.
      assertM (v = CJson (JStr (lit ''survives''))) ''value''))) (\<lambda>_.
    bindM (record_check ''returning_voter_catches_up_after_certificate'') (\<lambda>_.
    complete_report)))))))))))))))))))))"

definition snapshot_main :: "'w hostops \<Rightarrow> script_args \<Rightarrow> nat \<Rightarrow> ('w nrstate, unit) comp" where
  "snapshot_main H s operations = bindM (askM (ho_exists H (sa_output s))) (\<lambda>exists.
    bindM (whenM (operations < 3 \<or> exists) (SystemExit ''Use at least three operations and a new evidence path'')) (\<lambda>_.
    bindM (worldM (ho_sha256 H (sa_binary s))) (\<lambda>digest.
    bindM (updM (\<lambda>_. run_empty [((lit ''complete''), RB False), ((lit ''passed''), RB False), ((lit ''checks''), RL []), ((lit ''binary_sha256''), RS digest),
      ((lit ''scope''), RS (lit ''format-5 online capture, authenticated quorum receipts and chosen certificate; no trim''))])) (\<lambda>_.
    bindM (make_parent H (sa_output s)) (\<lambda>_.
    campaignM H (sa_home s) (lit ''build/snapshot-work'') (resolveM H (sa_binary s)) (sa_openssl s) (lit ''manual'') 8000
      (snapshot_body H operations) (save_report H (sa_output s)))))))"

section \<open>Live compaction\<close>

text \<open>The catalog of a voter's directory: the active generation, its predecessor and their images exist.\<close>

definition one_row :: "cell list list \<Rightarrow> cell list res" where
  "one_row rows = (case rows of [] \<Rightarrow> Inl (TypeError ''cannot unpack non-iterable NoneType object'') | r # _ \<Rightarrow> Inr r)"

definition cell_text :: "cell \<Rightarrow> pstr res" where
  "cell_text c = (case c of CJson (JStr s) \<Rightarrow> Inr s | _ \<Rightarrow> Inl (TypeError ''unsupported operand type''))"

definition text_at :: "cell list list \<Rightarrow> nat \<Rightarrow> pstr res" where
  "text_at rows i = bindR (one_row rows) (\<lambda>r. bindR (nth_res r i) cell_text)"

definition image_pair :: "cell list \<Rightarrow> (pstr \<times> pstr) res" where
  "image_pair r = bindR (bindR (nth_res r 0) cell_text) (\<lambda>n. bindR (bindR (nth_res r 1) cell_text) (\<lambda>d. Inr (n, path_join d n)))"

definition image_file :: "'w hostops \<Rightarrow> (pstr \<times> pstr) list \<Rightarrow> pstr \<Rightarrow> ('x \<times> 'w, unit) comp" where
  "image_file H owned img = (case map_of owned img of None \<Rightarrow> raiseM KeyError
     | Some p \<Rightarrow> bindM (askM (ho_exists H p)) (\<lambda>b. assertM b ''image''))"

definition retained_generation_files :: "'w hostops \<Rightarrow> pstr \<Rightarrow> ('x \<times> 'w, nat \<times> nat \<times> bool) comp" where
  "retained_generation_files H home = (let catalog = path_join home (lit ''consensus.db'') in
    bindM (worldM (ho_sqlite H catalog (lit ''SELECT name FROM _sqlodin_current_generation''))) (\<lambda>cur.
    bindM (liftR (text_at cur 0)) (\<lambda>current.
    bindM (worldM (ho_sqlite H (path_join (path_join home current) (lit ''consensus.db'')) (lit ''SELECT previous,name FROM _sqlodin_generation_base''))) (\<lambda>base.
    bindM (liftR (text_at base 0)) (\<lambda>previous.
    bindM (liftR (text_at base 1)) (\<lambda>img.
    bindM (askM (ho_exists H (path_join (path_join home previous) (lit ''node.db'')))) (\<lambda>kept.
    bindM (assertM (previous \<noteq> [] \<and> kept) ''current, previous'') (\<lambda>_.
    bindM (worldM (ho_sqlite H (path_join (path_join home previous) (lit ''consensus.db'')) (lit ''SELECT name FROM _sqlodin_generation_base''))) (\<lambda>prior.
    bindM (liftR (text_at prior 0)) (\<lambda>prior_image.
    bindM (worldM (ho_sqlite H catalog (lit ''SELECT name,directory FROM _sqlodin_image_inventory''))) (\<lambda>images.
    bindM (liftR (mapR image_pair images)) (\<lambda>owned.
    bindM (image_file H owned img) (\<lambda>_.
    bindM (image_file H owned prior_image) (\<lambda>_.
    bindM (askM (ho_glob H home (lit ''generation-*''))) (\<lambda>generations.
    bindM (askM (ho_exists H (path_join home (lit ''node.db'')))) (\<lambda>old.
    retM (length generations, length images, \<not> old)))))))))))))))))"

definition visit :: "'w netops \<Rightarrow> ((Connection \<times> 'x) \<times> 'w, WriteResult) comp" where
  "visit N = run_sql N (lit ''UPDATE items SET visits=visits+1 WHERE id=1'') []"

text \<open>One pass of a publication wait: what is published so far and the number of writes.\<close>

definition publish_node :: "'w hostops \<Rightarrow> NetCluster \<Rightarrow> int \<Rightarrow> nat \<Rightarrow> ((nat set \<times> nat) \<times> 'w nrstate, unit) comp" where
  "publish_node H c target node = (let N = ho_net H in
    bindM (innerM (net_with H c [node] 5 None (bindM (dbM (status N)) (\<lambda>state.
      bindM (liftR (field (JObj state) ''snapshot_error'')) (\<lambda>e.
      bindM (assertM (\<not> json_truth e) ''state'') (\<lambda>_.
      bindM (liftR (int_field (JObj state) ''generation_prefix'')) (\<lambda>g.
      bindM (visit N) (\<lambda>_.
      retM (target \<le> g))))))))) (\<lambda>seen.
    updM (\<lambda>(published, writes). (if seen then insert node published else published, writes + 1))))"

definition publish_pass :: "'w hostops \<Rightarrow> NetCluster \<Rightarrow> int \<Rightarrow> ((nat set \<times> nat) \<times> 'w nrstate, unit option) comp" where
  "publish_pass H c target = bindM (forM [1, 2] (publish_node H c target)) (\<lambda>_.
    bindM objM (\<lambda>(published, _).
    (if card published = 2 then retM (Some ()) else bindM (innerM (effectM (sleep (ho_net H) (1 / 10)))) (\<lambda>_. retM None))))"

definition compaction_cycle :: "'w hostops \<Rightarrow> NetCluster \<Rightarrow> nat \<Rightarrow> bool \<Rightarrow> nat \<Rightarrow> nat \<Rightarrow> ('w nrstate, nat) comp" where
  "compaction_cycle H c operations scheduled cycle writes = (let N = ho_net H in
    bindM (net_with H c [1, 2] 10 None (bindM (dbM (status_field N ''generation_prefix'')) (\<lambda>old.
      bindM (forM [0..<operations] (\<lambda>_. bindM (visit N) (\<lambda>_. retM ()))) (\<lambda>_.
      (if scheduled then retM (old + 1) else dbM (request_snapshot N)))))) (\<lambda>target.
    bindM (clockM N) (\<lambda>start.
    bindM (localM ({}, writes + operations) (bindM (whileM (bindM (innerM (clockM N)) (\<lambda>now. retM (now < start + 60))) (publish_pass H c target)) (\<lambda>_.
      bindM objM (\<lambda>(published, n).
      bindM (assertM (card published = 2) ''published'') (\<lambda>_.
      retM n))))) (\<lambda>writes'.
    bindM (append_entry (lit ''checks'') (RD [((lit ''name''), RS (lit ''cycle_'' @ dec cycle @ lit ''_both_live_voters_publish_while_accepting_writes'')), ((lit ''passed''), RB True)])) (\<lambda>_.
    retM writes')))))"

definition retired_files :: "nat \<times> nat \<times> bool \<Rightarrow> bool" where
  "retired_files r = (case r of (dirs, images, gone) \<Rightarrow> dirs = 2 \<and> images \<le> 3 \<and> gone)"

definition retire_pass :: "'w hostops \<Rightarrow> NetCluster \<Rightarrow> ((nat \<times> nat \<times> bool) list option \<times> 'w nrstate, unit option) comp" where
  "retire_pass H c = bindM (innerM (mapM (\<lambda>node. retained_generation_files H (path_join (nc_root c) (lit ''data'' @ dec node))) [1, 2])) (\<lambda>counts.
    bindM (updM (\<lambda>_. Some counts)) (\<lambda>_.
    (if list_all retired_files counts then retM (Some ()) else bindM (innerM (effectM (sleep (ho_net H) (1 / 10)))) (\<lambda>_. retM None))))"

definition wait_retired :: "'w hostops \<Rightarrow> NetCluster \<Rightarrow> ('w nrstate, unit) comp" where
  "wait_retired H c = (let N = ho_net H in
    bindM (clockM N) (\<lambda>start.
    bindM (localM None (bindM (whileM (bindM (innerM (clockM N)) (\<lambda>now. retM (now < start + 30))) (retire_pass H c)) (\<lambda>_.
      bindM objM (\<lambda>seen.
      bindM ((case seen of None \<Rightarrow> raiseM NameError | Some counts \<Rightarrow> retM counts)) (\<lambda>counts.
      assertM (list_all retired_files counts) ''counts''))))) (\<lambda>_.
    record_check ''superseded_generations_and_images_retire_with_active_and_exact_predecessor_preserved'')))"

definition compaction_body :: "'w hostops \<Rightarrow> nat \<Rightarrow> nat \<Rightarrow> bool \<Rightarrow> NetCluster \<Rightarrow> ('w nrstate, unit) comp" where
  "compaction_body H operations cycles scheduled c = (let N = ho_net H in
    bindM (start_all H c True) (\<lambda>_.
    bindM (ready_all H c) (\<lambda>_.
    bindM (net_with H c all_nodes 10 None (bindM (run_sql N (lit ''CREATE TABLE items(id INTEGER PRIMARY KEY, visits INTEGER)'') []) (\<lambda>_.
      run_sql N (lit ''INSERT INTO items VALUES(1,0)'') []))) (\<lambda>_.
    bindM (net_with H c [3] 10 None (assert_scalar N (lit ''SELECT visits FROM items'') [] 0)) (\<lambda>_.
    bindM (net_stop H 3) (\<lambda>_.
    bindM (foldM [0..<cycles] 0 (compaction_cycle H c operations scheduled)) (\<lambda>writes.
    bindM (ifM (3 \<le> cycles) (wait_retired H c)) (\<lambda>_.
    bindM (net_with H c [1] 10 None (bindM (dbM (status_field N ''generation_prefix'')) (\<lambda>g.
      bindM (dbM (status_field N ''applied'')) (\<lambda>f.
      retM (g, f))))) (\<lambda>(target, frontier).
    bindM (net_start H c 3 False) (\<lambda>_.
    bindM (clockM N) (\<lambda>now.
    bindM (wait_caught_up H c target frontier (now + 90)) (\<lambda>_.
    bindM (net_with H c [3] 10 None (bindM (assert_scalar N (lit ''SELECT visits FROM items'') [] (int writes)) (\<lambda>_.
      visit N))) (\<lambda>_.
    bindM (record_check ''offline_voter_installs_online_generation_and_accepts_write'') (\<lambda>_.
    bindM (forM all_nodes (net_stop H)) (\<lambda>_.
    bindM (start_all H c False) (\<lambda>_.
    bindM (forM all_nodes (\<lambda>node. bindM (node_ready H c node 60) (\<lambda>_.
      net_with H c [node] 10 None (assert_scalar N (lit ''SELECT visits FROM items'') [] (int writes + 1))))) (\<lambda>_.
    bindM (record_check ''all_acknowledged_writes_survive_full_restart'') (\<lambda>_.
    bindM complete_report (\<lambda>_.
    put_report (lit ''writes'') (RI (int writes + 1)))))))))))))))))))))"

definition compaction_main :: "'w hostops \<Rightarrow> script_args \<Rightarrow> nat \<Rightarrow> nat \<Rightarrow> bool \<Rightarrow> ('w nrstate, unit) comp" where
  "compaction_main H s operations cycles scheduled = bindM (askM (ho_exists H (sa_output s))) (\<lambda>exists.
    bindM (whenM (exists \<or> operations < 3 \<or> \<not> (2 \<le> cycles \<and> cycles \<le> 8)) (SystemExit ''Use a new output path and at least three operations'')) (\<lambda>_.
    bindM (worldM (ho_sha256 H (sa_binary s))) (\<lambda>digest.
    bindM (updM (\<lambda>_. run_empty [((lit ''complete''), RB False), ((lit ''passed''), RB False), ((lit ''checks''), RL []), ((lit ''scheduled''), RB scheduled),
      ((lit ''binary_sha256''), RS digest), ((lit ''operations''), RI (int operations)), ((lit ''cycles''), RI (int cycles))])) (\<lambda>_.
    bindM (make_parent H (sa_output s)) (\<lambda>_.
    campaignM H (sa_home s) (lit ''build/live-compaction-work'') (resolveM H (sa_binary s)) (sa_openssl s) (lit ''auto'') 12000
      (compaction_body H operations cycles scheduled) (save_report H (sa_output s)))))))"

section \<open>Commands and configurations\<close>

definition commandM :: "'w hostops \<Rightarrow> NetCluster \<Rightarrow> pstr list \<Rightarrow> bool \<Rightarrow> ('x \<times> 'w, pstr \<times> pstr) comp" where
  "commandM H c argv success = bindM (worldM (ho_run H (nc_binary c # argv))) (\<lambda>(code, out, err).
    bindM (assertM ((code = 0) = success) ''argv, result.stdout, result.stderr'') (\<lambda>_.
    retM (out, err)))"

definition config_file :: "NetCluster \<Rightarrow> nat \<Rightarrow> pstr" where
  "config_file c node = node_file c node ''.json''"

text \<open>\<open>config.update(cluster=..., data=...)\<close> on the text of a configuration.\<close>

definition update_config :: "'w hostops \<Rightarrow> pstr \<Rightarrow> pstr \<Rightarrow> pstr \<Rightarrow> dict res" where
  "update_config H contents namespace data_dir = bindR (ho_loads H contents) (\<lambda>j. case j of
      JObj d \<Rightarrow> Inr (dset (dset d (lit ''cluster'') (JStr namespace)) (lit ''data'') (JStr data_dir))
    | _ \<Rightarrow> Inl AttributeError)"

definition dump_config :: "'w hostops \<Rightarrow> dict \<Rightarrow> pstr" where
  "dump_config H d = ho_dumps H (map (\<lambda>(k, v). (k, RJ v)) d)"

definition update_sql :: "'w netops \<Rightarrow> ((Connection \<times> 'x) \<times> 'w, WriteResult) comp" where
  "update_sql N = run_sql N (lit ''UPDATE items SET v=v+1'') []"

section \<open>Retired sessions\<close>

text \<open>\<open>PendingWrite('ca'*16, 1, ...)\<close>: a session of a repeated pair of digits.\<close>

definition items_pending :: "string \<Rightarrow> int \<Rightarrow> PendingWrite res" where
  "items_pending digits epoch = pending_write (JStr (concat (replicate 16 (lit digits)))) (JInt 1) (JStr (lit ''UPDATE items SET v=v+1'')) []
     (JInt 0) (JInt epoch)"

definition expired :: "'w hostops \<Rightarrow> NetCluster \<Rightarrow> PendingWrite \<Rightarrow> nat \<Rightarrow> ('x \<times> 'w, unit) comp" where
  "expired H c pending node = net_with H c [node] 10 (Some pending) (bindM (rejectedM (dbM (resolve_pending (ho_net H))) (\<lambda>e. case e of SessionError _ \<Rightarrow> True | _ \<Rightarrow> False) (has_code ''Expired'')
      ''Retired request was not fenced'') (\<lambda>_.
    bindM (dbM connM) (\<lambda>db.
    assertM (c_pending db = Some pending) ''pending'')))"

definition resolve_with :: "'w hostops \<Rightarrow> NetCluster \<Rightarrow> nat \<Rightarrow> PendingWrite \<Rightarrow> ('x \<times> 'w, WriteResult) comp" where
  "resolve_with H c node pending = net_with H c [node] 10 (Some pending) (dbM (resolve_pending (ho_net H)))"

definition retire_is :: "'w netops \<Rightarrow> int \<Rightarrow> int \<Rightarrow> ((Connection \<times> 'x) \<times> 'w, unit) comp" where
  "retire_is N expected result = bindM (dbM (retire_sessions N (JInt expected))) (\<lambda>e. assertM (e = result) ''retire_sessions'')"

definition retirement_epochs :: "'w hostops \<Rightarrow> NetCluster \<Rightarrow> ('w nrstate, PendingWrite \<times> PendingWrite) comp" where
  "retirement_epochs H c = (let N = ho_net H in
    bindM (net_with H c all_nodes 10 None (bindM (run_sql N (lit ''CREATE TABLE items(v INTEGER)'') []) (\<lambda>_.
      run_sql N (lit ''INSERT INTO items VALUES(0)'') []))) (\<lambda>_.
    bindM (liftR (items_pending ''ca'' 0)) (\<lambda>old.
    bindM (resolve_with H c 1 old) (\<lambda>_.
    bindM (net_stop H 3) (\<lambda>_.
    bindM (net_with H c [1] 10 None (bindM (retire_is N 0 1) (\<lambda>_.
      retire_is N 0 1))) (\<lambda>_.
    bindM (expired H c old 2) (\<lambda>_.
    bindM (liftR (items_pending ''ca'' 1)) (\<lambda>current.
    bindM (resolve_with H c 2 current) (\<lambda>_.
    bindM (net_with H c [1] 10 None (retire_is N 0 1)) (\<lambda>_.
    bindM (resolve_with H c 1 current) (\<lambda>_.
    bindM (net_with H c [2] 10 None (bindM (update_sql N) (\<lambda>_.
      bindM (assert_scalar N (lit ''SELECT v FROM items'') [] 3) (\<lambda>_.
      bindM (retire_is N 1 2) (\<lambda>_.
      rejectedM (dbM (retire_sessions N (JInt 0))) (\<lambda>e. case e of SerializationError _ \<Rightarrow> True | _ \<Rightarrow> False) (\<lambda>_. True)
        ''Stale retirement advanced the epoch''))))) (\<lambda>_.
    bindM (expired H c current 2) (\<lambda>_.
    bindM (record_check ''absent_voter_retirement_old_retry_fence_new_epoch_and_idempotent_control'') (\<lambda>_.
    retM (old, current)))))))))))))))"

definition preview_item :: "dict \<Rightarrow> json res" where
  "preview_item d = bindR (bindR (bindR (key_res d ''rows'') first_item) first_item) (\<lambda>cell. field cell ''integer'')"

definition retirement_compacted :: "'w hostops \<Rightarrow> NetCluster \<Rightarrow> PendingWrite \<Rightarrow> PendingWrite \<Rightarrow> ('w nrstate, unit) comp" where
  "retirement_compacted H c old current = (let N = ho_net H in
    bindM (net_start H c 3 False) (\<lambda>_.
    bindM (forM all_nodes (\<lambda>node. bindM (node_ready H c node 60) (\<lambda>_.
      net_with H c [node] 10 None (bindM (dbM (session_epoch N)) (\<lambda>epoch.
        bindM (assertM (epoch = 2) ''session_epoch'') (\<lambda>_.
        bindM (update_sql N) (\<lambda>_.
        retM ()))))))) (\<lambda>_.
    bindM (net_with H c [1] 10 None (dbM (request_snapshot N))) (\<lambda>target.
    bindM (wait_sealed H c target all_nodes) (\<lambda>_.
    bindM (forM all_nodes (net_stop H)) (\<lambda>_.
    bindM (forM all_nodes (\<lambda>node. bindM (commandM H c [(lit ''compact''), config_file c node] True) (\<lambda>_. retM ()))) (\<lambda>_.
    bindM (start_all H c False) (\<lambda>_.
    bindM (ready_all H c) (\<lambda>_.
    bindM (expired H c old 3) (\<lambda>_.
    bindM (expired H c current 3) (\<lambda>_.
    bindM (net_with H c [3] 10 None (bindM (run_sql N (lit ''UPDATE items SET v=v'') []) (\<lambda>_.
      bindM (dbM (begin_optimistic N)) (\<lambda>revision.
      bindM (dbM (preview N (lit ''UPDATE items SET v=v+1'') [] (JInt revision) (lit ''SELECT v FROM items'') [])) (\<lambda>d.
      bindM (liftR (preview_item d)) (\<lambda>n.
      bindM (assertM (num_eq n 7) ''preview'') (\<lambda>_.
      assert_scalar N (lit ''SELECT v FROM items'') [] 6))))))) (\<lambda>_.
    record_check ''epoch_fences_survive_compaction_and_preview_uses_active_generation''))))))))))))"

definition retirement_cli :: "'w hostops \<Rightarrow> NetCluster \<Rightarrow> ('w nrstate, PendingWrite) comp" where
  "retirement_cli H c = (let N = ho_net H in
    bindM (liftR (nth_res (nc_members c) 0)) (\<lambda>m.
    let config = path_join (nc_root c) (lit ''client.json'') in
    bindM (worldM (ho_write H config (ho_dumps H [((lit ''cluster''), RS (nc_namespace c)), ((lit ''address''), RS (mb_address m)), ((lit ''identity''), RS (mb_identity m)),
      ((lit ''ca''), RS (path_join (nc_root c) (lit ''ca.pem''))), ((lit ''certificate''), RS (path_join (nc_root c) (lit ''client.pem''))),
      ((lit ''key''), RS (path_join (nc_root c) (lit ''client.key'')))]))) (\<lambda>_.
    let state = path_join (nc_root c) (lit ''old-client.db'') in
    let sql = (lit ''UPDATE items SET v=v+1'') in
    bindM (commandM H c [(lit ''connect''), config, (lit ''--state''), state, (lit ''-c''), sql] True) (\<lambda>_.
    bindM (commandM H c [(lit ''connect''), config, (lit ''--state''), state, (lit ''-c''), (lit ''.retire-sessions 2 --quiesced'')] True) (\<lambda>(out, _).
    bindM (assertM (has_text (lit ''session epoch: 3'') out) ''stdout'') (\<lambda>_.
    bindM (commandM H c [(lit ''connect''), config, (lit ''--state''), state, (lit ''-c''), sql] False) (\<lambda>(_, err).
    bindM (assertM (has_text (lit ''SESSION RETIRED'') err \<and> has_text (lit ''Do not relabel'') err) ''stderr'') (\<lambda>_.
    bindM (commandM H c [(lit ''connect''), config, (lit ''--state''), path_join (nc_root c) (lit ''new-client.db''), (lit ''-c''), sql] True) (\<lambda>_.
    bindM (liftR (items_pending ''de'' 3)) (\<lambda>kept.
    bindM (net_with H c [1] 10 (Some kept) (bindM (dbM (resolve_pending N)) (\<lambda>_.
      assert_scalar N (lit ''SELECT v FROM items'') [] 9))) (\<lambda>_.
    bindM (record_check ''cli_retirement_durable_old_state_rejection_and_fresh_epoch_discovery'') (\<lambda>_.
    retM kept))))))))))))"

definition retirement_restored :: "'w hostops \<Rightarrow> NetCluster \<Rightarrow> PendingWrite \<Rightarrow> PendingWrite \<Rightarrow> PendingWrite \<Rightarrow> ('w nrstate, unit) comp" where
  "retirement_restored H c0 old current kept = (let N = ho_net H in
    bindM (net_stop H 1) (\<lambda>_.
    bindM (commandM H c0 [(lit ''backup''), config_file c0 1, path_join (nc_root c0) (lit ''backup'')] True) (\<lambda>_.
    bindM (net_stop H 2) (\<lambda>_.
    bindM (net_stop H 3) (\<lambda>_.
    let c = c0\<lparr>nc_namespace := (lit ''recovered-session-retirement'')\<rparr> in
    bindM (forM all_nodes (\<lambda>node. bindM (worldM (ho_read H (config_file c node))) (\<lambda>contents.
      bindM (liftR (update_config H contents (nc_namespace c) (path_join (nc_root c) (lit ''restored'' @ dec node)))) (\<lambda>d.
      bindM (worldM (ho_write H (config_file c node) (dump_config H d))) (\<lambda>_.
      bindM (commandM H c [(lit ''restore''), path_join (nc_root c) (lit ''backup''), config_file c node, (lit ''--new-cluster'')] True) (\<lambda>_.
      retM ())))))) (\<lambda>_.
    bindM (start_all H c False) (\<lambda>_.
    bindM (ready_all H c) (\<lambda>_.
    bindM (expired H c old 2) (\<lambda>_.
    bindM (expired H c current 2) (\<lambda>_.
    bindM (net_with H c [3] 10 (Some kept) (bindM (dbM (resolve_pending N)) (\<lambda>_.
      bindM (assert_scalar N (lit ''SELECT v FROM items'') [] 9) (\<lambda>_.
      bindM (dbM (session_epoch N)) (\<lambda>epoch.
      assertM (epoch = 3) ''session_epoch''))))) (\<lambda>_.
    record_check ''backup_restore_preserves_epoch_and_current_retry_without_reviving_old_epochs'')))))))))))"

definition retirement_body :: "'w hostops \<Rightarrow> NetCluster \<Rightarrow> ('w nrstate, unit) comp" where
  "retirement_body H c = bindM (start_all H c True) (\<lambda>_.
    bindM (ready_all H c) (\<lambda>_.
    bindM (retirement_epochs H c) (\<lambda>(old, current).
    bindM (retirement_compacted H c old current) (\<lambda>_.
    bindM (retirement_cli H c) (\<lambda>kept.
    bindM (retirement_restored H c old current kept) (\<lambda>_.
    complete_report))))))"

definition retirement_main :: "'w hostops \<Rightarrow> script_args \<Rightarrow> ('w nrstate, unit) comp" where
  "retirement_main H s = bindM (askM (ho_exists H (sa_output s))) (\<lambda>exists.
    bindM (whenM exists (SystemExit ''Use a new evidence path'')) (\<lambda>_.
    bindM (resolveM H (sa_binary s)) (\<lambda>binary.
    bindM (askM (ho_utcnow H)) (\<lambda>now.
    bindM (worldM (ho_sha256 H binary)) (\<lambda>digest.
    bindM (updM (\<lambda>_. run_empty [((lit ''complete''), RB False), ((lit ''passed''), RB False), ((lit ''checks''), RL []), ((lit ''run_at_utc''), RS now),
      ((lit ''binary_sha256''), RS digest)])) (\<lambda>_.
    bindM (make_parent H (sa_output s)) (\<lambda>_.
    campaignM H (sa_home s) (lit ''build/session-retirement-work'') (retM binary) (sa_openssl s) (lit ''manual'') 12000
      (retirement_body H) (bindM (put_sources H (sa_home s)) (\<lambda>_. save_report H (sa_output s))))))))))"

end
