(* ===== verification/Restore_Checks.thy ===== *)
theory Restore_Checks
  imports Recovery_Checks
begin

text \<open>
  Offline backups and restored namespaces: \<open>tools/check_backup_service.py\<close> and
  \<open>tools/check_restore_service.py\<close>. The service's commands are programs the scripts run.
\<close>

section \<open>Backups\<close>

definition backup_command :: "'w hostops \<Rightarrow> NetCluster \<Rightarrow> pstr list \<Rightarrow> ('x \<times> 'w, int \<times> pstr \<times> pstr) comp" where
  "backup_command H c argv = worldM (ho_run H (nc_binary c # argv))"

text \<open>\<open>image.execute(sql).fetchone() == (n,)\<close> on a database file.\<close>

definition row_is :: "'w hostops \<Rightarrow> pstr \<Rightarrow> pstr \<Rightarrow> int \<Rightarrow> ('x \<times> 'w, unit) comp" where
  "row_is H path sql n = bindM (worldM (ho_sqlite H path sql)) (\<lambda>rows.
    assertM (case rows of [] \<Rightarrow> False | r # _ \<Rightarrow> (case r of [v] \<Rightarrow> cell_is v n | _ \<Rightarrow> False)) ''fetchone'')"

definition cell_positive :: "cell \<Rightarrow> bool res" where
  "cell_positive v = (case v of CJson (JInt i) \<Rightarrow> Inr (0 < i) | _ \<Rightarrow> Inl (TypeError ''not supported between these instances''))"

definition row_positive :: "'w hostops \<Rightarrow> pstr \<Rightarrow> pstr \<Rightarrow> ('x \<times> 'w, unit) comp" where
  "row_positive H path sql = bindM (worldM (ho_sqlite H path sql)) (\<lambda>rows.
    bindM (liftR (bindR (bindR (one_row rows) (\<lambda>r. nth_res r 0)) cell_positive)) (\<lambda>b.
    assertM b ''fetchone''))"

text \<open>\<open>seek(-1, 2); byte = read(1); seek(-1, 2); write(bytes([byte[0] ^ 1]))\<close>\<close>

definition flip_last :: "pbytes \<Rightarrow> pbytes res" where
  "flip_last bs = (if bs = [] then Inl (OSError ''Invalid argument'') else Inr (butlast bs @ [xor (last bs) 1]))"

definition backup_refused :: "'w hostops \<Rightarrow> NetCluster \<Rightarrow> pstr \<Rightarrow> ('w nrstate, unit) comp" where
  "backup_refused H c backup = (let N = ho_net H in
    bindM (net_with H c [1] 10 None (bindM (run_sql N (lit ''CREATE TABLE items(id INTEGER PRIMARY KEY,value TEXT)'') []) (\<lambda>_.
      bindM (run_sql N (lit ''INSERT INTO items VALUES(1,'' @ [39] @ lit ''before backup'' @ [39] @ lit '')'') []) (\<lambda>_.
      bindM (run_sql N (lit ''CREATE VIRTUAL TABLE search USING fts5(body)'') []) (\<lambda>_.
      bindM (run_sql N (lit ''INSERT INTO search VALUES('' @ [39] @ lit ''durable text'' @ [39] @ lit '')'') []) (\<lambda>_.
      assert_scalar N (lit ''SELECT count(*) FROM items'') [] 1)))))) (\<lambda>_.
    bindM (backup_command H c [(lit ''backup''), config_file c 1, backup]) (\<lambda>(code, _, err).
    bindM (assertM (code = 1 \<and> has_text (lit ''Locked'') err) ''rejected'') (\<lambda>_.
    bindM (askM (ho_exists H backup)) (\<lambda>exists.
    bindM (assertM (\<not> exists) ''backup'') (\<lambda>_.
    record_check ''backup_refuses_active_voter_without_creating_destination''))))))"

definition backup_verified :: "'w hostops \<Rightarrow> NetCluster \<Rightarrow> pstr \<Rightarrow> ('w nrstate, pstr) comp" where
  "backup_verified H c backup = bindM (net_stop H 1) (\<lambda>_.
    bindM (backup_command H c [(lit ''backup''), config_file c 1, backup]) (\<lambda>(code, out, _).
    bindM (assertM (code = 0) ''stderr'') (\<lambda>_.
    bindM (put_report (lit ''backup_output'') (RS out)) (\<lambda>_.
    bindM (worldM (ho_sha256 H (path_join backup (lit ''application.db'')))) (\<lambda>before.
    bindM (backup_command H c [(lit ''verify-backup''), backup]) (\<lambda>(verified, _, _).
    bindM (assertM (verified = 0) ''stderr'') (\<lambda>_.
    bindM (worldM (ho_sha256 H (path_join backup (lit ''application.db'')))) (\<lambda>after.
    bindM (assertM (before = after) ''sha256'') (\<lambda>_.
    bindM (backup_command H c [(lit ''backup''), config_file c 1, backup]) (\<lambda>(again, _, _).
    bindM (assertM (again = 1) ''returncode'') (\<lambda>_.
    bindM (record_check ''public_backup_verifies_without_rewriting_image_and_refuses_existing_destination'') (\<lambda>_.
    retM before))))))))))))"

definition backup_cut :: "'w hostops \<Rightarrow> NetCluster \<Rightarrow> pstr \<Rightarrow> ('w nrstate, unit) comp" where
  "backup_cut H c backup = (let N = ho_net H in
    bindM (net_with H c [2, 3] 10 None (bindM (run_sql N (lit ''INSERT INTO items VALUES(2,'' @ [39] @ lit ''after backup'' @ [39] @ lit '')'') []) (\<lambda>_.
      assert_scalar N (lit ''SELECT count(*) FROM items'') [] 2))) (\<lambda>_.
    let picture = path_join backup (lit ''application.db'') in
    bindM (row_is H picture (lit ''SELECT count(*) FROM items'') 1) (\<lambda>_.
    bindM (row_is H picture (lit ''SELECT count(*) FROM search WHERE search MATCH '' @ [39] @ lit ''durable'' @ [39]) 1) (\<lambda>_.
    bindM (row_positive H picture (lit ''SELECT count(*) FROM _sqlodin_sessions'')) (\<lambda>_.
    bindM (row_is H picture (lit ''SELECT count(*) FROM sqlite_schema WHERE name='' @ [39] @ lit ''_sqlodin_journal'' @ [39]) 0) (\<lambda>_.
    bindM (record_check ''backup_cut_preserves_data_fts_and_retry_state_without_acceptor_tables'') (\<lambda>_.
    bindM (net_start H c 1 False) (\<lambda>_.
    bindM (node_ready H c 1 60) (\<lambda>_.
    bindM (net_with H c [1] 10 None (assert_scalar N (lit ''SELECT count(*) FROM items'') [] 2)) (\<lambda>_.
    record_check ''source_rejoins_and_recovers_writes_accepted_by_surviving_quorum''))))))))))"

definition backup_corrupt :: "'w hostops \<Rightarrow> NetCluster \<Rightarrow> pstr \<Rightarrow> ('w nrstate, unit) comp" where
  "backup_corrupt H c backup = (let corrupt = path_join (nc_root c) (lit ''corrupt'') in
    bindM (worldM (ho_copytree H backup corrupt)) (\<lambda>_.
    let path = path_join corrupt (lit ''application.db'') in
    bindM (worldM (ho_read_bytes H path)) (\<lambda>contents.
    bindM (liftR (flip_last contents)) (\<lambda>damaged.
    bindM (worldM (ho_write_bytes H path damaged)) (\<lambda>_.
    bindM (backup_command H c [(lit ''verify-backup''), corrupt]) (\<lambda>(code, _, err).
    bindM (assertM (code = 1 \<and> has_text (lit ''BACKUP VERIFICATION FAILED'') err) ''rejected'') (\<lambda>_.
    bindM (worldM (ho_unlink H path)) (\<lambda>_.
    bindM (worldM (ho_symlink H path (path_join backup (lit ''application.db'')))) (\<lambda>_.
    bindM (backup_command H c [(lit ''verify-backup''), corrupt]) (\<lambda>(linked, _, _).
    bindM (assertM (linked = 1) ''returncode'') (\<lambda>_.
    record_check ''corrupt_and_symlinked_backup_images_are_rejected'')))))))))))"

definition backup_body :: "'w hostops \<Rightarrow> NetCluster \<Rightarrow> ('w nrstate, unit) comp" where
  "backup_body H c = (let backup = path_join (nc_root c) (lit ''backup'') in
    bindM (start_all H c True) (\<lambda>_.
    bindM (ready_all H c) (\<lambda>_.
    bindM (backup_refused H c backup) (\<lambda>_.
    bindM (backup_verified H c backup) (\<lambda>before.
    bindM (backup_cut H c backup) (\<lambda>_.
    bindM (backup_corrupt H c backup) (\<lambda>_.
    bindM complete_report (\<lambda>_.
    put_report (lit ''image_sha256'') (RS before)))))))))"

definition backup_main :: "'w hostops \<Rightarrow> script_args \<Rightarrow> ('w nrstate, unit) comp" where
  "backup_main H s = bindM (askM (ho_exists H (sa_output s))) (\<lambda>exists.
    bindM (whenM exists (SystemExit ''Use a new evidence path; earlier failures are retained'')) (\<lambda>_.
    bindM (resolveM H (sa_binary s)) (\<lambda>binary.
    bindM (worldM (ho_sha256 H binary)) (\<lambda>digest.
    bindM (updM (\<lambda>_. run_empty [((lit ''complete''), RB False), ((lit ''passed''), RB False), ((lit ''checks''), RL []), ((lit ''binary_sha256''), RS digest)])) (\<lambda>_.
    bindM (make_parent H (sa_output s)) (\<lambda>_.
    campaignM H (sa_home s) (lit ''build/backup-service-work'') (retM binary) (sa_openssl s) (lit ''manual'') 10000
      (backup_body H) (bindM (put_sources H (sa_home s)) (\<lambda>_. save_report H (sa_output s)))))))))"

section \<open>Restored namespaces\<close>

definition restore_command :: "'w hostops \<Rightarrow> NetCluster \<Rightarrow> pstr list \<Rightarrow> ('x \<times> 'w, pstr) comp" where
  "restore_command H c argv = bindM (worldM (ho_run H (nc_binary c # argv))) (\<lambda>(code, out, err).
    bindM (assertM (code = 0) ''argv, returncode, stdout, stderr'') (\<lambda>_.
    retM out))"

text \<open>A voter that cannot join serves no fresh read: it is unreachable, late or busy.\<close>

definition no_quorum :: "'w hostops \<Rightarrow> NetCluster \<Rightarrow> nat \<Rightarrow> ('x \<times> 'w, unit) comp" where
  "no_quorum H c node = bindM (net_with H c [node] (8 / 10) None (handleM (read_sql (ho_net H) (lit ''SELECT 1'') [])
      (\<lambda>_. retM False)
      (\<lambda>e. if is_ConnectionError e then retM True
        else if is_QueryError e then bindM (assertM (ho_str H e \<in> {(lit ''Timeout''), (lit ''Busy'')}) ''str(exc)'') (\<lambda>_. retM True)
        else raiseM e))) (\<lambda>refused.
    whenM (\<not> refused) (AssertionError ''Incompatible voter served a fresh quorum read''))"

definition visits_pending :: "PendingWrite res" where
  "visits_pending = pending_write (JStr (concat (replicate 16 (lit ''ab'')))) (JInt 1) (JStr (lit ''UPDATE items SET visits=visits+1 WHERE id=1'')) []
     (JInt 0) (JInt 0)"

definition visits_are :: "'w netops \<Rightarrow> int \<Rightarrow> ((Connection \<times> 'x) \<times> 'w, unit) comp" where
  "visits_are N n = assert_scalar N (lit ''SELECT visits FROM items'') [] n"

definition retry_visits :: "'w hostops \<Rightarrow> NetCluster \<Rightarrow> nat \<Rightarrow> PendingWrite \<Rightarrow> int \<Rightarrow> ('x \<times> 'w, unit) comp" where
  "retry_visits H c node pending n = net_with H c [node] 10 (Some pending) (bindM (dbM (resolve_pending (ho_net H))) (\<lambda>_.
    visits_are (ho_net H) n))"

definition one_two :: "'w netops \<Rightarrow> pval res" where
  "one_two N = bindR (vector_new (float_parse N) (ISeq [VInt 1, VInt 2])) (\<lambda>v. Inr (VVector v))"

definition restore_schema :: "'w hostops \<Rightarrow> NetCluster \<Rightarrow> ('x \<times> 'w, unit) comp" where
  "restore_schema H c = (let N = ho_net H in
    net_with H c [1] 10 None (bindM (run_sql N (lit ''CREATE TABLE items(id INTEGER PRIMARY KEY,visits INTEGER)'') []) (\<lambda>_.
      bindM (run_sql N (lit ''INSERT INTO items VALUES(1,0)'') []) (\<lambda>_.
      bindM (run_sql N (lit ''CREATE VIRTUAL TABLE search USING fts5(body)'') []) (\<lambda>_.
      bindM (run_sql N (lit ''INSERT INTO search VALUES('' @ [39] @ lit ''durable text'' @ [39] @ lit '')'') []) (\<lambda>_.
      bindM (run_sql N (lit ''CREATE TABLE vectors(id INTEGER PRIMARY KEY,embedding BLOB)'') []) (\<lambda>_.
      bindM (liftR (one_two N)) (\<lambda>v.
      bindM (run_sql N (lit ''INSERT INTO vectors VALUES(?,?)'') [VInt 1, v]) (\<lambda>_.
      retM ())))))))))"

definition restore_cut :: "'w hostops \<Rightarrow> NetCluster \<Rightarrow> pstr \<Rightarrow> pstr \<Rightarrow> ('w nrstate, PendingWrite) comp" where
  "restore_cut H c older backup = (let N = ho_net H in
    bindM (restore_schema H c) (\<lambda>_.
    bindM (net_stop H 3) (\<lambda>_.
    bindM (worldM (ho_rename H (path_join (nc_root c) (lit ''data3'')) (path_join (nc_root c) (lit ''lost-data3'')))) (\<lambda>_.
    bindM (liftR visits_pending) (\<lambda>pending.
    bindM (retry_visits H c 1 pending 1) (\<lambda>_.
    bindM (net_stop H 1) (\<lambda>_.
    bindM (restore_command H c [(lit ''backup''), config_file c 1, older]) (\<lambda>_.
    bindM (net_start H c 1 False) (\<lambda>_.
    bindM (node_ready H c 1 60) (\<lambda>_.
    bindM (net_with H c [2] 10 None (visit N)) (\<lambda>_.
    bindM (net_with H c [1] 10 None (visits_are N 2)) (\<lambda>_.
    bindM (net_stop H 1) (\<lambda>_.
    bindM (restore_command H c [(lit ''backup''), config_file c 1, backup]) (\<lambda>_.
    bindM (net_stop H 2) (\<lambda>_.
    bindM (record_check ''survivors_establish_fresh_backup_cut_after_voter_directory_loss'') (\<lambda>_.
    retM pending))))))))))))))))"

definition restored_data :: "NetCluster \<Rightarrow> nat \<Rightarrow> pstr" where
  "restored_data c node = path_join (nc_root c) (lit ''restored'' @ dec node)"

definition restore_node :: "'w hostops \<Rightarrow> NetCluster \<Rightarrow> (nat \<times> pstr) list \<Rightarrow> pstr \<Rightarrow> pstr \<Rightarrow> nat \<Rightarrow> ('w nrstate, nat \<times> dict) comp" where
  "restore_node H c original older backup node = bindM ((case map_of original node of None \<Rightarrow> raiseM KeyError | Some s \<Rightarrow> retM s)) (\<lambda>contents.
    bindM (liftR (update_config H contents (nc_namespace c) (restored_data c node))) (\<lambda>cfg.
    bindM (worldM (ho_write H (config_file c node) (dump_config H cfg))) (\<lambda>_.
    bindM (restore_command H c [(lit ''restore''), if node = 3 then older else backup, config_file c node, (lit ''--new-cluster'')]) (\<lambda>_.
    retM (node, cfg)))))"

definition restore_mismatched :: "'w hostops \<Rightarrow> NetCluster \<Rightarrow> (nat \<times> pstr) list \<Rightarrow> pstr \<Rightarrow> pstr \<Rightarrow> PendingWrite \<Rightarrow> ('w nrstate, (nat \<times> dict) list) comp" where
  "restore_mismatched H c original older backup pending = bindM (mapM (restore_node H c original older backup) all_nodes) (\<lambda>configs.
    bindM (start_all H c False) (\<lambda>_.
    bindM (forM [1, 2] (\<lambda>node. bindM (node_ready H c node 60) (\<lambda>_. retM ()))) (\<lambda>_.
    bindM (no_quorum H c 3) (\<lambda>_.
    bindM (retry_visits H c 2 pending 2) (\<lambda>_.
    bindM (record_check ''mismatched_genesis_cannot_join_and_cross_voter_retry_has_no_duplicate_effect'') (\<lambda>_.
    retM configs))))))"

definition restore_old_instance :: "'w hostops \<Rightarrow> NetCluster \<Rightarrow> (nat \<times> pstr) list \<Rightarrow> ('w nrstate, unit) comp" where
  "restore_old_instance H c original = bindM (net_stop H 3) (\<lambda>_.
    bindM (worldM (ho_rename H (path_join (nc_root c) (lit ''lost-data3'')) (path_join (nc_root c) (lit ''data3'')))) (\<lambda>_.
    bindM ((case map_of original 3 of None \<Rightarrow> raiseM KeyError | Some s \<Rightarrow> retM s)) (\<lambda>contents.
    bindM (worldM (ho_write H (config_file c 3) contents)) (\<lambda>_.
    bindM (net_start H c 3 False) (\<lambda>_.
    bindM (no_quorum H c 3) (\<lambda>_.
    bindM (net_with H c [1, 2] 10 None (visits_are (ho_net H) 2)) (\<lambda>_.
    record_check ''old_instance_cannot_rejoin_or_delay_the_new_quorum'')))))))"

definition restore_repaired :: "'w hostops \<Rightarrow> NetCluster \<Rightarrow> (nat \<times> dict) list \<Rightarrow> pstr \<Rightarrow> ('w nrstate, unit) comp" where
  "restore_repaired H c configs backup = (let N = ho_net H in
    bindM (net_stop H 3) (\<lambda>_.
    bindM ((case map_of configs 3 of None \<Rightarrow> raiseM KeyError | Some d \<Rightarrow> retM d)) (\<lambda>cfg.
    bindM (worldM (ho_write H (config_file c 3) (dump_config H (dset cfg (lit ''data'') (JStr (path_join (nc_root c) (lit ''repaired3''))))))) (\<lambda>_.
    bindM (restore_command H c [(lit ''restore''), backup, config_file c 3, (lit ''--new-cluster'')]) (\<lambda>_.
    bindM (net_start H c 3 False) (\<lambda>_.
    bindM (forM all_nodes (\<lambda>node. bindM (node_ready H c node 60) (\<lambda>_.
      net_with H c [node] 10 None (bindM (visit N) (\<lambda>_.
        bindM (assert_scalar N (lit ''SELECT count(*) FROM search WHERE search MATCH '' @ [39] @ lit ''durable'' @ [39]) [] 1) (\<lambda>_.
        bindM (liftR (one_two N)) (\<lambda>v.
        assert_scalar N (lit ''SELECT vec_distance_l2(embedding,?) FROM vectors'') [v] 0))))))) (\<lambda>_.
    record_check ''all_restored_voters_accept_writes_and_serve_fts_and_vectors'')))))))"

definition restore_compacted :: "'w hostops \<Rightarrow> NetCluster \<Rightarrow> PendingWrite \<Rightarrow> ('w nrstate, unit) comp" where
  "restore_compacted H c pending = (let N = ho_net H in
    bindM (net_with H c [1] 10 None (dbM (request_snapshot N))) (\<lambda>target.
    bindM (wait_sealed H c target all_nodes) (\<lambda>_.
    bindM (forM all_nodes (\<lambda>node. bindM (net_stop H node) (\<lambda>_.
      bindM (restore_command H c [(lit ''compact''), config_file c node]) (\<lambda>_.
      bindM (net_start H c node False) (\<lambda>_.
      bindM (node_ready H c node 60) (\<lambda>_.
      retM ())))))) (\<lambda>_.
    bindM (forM all_nodes (net_stop H)) (\<lambda>_.
    bindM (start_all H c False) (\<lambda>_.
    bindM (forM all_nodes (\<lambda>node. bindM (node_ready H c node 60) (\<lambda>_.
      net_with H c [node] 10 None (visits_are N 5)))) (\<lambda>_.
    bindM (retry_visits H c 3 pending 5) (\<lambda>_.
    record_check ''genesis_retry_fences_and_writes_survive_compaction_and_full_restart''))))))))"

text \<open>
  The configurations are read before the cluster starts. From the restore on, clients use the new
  namespace.
\<close>

definition restore_work :: "'w hostops \<Rightarrow> NetCluster \<Rightarrow> (nat \<times> pstr) list \<Rightarrow> ('w nrstate, unit) comp" where
  "restore_work H c original = (let older = path_join (nc_root c) (lit ''older-backup'') in
    let backup = path_join (nc_root c) (lit ''backup'') in
    bindM (start_all H c True) (\<lambda>_.
    bindM (ready_all H c) (\<lambda>_.
    bindM (restore_cut H c older backup) (\<lambda>pending.
    let d = c\<lparr>nc_namespace := (lit ''recovered-'' @ (base_name (nc_root c)))\<rparr> in
    bindM (restore_mismatched H d original older backup pending) (\<lambda>configs.
    bindM (restore_old_instance H d original) (\<lambda>_.
    bindM (restore_repaired H d configs backup) (\<lambda>_.
    bindM (restore_compacted H d pending) (\<lambda>_.
    complete_report))))))))"

definition restore_main :: "'w hostops \<Rightarrow> script_args \<Rightarrow> ('w nrstate, unit) comp" where
  "restore_main H s = bindM (askM (ho_exists H (sa_output s))) (\<lambda>exists.
    bindM (whenM exists (SystemExit ''Use a new evidence path; earlier failures are retained'')) (\<lambda>_.
    bindM (resolveM H (sa_binary s)) (\<lambda>binary.
    bindM (askM (ho_utcnow H)) (\<lambda>now.
    bindM (worldM (ho_sha256 H binary)) (\<lambda>digest.
    bindM (updM (\<lambda>_. run_empty [((lit ''complete''), RB False), ((lit ''passed''), RB False), ((lit ''checks''), RL []), ((lit ''run_at_utc''), RS now),
      ((lit ''binary_sha256''), RS digest), ((lit ''scope''), RS (lit ''coordinated fresh namespace; process/data-directory faults, not physical disk loss''))])) (\<lambda>_.
    bindM (make_parent H (sa_output s)) (\<lambda>_.
    let work_root = path_join (sa_home s) (lit ''build/restore-service-work'') in
    bindM (worldM (ho_mkdir H work_root)) (\<lambda>_.
    reportedM H (temp_dirM H work_root (\<lambda>home. bindM (ifM (ho_linux H) (check_filesystem H home)) (\<lambda>_.
        bindM (net_cluster H home binary (sa_openssl s) 5 (lit ''manual'')) (\<lambda>c.
        bindM (mapM (\<lambda>node. bindM (worldM (ho_read H (config_file c node))) (\<lambda>contents. retM (node, contents))) all_nodes) (\<lambda>original.
        finallyM (restore_work H c original)
          (bindM (net_close H) (\<lambda>_. log_tails H home (lit ''*.log'') (tail_of 16000))))))))
      (bindM (put_sources H (sa_home s)) (\<lambda>_. save_report H (sa_output s)))))))))))"

end
