(* ===== verification/Handles.thy ===== *)
theory Handles
  imports Dialect Client_Facts Transaction Tool_Prelude
begin

text \<open>
  How an application gets at the library: \<open>connect\<close> of \<open>client.py\<close> and of \<open>dbapi.py\<close>, the \<open>with\<close> block of a
  connection, the handles it gives out (\<open>search_index\<close>, \<open>create_search_index\<close>, \<open>transaction\<close>), the
  sequence operations of \<open>vector.py\<close>, and the hooks of \<open>sqlalchemy.py\<close> that run statements. SQLAlchemy's
  \<open>exec_driver_sql\<close> is a parameter: it gives the rows of a statement.
\<close>

section \<open>Opening connections\<close>

datatype endpoints_arg = OneEndpoint Endpoint | Endpoints "Endpoint list"

definition endpoint_list :: "endpoints_arg \<Rightarrow> Endpoint list" where
  "endpoint_list a = (case a of OneEndpoint e \<Rightarrow> [e] | Endpoints es \<Rightarrow> es)"

definition connect :: "'w netops \<Rightarrow> endpoints_arg \<Rightarrow> pstr \<Rightarrow> TLS \<Rightarrow> rat \<Rightarrow> PendingWrite option \<Rightarrow> 'w \<Rightarrow> Connection res \<times> 'w" where
  "connect N endpoints cluster tls timeout pending = connection_new N (endpoint_list endpoints) cluster tls timeout pending"

definition connection_pending :: "('w cstate, PendingWrite option) comp" where
  "connection_pending = bindM connM (\<lambda>c. retM (c_pending c))"

definition connection_enter :: "('w cstate, unit) comp" where
  "connection_enter = ready"

definition connection_exit :: "'w netops \<Rightarrow> ('w cstate, unit) comp" where
  "connection_exit N = conn_close N"

text \<open>\<open>with db: body\<close>, the connection made before the block.\<close>

definition with_connection :: "'w netops \<Rightarrow> ('w cstate, 'a) comp \<Rightarrow> ('w cstate, 'a) comp" where
  "with_connection N body = bindM connection_enter (\<lambda>_. finallyM body (connection_exit N))"

definition conn_search_index :: "'w netops \<Rightarrow> pval \<Rightarrow> pval \<Rightarrow> ('w cstate, SearchIndex) comp" where
  "conn_search_index N name dimensions = liftR (search_index (unicode N) name dimensions)"

definition conn_create_search_index :: "'w netops \<Rightarrow> pval \<Rightarrow> pval \<Rightarrow> ('w cstate, SearchIndex) comp" where
  "conn_create_search_index N name dimensions = bindM (conn_search_index N name dimensions) (\<lambda>ix.
    bindM (search_create N ix) (\<lambda>_.
    retM ix))"

definition conn_transaction :: "('w cstate, Transaction) comp" where
  "conn_transaction = retM transaction_new"

text \<open>\<open>dbapi.connect\<close>: \<open>None\<close> stands for an \<open>autocommit\<close> that is no \<open>bool\<close>.\<close>

definition dbapi_connect :: "'w netops \<Rightarrow> endpoints_arg \<Rightarrow> pstr \<Rightarrow> TLS \<Rightarrow> rat \<Rightarrow> bool option \<Rightarrow> 'w \<Rightarrow> (DbConnection \<times> Connection) res \<times> 'w" where
  "dbapi_connect N endpoints cluster tls timeout autocommit w = (case autocommit of
      None \<Rightarrow> (Inl (ValueError ''autocommit must be bool''), w)
    | Some b \<Rightarrow> (case connect N endpoints cluster tls timeout None w of
        (Inl e, w') \<Rightarrow> (Inl e, w')
      | (Inr c, w') \<Rightarrow> (Inr (db_new b, c), w')))"

definition db_autocommit :: "('w dstate, bool) comp" where
  "db_autocommit = bindM objM (\<lambda>d. retM (d_autocommit d))"

section \<open>Vectors as sequences\<close>

text \<open>An index or a slice without a step.\<close>

datatype vec_key = IndexKey int | SliceKey "int option" "int option"

definition slice_bound :: "nat \<Rightarrow> int \<Rightarrow> nat" where
  "slice_bound n i = (if i < 0 then n - nat (- i) else min n (nat i))"

definition py_slice :: "'a list \<Rightarrow> int option \<Rightarrow> int option \<Rightarrow> 'a list" where
  "py_slice xs start stop = (let a = (case start of None \<Rightarrow> 0 | Some i \<Rightarrow> slice_bound (length xs) i);
      b = (case stop of None \<Rightarrow> length xs | Some i \<Rightarrow> slice_bound (length xs) i) in take (b - a) (drop a xs))"

definition vec_len :: "pyfloat list \<Rightarrow> nat" where
  "vec_len v = length v"

definition vec_getitem :: "pyfloat list \<Rightarrow> vec_key \<Rightarrow> (pyfloat + pyfloat list) res" where
  "vec_getitem v k = (case k of IndexKey i \<Rightarrow> bindR (py_index v i) (\<lambda>x. Inr (Inl x)) | SliceKey a b \<Rightarrow> Inr (Inr (py_slice v a b)))"

definition vec_iter :: "pyfloat list \<Rightarrow> pyfloat list" where
  "vec_iter v = v"

section \<open>Hooks of the dialect\<close>

definition sa_scalar :: "cell list list \<Rightarrow> cell res" where
  "sa_scalar rows = (case rows of [] \<Rightarrow> Inr (CJson JNull) | r # _ \<Rightarrow> nth_res r 0)"

definition server_version_info :: "unidb \<Rightarrow> (pstr \<Rightarrow> pval list \<Rightarrow> ('s, cell list list) comp) \<Rightarrow> ('s, int list) comp" where
  "server_version_info U exec_driver_sql = bindM (exec_driver_sql (lit ''SELECT sqlite_version()'') []) (\<lambda>rows.
    bindM (liftR (sa_scalar rows)) (\<lambda>v.
    (case v of CJson (JStr s) \<Rightarrow> liftR (mapR (int_res U) (split_on (\<lambda>c. c = 46) s)) | _ \<Rightarrow> raiseM AttributeError)))"

definition default_schema_name :: pstr where
  "default_schema_name = (lit ''main'')"

definition default_isolation_level :: pstr where
  "default_isolation_level = (lit ''SERIALIZABLE'')"

definition detect_autocommit_setting :: "DbConnection \<Rightarrow> bool" where
  "detect_autocommit_setting d = d_autocommit d"

definition do_execute :: "'w netops \<Rightarrow> pstr \<Rightarrow> params \<Rightarrow> ('w ustate, unit) comp" where
  "do_execute N statement parameters = cur_execute N statement parameters"

definition do_executemany :: "'w netops \<Rightarrow> pstr \<Rightarrow> params list option \<Rightarrow> ('w ustate, unit) comp" where
  "do_executemany N statement parameters = cur_executemany N statement parameters"

definition has_table :: "(pstr \<Rightarrow> pval list \<Rightarrow> ('s, cell list list) comp) \<Rightarrow> pval \<Rightarrow> pstr option \<Rightarrow> ('s, bool) comp" where
  "has_table exec_driver_sql table_name schema =
    (if schema \<notin> {None, Some (lit ''main'')} then retM False
     else bindM (exec_driver_sql (lit ''SELECT 1 FROM sqlite_schema WHERE name=? AND type IN ('' @ [39] @ lit ''table'' @ [39] @ lit '','' @ [39] @ lit ''view'' @ [39] @ lit '')'') [table_name])
       (\<lambda>rows. retM (rows \<noteq> [])))"

definition get_table_names :: "(pstr \<Rightarrow> pval list \<Rightarrow> ('s, cell list list) comp) \<Rightarrow> pstr option \<Rightarrow> ('s, cell list) comp" where
  "get_table_names exec_driver_sql schema =
    (if schema \<notin> {None, Some (lit ''main'')} then retM []
     else bindM (exec_driver_sql ((lit ''SELECT name FROM sqlite_schema WHERE type='' @ [39] @ lit ''table'' @ [39] @ lit '' '')
         @ (lit ''AND name NOT LIKE '' @ [39] @ lit ''sqlite_%'' @ [39] @ lit '' AND name NOT LIKE '' @ [39] @ lit ''_sqlodin_%'' @ [39] @ lit '' ORDER BY name'')) [])
       (\<lambda>rows. liftR (mapR (\<lambda>r. nth_res r 0) rows)))"

datatype reflection = Columns | ForeignKeys | Indexes | PkConstraint

definition reflect :: "reflection \<Rightarrow> ('s, 'a) comp" where
  "reflect what = raiseM (NotImplementedError (case what of
      Columns \<Rightarrow> ''Schema reflection is not supported; declare SQLAlchemy tables explicitly''
    | ForeignKeys \<Rightarrow> ''Foreign-key reflection is not supported''
    | Indexes \<Rightarrow> ''Index reflection is not supported''
    | PkConstraint \<Rightarrow> ''Primary-key reflection is not supported''))"

definition get_col_spec :: pstr where
  "get_col_spec = (lit ''BLOB'')"

section \<open>Lemmas\<close>

lemma wlp_trivial: "wlp m (\<lambda>_ _. True) (\<lambda>_ _. True) s"
  by (auto simp: wlp_def split: option.splits sum.splits)

lemma conn_close_closes:
  "wlp (conn_close N) (\<lambda>_ (c, _). c_closed c \<and> disconnected (c_transport c)) (\<lambda>_ _. False) (c, w)"
  by (auto simp: conn_close_def transport_close_def disconnected_def bindM_def wlp_def with_lock_def onT_def setM_def
      getM_def effectM_def updM_def objM_def retM_def split: option.splits prod.splits)

text \<open>
  A connection of a \<open>with\<close> block is closed and its socket given up on every way out of the block, by return and
  by exception.
\<close>

lemma with_connection_closes:
  assumes "\<not> c_closed c" and "\<not> c_transaction c"
  shows "wlp (with_connection N body) (\<lambda>_ (c, _). c_closed c \<and> disconnected (c_transport c))
    (\<lambda>_ (c, _). c_closed c \<and> disconnected (c_transport c)) (c, w)"
proof -
  have "wlp (conn_close N) (\<lambda>_ (c, _). c_closed c \<and> disconnected (c_transport c)) (\<lambda>_ (c, _). c_closed c \<and> disconnected (c_transport c)) s" for s
    by (cases s) (auto simp: disconnected_def intro: wlp_mono [OF conn_close_closes])
  then show ?thesis
    using assms by (auto simp: with_connection_def connection_enter_def connection_exit_def ready_def wlp_finally intro: wlp_mono [OF wlp_trivial])
qed

end
