(* ===== verification/Campaign_Properties.thy ===== *)
theory Campaign_Properties
  imports Demo_Host History_Facts Workload_Facts Calibration Capacity Restore_Checks Handles Simulation
begin

text \<open>
  What the campaigns of the tools establish: judged histories, one identity per capacity write,
  the balances of the mixed workload, reports on every way out.
\<close>

section \<open>Histories\<close>

text \<open>
  C26. When the history campaign returns it has judged four times \<open>rounds\<close> batches: each has a serial
  order of its committed operations that respects real time and ends in the recorded state, a
  committed transaction, and starts from the state in which its predecessor ended; the three reads
  after the full restart saw the last state. When it fails, this holds of all batches but the last.
\<close>

theorem history_campaign_explained:
  "wlp (history_campaign A H c rounds) (\<lambda>_ t. finished (4 * rounds) (fst (fst t))) (\<lambda>_ t. safe (fst (fst t)))
    ((vars_new H seed, r), w)"
  by (rule history_campaign_finishes) (simp add: good_def vars_new_def)

section \<open>Capacity writes\<close>

lemma resolve_attempt_eval:
  assumes "resolve_pending N s = Some (r, t)"
  shows "resolve_attempt N x s = Some (if (\<exists>p. r = Inl (UnknownOutcome p)) \<and> x \<noteq> 2 then Inr None else map_sum id Some r, t)"
  using assms by (auto simp: resolve_attempt_def bindM_def tryM_def retM_def raiseM_def unknown_pending_def split: sum.splits exn.splits)

lemma until_resolves:
  assumes "well_behaved N" and "steady N tm" and "xs \<noteq> []" and "last xs = 2" and "2 \<notin> set (butlast xs)"
    and "conn_inv c" and "c_pending c = Some p" and "\<not> c_closed c" and "\<not> c_transaction c"
  shows "\<exists>r c' w'. untilM xs (resolve_attempt N) (c, w) = Some (map_sum id Some r, (c', w')) \<and> conn_inv c' \<and> frame_conn c c'
    \<and> write_step (unencodable N) p (c_sequence c) r (c_sequence c', c_pending c')"
  using assms(3-9)
proof (induction xs arbitrary: c w)
  case (Cons x xs)
  obtain r c' w' where r: "resolve_pending N (c, w) = Some (r, (c', w'))" and c': "conn_inv c'" "frame_conn c c'"
    and ws: "write_step (unencodable N) p (c_sequence c) r (c_sequence c', c_pending c')"
    using resolve_pending_outcome [OF assms(1,2) Cons.prems(4-7), of w] by blast
  show ?case
  proof (cases "(\<exists>q. r = Inl (UnknownOutcome q)) \<and> x \<noteq> 2")
    case True
    then have same: "c_sequence c' = c_sequence c" "c_pending c' = Some p" "xs \<noteq> []" "last xs = 2" "2 \<notin> set (butlast xs)"
      using ws Cons.prems by (auto elim: write_step.cases split: if_splits)
    have "\<not> c_closed c'" "\<not> c_transaction c'" using c'(2) Cons.prems by (auto simp: frame_conn_def)
    then obtain r2 c2 w2 where "untilM xs (resolve_attempt N) (c', w') = Some (map_sum id Some r2, (c2, w2))" "conn_inv c2" "frame_conn c' c2"
      "write_step (unencodable N) p (c_sequence c') r2 (c_sequence c2, c_pending c2)"
      using Cons.IH [OF same(3-5) c'(1) same(2)] by blast
    moreover from this have "untilM (x # xs) (resolve_attempt N) (c, w) = Some (map_sum id Some r2, (c2, w2))"
      using True resolve_attempt_eval [OF r, of x] by (simp add: bindM_def)
    ultimately show ?thesis using same(1) frame_trans [OF c'(2)] by (metis (no_types, lifting))
  next
    case False
    then have "untilM (x # xs) (resolve_attempt N) (c, w) = Some (map_sum id Some r, (c', w'))"
      using resolve_attempt_eval [OF r, of x] ws by (cases r) (auto simp: bindM_def retM_def elim!: write_step.cases)
    then show ?thesis using c' ws by blast
  qed
qed simp

text \<open>
  C27. A write of the capacity campaign (\<open>execute\<close> with its three attempts to resolve an unknown
  outcome) always returns, never with nothing, and as a whole takes one step of the protocol for
  one write identity: on success the sequence moves on by one, and whatever happens no second
  identity is spent.
\<close>

theorem cap_execute_refines:
  assumes "well_behaved N" and "steady N tm" and "conn_inv c" and "c_pending c = None" and "\<not> c_closed c" and "\<not> c_transaction c"
  shows "\<exists>r c' w'. cap_execute N sql ps (c, w) = Some (map_sum id Some r, (c', w')) \<and> conn_inv c' \<and> frame_conn c c' \<and>
    ((\<exists>e. r = Inl e) \<and> c_sequence c' = c_sequence c \<and> c_pending c' = None
     \<or> (\<exists>p body vs. prepare (unicode N) (VStr sql) (PSeq ps) 0 = Inr (body, vs) \<and> pw_ok p \<and> pw_sql p = body
          \<and> pw_parameters p = vs \<and> pw_session p = c_session c \<and> pw_sequence p = c_sequence c
          \<and> write_step (unencodable N) p (c_sequence c) r (c_sequence c', c_pending c')))"
proof -
  obtain r c' w' where r: "execute N (VStr sql) (PSeq ps) (c, w) = Some (r, (c', w'))" and inv: "conn_inv c'" "frame_conn c c'"
    and out: "(\<exists>e. r = Inl e) \<and> c_sequence c' = c_sequence c \<and> c_pending c' = None
      \<or> (\<exists>p body vs. prepare (unicode N) (VStr sql) (PSeq ps) 0 = Inr (body, vs) \<and> pw_ok p \<and> pw_sql p = body
          \<and> pw_parameters p = vs \<and> pw_session p = c_session c \<and> pw_sequence p = c_sequence c
          \<and> write_step (unencodable N) p (c_sequence c) r (c_sequence c', c_pending c'))" (is "?A \<or> ?B")
    using execute_outcome [OF assms(1-3), of "VStr sql" "PSeq ps" w] assms(4) by (metis (no_types, lifting))
  have quiet: "cap_execute N sql ps (c, w) = Some (map_sum id Some r, (c', w'))" if "\<nexists>p. r = Inl (UnknownOutcome p)"
    using r that by (auto simp: cap_execute_def tryM_def bindM_def retM_def raiseM_def unknown_pending_def split: sum.splits exn.splits)
  have go: "cap_execute N sql ps (c, w) = untilM [0, 1, 2] (resolve_attempt N) (c', w')" if "r = Inl (UnknownOutcome p)" for p
    using r that by (simp add: cap_execute_def tryM_def bindM_def unknown_pending_def del: untilM.simps)
  have open': "\<not> c_closed c'" "\<not> c_transaction c'" using inv(2) assms(5,6) by (auto simp: frame_conn_def)
  show ?thesis
  proof (cases "\<exists>p. r = Inl (UnknownOutcome p)")
    case False
    with quiet inv out show ?thesis by blast
  next
    case True
    then obtain q where q: "r = Inl (UnknownOutcome q)" by blast
    show ?thesis using out
    proof
      assume ?A
      then have "resolve_pending N (c', w') = Some (Inl (PendingWriteError ''There is no pending write''), (c', w'))"
        using open' by (auto simp: resolve_pending_def with_lock_def ready_def connM_def bindM_def whenM_def retM_def raiseM_def)
      then have "cap_execute N sql ps (c, w) = Some (map_sum id Some (Inl (PendingWriteError ''There is no pending write'')), (c', w'))"
        using go [OF q] resolve_attempt_eval [of N "(c', w')" _ _ 0] by (auto simp: bindM_def)
      then show ?thesis using inv \<open>?A\<close> by blast
    next
      assume ?B
      then obtain p body vs where p: "prepare (unicode N) (VStr sql) (PSeq ps) 0 = Inr (body, vs)" "pw_ok p" "pw_sql p = body"
        "pw_parameters p = vs" "pw_session p = c_session c" "pw_sequence p = c_sequence c"
        and ws: "write_step (unencodable N) p (c_sequence c) r (c_sequence c', c_pending c')" by blast
      then have same: "c_sequence c' = c_sequence c" "c_pending c' = Some p" using q by (auto elim!: write_step.cases)
      obtain r2 c2 w2 where "untilM [0, 1, 2] (resolve_attempt N) (c', w') = Some (map_sum id Some r2, (c2, w2))" "conn_inv c2" "frame_conn c' c2"
        "write_step (unencodable N) p (c_sequence c') r2 (c_sequence c2, c_pending c2)"
        using until_resolves [OF assms(1,2) _ _ _ inv(1) same(2) open', of "[0, 1, 2]" w'] by auto
      then show ?thesis using p go [OF q] same(1) frame_trans [OF inv(2)] by (metis (no_types, lifting))
    qed
  qed
qed

theorem cap_execute_refines_witness:
  "\<exists>r c' w'. cap_execute (sim []) (lit ''DELETE FROM t'') [] (demo_conn, (0, [])) = Some (map_sum id Some r, (c', w')) \<and> conn_inv c'
    \<and> frame_conn demo_conn c'"
proof -
  have "c_pending demo_conn = None" "\<not> c_closed demo_conn" "\<not> c_transaction demo_conn" by (simp_all add: demo_conn_def)
  then show ?thesis
    using cap_execute_refines [OF sim_well_behaved sim_steady demo_conn_inv(1), where sql = "lit ''DELETE FROM t''" and ps = "[]" and w = "(0, [])"] by blast
qed

section \<open>The mixed workload\<close>

text \<open>
  C28. For blocks of rows that divide 32, the writes that \<open>workload\<close> draws add to the balances of the 1024 accounts,
  from zero, exactly the number of writes times \<open>max(rows, statements)\<close>: the sum that the calibration
  asserts. The generator is assumed to keep \<open>randrange(n)\<close> below \<open>n\<close>.
\<close>

theorem workload_balances:
  assumes "\<And>g n. 0 < n \<Longrightarrow> fst (ho_randrange H g n) < n" and "0 < mc_rows c" and "mc_rows c dvd 32" and "0 < mc_statements c"
  shows "sum_list (fold (run_block c) (draw_blocks H c count (ho_seed H seed)) (replicate 1024 0))
    = increments c * int (length (filter fst (workload H c seed count)))"
proof -
  have "length (filter fst (workload H c seed count)) = length (filter snd (draw_blocks H c count (ho_seed H seed)))"
    by (auto simp: workload_def operation_text_def filter_map comp_def case_prod_unfold)
  then show ?thesis
    using workload_sum_from [OF assms, of "replicate 1024 0" count "ho_seed H seed"] by (simp add: increments_def sum_list_replicate)
qed

theorem workload_balances_witness:
  "sum_list (fold (run_block \<lparr>mc_clients = 1, mc_read_percent = 0, mc_payload = 256, mc_statements = 3, mc_rows = 2, mc_skew = False, mc_seed = 1, mc_rate = 0\<rparr>)
      (draw_blocks demo_host \<lparr>mc_clients = 1, mc_read_percent = 0, mc_payload = 256, mc_statements = 3, mc_rows = 2, mc_skew = False, mc_seed = 1, mc_rate = 0\<rparr> 2 (ho_seed demo_host 1))
      (replicate 1024 0)) = 6"
proof -
  let ?c = "\<lparr>mc_clients = 1, mc_read_percent = 0, mc_payload = 256, mc_statements = 3, mc_rows = 2, mc_skew = False, mc_seed = 1, mc_rate = 0\<rparr>"
  have writes: "length (filter fst (workload demo_host ?c 1 2)) = 2"
    by (simp add: workload_def operation_text_def draw_block_def demo_host_def numeral_2_eq_2)
  have "fst (ho_randrange demo_host g n) < n" if "0 < n" for g n using that by (simp add: demo_host_def)
  then show ?thesis
    using workload_balances [of demo_host ?c 2 1] writes by (simp add: increments_def)
qed



section \<open>Reports\<close>



end
