(* ===== verification/Snapshot_Proxy.thy ===== *)
theory Snapshot_Proxy
  imports Tool_Prelude "HOL-Library.Sublist"
begin

text \<open>
  \<open>tools/snapshot_proxy.py\<close>: the throttling TCP proxy of the snapshot catch-up campaign. Its threads
  are state machines: a \<open>relay\<close> copies one direction of a connection, a \<open>handler\<close> serves one
  accepted connection with two of them, and all share the proxy's counters. A step is what happens
  between two points at which a thread can be interrupted; what is under the proxy's lock is one
  step. An event says which thread moves and what its call of the network returned. What a relay
  got from \<open>recv\<close> and handed to \<open>sendall\<close> is kept beside it, for the statements only.
\<close>

section \<open>Machines\<close>

text \<open>Sequences of events, and what holds along them.\<close>

fun run_events :: "('e \<Rightarrow> 's \<Rightarrow> 's option) \<Rightarrow> 'e list \<Rightarrow> 's \<Rightarrow> 's option" where
  "run_events step [] s = Some s"
| "run_events step (e # es) s = (case step e s of None \<Rightarrow> None | Some t \<Rightarrow> run_events step es t)"

locale machine =
  fixes step :: "'e \<Rightarrow> 's \<Rightarrow> 's option" and inv :: "'s \<Rightarrow> bool"
  assumes step_inv: "inv s \<Longrightarrow> step e s = Some t \<Longrightarrow> inv t"
begin

lemma run_inv: "inv s \<Longrightarrow> run_events step es s = Some t \<Longrightarrow> inv t"
  by (induction es arbitrary: s) (auto split: option.splits dest: step_inv)

end

section \<open>The shared state\<close>

record SnapshotProxy =
  sp_target :: "pstr \<times> int"
  sp_rate :: int
  sp_drop_after :: nat
  sp_downstream :: nat
  sp_drops :: nat
  sp_active :: "sock set"
  sp_slots :: nat
  sp_serving :: bool
  sp_closed :: "sock set"

definition proxy_new :: "unidb \<Rightarrow> pstr \<Rightarrow> int \<Rightarrow> nat \<Rightarrow> SnapshotProxy res" where
  "proxy_new U target kib_per_second drop_after =
    (let r = rev target; port = rev (takeWhile (\<lambda>c. c \<noteq> 58) r); host = dropWhile (\<lambda>c. c \<noteq> 58) r
     in if host = [] then Inl IndexError
        else (case parse_int U port of
          None \<Rightarrow> Inl (ValueError ''invalid literal for int() with base 10'')
        | Some p \<Rightarrow> Inr \<lparr>sp_target = (rev (List.tl host), p), sp_rate = kib_per_second * 1024, sp_drop_after = drop_after,
            sp_downstream = 0, sp_drops = 0, sp_active = {}, sp_slots = 4, sp_serving = True, sp_closed = {}\<rparr>))"

text \<open>\<open>_close\<close>: the error of \<open>shutdown\<close> is ignored.\<close>

definition close_socket :: "sock \<Rightarrow> SnapshotProxy \<Rightarrow> SnapshotProxy" where
  "close_socket s p = p\<lparr>sp_closed := insert s (sp_closed p)\<rparr>"

section \<open>Relays\<close>

text \<open>Where \<open>_relay\<close> stands; \<open>CloseSource\<close> and \<open>CloseDestination\<close> are its \<open>finally\<close>.\<close>

datatype relay_at = Receiving | Sleeping pbytes | Counting pbytes | Sending pbytes | CloseSource | CloseDestination | Returned

record relay =
  rl_source :: sock
  rl_destination :: sock
  rl_throttle :: bool
  rl_at :: relay_at
  rl_received :: pbytes
  rl_sent :: pbytes

definition relay_new :: "sock \<Rightarrow> sock \<Rightarrow> bool \<Rightarrow> relay" where
  "relay_new source destination throttle = \<lparr>rl_source = source, rl_destination = destination, rl_throttle = throttle,
     rl_at = Receiving, rl_received = [], rl_sent = []\<rparr>"

text \<open>
  \<open>Received []\<close> is the end of the stream; \<open>SendFailed k\<close> is an \<open>OSError\<close> of \<open>sendall\<close> after
  \<open>k\<close> bytes. \<open>Move\<close> is a step without a call that can fail.
\<close>

datatype relay_event = Received pbytes | RecvFailed | Sent | SendFailed nat | Move

text \<open>
  The lock is held while the bytes are counted: a relay that reaches the limit disarms it and
  returns without sending. A rate that is not positive makes the pause raise, past the handler of
  \<open>OSError\<close> but through the \<open>finally\<close>.
\<close>

definition count_bytes :: "pbytes \<Rightarrow> SnapshotProxy \<Rightarrow> relay_at \<times> SnapshotProxy" where
  "count_bytes data p =
    (let n = sp_downstream p + length data; q = p\<lparr>sp_downstream := n\<rparr>
     in if sp_drop_after p \<noteq> 0 \<and> sp_drop_after p \<le> n
        then (CloseSource, q\<lparr>sp_drop_after := 0, sp_drops := sp_drops p + 1\<rparr>)
        else (Sending data, q))"

fun relay_step :: "relay_event \<Rightarrow> SnapshotProxy \<times> relay \<Rightarrow> (SnapshotProxy \<times> relay) option" where
  "relay_step e (p, r) =
    (case (rl_at r, e) of
       (Receiving, Received data) \<Rightarrow>
         if 8192 < length data then None
         else if data = [] then Some (p, r\<lparr>rl_at := CloseSource\<rparr>)
         else Some (p, r\<lparr>rl_received := rl_received r @ data, rl_at := (if rl_throttle r then Sleeping data else Sending data)\<rparr>)
     | (Receiving, RecvFailed) \<Rightarrow> Some (p, r\<lparr>rl_at := CloseSource\<rparr>)
     | (Sleeping data, Move) \<Rightarrow> Some (p, r\<lparr>rl_at := (if sp_rate p \<le> 0 then CloseSource else Counting data)\<rparr>)
     | (Counting data, Move) \<Rightarrow> (case count_bytes data p of (a, q) \<Rightarrow> Some (q, r\<lparr>rl_at := a\<rparr>))
     | (Sending data, Sent) \<Rightarrow> Some (p, r\<lparr>rl_sent := rl_sent r @ data, rl_at := Receiving\<rparr>)
     | (Sending data, SendFailed k) \<Rightarrow> Some (p, r\<lparr>rl_sent := rl_sent r @ take k data, rl_at := CloseSource\<rparr>)
     | (CloseSource, Move) \<Rightarrow> Some (close_socket (rl_source r) p, r\<lparr>rl_at := CloseDestination\<rparr>)
     | (CloseDestination, Move) \<Rightarrow> Some (close_socket (rl_destination r) p, r\<lparr>rl_at := Returned\<rparr>)
     | _ \<Rightarrow> None)"

section \<open>Handlers\<close>

text \<open>
  Where \<open>handle\<close> stands. \<open>CloseClient\<close> to \<open>Release\<close> are its \<open>finally\<close>; \<open>Finish\<close> is
  \<open>socketserver\<close>, which closes a request after \<open>handle\<close>.
\<close>

datatype handler_at = Acquire | Connect | Configure | Enter | Start | Relaying | CloseClient | CloseTarget | Leave | Release | Finish | Ended

record handler =
  hd_client :: sock
  hd_target :: "sock option"
  hd_forward :: "relay option"
  hd_reverse :: "relay option"
  hd_at :: handler_at

definition handler_new :: "sock \<Rightarrow> handler" where
  "handler_new client = \<lparr>hd_client = client, hd_target = None, hd_forward = None, hd_reverse = None, hd_at = Acquire\<rparr>"

definition hd_socks :: "handler \<Rightarrow> sock set" where
  "hd_socks h = insert (hd_client h) (set_option (hd_target h))"

text \<open>\<open>Connected\<close> is the socket of \<open>create_connection\<close>, \<open>Failed\<close> what the call at this point raised.\<close>

datatype handler_event = Go | Connected sock | Failed

definition relay_returned :: "relay option \<Rightarrow> bool" where
  "relay_returned r = (case r of None \<Rightarrow> False | Some r \<Rightarrow> rl_at r = Returned)"

text \<open>
  The forward relay runs in the handler's own thread, so the handler waits for it. It waits one
  second for the other at most: its \<open>finally\<close> may begin while that relay still runs.
\<close>

fun handler_step :: "handler_event \<Rightarrow> SnapshotProxy \<times> handler \<Rightarrow> (SnapshotProxy \<times> handler) option" where
  "handler_step e (p, h) =
    (case (hd_at h, e) of
       (Acquire, Go) \<Rightarrow> if sp_slots p = 0 then Some (p, h\<lparr>hd_at := Finish\<rparr>) else Some (p\<lparr>sp_slots := sp_slots p - 1\<rparr>, h\<lparr>hd_at := Connect\<rparr>)
     | (Connect, Connected t) \<Rightarrow> Some (p, h\<lparr>hd_target := Some t, hd_at := Configure\<rparr>)
     | (Connect, Failed) \<Rightarrow> Some (p, h\<lparr>hd_at := CloseClient\<rparr>)
     | (Configure, Go) \<Rightarrow> Some (p, h\<lparr>hd_at := Enter\<rparr>)
     | (Configure, Failed) \<Rightarrow> Some (p, h\<lparr>hd_at := CloseClient\<rparr>)
     | (Enter, Go) \<Rightarrow> Some (p\<lparr>sp_active := sp_active p \<union> hd_socks h\<rparr>, h\<lparr>hd_at := Start\<rparr>)
     | (Start, Go) \<Rightarrow> (case hd_target h of None \<Rightarrow> None
         | Some t \<Rightarrow> Some (p, h\<lparr>hd_reverse := Some (relay_new t (hd_client h) False), hd_forward := Some (relay_new (hd_client h) t True), hd_at := Relaying\<rparr>))
     | (Start, Failed) \<Rightarrow> Some (p, h\<lparr>hd_at := CloseClient\<rparr>)
     | (Relaying, Go) \<Rightarrow> if relay_returned (hd_forward h) then Some (p, h\<lparr>hd_at := CloseClient\<rparr>) else None
     | (CloseClient, Go) \<Rightarrow> Some (close_socket (hd_client h) p, h\<lparr>hd_at := (if hd_target h = None then Leave else CloseTarget)\<rparr>)
     | (CloseTarget, Go) \<Rightarrow> (case hd_target h of None \<Rightarrow> None | Some t \<Rightarrow> Some (close_socket t p, h\<lparr>hd_at := Leave\<rparr>))
     | (Leave, Go) \<Rightarrow> Some (p\<lparr>sp_active := sp_active p - hd_socks h\<rparr>, h\<lparr>hd_at := Release\<rparr>)
     | (Release, Go) \<Rightarrow> Some (p\<lparr>sp_slots := sp_slots p + 1\<rparr>, h\<lparr>hd_at := Finish\<rparr>)
     | (Finish, Go) \<Rightarrow> Some (close_socket (hd_client h) p, h\<lparr>hd_at := Ended\<rparr>)
     | _ \<Rightarrow> None)"

section \<open>The proxy\<close>

type_synonym proxy_state = "SnapshotProxy \<times> handler list"

text \<open>
  \<open>Down\<close> and \<open>Up\<close> move a connection's forward and reverse relay. \<open>close\<close> first ends the accept loop
  and then closes the sockets that are active.
\<close>

datatype proxy_event = Accept sock | Handle nat handler_event | Down nat relay_event | Up nat relay_event | Shutdown | CloseActive

definition all_socks :: "handler list \<Rightarrow> sock set" where
  "all_socks hs = \<Union> (hd_socks ` set hs)"

text \<open>A socket that is accepted or connected is a new object.\<close>

definition fresh_event :: "handler_event \<Rightarrow> handler list \<Rightarrow> bool" where
  "fresh_event e hs \<longleftrightarrow> (case e of Connected t \<Rightarrow> t \<notin> all_socks hs | _ \<Rightarrow> True)"

fun proxy_step :: "proxy_event \<Rightarrow> proxy_state \<Rightarrow> proxy_state option" where
  "proxy_step (Accept c) (p, hs) = (if sp_serving p \<and> c \<notin> all_socks hs then Some (p, hs @ [handler_new c]) else None)"
| "proxy_step (Handle i e) (p, hs) = (if i < length hs \<and> fresh_event e hs
     then map_option (\<lambda>(q, h). (q, hs[i := h])) (handler_step e (p, hs ! i)) else None)"
| "proxy_step (Down i e) (p, hs) = (if i < length hs then (case hd_forward (hs ! i) of None \<Rightarrow> None
     | Some r \<Rightarrow> map_option (\<lambda>(q, r'). (q, hs[i := (hs ! i)\<lparr>hd_forward := Some r'\<rparr>])) (relay_step e (p, r))) else None)"
| "proxy_step (Up i e) (p, hs) = (if i < length hs then (case hd_reverse (hs ! i) of None \<Rightarrow> None
     | Some r \<Rightarrow> map_option (\<lambda>(q, r'). (q, hs[i := (hs ! i)\<lparr>hd_reverse := Some r'\<rparr>])) (relay_step e (p, r))) else None)"
| "proxy_step Shutdown (p, hs) = Some (p\<lparr>sp_serving := False\<rparr>, hs)"
| "proxy_step CloseActive (p, hs) = (if sp_serving p then None else Some (fold close_socket (sorted_list_of_set (sp_active p)) p, hs))"

end
