(* ===== verification/Proxy_Facts.thy ===== *)
theory Proxy_Facts
  imports Snapshot_Proxy Simulation
begin

text \<open>
  What holds of the throttling proxy under every interleaving of its threads: four invariants of its
  steps, each an interpretation of the locale \<open>machine\<close>, and the properties they give.
\<close>

section \<open>Invariants\<close>

text \<open>A sum over the handlers when one of them changes.\<close>

lemma sum_update: "i < length xs \<Longrightarrow> sum_list (map f (xs[i := y])) + f (xs ! i) = sum_list (map f xs) + (f y :: nat)"
  by (induction xs arbitrary: i) (auto split: nat.splits simp: add_ac)

lemma sum_update_same: "i < length xs \<Longrightarrow> f y = f (xs ! i) \<Longrightarrow> sum_list (map f (xs[i := y])) = sum_list (map f xs :: nat list)"
  using sum_update [of i xs f y] by simp

lemma fold_close [simp]:
  "sp_slots (fold close_socket ss p) = sp_slots p" "sp_drops (fold close_socket ss p) = sp_drops p"
  "sp_drop_after (fold close_socket ss p) = sp_drop_after p" "sp_downstream (fold close_socket ss p) = sp_downstream p"
  "sp_rate (fold close_socket ss p) = sp_rate p" "sp_active (fold close_socket ss p) = sp_active p"
  "sp_serving (fold close_socket ss p) = sp_serving p" "sp_closed (fold close_socket ss p) = sp_closed p \<union> set ss"
  by (induction ss arbitrary: p) (auto simp: close_socket_def)

lemma close_socket_simps [simp]:
  "sp_slots (close_socket s p) = sp_slots p" "sp_drops (close_socket s p) = sp_drops p"
  "sp_drop_after (close_socket s p) = sp_drop_after p" "sp_downstream (close_socket s p) = sp_downstream p"
  "sp_rate (close_socket s p) = sp_rate p" "sp_active (close_socket s p) = sp_active p"
  "sp_serving (close_socket s p) = sp_serving p" "sp_closed (close_socket s p) = insert s (sp_closed p)"
  by (auto simp: close_socket_def)

text \<open>The handlers that hold one of the four slots.\<close>

definition holds :: "handler \<Rightarrow> nat" where
  "holds h = of_bool (hd_at h \<notin> {Acquire, Finish, Ended})"

definition slots_inv :: "proxy_state \<Rightarrow> bool" where
  "slots_inv s \<longleftrightarrow> sp_slots (fst s) + sum_list (map holds (snd s)) = 4"

lemmas relay_splits = relay_at.splits relay_event.splits if_splits prod.splits

lemmas handler_splits = handler_at.splits handler_event.splits if_splits option.splits

lemma relay_frame:
  assumes "relay_step e (p, r) = Some (q, r')"
  shows "sp_slots q = sp_slots p" and "sp_rate q = sp_rate p" and "sp_active q = sp_active p" and "sp_closed p \<subseteq> sp_closed q"
    and "rl_throttle r' = rl_throttle r" and "rl_source r' = rl_source r" and "rl_destination r' = rl_destination r"
  using assms by (auto simp: count_bytes_def Let_def split: relay_splits)

lemma handler_slots: "handler_step e (p, h) = Some (q, h') \<Longrightarrow> sp_slots q + holds h' = sp_slots p + holds h"
  by (auto simp: holds_def split: handler_splits)

lemma proxy_step_elim:
  assumes "proxy_step e (p, hs) = Some (q, ks)"
  obtains (accept) c where "c \<notin> all_socks hs" and "q = p" and "ks = hs @ [handler_new c]"
  | (handle) i e' h where "i < length hs" and "fresh_event e' hs" and "handler_step e' (p, hs ! i) = Some (q, h)" and "ks = hs[i := h]"
  | (down) i e' r r' where "i < length hs" and "hd_forward (hs ! i) = Some r" and "relay_step e' (p, r) = Some (q, r')"
      and "ks = hs[i := (hs ! i)\<lparr>hd_forward := Some r'\<rparr>]"
  | (up) i e' r r' where "i < length hs" and "hd_reverse (hs ! i) = Some r" and "relay_step e' (p, r) = Some (q, r')"
      and "ks = hs[i := (hs ! i)\<lparr>hd_reverse := Some r'\<rparr>]"
  | (shutdown) "q = p\<lparr>sp_serving := False\<rparr>" and "ks = hs"
  | (close_active) "q = fold close_socket (sorted_list_of_set (sp_active p)) p" and "ks = hs"
proof (cases e)
  case (Accept c)
  then show ?thesis using assms accept by (simp split: if_splits)
next
  case (Handle i e')
  then show ?thesis using assms handle [of i e'] by (auto simp del: handler_step.simps split: if_splits)
next
  case (Down i e')
  then show ?thesis using assms down [of i _ e'] by (auto simp del: relay_step.simps split: if_splits option.splits)
next
  case (Up i e')
  then show ?thesis using assms up [of i _ e'] by (auto simp del: relay_step.simps split: if_splits option.splits)
next
  case Shutdown
  then show ?thesis using assms shutdown by simp
next
  case CloseActive
  then show ?thesis using assms close_active by (simp split: if_splits)
qed

lemma holds_simps [simp]: "holds (h\<lparr>hd_forward := x\<rparr>) = holds h" "holds (h\<lparr>hd_reverse := x\<rparr>) = holds h" "holds (handler_new c) = 0"
  by (simp_all add: holds_def handler_new_def)

lemma proxy_machine:
  assumes "\<And>e p hs q ks. P (p, hs) \<Longrightarrow> proxy_step e (p, hs) = Some (q, ks) \<Longrightarrow> P (q, ks)"
  shows "machine proxy_step P"
  using assms by unfold_locales force

interpretation slots: machine proxy_step slots_inv
proof (rule proxy_machine)
  fix e p hs q ks
  assume inv: "slots_inv (p, hs)" and "proxy_step e (p, hs) = Some (q, ks)"
  from this(2) show "slots_inv (q, ks)"
  proof (cases rule: proxy_step_elim)
    case (handle i e' h)
    show ?thesis using inv handler_slots [OF handle(3)] sum_update [OF handle(1), of holds h] by (simp add: slots_inv_def handle(4))
  qed (use inv in \<open>auto simp: slots_inv_def sum_update_same relay_frame simp del: relay_step.simps\<close>)
qed

text \<open>The bytes of a throttled relay that the proxy has counted, and what a relay still holds back.\<close>

definition counted :: "relay \<Rightarrow> nat" where
  "counted r = length (rl_received r) - (case rl_at r of Sleeping d \<Rightarrow> length d | Counting d \<Rightarrow> length d | _ \<Rightarrow> 0)"

definition flow :: "handler \<Rightarrow> nat" where
  "flow h = (case hd_forward h of None \<Rightarrow> 0 | Some r \<Rightarrow> counted r)"

definition relay_ok :: "relay \<Rightarrow> bool" where
  "relay_ok r \<longleftrightarrow>
    (case rl_at r of
       Receiving \<Rightarrow> rl_received r = rl_sent r
     | Sleeping d \<Rightarrow> rl_throttle r \<and> rl_received r = rl_sent r @ d \<and> length d \<le> 8192
     | Counting d \<Rightarrow> rl_throttle r \<and> rl_received r = rl_sent r @ d \<and> length d \<le> 8192
     | Sending d \<Rightarrow> rl_received r = rl_sent r @ d \<and> length d \<le> 8192
     | _ \<Rightarrow> prefix (rl_sent r) (rl_received r) \<and> length (rl_received r) \<le> length (rl_sent r) + 8192)"

lemma relay_ok_new [simp]: "relay_ok (relay_new a b x)" "counted (relay_new a b x) = 0" "rl_throttle (relay_new a b x) = x"
  by (simp_all add: relay_ok_def counted_def relay_new_def)

lemma relay_step_ok:
  assumes "relay_step e (p, r) = Some (q, r')" and "relay_ok r"
  shows "relay_ok r'"
  using assms by (auto simp: relay_ok_def count_bytes_def Let_def take_is_prefix split: relay_splits)

lemma relay_step_counts:
  assumes "relay_step e (p, r) = Some (q, r')" and "relay_ok r" and "rl_throttle r" and "0 < sp_rate p"
  shows "sp_downstream q + counted r = sp_downstream p + counted r'"
  using assms by (auto simp: relay_ok_def counted_def count_bytes_def Let_def split: relay_splits)

lemma relay_step_uncounted:
  assumes "relay_step e (p, r) = Some (q, r')" and "relay_ok r" and "\<not> rl_throttle r"
  shows "sp_downstream q = sp_downstream p" and "sp_drops q = sp_drops p" and "sp_drop_after q = sp_drop_after p"
  using assms by (auto simp: relay_ok_def split: relay_splits)

definition handler_ok :: "handler \<Rightarrow> bool" where
  "handler_ok h \<longleftrightarrow> (hd_at h \<in> {Acquire, Connect, Configure, Enter, Start} \<longrightarrow> hd_forward h = None)
    \<and> (\<forall>r. hd_forward h = Some r \<longrightarrow> rl_throttle r \<and> relay_ok r) \<and> (\<forall>r. hd_reverse h = Some r \<longrightarrow> \<not> rl_throttle r \<and> relay_ok r)"

lemma handler_step_ok:
  assumes "handler_step e (p, h) = Some (q, h')" and "handler_ok h"
  shows "handler_ok h'" and "flow h' = flow h"
  using assms by (auto simp: handler_ok_def flow_def split: handler_splits)

lemma handler_frame:
  assumes "handler_step e (p, h) = Some (q, h')"
  shows "sp_downstream q = sp_downstream p" and "sp_rate q = sp_rate p" and "sp_drops q = sp_drops p" and "sp_drop_after q = sp_drop_after p"
    and "hd_client h' = hd_client h" and "sp_closed p \<subseteq> sp_closed q"
  using assms by (auto split: handler_splits)

definition flow_inv :: "proxy_state \<Rightarrow> bool" where
  "flow_inv s \<longleftrightarrow> 0 < sp_rate (fst s) \<and> (\<forall>h \<in> set (snd s). handler_ok h) \<and> sp_downstream (fst s) = sum_list (map flow (snd s))"

interpretation flows: machine proxy_step flow_inv
proof (rule proxy_machine)
  fix e p hs q ks
  assume inv: "flow_inv (p, hs)" and "proxy_step e (p, hs) = Some (q, ks)"
  have ok: "handler_ok (hs ! i)" if "i < length hs" for i using inv that by (simp add: flow_inv_def)
  have others: "handler_ok h \<Longrightarrow> \<forall>k \<in> set (hs[i := h]). handler_ok k" for i h
    using inv set_update_subset_insert [of hs i h] by (auto simp: flow_inv_def)
  from \<open>proxy_step _ _ = _\<close> show "flow_inv (q, ks)"
  proof (cases rule: proxy_step_elim)
    case (accept c)
    then show ?thesis using inv by (auto simp: flow_inv_def handler_new_def handler_ok_def flow_def)
  next
    case (handle i e' h)
    note same = handler_step_ok [OF handle(3) ok [OF handle(1)]] handler_frame [OF handle(3)]
    show ?thesis using inv same others [OF same(1)] sum_update_same [OF handle(1), of flow h] by (simp add: flow_inv_def handle(4))
  next
    case (down i e' r r')
    have r: "rl_throttle r" "relay_ok r" using ok [OF down(1)] down(2) by (auto simp: handler_ok_def)
    let ?h = "(hs ! i)\<lparr>hd_forward := Some r'\<rparr>"
    have h: "handler_ok ?h"
      using ok [OF down(1)] down(2) r relay_step_ok [OF down(3) r(2)] relay_frame(5) [OF down(3)] by (auto simp: handler_ok_def)
    have "sp_downstream q + flow (hs ! i) = sp_downstream p + flow ?h"
      using relay_step_counts [OF down(3) r(2,1)] inv down(2) by (simp add: flow_inv_def flow_def)
    then show ?thesis
      using inv others [OF h] sum_update [OF down(1), of flow ?h] relay_frame(2) [OF down(3)] by (simp add: flow_inv_def down(4))
  next
    case (up i e' r r')
    have r: "\<not> rl_throttle r" "relay_ok r" using ok [OF up(1)] up(2) by (auto simp: handler_ok_def)
    let ?h = "(hs ! i)\<lparr>hd_reverse := Some r'\<rparr>"
    have h: "handler_ok ?h"
      using ok [OF up(1)] r relay_step_ok [OF up(3) r(2)] relay_frame(5) [OF up(3)] by (auto simp: handler_ok_def)
    have "flow ?h = flow (hs ! i)" by (simp add: flow_def)
    then show ?thesis
      using inv others [OF h] sum_update_same [OF up(1), of flow ?h] relay_frame(2) [OF up(3)] relay_step_uncounted(1) [OF up(3) r(2,1)]
      by (simp add: flow_inv_def up(4))
  qed (use inv in \<open>auto simp: flow_inv_def\<close>)
qed

text \<open>The limit of the run is kept in \<open>limit\<close>: it disarms once, when it is reached.\<close>

definition drop_inv :: "nat \<Rightarrow> proxy_state \<Rightarrow> bool" where
  "drop_inv limit s \<longleftrightarrow> (let p = fst s in
    if sp_drops p = 0 then sp_drop_after p = limit \<and> (limit = 0 \<or> sp_downstream p < limit)
    else sp_drops p = 1 \<and> sp_drop_after p = 0 \<and> 0 < limit \<and> limit \<le> sp_downstream p)"

lemma relay_step_drops: "relay_step e (p, r) = Some (q, r') \<Longrightarrow> drop_inv limit (p, hs) \<Longrightarrow> drop_inv limit (q, ks)"
  by (auto simp: drop_inv_def count_bytes_def Let_def split: relay_splits)

interpretation drops: machine proxy_step "drop_inv limit" for limit
proof (rule proxy_machine)
  fix e p hs q ks
  assume inv: "drop_inv limit (p, hs)" and "proxy_step e (p, hs) = Some (q, ks)"
  from this(2) show "drop_inv limit (q, ks)"
    by (cases rule: proxy_step_elim)
      (use inv in \<open>auto simp: drop_inv_def Let_def handler_frame dest: relay_step_drops simp del: relay_step.simps handler_step.simps\<close>)
qed

text \<open>
  The sockets of the handlers are disjoint; those between \<open>Enter\<close> and \<open>Leave\<close> are active, no others,
  and a handler has closed its own before it is done.
\<close>

definition sock_ok :: "SnapshotProxy \<Rightarrow> handler \<Rightarrow> bool" where
  "sock_ok p h \<longleftrightarrow>
    (hd_at h \<in> {Acquire, Connect} \<longrightarrow> hd_target h = None) \<and>
    (hd_at h \<in> {Start, Relaying} \<longrightarrow> hd_socks h \<subseteq> sp_active p) \<and>
    (hd_at h \<in> {Acquire, Connect, Configure, Enter, Release, Finish, Ended} \<longrightarrow> hd_socks h \<inter> sp_active p = {}) \<and>
    (hd_at h = CloseTarget \<longrightarrow> hd_client h \<in> sp_closed p) \<and>
    (hd_at h \<in> {Leave, Release, Ended} \<longrightarrow> hd_socks h \<subseteq> sp_closed p) \<and>
    (hd_at h = Finish \<longrightarrow> set_option (hd_target h) \<subseteq> sp_closed p)"

definition socks_inv :: "proxy_state \<Rightarrow> bool" where
  "socks_inv s \<longleftrightarrow> (case s of (p, hs) \<Rightarrow>
    (\<forall>i < length hs. \<forall>j < length hs. i \<noteq> j \<longrightarrow> hd_socks (hs ! i) \<inter> hd_socks (hs ! j) = {}) \<and>
    sp_active p \<subseteq> all_socks hs \<and> (\<forall>i < length hs. sock_ok p (hs ! i)))"

lemma sock_ok_frame:
  assumes "sock_ok p h" and "sp_active q \<inter> hd_socks h = sp_active p \<inter> hd_socks h" and "sp_closed p \<subseteq> sp_closed q"
  shows "sock_ok q h"
  using assms unfolding sock_ok_def by (intro conjI impI) blast+

lemma all_socks_nth: "x \<in> all_socks hs \<longleftrightarrow> (\<exists>i < length hs. x \<in> hd_socks (hs ! i))"
  by (fastforce simp: all_socks_def in_set_conv_nth)

lemma handler_socks:
  assumes "handler_step e (p, h) = Some (q, h')" and "sock_ok p h"
  shows "hd_socks h \<subseteq> hd_socks h'" and "hd_socks h' \<subseteq> hd_socks h \<union> (case e of Connected t \<Rightarrow> {t} | _ \<Rightarrow> {})"
    and "sp_active q - hd_socks h = sp_active p - hd_socks h"
  using assms by (auto simp: hd_socks_def sock_ok_def split: handler_splits)

lemma handler_sock_ok:
  assumes "handler_step e (p, h) = Some (q, h')" and "sock_ok p h" and "\<And>t. e = Connected t \<Longrightarrow> t \<notin> sp_active p"
  shows "sock_ok q h'"
  using assms by (auto simp: hd_socks_def sock_ok_def split: handler_splits)

lemma socks_update:
  assumes "socks_inv (p, hs)" and i: "i < length hs" and grows: "hd_socks (hs ! i) \<subseteq> hd_socks h"
    and fresh: "\<And>x. x \<in> hd_socks h \<Longrightarrow> x \<notin> hd_socks (hs ! i) \<Longrightarrow> x \<notin> all_socks hs"
    and active: "sp_active q - hd_socks (hs ! i) = sp_active p - hd_socks (hs ! i)" and "sock_ok q h" and closed: "sp_closed p \<subseteq> sp_closed q"
  shows "socks_inv (q, hs[i := h])"
proof -
  have apart: "hd_socks h \<inter> hd_socks (hs ! j) = {}" if "j < length hs" "j \<noteq> i" for j
    using that assms(1) i fresh by (fastforce simp: socks_inv_def all_socks_nth)
  have "sock_ok q (hs ! j)" if "j < length hs" "j \<noteq> i" for j
  proof (rule sock_ok_frame [OF _ _ closed])
    show "sock_ok p (hs ! j)" using assms(1) that by (simp add: socks_inv_def)
    show "sp_active q \<inter> hd_socks (hs ! j) = sp_active p \<inter> hd_socks (hs ! j)" using apart [OF that] grows active by blast
  qed
  moreover have "sp_active q \<subseteq> all_socks (hs[i := h])"
  proof
    fix x assume x: "x \<in> sp_active q"
    show "x \<in> all_socks (hs[i := h])"
    proof (cases "x \<in> hd_socks (hs ! i)")
      case True
      then show ?thesis using grows i by (auto simp: all_socks_nth intro!: exI [of _ i])
    next
      case False
      then have "x \<in> all_socks hs" using x active assms(1) by (auto simp: socks_inv_def)
      then obtain j where "j < length hs" "x \<in> hd_socks (hs ! j)" by (auto simp: all_socks_nth)
      moreover from this False have "j \<noteq> i" by blast
      ultimately show ?thesis by (auto simp: all_socks_nth intro!: exI [of _ j])
    qed
  qed
  moreover have "hd_socks (hs[i := h] ! a) \<inter> hd_socks (hs[i := h] ! b) = {}" if "a < length hs" "b < length hs" "a \<noteq> b" for a b
    using that assms(1) apart [of a] apart [of b] by (cases "a = i"; cases "b = i") (auto simp: socks_inv_def)
  moreover have "sock_ok q (hs[i := h] ! a)" if "a < length hs" for a
    using that assms(6) calculation(1) [of a] by (cases "a = i") auto
  ultimately show ?thesis by (simp add: socks_inv_def)
qed

lemma socks_accept: "socks_inv (p, hs) \<Longrightarrow> c \<notin> all_socks hs \<Longrightarrow> socks_inv (p, hs @ [handler_new c])"
proof -
  assume inv: "socks_inv (p, hs)" and c: "c \<notin> all_socks hs"
  have "hd_socks (handler_new c) = {c}" and "all_socks (hs @ [handler_new c]) = insert c (all_socks hs)"
    by (auto simp: handler_new_def hd_socks_def all_socks_def)
  moreover have "sock_ok p (handler_new c)"
    using inv c by (auto simp: sock_ok_def handler_new_def hd_socks_def socks_inv_def)
  ultimately show ?thesis
    using inv c by (auto simp: socks_inv_def nth_append less_Suc_eq all_socks_nth)
qed

lemma socks_same [simp]:
  "hd_socks (h\<lparr>hd_forward := x\<rparr>) = hd_socks h" "hd_socks (h\<lparr>hd_reverse := x\<rparr>) = hd_socks h"
  "sock_ok p (h\<lparr>hd_forward := x\<rparr>) = sock_ok p h" "sock_ok p (h\<lparr>hd_reverse := x\<rparr>) = sock_ok p h"
  by (auto simp: hd_socks_def sock_ok_def)

lemma socks_frame:
  assumes "socks_inv (p, hs)" and "sp_active q = sp_active p" and "sp_closed p \<subseteq> sp_closed q"
  shows "socks_inv (q, hs)"
  using assms(1) sock_ok_frame [of p _ q] assms(2,3) by (simp add: socks_inv_def)

lemma socks_relay:
  assumes "socks_inv (p, hs)" and "i < length hs" and "relay_step e (p, r) = Some (q, r')"
    and "hd_socks h = hd_socks (hs ! i)" and "sock_ok q h = sock_ok q (hs ! i)"
  shows "socks_inv (q, hs[i := h])"
proof -
  have inv: "socks_inv (q, hs)" using socks_frame [OF assms(1)] relay_frame [OF assms(3)] by blast
  show ?thesis by (rule socks_update [OF inv assms(2)]) (use inv assms(2,4,5) in \<open>auto simp: socks_inv_def\<close>)
qed

interpretation socks: machine proxy_step socks_inv
proof (rule proxy_machine)
  fix e p hs q ks
  assume inv: "socks_inv (p, hs)" and "proxy_step e (p, hs) = Some (q, ks)"
  from this(2) show "socks_inv (q, ks)"
  proof (cases rule: proxy_step_elim)
    case (accept c)
    then show ?thesis using socks_accept [OF inv] by simp
  next
    case (handle i e' h)
    have ok: "sock_ok p (hs ! i)" and active: "sp_active p \<subseteq> all_socks hs" using inv handle(1) by (auto simp: socks_inv_def)
    note step = handler_socks [OF handle(3) ok] handler_sock_ok [OF handle(3) ok] handler_frame(6) [OF handle(3)]
    show ?thesis
      unfolding handle(4) by (rule socks_update [OF inv handle(1)]) (use step handle(2) active in \<open>auto simp: fresh_event_def split: handler_event.splits\<close>)
  next
    case (down i e' r r')
    show ?thesis unfolding down(4) by (rule socks_relay [OF inv down(1,3)]) simp_all
  next
    case (up i e' r r')
    show ?thesis unfolding up(4) by (rule socks_relay [OF inv up(1,3)]) simp_all
  next
    case shutdown
    then show ?thesis using socks_frame [OF inv, of q] by simp
  next
    case close_active
    then show ?thesis using socks_frame [OF inv, of q] by simp
  qed
qed

section \<open>Properties\<close>

text \<open>
  C31. However the threads of the proxy interleave: at most four connections are served at once and
  every free slot is accounted for; the counter of downstream bytes is the number of bytes the
  throttled relays have passed to it; and the limit drops one transfer at most, and one as soon as
  it is reached.
\<close>

theorem proxy_counters_exact:
  assumes "proxy_new U target kib limit = Inr p0" and "0 < kib" and "run_events proxy_step es (p0, []) = Some (p, hs)"
  shows "sp_slots p + length (filter (\<lambda>h. hd_at h \<notin> {Acquire, Finish, Ended}) hs) = 4
    \<and> sp_downstream p = sum_list (map flow hs)
    \<and> sp_drops p = (if 0 < limit \<and> limit \<le> sp_downstream p then 1 else 0)"
proof -
  have start: "slots_inv (p0, [])" "flow_inv (p0, [])" "drop_inv limit (p0, [])"
    using assms(1,2) by (auto simp: proxy_new_def Let_def slots_inv_def flow_inv_def drop_inv_def split: if_splits option.splits)
  have "sum_list (map holds hs) = length (filter (\<lambda>h. hd_at h \<notin> {Acquire, Finish, Ended}) hs)"
    by (induction hs) (auto simp: holds_def)
  then show ?thesis
    using slots.run_inv [OF start(1) assms(3)] flows.run_inv [OF start(2) assms(3)] drops.run_inv [OF start(3) assms(3)]
    by (auto simp: slots_inv_def flow_inv_def drop_inv_def Let_def split: if_splits)
qed

text \<open>
  C32. The proxy is transparent: each direction of each connection has passed on a prefix of what it
  received, all of it while it waits for more (so at the end of a stream), and never withholds more
  than one read of 8192 bytes.
\<close>

theorem proxy_forwards_prefix:
  assumes "proxy_new U target kib limit = Inr p0" and "0 < kib" and "run_events proxy_step es (p0, []) = Some (p, hs)"
    and "h \<in> set hs" and "hd_forward h = Some r \<or> hd_reverse h = Some r"
  shows "prefix (rl_sent r) (rl_received r) \<and> length (rl_received r) \<le> length (rl_sent r) + 8192
    \<and> (rl_at r = Receiving \<longrightarrow> rl_sent r = rl_received r)"
proof -
  have "flow_inv (p0, [])"
    using assms(1,2) by (auto simp: proxy_new_def Let_def flow_inv_def split: if_splits option.splits)
  then have "relay_ok r"
    using flows.run_inv [OF _ assms(3)] assms(4,5) by (auto simp: flow_inv_def handler_ok_def)
  then show ?thesis by (auto simp: relay_ok_def split: relay_at.splits)
qed

text \<open>
  C33. The proxy leaks nothing: when every handler has ended all four slots are free, no socket is
  active, and every socket it accepted or opened is closed. Before that, whatever a handler relays on
  is active, so that \<open>close\<close> reaches it.
\<close>

theorem proxy_releases_all:
  assumes "proxy_new U target kib limit = Inr p0" and "run_events proxy_step es (p0, []) = Some (p, hs)"
  shows "((\<forall>h \<in> set hs. hd_at h = Ended) \<longrightarrow> sp_slots p = 4 \<and> sp_active p = {} \<and> all_socks hs \<subseteq> sp_closed p)
    \<and> (\<forall>h \<in> set hs. hd_at h = Relaying \<longrightarrow> hd_socks h \<subseteq> sp_active p)"
    (is "?idle \<and> ?live")
proof -
  have start: "slots_inv (p0, [])" "socks_inv (p0, [])"
    using assms(1) by (auto simp: proxy_new_def Let_def slots_inv_def socks_inv_def split: if_splits option.splits)
  have inv: "slots_inv (p, hs)" "sp_active p \<subseteq> all_socks hs" "\<And>h. h \<in> set hs \<Longrightarrow> sock_ok p h"
    using slots.run_inv [OF start(1) assms(2)] socks.run_inv [OF start(2) assms(2)] by (auto simp: socks_inv_def in_set_conv_nth)
  have ended: "sum_list (map holds hs) = 0" "all_socks hs \<subseteq> sp_closed p" "all_socks hs \<inter> sp_active p = {}"
    if "\<forall>h \<in> set hs. hd_at h = Ended"
  proof -
    show "sum_list (map holds hs) = 0" using that by (induction hs) (auto simp: holds_def)
    have "hd_socks h \<subseteq> sp_closed p \<and> hd_socks h \<inter> sp_active p = {}" if "h \<in> set hs" for h
      using inv(3) [OF that] \<open>\<forall>h \<in> set hs. _ h\<close> that by (simp add: sock_ok_def)
    then show "all_socks hs \<subseteq> sp_closed p" "all_socks hs \<inter> sp_active p = {}" by (auto simp: all_socks_def)
  qed
  show "?idle \<and> ?live"
  proof (intro conjI impI ballI)
    assume all: "\<forall>h \<in> set hs. hd_at h = Ended"
    show "sp_slots p = 4" using inv(1) ended(1) [OF all] by (simp add: slots_inv_def)
    show "sp_active p = {}" using inv(2) ended(3) [OF all] by blast
    show "all_socks hs \<subseteq> sp_closed p" using ended(2) [OF all] .
  next
    fix h assume "h \<in> set hs" "hd_at h = Relaying"
    then show "hd_socks h \<subseteq> sp_active p" using inv(3) by (simp add: sock_ok_def)
  qed
qed

text \<open>A connection of which the second read reaches a limit of five bytes, to its end.\<close>

definition demo_target :: pstr where
  "demo_target = lit ''h:1''"

definition demo_relayed :: "proxy_event list" where
  "demo_relayed = [Accept 1, Handle 0 Go, Handle 0 (Connected 2), Handle 0 Go, Handle 0 Go, Handle 0 Go,
     Down 0 (Received [7, 8, 9]), Down 0 Move, Down 0 Move, Down 0 Sent, Up 0 (Received [5]), Up 0 Sent,
     Down 0 (Received [10, 11]), Down 0 Move, Down 0 Move]"

definition demo_ended :: "proxy_event list" where
  "demo_ended = demo_relayed @ [Down 0 Move, Down 0 Move, Handle 0 Go, Handle 0 Go, Handle 0 Go, Handle 0 Go, Handle 0 Go, Handle 0 Go]"

definition demo_proxy :: "sock set \<Rightarrow> nat \<Rightarrow> nat \<Rightarrow> sock set \<Rightarrow> nat \<Rightarrow> nat \<Rightarrow> SnapshotProxy" where
  "demo_proxy active free armed shut n dropped = \<lparr>sp_target = ([104], 1), sp_rate = 1024, sp_drop_after = armed,
     sp_downstream = n, sp_drops = dropped, sp_active = active, sp_slots = free, sp_serving = True, sp_closed = shut\<rparr>"

definition demo_handler :: "relay_at \<Rightarrow> handler_at \<Rightarrow> handler" where
  "demo_handler r h = \<lparr>hd_client = 1, hd_target = Some 2,
     hd_forward = Some \<lparr>rl_source = 1, rl_destination = 2, rl_throttle = True, rl_at = r, rl_received = [7, 8, 9, 10, 11], rl_sent = [7, 8, 9]\<rparr>,
     hd_reverse = Some \<lparr>rl_source = 2, rl_destination = 1, rl_throttle = False, rl_at = Receiving, rl_received = [5], rl_sent = [5]\<rparr>,
     hd_at = h\<rparr>"

lemma demo_runs:
  "proxy_new ascii_unidb demo_target 1 5 = Inr (demo_proxy {} 4 5 {} 0 0)"
  "run_events proxy_step demo_relayed (demo_proxy {} 4 5 {} 0 0, []) = Some (demo_proxy {1, 2} 3 0 {} 5 1, [demo_handler CloseSource Relaying])"
  "run_events proxy_step demo_ended (demo_proxy {} 4 5 {} 0 0, []) = Some (demo_proxy {} 4 0 {1, 2} 5 1, [demo_handler Returned Ended])"
  by code_simp+

theorem proxy_counters_exact_witness:
  "sp_slots (demo_proxy {1, 2} 3 0 {} 5 1) + 1 = 4 \<and> sp_drops (demo_proxy {1, 2} 3 0 {} 5 1) = 1"
  using proxy_counters_exact [OF demo_runs(1) _ demo_runs(2)] by (simp add: demo_proxy_def demo_handler_def)

theorem proxy_forwards_prefix_witness:
  "prefix [7, 8, 9] [7, 8, 9, 10, 11 :: nat] \<and> hd_at (demo_handler CloseSource Relaying) = Relaying"
  using proxy_forwards_prefix [OF demo_runs(1) _ demo_runs(2), of "demo_handler CloseSource Relaying" "the (hd_forward (demo_handler CloseSource Relaying))"]
  by (simp add: demo_handler_def)

theorem proxy_releases_all_witness:
  "sp_slots (demo_proxy {} 4 0 {1, 2} 5 1) = 4 \<and> all_socks [demo_handler Returned Ended] \<subseteq> sp_closed (demo_proxy {} 4 0 {1, 2} 5 1)
    \<and> hd_socks (demo_handler CloseSource Relaying) \<subseteq> sp_active (demo_proxy {1, 2} 3 0 {} 5 1)"
  using proxy_releases_all [OF demo_runs(1,3)] proxy_releases_all [OF demo_runs(1,2)] by (simp add: demo_handler_def)

end
