(* ===== verification/Qualification.thy ===== *)
theory Qualification
  imports Net_Cluster Process_Cluster
begin

text \<open>
  \<open>tools/qualification_worker.py\<close>: the supervisor of one voter on a remote host, which a forced command of SSH
  starts. It speaks length-prefixed frames with the controller and with its child, enforces resource
  budgets, and audits the database of a stopped voter. \<open>audit_replicas\<close> of \<open>tools/audit_recovery.py\<close> compares the
  audits of three hosts. The limits of the child process and the signals are the host's.
\<close>

section \<open>The host\<close>

datatype stream = Stdin | Stdout | ChildIn nat | ChildOut nat

text \<open>
  \<open>qo_select\<close> is \<open>select.select([stream], [], [], seconds)\<close>, \<open>qo_send\<close> \<open>write\<close> and \<open>flush\<close>, \<open>qo_sizes\<close> the sizes of
  \<open>root.glob('*/node.db*')\<close>, \<open>qo_row\<close> the line of a row in a digest and \<open>qo_digest\<close> the digest
  of such lines, \<open>qo_child\<close> the child with its limits and the file of its diagnostics, \<open>qo_isfile\<close> \<open>Path.is_file\<close>,
  \<open>qo_mkdir\<close> an exclusive \<open>mkdir\<close>, \<open>qo_facts\<close> what \<open>inspect\<close> asks the kernel
  and the tools of the machine (names, affinity, file system, virtualization, clock).
\<close>

record 'w qualops =
  qo_host :: "'w hostops"
  qo_clock :: "'w \<Rightarrow> rat \<times> 'w"
  qo_select :: "stream \<Rightarrow> rat \<Rightarrow> 'w \<Rightarrow> bool \<times> 'w"
  qo_read :: "stream \<Rightarrow> nat \<Rightarrow> 'w \<Rightarrow> pbytes res \<times> 'w"
  qo_send :: "stream \<Rightarrow> pbytes \<Rightarrow> 'w \<Rightarrow> unit res \<times> 'w"
  qo_sizes :: "pstr \<Rightarrow> 'w \<Rightarrow> int list \<times> 'w"
  qo_open :: "pstr \<Rightarrow> 'w \<Rightarrow> nat res \<times> 'w"
  qo_query :: "nat \<Rightarrow> pstr \<Rightarrow> 'w \<Rightarrow> cell list list res \<times> 'w"
  qo_close :: "nat \<Rightarrow> 'w \<Rightarrow> unit \<times> 'w"
  qo_row :: "cell list \<Rightarrow> pbytes res"
  qo_digest :: "pbytes list \<Rightarrow> pstr"
  qo_child :: "pstr list \<Rightarrow> pstr \<Rightarrow> 'w \<Rightarrow> nat res \<times> 'w"
  qo_mkdir :: "pstr \<Rightarrow> 'w \<Rightarrow> unit res \<times> 'w"
  qo_isfile :: "pstr \<Rightarrow> 'w \<Rightarrow> bool \<times> 'w"
  qo_loads :: "pbytes \<Rightarrow> json res"
  qo_dumps :: "json \<Rightarrow> pbytes"
  qo_float :: "rat \<Rightarrow> json"
  qo_facts :: "pstr \<Rightarrow> 'w \<Rightarrow> dict res \<times> 'w"
  qo_version :: pstr
  qo_unicode :: unidb

section \<open>Frames\<close>

text \<open>The loop of \<open>exact\<close>: the local variables are \<open>count\<close> and the bytes of \<open>parts\<close>.\<close>

definition exact_step :: "'w qualops \<Rightarrow> stream \<Rightarrow> rat \<Rightarrow> ((nat \<times> pbytes) \<times> 'o \<times> 'w, unit option) comp" where
  "exact_step Q st deadline = bindM objM (\<lambda>(count, parts).
    bindM (innerM (askM (qo_clock Q))) (\<lambda>now.
    let remaining = deadline - now in
    bindM ((if remaining \<le> 0 then retM False else innerM (askM (qo_select Q st remaining)))) (\<lambda>ready.
    bindM (whenM (\<not> ready) (TimeoutError ''Supervisor frame timeout'')) (\<lambda>_.
    bindM (innerM (worldM (qo_read Q st count))) (\<lambda>chunk.
    bindM (whenM (chunk = []) EOFError) (\<lambda>_.
    bindM (updM (\<lambda>_. (count - length chunk, parts @ chunk))) (\<lambda>_.
    retM None)))))))"

definition exact :: "'w qualops \<Rightarrow> stream \<Rightarrow> rat \<Rightarrow> nat \<Rightarrow> ('o \<times> 'w, pbytes) comp" where
  "exact Q st deadline count = localM (count, []) (bindM (whileM (bindM objM (\<lambda>(count, _). retM (count \<noteq> 0))) (exact_step Q st deadline)) (\<lambda>_.
    bindM objM (\<lambda>(_, parts).
    retM parts)))"

definition read_frame :: "'w qualops \<Rightarrow> stream \<Rightarrow> rat \<Rightarrow> ('o \<times> 'w, pbytes) comp" where
  "read_frame Q st deadline = bindM (exact Q st deadline 4) (\<lambda>header.
    let len = un_le32 header in
    bindM (whenM (\<not> (0 < len \<and> len \<le> MAX_FRAME)) (ValueError ''Frame length outside budget'')) (\<lambda>_.
    exact Q st deadline len))"

definition send_frame :: "'w qualops \<Rightarrow> stream \<Rightarrow> pbytes \<Rightarrow> ('o \<times> 'w, unit) comp" where
  "send_frame Q st payload = bindM (whenM (\<not> (0 < length payload \<and> length payload \<le> MAX_FRAME)) (ValueError ''Frame length outside budget'')) (\<lambda>_.
    worldM (qo_send Q st (le32 (length payload) @ payload)))"

section \<open>Resources\<close>

text \<open>\<open>key, value, _ = line.split()\<close> for the lines of \<open>/proc/{pid}/status\<close> that count.\<close>

definition memory_line :: "unidb \<Rightarrow> pstr \<Rightarrow> dict \<Rightarrow> dict res" where
  "memory_line U line d =
    (if starts_with line (lit ''VmRSS:'') \<or> starts_with line (lit ''VmHWM:'')
     then (case split_words U line of
         [key, value, _] \<Rightarrow> bindR (int_res U value) (\<lambda>n. Inr (dset d (takeWhile (\<lambda>c. c \<noteq> 58) key) (JInt (n * 1024))))
       | _ \<Rightarrow> Inl (ValueError ''values to unpack (expected 3)''))
     else Inr d)"

fun memory_lines :: "unidb \<Rightarrow> pstr list \<Rightarrow> dict \<Rightarrow> dict res" where
  "memory_lines U [] d = Inr d"
| "memory_lines U (l # ls) d = bindR (memory_line U l d) (memory_lines U ls)"

definition host_usage :: "'w qualops \<Rightarrow> pstr \<Rightarrow> nat option \<Rightarrow> ('o \<times> 'w, dict) comp" where
  "host_usage Q home child = (let H = qo_host Q in
    bindM (askM (ho_free H home)) (\<lambda>free.
    bindM (askM (qo_sizes Q home)) (\<lambda>sizes.
    let result = [((lit ''free_bytes''), JInt free), ((lit ''data_bytes''), JInt (sum_list sizes))] in
    (case child of
       None \<Rightarrow> retM result
     | Some pid \<Rightarrow> bindM (worldM (ho_read H (lit ''/proc/'' @ dec pid @ lit ''/stat''))) (\<lambda>stat.
         bindM (liftR (stat_ticks (qo_unicode Q) stat)) (\<lambda>ticks.
         let timed = dset (dset result (lit ''pid'') (JInt (int pid))) (lit ''cpu_seconds'') (qo_float Q (of_int ticks / ho_clk_tck H)) in
         bindM (worldM (ho_read H (lit ''/proc/'' @ dec pid @ lit ''/status''))) (\<lambda>status.
         liftR (memory_lines (qo_unicode Q) (split_on (\<lambda>c. c = 10) status) timed))))))))"

definition identity_file :: "'w qualops \<Rightarrow> pstr \<Rightarrow> ('o \<times> 'w, pstr \<times> json) comp" where
  "identity_file Q name = bindM (askM (ho_exists (qo_host Q) name)) (\<lambda>exists.
    (if exists then bindM (worldM (ho_read (qo_host Q) name)) (\<lambda>contents. retM (name, JStr (strip (qo_unicode Q) contents))) else retM (name, JNull)))"

definition inspect :: "'w qualops \<Rightarrow> pstr \<Rightarrow> ('o \<times> 'w, dict) comp" where
  "inspect Q home = bindM (mapM (identity_file Q) [(lit ''/etc/os-release''), (lit ''/etc/machine-id''), (lit ''/proc/sys/kernel/random/boot_id''),
      (lit ''/sys/fs/cgroup/memory.max''), (lit ''/sys/fs/cgroup/cpu.max'')]) (\<lambda>files.
    bindM (worldM (qo_facts Q home)) (\<lambda>facts.
    bindM (host_usage Q home None) (\<lambda>resources.
    bindM (worldM (ho_sha256 (qo_host Q) (path_join home (lit ''worker'')))) (\<lambda>digest.
    retM (dset (dset (dset facts (lit ''identity'') (JObj files)) (lit ''resources'') (JObj resources)) (lit ''binary_sha256'') (JStr digest))))))"

section \<open>The audit\<close>

definition audit_queries :: "(string \<times> pstr) list" where
  "audit_queries =
    [(''accounts'', (lit ''SELECT * FROM accounts ORDER BY id'')),
     (''transfers'', (lit ''SELECT * FROM transfers ORDER BY id'')),
     (''ledger'', (lit ''SELECT * FROM ledger ORDER BY tx,account'')),
     (''sessions'', (lit ''SELECT hex(session),seq,hex(hash),kind,code,changes,slot FROM _sqlodin_sessions ORDER BY session'')),
     (''state'', (lit ''SELECT * FROM _sqlodin_state ORDER BY id''))]"

text \<open>One row of \<open>transfers\<close>: it is prescribed by its identifier. A list index must be an integer.\<close>

definition audit_row :: "cell list \<Rightarrow> int list \<times> nat \<Rightarrow> (int list \<times> nat) res" where
  "audit_row row st = (case (row, st) of
      ([identifier, source, target, amount, payload], (balances, expected)) \<Rightarrow>
        let s = expected mod 3 + 1; t = s mod 3 + 1; a = expected mod 17 + 1 in
        if \<not> cell_is identifier (int expected) \<or> \<not> cell_is source (int s) \<or> \<not> cell_is target (int t) \<or> \<not> cell_is amount (int a)
          \<or> payload \<noteq> CJson (JStr (replicate 256 120))
        then Inl (RuntimeError ''Unexpected transfer {identifier}'')
        else if source \<noteq> CJson (JInt (int s)) \<or> target \<noteq> CJson (JInt (int t)) then Inl (TypeError ''list indices must be integers or slices'')
        else let b = balances[s - 1 := balances ! (s - 1) - int a]
             in Inr (b[t - 1 := b ! (t - 1) + int a], expected + 1)
    | _ \<Rightarrow> Inl (ValueError ''values to unpack (expected 5)''))"

fun audit_rows :: "cell list list \<Rightarrow> int list \<times> nat \<Rightarrow> (int list \<times> nat) res" where
  "audit_rows [] st = Inr st"
| "audit_rows (r # rs) st = bindR (audit_row r st) (audit_rows rs)"

definition account_is :: "cell list \<Rightarrow> nat \<times> int \<Rightarrow> bool" where
  "account_is row e = (case row of [i, b] \<Rightarrow> cell_is i (int (fst e)) \<and> cell_is b (snd e) | _ \<Rightarrow> False)"

definition accounts_are :: "cell list list \<Rightarrow> int list \<Rightarrow> bool" where
  "accounts_are actual balances = list_all2 account_is actual (List.enumerate 1 balances)"

text \<open>\<open>connection.execute(sql).fetchone()[0]\<close>\<close>

definition first_cell :: "'w qualops \<Rightarrow> nat \<Rightarrow> pstr \<Rightarrow> ('o \<times> 'w, cell) comp" where
  "first_cell Q conn sql = bindM (worldM (qo_query Q conn sql)) (\<lambda>rows.
    (case rows of [] \<Rightarrow> raiseM (TypeError ''NoneType object is not subscriptable'') | r # _ \<Rightarrow> liftR (nth_res r 0)))"

definition audit_table :: "'w qualops \<Rightarrow> nat \<Rightarrow> string \<times> pstr \<Rightarrow> ('o \<times> 'w, pstr \<times> pstr \<times> nat) comp" where
  "audit_table Q conn = (\<lambda>(name, sql). bindM (worldM (qo_query Q conn sql)) (\<lambda>rows.
    bindM (liftR (mapR (qo_row Q) rows)) (\<lambda>lines.
    retM (lit name, qo_digest Q lines, length rows))))"

record audit_result =
  ar_hashes :: "(pstr \<times> pstr) list"
  ar_counts :: "(pstr \<times> nat) list"
  ar_resources :: dict

definition invalid_query :: pstr where
  "invalid_query = (lit ''SELECT count(*) FROM ledger l JOIN transfers t ON t.id=l.tx '')
     @ (lit ''WHERE NOT ((l.account=t.src AND l.delta=-t.amount) '') @ (lit ''OR (l.account=t.dst AND l.delta=t.amount))'')"

definition pairs_query :: pstr where
  "pairs_query = (lit ''SELECT count(*) FROM (SELECT tx FROM ledger GROUP BY tx '') @ (lit ''HAVING count(*)!=2 OR count(DISTINCT account)!=2)'')"

definition ledger_matches :: "(pstr \<times> nat) list \<Rightarrow> bool res" where
  "ledger_matches counts = (case map_of counts (lit ''ledger'') of None \<Rightarrow> Inl KeyError
     | Some l \<Rightarrow> (case map_of counts (lit ''transfers'') of None \<Rightarrow> Inl KeyError | Some t \<Rightarrow> Inr (l = 2 * t)))"

definition audit_body :: "'w qualops \<Rightarrow> pstr \<Rightarrow> nat \<Rightarrow> ('o \<times> 'w, audit_result) comp" where
  "audit_body Q home conn = bindM (bindM (worldM (qo_query Q conn (lit ''PRAGMA integrity_check''))) (\<lambda>rows. liftR (mapR (\<lambda>r. nth_res r 0) rows))) (\<lambda>integrity.
    bindM (mapM (audit_table Q conn) audit_queries) (\<lambda>tables.
    let hashes = map (\<lambda>(n, h, _). (n, h)) tables in
    let counts = map (\<lambda>(n, _, k). (n, k)) tables in
    bindM (worldM (qo_query Q conn (lit ''SELECT id,src,dst,amount,payload FROM transfers ORDER BY id''))) (\<lambda>transfers.
    bindM (liftR (audit_rows transfers ([1000000, 1000000, 1000000], 1))) (\<lambda>(balances, _).
    bindM (worldM (qo_query Q conn (lit ''SELECT id,balance FROM accounts ORDER BY id''))) (\<lambda>actual.
    bindM (whenM (\<not> accounts_are actual balances) (RuntimeError ''Final exact balances differ'')) (\<lambda>_.
    bindM (first_cell Q conn invalid_query) (\<lambda>invalid.
    bindM (first_cell Q conn pairs_query) (\<lambda>bad_pairs.
    bindM (worldM (qo_query Q conn (lit ''PRAGMA foreign_key_check''))) (\<lambda>foreign_keys.
    let broken = (integrity \<noteq> [CJson (JStr (lit ''ok''))] \<or> foreign_keys \<noteq> [] \<or> \<not> cell_is invalid 0 \<or> \<not> cell_is bad_pairs 0) in
    bindM ((if broken then retM False else liftR (ledger_matches counts))) (\<lambda>paired.
    bindM (whenM (\<not> paired) (RuntimeError ''Offline integrity/audit-pair check failed'')) (\<lambda>_.
    bindM (host_usage Q home None) (\<lambda>resources.
    retM \<lparr>ar_hashes = hashes, ar_counts = counts, ar_resources = resources\<rparr>))))))))))))"

definition audit :: "'w qualops \<Rightarrow> pstr \<Rightarrow> pstr \<Rightarrow> ('o \<times> 'w, audit_result) comp" where
  "audit Q home phase = bindM (worldM (qo_open Q (path_join (path_join home phase) (lit ''node.db'')))) (\<lambda>conn.
    finallyM (audit_body Q home conn) (askM (qo_close Q conn)))"

section \<open>Supervision\<close>

record host_config =
  hc_node :: pstr
  hc_min_free :: int
  hc_max_data :: int
  hc_max_rss :: int

definition resource_int :: "dict \<Rightarrow> string \<Rightarrow> int" where
  "resource_int d k = (case dget d k of Some (JInt n) \<Rightarrow> n | _ \<Rightarrow> 0)"

definition check_budget :: "host_config \<Rightarrow> dict \<Rightarrow> unit res" where
  "check_budget c d =
    (if resource_int d ''free_bytes'' < hc_min_free c then Inl (RuntimeError ''Free-space safety floor reached'')
     else if hc_max_data c < resource_int d ''data_bytes'' then Inl (RuntimeError ''Configured per-host data budget reached'')
     else if hc_max_rss c < resource_int d ''VmRSS'' then Inl (RuntimeError ''Configured voter RSS budget reached'')
     else Inr ())"

text \<open>\<open>command.pop('_supervisor', None)\<close>\<close>

definition pop_supervisor :: "json \<Rightarrow> (json option \<times> dict) res" where
  "pop_supervisor j = (case j of JObj d \<Rightarrow> Inr (dget d ''_supervisor'', filter (\<lambda>(k, _). k \<noteq> (lit ''_supervisor'')) d) | _ \<Rightarrow> Inl AttributeError)"

text \<open>One command of the controller: \<open>Some\<close> ends the loop.\<close>

definition supervise_pass :: "'w qualops \<Rightarrow> pstr \<Rightarrow> host_config \<Rightarrow> nat \<Rightarrow> ('o \<times> 'w, unit option) comp" where
  "supervise_pass Q home c child = (let H = qo_host Q in
    bindM (askM (qo_clock Q)) (\<lambda>now.
    bindM (read_frame Q Stdin (now + 90)) (\<lambda>incoming.
    bindM (liftR (qo_loads Q incoming)) (\<lambda>request.
    bindM (liftR (pop_supervisor request)) (\<lambda>(mark, command).
    if mark = Some (JStr (lit ''kill'')) then bindM (askM (ho_kill H child)) (\<lambda>_.
      bindM (worldM (ho_wait H child)) (\<lambda>code.
      bindM (send_frame Q Stdout (qo_dumps Q (JObj [((lit ''stopped''), JBool True), ((lit ''returncode''), JInt code)]))) (\<lambda>_.
      retM (Some ()))))
    else bindM (send_frame Q (ChildIn child) (qo_dumps Q (JObj command))) (\<lambda>_.
      bindM (askM (qo_clock Q)) (\<lambda>later.
      bindM (read_frame Q (ChildOut child) (later + 300)) (\<lambda>reply.
      bindM (liftR (bindR (qo_loads Q reply) (\<lambda>j. case j of JObj d \<Rightarrow> Inr d | _ \<Rightarrow> Inl (TypeError ''object does not support item assignment'')))) (\<lambda>response.
      bindM (host_usage Q home (Some child)) (\<lambda>resources.
      bindM (liftR (check_budget c resources)) (\<lambda>_.
      bindM (send_frame Q Stdout (qo_dumps Q (JObj (dset response (lit ''_resources'') (JObj resources))))) (\<lambda>_.
      retM None))))))))))))"

definition end_child :: "'w qualops \<Rightarrow> nat \<Rightarrow> ('o \<times> 'w, unit) comp" where
  "end_child Q child = (let H = qo_host Q in
    bindM (askM (ho_poll H child)) (\<lambda>state.
    bindM (ifM (state = None) (askM (ho_kill H child))) (\<lambda>_.
    bindM (worldM (ho_wait H child)) (\<lambda>_.
    retM ()))))"

datatype open_mode = Create | Open

definition mode_text :: "open_mode \<Rightarrow> pstr" where
  "mode_text m = (case m of Create \<Rightarrow> (lit ''create'') | Open \<Rightarrow> (lit ''open''))"

definition supervise :: "'w qualops \<Rightarrow> pstr \<Rightarrow> host_config \<Rightarrow> pstr \<Rightarrow> open_mode \<Rightarrow> ('o \<times> 'w, unit) comp" where
  "supervise Q home c phase mode = (let directory = path_join home phase in
    bindM ((case mode of
       Create \<Rightarrow> worldM (qo_mkdir Q directory)
     | Open \<Rightarrow> bindM (askM (qo_isfile Q (path_join directory (lit ''node.db''))))
         (\<lambda>b. whenM (\<not> b) (RuntimeError ''Refusing to replace a missing voter'')))) (\<lambda>_.
    bindM (worldM (qo_child Q [path_join home (lit ''worker''), directory, hc_node c, mode_text mode] (path_join directory (lit ''stderr.log'')))) (\<lambda>child.
    bindM (worldM (ho_write (qo_host Q) (path_join directory (lit ''worker.pid'')) (dec child @ [10]))) (\<lambda>_.
    finallyM (bindM (whileM (retM True) (supervise_pass Q home c child)) (\<lambda>_. retM ())) (end_child Q child)))))"

section \<open>Commands\<close>

definition phases :: "pstr list" where
  "phases = [(lit ''smoke''), (lit ''pilot''), (lit ''soak'')]"

datatype qual_command = Inspect | Audit pstr | Supervise pstr open_mode

definition command_of :: "pstr list \<Rightarrow> qual_command option" where
  "command_of args =
    (if args = [(lit ''inspect'')] then Some Inspect
     else (case args of
        [a, phase] \<Rightarrow> if a = (lit ''audit'') \<and> phase \<in> set phases then Some (Audit phase) else None
      | [a, phase, mode] \<Rightarrow> if a = (lit ''start'') \<and> phase \<in> set phases then
            (if mode = (lit ''create'') then Some (Supervise phase Create) else if mode = (lit ''open'') then Some (Supervise phase Open) else None)
          else None
      | _ \<Rightarrow> None))"

text \<open>
  \<open>left\<close> is \<open>expires_epoch - time.time()\<close> as an integer; \<open>report_of\<close> is what is printed. The alarm that ends the
  run at the deadline is the host's.
\<close>

definition qualification_main :: "'w qualops \<Rightarrow> pstr \<Rightarrow> host_config \<Rightarrow> int \<Rightarrow> (audit_result \<Rightarrow> dict) \<Rightarrow> pstr list \<Rightarrow> ('o \<times> 'w, dict option) comp" where
  "qualification_main Q home c left report_of args = bindM (whenM (left \<le> 0) (SystemExit ''This qualification supervisor has expired'')) (\<lambda>_.
    (case command_of args of
       Some Inspect \<Rightarrow> bindM (inspect Q home) (\<lambda>d. retM (Some d))
     | Some (Audit phase) \<Rightarrow> bindM (audit Q home phase) (\<lambda>a. retM (Some (report_of a)))
     | Some (Supervise phase mode) \<Rightarrow> bindM (supervise Q home c phase mode) (\<lambda>_. retM None)
     | None \<Rightarrow> raiseM (SystemExit ''Only inspect, audit PHASE, or start PHASE create|open is allowed'')))"

section \<open>Replicas\<close>

text \<open>
  The comparison of \<open>audit_replicas\<close>: the four tables of application data and request identities, and the
  number of transfers that the live replay saw on every node.
\<close>

definition compared :: "pstr list" where
  "compared = [(lit ''accounts''), (lit ''transfers''), (lit ''ledger''), (lit ''sessions'')]"

definition hash_of :: "audit_result \<Rightarrow> pstr \<Rightarrow> pstr res" where
  "hash_of a t = (case map_of (ar_hashes a) t of None \<Rightarrow> Inl KeyError | Some h \<Rightarrow> Inr h)"

definition same_table :: "audit_result \<Rightarrow> audit_result \<Rightarrow> pstr \<Rightarrow> unit res" where
  "same_table first a t = bindR (hash_of a t) (\<lambda>h. bindR (hash_of first t) (\<lambda>g.
     if h = g then Inr () else Inl (ValueError ''Replica mismatch in {table}'')))"

definition compare_replica :: "audit_result \<Rightarrow> int set \<Rightarrow> audit_result \<Rightarrow> unit res" where
  "compare_replica first live a = bindR (mapR (same_table first a) compared) (\<lambda>_.
     (case map_of (ar_counts a) (lit ''transfers'') of None \<Rightarrow> Inl KeyError
      | Some n \<Rightarrow> if live = {int n} then Inr () else Inl (ValueError ''Offline transfer count differs from the live replay'')))"

definition compare_replicas :: "int set \<Rightarrow> audit_result list \<Rightarrow> unit res" where
  "compare_replicas live audits = (case audits of [] \<Rightarrow> Inr () | first # _ \<Rightarrow> bindR (mapR (compare_replica first live) audits) (\<lambda>_. Inr ()))"

end
