(* ===== verification/Qualification_Facts.thy ===== *)
theory Qualification_Facts
  imports Qualification Process_Facts Demo_Host
begin

text \<open>
  What the audit of a stopped voter accepts, that frames arrive as they were sent however the pipe cuts
  them, what commands the forced command runs, and when the audits of the replicas agree.
\<close>

section \<open>Audits\<close>

text \<open>The transfer with an identifier: the amount that the controller's transaction moves.\<close>

definition prescribed :: "nat \<Rightarrow> nat \<times> nat" where
  "prescribed i = (i, snd (transaction_of i))"

definition transfer_row :: "nat \<Rightarrow> cell list \<Rightarrow> bool" where
  "transfer_row i row \<longleftrightarrow> (case row of
      [identifier, source, target, amount, payload] \<Rightarrow>
        cell_is identifier (int i) \<and> source = CJson (JInt (int (i mod 3 + 1))) \<and> target = CJson (JInt (int ((i mod 3 + 1) mod 3 + 1)))
        \<and> cell_is amount (int (snd (transaction_of i))) \<and> payload = CJson (JStr (replicate 256 120))
    | _ \<Rightarrow> False)"

lemma cell_is_int [simp]: "cell_is (CJson (JInt i)) n \<longleftrightarrow> i = n"
  by (simp add: cell_is_def num_eq_def)

lemma amount_of [simp]: "snd (transaction_of i) = i mod 17 + 1"
  by (simp add: transaction_of_def Let_def)

lemma audit_row_ok: "audit_row row (b, i) = Inr st \<longleftrightarrow> transfer_row i row \<and> st = (apply_transfer (prescribed i) b, i + 1)"
proof (cases "\<exists>a s t m p. row = [a, s, t, m, p]")
  case True
  then obtain a s t m p where row: "row = [a, s, t, m, p]" by blast
  show ?thesis
    unfolding row by (auto simp: audit_row_def transfer_row_def apply_transfer_def prescribed_def Let_def)
next
  case False
  then show ?thesis
    by (auto simp: audit_row_def transfer_row_def split: list.splits)
qed

lemma audit_rows_ok:
  "audit_rows rows (b, i) = Inr st \<longleftrightarrow> list_all2 transfer_row [i..<i + length rows] rows
    \<and> st = (fold apply_transfer (map prescribed [i..<i + length rows]) b, i + length rows)"
proof (induction rows arbitrary: b i)
  case Nil
  then show ?case by auto
next
  case (Cons r rs)
  have split: "[i..<i + length (r # rs)] = i # [Suc i..<Suc i + length rs]" by (simp add: upt_rec [of i] Suc_le_eq)
  show ?case
  proof (cases "transfer_row i r")
    case True
    then have "audit_row r (b, i) = Inr (apply_transfer (prescribed i) b, Suc i)" by (simp add: audit_row_ok)
    then show ?thesis
      unfolding split using Cons [of "apply_transfer (prescribed i) b" "Suc i"] True by (simp add: bindR_def del: upt_Suc)
  next
    case False
    then obtain e where "audit_row r (b, i) = Inl e" by (cases "audit_row r (b, i)") (auto simp: audit_row_ok)
    then show ?thesis unfolding split using False by (simp add: bindR_def)
  qed
qed

section \<open>Frames\<close>

text \<open>
  A stream that has the bytes \<open>buf w\<close> ready in time: \<open>select\<close> reports it, and a read returns some of them, as many
  as the system likes.
\<close>

definition delivers :: "'w qualops \<Rightarrow> stream \<Rightarrow> ('w \<Rightarrow> pbytes) \<Rightarrow> rat \<Rightarrow> bool" where
  "delivers Q st buf deadline \<longleftrightarrow>
    (\<forall>w. fst (qo_clock Q w) < deadline \<and> buf (snd (qo_clock Q w)) = buf w) \<and>
    (\<forall>w t. buf w \<noteq> [] \<longrightarrow> 0 < t \<longrightarrow> fst (qo_select Q st t w) \<and> buf (snd (qo_select Q st t w)) = buf w) \<and>
    (\<forall>w n. buf w \<noteq> [] \<longrightarrow> 0 < n \<longrightarrow> (\<exists>k w'. 0 < k \<and> k \<le> n \<and> k \<le> length (buf w) \<and> qo_read Q st n w = (Inr (take k (buf w)), w') \<and> buf w' = drop k (buf w)))"

lemma exact_step_delivers:
  assumes "delivers Q st buf deadline" and "0 < count" and "buf w \<noteq> []"
  obtains k w' where "0 < k" "k \<le> count" "k \<le> length (buf w)" "buf w' = drop k (buf w)"
    and "exact_step Q st deadline ((count, parts), (a, w)) = Some (Inr None, ((count - k, parts @ take k (buf w)), (a, w')))"
proof -
  obtain t w1 where c: "qo_clock Q w = (t, w1)" by fastforce
  have 1: "t < deadline" "buf w1 = buf w" using assms(1) c unfolding delivers_def by (metis fst_conv, metis snd_conv)
  obtain b w2 where sel: "qo_select Q st (deadline - t) w1 = (b, w2)" by fastforce
  have 2: "b" "buf w2 = buf w" using assms(1,3) 1 sel unfolding delivers_def by (metis diff_gt_0_iff_gt fst_conv, metis diff_gt_0_iff_gt snd_conv)
  obtain k w' where 3: "0 < k" "k \<le> count" "k \<le> length (buf w2)" "qo_read Q st count w2 = (Inr (take k (buf w2)), w')" "buf w' = drop k (buf w2)"
    using assms 2 unfolding delivers_def by metis
  have "exact_step Q st deadline ((count, parts), (a, w)) = Some (Inr None, ((count - k, parts @ take k (buf w)), (a, w')))"
    using 1 2 3 c sel assms(2,3)
    by (simp add: exact_step_def bindM_def objM_def innerM_def askM_def worldM_def whenM_def updM_def retM_def Let_def min_def)
  then show thesis using that 3 2 by metis
qed

lemma exact_loop:
  assumes "delivers Q st buf deadline" and "count \<le> length (buf w)"
  shows "\<exists>w'. whileM (bindM objM (\<lambda>(count, _). retM (count \<noteq> 0))) (exact_step Q st deadline) ((count, parts), (a, w))
      = Some (Inr None, ((0, parts @ take count (buf w)), (a, w'))) \<and> buf w' = drop count (buf w)"
  using assms(2)
proof (induction count arbitrary: parts w rule: less_induct)
  case (less count)
  show ?case
  proof (cases "count = 0")
    case True
    then show ?thesis by (subst whileM.simps) (auto simp: bindM_def objM_def retM_def)
  next
    case False
    then have "buf w \<noteq> []" using less.prems by auto
    then obtain k w1 where k: "0 < k" "k \<le> count" "k \<le> length (buf w)" "buf w1 = drop k (buf w)"
      and step: "exact_step Q st deadline ((count, parts), (a, w)) = Some (Inr None, ((count - k, parts @ take k (buf w)), (a, w1)))"
      using exact_step_delivers [OF assms(1)] False by (metis gr0I)
    have "take k (buf w) @ take (count - k) (buf w1) = take count (buf w)"
      using k by (metis le_add_diff_inverse take_add)
    moreover have "drop (count - k) (buf w1) = drop count (buf w)" using k by simp
    ultimately show ?thesis
      using less.IH [of "count - k" w1 "parts @ take k (buf w)"] k less.prems step
      by (subst whileM.simps) (simp add: bindM_def objM_def retM_def False)
  qed
qed

lemma exact_delivers:
  assumes "delivers Q st buf deadline" and "count \<le> length (buf w)"
  shows "\<exists>w'. exact Q st deadline count (a, w) = Some (Inr (take count (buf w)), (a, w')) \<and> buf w' = drop count (buf w)"
  using exact_loop [OF assms, of "[]" a] by (auto simp: exact_def localM_def bindM_def objM_def retM_def)

section \<open>Replicas\<close>

lemma bindR_ok: "bindR m (\<lambda>_. k) = Inr y \<longleftrightarrow> (\<exists>x. m = Inr x) \<and> k = Inr y"
  by (cases m) (auto simp: bindR_def)

lemma same_table_ok: "same_table first a t = Inr u \<longleftrightarrow> map_of (ar_hashes a) t \<noteq> None \<and> map_of (ar_hashes a) t = map_of (ar_hashes first) t"
  by (auto simp: same_table_def hash_of_def bindR_def split: option.splits)

lemma compare_replica_ok:
  "compare_replica first live a = Inr u \<longleftrightarrow>
    (\<forall>t \<in> set compared. map_of (ar_hashes a) t \<noteq> None \<and> map_of (ar_hashes a) t = map_of (ar_hashes first) t)
    \<and> (\<exists>n. map_of (ar_counts a) (lit ''transfers'') = Some n \<and> live = {int n})"
  by (auto simp: compare_replica_def bindR_ok mapR_Inr_all same_table_ok split: option.splits)

section \<open>Properties\<close>

text \<open>
  C35. A frame arrives as it was sent: whatever pieces the stream delivers, \<open>read_frame\<close> returns the payload that
  \<open>send_frame\<close> wrote and leaves what follows it in the stream.
\<close>

theorem frame_roundtrip:
  assumes "delivers Q st buf deadline" and "0 < length payload" and "length payload \<le> MAX_FRAME"
    and "qo_send Q st (le32 (length payload) @ payload) w = (Inr (), w1)" and "buf w1 = le32 (length payload) @ payload @ rest"
  shows "send_frame Q st payload (a, w) = Some (Inr (), (a, w1))
    \<and> (\<exists>w2. read_frame Q st deadline (a, w1) = Some (Inr payload, (a, w2)) \<and> buf w2 = rest)"
proof
  show "send_frame Q st payload (a, w) = Some (Inr (), (a, w1))"
    using assms(2-4) by (simp add: send_frame_def bindM_def whenM_def worldM_def retM_def)
  have four: "length (le32 n) = 4" for n by (simp add: le32_def)
  obtain w2 where h: "exact Q st deadline 4 (a, w1) = Some (Inr (le32 (length payload)), (a, w2))" "buf w2 = payload @ rest"
    using exact_delivers [OF assms(1), of 4 w1 a] assms(5) by (auto simp: four)
  have len: "un_le32 (le32 (length payload)) = length payload"
    using assms(3) by (intro un_le32_le32) (simp add: MAX_FRAME_def)
  obtain w3 where p: "exact Q st deadline (length payload) (a, w2) = Some (Inr payload, (a, w3))" "buf w3 = rest"
    using exact_delivers [OF assms(1), of "length payload" w2 a] h(2) by auto
  show "\<exists>w2. read_frame Q st deadline (a, w1) = Some (Inr payload, (a, w2)) \<and> buf w2 = rest"
    using h(1) p assms(2,3) by (simp add: read_frame_def bindM_def Let_def len whenM_def retM_def)
qed

text \<open>A pipe that hands out one byte at a time.\<close>

definition demo_pipe :: "sim_world qualops" where
  "demo_pipe = \<lparr>qo_host = demo_host, qo_clock = (\<lambda>w. (0, w)), qo_select = (\<lambda>_ _ w. (True, w)),
     qo_read = (\<lambda>_ n (t, b). (Inr (take (min n 1) b), (t, drop (min n 1) b))), qo_send = (\<lambda>_ bs (t, b). (Inr (), (t, b @ bs))),
     qo_sizes = (\<lambda>_ w. ([], w)), qo_open = (\<lambda>_ w. (Inr 0, w)), qo_query = (\<lambda>_ _ w. (Inr [], w)), qo_close = (\<lambda>_ w. ((), w)),
     qo_row = (\<lambda>_. Inr []), qo_digest = (\<lambda>_. []), qo_child = (\<lambda>_ _ w. (Inr 0, w)), qo_mkdir = (\<lambda>_ w. (Inr (), w)),
     qo_isfile = (\<lambda>_ w. (True, w)), qo_loads = (\<lambda>_. Inr JNull), qo_dumps = (\<lambda>_. [0]), qo_float = (\<lambda>_. JNull),
     qo_facts = (\<lambda>_ w. (Inr [], w)), qo_version = [], qo_unicode = ascii_unidb\<rparr>"

lemma demo_pipe_delivers: "delivers demo_pipe Stdin snd 1"
  by (auto simp: delivers_def demo_pipe_def Suc_le_eq intro!: exI [of _ 1])

theorem frame_roundtrip_witness:
  "send_frame demo_pipe Stdin [7, 8, 9] ((), (0, [])) = Some (Inr (), ((), (0, [3, 0, 0, 0, 7, 8, 9])))
    \<and> (\<exists>w. read_frame demo_pipe Stdin 1 ((), (0, [3, 0, 0, 0, 7, 8, 9])) = Some (Inr [7, 8, 9], ((), w)) \<and> snd w = [])"
proof -
  have le: "le32 (length [7, 8, 9 :: nat]) = [3, 0, 0, 0]" by (simp add: le32_def)
  have "qo_send demo_pipe Stdin ([3, 0, 0, 0] @ [7, 8, 9]) (0, []) = (Inr (), (0, [3, 0, 0, 0, 7, 8, 9]))" by (simp add: demo_pipe_def)
  then show ?thesis
    using frame_roundtrip [OF demo_pipe_delivers, of "[7, 8, 9]" "(0, [])" "(0, [3, 0, 0, 0, 7, 8, 9])" "[]" "()", unfolded le] by (simp add: MAX_FRAME_def)
qed


text \<open>
  The forced command runs nothing but inspection, the audit of one of three phases, and a voter of one
  of them, created or reopened: ten command lines.
\<close>

lemma commands_restricted:
  "{args. command_of args \<noteq> None} = set ([[(lit ''inspect'')]] @ map (\<lambda>p. [(lit ''audit''), p]) phases
     @ concat (map (\<lambda>p. [[(lit ''start''), p, (lit ''create'')], [(lit ''start''), p, (lit ''open'')]]) phases))"
  (is "_ = set ?all")
proof (intro set_eqI iffI)
  fix args
  show "args \<in> set ?all" if "args \<in> {args. command_of args \<noteq> None}"
    using that by (auto simp: command_of_def split: if_splits list.splits)
  show "args \<in> {args. command_of args \<noteq> None}" if "args \<in> set ?all"
    using that by (auto simp: command_of_def split: if_splits)
qed

text \<open>
  The replicas pass the comparison iff they have the same digest of each compared table and as many
  transfers as every node of the live replay saw.
\<close>

lemma replicas_compared:
  "compare_replicas live audits = Inr () \<longleftrightarrow>
    (\<forall>a \<in> set audits. \<forall>t \<in> set compared. map_of (ar_hashes a) t \<noteq> None \<and> map_of (ar_hashes a) t = map_of (ar_hashes (audits ! 0)) t)
    \<and> (\<forall>a \<in> set audits. \<exists>n. map_of (ar_counts a) (lit ''transfers'') = Some n \<and> live = {int n})"
  by (cases audits) (simp_all add: compare_replicas_def bindR_ok mapR_Inr_all compare_replica_ok ball_conj_distrib del: mapR.simps)

end
