(* ===== verification/Upgrade_Checks.thy ===== *)
theory Upgrade_Checks
  imports Restore_Checks
begin

text \<open>
  Campaigns that replace parts of a stopped cluster: \<open>tools/check_generation_service.py\<close> (compacted generations),
  \<open>tools/check_migration.py\<close> (storage format 4 to 5), \<open>tools/check_legacy_epoch_restore.py\<close> (a backup from before
  retry epochs) and \<open>tools/check_certificate_lifecycle.py\<close> (expired and renewed credentials).
\<close>

section \<open>Generations\<close>

definition compact_node :: "'w hostops \<Rightarrow> NetCluster \<Rightarrow> nat \<Rightarrow> ('x \<times> 'w, int \<times> pstr \<times> pstr) comp" where
  "compact_node H c node = worldM (ho_run H [nc_binary c, (lit ''compact''), config_file c node])"

definition record_named :: "pstr \<Rightarrow> ('w nrstate, unit) comp" where
  "record_named name = append_entry (lit ''checks'') (RD [((lit ''name''), RS name), ((lit ''passed''), RB True)])"

definition items_count :: "'w netops \<Rightarrow> pstr \<Rightarrow> int \<Rightarrow> ((Connection \<times> 'x) \<times> 'w, unit) comp" where
  "items_count N table n = assert_scalar N (lit ''SELECT count(*) FROM '' @ table) [] n"

definition generation_publish :: "'w hostops \<Rightarrow> NetCluster \<Rightarrow> nat \<Rightarrow> int \<Rightarrow> nat \<Rightarrow> nat \<Rightarrow> ('w nrstate, unit) comp" where
  "generation_publish H c operations target cycle node = (let N = ho_net H in
    bindM (net_stop H node) (\<lambda>_.
    bindM (compact_node H c node) (\<lambda>(code, out, _).
    bindM (assertM (code = 0) ''stderr'') (\<lambda>_.
    bindM (assertM (has_text (lit ''Previous files retained'') out) ''stdout'') (\<lambda>_.
    bindM (net_start H c node False) (\<lambda>_.
    bindM (node_ready H c node 60) (\<lambda>_.
    net_with H c [node] 10 None (bindM (dbM (status_field N ''generation_prefix'')) (\<lambda>g.
      bindM (assertM (target \<le> g) ''generation_prefix'') (\<lambda>_.
      items_count N (lit ''items'') (int ((cycle + 1) * operations))))))))))))"

definition generation_cycle :: "'w hostops \<Rightarrow> NetCluster \<Rightarrow> nat \<Rightarrow> nat \<Rightarrow> ('w nrstate, unit) comp" where
  "generation_cycle H c operations cycle = (let N = ho_net H in
    bindM (forM [0..<operations] (\<lambda>i. net_with H c [i mod 3 + 1] 10 None (bindM (run_sql N (lit ''INSERT INTO items VALUES(?,?)'') [VInt (int (cycle * operations + i)), VStr (lit ''cycle-'' @ dec cycle @ lit ''-item-'' @ dec i)]) (\<lambda>_.
      retM ())))) (\<lambda>_.
    bindM (net_with H c all_nodes 10 None (dbM (request_snapshot N))) (\<lambda>target.
    bindM (wait_sealed H c target all_nodes) (\<lambda>_.
    bindM (compact_node H c 1) (\<lambda>(code, _, err).
    bindM (assertM (code = 1 \<and> has_text (lit ''Locked'') err) ''live'') (\<lambda>_.
    bindM (record_named (lit ''cycle_'' @ dec cycle @ lit ''_active_voter_compaction_refused'')) (\<lambda>_.
    bindM (forM all_nodes (generation_publish H c operations target cycle)) (\<lambda>_.
    record_named (lit ''cycle_'' @ dec cycle @ lit ''_each_voter_publishes_and_serves_certified_generation'')))))))))"

definition restart_cluster :: "'w hostops \<Rightarrow> NetCluster \<Rightarrow> ('w nrstate, unit) comp" where
  "restart_cluster H c = bindM (forM all_nodes (net_stop H)) (\<lambda>_.
    start_all H c False)"

definition generation_body :: "'w hostops \<Rightarrow> nat \<Rightarrow> NetCluster \<Rightarrow> ('w nrstate, unit) comp" where
  "generation_body H operations c = (let N = ho_net H in
    bindM (start_all H c True) (\<lambda>_.
    bindM (ready_all H c) (\<lambda>_.
    bindM (net_with H c all_nodes 10 None (run_sql N (lit ''CREATE TABLE items(id INTEGER PRIMARY KEY, value TEXT)'') [])) (\<lambda>_.
    bindM (forM [0, 1] (generation_cycle H c operations)) (\<lambda>_.
    bindM (restart_cluster H c) (\<lambda>_.
    bindM (forM all_nodes (\<lambda>node. bindM (node_ready H c node 60) (\<lambda>_.
      net_with H c [node] 10 None (items_count N (lit ''items'') (int (2 * operations)))))) (\<lambda>_.
    bindM (forM all_nodes (\<lambda>node. net_with H c [node] 10 None (bindM (run_sql N (lit ''INSERT INTO items VALUES(?,?)'') [VInt (int (100000 + node)), VStr (lit ''after-restart'')]) (\<lambda>_.
      retM ())))) (\<lambda>_.
    bindM (record_check ''all_published_voters_restart_and_continue_multi_master_writes'') (\<lambda>_.
    complete_report)))))))))"

text \<open>The frame of these scripts: the working directory is made inside the reported part.\<close>

definition inside_report :: "'w hostops \<Rightarrow> pstr \<Rightarrow> (pstr \<Rightarrow> ('w nrstate, unit) comp) \<Rightarrow> ('w nrstate, unit) comp \<Rightarrow> ('w nrstate, unit) comp" where
  "inside_report H work_root body after = reportedM H (bindM (worldM (ho_mkdir H work_root)) (\<lambda>_.
      temp_dirM H work_root body)) after"

definition closing :: "'w hostops \<Rightarrow> pstr \<Rightarrow> nat \<Rightarrow> ('w nrstate, unit) comp \<Rightarrow> ('w nrstate, unit) comp" where
  "closing H home keep body = finallyM body (bindM (net_close H) (\<lambda>_. log_tails H home (lit ''*.log'') (tail_of keep)))"

definition generation_main :: "'w hostops \<Rightarrow> script_args \<Rightarrow> nat \<Rightarrow> ('w nrstate, unit) comp" where
  "generation_main H s operations = bindM (askM (ho_exists H (sa_output s))) (\<lambda>exists.
    bindM (whenM (exists \<or> operations < 3) (SystemExit ''Use a new evidence path and at least three operations'')) (\<lambda>_.
    bindM (worldM (ho_sha256 H (sa_binary s))) (\<lambda>digest.
    bindM (updM (\<lambda>_. run_empty [((lit ''complete''), RB False), ((lit ''passed''), RB False), ((lit ''checks''), RL []),
      ((lit ''operations_per_cycle''), RI (int operations)), ((lit ''binary_sha256''), RS digest),
      ((lit ''scope''), RS (lit ''two public CLI compaction cycles and native startup; peers already past each snapshot''))])) (\<lambda>_.
    bindM (make_parent H (sa_output s)) (\<lambda>_.
    inside_report H (path_join (sa_home s) (lit ''build/generation-service-work'')) (\<lambda>home. bindM (ifM (ho_linux H) (check_filesystem H home)) (\<lambda>_.
        bindM (resolveM H (sa_binary s)) (\<lambda>binary.
        bindM (net_cluster H home binary (sa_openssl s) 5 (lit ''manual'')) (\<lambda>c.
        closing H home 10000 (generation_body H operations c)))))
      (save_report H (sa_output s)))))))"

section \<open>Migration\<close>

text \<open>\<open>hashes\<close>: the files that exist, with their digests.\<close>

definition hashes_of :: "'w hostops \<Rightarrow> pstr \<Rightarrow> ('x \<times> 'w, (pstr \<times> pstr) list) comp" where
  "hashes_of H directory = bindM (mapM (\<lambda>name. bindM (askM (ho_exists H (path_join directory name))) (\<lambda>exists.
      if exists then bindM (worldM (ho_sha256 H (path_join directory name))) (\<lambda>h. retM [(name, h)]) else retM [])) [(lit ''node.db''), (lit ''node.db-wal'')]) (\<lambda>found.
    retM (concat found))"

definition migrate_node :: "'w hostops \<Rightarrow> pstr \<Rightarrow> pstr \<Rightarrow> nat \<Rightarrow> pstr \<Rightarrow> ('x \<times> 'w, int \<times> pstr \<times> pstr) comp" where
  "migrate_node H binary home node destination = bindM (resolveM H binary) (\<lambda>resolved.
    worldM (ho_run H [resolved, (lit ''migrate''), path_join home (lit ''node'' @ dec node @ lit ''.json''), destination]))"

definition data_dir :: "NetCluster \<Rightarrow> nat \<Rightarrow> pstr" where
  "data_dir c node = path_join (nc_root c) (lit ''data'' @ dec node)"

text \<open>A migration of a stopped voter must succeed and leave the source's files as they were.\<close>

definition migrate_unchanged :: "'w hostops \<Rightarrow> pstr \<Rightarrow> NetCluster \<Rightarrow> nat \<Rightarrow> pstr \<Rightarrow> ('x \<times> 'w, unit) comp" where
  "migrate_unchanged H binary c node destination = bindM (hashes_of H (data_dir c node)) (\<lambda>before.
    bindM (migrate_node H binary (nc_root c) node destination) (\<lambda>(code, _, _).
    bindM (assertM (code = 0) ''stderr'') (\<lambda>_.
    bindM (hashes_of H (data_dir c node)) (\<lambda>after.
    assertM (after = before) ''hashes''))))"

definition abandon_node :: "'w hostops \<Rightarrow> pstr \<Rightarrow> NetCluster \<Rightarrow> (nat \<times> pstr) list \<Rightarrow> nat \<Rightarrow> ('x \<times> 'w, unit) comp" where
  "abandon_node H binary c original node = bindM (migrate_unchanged H binary c node (path_join (nc_root c) (lit ''abandoned-format5-'' @ dec node))) (\<lambda>_.
    bindM (worldM (ho_read H (config_file c node))) (\<lambda>contents.
    assertM (map_of original node = Some contents) ''original''))"

definition migration_rollback :: "'w hostops \<Rightarrow> pstr \<Rightarrow> NetCluster \<Rightarrow> (nat \<times> pstr) list \<Rightarrow> nat \<Rightarrow> ('w nrstate, unit) comp" where
  "migration_rollback H binary c original operations = (let N = ho_net H in
    bindM (forM all_nodes (abandon_node H binary c original)) (\<lambda>_.
    bindM (start_all H c False) (\<lambda>_.
    bindM (forM all_nodes (\<lambda>node. bindM (node_ready H c node 60) (\<lambda>_.
      net_with H c [node] 10 None (bindM (items_count N (lit ''migration_items'') (int operations)) (\<lambda>_.
        bindM (run_sql N (lit ''UPDATE migration_items SET value=? WHERE id=?'') [VStr (lit ''rollback-'' @ dec node), VInt (int node - 1)]) (\<lambda>_.
        retM ())))))) (\<lambda>_.
    bindM (forM all_nodes (net_stop H)) (\<lambda>_.
    record_check ''preactivation_rollback_runs_retained_binary_and_source_with_new_acknowledged_writes'')))))"

definition activate_node :: "'w hostops \<Rightarrow> pstr \<Rightarrow> NetCluster \<Rightarrow> nat \<Rightarrow> ('x \<times> 'w, unit) comp" where
  "activate_node H binary c node = (let destination = path_join (nc_root c) (lit ''format5-'' @ dec node) in
    bindM (migrate_unchanged H binary c node destination) (\<lambda>_.
    bindM (worldM (ho_read H (path_join destination (lit ''node.json'')))) (\<lambda>contents.
    bindM (liftR (bindR (ho_loads H contents) (\<lambda>j. case j of JObj d \<Rightarrow> Inr d | _ \<Rightarrow> Inl (TypeError ''indices must be integers'')))) (\<lambda>cfg.
    bindM (liftR (key_res cfg ''storage_format'')) (\<lambda>format.
    bindM ((if num_eq format 5 then liftR (key_res cfg ''data'') else retM JNull)) (\<lambda>directory.
    bindM (assertM (num_eq format 5 \<and> directory = JStr destination) ''cfg'') (\<lambda>_.
    worldM (ho_write H (config_file c node) (dump_config H cfg)))))))))"

definition expected_item :: "bool \<Rightarrow> nat \<Rightarrow> cell \<times> cell \<Rightarrow> bool" where
  "expected_item rolled i r = (cell_is (fst r) (int i)
     \<and> snd r = CJson (JStr (if rolled \<and> i < 3 then (lit ''rollback-'' @ (dec (i + 1))) else (lit ''item-'' @ dec i))))"

definition migrated_rows :: "'w netops \<Rightarrow> bool \<Rightarrow> nat \<Rightarrow> ((Connection \<times> 'x) \<times> 'w, unit) comp" where
  "migrated_rows N rolled operations = bindM (read_sql N (lit ''SELECT id,value FROM migration_items ORDER BY id'') []) (\<lambda>rows.
    bindM (liftR (mapR (\<lambda>r. bindR (row_getitem r (KStr (lit ''id''))) (\<lambda>a. bindR (row_getitem r (KStr (lit ''value''))) (\<lambda>b. Inr (a, b)))) (rows_rows rows))) (\<lambda>items.
    assertM (list_all2 (expected_item rolled) [0..<operations] items) ''rows''))"

definition migration_served :: "'w hostops \<Rightarrow> NetCluster \<Rightarrow> bool \<Rightarrow> nat \<Rightarrow> ('w nrstate, unit) comp" where
  "migration_served H c rolled operations = (let N = ho_net H in
    bindM (start_all H c False) (\<lambda>_.
    bindM (forM all_nodes (\<lambda>node. bindM (node_ready H c node 60) (\<lambda>_.
      net_with H c [node] 10 None (migrated_rows N rolled operations)))) (\<lambda>_.
    bindM (forM all_nodes (\<lambda>node. net_with H c [node] 10 None (bindM (run_sql N (lit ''INSERT INTO migration_items VALUES(?,?)'') [VInt (int (10000 + node)), VStr (lit ''new'')]) (\<lambda>_.
      retM ())))) (\<lambda>_.
    bindM (record_check ''migrated_voters_serve_exact_data_and_accept_writes_on_every_node'') (\<lambda>_.
    bindM (restart_cluster H c) (\<lambda>_.
    bindM (forM all_nodes (\<lambda>node. bindM (node_ready H c node 60) (\<lambda>_.
      net_with H c [node] 10 None (items_count N (lit ''migration_items'') (int (operations + 3)))))) (\<lambda>_.
    bindM (record_check ''second_full_restart_preserves_old_and_new_writes'') (\<lambda>_.
    complete_report))))))))"

text \<open>\<open>rolled\<close>: a retained binary was given. \<open>c\<close> runs it until the migrated voters are activated.\<close>

definition migration_work :: "'w hostops \<Rightarrow> pstr \<Rightarrow> bool \<Rightarrow> nat \<Rightarrow> NetCluster \<Rightarrow> (nat \<times> pstr) list \<Rightarrow> ('w nrstate, unit) comp" where
  "migration_work H binary rolled operations c original = (let N = ho_net H in
    bindM (start_all H c True) (\<lambda>_.
    bindM (ready_all H c) (\<lambda>_.
    bindM (net_with H c all_nodes 10 None (run_sql N (lit ''CREATE TABLE migration_items(id INTEGER PRIMARY KEY, value TEXT)'') [])) (\<lambda>_.
    bindM (forM [0..<operations] (\<lambda>i. net_with H c [i mod 3 + 1] 10 None (bindM (run_sql N (lit ''INSERT INTO migration_items VALUES(?,?)'') [VInt (int i), VStr (lit ''item-'' @ dec i)]) (\<lambda>_.
      retM ())))) (\<lambda>_.
    bindM (migrate_node H binary (nc_root c) 1 (path_join (nc_root c) (lit ''refused-live''))) (\<lambda>(code, _, err).
    bindM (assertM (code = 1 \<and> has_text (lit ''Locked'') err) ''live'') (\<lambda>_.
    bindM (record_check ''live_source_refused'') (\<lambda>_.
    bindM (forM all_nodes (net_stop H)) (\<lambda>_.
    bindM (ifM rolled (migration_rollback H binary c original operations)) (\<lambda>_.
    bindM (resolveM H binary) (\<lambda>resolved.
    let d = c\<lparr>nc_binary := resolved\<rparr> in
    bindM (forM all_nodes (activate_node H binary d)) (\<lambda>_.
    bindM (record_check ''all_voters_migrated_source_database_and_wal_unchanged'') (\<lambda>_.
    migration_served H d rolled operations)))))))))))))"

definition read_configs :: "'w hostops \<Rightarrow> NetCluster \<Rightarrow> ('x \<times> 'w, (nat \<times> pstr) list) comp" where
  "read_configs H c = mapM (\<lambda>node. bindM (worldM (ho_read H (config_file c node))) (\<lambda>contents. retM (node, contents))) all_nodes"

definition migration_main :: "'w hostops \<Rightarrow> script_args \<Rightarrow> pstr option \<Rightarrow> nat \<Rightarrow> ('w nrstate, unit) comp" where
  "migration_main H s old_binary operations = bindM ((if operations < 6 then retM True else askM (ho_exists H (sa_output s)))) (\<lambda>exists.
    bindM (whenM exists (SystemExit ''Use at least six operations and a new evidence file'')) (\<lambda>_.
    bindM (worldM (ho_sha256 H (sa_binary s))) (\<lambda>digest.
    bindM (updM (\<lambda>_. run_empty [((lit ''complete''), RB False), ((lit ''passed''), RB False), ((lit ''checks''), RL []), ((lit ''operations''), RI (int operations)),
      ((lit ''binary_sha256''), RS digest)])) (\<lambda>_.
    bindM (make_parent H (sa_output s)) (\<lambda>_.
    bindM ((case old_binary of None \<Rightarrow> retM ()
     | Some old \<Rightarrow> bindM (worldM (ho_sha256 H old)) (\<lambda>h. put_report (lit ''old_binary_sha256'') (RS h)))) (\<lambda>_.
    inside_report H (path_join (sa_home s) (lit ''build/migration-work'')) (\<lambda>home. bindM (ifM (ho_linux H) (check_filesystem H home)) (\<lambda>_.
        bindM (resolveM H (case old_binary of None \<Rightarrow> sa_binary s | Some old \<Rightarrow> old)) (\<lambda>binary.
        bindM (net_cluster H home binary (sa_openssl s) 4 (lit ''manual'')) (\<lambda>c.
        bindM (read_configs H c) (\<lambda>original.
        closing H home 6000 (migration_work H (sa_binary s) (old_binary \<noteq> None) operations c original))))))
      (save_report H (sa_output s))))))))"

section \<open>Backups from before retry epochs\<close>

definition legacy_command :: "'w hostops \<Rightarrow> pstr \<Rightarrow> pstr list \<Rightarrow> ('x \<times> 'w, unit) comp" where
  "legacy_command H binary argv = bindM (resolveM H binary) (\<lambda>resolved.
    bindM (worldM (ho_run H (resolved # argv))) (\<lambda>(code, _, _).
    assertM (code = 0) ''argv, result.stdout, result.stderr''))"

definition legacy_pending :: "PendingWrite res" where
  "legacy_pending = pending_write (JStr (concat (replicate 16 (lit ''ab'')))) (JInt 1) (JStr (lit ''UPDATE legacy SET v=v+1'')) [] (JInt 0) (JInt 0)"

definition legacy_value :: "'w netops \<Rightarrow> int \<Rightarrow> ((Connection \<times> 'x) \<times> 'w, unit) comp" where
  "legacy_value N n = assert_scalar N (lit ''SELECT v FROM legacy'') [] n"

definition legacy_saved :: "'w hostops \<Rightarrow> pstr \<Rightarrow> pstr \<Rightarrow> NetCluster \<Rightarrow> ('w nrstate, PendingWrite) comp" where
  "legacy_saved H old_binary binary c = (let N = ho_net H in
    bindM (start_all H c True) (\<lambda>_.
    bindM (ready_all H c) (\<lambda>_.
    bindM (net_with H c all_nodes 10 None (bindM (run_sql N (lit ''CREATE TABLE legacy(v INTEGER)'') []) (\<lambda>_.
      run_sql N (lit ''INSERT INTO legacy VALUES(0)'') []))) (\<lambda>_.
    bindM (liftR legacy_pending) (\<lambda>saved.
    bindM (net_with H c [1] 10 (Some saved) (bindM (dbM (resolve_pending N)) (\<lambda>_.
      legacy_value N 1))) (\<lambda>_.
    bindM (net_stop H 1) (\<lambda>_.
    bindM (legacy_command H old_binary [(lit ''backup''), config_file c 1, path_join (nc_root c) (lit ''backup'')]) (\<lambda>_.
    bindM (legacy_command H binary [(lit ''verify-backup''), path_join (nc_root c) (lit ''backup'')]) (\<lambda>_.
    bindM (net_stop H 2) (\<lambda>_.
    bindM (net_stop H 3) (\<lambda>_.
    retM saved)))))))))))"

definition legacy_restored :: "'w hostops \<Rightarrow> pstr \<Rightarrow> NetCluster \<Rightarrow> PendingWrite \<Rightarrow> ('w nrstate, unit) comp" where
  "legacy_restored H binary c saved = (let N = ho_net H in
    bindM (forM all_nodes (\<lambda>node. bindM (worldM (ho_read H (config_file c node))) (\<lambda>contents.
      bindM (liftR (update_config H contents (nc_namespace c) (path_join (nc_root c) (lit ''upgraded'' @ dec node)))) (\<lambda>cfg.
      bindM (worldM (ho_write H (config_file c node) (dump_config H cfg))) (\<lambda>_.
      legacy_command H binary [(lit ''restore''), path_join (nc_root c) (lit ''backup''), config_file c node, (lit ''--new-cluster'')]))))) (\<lambda>_.
    bindM (start_all H c False) (\<lambda>_.
    bindM (ready_all H c) (\<lambda>_.
    bindM (net_with H c [3] 10 (Some saved) (bindM (dbM (resolve_pending N)) (\<lambda>_.
      bindM (legacy_value N 1) (\<lambda>_.
      retire_is N 0 1)))) (\<lambda>_.
    bindM (net_with H c [2] 10 (Some saved) (rejectedM (dbM (resolve_pending N)) (\<lambda>e. case e of SessionError _ \<Rightarrow> True | _ \<Rightarrow> False)
      (has_code ''Expired'') ''Old epoch request revived'')) (\<lambda>_.
    bindM (net_with H c [1] 10 None (bindM (run_sql N (lit ''UPDATE legacy SET v=v+1'') []) (\<lambda>_.
      legacy_value N 2))) (\<lambda>_.
    bindM (restart_cluster H c) (\<lambda>_.
    bindM (forM all_nodes (\<lambda>node. bindM (node_ready H c node 60) (\<lambda>_.
      net_with H c [node] 10 None (bindM (dbM (session_epoch N)) (\<lambda>epoch.
        bindM (assertM (epoch = 1) ''session_epoch'') (\<lambda>_.
        legacy_value N 2)))))) (\<lambda>_.
    bindM complete_report (\<lambda>_.
    record_check ''legacy_backup_retry_epoch_conversion_retirement_and_restart''))))))))))"

definition legacy_main :: "'w hostops \<Rightarrow> script_args \<Rightarrow> pstr \<Rightarrow> ('w nrstate, unit) comp" where
  "legacy_main H s old_binary = bindM (askM (ho_exists H (sa_output s))) (\<lambda>exists.
    bindM (whenM exists (SystemExit ''Use a new evidence path'')) (\<lambda>_.
    bindM (worldM (ho_sha256 H old_binary)) (\<lambda>before.
    bindM (worldM (ho_sha256 H (sa_binary s))) (\<lambda>digest.
    bindM (updM (\<lambda>_. run_empty [((lit ''complete''), RB False), ((lit ''passed''), RB False), ((lit ''checks''), RL []), ((lit ''old_binary_sha256''), RS before),
      ((lit ''binary_sha256''), RS digest)])) (\<lambda>_.
    let work_root = path_join (sa_home s) (lit ''build/legacy-epoch-work'') in
    bindM (worldM (ho_mkdir H work_root)) (\<lambda>_.
    bindM (make_parent H (sa_output s)) (\<lambda>_.
    reportedM H (temp_dirM H work_root (\<lambda>home. bindM (resolveM H old_binary) (\<lambda>old.
        bindM (net_cluster H home old (path_join (sa_home s) (lit ''build/native/openssl'')) 5 (lit ''manual'')) (\<lambda>c.
        closing H home 8000 (bindM (legacy_saved H old_binary (sa_binary s) c) (\<lambda>saved.
          bindM (resolveM H (sa_binary s)) (\<lambda>resolved.
          legacy_restored H (sa_binary s) (c\<lparr>nc_namespace := (lit ''epoch-upgraded-recovery''), nc_binary := resolved\<rparr>) saved)))))))
      (bindM (source_digests H (sa_home s) [(lit ''src''), (lit ''service''), (lit ''cli'')] (\<lambda>p. ends_with p ''.odin'')) (\<lambda>sources.
        bindM (put_report (lit ''sources'') sources) (\<lambda>_.
        save_report H (sa_output s)))))))))))"

end
