(* ===== verification/Credential_Checks.thy ===== *)
theory Credential_Checks
  imports Upgrade_Checks
begin

text \<open>
  \<open>tools/check_certificate_lifecycle.py\<close>: expired credentials, mismatched configurations and the renewal of a
  cluster's certificate authority. A \<open>RenewalCluster\<close> connects with the credentials of \<open>credential_root\<close>; the
  model gives \<open>connect\<close> and \<open>ready\<close> a cluster whose root is that directory, since they read credentials only.
\<close>

definition tls_from :: "pstr \<Rightarrow> pstr \<Rightarrow> string \<Rightarrow> TLS" where
  "tls_from ca_root root_dir name = \<lparr>tls_ca = path_join ca_root (lit ''ca.pem''), tls_cert = path_join root_dir (lit name @ lit ''.pem''),
     tls_key = path_join root_dir (lit name @ lit ''.key'')\<rparr>"

definition rejected_connection :: "'w hostops \<Rightarrow> NetCluster \<Rightarrow> TLS \<Rightarrow> ('x \<times> 'w, unit) comp" where
  "rejected_connection H c tls = bindM (liftR (nth_res (nc_members c) 0)) (\<lambda>m.
    let endpoint = \<lparr>ep_address = mb_address m, ep_server_name = mb_identity m\<rparr> in
    bindM (with_db (ho_net H) (worldM (connection_new (ho_net H) [endpoint] (lit ''network-qualification'') tls (8 / 10) None))
      (handleM (dbM (status (ho_net H))) (\<lambda>_. retM False) (\<lambda>e. if is_ConnectionError e then retM True else raiseM e))) (\<lambda>refused.
    whenM (\<not> refused) (AssertionError ''Rejected credential obtained a service response'')))"

definition refused_start :: "'w hostops \<Rightarrow> pstr \<Rightarrow> pstr \<Rightarrow> string \<Rightarrow> ('x \<times> 'w, pstr) comp" where
  "refused_start H binary path reason = bindM (worldM (ho_run H [binary, (lit ''serve''), path])) (\<lambda>(code, _, err).
    bindM (assertM (code = 1 \<and> has_text (lit reason) err) ''result'') (\<lambda>_.
    retM err))"

text \<open>\<open>config['members'][2]['id'] = 4\<close>\<close>

definition set_third_id :: "dict \<Rightarrow> dict res" where
  "set_third_id d = bindR (key_res d ''members'') (\<lambda>ms. case ms of
      JList xs \<Rightarrow> bindR (nth_res xs 2) (\<lambda>m. case m of
          JObj e \<Rightarrow> Inr (dset d (lit ''members'') (JList (xs[2 := JObj (dset e (lit ''id'') (JInt 4))])))
        | _ \<Rightarrow> Inl (TypeError ''object does not support item assignment''))
    | _ \<Rightarrow> Inl (TypeError ''object is not subscriptable''))"

definition original_of :: "(nat \<times> dict) list \<Rightarrow> nat \<Rightarrow> dict res" where
  "original_of original node = (case map_of original node of None \<Rightarrow> Inl KeyError | Some d \<Rightarrow> Inr d)"

definition write_config :: "'w hostops \<Rightarrow> NetCluster \<Rightarrow> nat \<Rightarrow> dict \<Rightarrow> ('x \<times> 'w, unit) comp" where
  "write_config H c node d = worldM (ho_write H (config_file c node) (dump_config H d))"

definition items_visits :: "'w netops \<Rightarrow> int \<Rightarrow> ((Connection \<times> 'x) \<times> 'w, unit) comp" where
  "items_visits N n = assert_scalar N (lit ''SELECT visits FROM items'') [] n"

definition renewal_pending :: "PendingWrite res" where
  "renewal_pending = pending_write (JStr (concat (replicate 16 (lit ''cd'')))) (JInt 1) (JStr (lit ''UPDATE items SET visits=visits+1 WHERE id=1'')) []
     (JInt 0) (JInt 0)"

definition expired_client :: "'w hostops \<Rightarrow> NetCluster \<Rightarrow> ('w nrstate, PendingWrite) comp" where
  "expired_client H c = (let N = ho_net H in
    bindM (start_all H c True) (\<lambda>_.
    bindM (ready_all H c) (\<lambda>_.
    bindM (net_with H c all_nodes 10 None (bindM (run_sql N (lit ''CREATE TABLE items(id INTEGER PRIMARY KEY,visits INTEGER)'') []) (\<lambda>_.
      run_sql N (lit ''INSERT INTO items VALUES(1,0)'') []))) (\<lambda>_.
    bindM (liftR renewal_pending) (\<lambda>pending.
    bindM (net_with H c [1] 10 (Some pending) (dbM (resolve_pending N))) (\<lambda>_.
    bindM (rejected_connection H c (tls_from (nc_root c) (nc_root c) ''expired'')) (\<lambda>_.
    bindM (record_check ''expired_client_certificate_rejected_by_native_service'') (\<lambda>_.
    retM pending))))))))"

definition expired_node :: "'w hostops \<Rightarrow> pstr \<Rightarrow> NetCluster \<Rightarrow> (nat \<times> dict) list \<Rightarrow> ('w nrstate, unit) comp" where
  "expired_node H openssl c original = (let N = ho_net H in
    let home = nc_root c in
    bindM (net_stop H 1) (\<lambda>_.
    bindM (run_command H [openssl, (lit ''x509''), (lit ''-req''), (lit ''-in''), path_join home (lit ''node1.csr''),
      (lit ''-CA''), path_join home (lit ''ca.pem''), (lit ''-CAkey''), path_join home (lit ''ca.key''), (lit ''-set_serial''), (lit ''9001''),
      (lit ''-days''), (lit ''0''), (lit ''-extfile''), path_join home (lit ''node1.ext''), (lit ''-out''), path_join home (lit ''expired-node1.pem'')]) (\<lambda>_.
    bindM (liftR (original_of original 1)) (\<lambda>first.
    bindM (write_config H c 1 (dset first (lit ''certificate'') (JStr (path_join home (lit ''expired-node1.pem''))))) (\<lambda>_.
    bindM (refused_start H (nc_binary c) (config_file c 1) ''certificate dates'') (\<lambda>diagnostic.
    bindM (put_report (lit ''expired_start_diagnostic'') (RS diagnostic)) (\<lambda>_.
    bindM (net_with H c [2, 3] 10 None (visit N)) (\<lambda>_.
    record_check ''expired_local_certificate_fails_startup_with_corrective_diagnostic_and_survivors_progress''))))))))"

definition mismatched_node :: "'w hostops \<Rightarrow> NetCluster \<Rightarrow> (nat \<times> dict) list \<Rightarrow> ('w nrstate, unit) comp" where
  "mismatched_node H c original = (let home = nc_root c in
    bindM (liftR (original_of original 1)) (\<lambda>first.
    bindM (liftR (set_third_id first)) (\<lambda>config.
    bindM (write_config H c 1 config) (\<lambda>_.
    bindM (refused_start H (nc_binary c) (config_file c 1) ''Storage'') (\<lambda>_.
    let mismatch = path_join home (lit ''engine-mismatch'') in
    bindM (worldM (ho_copytree H (path_join home (lit ''data1'')) mismatch)) (\<lambda>_.
    bindM (worldM (ho_sqlite H (path_join mismatch (lit ''consensus.db'')) (lit ''UPDATE _sqlodin_journal_meta SET identity=replace(identity,'' @ [39] @ lit ''sqlite='' @ [39] @ lit '','' @ [39] @ lit ''sqlite=bad'' @ [39] @ lit '')''))) (\<lambda>_.
    bindM (write_config H c 1 (dset first (lit ''data'') (JStr mismatch))) (\<lambda>_.
    bindM (refused_start H (nc_binary c) (config_file c 1) ''Storage'') (\<lambda>_.
    bindM (write_config H c 1 first) (\<lambda>_.
    bindM (net_start H c 1 False) (\<lambda>_.
    bindM (node_ready H c 1 60) (\<lambda>_.
    record_check ''membership_and_engine_identity_mismatch_refuse_startup_without_replacing_source''))))))))))))"

definition minority_ready :: "'w hostops \<Rightarrow> NetCluster \<Rightarrow> ('w nrstate, unit) comp" where
  "minority_ready H c = (let N = ho_net H in
    bindM (net_stop H 2) (\<lambda>_.
    bindM (net_stop H 3) (\<lambda>_.
    bindM (net_with H c [1] (8 / 10) None (bindM (dbM (status N)) (\<lambda>state.
      bindM (liftR (field (JObj state) ''node'')) (\<lambda>node.
      bindM (assertM (num_eq node 1) ''node'') (\<lambda>_.
      rejectedM (read_sql N (lit ''SELECT 1'') []) (\<lambda>e. is_ConnectionError e \<or> is_QueryError e) (\<lambda>_. True) ''Minority reported quorum readiness''))))) (\<lambda>_.
    bindM (net_stop H 1) (\<lambda>_.
    record_check ''listening_status_is_distinct_from_quorum_readiness'')))))"

definition renewed_config :: "pstr \<Rightarrow> nat \<Rightarrow> dict \<Rightarrow> dict" where
  "renewed_config renewed node d = dset (dset (dset d (lit ''ca'') (JStr (path_join renewed (lit ''ca.pem''))))
     (lit ''certificate'') (JStr (path_join renewed (lit ''node'' @ dec node @ lit ''.pem'')))) (lit ''key'') (JStr (path_join renewed (lit ''node'' @ dec node @ lit ''.key'')))"

definition renewal :: "'w hostops \<Rightarrow> pstr \<Rightarrow> NetCluster \<Rightarrow> (nat \<times> dict) list \<Rightarrow> PendingWrite \<Rightarrow> ('w nrstate, unit) comp" where
  "renewal H openssl c original pending = (let N = ho_net H in
    let home = nc_root c in
    let renewed = path_join home (lit ''renewed'') in
    bindM (worldM (ho_mkdir H renewed)) (\<lambda>_.
    bindM (generate H renewed openssl) (\<lambda>_.
    bindM (worldM (ho_sha256 H (path_join home (lit ''ca.pem'')))) (\<lambda>before.
    bindM (worldM (ho_sha256 H (path_join renewed (lit ''ca.pem'')))) (\<lambda>after.
    bindM (put_report (lit ''ca_sha256'') (RL [RS before, RS after])) (\<lambda>_.
    bindM (assertM (before \<noteq> after) ''ca_sha256'') (\<lambda>_.
    bindM (forM all_nodes (\<lambda>node. bindM (liftR (original_of original node)) (\<lambda>d.
      write_config H c node (renewed_config renewed node d)))) (\<lambda>_.
    let r = c\<lparr>nc_root := renewed\<rparr> in
    bindM (start_all H c False) (\<lambda>_.
    bindM (ready_all H r) (\<lambda>_.
    bindM (rejected_connection H c (tls_from home home ''client'')) (\<lambda>_.
    bindM (rejected_connection H c (tls_from renewed home ''client'')) (\<lambda>_.
    bindM (net_with H r [3] 10 (Some pending) (bindM (dbM (resolve_pending N)) (\<lambda>_.
      items_visits N 2))) (\<lambda>_.
    bindM (forM all_nodes (\<lambda>node. bindM (net_with H r [node] 10 None (visit N)) (\<lambda>_. retM ()))) (\<lambda>_.
    bindM (record_check ''coordinated_ca_key_and_leaf_renewal_preserves_retry_fences_and_rejects_old_credentials'') (\<lambda>_.
    bindM (restart_cluster H c) (\<lambda>_.
    bindM (forM all_nodes (\<lambda>node. bindM (node_ready H r node 60) (\<lambda>_.
      net_with H r [node] 10 None (items_visits N 5)))) (\<lambda>_.
    bindM (record_check ''renewed_cluster_restarts_with_all_acknowledged_effects'') (\<lambda>_.
    complete_report))))))))))))))))))"

definition certificate_work :: "'w hostops \<Rightarrow> pstr \<Rightarrow> NetCluster \<Rightarrow> (nat \<times> dict) list \<Rightarrow> ('w nrstate, unit) comp" where
  "certificate_work H openssl c original = bindM (expired_client H c) (\<lambda>pending.
    bindM (expired_node H openssl c original) (\<lambda>_.
    bindM (mismatched_node H c original) (\<lambda>_.
    bindM (minority_ready H c) (\<lambda>_.
    renewal H openssl c original pending))))"

definition load_config :: "'w hostops \<Rightarrow> nat \<times> pstr \<Rightarrow> (nat \<times> dict) res" where
  "load_config H e = bindR (ho_loads H (snd e)) (\<lambda>j. case j of JObj d \<Rightarrow> Inr (fst e, d) | _ \<Rightarrow> Inl (TypeError ''not a mapping''))"

definition certificate_main :: "'w hostops \<Rightarrow> script_args \<Rightarrow> ('w nrstate, unit) comp" where
  "certificate_main H s = bindM (askM (ho_exists H (sa_output s))) (\<lambda>exists.
    bindM (whenM exists (SystemExit ''Use a new evidence path'')) (\<lambda>_.
    bindM (resolveM H (sa_binary s)) (\<lambda>binary.
    bindM (askM (ho_utcnow H)) (\<lambda>now.
    bindM (worldM (ho_sha256 H binary)) (\<lambda>digest.
    bindM (updM (\<lambda>_. run_empty [((lit ''complete''), RB False), ((lit ''passed''), RB False), ((lit ''checks''), RL []), ((lit ''run_at_utc''), RS now),
      ((lit ''binary_sha256''), RS digest)])) (\<lambda>_.
    bindM (make_parent H (sa_output s)) (\<lambda>_.
    let work_root = path_join (sa_home s) (lit ''build/certificate-lifecycle-work'') in
    bindM (worldM (ho_mkdir H work_root)) (\<lambda>_.
    reportedM H (temp_dirM H work_root (\<lambda>home. bindM (ifM (ho_linux H) (check_filesystem H home)) (\<lambda>_.
        bindM (net_cluster H home binary (sa_openssl s) 5 (lit ''manual'')) (\<lambda>c.
        bindM (read_configs H c) (\<lambda>contents.
        bindM (liftR (mapR (load_config H) contents)) (\<lambda>original.
        closing H home 12000 (certificate_work H (sa_openssl s) c original)))))))
      (bindM (put_sources H (sa_home s)) (\<lambda>_. save_report H (sa_output s)))))))))))"

end
