(* ===== verification/Cluster_Soak.thy ===== *)
theory Cluster_Soak
  imports Net_Cluster Process_Exercise
begin

text \<open>
  \<open>tools/run_cluster_soak.py\<close>: the controller of \<open>check_process_cluster.py\<close> over SSH. \<open>RemoteCluster\<close> overrides
  how voters are started, stopped and sampled; the soak draws transfers in twelve sessions, verifies
  them in ranges, kills a voter every hour and all of them at the end. The smoke phase, which runs
  the exercise of the local controller over SSH, is not modelled.
\<close>

section \<open>The host\<close>

text \<open>
  \<open>sk_spawn\<close> starts a command with its pipes and the file of its diagnostics, \<open>sk_open\<close> opens a new file for
  events and \<open>sk_append\<close> writes a line through to the disk, \<open>sk_planned\<close> is the time of day after some
  seconds, \<open>sk_line\<close> an event in its compact form, \<open>sk_sum\<close> the sum of numbers.
\<close>

record 'w soakops =
  sk_proc :: "'w procops"
  sk_host :: "'w hostops"
  sk_spawn :: "pstr list \<Rightarrow> pstr \<Rightarrow> 'w \<Rightarrow> nat res \<times> 'w"
  sk_open :: "pstr \<Rightarrow> 'w \<Rightarrow> nat res \<times> 'w"
  sk_append :: "nat \<Rightarrow> pstr \<Rightarrow> 'w \<Rightarrow> unit res \<times> 'w"
  sk_close :: "nat \<Rightarrow> 'w \<Rightarrow> unit \<times> 'w"
  sk_planned :: "rat \<Rightarrow> 'w \<Rightarrow> pstr \<times> 'w"
  sk_line :: "report \<Rightarrow> pstr"
  sk_sum :: "json list \<Rightarrow> json"

record soak_config =
  sc_root :: pstr
  sc_results :: pstr
  sc_known_hosts :: pstr
  sc_ssh_key :: pstr
  sc_hosts :: "pstr list"
  sc_limits :: json

text \<open>\<open>temp = path.with_suffix('.tmp')\<close>, then \<open>replace\<close>.\<close>

definition with_suffix :: "pstr \<Rightarrow> string \<Rightarrow> pstr" where
  "with_suffix path suffix =
    (let name = base_name path; stem = rev (tl (dropWhile (\<lambda>c. c \<noteq> 46) (rev name)))
     in take (length path - length name) path @ (if 46 \<in> set (tl name) then stem else name) @ lit suffix)"

definition atomic_json :: "'w hostops \<Rightarrow> pstr \<Rightarrow> report \<Rightarrow> ('x \<times> 'w, unit) comp" where
  "atomic_json H path entries = (let temp = with_suffix path ''.tmp'' in
    bindM (worldM (ho_write H temp (ho_dumps H entries @ [10]))) (\<lambda>_.
    worldM (ho_rename H temp path)))"

definition soak_command :: "soak_config \<Rightarrow> nat \<Rightarrow> pstr list \<Rightarrow> pstr list res" where
  "soak_command c node argv =
    (if node = 0 then Inr ([(lit ''python3''), (sc_root c @ lit ''/qualification_worker.py''), sc_root c] @ argv)
     else bindR (nth_res (sc_hosts c) node) (\<lambda>host. Inr
       ([(lit ''ssh''), (lit ''-o''), (lit ''BatchMode=yes''), (lit ''-o''), (lit ''IdentitiesOnly=yes''), (lit ''-o''), (lit ''StrictHostKeyChecking=yes''), (lit ''-o''), (lit ''ConnectTimeout=10''),
         (lit ''-o''), (lit ''ServerAliveInterval=15''), (lit ''-o''), (lit ''ServerAliveCountMax=3''), (lit ''-o''), (lit ''UserKnownHostsFile='' @ sc_known_hosts c),
         (lit ''-i''), sc_ssh_key c, host] @ argv)))"

section \<open>Remote voters\<close>

record RemoteCluster = ProcCluster +
  rc_resources :: "json option list"
  rc_cpu :: "((nat \<times> json) \<times> json) list"
  rc_actual :: "int list"

type_synonym 'w rcstate = "RemoteCluster \<times> 'w"

definition remote_worker :: "'w soakops \<Rightarrow> soak_config \<Rightarrow> pstr \<Rightarrow> nat \<Rightarrow> bool \<Rightarrow> ('o \<times> 'w, Worker) comp" where
  "remote_worker K c phase node create = bindM (liftR (soak_command c node [(lit ''start''), phase, if create then (lit ''create'') else (lit ''open'')])) (\<lambda>argv.
    bindM (worldM (sk_spawn K argv (path_join (sc_results c) (phase @ lit ''-node-'' @ (dec (node + 1)) @ lit ''-transport.log'')))) (\<lambda>pid.
    retM \<lparr>wk_node = node, wk_pid = pid\<rparr>))"

definition kill_request :: json where
  "kill_request = JObj [((lit ''_supervisor''), JStr (lit ''kill''))]"

definition stopped_reply :: "json \<Rightarrow> bool" where
  "stopped_reply j = (case j of JObj d \<Rightarrow> length d = 2 \<and> dget d ''stopped'' = Some (JBool True) \<and> dget d ''returncode'' = Some (JInt (-9)) | _ \<Rightarrow> False)"

text \<open>\<open>RemoteWorker.stop\<close>: an error of the request is kept until the transport is closed.\<close>

definition remote_stop_worker :: "'w procops \<Rightarrow> Worker \<Rightarrow> ('o \<times> 'w, unit) comp" where
  "remote_stop_worker P k = bindM (askM (pr_poll P (wk_pid k))) (\<lambda>state.
    bindM ((case state of
        Some _ \<Rightarrow> retM None
      | None \<Rightarrow> bindM (outcomeM (bindM (rpc P k kill_request) (\<lambda>response.
            whenM (\<not> stopped_reply response) (RuntimeError ''Unconfirmed remote SIGKILL: {response}'')))) (\<lambda>r.
          bindM (askM (pr_close_stdin P (wk_pid k))) (\<lambda>_.
          bindM (tryM (worldM (pr_wait P (wk_pid k))) (\<lambda>e. if e = TimeoutExpired
            then bindM (askM (pr_kill P (wk_pid k))) (\<lambda>_. worldM (pr_wait P (wk_pid k)))
            else raiseM e)) (\<lambda>_.
          retM (case r of Inl e \<Rightarrow> Some e | Inr _ \<Rightarrow> None)))))) (\<lambda>error.
    bindM (askM (pr_close_stdout P (wk_pid k))) (\<lambda>_.
    bindM (askM (pr_close_log P (wk_pid k))) (\<lambda>_.
    (case error of None \<Rightarrow> retM () | Some e \<Rightarrow> raiseM e)))))"

definition remote_start :: "'w soakops \<Rightarrow> soak_config \<Rightarrow> pstr \<Rightarrow> nat \<Rightarrow> bool \<Rightarrow> ('w rcstate, unit) comp" where
  "remote_start K c phase node create = bindM (remote_worker K c phase node create) (\<lambda>k.
    updM (\<lambda>r. r\<lparr>pc_workers := (pc_workers r)[node := Some k], pc_pids := pc_pids r @ [wk_pid k]\<rparr>))"

definition remote_stop :: "'w soakops \<Rightarrow> nat \<Rightarrow> ('w rcstate, unit) comp" where
  "remote_stop K node = bindM (worker_of node) (\<lambda>k.
    bindM (remote_stop_worker (sk_proc K) k) (\<lambda>_.
    updM (\<lambda>r. r\<lparr>pc_workers := (pc_workers r)[node := None], pc_queues := (pc_queues r)[node := []]\<rparr>)))"

definition hwm_of :: "json \<Rightarrow> int res" where
  "hwm_of resource = (case resource of JObj d \<Rightarrow> (case dget d ''VmHWM'' of None \<Rightarrow> Inr 0 | Some (JInt n) \<Rightarrow> Inr n
      | Some _ \<Rightarrow> Inl (TypeError ''not supported between these instances'')) | _ \<Rightarrow> Inl AttributeError)"

definition record_resources :: "nat \<times> json \<Rightarrow> ('w rcstate, unit) comp" where
  "record_resources = (\<lambda>(node, response). bindM (liftR (field response ''_resources'')) (\<lambda>resource.
    bindM (liftR (field resource ''pid'')) (\<lambda>pid.
    bindM (liftR (field resource ''cpu_seconds'')) (\<lambda>cpu.
    bindM (liftR (hwm_of resource)) (\<lambda>peak.
    updM (\<lambda>r. r\<lparr>rc_resources := (rc_resources r)[node := Some resource], rc_cpu := AList.update (node, pid) cpu (rc_cpu r),
      rc_actual := (rc_actual r)[node := max (rc_actual r ! node) peak]\<rparr>))))))"

text \<open>\<open>sample_cpu\<close> does nothing here; the inherited round is followed by the resources of the replies.\<close>

definition remote_round :: "'w procops \<Rightarrow> (\<lparr>rc_resources :: json option list, rc_cpu :: ((nat \<times> json) \<times> json) list, rc_actual :: int list\<rparr>, 'w) rounds" where
  "remote_round P writes tick queries controls = bindM (round_with (\<lambda>_. retM ()) P writes tick queries controls) (\<lambda>results.
    bindM (forM results record_resources) (\<lambda>_.
    bindM (updM (\<lambda>r. r\<lparr>pc_peak_rss := map Some (rc_actual r)\<rparr>)) (\<lambda>_.
    retM results)))"

text \<open>\<open>close\<close>: every voter is stopped, whatever the others do; the errors are raised together.\<close>

definition remote_close :: "'w soakops \<Rightarrow> ('w rcstate, unit) comp" where
  "remote_close K = bindM (foldM [0, 1, 2] [] (\<lambda>node errors. bindM objM (\<lambda>r.
      (case pc_workers r ! node of
         None \<Rightarrow> retM errors
       | Some k \<Rightarrow> bindM (outcomeM (remote_stop_worker (sk_proc K) k)) (\<lambda>result.
           bindM (updM (\<lambda>r. r\<lparr>pc_workers := (pc_workers r)[node := None]\<rparr>)) (\<lambda>_.
           retM (case result of Inl e \<Rightarrow> errors @ [e] | Inr _ \<Rightarrow> errors))))))) (\<lambda>errors.
    whenM (errors \<noteq> []) (RuntimeError ''Remote cleanup errors: ...''))"

text \<open>\<open>__init__\<close> starts the three voters; a failure closes what is running.\<close>

definition remote_init :: "'w soakops \<Rightarrow> soak_config \<Rightarrow> pstr \<Rightarrow> ('w rcstate, unit) comp" where
  "remote_init K c phase = bindM (updM (\<lambda>_. ProcCluster.extend cluster_empty (RemoteCluster.fields [None, None, None] [] [0, 0, 0]))) (\<lambda>_.
    tryM (forM [0, 1, 2] (\<lambda>node. remote_start K c phase node True))
      (\<lambda>e. bindM (remote_close K) (\<lambda>_. raiseM e)))"

definition forget_completed :: "RemoteCluster \<Rightarrow> RemoteCluster" where
  "forget_completed r = r\<lparr>pc_completed := Map.empty, pc_first := Map.empty, pc_counts := Map.empty, pc_awaited := Map.empty, pc_latency := []\<rparr>"

definition require_applied :: "WriteReq list \<Rightarrow> ('w rcstate, unit) comp" where
  "require_applied requests = forM requests (\<lambda>r. bindM objM (\<lambda>c.
    bindM ((case pc_completed c (rq_key r) of
        None \<Rightarrow> retM None
      | Some (JObj d) \<Rightarrow> retM (dget d ''kind'')
      | Some _ \<Rightarrow> raiseM AttributeError)) (\<lambda>kind.
    whenM (kind \<noteq> Some (JStr (lit ''Applied''))) (RuntimeError ''Request did not apply: {key}''))))"

section \<open>Verification\<close>

definition range_query :: "nat \<Rightarrow> nat \<Rightarrow> pstr" where
  "range_query start stop =
    (lit ''SELECT t.id FROM transfers t JOIN ledger l ON l.tx=t.id '')
    @ (lit ''WHERE t.id BETWEEN '' @ dec start @ lit '' AND '' @ dec stop @ lit '' AND l.tx BETWEEN '' @ dec start @ lit '' AND '' @ dec stop @ lit '' '')
    @ (lit ''AND t.src=t.id%3+1 '')
    @ (lit ''AND t.dst=t.src%3+1 AND t.amount=t.id%17+1 '')
    @ (lit ''AND t.payload='') @ [39] @ replicate 256 120 @ [39] @ (lit '' '')
    @ (lit ''AND ((l.account=t.src AND l.delta=-t.amount) '')
    @ (lit ''OR (l.account=t.dst AND l.delta=t.amount)) '')
    @ (lit ''GROUP BY t.id HAVING count(*)=2 AND count(DISTINCT l.account)=2'')"

text \<open>The ranges of 32 transfers in which \<open>first\<close> to \<open>last\<close> are read back.\<close>

definition check_ranges :: "nat \<Rightarrow> nat \<Rightarrow> (nat \<times> nat) list" where
  "check_ranges first final = map (\<lambda>start. (start, min (start + 31) final)) (range_step first (final + 1) 32)"

definition verify_range :: "'w procops \<Rightarrow> nat \<Rightarrow> nat \<Rightarrow> int list \<Rightarrow> ('w rcstate, unit) comp" where
  "verify_range P first final balances = bindM (settle_with (remote_round P) [] 300) (\<lambda>_.
    let text_of = balances_query balances in
    bindM (fenced_with (remote_round P) P [(0, text_of), (1, text_of), (2, text_of)]) (\<lambda>counts.
    bindM (whenM (\<not> (length counts = 3 \<and> (\<forall>n \<in> {0, 1, 2}. map_of counts n = Some (JInt 3)))) (RuntimeError ''Fenced account balances differ'')) (\<lambda>_.
    forM (check_ranges first final) (\<lambda>(start, stop). bindM (remote_round P [] False (map (\<lambda>n. (n, range_query start stop)) [0, 1, 2]) []) (\<lambda>replies.
      forM replies (\<lambda>(_, response). bindM (liftR (field response ''rows'')) (\<lambda>rows.
        whenM (rows \<noteq> JInt (int (stop - start + 1))) (RuntimeError ''Exact transfer/audit mismatch in {start}..{end}''))))))))"

section \<open>The soak\<close>

record soak =
  so_sequences :: "nat list"
  so_balances :: "int list"
  so_writes :: nat
  so_reads :: nat
  so_checked :: nat
  so_rounds :: nat
  so_retries :: nat
  so_latencies :: "rat list"
  so_read_latencies :: "rat list"
  so_last :: "WriteReq list"
  so_operations :: nat
  so_interval :: rat
  so_status :: rat
  so_fault :: rat
  so_open :: bool
  so_report :: report

type_synonym 'w sostate = "soak \<times> 'w rcstate"

text \<open>
  The draws of a pass: the requests so far, the number of reads, the sequences of the twelve sessions and
  the balances. A write continues the numbering of the transfers.
\<close>

record draws =
  dr_requests :: "WriteReq list"
  dr_reads :: nat
  dr_sequences :: "nat list"
  dr_balances :: "int list"

definition draw_write :: "nat \<Rightarrow> draws \<Rightarrow> draws" where
  "draw_write writes d =
    (let identifier = writes + length (dr_requests d) + 1; (req, amount) = transaction_of identifier; client = (identifier - 1) mod 12;
         sequences = (dr_sequences d)[client := dr_sequences d ! client + 1]
     in d\<lparr>dr_requests := dr_requests d @ [req\<lparr>rq_client := 100 + int client, rq_sequence := int (sequences ! client)\<rparr>],
          dr_sequences := sequences, dr_balances := apply_transfer (identifier, amount) (dr_balances d)\<rparr>)"

definition draw_pass :: "'w procops \<Rightarrow> nat \<Rightarrow> draws \<Rightarrow> ('o \<times> 'w, draws) comp" where
  "draw_pass P writes d0 = foldM [0..<12] d0 (\<lambda>_ d. bindM (askM (pr_random P)) (\<lambda>x.
    retM (if x < 7 / 10 then d\<lparr>dr_reads := dr_reads d + 1\<rparr> else draw_write writes d)))"

definition first_query :: "int list \<Rightarrow> pstr" where
  "first_query balances = (lit ''SELECT id FROM accounts WHERE id=1 AND balance='' @ (dec_int (balances ! 0)))"

definition soak_writes :: "'w procops \<Rightarrow> nat \<Rightarrow> rat \<Rightarrow> WriteReq list \<Rightarrow> ('w rcstate, rat list) comp" where
  "soak_writes P rounds before requests = bindM (submit_with (remote_round P) requests (rounds mod 3) [0, 1, 2]) (\<lambda>_.
    bindM (settle_with (remote_round P) requests 300) (\<lambda>_.
    bindM (require_applied requests) (\<lambda>_.
    bindM objM (\<lambda>c.
    liftR (mapR (\<lambda>r. case pc_first c (rq_key r) of None \<Rightarrow> Inl KeyError | Some t \<Rightarrow> Inr (1000 * (t - before))) requests)))))"

definition soak_reads :: "'w procops \<Rightarrow> nat \<Rightarrow> int list \<Rightarrow> ('w rcstate, unit) comp" where
  "soak_reads P read_count balances = forM (range_step 0 read_count 3) (\<lambda>offset. bindM (fenced_with (remote_round P) P (map (\<lambda>n. (n, first_query balances)) [0..<min 3 (read_count - offset)])) (\<lambda>counts.
    whenM (list_ex (\<lambda>(_, n). n \<noteq> JInt 1) counts) (RuntimeError ''Ordered read missed an acknowledged write'')))"

definition put_soak :: "pstr \<Rightarrow> rv \<Rightarrow> ('w sostate, unit) comp" where
  "put_soak k v = updM (\<lambda>s. s\<lparr>so_report := AList.update k v (so_report s)\<rparr>)"

definition save_soak :: "'w soakops \<Rightarrow> pstr \<Rightarrow> ('w sostate, unit) comp" where
  "save_soak K output = bindM objM (\<lambda>s. innerM (atomic_json (sk_host K) output (so_report s)))"

definition soak_event :: "'w soakops \<Rightarrow> nat \<Rightarrow> report \<Rightarrow> ('w rcstate, report) comp" where
  "soak_event K events entries = bindM (askM (ho_utcnow (sk_host K))) (\<lambda>now.
    let full = AList.update (lit ''utc'') (RS now) entries in
    bindM (worldM (sk_append K events (sk_line K full @ [10]))) (\<lambda>_.
    retM full))"

definition soak_sample :: "'w soakops \<Rightarrow> rat \<Rightarrow> rat \<Rightarrow> soak \<Rightarrow> RemoteCluster \<Rightarrow> report" where
  "soak_sample K started now s c =
    [((lit ''type''), RS (lit ''interval'')), ((lit ''elapsed_seconds''), RT (now - started)), ((lit ''operations''), RI (int (so_reads s + so_writes s))),
     ((lit ''reads''), RI (int (so_reads s))), ((lit ''writes''), RI (int (so_writes s))), ((lit ''verified_transfers''), RI (int (so_checked s))),
     ((lit ''acknowledged_retries''), RI (int (so_retries s))),
     ((lit ''interval_operations_per_second''), RT (of_nat (so_operations s) / (now - so_interval s))),
     ((lit ''write_latency_ms''), RD (map (\<lambda>(p, v). ((lit ''p'' @ dec p), RT v)) (percentiles (so_latencies s)))),
     ((lit ''read_latency_ms''), RD (map (\<lambda>(p, v). ((lit ''p'' @ dec p), RT v)) (percentiles (so_read_latencies s)))),
     ((lit ''voter_resources''), RL (map (\<lambda>r. case r of None \<Rightarrow> RJ JNull | Some j \<Rightarrow> RJ j) (rc_resources c))),
     ((lit ''voter_cpu_seconds''), RJ (sk_sum K (map snd (rc_cpu c)))),
     ((lit ''peak_rss_bytes_per_voter''), RL (map (\<lambda>p. case p of None \<Rightarrow> RJ JNull | Some n \<Rightarrow> RI n) (pc_peak_rss c)))]"

text \<open>The end of an interval: what is new is verified and the last requests are sent again.\<close>

definition soak_interval :: "'w soakops \<Rightarrow> pstr \<Rightarrow> nat \<Rightarrow> rat \<Rightarrow> ('w sostate, unit) comp" where
  "soak_interval K output events started = (let P = sk_proc K in
    bindM objM (\<lambda>s.
    bindM (innerM (verify_range P (so_checked s + 1) (so_writes s) (so_balances s))) (\<lambda>_.
    bindM (updM (\<lambda>s. s\<lparr>so_checked := so_writes s\<rparr>)) (\<lambda>_.
    bindM (ifM (so_last s \<noteq> []) (bindM (innerM (submit_with (remote_round P) (so_last s) ((so_rounds s + 1) mod 3) [0, 1, 2])) (\<lambda>_.
      bindM (innerM (settle_with (remote_round P) (so_last s) 300)) (\<lambda>_.
      bindM (innerM (require_applied (so_last s))) (\<lambda>_.
      updM (\<lambda>s. s\<lparr>so_retries := so_retries s + length (so_last s)\<rparr>)))))) (\<lambda>_.
    bindM (innerM (askM (pr_clock P))) (\<lambda>now.
    bindM objM (\<lambda>s1.
    bindM (whenM (now = so_interval s1) ZeroDivisionError) (\<lambda>_.
    bindM (innerM objM) (\<lambda>c.
    bindM (whenM (list_ex (\<lambda>r. r = None) (rc_resources c)) (TypeError ''NoneType object is not iterable'')) (\<lambda>_.
    bindM (innerM (soak_event K events (soak_sample K started now s1 c))) (\<lambda>sample.
    bindM (put_soak (lit ''progress'') (RD sample)) (\<lambda>_.
    bindM (save_soak K output) (\<lambda>_.
    updM (\<lambda>s. s\<lparr>so_latencies := [], so_read_latencies := [], so_operations := 0, so_interval := now, so_status := now + 60\<rparr>))))))))))))))"

text \<open>The hourly fault: one voter is killed and must serve the current balance after its return.\<close>

definition soak_fault :: "'w soakops \<Rightarrow> soak_config \<Rightarrow> pstr \<Rightarrow> nat \<Rightarrow> rat \<Rightarrow> ('w sostate, unit) comp" where
  "soak_fault K c phase events started = (let P = sk_proc K in
    bindM (innerM (askM (pr_clock P))) (\<lambda>now.
    let node = nat ((floor ((now - started) / 3600) - 1) mod 3) in
    bindM (innerM (remote_stop K node)) (\<lambda>_.
    bindM (innerM (remote_start K c phase node False)) (\<lambda>_.
    bindM objM (\<lambda>s.
    bindM (innerM (fenced_with (remote_round P) P [(node, first_query (so_balances s))])) (\<lambda>counts.
    bindM (whenM (counts \<noteq> [(node, JInt 1)]) (RuntimeError ''Restarted voter served stale state'')) (\<lambda>_.
    bindM (innerM (soak_event K events [((lit ''type''), RS (lit ''hourly_voter_sigkill_recovery'')), ((lit ''node''), RI (int node + 1)), ((lit ''writes''), RI (int (so_writes s)))])) (\<lambda>_.
    updM (\<lambda>s. s\<lparr>so_fault := so_fault s + 3600\<rparr>)))))))))"

text \<open>One pass of twelve operations.\<close>

definition soak_operations :: "'w soakops \<Rightarrow> ('w sostate, unit) comp" where
  "soak_operations K = (let P = sk_proc K in
    bindM (innerM (updM forget_completed)) (\<lambda>_.
    bindM objM (\<lambda>s.
    bindM (innerM (draw_pass P (so_writes s) \<lparr>dr_requests = [], dr_reads = 0, dr_sequences = so_sequences s, dr_balances = so_balances s\<rparr>)) (\<lambda>d.
    bindM (updM (\<lambda>s. s\<lparr>so_sequences := dr_sequences d, so_balances := dr_balances d\<rparr>)) (\<lambda>_.
    bindM (innerM (askM (pr_clock P))) (\<lambda>before.
    bindM (ifM (dr_requests d \<noteq> []) (bindM (innerM (soak_writes P (so_rounds s) before (dr_requests d))) (\<lambda>latencies.
      updM (\<lambda>s. s\<lparr>so_latencies := so_latencies s @ latencies, so_writes := so_writes s + length (dr_requests d), so_last := dr_requests d\<rparr>)))) (\<lambda>_.
    bindM (innerM (soak_reads P (dr_reads d) (dr_balances d))) (\<lambda>_.
    bindM (innerM objM) (\<lambda>c.
    bindM (updM (\<lambda>s. s\<lparr>so_read_latencies := so_read_latencies s @ pc_latency c, so_reads := so_reads s + dr_reads d,
      so_operations := so_operations s + 12, so_rounds := so_rounds s + 1\<rparr>)) (\<lambda>_.
    bindM objM (\<lambda>s2.
    whenM (100000 < length (so_latencies s2) + length (so_read_latencies s2)) (RuntimeError ''Interval latency sample budget exceeded''))))))))))))"

definition soak_pass :: "'w soakops \<Rightarrow> soak_config \<Rightarrow> pstr \<Rightarrow> pstr \<Rightarrow> nat \<Rightarrow> rat \<Rightarrow> rat \<Rightarrow> ('w sostate, unit option) comp" where
  "soak_pass K c phase output events started deadline = (let P = sk_proc K in
    bindM (soak_operations K) (\<lambda>_.
    bindM objM (\<lambda>s.
    bindM (innerM (askM (pr_clock P))) (\<lambda>t1.
    bindM ((if so_status s \<le> t1 then retM True else bindM (innerM (askM (pr_clock P))) (\<lambda>t2. retM (deadline \<le> t2)))) (\<lambda>late.
    bindM (ifM late (soak_interval K output events started)) (\<lambda>_.
    bindM (innerM (askM (pr_clock P))) (\<lambda>t3.
    bindM ((if so_fault s \<le> t3 then bindM (innerM (askM (pr_clock P))) (\<lambda>t4. retM (t4 < deadline - 120)) else retM False)) (\<lambda>due.
    bindM (ifM due (soak_fault K c phase events started)) (\<lambda>_.
    retM None)))))))))"

text \<open>The end: all voters are killed and reopened, and the rest is verified.\<close>

definition soak_recovery :: "'w soakops \<Rightarrow> soak_config \<Rightarrow> pstr \<Rightarrow> pstr \<Rightarrow> nat \<Rightarrow> rat \<Rightarrow> ('w sostate, json list) comp" where
  "soak_recovery K c phase output events started = (let P = sk_proc K in
    bindM (innerM (askM (pr_clock P))) (\<lambda>now.
    bindM (put_soak (lit ''workload_seconds'') (RT (now - started))) (\<lambda>_.
    bindM (innerM (askM (ho_utcnow (sk_host K)))) (\<lambda>ended.
    bindM (put_soak (lit ''workload_finished_utc'') (RS ended)) (\<lambda>_.
    bindM (put_soak (lit ''status'') (RS (lit ''final_recovery''))) (\<lambda>_.
    bindM (save_soak K output) (\<lambda>_.
    bindM (forM [0, 1, 2] (\<lambda>node. innerM (remote_stop K node))) (\<lambda>_.
    bindM (forM [0, 1, 2] (\<lambda>node. innerM (remote_start K c phase node False))) (\<lambda>_.
    bindM (forM [0..<12] (\<lambda>_. bindM (innerM (remote_round P [] True [] [])) (\<lambda>_. retM ()))) (\<lambda>_.
    bindM objM (\<lambda>s.
    bindM (innerM (verify_range P (so_checked s + 1) (so_writes s) (so_balances s))) (\<lambda>_.
    bindM (innerM (settle_with (remote_round P) [] 300)) (\<lambda>_.
    bindM (innerM (remote_round P [] False [] [])) (\<lambda>replies.
    bindM (liftR (mapR (\<lambda>(_, r). field r ''applied'') replies)) (\<lambda>applied.
    bindM (whenM (length (remdups applied) \<noteq> 1) (RuntimeError ''Final applied prefixes differ: {applied}'')) (\<lambda>_.
    bindM (innerM (soak_event K events [((lit ''type''), RS (lit ''final_whole_cluster_sigkill_recovery'')), ((lit ''applied''), RL (map RJ applied)), ((lit ''writes''), RI (int (so_writes s)))])) (\<lambda>_.
    retM applied)))))))))))))))))"

definition soak_finish :: "'w soakops \<Rightarrow> soak_config \<Rightarrow> pstr \<Rightarrow> pstr \<Rightarrow> nat \<Rightarrow> rat \<Rightarrow> ('w sostate, unit) comp" where
  "soak_finish K c phase output events started = bindM (soak_recovery K c phase output events started) (\<lambda>applied.
    bindM objM (\<lambda>s.
    bindM (put_soak (lit ''reads'') (RI (int (so_reads s)))) (\<lambda>_.
    bindM (put_soak (lit ''writes'') (RI (int (so_writes s)))) (\<lambda>_.
    bindM (put_soak (lit ''operations'') (RI (int (so_reads s + so_writes s)))) (\<lambda>_.
    bindM (put_soak (lit ''acknowledged_retries'') (RI (int (so_retries s)))) (\<lambda>_.
    bindM (put_soak (lit ''final_applied'') (RL (map RJ applied))) (\<lambda>_.
    bindM (put_soak (lit ''session_count'') (RI 13)) (\<lambda>_.
    put_soak (lit ''expected_balances'') (RL (map RI (so_balances s)))))))))))"

definition soak_new :: "rat \<Rightarrow> bool \<Rightarrow> report \<Rightarrow> soak" where
  "soak_new started running entries = \<lparr>so_sequences = replicate 12 0, so_balances = [1000000, 1000000, 1000000], so_writes = 0, so_reads = 0, so_checked = 0,
     so_rounds = 0, so_retries = 0, so_latencies = [], so_read_latencies = [], so_last = [], so_operations = 0, so_interval = started,
     so_status = started + 60, so_fault = started + 3600, so_open = running, so_report = entries\<rparr>"

definition run_soak :: "'w soakops \<Rightarrow> soak_config \<Rightarrow> pstr \<Rightarrow> pstr \<Rightarrow> nat \<Rightarrow> ('w sostate, unit) comp" where
  "run_soak K c phase output seconds = (let P = sk_proc K in
    bindM (innerM (submit_with (remote_round P) [setup_request] 0 [0, 1, 2])) (\<lambda>_.
    bindM (innerM (settle_with (remote_round P) [setup_request] 300)) (\<lambda>_.
    bindM (innerM (require_applied [setup_request])) (\<lambda>_.
    bindM (innerM (askM (pr_clock P))) (\<lambda>started.
    bindM (updM (\<lambda>s. soak_new started (so_open s) (so_report s))) (\<lambda>_.
    bindM (put_soak (lit ''status'') (RS (lit ''running''))) (\<lambda>_.
    bindM (innerM (askM (ho_utcnow (sk_host K)))) (\<lambda>now.
    bindM (put_soak (lit ''workload_started_utc'') (RS now)) (\<lambda>_.
    bindM (put_soak (lit ''requested_workload_seconds'') (RI (int seconds))) (\<lambda>_.
    bindM (innerM (askM (sk_planned K (of_nat seconds)))) (\<lambda>planned.
    bindM (put_soak (lit ''planned_workload_end_utc'') (RS planned)) (\<lambda>_.
    bindM (save_soak K output) (\<lambda>_.
    bindM (innerM (worldM (sk_open K (with_suffix output ''.jsonl'')))) (\<lambda>events.
    finallyM (bindM (whileM (bindM (innerM (askM (pr_clock P))) (\<lambda>t. retM (t < started + of_nat seconds)))
        (soak_pass K c phase output events started (started + of_nat seconds))) (\<lambda>_.
      soak_finish K c phase output events started)) (innerM (askM (sk_close K events)))))))))))))))))"

section \<open>The script\<close>

text \<open>\<open>len({f(x) for x in xs}) == n\<close>\<close>

definition distinct_count :: "json list \<Rightarrow> nat" where
  "distinct_count xs = length (remdups xs)"

definition fstype_of :: "json \<Rightarrow> json res" where
  "fstype_of i = bindR (field i ''filesystem'') (\<lambda>f. bindR (field f ''filesystems'') (\<lambda>l. bindR (first_item l) (\<lambda>e. field e ''fstype'')))"

definition check_inspections :: "json list \<Rightarrow> unit res" where
  "check_inspections is = bindR (mapR (\<lambda>i. field i ''binary_sha256'') is) (\<lambda>binaries.
    if distinct_count binaries \<noteq> 1 then Inl (RuntimeError ''Voter binary fingerprints differ'')
    else bindR (mapR (\<lambda>i. bindR (field i ''identity'') (\<lambda>f. field f ''/etc/machine-id'')) is) (\<lambda>machines.
    if distinct_count machines \<noteq> 3 then Inl (RuntimeError ''Three distinct Linux instance identities required'')
    else bindR (allR (\<lambda>i. bindR (fstype_of i) (\<lambda>t. Inr (t \<notin> {JStr (lit ''tmpfs''), JStr (lit ''ramfs'')}))) is) (\<lambda>persistent.
    if \<not> persistent then Inl (RuntimeError ''Persistent filesystems required'')
    else Inr ())))"

definition check_audits :: "rv option \<Rightarrow> json list \<Rightarrow> unit res" where
  "check_audits writes audits = bindR (allR (\<lambda>a. bindR (field a ''logical_sha256'') (\<lambda>h.
      bindR (nth_res audits 0) (\<lambda>a0. bindR (field a0 ''logical_sha256'') (\<lambda>h0. Inr (h = h0))))) audits) (\<lambda>equal.
    if \<not> equal then Inl (RuntimeError ''Offline logical state hashes differ across voters'')
    else bindR (allR (\<lambda>a. bindR (field a ''counts'') (\<lambda>c. bindR (field c ''transfers'') (\<lambda>n.
      Inr (case (n, writes) of (JInt k, Some (RI m)) \<Rightarrow> k = m | _ \<Rightarrow> False)))) audits) (\<lambda>complete.
    if \<not> complete then Inl (RuntimeError ''Offline transfer count differs from acknowledged workload'')
    else Inr ()))"

text \<open>\<open>json.loads(subprocess.check_output(command(config, node, ...)))\<close>\<close>

definition ask_voter :: "'w soakops \<Rightarrow> soak_config \<Rightarrow> pstr list \<Rightarrow> nat \<Rightarrow> ('w rcstate, json) comp" where
  "ask_voter K c words node = bindM (liftR (soak_command c node words)) (\<lambda>argv.
    bindM (check_output (sk_host K) argv) (\<lambda>out.
    liftR (ho_loads (sk_host K) out)))"

definition soak_verdict :: "'w soakops \<Rightarrow> soak_config \<Rightarrow> pstr \<Rightarrow> ('w sostate, unit) comp" where
  "soak_verdict K c phase = bindM (innerM (remote_close K)) (\<lambda>_.
    bindM (updM (\<lambda>s. s\<lparr>so_open := False\<rparr>)) (\<lambda>_.
    bindM (innerM (mapM (ask_voter K c [(lit ''audit''), phase]) [0, 1, 2])) (\<lambda>audits.
    bindM objM (\<lambda>s.
    bindM (liftR (check_audits (map_of (so_report s) (lit ''writes'')) audits)) (\<lambda>_.
    bindM (put_soak (lit ''complete'') (RB True)) (\<lambda>_.
    bindM (put_soak (lit ''status'') (RS (lit ''passed''))) (\<lambda>_.
    put_soak (lit ''offline_audits'') (RL (map RJ audits)))))))))"

definition soak_work :: "'w soakops \<Rightarrow> soak_config \<Rightarrow> pstr \<Rightarrow> pstr \<Rightarrow> nat \<Rightarrow> ('w sostate, unit) comp" where
  "soak_work K c phase output seconds = bindM (innerM (mapM (ask_voter K c [(lit ''inspect'')]) [0, 1, 2])) (\<lambda>inspections.
    bindM (liftR (check_inspections inspections)) (\<lambda>_.
    bindM (put_soak (lit ''host_inspection'') (RL (map RJ inspections))) (\<lambda>_.
    bindM (innerM (remote_init K c phase)) (\<lambda>_.
    bindM (updM (\<lambda>s. s\<lparr>so_open := True\<rparr>)) (\<lambda>_.
    bindM (run_soak K c phase output seconds) (\<lambda>_.
    soak_verdict K c phase))))))"

text \<open>The \<open>finally\<close> of \<open>main\<close>: a cluster that is still open is closed, and the report is written.\<close>

definition soak_cleanup :: "'w soakops \<Rightarrow> pstr \<Rightarrow> ('w sostate, unit) comp" where
  "soak_cleanup K output = bindM objM (\<lambda>s.
    bindM (ifM (so_open s) (bindM (innerM (outcomeM (remote_close K))) (\<lambda>r.
      (case r of Inl e \<Rightarrow> put_soak (lit ''cleanup_error'') (RS (ho_str (sk_host K) e)) | Inr _ \<Rightarrow> retM ())))) (\<lambda>_.
    bindM (innerM (askM (ho_utcnow (sk_host K)))) (\<lambda>now.
    bindM (put_soak (lit ''finished_utc'') (RS now)) (\<lambda>_.
    save_soak K output))))"

text \<open>The phases \<open>pilot\<close> and \<open>soak\<close>. The signals that bound the run are the host's, and the traceback is not kept.\<close>

definition soak_main :: "'w soakops \<Rightarrow> soak_config \<Rightarrow> pstr \<Rightarrow> nat \<Rightarrow> int \<Rightarrow> ('w sostate, unit) comp" where
  "soak_main K c phase seconds seed = (let H = sk_host K in
    bindM (whenM (\<not> (30 \<le> seconds \<and> seconds \<le> 28800)) (SystemExit ''Workload duration must be 30 seconds through eight hours'')) (\<lambda>_.
    let output = path_join (sc_results c) (phase @ lit ''.json'') in
    bindM (innerM (make_parent H output)) (\<lambda>_.
    bindM (innerM (askM (ho_exists H output))) (\<lambda>exists.
    bindM (whenM exists (SystemExit ''Report already exists; do not overwrite evidence'')) (\<lambda>_.
    bindM (innerM (askM (ho_utcnow H))) (\<lambda>now.
    bindM (innerM (bindM (worldM (ho_read H (path_join (sc_root c) (lit ''manifest.json'')))) (\<lambda>t. liftR (ho_loads H t)))) (\<lambda>manifest.
    bindM (updM (\<lambda>_. soak_new 0 False
      [((lit ''complete''), RB False), ((lit ''status''), RS (lit ''preflight'')), ((lit ''started_utc''), RS now), ((lit ''hosts''), RL (map RS (sc_hosts c))),
       ((lit ''scope''), RS ((lit ''three Linux instances, one fixed-membership durable voter each; '')
         @ (lit ''authenticated SSH framed-pipe transport through a coordinator; '')
         @ (lit ''not a native network service or proof of physical-host independence''))),
       ((lit ''workload''), RS (lit ''70/30 generated mixed point reads/transfers; twelve long-lived transfer sessions plus one schema session'')),
       ((lit ''limits''), RJ (sc_limits c)), ((lit ''seed''), RI seed), ((lit ''phase''), RS phase), ((lit ''manifest''), RJ manifest)])) (\<lambda>_.
    bindM (save_soak K output) (\<lambda>_.
    finallyM (tryM (soak_work K c phase output seconds) (\<lambda>e. bindM (put_soak (lit ''status'') (RS (lit ''failed''))) (\<lambda>_.
        bindM (put_soak (lit ''error'') (RS (ho_str H e))) (\<lambda>_.
        raiseM e))))
      (soak_cleanup K output))))))))))"

end
