(* ===== verification/Soak_Facts.thy ===== *)
theory Soak_Facts
  imports Cluster_Soak Qualification_Facts
begin

text \<open>
  What a soak that passes has established: its requests have identities of their own, the balances it
  demands are those after all the transfers it sent, and the offline audits agree with it.
\<close>

section \<open>Sessions\<close>

text \<open>The sequences of the twelve sessions after \<open>n\<close> transfers, and the request of a transfer.\<close>

definition sessions :: "nat \<Rightarrow> nat list" where
  "sessions n = map (\<lambda>c. (n + 11 - c) div 12) [0..<12]"

definition soak_request :: "nat \<Rightarrow> WriteReq" where
  "soak_request i = (fst (transaction_of i))\<lparr>rq_client := 100 + int ((i - 1) mod 12), rq_sequence := int ((i - 1) div 12 + 1)\<rparr>"

lemma sessions_0: "sessions 0 = replicate 12 0"
  by (simp add: sessions_def list_eq_iff_nth_eq)

lemma sessions_at: "c < 12 \<Longrightarrow> sessions n ! c = (n + 11 - c) div 12"
  by (simp add: sessions_def)

lemma session_next: "sessions n ! (n mod 12) = n div 12"
proof -
  have "n + 11 - n mod 12 = 12 * (n div 12) + 11" using mult_div_mod_eq [of 12 n] by linarith
  then show ?thesis by (simp add: sessions_at)
qed

lemma session_step: "(sessions n)[n mod 12 := sessions n ! (n mod 12) + 1] = sessions (Suc n)"
proof (rule nth_equalityI)
  fix c assume "c < length ((sessions n)[n mod 12 := sessions n ! (n mod 12) + 1])"
  then have c: "c < 12" by (simp add: sessions_def)
  show "(sessions n)[n mod 12 := sessions n ! (n mod 12) + 1] ! c = sessions (Suc n) ! c"
  proof (cases "c = n mod 12")
    case True
    have "Suc (12 * q + m) + 11 - m = 12 * (q + 1)" for q m by simp
    from this [of "n div 12" "n mod 12"] have "Suc n + 11 - n mod 12 = 12 * (n div 12 + 1)" unfolding mult_div_mod_eq .
    then show ?thesis using True c by (simp add: session_next sessions_at sessions_def [of n])
  next
    case False
    have "(Suc n + 11 - c) div 12 = (n + 11 - c) div 12"
    proof -
      have step: "Suc n + 11 - c = Suc (n + 11 - c)" using c by linarith
      have "Suc (n + 11 - c) mod 12 \<noteq> 0"
      proof
        assume "Suc (n + 11 - c) mod 12 = 0"
        then obtain q where "Suc (n + 11 - c) = 12 * q" by (auto simp: mod_eq_0_iff_dvd)
        then have "n + 12 = 12 * q + c" using c by linarith
        then have "(n + 12) mod 12 = c" using c by simp
        then show False using False by simp
      qed
      then show ?thesis unfolding step by (simp add: div_Suc)
    qed
    then show ?thesis using False c by (simp add: sessions_at)
  qed
qed (simp add: sessions_def)

lemma soak_identities: "inj_on (\<lambda>i. rq_key (soak_request i)) {1..}"
proof (rule inj_onI)
  fix i j assume "i \<in> {1..}" "j \<in> {1..}" and eq: "rq_key (soak_request i) = rq_key (soak_request j)"
  then have "(i - 1) mod 12 = (j - 1) mod 12" "(i - 1) div 12 = (j - 1) div 12" by (auto simp: rq_key_def soak_request_def)
  then have "i - 1 = j - 1" by (metis div_mult_mod_eq)
  then show "i = j" using \<open>i \<in> _\<close> \<open>j \<in> _\<close> by auto
qed

section \<open>Draws\<close>

definition draws_ok :: "nat \<Rightarrow> draws \<Rightarrow> bool" where
  "draws_ok w d \<longleftrightarrow> (let n = w + length (dr_requests d) in
     dr_requests d = map soak_request [Suc w..<Suc n] \<and> dr_sequences d = sessions n \<and> dr_balances d = balances_of (map prescribed [1..<Suc n]))"

lemma draw_write_ok:
  assumes "draws_ok w d"
  shows "draws_ok w (draw_write w d)"
proof -
  let ?n = "w + length (dr_requests d)"
  have seq: "(sessions ?n)[?n mod 12 := Suc (?n div 12)] = sessions (Suc ?n)" using session_step [of ?n] by (simp add: session_next)
  have at: "sessions (Suc ?n) ! (?n mod 12) = Suc (?n div 12)"
    unfolding seq [symmetric] by (simp add: sessions_def)
  obtain r a where t: "transaction_of (Suc ?n) = (r, a)" by fastforce
  have "prescribed (Suc ?n) = (Suc ?n, a)" "soak_request (Suc ?n) = r\<lparr>rq_client := 100 + int (?n mod 12), rq_sequence := int (Suc (?n div 12))\<rparr>"
    by (auto simp: prescribed_def soak_request_def t)
  then show ?thesis
    using assms t seq at by (simp add: draws_ok_def draw_write_def Let_def session_next balances_of_def)
qed

section \<open>The soak\<close>

lemma wlp_any: "(\<And>x t. Q x t) \<Longrightarrow> (\<And>e t. E e t) \<Longrightarrow> wlp m Q E s"
  by (auto simp: wlp_def split: option.splits sum.splits)

lemma draw_pass_ok:
  assumes "draws_ok w d"
  shows "wlp (draw_pass P w d) (\<lambda>d' t. draws_ok w d') (\<lambda>_ _. True) s"
  unfolding draw_pass_def
proof (rule wlp_foldM [where I = "\<lambda>_ a _. draws_ok w a"])
  fix x :: nat and ys a and t :: "'a \<times> 'b" assume a: "draws_ok w a"
  then have "draws_ok w (a\<lparr>dr_reads := dr_reads a + 1\<rparr>)" by (simp add: draws_ok_def)
  then show "wlp (bindM (askM (pr_random P)) (\<lambda>x. retM (if x < 7 / 10 then a\<lparr>dr_reads := dr_reads a + 1\<rparr> else draw_write w a)))
      (\<lambda>a' u. draws_ok w a') (\<lambda>_ _. True) t"
    using draw_write_ok [OF a] by (cases t) simp
qed (use assms in auto)

text \<open>Steps of a run of which only the end matters: what the cluster does leaves the controller's record alone.\<close>

lemma run_steps:
  "(\<And>r t. wlp (f r) Q (\<lambda>_ _. True) (x, t)) \<Longrightarrow> wlp (bindM (innerM m) f) Q (\<lambda>_ _. True) (x, s)"
  "(\<And>t. Q () (x, t)) \<Longrightarrow> wlp (innerM n) Q (\<lambda>_ _. True) (x, s)"
  "wlp (g ()) Q (\<lambda>_ _. True) (h x, s) \<Longrightarrow> wlp (bindM (updM h) g) Q (\<lambda>_ _. True) (x, s)"
  "Q () (h x, s) \<Longrightarrow> wlp (updM h) Q (\<lambda>_ _. True) (x, s)"
  "wlp (k x) Q (\<lambda>_ _. True) (x, s) \<Longrightarrow> wlp (bindM objM k) Q (\<lambda>_ _. True) (x, s)"
  "(b \<Longrightarrow> wlp n2 (\<lambda>u. wlp (g u) Q (\<lambda>_ _. True)) (\<lambda>_ _. True) y) \<Longrightarrow> (\<not> b \<Longrightarrow> wlp (g ()) Q (\<lambda>_ _. True) y)
    \<Longrightarrow> wlp (bindM (ifM b n2) g) Q (\<lambda>_ _. True) y"
  "(\<not> b \<Longrightarrow> wlp (g ()) Q (\<lambda>_ _. True) y) \<Longrightarrow> wlp (bindM (whenM b e) g) Q (\<lambda>_ _. True) y"
  "(\<not> b \<Longrightarrow> Q () y) \<Longrightarrow> wlp (whenM b e) Q (\<lambda>_ _. True) y"
  "(\<And>a. v = Inr a \<Longrightarrow> wlp (l a) Q (\<lambda>_ _. True) y) \<Longrightarrow> wlp (bindM (liftR v) l) Q (\<lambda>_ _. True) y"
  by (auto intro: wlp_any split: sum.splits)

text \<open>What the soak knows of the cluster: the sessions and the balances after all transfers that were sent.\<close>

definition soak_ok :: "soak \<Rightarrow> bool" where
  "soak_ok s \<longleftrightarrow> so_sequences s = sessions (so_writes s) \<and> so_balances s = balances_of (map prescribed [1..<Suc (so_writes s)])
     \<and> so_checked s \<le> so_writes s"

lemma soak_operations_ok:
  assumes "soak_ok s"
  shows "wlp (soak_operations K) (\<lambda>_ t. soak_ok (fst t)) (\<lambda>_ _. True) (s, r)"
proof -
  have d0: "draws_ok (so_writes s) \<lparr>dr_requests = [], dr_reads = 0, dr_sequences = so_sequences s, dr_balances = so_balances s\<rparr>"
    using assms by (simp add: soak_ok_def draws_ok_def)
  have work: "wlp (innerM (draw_pass P (so_writes s) \<lparr>dr_requests = [], dr_reads = 0, dr_sequences = so_sequences s, dr_balances = so_balances s\<rparr>))
      (\<lambda>d t. fst t = s \<and> draws_ok (so_writes s) d) (\<lambda>_ _. True) (s, r)" for P :: "'a procops" and r
    by (simp add: draw_pass_ok [OF d0])
  show ?thesis
    unfolding soak_operations_def Let_def
    apply (rule run_steps(1), rule run_steps(5), subst wlp_simps(3), rule wlp_mono [OF work])
    subgoal for _ _ d t
      using assms by (cases t, simp only: fst_conv) (intro run_steps, auto simp: soak_ok_def draws_ok_def Let_def simp del: upt_Suc)
    by simp
qed

section \<open>Verification, faults and the end\<close>

text \<open>What the rest of a pass keeps: the sessions, the balances and the number of transfers.\<close>

definition same_work :: "soak \<Rightarrow> soak \<Rightarrow> bool" where
  "same_work s t \<longleftrightarrow> so_sequences t = so_sequences s \<and> so_balances t = so_balances s \<and> so_writes t = so_writes s
     \<and> (so_checked s \<le> so_writes s \<longrightarrow> so_checked t \<le> so_writes t)"

interpretation sw: step_relation same_work
  by unfold_locales (auto simp: same_work_def)

lemma same_work_ok: "same_work s t \<Longrightarrow> soak_ok s \<Longrightarrow> soak_ok t"
  by (simp add: same_work_def soak_ok_def)

lemma keeps_inner_work: "keepsR same_work fst (innerM m)"
  by (auto simp: keepsR_def sw.step_refl intro: wlp_any)

lemma keeps_put: "keepsR same_work fst (put_soak k v)"
  unfolding put_soak_def by (rule sw.step_upd) (simp add: same_work_def)

lemmas work_rules = sw.step_basic sw.step_bind sw.step_if sw.step_loops keeps_inner_work keeps_put sw.step_objects(1)

lemma keeps_save: "keepsR same_work fst (save_soak K output)"
  unfolding save_soak_def by (intro work_rules)

lemma keeps_interval: "keepsR same_work fst (soak_interval K output events started)"
  unfolding soak_interval_def Let_def by (intro work_rules keeps_save sw.step_upd) (auto simp: same_work_def)

lemma keeps_fault: "keepsR same_work fst (soak_fault K c phase events started)"
  unfolding soak_fault_def Let_def by (intro work_rules sw.step_upd) (auto simp: same_work_def)

lemma keeps_recovery: "keepsR same_work fst (soak_recovery K c phase output events started)"
  unfolding soak_recovery_def Let_def by (intro work_rules keeps_save)

lemma kept_ok:
  assumes "wlp m (\<lambda>_ t. soak_ok (fst t)) (\<lambda>_ _. True) s" and "\<And>x. keepsR same_work fst (f x)"
  shows "wlp (bindM m f) (\<lambda>_ t. soak_ok (fst t)) (\<lambda>_ _. True) s"
  unfolding wlp_simps
  by (rule wlp_mono [OF assms(1)]) (auto intro: wlp_mono [OF sw.step_wlp [OF assms(2)]] same_work_ok)

lemma soak_pass_ok:
  assumes "soak_ok (fst s)"
  shows "wlp (soak_pass K c phase output events started deadline) (\<lambda>_ t. soak_ok (fst t)) (\<lambda>_ _. True) s"
  unfolding soak_pass_def Let_def
proof (rule kept_ok)
  show "wlp (soak_operations K) (\<lambda>_ t. soak_ok (fst t)) (\<lambda>_ _. True) s" using soak_operations_ok assms by (cases s) auto
qed (intro work_rules keeps_interval keeps_fault)

text \<open>What a finished soak reports of its transfers.\<close>

definition reports_work :: "nat \<Rightarrow> report \<Rightarrow> bool" where
  "reports_work n entries \<longleftrightarrow> map_of entries (lit ''writes'') = Some (RI (int n))
     \<and> map_of entries (lit ''expected_balances'') = Some (RL (map RI (balances_of (map prescribed [1..<Suc n]))))"

lemma map_of_put [simp]: "map_of (AList.update k v entries) k' = (if k' = k then Some v else map_of entries k')"
  by (simp add: update_conv)

lemma soak_finish_ok:
  assumes "soak_ok (fst s)"
  shows "wlp (soak_finish K c phase output events started) (\<lambda>_ t. reports_work (so_writes (fst t)) (so_report (fst t))) (\<lambda>_ _. True) s"
proof -
  have "wlp (soak_recovery K c phase output events started) (\<lambda>_ t. soak_ok (fst t)) (\<lambda>_ _. True) s"
    by (rule wlp_mono [OF sw.step_wlp [OF keeps_recovery]]) (use assms same_work_ok in auto)
  then show ?thesis
    unfolding soak_finish_def wlp_simps
    by (rule wlp_mono) (auto simp: put_soak_def reports_work_def soak_ok_def lit_def simp del: upt_Suc)
qed

lemma run_soak_ok: "wlp (run_soak K c phase output seconds) (\<lambda>_ t. reports_work (so_writes (fst t)) (so_report (fst t))) (\<lambda>_ _. True) s"
proof -
  let ?Q = "\<lambda>_ :: unit. \<lambda>t :: 'a sostate. reports_work (so_writes (fst t)) (so_report (fst t))"
  have loop: "wlp (whileM (bindM (innerM (askM (pr_clock (sk_proc K)))) (\<lambda>t. retM (t < d)))
     (soak_pass K c phase output events started d)) (\<lambda>_ t. soak_ok (fst t)) (\<lambda>_ _. True) u" if "soak_ok (fst u)" for events started d u
    by (rule wlp_whileM [where I = "\<lambda>t. soak_ok (fst t)" and J = "\<lambda>t. soak_ok (fst t)"])
      (auto simp: that intro: wlp_mono [OF soak_pass_ok] split: option.splits)
  have new: "soak_ok ((soak_new started a e)\<lparr>so_report := e'\<rparr>)" for started a e e'
    by (simp add: soak_ok_def soak_new_def sessions_0 balances_of_def)
  obtain x r where s: "s = (x, r)" by (rule prod.exhaust)
  show ?thesis
    unfolding s run_soak_def Let_def put_soak_def save_soak_def
  proof (intro run_steps, subst wlp_simps(3), intro run_steps, subst wlp_finally, subst wlp_simps(3), rule wlp_mono [OF loop])
    fix events started d u assume "soak_ok (fst (u :: 'a sostate))"
    then show "wlp (soak_finish K c phase output events started) (\<lambda>x. wlp (innerM (askM (sk_close K events))) (\<lambda>_. ?Q x) (\<lambda>_ _. True))
        (\<lambda>_. wlp (innerM (askM (sk_close K events))) (\<lambda>_ _. True) (\<lambda>_ _. True)) u"
      by (auto intro!: wlp_mono [OF soak_finish_ok] intro: wlp_any)
  qed (auto simp: new intro: wlp_any)
qed

section \<open>Ranges\<close>

text \<open>The ranges in which transfers are read back cover each of them once, at most 32 at a time.\<close>

lemma blocks_cover: "concat (map (\<lambda>k. [a + k * 32..<min (a + k * 32 + 32) b]) [0..<m]) = [a..<min (a + m * 32) b]"
proof (induction m)
  case (Suc m)
  show ?case
  proof (cases "a + m * 32 \<le> b")
    case True
    then have "[a..<a + m * 32] @ [a + m * 32..<min (a + m * 32 + 32) b] = [a..<min (a + m * 32 + 32) b]"
      using upt_add_eq_append [of a "a + m * 32" "min (a + m * 32 + 32) b - (a + m * 32)"] by simp
    then show ?thesis using Suc True by (simp add: min_absorb1 add.commute add.left_commute)
  qed (use Suc in \<open>simp add: min_def\<close>)
qed simp

lemma check_ranges_cover:
  "concat (map (\<lambda>(start, stop). [start..<Suc stop]) (check_ranges first final)) = [first..<Suc final]"
  "(start, stop) \<in> set (check_ranges first final) \<Longrightarrow> stop < start + 32"
proof -
  have "map (\<lambda>(start, stop). [start..<Suc stop]) (check_ranges first final)
      = map (\<lambda>k. [first + k * 32..<min (first + k * 32 + 32) (Suc final)]) [0..<(Suc final - first + 31) div 32]"
    by (simp add: check_ranges_def range_step_def comp_def add.commute min_Suc_Suc [symmetric] del: upt_Suc min_Suc_Suc)
  then show "concat (map (\<lambda>(start, stop). [start..<Suc stop]) (check_ranges first final)) = [first..<Suc final]"
    by (simp add: blocks_cover)
  show "(start, stop) \<in> set (check_ranges first final) \<Longrightarrow> stop < start + 32"
    by (auto simp: check_ranges_def)
qed

section \<open>The offline audits\<close>

text \<open>The audits a passing run accepts: equal logical states that hold exactly the acknowledged transfers.\<close>

definition audits_agree :: "int \<Rightarrow> json list \<Rightarrow> bool" where
  "audits_agree n audits \<longleftrightarrow> (\<exists>h. \<forall>a \<in> set audits. field a ''logical_sha256'' = Inr h
     \<and> bindR (field a ''counts'') (\<lambda>c. field c ''transfers'') = Inr (JInt n))"

lemma allR_true: "allR p xs = Inr True \<longleftrightarrow> (\<forall>x \<in> set xs. p x = Inr True)"
  by (induction xs) (auto simp: bindR_def split: sum.splits if_splits)

lemma count_agrees: "(case (k, Some (RI n)) of (JInt k, Some (RI m)) \<Rightarrow> k = m | _ \<Rightarrow> False) \<longleftrightarrow> k = JInt n"
  by (cases k) auto

lemma check_audits_ok: "check_audits (Some (RI n)) audits = Inr () \<Longrightarrow> audits_agree n audits"
  unfolding check_audits_def audits_agree_def count_agrees
  by (auto simp: bindR_Inr_iff allR_true nth_res_def split: if_splits) (metis sum.inject(2))

text \<open>The report of a run that passed.\<close>

definition soak_evidence :: "report \<Rightarrow> bool" where
  "soak_evidence entries \<longleftrightarrow> map_of entries (lit ''complete'') = Some (RB True) \<and> map_of entries (lit ''status'') = Some (RS (lit ''passed''))
     \<and> (\<exists>n audits. reports_work n entries \<and> map_of entries (lit ''offline_audits'') = Some (RL (map RJ audits)) \<and> length audits = 3 \<and> audits_agree (int n) audits)"

lemma soak_verdict_ok:
  assumes "reports_work n (so_report (fst s))"
  shows "wlp (soak_verdict K c phase) (\<lambda>_ t. soak_evidence (so_report (fst t)) \<and> \<not> so_open (fst t)) (\<lambda>_ _. True) s"
proof -
  have three: "wlp (innerM (mapM f [0, 1, 2])) (\<lambda>xs t. fst t = x \<and> length xs = 3) (\<lambda>_ _. True) (x, r)"
    for f :: "nat \<Rightarrow> ('a rcstate, json) comp" and x :: soak and r
    by (simp del: mapM.simps) (rule wlp_mapM [where I = "\<lambda>ys acc _. length acc + length ys = 3"], auto intro: wlp_any)
  obtain x r where s: "s = (x, r)" by (rule prod.exhaust)
  show ?thesis
    unfolding s soak_verdict_def put_soak_def
  proof (rule run_steps(1), rule run_steps(3), subst wlp_simps(3), rule wlp_mono [OF three])
    fix audits :: "json list" and u :: "'a sostate" assume u: "fst u = x\<lparr>so_open := False\<rparr> \<and> length audits = 3"
    show "wlp (bindM objM (\<lambda>s. bindM (liftR (check_audits (map_of (so_report s) (lit ''writes'')) audits)) (\<lambda>_.
       bindM (updM (\<lambda>s. s\<lparr>so_report := AList.update (lit ''complete'') (RB True) (so_report s)\<rparr>)) (\<lambda>_.
       bindM (updM (\<lambda>s. s\<lparr>so_report := AList.update (lit ''status'') (RS (lit ''passed'')) (so_report s)\<rparr>)) (\<lambda>_.
       updM (\<lambda>s. s\<lparr>so_report := AList.update (lit ''offline_audits'') (RL (map RJ audits)) (so_report s)\<rparr>))))))
       (\<lambda>_ t. soak_evidence (so_report (fst t)) \<and> \<not> so_open (fst t)) (\<lambda>_ _. True) u"
      using u assms check_audits_ok [of "int n" audits]
      by (cases u) (fastforce simp: s soak_evidence_def reports_work_def lit_def split: sum.splits simp del: upt_Suc)
  qed auto
qed

lemma soak_work_ok:
  "wlp (soak_work K c phase output seconds) (\<lambda>_ t. soak_evidence (so_report (fst t)) \<and> \<not> so_open (fst t)) (\<lambda>_ _. True) s"
proof -
  obtain x r where s: "s = (x, r)" by (rule prod.exhaust)
  show ?thesis
    unfolding s soak_work_def put_soak_def
    by (intro run_steps, subst wlp_simps(3), auto intro!: wlp_mono [OF run_soak_ok] soak_verdict_ok)
qed

section \<open>The report\<close>

text \<open>What the cleanup does not touch, and a report that claims nothing it has no evidence for.\<close>

definition same_claims :: "soak \<Rightarrow> soak \<Rightarrow> bool" where
  "same_claims s t \<longleftrightarrow> (\<forall>k \<in> {(lit ''complete''), (lit ''status''), (lit ''writes''), (lit ''expected_balances''), (lit ''offline_audits'')}.
     map_of (so_report t) k = map_of (so_report s) k)"

definition honest :: "report \<Rightarrow> bool" where
  "honest entries \<longleftrightarrow> map_of entries (lit ''status'') \<noteq> Some (RS (lit ''passed'')) \<or> soak_evidence entries"

interpretation cl: step_relation same_claims
  by unfold_locales (auto simp: same_claims_def)

lemma keeps_inner_claims: "keepsR same_claims fst (innerM m)"
  by (auto simp: keepsR_def cl.step_refl intro: wlp_any)

lemma keeps_put_claims: "k \<notin> {(lit ''complete''), (lit ''status''), (lit ''writes''), (lit ''expected_balances''), (lit ''offline_audits'')} \<Longrightarrow> keepsR same_claims fst (put_soak k v)"
  unfolding put_soak_def by (rule cl.step_upd) (auto simp: same_claims_def)

lemma keeps_cleanup: "keepsR same_claims fst (soak_cleanup K output)"
proof -
  have "keepsR same_claims fst (case r of Inl e \<Rightarrow> put_soak (lit ''cleanup_error'') (v e) | Inr _ \<Rightarrow> retM ())" for r :: "unit res" and v
    by (cases r) (auto intro!: keeps_put_claims cl.step_basic simp: lit_def)
  then show ?thesis
    unfolding soak_cleanup_def save_soak_def
    by (intro cl.step_bind cl.step_if keeps_inner_claims cl.step_objects(1) keeps_put_claims) (auto simp: lit_def)
qed

lemma same_claims_kept:
  assumes "same_claims s t"
  shows "soak_evidence (so_report t) = soak_evidence (so_report s)" "honest (so_report t) = honest (so_report s)"
  using assms by (simp_all add: same_claims_def honest_def soak_evidence_def reports_work_def)

lemma checked_steps:
  "(\<And>r t. wlp (f r) Q E (x, t)) \<Longrightarrow> (\<And>e t. E e (x, t)) \<Longrightarrow> wlp (bindM (innerM m) f) Q E (x, s)"
  "(\<And>r t. wlp (g r) Q E (x, t)) \<Longrightarrow> (\<And>e t. E e (x, t)) \<Longrightarrow> wlp (bindM (bindM objM (\<lambda>y. innerM (n y))) g) Q E (x, s)"
  "(\<not> b \<Longrightarrow> wlp (h ()) Q E u) \<Longrightarrow> (b \<Longrightarrow> E e u) \<Longrightarrow> wlp (bindM (whenM b e) h) Q E u"
  "wlp (h ()) Q E (k x, s) \<Longrightarrow> wlp (bindM (updM k) h) Q E (x, s)"
  by (auto intro: wlp_any)

text \<open>
  C36. A soak that ends without an error reports \<open>passed\<close> with the balances that follow from the transfers
  it counts, and with three offline audits that agree on the logical state and hold exactly as many
  transfers. Whatever error ends it, its report never says \<open>passed\<close> without that evidence.
\<close>

theorem soak_passed:
  "wlp (soak_main K c phase seconds seed) (\<lambda>_ t. soak_evidence (so_report (fst t))) (\<lambda>_ t. honest (so_report (fst t))) (soak_new 0 False [], r)"
proof -
  have fail: "honest (AList.update (lit ''error'') v (AList.update (lit ''status'') (RS (lit ''failed'')) e))" for v e
    by (simp add: honest_def lit_def)
  have pass: "soak_evidence e \<Longrightarrow> honest e" for e by (simp add: honest_def)
  have clean: "wlp (soak_cleanup K path) (\<lambda>_ t. soak_evidence (so_report (fst t))) (\<lambda>_ t. honest (so_report (fst t))) s"
    if "soak_evidence (so_report (fst s))" for path s
    by (rule wlp_mono [OF cl.step_wlp [OF keeps_cleanup]]) (use that pass in \<open>auto simp: same_claims_kept\<close>)
  have clean': "wlp (soak_cleanup K path) (\<lambda>_ t. honest (so_report (fst t))) (\<lambda>_ t. honest (so_report (fst t))) s"
    if "honest (so_report (fst s))" for path s
    by (rule wlp_mono [OF cl.step_wlp [OF keeps_cleanup]]) (use that in \<open>auto simp: same_claims_kept\<close>)
  have body: "wlp (finallyM (tryM (soak_work K c phase path seconds) (\<lambda>e. bindM (put_soak (lit ''status'') (RS (lit ''failed''))) (\<lambda>_.
      bindM (put_soak (lit ''error'') (RS (ho_str (sk_host K) e))) (\<lambda>_. raiseM e)))) (soak_cleanup K path))
      (\<lambda>_ t. soak_evidence (so_report (fst t))) (\<lambda>_ t. honest (so_report (fst t))) s" for path s
    unfolding wlp_finally wlp_simps
    apply (rule wlp_mono [OF soak_work_ok])
    subgoal by (auto intro: clean)
    subgoal for e t by (cases t) (auto simp: put_soak_def fail intro!: clean')
    done
  show ?thesis
    unfolding soak_main_def Let_def save_soak_def
    by (intro checked_steps body) (simp_all add: honest_def soak_new_def lit_def)
qed

end
