(* ===== verification/Native_Soak.thy ===== *)
theory Native_Soak
  imports Cluster_Soak Capacity
begin

text \<open>
  \<open>tools/run_native_soak.py\<close>: the soak of the native service. Twelve connections of the modelled client take turns
  with reads and transfers; every 257th write is resolved again through another connection, a voter
  is killed in every fault interval, and the state of all voters is audited at the end.
\<close>

section \<open>The host\<close>

text \<open>
  \<open>nk_append\<close> appends to a file, \<open>nk_line\<close> is \<open>json.dumps\<close> on one line, \<open>nk_json\<close> the same of a JSON value, \<open>nk_time\<close> is
  \<open>time.time\<close>, \<open>nk_after\<close> the time of day after some seconds in ISO format.
\<close>

record 'w nativeops =
  nk_host :: "'w hostops"
  nk_append :: "pstr \<Rightarrow> pstr \<Rightarrow> 'w \<Rightarrow> unit res \<times> 'w"
  nk_line :: "report \<Rightarrow> pstr"
  nk_json :: "json \<Rightarrow> pstr"
  nk_time :: "'w \<Rightarrow> rat \<times> 'w"
  nk_after :: "rat \<Rightarrow> 'w \<Rightarrow> pstr \<times> 'w"

record native_config =
  nx_root :: pstr
  nx_hosts :: "pstr list"
  nx_members :: "Member list"
  nx_known_hosts :: pstr
  nx_ssh_key :: pstr
  nx_binary_sha256 :: json
  nx_source_sha256 :: json
  nx_python :: pstr
  nx_worker :: pstr

text \<open>\<open>save\<close>: a temporary file that replaces the report.\<close>

definition save_native :: "'w hostops \<Rightarrow> pstr \<Rightarrow> report \<Rightarrow> ('x \<times> 'w, unit) comp" where
  "save_native H path entries = (let temp = with_suffix path ''.tmp'' in
    bindM (worldM (ho_write H temp (ho_dumps H entries @ [10]))) (\<lambda>_.
    worldM (ho_rename H temp path)))"

definition control_argv :: "native_config \<Rightarrow> nat \<Rightarrow> pstr list \<Rightarrow> pstr list res" where
  "control_argv c index words =
    (if index = 0 then Inr ([nx_python c, nx_worker c] @ words)
     else bindR (nth_res (nx_hosts c) index) (\<lambda>host. Inr
       ([(lit ''ssh''), (lit ''-o''), (lit ''BatchMode=yes''), (lit ''-o''), (lit ''IdentitiesOnly=yes''), (lit ''-o''), (lit ''StrictHostKeyChecking=yes''),
         (lit ''-o''), (lit ''ConnectTimeout=10''), (lit ''-o''), (lit ''UserKnownHostsFile='' @ nx_known_hosts c),
         (lit ''-i''), nx_ssh_key c, host] @ words)))"

definition control :: "'w hostops \<Rightarrow> native_config \<Rightarrow> nat \<Rightarrow> pstr list \<Rightarrow> ('x \<times> 'w, json) comp" where
  "control H c index words = bindM (liftR (control_argv c index words)) (\<lambda>argv.
    bindM (check_output H argv) (\<lambda>out.
    liftR (ho_loads H out)))"

section \<open>Connections\<close>

definition native_endpoints :: "native_config \<Rightarrow> nat \<Rightarrow> bool \<Rightarrow> Endpoint list res" where
  "native_endpoints c index single =
    bindR (if single then bindR (nth_res (nx_members c) index) (\<lambda>m. Inr [m])
           else Inr (drop index (nx_members c) @ take index (nx_members c)))
      (\<lambda>members. Inr (map (\<lambda>m. \<lparr>ep_address = mb_address m, ep_server_name = mb_identity m\<rparr>) members))"

definition native_connect :: "'w hostops \<Rightarrow> native_config \<Rightarrow> nat \<Rightarrow> PendingWrite option \<Rightarrow> bool \<Rightarrow> rat \<Rightarrow> ('x \<times> 'w, Connection) comp" where
  "native_connect H c index pending single timeout = bindM (liftR (native_endpoints c index single)) (\<lambda>endpoints.
    worldM (connection_new (ho_net H) endpoints (lit ''native-soak'')
      \<lparr>tls_ca = path_join (nx_root c) (lit ''ca.pem''), tls_cert = path_join (nx_root c) (lit ''client.pem''),
       tls_key = path_join (nx_root c) (lit ''client.key'')\<rparr> timeout pending))"

text \<open>\<open>wait_ready\<close>: one attempt, then the loop; it returns the seconds that readiness took.\<close>

definition wait_attempt :: "'w hostops \<Rightarrow> native_config \<Rightarrow> nat \<Rightarrow> rat \<Rightarrow> rat \<Rightarrow> ('x \<times> 'w, rat option) comp" where
  "wait_attempt H c node seconds started = bindM (clockM (ho_net H)) (\<lambda>now.
    let left = seconds - (now - started) in
    bindM (tryM (with_db (ho_net H) (native_connect H c node None True (min 5 left)) (bindM (assert_scalar (ho_net H) (lit ''SELECT 1'') [] 1) (\<lambda>_.
        bindM (clockM (ho_net H)) (\<lambda>ended.
        retM (Some (ended - started)))))) (\<lambda>e. if is_ConnectionError e then retM None else raiseM e)) (\<lambda>r.
    (case r of
       Some elapsed \<Rightarrow> retM (Some elapsed)
     | None \<Rightarrow> bindM (clockM (ho_net H)) (\<lambda>later.
         bindM (effectM (sleep (ho_net H) (min (5 / 100) (max 0 (seconds - (later - started)))))) (\<lambda>_.
         retM None)))))"

definition wait_ready :: "'w hostops \<Rightarrow> native_config \<Rightarrow> nat \<Rightarrow> rat \<Rightarrow> ('x \<times> 'w, rv) comp" where
  "wait_ready H c node seconds = bindM (clockM (ho_net H)) (\<lambda>started.
    bindM (whileM (bindM (clockM (ho_net H)) (\<lambda>now. retM (now - started < seconds))) (wait_attempt H c node seconds started)) (\<lambda>r.
    (case r of
       Some elapsed \<Rightarrow> retM (RD [((lit ''node''), RI (int node + 1)), ((lit ''seconds''), RT elapsed), ((lit ''quorum_read''), RB True)])
     | None \<Rightarrow> raiseM (TimeoutError ''Voter {node+1} did not become quorum-ready: {last_error}''))))"

section \<open>Verification\<close>

definition native_setup :: pstr where
  "native_setup =
    (lit ''CREATE TABLE accounts(id INTEGER PRIMARY KEY,balance INTEGER CHECK(balance>=0));'')
    @ (lit ''INSERT INTO accounts VALUES(1,1000000),(2,1000000),(3,1000000);'')
    @ (lit ''CREATE TABLE transfers(id INTEGER PRIMARY KEY,src REFERENCES accounts(id),dst REFERENCES accounts(id),'')
    @ (lit ''amount INTEGER CHECK(amount>0),payload TEXT);'')
    @ (lit ''CREATE TABLE ledger(tx REFERENCES transfers(id),account REFERENCES accounts(id),delta INTEGER);'')
    @ (lit ''CREATE INDEX ledger_tx ON ledger(tx);'')
    @ (lit ''CREATE TRIGGER audit AFTER INSERT ON transfers BEGIN '')
    @ (lit ''INSERT INTO ledger VALUES(new.id,new.src,-new.amount);'')
    @ (lit ''INSERT INTO ledger VALUES(new.id,new.dst,new.amount); END;'')"

text \<open>The query differs from the one of the other soak only in how its literals are split over lines.\<close>

definition native_ranges :: "nat \<Rightarrow> nat \<Rightarrow> (nat \<times> nat) list" where
  "native_ranges first final = map (\<lambda>start. (start, min (start + 127) final)) (range_step first (final + 1) 128)"

definition native_query :: "nat \<Rightarrow> nat \<Rightarrow> pstr" where
  "native_query start stop =
    (lit ''SELECT t.id FROM transfers t JOIN ledger l ON l.tx=t.id '')
    @ (lit ''WHERE t.id BETWEEN '' @ dec start @ lit '' AND '' @ dec stop @ lit '' AND l.tx BETWEEN '' @ dec start @ lit '' AND '' @ dec stop @ lit '' '')
    @ (lit ''AND t.src=t.id%3+1 AND t.dst=t.src%3+1 AND t.amount=t.id%17+1 '')
    @ (lit ''AND t.payload='') @ [39] @ replicate 256 120 @ [39] @ (lit '' '')
    @ (lit ''AND ((l.account=t.src AND l.delta=-t.amount) OR (l.account=t.dst AND l.delta=t.amount)) '')
    @ (lit ''GROUP BY t.id HAVING count(*)=2 AND count(DISTINCT l.account)=2'')"

definition native_verify :: "'w hostops \<Rightarrow> native_config \<Rightarrow> nat \<Rightarrow> nat \<Rightarrow> int list \<Rightarrow> ('x \<times> 'w, unit) comp" where
  "native_verify H c first final balances = forM [0, 1, 2] (\<lambda>node.
    with_db (ho_net H) (native_connect H c node None True 45) (bindM (read_sql (ho_net H) (lit ''SELECT balance FROM accounts ORDER BY id'') []) (\<lambda>rows.
      bindM (liftR (mapR (\<lambda>r. row_getitem r (KStr (lit ''balance''))) (rows_rows rows))) (\<lambda>cells.
      bindM (assertM (list_all2 cell_is cells balances) ''balances'') (\<lambda>_.
      forM (native_ranges first final) (\<lambda>(start, stop). bindM (read_sql (ho_net H) (native_query start stop) []) (\<lambda>found.
        assertM (rows_len found = stop + 1 - start) ''(node,start,end)'')))))))"

section \<open>The run\<close>

text \<open>The variables of \<open>main\<close> beside its connections.\<close>

record NativeSoak =
  ns_writes :: nat
  ns_reads :: nat
  ns_verified :: nat
  ns_duplicates :: nat
  ns_balances :: "int list"
  ns_read_samples :: "rat list"
  ns_write_samples :: "rat list"
  ns_rng :: nat
  ns_next_check :: rat
  ns_next_fault :: rat
  ns_report :: report

type_synonym 'w nsstate = "(Connection list \<times> NativeSoak) \<times> 'w"

definition varsN :: "('w nsstate, NativeSoak) comp" where
  "varsN = bindM objM (\<lambda>s. retM (snd s))"

definition setN :: "(NativeSoak \<Rightarrow> NativeSoak) \<Rightarrow> ('w nsstate, unit) comp" where
  "setN f = updM (\<lambda>(cs, v). (cs, f v))"

definition put_native :: "pstr \<Rightarrow> rv \<Rightarrow> ('w nsstate, unit) comp" where
  "put_native k x = setN (\<lambda>v. v\<lparr>ns_report := AList.update k x (ns_report v)\<rparr>)"

definition store_native :: "'w nativeops \<Rightarrow> native_config \<Rightarrow> ('w nsstate, unit) comp" where
  "store_native K c = bindM varsN (\<lambda>v. save_native (nk_host K) (path_join (nx_root c) (lit ''soak.json'')) (ns_report v))"

definition voter_fine :: "json \<Rightarrow> bool res" where
  "voter_fine r = bindR (field r ''pid'') (\<lambda>p. if \<not> json_truth p then Inr False
    else bindR (field r ''resources'') (\<lambda>x. case x of
        JObj d \<Rightarrow> Inr (case dget d ''error'' of None \<Rightarrow> True | Some e \<Rightarrow> \<not> json_truth e)
      | _ \<Rightarrow> Inl AttributeError))"

definition native_latency :: "rat list \<Rightarrow> rv" where
  "native_latency xs = RD (map (\<lambda>p. ((lit ''p'' @ dec p), RT (percentile p xs * 1000))) [50, 95, 99])"

definition progress_entry :: "rat \<Rightarrow> NativeSoak \<Rightarrow> json list \<Rightarrow> report" where
  "progress_entry elapsed v resources =
    [((lit ''elapsed_seconds''), RT elapsed), ((lit ''reads''), RI (int (ns_reads v))), ((lit ''writes''), RI (int (ns_writes v))),
     ((lit ''verified_transfers''), RI (int (ns_verified v))), ((lit ''acknowledged_retries''), RI (int (ns_duplicates v))),
     ((lit ''resources''), RL (map RJ resources)),
     ((lit ''latency_ms''), RD (map (\<lambda>(k, xs). (k, native_latency xs))
       (filter (\<lambda>(k, xs). xs \<noteq> []) [((lit ''read''), ns_read_samples v), ((lit ''write''), ns_write_samples v)])))]"

definition native_progress :: "'w nativeops \<Rightarrow> native_config \<Rightarrow> rat \<Rightarrow> ('w nsstate, unit) comp" where
  "native_progress K c start = bindM (mapM (\<lambda>n. control (nk_host K) c n [(lit ''status'')]) [0, 1, 2]) (\<lambda>resources.
    bindM (liftR (allR voter_fine resources)) (\<lambda>fine.
    bindM (assertM fine ''resources'') (\<lambda>_.
    bindM (clockM (ho_net (nk_host K))) (\<lambda>now.
    bindM varsN (\<lambda>v.
    let entry = progress_entry (now - start) v resources in
    bindM (askM (ho_utcnow (nk_host K))) (\<lambda>moment.
    bindM (put_native (lit ''progress'') (RD entry)) (\<lambda>_.
    bindM (put_native (lit ''updated_utc'') (RS moment)) (\<lambda>_.
    bindM (store_native K c) (\<lambda>_.
    bindM (worldM (nk_append K (path_join (nx_root c) (lit ''soak.jsonl'')) (nk_line K entry @ [10]))) (\<lambda>_.
    setN (\<lambda>v. v\<lparr>ns_read_samples := [], ns_write_samples := []\<rparr>)))))))))))"

section \<open>Operations\<close>

definition native_amount :: "nat \<Rightarrow> nat" where
  "native_amount number = number mod 17 + 1"

definition native_body :: "nat \<Rightarrow> pstr" where
  "native_body number =
    (let src = number mod 3 + 1; dst = src mod 3 + 1; amount = native_amount number in
     (lit ''INSERT INTO transfers VALUES('' @ dec number @ lit '','' @ dec src @ lit '','' @ dec dst @ lit '','' @ dec amount @ lit '','') @ [39] @ replicate 256 120 @ [39] @ (lit '');'')
     @ (lit ''UPDATE accounts SET balance=balance-'' @ dec amount @ lit '' WHERE id='' @ dec src @ lit '';'')
     @ (lit ''UPDATE accounts SET balance=balance+'' @ dec amount @ lit '' WHERE id='' @ dec dst))"

text \<open>The write that a later retry presents: the identity of the connection, and no epoch.\<close>

definition saved_write :: "Connection \<Rightarrow> pstr \<Rightarrow> PendingWrite res" where
  "saved_write db body = pending_write (JStr (c_session db)) (JInt (c_sequence db)) (JStr body) [] (JInt 0) (JInt 0)"

definition native_send :: "'w nativeops \<Rightarrow> native_config \<Rightarrow> nat \<Rightarrow> pstr \<Rightarrow> ('w nsstate, unit) comp" where
  "native_send K c i body = tryM
    (bindM (clientM i (execute (ho_net (nk_host K)) (VStr body) (PSeq []))) (\<lambda>_. retM ()))
    (\<lambda>e. case unknown_pending e of
        None \<Rightarrow> raiseM e
      | Some p \<Rightarrow> bindM (worldM (ho_write (nk_host K) (path_join (nx_root c) (lit ''pending.json'')) (nk_json K (pending_to_json p)))) (\<lambda>_.
          raiseM e))"

definition native_retry :: "'w nativeops \<Rightarrow> native_config \<Rightarrow> nat \<Rightarrow> PendingWrite \<Rightarrow> ('w nsstate, unit) comp" where
  "native_retry K c number saved = ifM (number mod 257 = 0) ((let H = nk_host K in
    bindM (with_db (ho_net H) (native_connect H c (number div 257 mod 3) (Some saved) False 45)
      (bindM (dbM (resolve_pending (ho_net H))) (\<lambda>_. retM ()))) (\<lambda>_.
    setN (\<lambda>v. v\<lparr>ns_duplicates := ns_duplicates v + 1\<rparr>))))"

definition native_write :: "'w nativeops \<Rightarrow> native_config \<Rightarrow> nat \<Rightarrow> rat \<Rightarrow> ('w nsstate, unit) comp" where
  "native_write K c i before = bindM varsN (\<lambda>v.
    let number = ns_writes v + 1 in
    bindM (clientM i (bindM connM (\<lambda>db. liftR (saved_write db (native_body number))))) (\<lambda>saved.
    bindM (native_send K c i (native_body number)) (\<lambda>_.
    bindM (setN (\<lambda>v. v\<lparr>ns_writes := number, ns_balances := apply_transfer (number, native_amount number) (ns_balances v)\<rparr>)) (\<lambda>_.
    bindM (clockM (ho_net (nk_host K))) (\<lambda>now.
    bindM (setN (\<lambda>v. v\<lparr>ns_write_samples := ns_write_samples v @ [now - before]\<rparr>)) (\<lambda>_.
    native_retry K c number saved))))))"

definition native_read :: "'w nativeops \<Rightarrow> nat \<Rightarrow> rat \<Rightarrow> ('w nsstate, unit) comp" where
  "native_read K i before = (let H = nk_host K in
    bindM varsN (\<lambda>v.
    let (node, rng) = ho_randrange H (ns_rng v) 3 in
    bindM (setN (\<lambda>v. v\<lparr>ns_rng := rng\<rparr>)) (\<lambda>_.
    bindM (clientM i (assert_is (ho_net H) (lit ''SELECT balance FROM accounts WHERE id=?'') [VInt (int node + 1)] (ns_balances v ! node))) (\<lambda>_.
    bindM (clockM (ho_net H)) (\<lambda>now.
    setN (\<lambda>v. v\<lparr>ns_reads := ns_reads v + 1, ns_read_samples := ns_read_samples v @ [now - before]\<rparr>))))))"

definition faults_of :: "report \<Rightarrow> rv list res" where
  "faults_of entries = (case map_of entries (lit ''faults'') of None \<Rightarrow> Inl KeyError | Some (RL xs) \<Rightarrow> Inr xs | Some _ \<Rightarrow> Inl (TypeError ''not a list''))"

text \<open>A fault: the survivors go on while one voter is absent, and it must become ready again.\<close>

definition native_fault :: "'w nativeops \<Rightarrow> native_config \<Rightarrow> rat \<Rightarrow> ('w nsstate, unit) comp" where
  "native_fault K c interval = (let H = nk_host K in
    bindM varsN (\<lambda>v.
    bindM (liftR (faults_of (ns_report v))) (\<lambda>faults.
    let victim = length faults mod 3 in
    bindM (control H c victim [(lit ''stop'')]) (\<lambda>_.
    bindM (finallyM (with_db (ho_net H) (native_connect H c ((victim + 1) mod 3) None True 45) (bindM (assert_scalar (ho_net H) (lit ''SELECT sum(balance) FROM accounts'') [] 3000000) (\<lambda>_.
        bindM (run_sql (ho_net H) (lit ''UPDATE accounts SET balance=balance WHERE id=1'') []) (\<lambda>_.
        retM ()))))
      (bindM (control H c victim [(lit ''start'')]) (\<lambda>_. retM ()))) (\<lambda>_.
    bindM (wait_ready H c victim 60) (\<lambda>readiness.
    bindM (askM (nk_time K)) (\<lambda>epoch.
    bindM (put_native (lit ''faults'') (RL (faults @ [RD [((lit ''node''), RI (int victim + 1)), ((lit ''epoch''), RT epoch),
      ((lit ''kind''), RS (lit ''SIGKILL, surviving-quorum read/write, reopen'')), ((lit ''readiness''), readiness)]]))) (\<lambda>_.
    setN (\<lambda>v. v\<lparr>ns_next_fault := ns_next_fault v + interval\<rparr>)))))))))"

text \<open>The check of an interval, and the last one.\<close>

definition native_check :: "'w nativeops \<Rightarrow> native_config \<Rightarrow> rat \<Rightarrow> ('w nsstate, unit) comp" where
  "native_check K c start = bindM varsN (\<lambda>v.
    bindM (native_verify (nk_host K) c (ns_verified v + 1) (ns_writes v) (ns_balances v)) (\<lambda>_.
    bindM (setN (\<lambda>v. v\<lparr>ns_verified := ns_writes v\<rparr>)) (\<lambda>_.
    native_progress K c start)))"

text \<open>What follows an operation: a fault and a check, when they are due.\<close>

definition native_duties :: "'w nativeops \<Rightarrow> native_config \<Rightarrow> rat \<Rightarrow> rat \<Rightarrow> rat \<Rightarrow> ('w nsstate, unit) comp" where
  "native_duties K c start deadline interval = (let H = nk_host K in
    bindM (clockM (ho_net H)) (\<lambda>t1.
    bindM varsN (\<lambda>v.
    bindM ((if ns_next_fault v \<le> t1 then bindM (clockM (ho_net H)) (\<lambda>t2. retM (t2 < deadline)) else retM False)) (\<lambda>due.
    bindM (ifM due (native_fault K c interval)) (\<lambda>_.
    bindM (clockM (ho_net H)) (\<lambda>t3.
    ifM (ns_next_check v \<le> t3) (bindM (native_check K c start) (\<lambda>_.
      bindM (clockM (ho_net H)) (\<lambda>t4.
      setN (\<lambda>v. v\<lparr>ns_next_check := t4 + 60\<rparr>))))))))))"

definition native_operation :: "'w nativeops \<Rightarrow> native_config \<Rightarrow> ('w nsstate, unit) comp" where
  "native_operation K c = bindM objM (\<lambda>s.
    bindM (whenM (fst s = []) ZeroDivisionError) (\<lambda>_.
    let i = (ns_reads (snd s) + ns_writes (snd s)) mod length (fst s) in
    bindM (clockM (ho_net (nk_host K))) (\<lambda>before.
    let (x, rng) = ho_random (nk_host K) (ns_rng (snd s)) in
    bindM (setN (\<lambda>v. v\<lparr>ns_rng := rng\<rparr>)) (\<lambda>_.
    (if x < 3 / 10 then native_write K c i before else native_read K i before)))))"

definition native_pass :: "'w nativeops \<Rightarrow> native_config \<Rightarrow> rat \<Rightarrow> rat \<Rightarrow> rat \<Rightarrow> ('w nsstate, unit option) comp" where
  "native_pass K c start deadline interval = bindM (native_operation K c) (\<lambda>_.
    bindM (native_duties K c start deadline interval) (\<lambda>_.
    retM None))"

section \<open>Start and end\<close>

definition native_open :: "'w nativeops \<Rightarrow> native_config \<Rightarrow> ('w nsstate, unit) comp" where
  "native_open K c = (let H = nk_host K in
    bindM (forM [0, 1, 2] (\<lambda>node. bindM (control H c node [(lit ''start''), (lit ''create'')]) (\<lambda>_.
      bindM (control H c node [(lit ''status'')]) (\<lambda>state.
      bindM (liftR (field state ''binary_sha256'')) (\<lambda>digest.
      assertM (digest = nx_binary_sha256 c) ''binary''))))) (\<lambda>_.
    bindM (mapM (\<lambda>n. wait_ready H c n 60) [0, 1, 2]) (\<lambda>readiness.
    bindM (put_native (lit ''initial_readiness'') (RL readiness)) (\<lambda>_.
    bindM (mapM (\<lambda>n. native_connect H c (n mod 3) None False 45) [0..<12]) (\<lambda>connections.
    bindM (updM (\<lambda>(_, v). (connections, v))) (\<lambda>_.
    bindM (clientM 0 (execute (ho_net H) (VStr native_setup) (PSeq []))) (\<lambda>_.
    retM ())))))))"

definition audit_rows_of :: "json \<Rightarrow> string \<Rightarrow> json res" where
  "audit_rows_of a table = bindR (field a ''tables'') (\<lambda>t. bindR (field t table) (\<lambda>e. field e ''rows''))"

text \<open>The asserts on the three audits.\<close>

definition check_native_audits :: "nat \<Rightarrow> json list \<Rightarrow> unit res" where
  "check_native_audits writes audits =
    (if list_ex (\<lambda>a. a \<noteq> audits ! 0) audits then Inl (AssertionError ''audits'')
     else bindR (audit_rows_of (audits ! 0) ''transfers'') (\<lambda>t. if \<not> num_eq t (int writes) then Inl (AssertionError ''transfers'')
     else bindR (audit_rows_of (audits ! 0) ''ledger'') (\<lambda>l. if \<not> num_eq l (2 * int writes) then Inl (AssertionError ''ledger'') else Inr ())))"

definition native_close_all :: "'w nativeops \<Rightarrow> ('w nsstate, unit) comp" where
  "native_close_all K = close_clients (ho_net (nk_host K))"

definition native_recovery :: "'w nativeops \<Rightarrow> native_config \<Rightarrow> ('w nsstate, unit) comp" where
  "native_recovery K c = (let H = nk_host K in
    bindM (put_native (lit ''status'') (RS (lit ''final-recovery''))) (\<lambda>_.
    bindM (store_native K c) (\<lambda>_.
    bindM (native_close_all K) (\<lambda>_.
    bindM (updM (\<lambda>(_, v). ([], v))) (\<lambda>_.
    bindM (forM [0, 1, 2] (\<lambda>node. bindM (control H c node [(lit ''stop'')]) (\<lambda>_. retM ()))) (\<lambda>_.
    bindM (forM [0, 1, 2] (\<lambda>node. bindM (control H c node [(lit ''start'')]) (\<lambda>_. retM ()))) (\<lambda>_.
    bindM varsN (\<lambda>v.
    bindM (native_verify H c (max 1 (ns_writes v - 127)) (ns_writes v) (ns_balances v)) (\<lambda>_.
    forM [0, 1, 2] (\<lambda>node. bindM (control H c node [(lit ''stop'')]) (\<lambda>_. retM ())))))))))))"

definition native_verdict :: "'w nativeops \<Rightarrow> native_config \<Rightarrow> ('w nsstate, unit) comp" where
  "native_verdict K c = (let H = nk_host K in
    bindM (mapM (\<lambda>node. control H c node [(lit ''audit'')]) [0, 1, 2]) (\<lambda>audits.
    bindM varsN (\<lambda>v.
    bindM (liftR (check_native_audits (ns_writes v) audits)) (\<lambda>_.
    bindM (askM (ho_utcnow H)) (\<lambda>moment.
    bindM (put_native (lit ''complete'') (RB True)) (\<lambda>_.
    bindM (put_native (lit ''status'') (RS (lit ''passed''))) (\<lambda>_.
    bindM (put_native (lit ''audits'') (RL (map RJ audits))) (\<lambda>_.
    put_native (lit ''finished_utc'') (RS moment)))))))))"

definition native_finish :: "'w nativeops \<Rightarrow> native_config \<Rightarrow> rat \<Rightarrow> ('w nsstate, unit) comp" where
  "native_finish K c start = bindM (native_check K c start) (\<lambda>_.
    bindM (native_recovery K c) (\<lambda>_.
    native_verdict K c))"

definition native_work :: "'w nativeops \<Rightarrow> native_config \<Rightarrow> nat \<Rightarrow> nat \<Rightarrow> ('w nsstate, unit) comp" where
  "native_work K c seconds interval = (let H = nk_host K in
    bindM (native_open K c) (\<lambda>_.
    bindM (clockM (ho_net H)) (\<lambda>start.
    bindM (setN (\<lambda>v. v\<lparr>ns_next_check := start + 60, ns_next_fault := start + of_nat interval\<rparr>)) (\<lambda>_.
    bindM (askM (ho_utcnow H)) (\<lambda>moment.
    bindM (askM (nk_after K (of_nat seconds))) (\<lambda>planned.
    bindM (put_native (lit ''status'') (RS (lit ''running''))) (\<lambda>_.
    bindM (put_native (lit ''workload_started_utc'') (RS moment)) (\<lambda>_.
    bindM (put_native (lit ''planned_end_utc'') (RS planned)) (\<lambda>_.
    bindM (native_progress K c start) (\<lambda>_.
    bindM (whileM (bindM (clockM (ho_net H)) (\<lambda>t. retM (t < start + of_nat seconds)))
      (native_pass K c start (start + of_nat seconds) (of_nat interval))) (\<lambda>_.
    native_finish K c start)))))))))))"

text \<open>The \<open>finally\<close> of \<open>main\<close>: the errors of the supervisors are kept, none is raised.\<close>

definition native_cleanup :: "'w nativeops \<Rightarrow> native_config \<Rightarrow> ('w nsstate, unit) comp" where
  "native_cleanup K c = (let H = nk_host K in
    bindM (native_close_all K) (\<lambda>_.
    bindM (foldM [(0, (lit ''stop'')), (1, (lit ''stop'')), (2, (lit ''stop'')), (1, (lit ''retire'')), (2, (lit ''retire''))] [] (\<lambda>(node, word) errors. bindM (outcomeM (control H c node [word])) (\<lambda>r.
      retM (case r of Inl e \<Rightarrow> errors @ [RS (ho_repr H e)] | Inr _ \<Rightarrow> errors)))) (\<lambda>errors.
    bindM (ifM (errors \<noteq> []) (put_native (lit ''cleanup_errors'') (RL errors))) (\<lambda>_.
    store_native K c))))"

definition native_new :: "'w hostops \<Rightarrow> report \<Rightarrow> NativeSoak" where
  "native_new H entries = \<lparr>ns_writes = 0, ns_reads = 0, ns_verified = 0, ns_duplicates = 0, ns_balances = [1000000, 1000000, 1000000],
     ns_read_samples = [], ns_write_samples = [], ns_rng = ho_seed H 20260923, ns_next_check = 0, ns_next_fault = 0, ns_report = entries\<rparr>"

definition native_main :: "'w nativeops \<Rightarrow> native_config \<Rightarrow> nat \<Rightarrow> nat \<Rightarrow> ('w nsstate, unit) comp" where
  "native_main K c seconds interval = (let H = nk_host K in
    bindM (whenM (\<not> (30 \<le> seconds \<and> seconds \<le> 28800) \<or> interval < 15) (SystemExit ''Invalid bounds'')) (\<lambda>_.
    bindM (askM (ho_exists H (path_join (nx_root c) (lit ''soak.json'')))) (\<lambda>exists.
    bindM (whenM exists (RuntimeError ''Refusing to overwrite a prior run'')) (\<lambda>_.
    bindM (askM (ho_utcnow H)) (\<lambda>now.
    bindM (updM (\<lambda>_. ([], native_new H
      [((lit ''complete''), RB False), ((lit ''status''), RS (lit ''starting'')), ((lit ''started_utc''), RS now), ((lit ''hosts''), RL (map RS (nx_hosts c))),
       ((lit ''requested_workload_seconds''), RI (int seconds)),
       ((lit ''scope''), RS (lit ''three Linux instances; native mTLS replication and SQL; closed-loop 70/30 reads/transfers'')),
       ((lit ''binary_sha256''), RJ (nx_binary_sha256 c)),
       ((lit ''limits''), RD [((lit ''rss_bytes''), RI (512 * 1024 ^ 2)), ((lit ''data_bytes''), RI (8 * 1024 ^ 3)), ((lit ''min_free_bytes''), RI (10 * 1024 ^ 3))]),
       ((lit ''faults''), RL []), ((lit ''source_sha256''), RJ (nx_source_sha256 c))]))) (\<lambda>_.
    finallyM (tryM (native_work K c seconds interval) (\<lambda>e. bindM (askM (ho_utcnow H)) (\<lambda>moment.
        bindM (put_native (lit ''status'') (RS (lit ''failed''))) (\<lambda>_.
        bindM (put_native (lit ''error'') (RS (ho_repr H e))) (\<lambda>_.
        bindM (put_native (lit ''finished_utc'') (RS moment)) (\<lambda>_.
        raiseM e))))))
      (native_cleanup K c)))))))"

end
