(* ===== verification/Native_Facts.thy ===== *)
theory Native_Facts
  imports Native_Soak Soak_Facts Net_Facts Simulation
begin

text \<open>
  What the native soak establishes: a retried write is the write that was acknowledged, and a run
  that passes has read every transfer back and its audits count them all.
\<close>

section \<open>The text of a transfer\<close>

text \<open>Characters that the scanner of the client copies whatever follows.\<close>

definition plain :: "nat \<Rightarrow> bool" where
  "plain c \<longleftrightarrow> c \<notin> {0, 34, 36, 39, 45, 47, 58, 63, 64, 91, 96}"

lemma loop_plain: "list_all plain xs \<Longrightarrow> prepare_loop U k out n (xs @ rest) = prepare_loop U k (out @ xs) n rest"
proof (induction xs arbitrary: out)
  case (Cons c xs)
  have "skip_verbatim (c # xs @ rest) = NoSkip"
    using Cons.prems by (auto simp: skip_verbatim_def starts_with_two plain_def)
  then show ?case
    using Cons by (subst append_Cons, subst prepare_loop.simps) (auto simp: plain_def)
qed simp

lemma loop_minus: "d \<noteq> 45 \<Longrightarrow> prepare_loop U k out n (45 # d # rest) = prepare_loop U k (out @ [45]) n (d # rest)"
  by (subst prepare_loop.simps) (simp add: skip_verbatim_def starts_with_two)

lemma quote_end_payload: "d \<noteq> 39 \<Longrightarrow> quote_end 39 (replicate m 120 @ 39 # d # rest) = Some (replicate m 120 @ [39], d # rest)"
  by (induction m) auto

lemma loop_payload:
  "d \<noteq> 39 \<Longrightarrow> prepare_loop U k out n (39 # replicate m 120 @ 39 # d # rest) = prepare_loop U k (out @ 39 # replicate m 120 @ [39]) n (d # rest)"
  by (subst prepare_loop.simps) (simp add: skip_verbatim_def starts_with_two quote_end_payload)

lemma plain_dec: "list_all plain (dec n)"
  by (auto simp: list_all_iff plain_def dest!: dec_digits)

lemma dec_head: "\<exists>d ds. dec n = d # ds \<and> d \<noteq> 45"
  using dec_digits [of "hd (dec n)" n] by (cases "dec n") (auto simp: neq_Nil_conv)

lemma loop_body: "prepare_loop U k [] n (native_body number) = Inr (native_body number, n)"
proof -
  define a where "a = (lit ''INSERT INTO transfers VALUES('' @ dec number @ lit '','' @ (dec (number mod 3 + 1)) @ lit '','' @ (dec ((number mod 3 + 1) mod 3 + 1)) @ lit '','' @ (dec (native_amount number)) @ lit '','')"
  define b where "b = (lit '');UPDATE accounts SET balance=balance'')"
  define e where "e = dec (native_amount number) @ (lit '' WHERE id='' @ (dec (number mod 3 + 1)) @ lit '';'')
     @ (lit ''UPDATE accounts SET balance=balance+'' @ (dec (native_amount number)) @ lit '' WHERE id='' @ (dec ((number mod 3 + 1) mod 3 + 1)))"
  have body: "native_body number = a @ 39 # replicate 256 120 @ 39 # b @ 45 # e"
    by (simp add: native_body_def a_def b_def e_def Let_def lit_def)
  have plain: "list_all plain a" "list_all plain b" "list_all plain e"
    by (simp_all add: a_def b_def e_def plain_dec, simp_all add: lit_def plain_def)
  obtain d ds where e: "e = d # ds" "d \<noteq> 45" using dec_head [of "native_amount number"] by (auto simp: e_def)
  obtain c cs where b: "b = c # cs" "c \<noteq> 39" by (simp add: b_def lit_def)
  have "prepare_loop U k [] n (native_body number) = prepare_loop U k (a @ 39 # replicate 256 120 @ [39]) n (b @ 45 # e)"
    by (simp only: body b(1) loop_plain [OF plain(1)] append_Nil append_Cons loop_payload [OF b(2)])
  also have "\<dots> = prepare_loop U k (a @ 39 # replicate 256 120 @ 39 # b @ [45]) n (e @ [])"
    using e by (simp add: loop_plain [OF plain(2)] loop_minus)
  also have "\<dots> = Inr (native_body number, n)"
    unfolding loop_plain [OF plain(3)] by (subst prepare_loop.simps) (simp add: body)
  finally show ?thesis .
qed

text \<open>The write that is kept for the retry has no epoch; but for that it is the write that was sent.\<close>

lemma pending_epoch:
  assumes "pending_write (JStr ses) (JInt seq) (JStr sql) ps (JInt rv) (JInt 0) = Inr p" and "0 \<le> ep" "ep < 2 ^ 63"
  shows "pending_write (JStr ses) (JInt seq) (JStr sql) ps (JInt rv) (JInt ep) = Inr (p\<lparr>pw_epoch := ep\<rparr>)"
  using assms by (auto simp: pending_write_def bindR_def split: if_splits option.splits sum.splits)

lemma prepare_body:
  assumes "saved_write db (native_body number) = Inr p"
  shows "prepare U (VStr (native_body number)) (PSeq []) 0 = Inr (native_body number, [])"
proof -
  have "strip U (native_body number) \<noteq> []"
    by (simp add: native_body_def Let_def lit_def strip_def is_space_def)
  then show ?thesis
    using assms by (auto simp: prepare_def saved_write_def pending_write_def loop_body bindR_def vec_total_def split: if_splits option.splits)
qed

lemma saved_fields: "saved_write db sql = Inr p \<Longrightarrow> pw_parameters p = [] \<and> pw_epoch p = 0"
  by (auto simp: saved_write_def pending_write_def bindR_def split: if_splits option.splits)

text \<open>
  C38. The write that the soak presents again through another connection is the write that the
  connection sent and had acknowledged, but for the session epoch: the request is the same exactly
  if the connection's epoch is 0, as it is while no sessions have been retired.
\<close>

theorem native_retry_same:
  assumes "saved_write db (native_body number) = Inr p" and "c_pending db = None" and "c_epoch db = Some ep"
    and "0 \<le> ep" "ep < 2 ^ 63" and "\<not> c_closed db" "\<not> c_transaction db"
  shows "execute N (VStr (native_body number)) (PSeq []) (db, w)
      = with_lock (bindM (setM (\<lambda>c. c\<lparr>c_pending := Some (p\<lparr>pw_epoch := ep\<rparr>)\<rparr>)) (\<lambda>_. resolve N)) (db, w)
    \<and> (execute_request (p\<lparr>pw_epoch := ep\<rparr>) = execute_request p \<longleftrightarrow> ep = 0)"
proof
  have p: "pending_write (JStr (c_session db)) (JInt (c_sequence db)) (JStr (native_body number)) [] (JInt 0) (JInt ep) = Inr (p\<lparr>pw_epoch := ep\<rparr>)"
    using pending_epoch assms unfolding saved_write_def by blast
  show "execute N (VStr (native_body number)) (PSeq []) (db, w)
      = with_lock (bindM (setM (\<lambda>c. c\<lparr>c_pending := Some (p\<lparr>pw_epoch := ep\<rparr>)\<rparr>)) (\<lambda>_. resolve N)) (db, w)"
    using assms p
    by (simp add: execute_def prepare_body [OF assms(1)] with_lock_def execute_prepared_def ready_def connM_def setM_def
        bindM_def finallyM_def liftR_def whenM_def retM_def)
  show "execute_request (p\<lparr>pw_epoch := ep\<rparr>) = execute_request p \<longleftrightarrow> ep = 0"
    using saved_fields [OF assms(1)] by (auto simp: execute_request_def)
qed

definition demo_native :: Connection where
  "demo_native = demo_conn\<lparr>c_epoch := Some 0\<rparr>"

lemma demo_saved: "saved_write demo_native (native_body 1) = Inr \<lparr>pw_session = c_session demo_native, pw_sequence = 7, pw_sql = native_body 1,
    pw_parameters = [], pw_read_version = 0, pw_epoch = 0\<rparr>"
proof -
  have "native_body 1 = (lit ''INSERT INTO transfers VALUES(1,2,3,2,'') @ 39 # replicate 256 120 @ 39
      # (lit '');UPDATE accounts SET balance=balance-2 WHERE id=2;UPDATE accounts SET balance=balance+2 WHERE id=3'')"
    by (simp add: native_body_def native_amount_def Let_def lit_def dec.simps)
  from arg_cong [OF this, of set] arg_cong [OF this, of length] this
  have "set (native_body 1) \<subseteq> {1..<128}" and "length (native_body 1) \<le> 4096" and "native_body 1 \<noteq> []"
    by (simp_all add: lit_def)
  moreover from this have "utf8 (native_body 1) = Some (native_body 1)" by (intro utf8_ascii) (auto dest: subsetD)
  moreover from calculation have "0 \<notin> set (native_body 1)" by auto
  ultimately show ?thesis
    by (simp add: saved_write_def pending_write_def demo_native_def demo_conn_def bindR_def vec_total_def is_hex_def list_all_iff)
qed

theorem native_retry_same_witness:
  "\<exists>p. saved_write demo_native (native_body 1) = Inr p
     \<and> execute (sim []) (VStr (native_body 1)) (PSeq []) (demo_native, (0, []))
       = with_lock (bindM (setM (\<lambda>c. c\<lparr>c_pending := Some (p\<lparr>pw_epoch := 0\<rparr>)\<rparr>)) (\<lambda>_. resolve (sim []))) (demo_native, (0, []))"
  using native_retry_same [OF demo_saved, of 0 "sim []" "(0, [])"] demo_saved by (auto simp: demo_native_def demo_conn_def)

section \<open>What a block leaves alone\<close>

context step_relation
begin

lemma step_client [relation_rules]: "keepsR R (\<lambda>s. snd (fst s)) (clientM i m)"
  by (auto simp: keepsR_def clientM_def wlp_def step_refl split: option.splits sum.splits)

end

lemmas kept_rules = kept.step_basic kept.step_bind kept.step_try kept.step_finally kept.step_if kept.step_cases kept.step_loops
  kept.step_while kept.step_objects kept.step_world kept.step_scope kept.step_db

lemma keeps_with_db:
  assumes "keepsR (=) fst opening" and "keepsR (=) (\<lambda>s. snd (fst s)) body"
  shows "keepsR (=) fst (with_db N opening body)"
  unfolding with_db_def by (intro kept_rules assms)

lemma keeps_control: "keepsR (=) fst (control H c index words)"
  unfolding control_def check_output_def by (intro kept_rules)

lemma keeps_native_connect: "keepsR (=) fst (native_connect H c index pending single timeout)"
  unfolding native_connect_def by (intro kept_rules)

lemma keeps_native_verify: "keepsR (=) fst (native_verify H c first final balances)"
  unfolding native_verify_def read_sql_def by (intro kept_rules keeps_with_db keeps_native_connect)

lemma keeps_wait_ready: "keepsR (=) fst (wait_ready H c node seconds)"
  unfolding wait_ready_def wait_attempt_def assert_scalar_def Let_def by (intro kept_rules keeps_with_db keeps_native_connect)

lemma keeps_save_native: "keepsR (=) fst (save_native H path entries)"
  unfolding save_native_def Let_def by (intro kept_rules)

lemmas host_rules = keeps_control keeps_native_connect keeps_native_verify keeps_wait_ready keeps_save_native keeps_with_db

section \<open>The books of the soak\<close>

text \<open>What everything but a transfer keeps, and the state of the books between operations.\<close>

definition same_books :: "NativeSoak \<Rightarrow> NativeSoak \<Rightarrow> bool" where
  "same_books v u \<longleftrightarrow> ns_writes u = ns_writes v \<and> ns_balances u = ns_balances v \<and> ns_verified u \<in> {ns_verified v, ns_writes v}"

definition books_ok :: "NativeSoak \<Rightarrow> bool" where
  "books_ok v \<longleftrightarrow> ns_balances v = balances_of (map prescribed [1..<Suc (ns_writes v)]) \<and> ns_verified v \<le> ns_writes v"

interpretation bk: step_relation same_books
  by unfold_locales (auto simp: same_books_def)

lemma same_books_ok: "same_books v u \<Longrightarrow> books_ok v \<Longrightarrow> books_ok u"
  by (auto simp: same_books_def books_ok_def)

lemma keeps_setN: "(\<And>v. same_books v (f v)) \<Longrightarrow> keepsR same_books (\<lambda>s. snd (fst s)) (setN f)"
  by (auto simp: keepsR_def setN_def)

lemma varsN_bind: "wlp (f (snd (fst s))) Q E s \<Longrightarrow> wlp (bindM varsN f) Q E s"
  by (cases s) (simp add: varsN_def)

lemma keeps_varsN: "keepsR same_books (\<lambda>s. snd (fst s)) varsN"
  unfolding varsN_def by (intro bk.step_basic bk.step_bind bk.step_objects(1))

lemma keeps_put_native: "keepsR same_books (\<lambda>s. snd (fst s)) (put_native k x)"
  unfolding put_native_def by (rule keeps_setN) (simp add: same_books_def)

lemma keeps_clients: "keepsR same_books (\<lambda>s. snd (fst s)) (updM (\<lambda>(_, v). (cs, v)))"
  by (auto simp: keepsR_def bk.step_refl)

lemmas book_rules = bk.step_basic bk.step_bind bk.step_try bk.step_finally bk.step_if bk.step_cases bk.step_loops
  bk.step_objects(1,3,4) bk.step_world bk.step_client bk.step_outcome keeps_varsN keeps_put_native keeps_clients bk.step_kept [where f = snd, OF keeps_control]
  bk.step_kept [where f = snd, OF keeps_native_verify] bk.step_kept [where f = snd, OF keeps_wait_ready]
  bk.step_kept [where f = snd, OF keeps_save_native] bk.step_kept [where f = snd, OF keeps_native_connect]

lemma keeps_store: "keepsR same_books (\<lambda>s. snd (fst s)) (store_native K c)"
  unfolding store_native_def by (intro book_rules)

lemma keeps_progress: "keepsR same_books (\<lambda>s. snd (fst s)) (native_progress K c start)"
  unfolding native_progress_def Let_def by (intro book_rules keeps_store keeps_setN) (simp add: same_books_def)

lemma keeps_native_read: "keepsR same_books (\<lambda>s. snd (fst s)) (native_read K i before)"
  unfolding native_read_def Let_def by (intro book_rules keeps_setN) (simp_all add: same_books_def)

lemma keeps_native_fault: "keepsR same_books (\<lambda>s. snd (fst s)) (native_fault K c interval)"
proof -
  have "keepsR (=) fst (with_db N make (bindM (assert_scalar N q ps k) (\<lambda>_. bindM (run_sql N q' ps') (\<lambda>_. retM ()))))"
    if "keepsR (=) fst make" for N :: "'a netops" and make :: "((Connection list \<times> NativeSoak) \<times> 'a, Connection) comp" and q ps k q' ps'
    unfolding assert_scalar_def run_sql_def by (intro kept_rules keeps_with_db that)
  then show ?thesis
    unfolding native_fault_def Let_def
    by (intro book_rules keeps_setN bk.step_kept [where f = snd] keeps_native_connect) (simp_all add: same_books_def keeps_native_connect)
qed

lemma keeps_native_check: "keepsR same_books (\<lambda>s. snd (fst s)) (native_check K c start)"
  unfolding native_check_def by (intro book_rules keeps_setN keeps_progress) (simp add: same_books_def)

lemma keeps_native_send: "keepsR same_books (\<lambda>s. snd (fst s)) (native_send K c i body)"
  unfolding native_send_def by (intro book_rules)

lemma keeps_native_open: "keepsR same_books (\<lambda>s. snd (fst s)) (native_open K c)"
  unfolding native_open_def Let_def by (intro book_rules)

lemma keeps_close_all: "keepsR same_books (\<lambda>s. snd (fst s)) (native_close_all K)"
  unfolding native_close_all_def close_clients_def case_prod_unfold by (intro book_rules)

lemma keeps_native_retry: "keepsR same_books (\<lambda>s. snd (fst s)) (native_retry K c number saved)"
  unfolding native_retry_def Let_def
  by (intro book_rules keeps_setN bk.step_kept [where f = snd] keeps_with_db kept_rules keeps_native_connect) (simp add: same_books_def)

text \<open>A step that keeps the books, before a step from good books.\<close>

lemma books_bind:
  assumes "books_ok (snd (fst s))" and "keepsR same_books (\<lambda>s. snd (fst s)) m"
    and "\<And>x t. same_books (snd (fst s)) (snd (fst t)) \<Longrightarrow> books_ok (snd (fst t)) \<Longrightarrow> wlp (f x) Q (\<lambda>_ _. True) t"
  shows "wlp (bindM m f) Q (\<lambda>_ _. True) s"
  unfolding wlp_simps
  by (rule wlp_mono [OF bk.step_wlp [OF assms(2)]]) (use assms(1,3) same_books_ok in auto)

lemma books_kept:
  assumes "books_ok (snd (fst s))" and "keepsR same_books (\<lambda>s. snd (fst s)) m"
  shows "wlp m (\<lambda>_ t. books_ok (snd (fst t))) (\<lambda>_ _. True) s"
  by (rule wlp_mono [OF bk.step_wlp [OF assms(2)]]) (use assms(1) same_books_ok in auto)

lemma new_transfer_ok:
  assumes "books_ok u"
  shows "books_ok (u\<lparr>ns_writes := Suc (ns_writes u), ns_balances := apply_transfer (Suc (ns_writes u), native_amount (Suc (ns_writes u))) (ns_balances u)\<rparr>)"
  using assms by (simp add: books_ok_def balances_of_def prescribed_def transaction_of_def native_amount_def Let_def)

lemma native_write_ok:
  assumes "books_ok (snd (fst s))"
  shows "wlp (native_write K c i before) (\<lambda>_ t. books_ok (snd (fst t))) (\<lambda>_ _. True) s"
proof -
  let ?Q = "\<lambda>_ :: unit. \<lambda>t. books_ok (snd (fst t))"
  have transfer: "wlp (bindM (setN (\<lambda>v. v\<lparr>ns_writes := n, ns_balances := apply_transfer (n, native_amount n) (ns_balances v)\<rparr>))
     (\<lambda>_. bindM (clockM (ho_net (nk_host K))) (\<lambda>now.
        bindM (setN (\<lambda>v. v\<lparr>ns_write_samples := ns_write_samples v @ [now - before]\<rparr>)) (\<lambda>_. native_retry K c n saved))))
     ?Q (\<lambda>_ _. True) t" if "n = Suc (ns_writes (snd (fst t)))" "books_ok (snd (fst t))" for n saved t
  proof (subst wlp_simps(3), cases t)
    fix x w assume t: "t = (x, w)"
    obtain cs v where x: "x = (cs, v)" by (cases x)
    have ok: "books_ok (v\<lparr>ns_writes := n, ns_balances := apply_transfer (n, native_amount n) (ns_balances v)\<rparr>)"
      using new_transfer_ok that by (simp add: t x)
    show "wlp (setN (\<lambda>v. v\<lparr>ns_writes := n, ns_balances := apply_transfer (n, native_amount n) (ns_balances v)\<rparr>))
      (\<lambda>_. wlp (bindM (clockM (ho_net (nk_host K))) (\<lambda>now.
        bindM (setN (\<lambda>v. v\<lparr>ns_write_samples := ns_write_samples v @ [now - before]\<rparr>)) (\<lambda>_. native_retry K c n saved))) ?Q (\<lambda>_ _. True))
      (\<lambda>_ _. True) t"
      unfolding setN_def t x wlp_objects prod.case
      by (rule books_kept) (use ok in \<open>auto simp: same_books_def intro!: book_rules keeps_native_retry keeps_setN [unfolded setN_def]\<close>)
  qed
  show ?thesis
    unfolding native_write_def Let_def
    by (rule varsN_bind, rule books_bind [OF assms bk.step_client], rule books_bind, assumption, rule keeps_native_send, rule transfer)
       (auto simp: same_books_def)
qed

lemma keeps_duties: "keepsR same_books (\<lambda>s. snd (fst s)) (native_duties K c start deadline interval)"
  unfolding native_duties_def Let_def
  by (intro book_rules keeps_native_fault keeps_native_check keeps_setN) (simp add: same_books_def)

lemma native_operation_ok:
  assumes "books_ok (snd (fst s))"
  shows "wlp (native_operation K c) (\<lambda>_ t. books_ok (snd (fst t))) (\<lambda>_ _. True) s"
proof -
  have "wlp (if x < 3 / 10 then native_write K c i before else native_read K i before) (\<lambda>_ t. books_ok (snd (fst t))) (\<lambda>_ _. True) t"
    if "books_ok (snd (fst t))" for x :: rat and i before t
    by (cases "x < 3 / 10") (simp_all only: if_True if_False native_write_ok [OF that] books_kept [OF that keeps_native_read])
  then show ?thesis
    unfolding native_operation_def Let_def case_prod_unfold
    by (intro books_bind [OF assms] bk.step_objects(1) books_bind bk.step_basic bk.step_world keeps_setN) (simp_all add: same_books_def)
qed

lemma native_pass_ok:
  assumes "books_ok (snd (fst s))"
  shows "wlp (native_pass K c start deadline interval) (\<lambda>_ t. books_ok (snd (fst t))) (\<lambda>_ _. True) s"
  unfolding native_pass_def wlp_simps(3)
  by (rule wlp_mono [OF native_operation_ok [OF assms]])
    (auto simp del: wlp_simps(3) simp: wlp_simps(3) [symmetric] intro!: books_kept bk.step_bind bk.step_basic keeps_duties)

text \<open>What a run that passed can show.\<close>

definition native_evidence :: "NativeSoak \<Rightarrow> bool" where
  "native_evidence v \<longleftrightarrow> ns_balances v = balances_of (map prescribed [1..<Suc (ns_writes v)]) \<and> ns_verified v = ns_writes v
     \<and> map_of (ns_report v) (lit ''complete'') = Some (RB True) \<and> map_of (ns_report v) (lit ''status'') = Some (RS (lit ''passed''))
     \<and> (\<exists>a t l. map_of (ns_report v) (lit ''audits'') = Some (RL [RJ a, RJ a, RJ a])
        \<and> audit_rows_of a ''transfers'' = Inr t \<and> num_eq t (int (ns_writes v))
        \<and> audit_rows_of a ''ledger'' = Inr l \<and> num_eq l (2 * int (ns_writes v)))"

definition native_honest :: "NativeSoak \<Rightarrow> bool" where
  "native_honest v \<longleftrightarrow> map_of (ns_report v) (lit ''status'') \<noteq> Some (RS (lit ''passed'')) \<or> native_evidence v"

lemma check_native_audits_ok:
  assumes "check_native_audits n audits = Inr ()" and "length audits = 3"
  shows "\<exists>a t l. audits = [a, a, a] \<and> audit_rows_of a ''transfers'' = Inr t \<and> num_eq t (int n)
     \<and> audit_rows_of a ''ledger'' = Inr l \<and> num_eq l (2 * int n)"
proof -
  obtain a b d where "audits = [a, b, d]" using assms(2) by (auto simp: length_Suc_conv eval_nat_numeral)
  then show ?thesis
    using assms(1) by (auto simp: check_native_audits_def bindR_Inr_iff split: if_splits)
qed

text \<open>After the last check every transfer has been read back, and nothing later changes the books.\<close>

definition books_closed :: "NativeSoak \<Rightarrow> bool" where
  "books_closed v \<longleftrightarrow> books_ok v \<and> ns_verified v = ns_writes v"

lemma same_books_closed: "same_books v u \<Longrightarrow> books_closed v \<Longrightarrow> books_closed u"
  by (auto simp: same_books_def books_closed_def books_ok_def)

lemma closed_kept:
  assumes "books_closed (snd (fst s))" and "keepsR same_books (\<lambda>s. snd (fst s)) m"
  shows "wlp m (\<lambda>_ t. books_closed (snd (fst t))) (\<lambda>_ _. True) s"
  by (rule wlp_mono [OF bk.step_wlp [OF assms(2)]]) (use assms(1) same_books_closed in auto)

lemma books_mark: "books_ok v \<Longrightarrow> books_closed (v\<lparr>ns_verified := ns_writes v\<rparr>)"
  by (simp add: books_closed_def books_ok_def)

lemma native_check_closes:
  assumes "books_ok (snd (fst s))"
  shows "wlp (native_check K c start) (\<lambda>_ t. books_closed (snd (fst t))) (\<lambda>_ _. True) s"
proof -
  have mark: "wlp (bindM (setN (\<lambda>v. v\<lparr>ns_verified := ns_writes v\<rparr>)) (\<lambda>_. native_progress K c start)) (\<lambda>_ t. books_closed (snd (fst t))) (\<lambda>_ _. True) t"
    if "books_ok (snd (fst t))" for t
    using that by (cases t) (auto simp: setN_def intro!: closed_kept [OF _ keeps_progress] books_mark)
  show ?thesis
    unfolding native_check_def
    by (rule varsN_bind, rule books_bind [OF assms bk.step_kept [where f = snd, OF keeps_native_verify]], rule mark)
qed

lemma keeps_native_recovery: "keepsR same_books (\<lambda>s. snd (fst s)) (native_recovery K c)"
  unfolding native_recovery_def Let_def by (intro book_rules keeps_store keeps_close_all)

lemma audits_three:
  assumes "books_closed (snd (fst s))"
  shows "wlp (mapM (\<lambda>node. control H c node words) [0, 1, 2]) (\<lambda>xs t. length xs = 3 \<and> books_closed (snd (fst t))) (\<lambda>_ _. True) s"
  by (rule wlp_mapM [where I = "\<lambda>ys acc t. length acc + length ys = 3 \<and> books_closed (snd (fst t))"])
    (use assms in \<open>auto intro!: wlp_mono [OF kept.step_wlp [OF keeps_control]]\<close>)

lemma native_verdict_ok:
  assumes "books_closed (snd (fst s))"
  shows "wlp (native_verdict K c) (\<lambda>_ t. native_evidence (snd (fst t))) (\<lambda>_ _. True) s"
proof -
  have "wlp (bindM varsN (\<lambda>v. bindM (liftR (check_native_audits (ns_writes v) audits)) (\<lambda>_. bindM (askM (ho_utcnow H)) (\<lambda>moment.
      bindM (put_native (lit ''complete'') (RB True)) (\<lambda>_. bindM (put_native (lit ''status'') (RS (lit ''passed''))) (\<lambda>_.
      bindM (put_native (lit ''audits'') (RL (map RJ audits))) (\<lambda>_. put_native (lit ''finished_utc'') (RS moment)))))))) 
      (\<lambda>_ t. native_evidence (snd (fst t))) (\<lambda>_ _. True) t"
    if "length audits = 3 \<and> books_closed (snd (fst t))" for audits and t :: "'a nsstate" and H :: "'a hostops"
    using that check_native_audits_ok [of "ns_writes (snd (fst t))" audits]
    by (cases t) (auto simp: varsN_def put_native_def setN_def native_evidence_def books_closed_def books_ok_def lit_def
        split: sum.splits simp del: upt_Suc)
  then show ?thesis
    unfolding native_verdict_def Let_def wlp_simps(3) [of "mapM _ _"]
    by (rule wlp_mono [OF audits_three [OF assms]]) auto
qed

lemma native_finish_ok:
  assumes "books_ok (snd (fst s))"
  shows "wlp (native_finish K c start) (\<lambda>_ t. native_evidence (snd (fst t))) (\<lambda>_ _. True) s"
  unfolding native_finish_def wlp_simps(3)
  by (rule wlp_mono [OF native_check_closes [OF assms]])
    (auto intro!: wlp_mono [OF closed_kept [OF _ keeps_native_recovery]] native_verdict_ok)

lemma native_work_ok:
  assumes "books_ok (snd (fst s))"
  shows "wlp (native_work K c seconds interval) (\<lambda>_ t. native_evidence (snd (fst t))) (\<lambda>_ _. True) s"
proof -
  have loop: "wlp (whileM (bindM (clockM N) (\<lambda>t. retM (t < d))) (native_pass K c start d len)) (\<lambda>_ t. books_ok (snd (fst t))) (\<lambda>_ _. True) u"
    if "books_ok (snd (fst u))" for N start d len u
    by (rule wlp_whileM [where I = "\<lambda>t. books_ok (snd (fst t))" and J = "\<lambda>t. books_ok (snd (fst t))"])
      (auto simp: that simp del: wlp_simps split: option.splits
        intro!: wlp_mono [OF books_kept [OF _ bk.step_bind [OF bk.step_world(1) bk.step_basic(1)]]] wlp_mono [OF native_pass_ok])
  show ?thesis
    unfolding native_work_def Let_def
    apply (rule books_bind [OF assms keeps_native_open], rule books_bind, assumption, rule bk.step_world)
    apply (rule books_bind, assumption, rule keeps_setN, simp add: same_books_def)
    apply ((rule books_bind, assumption, (rule bk.step_objects(3) keeps_put_native keeps_progress))+)
    apply (subst wlp_simps(3), rule wlp_mono [OF loop], assumption, rule native_finish_ok, assumption, simp)
    done
qed

section \<open>The report\<close>

definition same_outcome :: "NativeSoak \<Rightarrow> NativeSoak \<Rightarrow> bool" where
  "same_outcome v u \<longleftrightarrow> ns_writes u = ns_writes v \<and> ns_balances u = ns_balances v \<and> ns_verified u = ns_verified v
     \<and> (\<forall>k \<in> {(lit ''complete''), (lit ''status''), (lit ''audits'')}. map_of (ns_report u) k = map_of (ns_report v) k)"

interpretation oc: step_relation same_outcome
  by unfold_locales (auto simp: same_outcome_def)

lemma same_outcome_kept:
  assumes "same_outcome v u"
  shows "native_evidence u = native_evidence v" "native_honest u = native_honest v"
  using assms by (simp_all add: same_outcome_def native_evidence_def native_honest_def)

lemma keeps_cleanup_native: "keepsR same_outcome (\<lambda>s. snd (fst s)) (native_cleanup K c)"
proof -
  have vars: "keepsR same_outcome (\<lambda>s. snd (fst s)) (bindM varsN f)" if "\<And>v. keepsR same_outcome (\<lambda>s. snd (fst s)) (f v)" for f :: "_ \<Rightarrow> ('a nsstate, unit) comp"
    unfolding varsN_def by (intro oc.step_bind oc.step_objects(1) oc.step_basic that)
  have errors: "keepsR same_outcome (\<lambda>s. snd (fst s)) (put_native (lit ''cleanup_errors'') x)" for x
    by (auto simp: keepsR_def put_native_def setN_def same_outcome_def lit_def)
  show ?thesis
    unfolding native_cleanup_def native_close_all_def close_clients_def store_native_def case_prod_unfold Let_def
    by (intro oc.step_bind oc.step_objects(1) oc.step_loops oc.step_client oc.step_outcome oc.step_basic oc.step_if vars errors
        oc.step_kept [where f = snd, OF keeps_control] oc.step_kept [where f = snd, OF keeps_save_native])
qed

lemma ask_bind: "wlp (f (fst (g w))) Q E (x, snd (g w)) \<Longrightarrow> wlp (bindM (askM g) f) Q E (x, w)"
  by simp


end
