(* ===== verification/Native_Worker.thy ===== *)
theory Native_Worker
  imports Qualification Cluster_Soak
begin

text \<open>
  \<open>tools/native_soak_worker.py\<close>: the supervisor of one voter of the native soak. \<open>watch\<close> runs the voter until the
  deadline of the run under resource guards, \<open>action\<close> serves the commands of the coordinator. The
  limits of the child process are the host's.
\<close>

section \<open>The host\<close>

text \<open>
  \<open>su_time\<close> is \<open>time.time\<close>, \<open>su_data\<close> the sizes of \<open>data/node.db*\<close>, \<open>su_kill\<close> is \<open>os.kill(pid, SIGKILL)\<close>, \<open>su_number\<close>
  the value of a JSON number, \<open>su_dumps\<close> is \<open>json.dumps\<close> with \<open>indent=2\<close>, \<open>su_split\<close> is \<open>shlex.split\<close>.
\<close>

record 'w superops =
  su_qual :: "'w qualops"
  su_time :: "'w \<Rightarrow> rat \<times> 'w"
  su_data :: "pstr \<Rightarrow> 'w \<Rightarrow> int list \<times> 'w"
  su_kill :: "int \<Rightarrow> 'w \<Rightarrow> unit res \<times> 'w"
  su_sleep :: "rat \<Rightarrow> 'w \<Rightarrow> unit \<times> 'w"
  su_number :: "json \<Rightarrow> rat res"
  su_dumps :: "json \<Rightarrow> pstr"
  su_split :: "pstr \<Rightarrow> pstr list res"
  su_root :: pstr
  su_home :: pstr
  su_python :: pstr
  su_script :: pstr
  su_command :: pstr

definition su_host :: "'w superops \<Rightarrow> 'w hostops" where
  "su_host S = qo_host (su_qual S)"

definition su_path :: "'w superops \<Rightarrow> pstr \<Rightarrow> pstr" where
  "su_path S name = path_join (su_root S) name"

definition su_save :: "'w superops \<Rightarrow> pstr \<Rightarrow> json \<Rightarrow> ('o \<times> 'w, unit) comp" where
  "su_save S name v = (let path = su_path S name in
    let temp = with_suffix path ''.tmp'' in
    bindM (worldM (ho_write (su_host S) temp (su_dumps S v @ [10]))) (\<lambda>_.
    worldM (ho_rename (su_host S) temp path)))"

section \<open>The voter\<close>

text \<open>The process is the run's voter only if the first word of its command line is the run's binary.\<close>

definition alive :: "'w superops \<Rightarrow> ('o \<times> 'w, int option) comp" where
  "alive S = (let H = su_host S in
    bindM (askM (ho_exists H (su_path S (lit ''server.pid'')))) (\<lambda>known.
    if \<not> known then retM None else bindM (worldM (ho_read H (su_path S (lit ''server.pid'')))) (\<lambda>contents.
      bindM (liftR (int_res (qo_unicode (su_qual S)) contents)) (\<lambda>pid.
      let command = (lit ''/proc/'' @ dec_int pid @ lit ''/cmdline'') in
      bindM (askM (ho_exists H command)) (\<lambda>running.
      if \<not> running then retM None else bindM (worldM (ho_read_bytes H command)) (\<lambda>bytes.
        retM (if Some (takeWhile (\<lambda>b. b \<noteq> 0) bytes) = utf8 (su_path S (lit ''sqlodin'')) then Some pid else None)))))))"

definition is_alive :: "int option \<Rightarrow> bool" where
  "is_alive p = (case p of None \<Rightarrow> False | Some pid \<Rightarrow> pid \<noteq> 0)"

definition usage_line :: "unidb \<Rightarrow> pstr \<Rightarrow> dict \<Rightarrow> dict res" where
  "usage_line U line d =
    (if starts_with line (lit ''VmRSS:'') \<or> starts_with line (lit ''VmHWM:'')
     then (case split_words U line of
         [key, amount, _] \<Rightarrow> bindR (int_res U amount) (\<lambda>n. Inr (dset d (butlast key) (JInt (n * 1024))))
       | _ \<Rightarrow> Inl (ValueError ''values to unpack (expected 3)''))
     else Inr d)"

fun usage_lines :: "unidb \<Rightarrow> pstr list \<Rightarrow> dict \<Rightarrow> dict res" where
  "usage_lines U [] d = Inr d"
| "usage_lines U (l # ls) d = bindR (usage_line U l d) (usage_lines U ls)"

definition su_usage :: "'w superops \<Rightarrow> nat option \<Rightarrow> ('o \<times> 'w, dict) comp" where
  "su_usage S child = (let H = su_host S in
    bindM (askM (ho_free H (su_root S))) (\<lambda>free.
    bindM (askM (su_data S (su_path S (lit ''data'')))) (\<lambda>sizes.
    let result = [((lit ''free_bytes''), JInt free), ((lit ''data_bytes''), JInt (sum_list sizes))] in
    (case child of
       None \<Rightarrow> retM result
     | Some pid \<Rightarrow> if pid = 0 then retM result else bindM (worldM (ho_read H (lit ''/proc/'' @ dec pid @ lit ''/stat''))) (\<lambda>stat.
         bindM (liftR (stat_ticks (qo_unicode (su_qual S)) stat)) (\<lambda>ticks.
         let timed = dset result (lit ''cpu_seconds'') (qo_float (su_qual S) (of_int ticks / ho_clk_tck H)) in
         bindM (worldM (ho_read H (lit ''/proc/'' @ dec pid @ lit ''/status''))) (\<lambda>status.
         liftR (usage_lines (qo_unicode (su_qual S)) (split_on (\<lambda>c. c = 10) status) timed))))))))"

section \<open>Watching\<close>

definition su_config :: "'w superops \<Rightarrow> ('o \<times> 'w, json) comp" where
  "su_config S = bindM (worldM (ho_read (su_host S) (su_path S (lit ''supervisor.json'')))) (\<lambda>t. liftR (ho_loads (su_host S) t))"

definition su_deadline :: "'w superops \<Rightarrow> json \<Rightarrow> rat res" where
  "su_deadline S cfg = bindR (field cfg ''deadline'') (su_number S)"

definition within_guard :: "dict \<Rightarrow> bool res" where
  "within_guard row = bindR (int_field (JObj row) ''data_bytes'') (\<lambda>data. if 8 * 1024 ^ 3 < data then Inr False
    else bindR (int_field (JObj row) ''free_bytes'') (\<lambda>free. if free < 10 * 1024 ^ 3 then Inr False
    else bindR (int_field (JObj row) ''VmRSS'') (\<lambda>rss. Inr (\<not> 512 * 1024 ^ 2 < rss))))"

text \<open>The report of a watch is a dictionary; it is the local variable of the loop.\<close>

definition su_put :: "pstr \<Rightarrow> json \<Rightarrow> (dict \<times> 's, unit) comp" where
  "su_put k v = updM (\<lambda>d. dset d k v)"

definition su_watch_pass :: "'w superops \<Rightarrow> nat \<Rightarrow> (dict \<times> 'o \<times> 'w, unit option) comp" where
  "su_watch_pass S child = bindM (innerM (su_usage S (Some child))) (\<lambda>row.
    bindM (innerM (askM (su_time S))) (\<lambda>now.
    let sample = dset row (lit ''epoch'') (qo_float (su_qual S) now) in
    bindM (su_put (lit ''latest'') (JObj sample)) (\<lambda>_.
    bindM (liftR (within_guard sample)) (\<lambda>fine.
    bindM (whenM (\<not> fine) (RuntimeError ''Resource guard exceeded'')) (\<lambda>_.
    bindM objM (\<lambda>d.
    bindM (innerM (su_save S (lit ''resource.json'') (JObj d))) (\<lambda>_.
    bindM (innerM (askM (su_sleep S 2))) (\<lambda>_.
    retM None))))))))"

definition watch_end :: "'w superops \<Rightarrow> nat \<Rightarrow> (dict \<times> 'o \<times> 'w, unit) comp" where
  "watch_end S child = (let H = su_host S in
    bindM (innerM (askM (ho_poll H child))) (\<lambda>state.
    bindM (ifM (state = None) (innerM (askM (ho_kill H child)))) (\<lambda>_.
    bindM (innerM (worldM (ho_wait H child))) (\<lambda>code.
    bindM (innerM (askM (su_time S))) (\<lambda>now.
    bindM (su_put (lit ''returncode'') (JInt code)) (\<lambda>_.
    bindM (su_put (lit ''finished'') (qo_float (su_qual S) now)) (\<lambda>_.
    bindM objM (\<lambda>d.
    bindM (innerM (su_save S (lit ''resource-'' @ dec child @ lit ''.json'') (JObj d))) (\<lambda>_.
    innerM (su_save S (lit ''resource.json'') (JObj d)))))))))))"

definition watch_loop :: "'w superops \<Rightarrow> rat \<Rightarrow> nat \<Rightarrow> (dict \<times> 'o \<times> 'w, unit) comp" where
  "watch_loop S deadline child = finallyM
    (tryM (bindM (whileM (bindM (innerM (askM (ho_poll (su_host S) child))) (\<lambda>state.
          if state \<noteq> None then retM False else bindM (innerM (askM (su_time S))) (\<lambda>now. retM (now < deadline)))) (su_watch_pass S child)) (\<lambda>_. retM ()))
      (\<lambda>e. su_put (lit ''error'') (JStr (ho_repr (su_host S) e))))
    (watch_end S child)"

definition su_watch :: "'w superops \<Rightarrow> bool \<Rightarrow> ('o \<times> 'w, unit) comp" where
  "su_watch S create = (let H = su_host S in
    bindM (su_config S) (\<lambda>cfg.
    bindM (liftR (su_deadline S cfg)) (\<lambda>deadline.
    bindM (askM (su_time S)) (\<lambda>now.
    bindM (whenM (deadline \<le> now) (RuntimeError ''Expired run'')) (\<lambda>_.
    bindM (worldM (ho_open_log H (su_path S (lit ''server.log'')))) (\<lambda>log_file.
    finallyM (bindM (worldM (ho_popen H ([su_path S (lit ''sqlodin''), (lit ''serve''), su_path S (lit ''node.json'')] @ (if create then [(lit ''--create'')] else [])) log_file)) (\<lambda>child.
      bindM (worldM (ho_write H (su_path S (lit ''server.pid'')) (dec child))) (\<lambda>_.
      bindM (askM (su_time S)) (\<lambda>started.
      localM [((lit ''pid''), JInt (int child)), ((lit ''started''), qo_float (su_qual S) started), ((lit ''samples''), JList []), ((lit ''error''), JNull)]
        (watch_loop S deadline child))))) (askM (ho_close_log H log_file))))))))"

section \<open>The audit\<close>

definition native_tables :: "(pstr \<times> pstr) list" where
  "native_tables = [((lit ''accounts''), (lit ''id'')), ((lit ''transfers''), (lit ''id'')), ((lit ''ledger''), (lit ''tx,account''))]"

definition native_table :: "'w superops \<Rightarrow> nat \<Rightarrow> pstr \<times> pstr \<Rightarrow> ('o \<times> 'w, pstr \<times> json) comp" where
  "native_table S conn = (\<lambda>(table, order). bindM (worldM (qo_query (su_qual S) conn (lit ''SELECT * FROM '' @ table @ lit '' ORDER BY '' @ order))) (\<lambda>rows.
    bindM (liftR (mapR (qo_row (su_qual S)) rows)) (\<lambda>lines.
    retM (table, JObj [((lit ''rows''), JInt (int (length rows))), ((lit ''sha256''), JStr (qo_digest (su_qual S) lines))]))))"

definition cell_json :: "cell \<Rightarrow> json res" where
  "cell_json c = (case c of CJson j \<Rightarrow> Inr j | CBlob _ \<Rightarrow> Inl (TypeError ''Object of type bytes is not JSON serializable''))"

definition native_audit :: "'w superops \<Rightarrow> ('o \<times> 'w, json) comp" where
  "native_audit S = bindM (alive S) (\<lambda>voter.
    bindM (whenM (is_alive voter) (RuntimeError ''Stop voter before offline audit'')) (\<lambda>_.
    bindM (worldM (qo_open (su_qual S) (su_path S (lit ''data/node.db'')))) (\<lambda>conn.
    bindM (worldM (qo_query (su_qual S) conn (lit ''PRAGMA integrity_check''))) (\<lambda>integrity.
    bindM (worldM (qo_query (su_qual S) conn (lit ''PRAGMA foreign_key_check''))) (\<lambda>foreign.
    bindM (assertM (integrity = [[CJson (JStr (lit ''ok''))]] \<and> foreign = []) ''(integrity,foreign)'') (\<lambda>_.
    bindM (mapM (native_table S conn) native_tables) (\<lambda>tables.
    bindM (worldM (qo_query (su_qual S) conn (lit ''SELECT id,balance FROM accounts ORDER BY id''))) (\<lambda>balances.
    bindM (liftR (mapR (mapR cell_json) balances)) (\<lambda>rows.
    let result = JObj [((lit ''integrity''), JStr (lit ''ok'')), ((lit ''foreign_keys''), JStr (lit ''ok'')), ((lit ''tables''), JObj tables),
      ((lit ''balances''), JList (map JList rows))] in
    bindM (su_save S (lit ''audit.json'') result) (\<lambda>_.
    retM result))))))))))"

section \<open>Actions\<close>

definition poll_start :: "'w superops \<Rightarrow> nat \<Rightarrow> nat \<Rightarrow> ('o \<times> 'w, json option option) comp" where
  "poll_start S pid _ = bindM (alive S) (\<lambda>voter.
    if is_alive voter then bindM (alive S) (\<lambda>again.
      retM (Some (Some (JObj [((lit ''pid''), (case again of None \<Rightarrow> JNull | Some p \<Rightarrow> JInt p))])))) else bindM (askM (ho_poll (su_host S) pid)) (\<lambda>state.
      if state \<noteq> None then retM (Some None)
      else bindM (askM (su_sleep S (5 / 100))) (\<lambda>_. retM None)))"

definition action_start :: "'w superops \<Rightarrow> pstr list \<Rightarrow> ('o \<times> 'w, json) comp" where
  "action_start S flags = (let H = su_host S in
    bindM (alive S) (\<lambda>voter.
    bindM (whenM (is_alive voter) (RuntimeError ''Voter already running'')) (\<lambda>_.
    bindM (worldM (ho_open_log H (su_path S (lit ''supervisor.log'')))) (\<lambda>log_file.
    bindM (finallyM (worldM (ho_popen H ([su_python S, su_script S, (lit ''watch'')] @ flags) log_file)) (askM (ho_close_log H log_file))) (\<lambda>pid.
    bindM (untilM [0..<100] (poll_start S pid)) (\<lambda>r.
    (case r of Some (Some reply) \<Rightarrow> retM reply | _ \<Rightarrow> raiseM (RuntimeError ''Start failed''))))))))"

definition poll_stop :: "'w superops \<Rightarrow> nat \<Rightarrow> ('o \<times> 'w, json option) comp" where
  "poll_stop S _ = bindM (alive S) (\<lambda>voter.
    if \<not> is_alive voter then retM (Some (JObj [((lit ''stopped''), JBool True)]))
    else bindM (askM (su_sleep S (5 / 100))) (\<lambda>_. retM None))"

definition action_stop :: "'w superops \<Rightarrow> ('o \<times> 'w, json) comp" where
  "action_stop S = bindM (alive S) (\<lambda>voter.
    bindM ((case voter of Some pid \<Rightarrow> if pid \<noteq> 0 then worldM (su_kill S pid) else retM () | None \<Rightarrow> retM ())) (\<lambda>_.
    bindM (untilM [0..<100] (poll_stop S)) (\<lambda>r.
    (case r of Some reply \<Rightarrow> retM reply | None \<Rightarrow> raiseM (RuntimeError ''Stop failed'')))))"

definition action_status :: "'w superops \<Rightarrow> ('o \<times> 'w, json) comp" where
  "action_status S = (let H = su_host S in
    bindM (askM (ho_exists H (su_path S (lit ''resource.json'')))) (\<lambda>known.
    bindM ((if known then bindM (worldM (ho_read H (su_path S (lit ''resource.json'')))) (\<lambda>t. liftR (ho_loads H t)) else retM (JObj []))) (\<lambda>resources.
    bindM (alive S) (\<lambda>voter.
    bindM (su_usage S None) (\<lambda>row.
    bindM (worldM (ho_sha256 H (su_path S (lit ''sqlodin'')))) (\<lambda>digest.
    retM (JObj [((lit ''pid''), (case voter of None \<Rightarrow> JNull | Some p \<Rightarrow> JInt p)), ((lit ''resources''), resources), ((lit ''usage''), JObj row),
      ((lit ''binary_sha256''), JStr digest)])))))))"

text \<open>\<open>str.splitlines\<close>: the line boundaries of Unicode, \<open>\r\n\<close> counts once, and no empty line after the last boundary.\<close>

definition line_break :: "nat \<Rightarrow> bool" where
  "line_break c \<longleftrightarrow> c \<in> {10, 11, 12, 13, 28, 29, 30, 133, 8232, 8233}"

fun splitlines :: "pstr \<Rightarrow> pstr list" where
  "splitlines [] = []"
| "splitlines (c # cs) = (if c = 13 \<and> take 1 cs = [10] then [] # splitlines (drop 1 cs)
     else if line_break c then [] # splitlines cs
     else (case splitlines cs of [] \<Rightarrow> [[c]] | l # ls \<Rightarrow> (c # l) # ls))"

definition ends_in :: "pstr \<Rightarrow> pstr \<Rightarrow> bool" where
  "ends_in s suffix \<longleftrightarrow> length suffix \<le> length s \<and> drop (length s - length suffix) s = suffix"

text \<open>The lines that stay when a key is retired.\<close>

definition other_keys :: "pstr \<Rightarrow> pstr \<Rightarrow> pstr" where
  "other_keys public contents = join [10] (filter (\<lambda>l. \<not> ends_in l public) (splitlines contents)) @ [10]"

definition retire_key :: "'w superops \<Rightarrow> json \<Rightarrow> ('o \<times> 'w, unit) comp" where
  "retire_key S public = (let H = su_host S in
    let path = path_join (su_home S) (lit ''.ssh/authorized_keys'') in
    bindM (worldM (ho_read H path)) (\<lambda>contents.
    bindM ((case public of
        JStr key \<Rightarrow> retM (other_keys key contents)
      | _ \<Rightarrow> if splitlines contents = [] then retM [10] else raiseM (TypeError ''endswith first arg must be str''))) (\<lambda>kept.
    bindM (worldM (ho_write H path kept)) (\<lambda>_.
    worldM (ho_chmod H path)))))"

definition action_retire :: "'w superops \<Rightarrow> json \<Rightarrow> ('o \<times> 'w, json) comp" where
  "action_retire S cfg = bindM (alive S) (\<lambda>voter.
    bindM (whenM (is_alive voter) (RuntimeError ''Stop voter before retiring controller access'')) (\<lambda>_.
    bindM ((case cfg of JObj d \<Rightarrow> retM (case dget d ''authorized_key'' of None \<Rightarrow> JNull | Some j \<Rightarrow> j) | _ \<Rightarrow> raiseM AttributeError)) (\<lambda>public.
    bindM (ifM (json_truth public) (retire_key S public)) (\<lambda>_.
    retM (JObj [((lit ''retired''), JBool True)])))))"

definition action :: "'w superops \<Rightarrow> pstr list \<Rightarrow> ('o \<times> 'w, json) comp" where
  "action S words = bindM (su_config S) (\<lambda>cfg.
    bindM (liftR (su_deadline S cfg)) (\<lambda>deadline.
    bindM (askM (su_time S)) (\<lambda>now.
    bindM (whenM (deadline < now) (RuntimeError ''Expired run'')) (\<lambda>_.
    if words = [(lit ''start'')] \<or> words = [(lit ''start''), (lit ''create'')] then action_start S (drop 1 words)
    else if words = [(lit ''stop'')] then action_stop S
    else if words = [(lit ''status'')] then action_status S
    else if words = [(lit ''audit'')] then native_audit S
    else if words = [(lit ''retire'')] then action_retire S cfg
    else raiseM (ValueError ''Unsupported supervisor action'')))))"

text \<open>The script: \<open>argv\<close> without the program's name. A watch prints nothing.\<close>

definition worker_main :: "'w superops \<Rightarrow> pstr list \<Rightarrow> ('o \<times> 'w, json option) comp" where
  "worker_main S argv =
    (if take 1 argv = [(lit ''watch'')] then bindM (su_watch S ((lit ''create'') \<in> set (drop 1 argv))) (\<lambda>_. retM None)
     else bindM ((if argv = [] then liftR (su_split S (su_command S)) else retM argv)) (\<lambda>words.
       bindM (action S words) (\<lambda>reply.
       retM (Some reply))))"

section \<open>Retired keys\<close>

lemma splitlines_line: "\<forall>c \<in> set l. \<not> line_break c \<Longrightarrow> splitlines (l @ 10 # rest) = l # splitlines rest"
  by (induction l) (auto simp: line_break_def)

lemma splitlines_clean: "l \<in> set (splitlines s) \<Longrightarrow> c \<in> set l \<Longrightarrow> \<not> line_break c"
  by (induction s arbitrary: l rule: splitlines.induct) (auto split: if_splits list.splits, blast+)

lemma splitlines_join: "ls \<noteq> [] \<Longrightarrow> \<forall>l \<in> set ls. \<forall>c \<in> set l. \<not> line_break c \<Longrightarrow> splitlines (join [10] ls @ [10]) = ls"
proof (induction ls rule: list_nonempty_induct)
  case (single l)
  then show ?case using splitlines_line [of l "[]"] by simp
next
  case (cons l ls)
  then obtain m ms where "ls = m # ms" by (cases ls) auto
  then show ?case using cons splitlines_line [of l "join [10] ls @ [10]"] by simp
qed

text \<open>Retiring a key removes its lines and no other; an empty file keeps one empty line.\<close>

lemma retire_removes_exactly:
  "splitlines (other_keys public contents) =
    (let kept = filter (\<lambda>l. \<not> ends_in l public) (splitlines contents) in if kept = [] then [[]] else kept)"
proof (cases "filter (\<lambda>l. \<not> ends_in l public) (splitlines contents) = []")
  case True
  then show ?thesis by (simp add: other_keys_def line_break_def)
next
  case False
  then show ?thesis
    unfolding other_keys_def Let_def by (subst splitlines_join) (auto dest: splitlines_clean)
qed

end
