(* ===== verification/Ci_Changes.thy ===== *)
theory Ci_Changes
  imports Net_Cluster
begin

text \<open>
  \<open>tools/ci_changes.py\<close>: which checks a change needs, from the paths of its diff. The loop over the
  paths is shown to be a selection by the kinds of the paths: their order and number do not
  matter, and a path of no known kind gets the native and the Python checks.
\<close>

section \<open>The selection\<close>

record selection =
  sl_native :: bool
  sl_python :: bool
  sl_formal :: bool
  sl_upstream :: bool

definition ends_with_one :: "pstr \<Rightarrow> string list \<Rightarrow> bool" where
  "ends_with_one s suffixes \<longleftrightarrow> list_ex (\<lambda>x. length x \<le> length s \<and> ends_with s x) suffixes"

definition starts_with_one :: "pstr \<Rightarrow> string list \<Rightarrow> bool" where
  "starts_with_one s prefixes \<longleftrightarrow> list_ex (\<lambda>x. starts_with s (lit x)) prefixes"

definition is_python_path :: "pstr \<Rightarrow> bool" where
  "is_python_path path \<longleftrightarrow> starts_with path (lit ''languages/python/'')"

definition is_formal_path :: "pstr \<Rightarrow> bool" where
  "is_formal_path path \<longleftrightarrow> path \<in> {(lit ''tools/check_formal.py''), (lit ''tools/check_ci_formal.py'')}
     \<or> starts_with path (lit ''specs/'') \<and> ends_with_one path [''.tla'', ''.cfg'']"

definition is_document_path :: "pstr \<Rightarrow> bool" where
  "is_document_path path \<longleftrightarrow> starts_with_one path [''docs/'', ''specs/'', ''benchmarks/results/'', ''.github/ISSUE_TEMPLATE/'']
     \<or> path \<in> {(lit ''README.md''), (lit ''CONTRIBUTING.md''), (lit ''LICENSE''), (lit ''.gitignore''),
          (lit ''.github/PULL_REQUEST_TEMPLATE.md''), (lit ''.github/release-notes.md''), (lit ''tools/build_site.py''), (lit ''.github/workflows/pages.yml'')}"

definition classify_path :: "pstr \<Rightarrow> selection \<Rightarrow> selection" where
  "classify_path path s =
    (if path = [] then s
     else if \<not> is_python_path path \<and> \<not> is_formal_path path \<and> is_document_path path then s
     else let t = (if is_python_path path then s\<lparr>sl_python := True\<rparr>
                   else if is_formal_path path then s\<lparr>sl_formal := True\<rparr>
                   else s\<lparr>sl_native := True, sl_python := True\<rparr>)
          in if path = (lit ''deps/paxos-odin'') \<or> path = (lit ''.gitmodules'') then t\<lparr>sl_upstream := True\<rparr> else t)"

definition nothing :: selection where
  "nothing = \<lparr>sl_native = False, sl_python = False, sl_formal = False, sl_upstream = False\<rparr>"

definition everything :: selection where
  "everything = \<lparr>sl_native = True, sl_python = True, sl_formal = True, sl_upstream = True\<rparr>"

definition classify :: "pstr list \<Rightarrow> selection" where
  "classify paths = fold classify_path paths nothing"

section \<open>The script\<close>

text \<open>\<open>add_line\<close> writes to the end of the output file, which GitHub reads.\<close>

definition flag_line :: "string \<Rightarrow> bool \<Rightarrow> pstr" where
  "flag_line key v = (lit key @ lit ''='') @ (if v then (lit ''true'') else (lit ''false'')) @ [10]"

definition selection_lines :: "selection \<Rightarrow> pstr list" where
  "selection_lines s = [flag_line ''native'' (sl_native s), flag_line ''python'' (sl_python s), flag_line ''formal'' (sl_formal s), flag_line ''upstream'' (sl_upstream s)]"

definition ci_select :: "'w hostops \<Rightarrow> bool \<Rightarrow> pstr option \<Rightarrow> pstr \<Rightarrow> ('x \<times> 'w, selection) comp" where
  "ci_select H every base head =
    (case base of
       None \<Rightarrow> retM everything
     | Some b \<Rightarrow> if every \<or> b = [] \<or> set b = {48} then retM everything
         else bindM (check_output H [(lit ''git''), (lit ''diff''), (lit ''--name-only''), (lit ''-z''), b, head]) (\<lambda>diff.
           retM (classify (split_on (\<lambda>c. c = 0) diff))))"

definition ci_main :: "'w hostops \<Rightarrow> (pstr \<Rightarrow> pstr \<Rightarrow> 'w \<Rightarrow> unit res \<times> 'w) \<Rightarrow> bool \<Rightarrow> pstr option \<Rightarrow> pstr \<Rightarrow> pstr \<Rightarrow> ('x \<times> 'w, unit) comp" where
  "ci_main H add_line every base head output = bindM (ci_select H every base head) (\<lambda>selected.
    forM (selection_lines selected) (\<lambda>line. worldM (add_line output line)))"

section \<open>What is selected\<close>

text \<open>A path of no known kind.\<close>

definition is_other_path :: "pstr \<Rightarrow> bool" where
  "is_other_path path \<longleftrightarrow> path \<noteq> [] \<and> \<not> is_python_path path \<and> \<not> is_formal_path path \<and> \<not> is_document_path path"

lemma upstream_other: "is_other_path (lit ''deps/paxos-odin'')" "is_other_path (lit ''.gitmodules'')"
  by (simp_all add: is_other_path_def is_python_path_def is_formal_path_def is_document_path_def starts_with_one_def ends_with_one_def ends_with_def lit_def)

lemma empty_path: "\<not> is_formal_path []" "\<not> is_python_path []"
  by (simp_all add: is_formal_path_def is_python_path_def lit_def)

lemma classify_path_spec:
  "classify_path p s = \<lparr>sl_native = sl_native s \<or> is_other_path p, sl_python = sl_python s \<or> is_python_path p \<or> is_other_path p,
     sl_formal = sl_formal s \<or> is_formal_path p \<and> \<not> is_python_path p, sl_upstream = sl_upstream s \<or> p = (lit ''deps/paxos-odin'') \<or> p = (lit ''.gitmodules'')\<rparr>"
  using upstream_other empty_path by (cases s) (auto simp: classify_path_def is_other_path_def Let_def)

text \<open>
  The checks that a change gets depend on the kinds of its paths alone, not on their order or
  number: the native checks run iff a path is of no known kind, the Python checks iff such a path or one of
  the Python package is among them, the formal ones iff a specification or their scripts are, the
  upstream ones iff the pinned dependency is.
\<close>

theorem classify_by_kinds:
  "classify paths = \<lparr>sl_native = (\<exists>p \<in> set paths. is_other_path p), sl_python = (\<exists>p \<in> set paths. is_python_path p \<or> is_other_path p),
     sl_formal = (\<exists>p \<in> set paths. is_formal_path p \<and> \<not> is_python_path p),
     sl_upstream = (\<exists>p \<in> set paths. p = (lit ''deps/paxos-odin'') \<or> p = (lit ''.gitmodules''))\<rparr>"
proof -
  have "fold classify_path paths s = \<lparr>sl_native = sl_native s \<or> (\<exists>p \<in> set paths. is_other_path p),
      sl_python = sl_python s \<or> (\<exists>p \<in> set paths. is_python_path p \<or> is_other_path p),
      sl_formal = sl_formal s \<or> (\<exists>p \<in> set paths. is_formal_path p \<and> \<not> is_python_path p),
      sl_upstream = sl_upstream s \<or> (\<exists>p \<in> set paths. p = (lit ''deps/paxos-odin'') \<or> p = (lit ''.gitmodules''))\<rparr>" for s
    by (induction paths arbitrary: s) (auto simp: classify_path_spec)
  then show ?thesis by (simp add: classify_def nothing_def)
qed

end
