(* ===== verification/Crash_Checks.thy ===== *)
theory Crash_Checks
  imports Net_Facts
begin

text \<open>
  The crash campaigns on the durability probe: \<open>tools/check_durability.py\<close> with the helpers that
  \<open>tools/check_generation_crashes.py\<close> and \<open>tools/check_session_crashes.py\<close> share. A probe stops itself at a named
  boundary, is killed there, and a second process verifies what it left on disk.
\<close>

section \<open>The host\<close>

text \<open>\<open>cr_spawn\<close> starts a probe with captured output, \<open>cr_communicate\<close> collects that output and the exit
  within a time, \<open>cr_mkdir\<close> makes a directory that is not there yet, \<open>cr_odin\<close> is the compiler.\<close>

record 'w crashops =
  cr_host :: "'w hostops"
  cr_spawn :: "pstr list \<Rightarrow> 'w \<Rightarrow> nat res \<times> 'w"
  cr_communicate :: "nat \<Rightarrow> rat option \<Rightarrow> 'w \<Rightarrow> unit res \<times> 'w"
  cr_mkdir :: "pstr \<Rightarrow> 'w \<Rightarrow> unit res \<times> 'w"
  cr_odin :: pstr

definition run_tool :: "'w crashops \<Rightarrow> pstr list \<Rightarrow> ('x \<times> 'w, pstr) comp" where
  "run_tool C argv = bindM (check_output (cr_host C) argv) (\<lambda>out.
    retM (strip (unicode (ho_net (cr_host C))) out))"

definition stopped_mark :: pstr where
  "stopped_mark = 10 # (lit ''State:'') @ 9 # (lit ''T '')"

text \<open>One pass of the wait for the boundary: an exited probe is an error, a stopped one is killed.\<close>

definition kill_pass :: "'w crashops \<Rightarrow> nat \<Rightarrow> ('x \<times> 'w, unit option) comp" where
  "kill_pass C child = (let H = cr_host C in
    bindM (askM (ho_poll H child)) (\<lambda>state.
    if state \<noteq> None then bindM (worldM (cr_communicate C child None)) (\<lambda>_.
      raiseM (RuntimeError ''Probe exited before crash boundary: {out}'')) else bindM (worldM (ho_read H (lit ''/proc/'' @ dec child @ lit ''/status''))) (\<lambda>contents.
      if has_text stopped_mark contents then bindM (askM (ho_kill H child)) (\<lambda>_.
        bindM (worldM (cr_communicate C child (Some 10))) (\<lambda>_.
        bindM (askM (ho_poll H child)) (\<lambda>code.
        bindM (assertM (code = Some (-9)) ''(out, err)'') (\<lambda>_.
        retM (Some ()))))) else bindM (effectM (sleep (ho_net H) (1 / 100))) (\<lambda>_.
        retM None))))"

definition kill_stopped :: "'w crashops \<Rightarrow> pstr list \<Rightarrow> ('x \<times> 'w, unit) comp" where
  "kill_stopped C argv = (let H = cr_host C in
    bindM (worldM (cr_spawn C argv)) (\<lambda>child.
    finallyM (bindM (clockM (ho_net H)) (\<lambda>begun.
      bindM (whileM (bindM (clockM (ho_net H)) (\<lambda>now. retM (now < begun + 60))) (kill_pass C child)) (\<lambda>r.
      (case r of Some _ \<Rightarrow> retM () | None \<Rightarrow> raiseM (TimeoutError ''Probe did not reach its crash boundary''))))) (bindM (askM (ho_poll H child)) (\<lambda>state.
      ifM (state = None) (bindM (askM (ho_kill H child)) (\<lambda>_.
        bindM (worldM (ho_wait H child)) (\<lambda>_.
        retM ())))))))"

section \<open>Durability\<close>

definition on_disk :: "json \<Rightarrow> bool res" where
  "on_disk document = bindR (bindR (bindR (field document ''filesystems'') first_item) (\<lambda>f. field f ''fstype''))
    (\<lambda>kind. Inr (kind \<noteq> JStr (lit ''tmpfs'') \<and> kind \<noteq> JStr (lit ''ramfs'')))"

text \<open>
  A case: its name in the report, the file, the words of the three probe runs. The initial run of
  the cluster case makes a directory instead.
\<close>

record crash_case =
  cc_name :: pstr
  cc_file :: pstr
  cc_init :: "pstr option"
  cc_stop :: "pstr \<times> pstr"
  cc_verify :: "pstr \<times> pstr"

definition crash_case_of :: "pstr \<Rightarrow> pstr \<Rightarrow> pstr \<Rightarrow> pstr \<Rightarrow> pstr \<Rightarrow> pstr \<Rightarrow> crash_case" where
  "crash_case_of name file init stop verify boundary =
    \<lparr>cc_name = name, cc_file = file, cc_init = Some init, cc_stop = (stop, boundary), cc_verify = (verify, boundary)\<rparr>"

definition boundaries :: "pstr list" where
  "boundaries = [(lit ''before''), (lit ''journal''), (lit ''application''), (lit ''ack'')]"

definition group_boundaries :: "pstr list" where
  "group_boundaries = [(lit ''before''), (lit ''journal''), (lit ''sql''), (lit ''application''), (lit ''ack'')]"

definition plain_cases :: "crash_case list" where
  "plain_cases = map (\<lambda>(b, expected). \<lparr>cc_name = b, cc_file = (b @ lit ''.db''), cc_init = Some (lit ''init''), cc_stop = ((lit ''write''), b), cc_verify = ((lit ''verify''), dec expected)\<rparr>)
    [((lit ''before''), 0), ((lit ''journal''), 1), ((lit ''application''), 1), ((lit ''ack''), 1)]"

definition cluster_case :: crash_case where
  "cluster_case = \<lparr>cc_name = (lit ''three_voters_killed_at_ack''), cc_file = (lit ''cluster''), cc_init = None, cc_stop = ((lit ''cluster''), (lit ''-'')), cc_verify = ((lit ''cluster-verify''), (lit ''-''))\<rparr>"

definition transaction_cases :: "pstr \<Rightarrow> crash_case list" where
  "transaction_cases suffix = map (\<lambda>b. crash_case_of (lit ''transaction'' @ suffix @ lit ''-'' @ b) (lit ''transaction'' @ suffix @ lit ''-'' @ b @ lit ''.db'') (lit ''tx-init'') (lit ''tx-write'' @ suffix) (lit ''tx-verify'' @ suffix) b) boundaries"

definition durability_cases :: "crash_case list" where
  "durability_cases = plain_cases @ [cluster_case] @ transaction_cases [] @ transaction_cases (lit ''-reject'')
    @ map (\<lambda>b. crash_case_of (lit ''application-group-'' @ b) (lit ''group-'' @ b @ lit ''.db'') (lit ''group-init'') (lit ''group-write'') (lit ''group-verify'') b) group_boundaries
    @ map (\<lambda>b. crash_case_of (lit ''journal-group-'' @ b) (lit ''journal-group-'' @ b @ lit ''.db'') (lit ''journal-init'') (lit ''journal-write'') (lit ''journal-verify'') b) boundaries"

definition run_case :: "'w crashops \<Rightarrow> pstr \<Rightarrow> pstr \<Rightarrow> crash_case \<Rightarrow> ('x \<times> 'w, rv) comp" where
  "run_case C work binary k = (let path = path_join work (cc_file k) in
    bindM ((case cc_init k of
       None \<Rightarrow> worldM (cr_mkdir C path)
     | Some word \<Rightarrow> bindM (run_tool C [binary, path, word, (lit ''-'')]) (\<lambda>_. retM ()))) (\<lambda>_.
    bindM (kill_stopped C [binary, path, fst (cc_stop k), snd (cc_stop k)]) (\<lambda>_.
    bindM (run_tool C [binary, path, fst (cc_verify k), snd (cc_verify k)]) (\<lambda>verification.
    retM (RD [((lit ''case''), RS (cc_name k)), ((lit ''passed''), RB True), ((lit ''verification''), RS verification)])))))"

definition durability_defines :: "bool \<Rightarrow> nat \<Rightarrow> pstr list" where
  "durability_defines individual storage_format =
    [(lit ''-define:SQLODIN_JOURNAL_GROUP_COMMIT='') @ (if individual then (lit ''false'') else (lit ''true'')),
     (lit ''-define:SQLODIN_TEST_SEPARATED='') @ (if storage_format = 5 then (lit ''true'') else (lit ''false''))]"

text \<open>The body of the \<open>with\<close> block: the file system and the results.\<close>

definition durability_run :: "'w crashops \<Rightarrow> pstr \<Rightarrow> bool \<Rightarrow> nat \<Rightarrow> pstr \<Rightarrow> ('x \<times> 'w, json \<times> rv list) comp" where
  "durability_run C project individual storage_format work = bindM (run_tool C [(lit ''findmnt''), (lit ''--json''), (lit ''-T''), work, (lit ''-o''), (lit ''TARGET,FSTYPE,SOURCE,OPTIONS'')]) (\<lambda>out.
    bindM (liftR (ho_loads (cr_host C) out)) (\<lambda>filesystem.
    bindM (liftR (on_disk filesystem)) (\<lambda>persistent.
    bindM (whenM (\<not> persistent) (SystemExit ''Disk durability checks require the project build directory on persistent storage'')) (\<lambda>_.
    let binary = path_join work (lit ''probe'') in
    bindM (run_tool C ([cr_odin C, (lit ''build''), path_join project (lit ''internal/durability_probe''), (lit ''-o:speed''), (lit ''-vet''), (lit ''-strict-style'')]
      @ durability_defines individual storage_format @ [(lit ''-out:'' @ binary)])) (\<lambda>_.
    bindM (mapM (run_case C work binary) durability_cases) (\<lambda>results.
    retM (filesystem, results)))))))"

text \<open>The sources sorted: the probe (a directory without subdirectories) comes before \<open>src\<close>.\<close>

definition probe_sources :: "'w crashops \<Rightarrow> pstr \<Rightarrow> ('x \<times> 'w, rv) comp" where
  "probe_sources C project = source_digests (cr_host C) project [(lit ''internal/durability_probe''), (lit ''src'')] (\<lambda>p. ends_with p ''.odin'')"

text \<open>The script returns the report that it prints.\<close>

definition durability_main :: "'w crashops \<Rightarrow> pstr \<Rightarrow> pstr option \<Rightarrow> bool \<Rightarrow> nat \<Rightarrow> ('x \<times> 'w, report) comp" where
  "durability_main C project output individual storage_format = (let H = cr_host C in
    bindM ((case output of None \<Rightarrow> retM False | Some path \<Rightarrow> askM (ho_exists H path))) (\<lambda>taken.
    bindM (whenM taken (SystemExit ''output exists; retain prior evidence and select a new report path'')) (\<lambda>_.
    bindM (whenM (\<not> ho_linux H) (SystemExit ''Run these SIGKILL/proc checks on Linux'')) (\<lambda>_.
    let disk_tmp = path_join project (lit ''build/test-tmp'') in
    bindM (worldM (ho_mkdir H disk_tmp)) (\<lambda>_.
    bindM (temp_dirM H disk_tmp (durability_run C project individual storage_format)) (\<lambda>(filesystem, results).
    bindM (askM (ho_utcnow H)) (\<lambda>now.
    bindM (probe_sources C project) (\<lambda>sources.
    bindM (worldM (ho_read H (path_join project (lit ''build/native/build.json'')))) (\<lambda>contents.
    bindM (liftR (ho_loads H contents)) (\<lambda>dependencies.
    let summary = [((lit ''schema_version''), RI 1), ((lit ''run_at_utc''), RS now), ((lit ''journal_group_commit''), RB (\<not> individual)),
      ((lit ''storage_format''), RI (int storage_format)), ((lit ''source_sha256''), sources), ((lit ''native_dependencies''), RJ dependencies),
      ((lit ''scope''), RS (lit ''process crash; not physical power-loss certification'')), ((lit ''platform''), RS (ho_platform H)),
      ((lit ''filesystem''), RJ filesystem), ((lit ''checks''), RL results)] in
    bindM ((case output of
       None \<Rightarrow> retM ()
     | Some path \<Rightarrow> bindM (make_parent H path) (\<lambda>_. worldM (ho_write H path (ho_dumps H summary @ [10]))))) (\<lambda>_.
    retM summary)))))))))))"

section \<open>Generations and sessions\<close>

definition phase_names :: "pstr list" where
  "phase_names = [(lit ''Image_Checked''), (lit ''Before_Application_Step''), (lit ''After_Application_Step''),
     (lit ''Application_Copied''), (lit ''Before_Suffix_Commit''), (lit ''Suffix_Copied''), (lit ''Base_Written''),
     (lit ''Recovered''), (lit ''Before_Outcome_Trim_Commit''), (lit ''After_Outcome_Trim_Commit''), (lit ''Before_Identity_Commit''), (lit ''Before_Directory_Sync''), (lit ''Ready''),
     (lit ''After_Directory_Sync''), (lit ''Before_Publication''), (lit ''Before_Catalog_Commit''), (lit ''After_Publication'')]"

definition retirement_phases :: "pstr list" where
  "retirement_phases = [(lit ''After_Retirement_Files''), (lit ''After_Retirement_Sync''), (lit ''Before_Retirement_Commit'')]"

definition image_phases :: "pstr list" where
  "image_phases = [(lit ''After_Image_Retirement_Files''), (lit ''After_Image_Retirement_Sync''), (lit ''Before_Image_Retirement_Commit'')]"

definition root_phases :: "pstr list" where
  "root_phases = [(lit ''After_Root_Retirement_Files''), (lit ''After_Root_Retirement_Sync''), (lit ''Before_Root_Retirement_Commit'')]"

definition backup_phases :: "pstr list" where
  "backup_phases = [(lit ''Before_Image_Step''), (lit ''After_Image_Step''), (lit ''Image_Copied''), (lit ''Image_Synced''),
     (lit ''Image_Verified''), (lit ''Before_Manifest''), (lit ''Before_Manifest_Sync''), (lit ''After_Manifest_Sync''), (lit ''Manifest_Durable'')]"

definition restore_phases :: "pstr list" where
  "restore_phases = map (\<lambda>n. (lit ''Restore_'') @ n) [(lit ''Initialized''), (lit ''Before_Image_Step''), (lit ''After_Image_Step''), (lit ''Image_Verified''),
     (lit ''Application_Rebased''), (lit ''Files_Synced''), (lit ''Before_Ready_Commit''), (lit ''Ready'')]"

definition all_phases :: "pstr list" where
  "all_phases = phase_names @ retirement_phases @ image_phases @ root_phases @ backup_phases @ restore_phases"

definition phase_operation :: "pstr \<Rightarrow> pstr" where
  "phase_operation phase =
    (if phase \<in> set restore_phases then (lit ''restore'') else if phase \<in> set backup_phases then (lit ''backup'')
     else if phase \<in> set root_phases then (lit ''retire-root'') else if phase \<in> set image_phases then (lit ''retire-image'')
     else if phase \<in> set retirement_phases then (lit ''retire'') else (lit ''gen''))"

text \<open>\<open>phase.removeprefix('Restore_')\<close>\<close>

definition phase_boundary :: "pstr \<Rightarrow> pstr" where
  "phase_boundary phase = (if phase \<in> set restore_phases then drop 8 phase else phase)"

definition phase_check :: "'w crashops \<Rightarrow> pstr \<Rightarrow> pstr \<Rightarrow> pstr \<Rightarrow> ('w nrstate, unit) comp" where
  "phase_check C work binary phase = (let directory = path_join work phase in
    bindM (worldM (cr_mkdir C directory)) (\<lambda>_.
    let operation = phase_operation phase in
    let boundary = phase_boundary phase in
    bindM (kill_stopped C [binary, directory, (operation @ lit ''-write''), boundary]) (\<lambda>_.
    bindM (run_tool C [binary, directory, (operation @ lit ''-verify''), boundary]) (\<lambda>result.
    append_entry (lit ''checks'') (RD [((lit ''phase''), RS phase), ((lit ''passed''), RB True), ((lit ''verification''), RS result)])))))"

text \<open>The opening of both campaigns: the file system and the probe.\<close>

definition build_probe :: "'w crashops \<Rightarrow> pstr \<Rightarrow> pstr \<Rightarrow> pstr list \<Rightarrow> pstr list \<Rightarrow> ('w nrstate, pstr) comp" where
  "build_probe C project work mount flags = (let H = cr_host C in
    bindM (run_tool C ([(lit ''findmnt'')] @ mount @ [(lit ''-T''), work])) (\<lambda>out.
    bindM (liftR (ho_loads H out)) (\<lambda>filesystem.
    bindM (put_report (lit ''filesystem'') (RJ filesystem)) (\<lambda>_.
    bindM (liftR (on_disk filesystem)) (\<lambda>persistent.
    bindM (assertM persistent ''A real file system is required'') (\<lambda>_.
    let binary = path_join work (lit ''probe'') in
    bindM (run_tool C ([cr_odin C, (lit ''build''), path_join project (lit ''internal/durability_probe'')] @ flags @ [(lit ''-out:'' @ binary)])) (\<lambda>_.
    bindM (worldM (ho_sha256 H binary)) (\<lambda>digest.
    bindM (put_report (lit ''binary_sha256'') (RS digest)) (\<lambda>_.
    retM binary)))))))))"

definition generation_crashes :: "'w crashops \<Rightarrow> pstr \<Rightarrow> pstr \<Rightarrow> bool \<Rightarrow> pstr list \<Rightarrow> ('w nrstate, unit) comp" where
  "generation_crashes C project output debug cases = (let H = cr_host C in
    bindM (askM (ho_exists H output)) (\<lambda>taken.
    bindM (whenM taken (SystemExit ''Select a new evidence path; previous failures are retained'')) (\<lambda>_.
    bindM (whenM (\<not> ho_linux H) (SystemExit ''These process-crash checks require Linux'')) (\<lambda>_.
    bindM (askM (ho_utcnow H)) (\<lambda>now.
    bindM (updM (\<lambda>_. run_empty [((lit ''complete''), RB False), ((lit ''passed''), RB False), ((lit ''checks''), RL []), ((lit ''platform''), RS (ho_platform H)), ((lit ''debug''), RB debug),
      ((lit ''run_at_utc''), RS now), ((lit ''scope''), RS (lit ''local generation publication with retained predecessor; SIGKILL, not power loss''))])) (\<lambda>_.
    bindM (make_parent H output) (\<lambda>_.
    reportedM H ((let scratch = path_join project (lit ''build/test-tmp'') in
      bindM (worldM (ho_mkdir H scratch)) (\<lambda>_.
      temp_dirM H scratch (\<lambda>work. bindM (build_probe C project work [(lit ''--json'')] [if debug then (lit ''-debug'') else (lit ''-o:speed''), (lit ''-vet''), (lit ''-strict-style'')]) (\<lambda>binary.
        bindM (forM (if cases \<noteq> [] then cases else all_phases) (phase_check C work binary)) (\<lambda>_.
        complete_report)))))) (bindM (probe_sources C project) (\<lambda>sources.
      bindM (put_report (lit ''source_sha256'') sources) (\<lambda>_.
      save_report H output))))))))))"

definition session_check :: "'w crashops \<Rightarrow> pstr \<Rightarrow> pstr \<Rightarrow> pstr \<Rightarrow> ('w nrstate, unit) comp" where
  "session_check C work binary boundary = (let path = path_join work (boundary @ lit ''.db'') in
    bindM (run_tool C [binary, path, (lit ''session-init''), (lit ''-'')]) (\<lambda>_.
    bindM (kill_stopped C [binary, path, (lit ''session-write''), boundary]) (\<lambda>_.
    bindM (run_tool C [binary, path, (lit ''session-verify''), boundary]) (\<lambda>result.
    append_entry (lit ''checks'') (RD [((lit ''boundary''), RS boundary), ((lit ''passed''), RB True), ((lit ''output''), RS result)])))))"

definition session_crashes :: "'w crashops \<Rightarrow> pstr \<Rightarrow> pstr \<Rightarrow> ('w nrstate, unit) comp" where
  "session_crashes C project output = (let H = cr_host C in
    bindM ((if \<not> ho_linux H then retM True else askM (ho_exists H output))) (\<lambda>taken.
    bindM (whenM taken (SystemExit ''Linux and a new evidence path required'')) (\<lambda>_.
    bindM (askM (ho_utcnow H)) (\<lambda>now.
    bindM (updM (\<lambda>_. run_empty [((lit ''complete''), RB False), ((lit ''passed''), RB False), ((lit ''checks''), RL []), ((lit ''run_at_utc''), RS now),
      ((lit ''scope''), RS (lit ''separated durable stores, process SIGKILL, not physical power loss''))])) (\<lambda>_.
    let scratch = path_join project (lit ''build/test-tmp'') in
    bindM (worldM (ho_mkdir H scratch)) (\<lambda>_.
    bindM (make_parent H output) (\<lambda>_.
    reportedM H (temp_dirM H scratch (\<lambda>work. bindM (build_probe C project work [(lit ''-J'')] [(lit ''-debug''), (lit ''-vet''), (lit ''-strict-style''), (lit ''-define:SQLODIN_TEST_SEPARATED=true'')]) (\<lambda>binary.
        bindM (forM group_boundaries (session_check C work binary)) (\<lambda>_.
        complete_report))))
      (bindM (source_digests H project [(lit ''src''), (lit ''internal/durability_probe'')] (\<lambda>p. ends_with p ''.odin'')) (\<lambda>sources.
        bindM (put_report (lit ''sources'') sources) (\<lambda>_.
        save_report H output))))))))))"

end
