(* ===== verification/Crash_Facts.thy ===== *)
theory Crash_Facts
  imports Crash_Checks Native_Facts
begin

text \<open>
  What the crash campaigns report: a report that says \<open>complete\<close> has an entry for every case that was
  asked for, in their order, and no other.
\<close>

section \<open>Durability\<close>

definition entry_of :: "pstr \<Rightarrow> rv \<Rightarrow> rv option" where
  "entry_of k e = (case e of RD d \<Rightarrow> map_of d k | _ \<Rightarrow> None)"

lemma any_bind: "(\<And>x t. wlp (f x) Q (\<lambda>_ _. True) t) \<Longrightarrow> wlp (bindM m f) Q (\<lambda>_ _. True) s"
  by (auto intro: wlp_any)

lemma any_from:
  assumes "\<And>t. wlp m (\<lambda>x _. P x) (\<lambda>_ _. True) t" "\<And>x t. P x \<Longrightarrow> wlp (f x) Q (\<lambda>_ _. True) t"
  shows "wlp (bindM m f) Q (\<lambda>_ _. True) s"
  unfolding wlp_simps by (rule wlp_mono [OF assms(1)]) (auto intro: assms(2))

lemma mapM_each:
  assumes "\<And>x t. wlp (f x) (\<lambda>y _. P x y) E t"
  shows "wlp (mapM f xs) (\<lambda>ys _. list_all2 P xs ys) E s"
proof (induction xs arbitrary: s)
  case (Cons x xs)
  show ?case unfolding mapM.simps wlp_simps by (rule wlp_mono [OF assms]) (auto intro: wlp_mono [OF Cons.IH])
qed simp

lemma temp_dir_any:
  assumes "\<And>d t. wlp (body d) (\<lambda>x _. P x) (\<lambda>_ _. True) t"
  shows "wlp (temp_dirM H parent body) (\<lambda>x _. P x) (\<lambda>_ _. True) s"
  unfolding temp_dirM_def by (rule any_bind, unfold wlp_finally, rule wlp_mono [OF assms]) (auto intro: wlp_any)

definition case_passed :: "crash_case \<Rightarrow> rv \<Rightarrow> bool" where
  "case_passed k e \<longleftrightarrow> entry_of (lit ''case'') e = Some (RS (cc_name k)) \<and> entry_of (lit ''passed'') e = Some (RB True)"

lemma run_case_entry: "wlp (run_case C work binary k) (\<lambda>e _. case_passed k e) (\<lambda>_ _. True) s"
  unfolding run_case_def Let_def by (intro any_bind) (simp add: case_passed_def entry_of_def lit_def)

lemma durability_run_cases:
  "wlp (durability_run C project individual storage_format work) (\<lambda>r _. list_all2 case_passed durability_cases (snd r)) (\<lambda>_ _. True) s"
proof -
  have "wlp (bindM (mapM (run_case C work b) durability_cases) (\<lambda>results. retM (fs, results))) (\<lambda>r _. list_all2 case_passed durability_cases (snd r)) (\<lambda>_ _. True) t" for b fs t
    unfolding wlp_simps by (rule wlp_mono [OF mapM_each [OF run_case_entry]]) auto
  then show ?thesis
    unfolding durability_run_def Let_def by - (rule any_bind, rule any_bind, rule any_bind, rule any_bind, rule any_bind)
qed

lemma passed_entries:
  "list_all2 case_passed ks es \<Longrightarrow> map (entry_of (lit ''case'')) es = map (\<lambda>k. Some (RS (cc_name k))) ks \<and> list_all (\<lambda>e. entry_of (lit ''passed'') e = Some (RB True)) es"
  by (induction rule: list_all2_induct) (auto simp: case_passed_def)

lemma durability_cases_distinct: "length durability_cases = 22" "distinct (map cc_name durability_cases)"
  by (simp_all add: durability_cases_def plain_cases_def cluster_case_def transaction_cases_def boundaries_def group_boundaries_def crash_case_of_def lit_def)

text \<open>
  The report of the durability checks lists all twenty-two crash cases as passed, each once and in the
  order of the script, whenever the script ends without an error.
\<close>

theorem durability_covers:
  "wlp (durability_main C project output individual storage_format)
    (\<lambda>summary _. \<exists>entries. map_of summary (lit ''checks'') = Some (RL entries)
       \<and> map (entry_of (lit ''case'')) entries = map (\<lambda>k. Some (RS (cc_name k))) durability_cases
       \<and> list_all (\<lambda>e. entry_of (lit ''passed'') e = Some (RB True)) entries \<and> length entries = 22 \<and> distinct (map cc_name durability_cases))
    (\<lambda>_ _. True) s"
proof -
  have passed: "map (entry_of (lit ''case'')) results = map (\<lambda>k. Some (RS (cc_name k))) durability_cases
      \<and> list_all (\<lambda>e. entry_of (lit ''passed'') e = Some (RB True)) results \<and> length results = 22 \<and> distinct (map cc_name durability_cases)"
    if "list_all2 case_passed durability_cases results" for results
    using passed_entries [OF that] list_all2_lengthD [OF that] durability_cases_distinct by simp
  show ?thesis
    unfolding durability_main_def Let_def case_prod_beta
    by (rule any_bind, rule any_bind, rule any_bind, rule any_bind, rule any_from [OF temp_dir_any [OF durability_run_cases]],
        intro any_bind) (use passed in \<open>simp add: lit_def\<close>)
qed

section \<open>Reports with a list of checks\<close>

lemma kept_bind:
  assumes "keepsR (=) fst m" and "\<And>x w. wlp (f x) Q E (fst s, w)" and "\<And>e w. E e (fst s, w)"
  shows "wlp (bindM m f) Q E s"
  unfolding wlp_simps
  by (rule wlp_mono [OF kept.step_wlp [OF assms(1)]]) (metis assms(2) prod.collapse, metis assms(3) prod.collapse)

lemma keeps_run_tool: "keepsR (=) fst (run_tool C argv)"
  unfolding run_tool_def check_output_def by (intro kept_rules)

lemma keeps_kill_stopped: "keepsR (=) fst (kill_stopped C argv)"
  unfolding kill_stopped_def kill_pass_def Let_def by (intro kept_rules)

lemma keeps_source_digests: "keepsR (=) fst (source_digests H home folders want)"
  unfolding source_digests_def by (intro kept_rules)

text \<open>
  What a report says of its checks: the labels of the entries in its list and the value of \<open>passed\<close>. A run
  is unfinished with the labels so far, finished with all that were wanted, and accounted for when it is either.
\<close>

definition verdict :: "pstr \<Rightarrow> (rv \<Rightarrow> 'v) \<Rightarrow> NetRun \<Rightarrow> 'v list option \<times> rv option" where
  "verdict key label r = ((case map_of (nr_report r) key of Some (RL es) \<Rightarrow> Some (map label es) | _ \<Rightarrow> None), map_of (nr_report r) (lit ''passed''))"

definition unfinished :: "pstr \<Rightarrow> (rv \<Rightarrow> 'v) \<Rightarrow> 'v list \<Rightarrow> NetRun \<Rightarrow> bool" where
  "unfinished key label vs r \<longleftrightarrow> verdict key label r = (Some vs, Some (RB False))"

definition finished :: "pstr \<Rightarrow> (rv \<Rightarrow> 'v) \<Rightarrow> 'v list \<Rightarrow> NetRun \<Rightarrow> bool" where
  "finished key label want r \<longleftrightarrow> verdict key label r = (Some want, Some (RB True))"

definition accounted :: "pstr \<Rightarrow> (rv \<Rightarrow> 'v) \<Rightarrow> 'v list \<Rightarrow> NetRun \<Rightarrow> bool" where
  "accounted key label want r \<longleftrightarrow> finished key label want r \<or> (\<exists>vs. unfinished key label vs r)"

locale listed_report =
  fixes key :: pstr and label :: "rv \<Rightarrow> 'v"
  assumes key_apart: "key \<notin> {(lit ''passed''), (lit ''complete''), (lit ''error''), (lit ''filesystem''), (lit ''sources''), (lit ''source_sha256''), (lit ''binary_sha256'')}"
begin

lemma put_keeps_verdict: "k \<notin> {key, (lit ''passed'')} \<Longrightarrow> keepsR (=) (\<lambda>s. verdict key label (fst s)) (put_report k v)"
  by (auto simp: keepsR_def put_report_def verdict_def update_conv')

lemma verdict_kept:
  assumes "keepsR (=) (\<lambda>s. verdict key label (fst s)) m"
  shows "unfinished key label vs (fst s) \<Longrightarrow> wlp m (\<lambda>_ t. unfinished key label vs (fst t)) (\<lambda>_ t. accounted key label want (fst t)) s"
    and "finished key label want (fst s) \<Longrightarrow> wlp m (\<lambda>_ t. finished key label want (fst t)) (\<lambda>_ t. accounted key label want (fst t)) s"
    and "accounted key label want (fst s) \<Longrightarrow> wlp m (\<lambda>_ t. accounted key label want (fst t)) (\<lambda>_ t. accounted key label want (fst t)) s"
  by (rule wlp_mono [OF kept.step_wlp [OF assms]], auto simp: unfinished_def finished_def accounted_def)+

lemma entry_appended:
  "label v = x \<Longrightarrow> unfinished key label vs (fst s)
    \<Longrightarrow> wlp (append_entry key v) (\<lambda>_ t. unfinished key label (vs @ [x]) (fst t)) (\<lambda>_ t. \<exists>vs. unfinished key label vs (fst t)) s"
  using key_apart by (cases s) (auto simp: append_entry_def put_report_def unfinished_def verdict_def update_conv' lit_def split: option.splits rv.splits)

lemma complete_finishes: "unfinished key label vs (fst s) \<Longrightarrow> wlp complete_report (\<lambda>_ t. finished key label vs (fst t)) E s"
  using key_apart by (cases s) (auto simp: complete_report_def put_report_def unfinished_def finished_def verdict_def update_conv' lit_def)

text \<open>A loop each of whose passes appends its entry, and the mark at its end.\<close>

lemma entries_listed:
  assumes step: "\<And>vs x t. unfinished key label vs (fst t) \<Longrightarrow>
      wlp (body x) (\<lambda>_ u. unfinished key label (vs @ [f x]) (fst u)) (\<lambda>_ u. \<exists>vs. unfinished key label vs (fst u)) t"
    and "unfinished key label [] (fst s)"
  shows "wlp (bindM (forM xs body) (\<lambda>_. complete_report)) (\<lambda>_ t. finished key label (map f xs) (fst t)) (\<lambda>_ t. accounted key label (map f xs) (fst t)) s"
  unfolding wlp_simps
proof (rule wlp_forM [where I = "\<lambda>ys t. \<exists>zs. zs @ ys = xs \<and> unfinished key label (map f zs) (fst t)"])
  show "\<exists>zs. zs @ xs = xs \<and> unfinished key label (map f zs) (fst s)" using assms(2) by simp
next
  fix x ys and t :: "'b nrstate" assume "\<exists>zs. zs @ x # ys = xs \<and> unfinished key label (map f zs) (fst t)"
  then obtain zs where zs: "zs @ x # ys = xs" "unfinished key label (map f zs) (fst t)" by auto
  show "wlp (body x) (\<lambda>_ u. \<exists>zs. zs @ ys = xs \<and> unfinished key label (map f zs) (fst u)) (\<lambda>_ t. accounted key label (map f xs) (fst t)) t"
    by (rule wlp_mono [OF step [OF zs(2)]]) (use zs(1) in \<open>auto simp: accounted_def intro!: exI [of _ "zs @ [x]"]\<close>)
qed (auto intro: complete_finishes)

text \<open>A directory around the body and what is done at the end leave the verdict to the body.\<close>

lemma directory_verdict:
  assumes "\<And>d t. unfinished key label [] (fst t) \<Longrightarrow> wlp (body d) (\<lambda>_ u. finished key label want (fst u)) (\<lambda>_ u. accounted key label want (fst u)) t"
    and "unfinished key label [] (fst s)"
  shows "wlp (temp_dirM H scratch body) (\<lambda>_ t. finished key label want (fst t)) (\<lambda>_ t. accounted key label want (fst t)) s"
  unfolding temp_dirM_def wlp_simps wlp_finally
  by (rule wlp_mono [OF verdict_kept(1) [OF kept.step_objects(4) assms(2)]], rule wlp_mono [OF assms(1)])
    (auto intro: verdict_kept(2,3) kept.step_objects)

lemma saved_verdict:
  assumes "wlp m (\<lambda>_ t. finished key label want (fst t)) (\<lambda>_ t. accounted key label want (fst t)) s"
    and save: "keepsR (=) (\<lambda>s. verdict key label (fst s)) save"
  shows "wlp (finallyM m save) (\<lambda>_ t. finished key label want (fst t)) (\<lambda>_ t. accounted key label want (fst t)) s"
  unfolding wlp_finally by (rule wlp_mono [OF assms(1)]) (auto intro: verdict_kept(2,3) [OF save])

lemma reported_verdict:
  assumes "wlp m (\<lambda>_ t. finished key label want (fst t)) (\<lambda>_ t. accounted key label want (fst t)) s"
    and save: "keepsR (=) (\<lambda>s. verdict key label (fst s)) save"
  shows "wlp (reportedM H m save) (\<lambda>_ t. finished key label want (fst t)) (\<lambda>_ t. accounted key label want (fst t)) s"
proof -
  have failed: "wlp (bindM (put_report (lit ''error'') v) (\<lambda>_. raiseM e)) Q (\<lambda>_ t. accounted key label want (fst t)) t"
    if "accounted key label want (fst t)" for t v e Q
    unfolding wlp_simps by (rule wlp_mono [OF verdict_kept(3) [OF put_keeps_verdict that]]) (use key_apart in \<open>auto simp: lit_def\<close>)
  show ?thesis
    unfolding reportedM_def
    by (rule saved_verdict [OF _ save], unfold wlp_simps(4), rule wlp_mono [OF assms(1)]) (auto intro: failed simp del: wlp_simps)
qed

end

lemmas verdict_rules = kept.step_bind kept.step_basic kept.step_kept [OF keeps_run_tool] kept.step_kept [OF keeps_source_digests] kept.step_objects

context listed_report
begin

lemma keeps_build_probe: "keepsR (=) (\<lambda>s. verdict key label (fst s)) (build_probe C project work mount flags)"
  unfolding build_probe_def Let_def by (rule verdict_rules put_keeps_verdict | use key_apart in \<open>auto simp: lit_def\<close>)+

lemma probe_listed:
  assumes step: "\<And>binary vs x t. unfinished key label vs (fst t) \<Longrightarrow>
      wlp (body binary x) (\<lambda>_ u. unfinished key label (vs @ [f x]) (fst u)) (\<lambda>_ u. \<exists>vs. unfinished key label vs (fst u)) t"
    and "unfinished key label [] (fst s)"
  shows "wlp (bindM (build_probe C project work mount flags) (\<lambda>binary. bindM (forM xs (body binary)) (\<lambda>_. complete_report)))
    (\<lambda>_ t. finished key label (map f xs) (fst t)) (\<lambda>_ t. accounted key label (map f xs) (fst t)) s"
  unfolding wlp_simps(3) [of "build_probe _ _ _ _ _"]
  by (rule wlp_mono [OF verdict_kept(1) [OF keeps_build_probe assms(2)]], rule entries_listed [OF step])

end

section \<open>Generations\<close>

interpretation gen: listed_report "(lit ''checks'')" "entry_of (lit ''phase'')"
  by unfold_locales (simp add: lit_def)

lemma phase_check_appends:
  assumes "unfinished (lit ''checks'') (entry_of (lit ''phase'')) vs (fst s)"
  shows "wlp (phase_check C work binary k) (\<lambda>_ t. unfinished (lit ''checks'') (entry_of (lit ''phase'')) (vs @ [Some (RS k)]) (fst t))
    (\<lambda>_ t. \<exists>vs. unfinished (lit ''checks'') (entry_of (lit ''phase'')) vs (fst t)) s"
  unfolding phase_check_def Let_def
  by (rule kept_bind, rule kept.step_objects, rule kept_bind, rule keeps_kill_stopped, rule kept_bind, rule keeps_run_tool, rule gen.entry_appended)
    (use assms in \<open>auto simp: entry_of_def\<close>)

definition wanted_phases :: "pstr list \<Rightarrow> rv option list" where
  "wanted_phases cases = map (\<lambda>k. Some (RS k)) (if cases \<noteq> [] then cases else all_phases)"

lemma phases_checked:
  assumes "unfinished (lit ''checks'') (entry_of (lit ''phase'')) [] (fst s)"
  shows "wlp (bindM (build_probe C project work mount flags) (\<lambda>binary. bindM (forM (if cases \<noteq> [] then cases else all_phases) (phase_check C work binary)) (\<lambda>_. complete_report)))
    (\<lambda>_ t. finished (lit ''checks'') (entry_of (lit ''phase'')) (wanted_phases cases) (fst t)) (\<lambda>_ t. accounted (lit ''checks'') (entry_of (lit ''phase'')) (wanted_phases cases) (fst t)) s"
  unfolding wanted_phases_def by (rule gen.probe_listed [OF phase_check_appends assms])

text \<open>
  A report of the generation checks that says \<open>passed\<close> names every phase that was asked for, in their order, or
  all forty-three when none was: on the normal way out and on every error.
\<close>

theorem generation_report_complete:
  "wlp (generation_crashes C project output debug cases)
    (\<lambda>_ t. finished (lit ''checks'') (entry_of (lit ''phase'')) (wanted_phases cases) (fst t))
    (\<lambda>_ t. nr_report (fst t) = [] \<or> accounted (lit ''checks'') (entry_of (lit ''phase'')) (wanted_phases cases) (fst t)) (run_empty [], w)"
proof -
  let ?save = "bindM (probe_sources C project) (\<lambda>sources. bindM (put_report (lit ''source_sha256'') sources) (\<lambda>_. save_report (cr_host C) output))"
  have save: "keepsR (=) (\<lambda>s. verdict (lit ''checks'') (entry_of (lit ''phase'')) (fst s)) ?save"
    unfolding probe_sources_def save_report_def by (rule verdict_rules gen.put_keeps_verdict | simp add: lit_def)+
  have started: "wlp (bindM (make_parent (cr_host C) output) (\<lambda>_. reportedM (cr_host C) (bindM (worldM (ho_mkdir (cr_host C) scratch)) (\<lambda>_. temp_dirM (cr_host C) scratch (\<lambda>work.
        bindM (build_probe C project work mount flags) (\<lambda>binary. bindM (forM (if cases \<noteq> [] then cases else all_phases) (phase_check C work binary)) (\<lambda>_. complete_report))))) ?save))
      (\<lambda>_ t. finished (lit ''checks'') (entry_of (lit ''phase'')) (wanted_phases cases) (fst t))
      (\<lambda>_ t. nr_report (fst t) = [] \<or> accounted (lit ''checks'') (entry_of (lit ''phase'')) (wanted_phases cases) (fst t)) (r, v)"
    if r: "unfinished (lit ''checks'') (entry_of (lit ''phase'')) [] r" for r v scratch mount flags
  proof -
    have "wlp (bindM (worldM (ho_mkdir (cr_host C) scratch)) (\<lambda>_. temp_dirM (cr_host C) scratch (\<lambda>work.
        bindM (build_probe C project work mount flags) (\<lambda>binary. bindM (forM (if cases \<noteq> [] then cases else all_phases) (phase_check C work binary)) (\<lambda>_. complete_report)))))
      (\<lambda>_ t. finished (lit ''checks'') (entry_of (lit ''phase'')) (wanted_phases cases) (fst t)) (\<lambda>_ t. accounted (lit ''checks'') (entry_of (lit ''phase'')) (wanted_phases cases) (fst t)) (r, u)" for u
      by (rule kept_bind, rule kept.step_objects, rule gen.directory_verdict, rule phases_checked) (use r in \<open>auto simp: accounted_def\<close>)
    then show ?thesis
      unfolding make_parent_def
      by - (rule kept_bind, rule kept.step_objects, rule wlp_mono [OF gen.reported_verdict [OF _ save]], use r in \<open>auto simp: accounted_def\<close>)
  qed
  show ?thesis
    unfolding generation_crashes_def Let_def
    by (rule kept_bind, rule kept.step_objects, rule kept_bind, rule kept.step_basic, rule kept_bind, rule kept.step_basic, rule kept_bind, rule kept.step_objects,
        subst wlp_simps(3), subst wlp_objects(2), rule started)
      (auto simp: unfinished_def verdict_def run_empty_def lit_def)
qed

section \<open>Sessions\<close>

interpretation ses: listed_report "(lit ''checks'')" "entry_of (lit ''boundary'')"
  by unfold_locales (simp add: lit_def)

lemma session_check_appends:
  assumes "unfinished (lit ''checks'') (entry_of (lit ''boundary'')) vs (fst s)"
  shows "wlp (session_check C work binary k) (\<lambda>_ t. unfinished (lit ''checks'') (entry_of (lit ''boundary'')) (vs @ [Some (RS k)]) (fst t))
    (\<lambda>_ t. \<exists>vs. unfinished (lit ''checks'') (entry_of (lit ''boundary'')) vs (fst t)) s"
  unfolding session_check_def Let_def
  by (rule kept_bind, rule keeps_run_tool, rule kept_bind, rule keeps_kill_stopped, rule kept_bind, rule keeps_run_tool, rule ses.entry_appended)
    (use assms in \<open>auto simp: entry_of_def\<close>)

text \<open>The same of the session checks and their five boundaries.\<close>

lemma session_report_complete:
  "wlp (session_crashes C project output)
    (\<lambda>_ t. finished (lit ''checks'') (entry_of (lit ''boundary'')) (map (\<lambda>k. Some (RS k)) group_boundaries) (fst t))
    (\<lambda>_ t. nr_report (fst t) = [] \<or> accounted (lit ''checks'') (entry_of (lit ''boundary'')) (map (\<lambda>k. Some (RS k)) group_boundaries) (fst t)) (run_empty [], w)"
proof -
  have save: "keepsR (=) (\<lambda>s. verdict (lit ''checks'') (entry_of (lit ''boundary'')) (fst s))
      (bindM (source_digests H project folders want) (\<lambda>sources. bindM (put_report (lit ''sources'') sources) (\<lambda>_. save_report H output)))" for H folders want
    unfolding save_report_def by (rule verdict_rules ses.put_keeps_verdict | simp add: lit_def)+
  have quiet: "keepsR (=) fst (if b then retM True else askM f)" for b f by (intro kept_rules)
  show ?thesis
    unfolding session_crashes_def make_parent_def Let_def
    by (rule kept_bind, rule quiet, rule kept_bind, rule kept.step_basic, rule kept_bind, rule kept.step_objects, subst wlp_simps(3), subst wlp_objects(2),
        (rule kept_bind, rule kept.step_objects)+,
        rule wlp_mono [OF ses.reported_verdict [OF ses.directory_verdict [OF ses.probe_listed [OF session_check_appends]] save]])
      (auto simp: accounted_def unfinished_def verdict_def run_empty_def lit_def)
qed

end
