(* ===== verification/Fault_Checks.thy ===== *)
theory Fault_Checks
  imports Recovery_Checks Crash_Facts
begin

text \<open>
  \<open>tools/check_storage_faults.py\<close>: a voter whose write or sync of a write-ahead log fails must halt
  without acknowledging, and the write of unknown outcome must take effect once.
\<close>

section \<open>The host\<close>

text \<open>
  \<open>fo_popen\<close> starts a process with variables added to its environment, \<open>fo_mkdir\<close> makes a directory that is not
  there yet.
\<close>

record 'w faultops =
  fo_host :: "'w hostops"
  fo_popen :: "pstr list \<Rightarrow> nat \<Rightarrow> (pstr \<times> pstr) list \<Rightarrow> 'w \<Rightarrow> nat res \<times> 'w"
  fo_mkdir :: "pstr \<Rightarrow> 'w \<Rightarrow> unit res \<times> 'w"

section \<open>A cluster with an injected fault\<close>

text \<open>\<open>FaultCluster.start\<close>: the attribute \<open>injection\<close> is an argument.\<close>

definition fault_start :: "'w faultops \<Rightarrow> NetCluster \<Rightarrow> (pstr \<times> pstr) list option \<Rightarrow> nat \<Rightarrow> bool \<Rightarrow> ('w nrstate, unit) comp" where
  "fault_start F c injection node create = (case injection of
      None \<Rightarrow> net_start (fo_host F) c node create
    | Some env \<Rightarrow> if node \<noteq> 1 then net_start (fo_host F) c node create else (let H = fo_host F in
        bindM (worldM (ho_open_log H (path_join (nc_root c) (lit ''node1.log'')))) (\<lambda>log_file.
        bindM (updM (\<lambda>r. r\<lparr>nr_logs := nr_logs r @ [log_file]\<rparr>)) (\<lambda>_.
        bindM (worldM (fo_popen F [nc_binary c, (lit ''serve''), path_join (nc_root c) (lit ''node1.json'')] log_file env)) (\<lambda>pid.
        bindM (updM (\<lambda>r. r\<lparr>nr_processes := AList.update node pid (nr_processes r)\<rparr>)) (\<lambda>_.
        bindM (effectM (sleep (ho_net H) (15 / 100))) (\<lambda>_.
        bindM (askM (ho_poll H pid)) (\<lambda>state.
        assertM (state = None) ''The log of the process''))))))))"

definition injection_of :: "pstr \<Rightarrow> pstr \<Rightarrow> pstr \<Rightarrow> pstr \<Rightarrow> (pstr \<times> pstr) list" where
  "injection_of library home database mode =
    [((lit ''LD_PRELOAD''), library), ((lit ''SQLODIN_FAULT_TARGET''), path_join (path_join home (lit ''data1'')) database),
     ((lit ''SQLODIN_FAULT_ARMED''), path_join home (lit ''armed'')), ((lit ''SQLODIN_FAULT_MARKER''), path_join home (lit ''triggered'')),
     ((lit ''SQLODIN_FAULT_MODE''), mode)]"

definition faults_pending :: "PendingWrite res" where
  "faults_pending = pending_write (JStr (concat (replicate 16 (lit ''ef'')))) (JInt 1) (JStr (lit ''UPDATE faults SET value=value+1 WHERE id=1'')) [] (JInt 0) (JInt 0)"

definition value_is :: "'w hostops \<Rightarrow> int \<Rightarrow> ((Connection \<times> 'x) \<times> 'w, unit) comp" where
  "value_is H n = assert_scalar (ho_net H) (lit ''SELECT value FROM faults WHERE id=1'') [] n"

section \<open>A case\<close>

text \<open>The set-up: all voters hold the value 100.\<close>

definition fault_setup :: "'w faultops \<Rightarrow> NetCluster \<Rightarrow> ('w nrstate, unit) comp" where
  "fault_setup F c = (let H = fo_host F in
    bindM (forM [1, 2, 3] (\<lambda>node. fault_start F c None node True)) (\<lambda>_.
    bindM (ready_all H c) (\<lambda>_.
    bindM (net_with H c [1] 10 None (bindM (run_sql (ho_net H) (lit ''CREATE TABLE faults(id INTEGER PRIMARY KEY, value INTEGER)'') []) (\<lambda>_.
      run_sql (ho_net H) (lit ''INSERT INTO faults VALUES(1,100)'') []))) (\<lambda>_.
    forM [1, 2, 3] (\<lambda>node. net_with H c [node] 10 None (value_is H 100))))))"

text \<open>\<open>actual, requested = map(int, text.split('/'))\<close>\<close>

definition two_ints :: "'w hostops \<Rightarrow> pstr \<Rightarrow> (int \<times> int) res" where
  "two_ints H contents = bindR (mapR (int_res (unicode (ho_net H))) (split_on (\<lambda>c. c = 47) contents)) (\<lambda>ns.
     case ns of [a, b] \<Rightarrow> Inr (a, b) | _ \<Rightarrow> Inl (ValueError ''expected 2 values to unpack''))"

text \<open>The faulting voter does not acknowledge the write, the fault was reached and the voter halts.\<close>

definition fault_hit :: "'w faultops \<Rightarrow> NetCluster \<Rightarrow> pstr \<Rightarrow> PendingWrite \<Rightarrow> ('w nrstate, unit) comp" where
  "fault_hit F c mode pending = (let H = fo_host F in
    let home = nc_root c in
    bindM (net_with H c [1] 2 (Some pending) (handleM (dbM (resolve_pending (ho_net H)))
      (\<lambda>_. raiseM (AssertionError ''Faulting voter acknowledged its failed persistence''))
      (\<lambda>e. case e of UnknownOutcome _ \<Rightarrow> retM () | _ \<Rightarrow> raiseM e))) (\<lambda>_.
    bindM (put_report (lit ''client_outcome'') (RS (lit ''unknown''))) (\<lambda>_.
    bindM (worldM (ho_read H (path_join home (lit ''triggered'')))) (\<lambda>marker.
    bindM (assertM (marker = mode) ''Injection never reached selected syscall'') (\<lambda>_.
    bindM (ifM (mode = (lit ''short-write'')) (bindM (worldM (ho_read H (path_join home (lit ''triggered.partial'')))) (\<lambda>partial.
      bindM (liftR (two_ints H partial)) (\<lambda>(actual, requested).
      bindM (assertM (0 < actual \<and> actual < requested) ''partial write'') (\<lambda>_.
      put_report (lit ''partial_write'') (RD [((lit ''actual''), RI actual), ((lit ''requested''), RI requested)])))))) (\<lambda>_.
    bindM objM (\<lambda>r.
    bindM ((case map_of (nr_processes r) 1 of None \<Rightarrow> raiseM KeyError | Some pid \<Rightarrow> retM pid)) (\<lambda>pid.
    bindM (worldM (ho_wait H pid)) (\<lambda>code.
    bindM (put_report (lit ''faulting_exit'') (RI code)) (\<lambda>_.
    assertM (code \<noteq> 0) ''Storage error did not halt the voter''))))))))))"

definition resolved_once :: "'w faultops \<Rightarrow> NetCluster \<Rightarrow> PendingWrite \<Rightarrow> nat \<Rightarrow> ('x \<times> 'w, unit) comp" where
  "resolved_once F c pending node = net_with (fo_host F) c [node] 10 (Some pending) (bindM (dbM (resolve_pending (ho_net (fo_host F)))) (\<lambda>_.
    value_is (fo_host F) 101))"

definition fault_body :: "'w faultops \<Rightarrow> NetCluster \<Rightarrow> pstr \<Rightarrow> pstr \<Rightarrow> pstr \<Rightarrow> ('w nrstate, unit) comp" where
  "fault_body F c library database mode = (let H = fo_host F in
    let home = nc_root c in
    bindM (fault_setup F c) (\<lambda>_.
    bindM (net_stop H 1) (\<lambda>_.
    bindM (fault_start F c (Some (injection_of library home database mode)) 1 False) (\<lambda>_.
    bindM (node_ready H c 1 60) (\<lambda>_.
    bindM (worldM (ho_write H (path_join home (lit ''armed'')) ((lit ''armed after quorum readiness'') @ [10]))) (\<lambda>_.
    bindM (liftR faults_pending) (\<lambda>pending.
    bindM (fault_hit F c mode pending) (\<lambda>_.
    bindM (resolved_once F c pending 2) (\<lambda>_.
    bindM (worldM (ho_unlink H (path_join home (lit ''armed'')))) (\<lambda>_.
    bindM (fault_start F c None 1 False) (\<lambda>_.
    bindM (node_ready H c 1 60) (\<lambda>_.
    bindM (resolved_once F c pending 1) (\<lambda>_.
    bindM (forM [1, 2, 3] (net_stop H)) (\<lambda>_.
    bindM (forM [1, 2, 3] (\<lambda>node. fault_start F c None node False)) (\<lambda>_.
    bindM (forM [1, 2, 3] (\<lambda>node. bindM (node_ready H c node 60) (\<lambda>_.
      net_with H c [node] 10 None (value_is H 101)))) (\<lambda>_.
    put_report (lit ''passed'') (RB True)))))))))))))))))"

text \<open>\<open>case\<close> has a cluster and a result of its own, in a record of its own; it returns the result whatever its body raised.\<close>

definition ownM :: "report \<Rightarrow> ('w nrstate, unit) comp \<Rightarrow> ('x \<times> 'w, report) comp" where
  "ownM rep m = (\<lambda>(x, w). case m (run_empty rep, w) of None \<Rightarrow> None
     | Some (Inr _, (r, w')) \<Rightarrow> Some (Inr (nr_report r), (x, w')) | Some (Inl e, (_, w')) \<Rightarrow> Some (Inl e, (x, w')))"

definition fault_case :: "'w faultops \<Rightarrow> pstr \<Rightarrow> pstr \<Rightarrow> pstr \<Rightarrow> pstr \<Rightarrow> pstr \<Rightarrow> pstr \<Rightarrow> ('x \<times> 'w, report) comp" where
  "fault_case F binary library openssl home database mode = (let H = fo_host F in
    bindM (worldM (fo_mkdir F home)) (\<lambda>_.
    bindM (net_cluster H home binary openssl 5 (lit ''manual'')) (\<lambda>c.
    ownM [((lit ''database''), RS database), ((lit ''mode''), RS mode), ((lit ''passed''), RB False)]
      (finallyM (tryM (fault_body F c library database mode) (\<lambda>e. put_report (lit ''error'') (RS (ho_repr H e))))
        (bindM (net_close H) (\<lambda>_. log_tails H home (lit ''*.log'') (tail_of 12000)))))))"

section \<open>The campaign\<close>

definition fault_modes :: "pstr list" where
  "fault_modes = [(lit ''write-enospc''), (lit ''short-write''), (lit ''sync-eio'')]"

definition fault_cases :: "pstr list \<Rightarrow> (pstr \<times> pstr) list" where
  "fault_cases modes = List.product [(lit ''consensus.db-wal''), (lit ''node.db-wal'')] (if modes \<noteq> [] then modes else fault_modes)"

definition fault_step :: "'w faultops \<Rightarrow> script_args \<Rightarrow> pstr \<Rightarrow> pstr \<Rightarrow> pstr \<times> pstr \<Rightarrow> ('w nrstate, unit) comp" where
  "fault_step F s library home k = (case k of (database, mode) \<Rightarrow> (let H = fo_host F in
    bindM (resolveM H (sa_binary s)) (\<lambda>binary.
    bindM (fault_case F binary library (sa_openssl s) (path_join home (database @ lit ''-'' @ mode)) database mode) (\<lambda>result.
    bindM (append_entry (lit ''cases'') (RD result)) (\<lambda>_.
    bindM (save_report H (sa_output s)) (\<lambda>_.
    whenM (map_of result (lit ''passed'') \<noteq> Some (RB True)) (AssertionError ''{result.get('error')}'')))))))"

definition fault_main :: "'w faultops \<Rightarrow> script_args \<Rightarrow> pstr \<Rightarrow> pstr list \<Rightarrow> ('w nrstate, unit) comp" where
  "fault_main F s harness modes = (let H = fo_host F in
    let project = sa_home s in
    bindM ((if \<not> ho_linux H then retM True else askM (ho_exists H (sa_output s)))) (\<lambda>taken.
    bindM (whenM taken (SystemExit ''Linux and a new evidence path required'')) (\<lambda>_.
    let source = path_join project (lit ''internal/storage_fault/interpose.c'') in
    let scratch = path_join project (lit ''build/storage-fault-work'') in
    bindM (worldM (ho_mkdir H scratch)) (\<lambda>_.
    let library = path_join scratch (lit ''libsqlodin-storage-fault.so'') in
    bindM (check_output H [(lit ''cc''), (lit ''-shared''), (lit ''-fPIC''), (lit ''-O2''), (lit ''-Wall''), (lit ''-Wextra''), (lit ''-Werror''), source, (lit ''-o''), library]) (\<lambda>_.
    bindM (askM (ho_utcnow H)) (\<lambda>now.
    bindM (worldM (ho_sha256 H (sa_binary s))) (\<lambda>binary.
    bindM (worldM (ho_sha256 H source)) (\<lambda>injector.
    bindM (worldM (ho_sha256 H harness)) (\<lambda>own.
    bindM (updM (\<lambda>_. run_empty [((lit ''complete''), RB False), ((lit ''passed''), RB False), ((lit ''cases''), RL []), ((lit ''run_at_utc''), RS now),
      ((lit ''binary_sha256''), RS binary), ((lit ''injector_sha256''), RS injector), ((lit ''harness_sha256''), RS own),
      ((lit ''scope''), RS (lit ''Injected Linux WAL syscall failures, not physical power-loss certification''))])) (\<lambda>_.
    bindM (make_parent H (sa_output s)) (\<lambda>_.
    finallyM (temp_dirM H scratch (\<lambda>home. bindM (check_filesystem H home) (\<lambda>_.
        bindM (forM (fault_cases modes) (fault_step F s library home)) (\<lambda>_.
        complete_report))))
      (bindM (put_sources H project) (\<lambda>_. save_report H (sa_output s))))))))))))))"

end
