(* ===== verification/Fault_Facts.thy ===== *)
theory Fault_Facts
  imports Fault_Checks
begin

text \<open>
  What the storage fault campaign reports: every case keeps its name, and a report that says \<open>passed\<close> lists all cases
  as passed.
\<close>

section \<open>What the steps of a case keep\<close>

definition case_label :: "rv \<Rightarrow> rv option \<times> rv option \<times> rv option" where
  "case_label e = (entry_of (lit ''database'') e, entry_of (lit ''mode'') e, entry_of (lit ''passed'') e)"

definition case_name :: "NetRun \<Rightarrow> rv option \<times> rv option" where
  "case_name r = (map_of (nr_report r) (lit ''database''), map_of (nr_report r) (lit ''mode''))"

lemma keeps_put_name: "k \<notin> {(lit ''database''), (lit ''mode'')} \<Longrightarrow> keepsR (=) (\<lambda>s. case_name (fst s)) (put_report k v)"
  by (auto simp: keepsR_def put_report_def case_name_def update_conv')

lemma keeps_run_fields: "keepsR (=) (\<lambda>s. case_name (fst s)) (updM (\<lambda>r. r\<lparr>nr_logs := f r\<rparr>))" "keepsR (=) (\<lambda>s. case_name (fst s)) (updM (\<lambda>r. r\<lparr>nr_processes := g r\<rparr>))"
  by (auto simp: keepsR_def case_name_def)

lemmas name_rules = kept.step_bind kept.step_basic kept.step_if kept.step_cases kept.step_loops kept.step_objects kept.step_world keeps_run_fields

lemma keeps_fault_start: "keepsR (=) (\<lambda>s. case_name (fst s)) (fault_start F c injection node create)"
  unfolding fault_start_def net_start_def Let_def by (intro name_rules)

lemma keeps_net_stop: "keepsR (=) (\<lambda>s. case_name (fst s)) (net_stop H node)"
  unfolding net_stop_def by (intro name_rules)

lemma keeps_net_close: "keepsR (=) (\<lambda>s. case_name (fst s)) (net_close H)"
  unfolding net_close_def by (intro name_rules keeps_net_stop)

lemma keeps_log_tails: "keepsR (=) (\<lambda>s. case_name (fst s)) (log_tails H home pattern shorten)"
  unfolding log_tails_def by (intro name_rules keeps_put_name) (simp add: lit_def)

lemma keeps_value_is: "keepsR (=) fst (net_with H c nodes timeout None (value_is H n))"
  unfolding value_is_def assert_scalar_def by (intro keeps_net_with kept_rules)

lemma keeps_ready: "keepsR (=) fst (node_ready H c node seconds)"
  unfolding node_ready_def ready_attempt_def assert_scalar_def by (intro kept_rules keeps_net_with)

lemma keeps_ready_all: "keepsR (=) fst (ready_all H c)"
  unfolding ready_all_def by (intro kept_rules keeps_ready)

lemma keeps_resolved_once: "keepsR (=) fst (resolved_once F c pending node)"
  unfolding resolved_once_def value_is_def assert_scalar_def by (intro keeps_net_with kept_rules)

lemmas case_rules = name_rules keeps_fault_start keeps_net_stop kept.step_kept [OF keeps_value_is] kept.step_kept [OF keeps_ready] kept.step_kept [OF keeps_ready_all]
  kept.step_kept [OF keeps_resolved_once]

lemma keeps_fault_setup: "keepsR (=) (\<lambda>s. case_name (fst s)) (fault_setup F c)"
proof -
  have "keepsR (=) fst (net_with H c nodes timeout None (bindM (run_sql N q ps) (\<lambda>_. run_sql N q' ps')))" for H :: "'b hostops" and N nodes timeout q ps q' ps'
    unfolding run_sql_def by (intro keeps_net_with kept_rules)
  note created = kept.step_kept [where f = case_name, OF this]
  show ?thesis unfolding fault_setup_def Let_def by (intro case_rules created)
qed

lemma keeps_fault_hit: "keepsR (=) (\<lambda>s. case_name (fst s)) (fault_hit F c mode pending)"
proof -
  have "keepsR (=) fst (net_with H c nodes timeout p (handleM (dbM m) (\<lambda>_. raiseM e) (\<lambda>e. case e of UnknownOutcome _ \<Rightarrow> retM () | _ \<Rightarrow> raiseM e)))"
    for H :: "'b hostops" and nodes timeout p m e
    by (intro keeps_net_with kept.step_handle kept_rules) (auto split: exn.split intro: kept_rules)
  note refused = kept.step_kept [where f = case_name, OF this]
  show ?thesis
    unfolding fault_hit_def Let_def by (intro case_rules refused keeps_put_name) (simp_all add: lit_def)
qed

lemma keeps_fault_body: "keepsR (=) (\<lambda>s. case_name (fst s)) (fault_body F c library database mode)"
  unfolding fault_body_def Let_def by (intro case_rules keeps_fault_setup keeps_fault_hit keeps_put_name) (simp add: lit_def)

section \<open>A case keeps its name\<close>

lemma fault_case_named:
  "wlp (fault_case F binary library openssl home database mode)
    (\<lambda>r _. map_of r (lit ''database'') = Some (RS database) \<and> map_of r (lit ''mode'') = Some (RS mode)) (\<lambda>_ _. True) s"
proof -
  let ?work = "\<lambda>c. finallyM (tryM (fault_body F c library database mode) (\<lambda>e. put_report (lit ''error'') (RS (ho_repr (fo_host F) e))))
        (bindM (net_close (fo_host F)) (\<lambda>_. log_tails (fo_host F) home (lit ''*.log'') (tail_of 12000)))"
  have keeps: "keepsR (=) (\<lambda>s. case_name (fst s)) (?work c)" for c
    by (intro kept.step_finally kept.step_try kept.step_bind keeps_fault_body keeps_put_name keeps_net_close keeps_log_tails) (simp add: lit_def)
  have "wlp (ownM [((lit ''database''), RS database), ((lit ''mode''), RS mode), ((lit ''passed''), RB False)] (?work c))
      (\<lambda>r _. map_of r (lit ''database'') = Some (RS database) \<and> map_of r (lit ''mode'') = Some (RS mode)) (\<lambda>_ _. True) t" for c t
    using kept.step_wlp [OF keeps [of c], of "(run_empty [((lit ''database''), RS database), ((lit ''mode''), RS mode), ((lit ''passed''), RB False)], snd t)"]
    by (cases t) (auto simp: ownM_def wlp_def case_name_def run_empty_def lit_def split: option.splits sum.splits prod.splits)
  then show ?thesis unfolding fault_case_def Let_def by - (rule any_bind, rule any_bind)
qed

section \<open>The report\<close>

interpretation flt: listed_report "(lit ''cases'')" case_label
  by unfold_locales (simp add: lit_def)

lemma keeps_own: "keepsR (=) fst (ownM rep m)"
  by (auto simp: keepsR_def ownM_def wlp_def split: option.splits sum.splits)

lemma keeps_generate: "keepsR (=) fst (generate H home openssl)"
  unfolding generate_def certificates_def make_ca_def make_leaf_def run_command_def Let_def by (intro kept_rules)

lemma keeps_net_cluster: "keepsR (=) fst (net_cluster H home binary openssl storage_format maintenance)"
  unfolding net_cluster_def by (intro kept_rules keeps_generate)

lemma keeps_fault_case: "keepsR (=) fst (fault_case F binary library openssl home database mode)"
  unfolding fault_case_def Let_def by (intro kept_rules keeps_own keeps_net_cluster)

lemma keeps_save_report: "keepsR (=) fst (save_report H path)"
  unfolding save_report_def by (intro kept_rules)

definition passed_case :: "pstr \<times> pstr \<Rightarrow> rv option \<times> rv option \<times> rv option" where
  "passed_case k = (Some (RS (fst k)), Some (RS (snd k)), Some (RB True))"

lemma fault_step_lists:
  assumes "unfinished (lit ''cases'') case_label vs (fst s)"
  shows "wlp (fault_step F a library home k) (\<lambda>_ t. unfinished (lit ''cases'') case_label (vs @ [passed_case k]) (fst t))
    (\<lambda>_ t. \<exists>vs. unfinished (lit ''cases'') case_label vs (fst t)) s"
proof (cases k)
  case (Pair database mode)
  have add: "wlp (bindM (append_entry (lit ''cases'') (RD r)) (\<lambda>_. bindM (save_report H path) (\<lambda>_. whenM (map_of r (lit ''passed'') \<noteq> Some (RB True)) e)))
      (\<lambda>_ t. unfinished (lit ''cases'') case_label (vs @ [passed_case k]) (fst t)) (\<lambda>_ t. \<exists>vs. unfinished (lit ''cases'') case_label vs (fst t)) u"
    if r: "fst u = fst s \<and> map_of r (lit ''database'') = Some (RS database) \<and> map_of r (lit ''mode'') = Some (RS mode)" for r u H path e
  proof -
    have saved: "wlp (bindM (save_report H path) (\<lambda>_. whenM (map_of r (lit ''passed'') \<noteq> Some (RB True)) e))
        (\<lambda>_ t. unfinished (lit ''cases'') case_label (vs @ [passed_case k]) (fst t)) (\<lambda>_ t. \<exists>vs. unfinished (lit ''cases'') case_label vs (fst t)) t"
      if u: "unfinished (lit ''cases'') case_label (vs @ [case_label (RD r)]) (fst t)" for t
      by (rule kept_bind, rule keeps_save_report)
        (use u r Pair in \<open>auto simp: case_label_def entry_of_def passed_case_def\<close>)
    show ?thesis
      unfolding wlp_simps(3) [of "append_entry _ _"]
      by (rule wlp_mono [OF flt.entry_appended [OF refl]]) (use assms saved r in auto)
  qed
  have case_run: "wlp (fault_case F binary library (sa_openssl a) (path_join home (database @ lit ''-'' @ mode)) database mode)
      (\<lambda>r t. fst t = fst s \<and> map_of r (lit ''database'') = Some (RS database) \<and> map_of r (lit ''mode'') = Some (RS mode)) (\<lambda>_ t. fst t = fst s) (fst s, w)" for binary w
    by (rule wlp_mono [OF wlp_conj [OF kept.step_wlp [OF keeps_fault_case] fault_case_named]]) auto
  show ?thesis
    unfolding fault_step_def Let_def Pair case_prod_conv resolveM_def
    by (rule kept_bind, rule kept.step_objects, subst wlp_simps(3), rule wlp_mono [OF case_run], rule add [unfolded Pair])
      (use assms in auto)
qed

lemma keeps_check_filesystem: "keepsR (=) (\<lambda>s. verdict (lit ''cases'') case_label (fst s)) (check_filesystem H directory)"
  unfolding check_filesystem_def check_output_def by (intro kept_rules flt.put_keeps_verdict) (simp add: lit_def)

lemma keeps_put_sources: "keepsR (=) (\<lambda>s. verdict (lit ''cases'') case_label (fst s)) (bindM (put_sources H project) (\<lambda>_. save_report H path))"
  unfolding put_sources_def save_report_def
  by (rule kept.step_bind kept.step_kept [OF keeps_source_digests] flt.put_keeps_verdict kept.step_objects | simp add: lit_def)+

lemma cases_run:
  assumes "unfinished (lit ''cases'') case_label [] (fst s)"
  shows "wlp (bindM (check_filesystem H home) (\<lambda>_. bindM (forM ks (fault_step F a library home)) (\<lambda>_. complete_report)))
    (\<lambda>_ t. finished (lit ''cases'') case_label (map passed_case ks) (fst t)) (\<lambda>_ t. accounted (lit ''cases'') case_label (map passed_case ks) (fst t)) s"
  unfolding wlp_simps(3) [of "check_filesystem _ _"]
  by (rule wlp_mono [OF flt.verdict_kept(1) [OF keeps_check_filesystem assms]], rule flt.entries_listed, rule fault_step_lists)

text \<open>
  C39. A report of the storage fault campaign that says \<open>passed\<close> lists every case that was asked for (each of the two
  write-ahead logs with each mode of failure) under its name and as passed, on the normal way out and on every error.
\<close>

theorem fault_report_complete:
  "wlp (fault_main F a harness modes)
    (\<lambda>_ t. finished (lit ''cases'') case_label (map passed_case (fault_cases modes)) (fst t))
    (\<lambda>_ t. nr_report (fst t) = [] \<or> accounted (lit ''cases'') case_label (map passed_case (fault_cases modes)) (fst t)) (run_empty [], w)"
proof -
  have started: "wlp (bindM (make_parent H path) (\<lambda>_. finallyM (temp_dirM H scratch (\<lambda>home.
        bindM (check_filesystem H home) (\<lambda>_. bindM (forM (fault_cases modes) (fault_step F a library home)) (\<lambda>_. complete_report))))
        (bindM (put_sources H project) (\<lambda>_. save_report H path))))
      (\<lambda>_ t. finished (lit ''cases'') case_label (map passed_case (fault_cases modes)) (fst t))
      (\<lambda>_ t. nr_report (fst t) = [] \<or> accounted (lit ''cases'') case_label (map passed_case (fault_cases modes)) (fst t)) (r, v)"
    if r: "unfinished (lit ''cases'') case_label [] r" for r v scratch H path library project
    unfolding make_parent_def
    by (rule kept_bind, rule kept.step_objects, rule wlp_mono [OF flt.saved_verdict [OF flt.directory_verdict [OF cases_run] keeps_put_sources]])
      (use r in \<open>auto simp: accounted_def\<close>)
  have quiet: "keepsR (=) fst (if b then retM True else askM f)" "keepsR (=) fst (check_output H argv)" for b f H argv
    unfolding check_output_def by (intro kept_rules)+
  show ?thesis
    unfolding fault_main_def Let_def
    by (rule kept_bind, rule quiet, rule kept_bind, rule kept.step_basic, rule kept_bind, rule kept.step_objects, rule kept_bind, rule quiet,
        (rule kept_bind, rule kept.step_objects)+, subst wlp_simps(3), subst wlp_objects(2), rule started)
      (auto simp: unfinished_def verdict_def run_empty_def lit_def)
qed

end
