(* ===== verification/Catchup_Checks.thy ===== *)
theory Catchup_Checks
  imports Fault_Checks
begin

text \<open>
  The campaign of \<open>tools/check_snapshot_catchup.py\<close>: a voter that was offline during two compactions installs a certified
  image, through a throttling proxy if asked. The proxy (\<open>Snapshot_Proxy\<close>) runs in threads of its own and is reached
  through \<open>proxyops\<close>; the writer thread makes its thirty writes at the point where it is started.
\<close>

section \<open>State\<close>

record 'w proxyops =
  xo_host :: "'w hostops"
  xo_open :: "pstr \<Rightarrow> int \<Rightarrow> int \<Rightarrow> 'w \<Rightarrow> (nat \<times> pstr) res \<times> 'w"
  xo_counts :: "nat \<Rightarrow> 'w \<Rightarrow> (int \<times> int) \<times> 'w"
  xo_close :: "nat \<Rightarrow> 'w \<Rightarrow> unit res \<times> 'w"

record catchup =
  cu_proxy :: "nat option"
  cu_writer :: bool
  cu_writes :: nat
  cu_errors :: "pstr list"

record catchup_args =
  kt_script :: script_args
  kt_rows :: nat
  kt_operations :: nat
  kt_slow_kib :: int
  kt_drop_once :: bool

type_synonym 'w custate = "(catchup \<times> NetRun) \<times> 'w"

definition setC :: "(catchup \<Rightarrow> catchup) \<Rightarrow> ('w custate, unit) comp" where
  "setC f = updM (\<lambda>(v, r). (f v, r))"

definition varsC :: "('w custate, catchup) comp" where
  "varsC = bindM objM (\<lambda>(v, _). retM v)"

definition concurrent_entry :: "catchup \<Rightarrow> rv" where
  "concurrent_entry v = RD [((lit ''writes''), RI (int (cu_writes v))), ((lit ''errors''), RL (map RS (cu_errors v)))]"

section \<open>Steps\<close>

definition fill_sql :: "nat \<Rightarrow> pstr" where
  "fill_sql rows = (lit ''WITH d(x) AS (VALUES(0),(1),(2),(3),(4),(5),(6),(7),(8),(9)), '')
    @ (lit ''n(x) AS (SELECT 1+a.x+10*b.x+100*c.x+1000*e.x '') @ (lit ''FROM d a CROSS JOIN d b CROSS JOIN d c CROSS JOIN d e) '')
    @ (lit ''INSERT INTO items SELECT x,printf('' @ [39] @ lit ''%0256d'' @ [39] @ lit '',x),0 FROM n WHERE x<='' @ dec rows @ lit '' ORDER BY x'')"

definition catchup_setup :: "'w hostops \<Rightarrow> catchup_args \<Rightarrow> NetCluster \<Rightarrow> ('w custate, unit) comp" where
  "catchup_setup H k c = (let N = ho_net H in
    bindM (upM (start_all H c True)) (\<lambda>_.
    bindM (ready_all H c) (\<lambda>_.
    bindM (net_with H c all_nodes 10 None (run_sql N (lit ''CREATE TABLE items(id INTEGER PRIMARY KEY, value TEXT, visits INTEGER)'') [])) (\<lambda>_.
    bindM (net_with H c [3] 10 None (bindM (assert_scalar N (lit ''SELECT count(*) FROM items'') [] 0) (\<lambda>_.
      bindM (dbM (status N)) (\<lambda>d.
      liftR (key_res d ''applied''))))) (\<lambda>offline.
    bindM (upM (put_report (lit ''offline_prefix'') (RJ offline))) (\<lambda>_.
    bindM (upM (net_stop H 3)) (\<lambda>_.
    bindM (net_with H c [1, 2] 30 None (run_sql N (fill_sql (kt_rows k)) [])) (\<lambda>_.
    retM ()))))))))"

text \<open>A survivor is stopped, compacted and started again, and has published the target.\<close>

definition compact_survivor :: "'w hostops \<Rightarrow> catchup_args \<Rightarrow> NetCluster \<Rightarrow> int \<Rightarrow> nat \<Rightarrow> ('w custate, unit) comp" where
  "compact_survivor H k c target node = bindM (upM (net_stop H node)) (\<lambda>_.
    bindM (resolveM H (sa_binary (kt_script k))) (\<lambda>binary.
    bindM (worldM (ho_run H [binary, (lit ''compact''), node_file c node ''.json''])) (\<lambda>(code, _, _).
    bindM (assertM (code = 0) ''result.stderr'') (\<lambda>_.
    bindM (upM (net_start H c node False)) (\<lambda>_.
    bindM (node_ready H c node 60) (\<lambda>_.
    net_with H c [node] 10 None (bindM (dbM (status_field (ho_net H) ''generation_prefix'')) (\<lambda>g.
      assertM (target \<le> g) ''generation_prefix''))))))))"

definition catchup_cycle :: "'w hostops \<Rightarrow> catchup_args \<Rightarrow> NetCluster \<Rightarrow> nat \<Rightarrow> int \<Rightarrow> ('w custate, int) comp" where
  "catchup_cycle H k c cycle _ = (let N = ho_net H in
    bindM (net_with H c [1, 2] 10 None (bindM (forM [0..<kt_operations k] (\<lambda>i. bindM (run_sql N (lit ''UPDATE items SET visits=visits+1 WHERE id=?'') [VInt (int (i mod kt_rows k + 1))]) (\<lambda>_. retM ()))) (\<lambda>_.
      dbM (request_snapshot N)))) (\<lambda>target.
    bindM (wait_sealed H c target [1, 2]) (\<lambda>_.
    bindM (forM [1, 2] (compact_survivor H k c target)) (\<lambda>_.
    bindM (upM (append_entry (lit ''checks'') (RD [((lit ''name''), RS (lit ''cycle_'' @ dec cycle @ lit ''_survivors_publish_while_third_voter_remains_offline'')), ((lit ''passed''), RB True)]))) (\<lambda>_.
    retM target)))))"

definition image_size :: "pstr \<Rightarrow> pstr \<times> nat \<times> nat \<Rightarrow> int option" where
  "image_size folder f = (let name = drop (length folder + 1) (fst f) in
     if starts_with name (lit ''image-'') \<and> ends_with name ''.db'' \<and> 47 \<notin> set name then Some (int (fst (snd f))) else None)"

definition largest_image :: "'w hostops \<Rightarrow> catchup_args \<Rightarrow> NetCluster \<Rightarrow> ('w custate, unit) comp" where
  "largest_image H k c = (let folder = path_join (nc_root c) (lit ''data1/snapshots'') in
    bindM (askM (ho_tree H folder)) (\<lambda>files.
    bindM (liftR (maxR (List.map_filter (image_size folder) files))) (\<lambda>largest.
    bindM (upM (put_report (lit ''largest_image_bytes'') (RI largest))) (\<lambda>_.
    ifM (8192 \<le> kt_rows k) (assertM (1024 * 1024 < largest) ''largest_image_bytes'')))))"

text \<open>\<open>cfg['members'][2]['address'] = address\<close>\<close>

definition set_third_address :: "json \<Rightarrow> pstr \<Rightarrow> dict res" where
  "set_third_address cfg address = bindR (field cfg ''members'') (\<lambda>m. case m of
      JList ms \<Rightarrow> bindR (nth_res ms 2) (\<lambda>third. case third of
          JObj d \<Rightarrow> (case cfg of JObj doc \<Rightarrow> Inr (dset doc (lit ''members'') (JList (ms[2 := JObj (dset d (lit ''address'') (JStr address))])))
                      | _ \<Rightarrow> Inl (TypeError ''not a dict''))
        | _ \<Rightarrow> Inl (TypeError ''object does not support item assignment''))
    | _ \<Rightarrow> Inl (TypeError ''object is not subscriptable''))"

definition redirect_node :: "'w hostops \<Rightarrow> NetCluster \<Rightarrow> pstr \<Rightarrow> nat \<Rightarrow> ('w custate, unit) comp" where
  "redirect_node H c address node = (let path = node_file c node ''.json'' in
    bindM (worldM (ho_read H path)) (\<lambda>contents.
    bindM (liftR (ho_loads H contents)) (\<lambda>cfg.
    bindM (liftR (set_third_address cfg address)) (\<lambda>changed.
    bindM (worldM (ho_write H path (dump_config H changed))) (\<lambda>_.
    bindM (upM (net_stop H node)) (\<lambda>_.
    bindM (upM (net_start H c node False)) (\<lambda>_.
    bindM (node_ready H c node 60) (\<lambda>_.
    retM ()))))))))"

definition write_during_transfer :: "'w hostops \<Rightarrow> NetCluster \<Rightarrow> ('w custate, unit) comp" where
  "write_during_transfer H c = tryM
    (net_with H c [1, 2] 5 None (forM [0..<30] (\<lambda>_. bindM (visit (ho_net H)) (\<lambda>_.
      bindM (upM (setC (\<lambda>v. v\<lparr>cu_writes := cu_writes v + 1\<rparr>))) (\<lambda>_.
      effectM (sleep (ho_net H) (2 / 100)))))))
    (\<lambda>e. setC (\<lambda>v. v\<lparr>cu_errors := cu_errors v @ [ho_repr H e]\<rparr>))"

definition throttle :: "'w proxyops \<Rightarrow> catchup_args \<Rightarrow> NetCluster \<Rightarrow> ('w custate, unit) comp" where
  "throttle X k c = (let H = xo_host X in
    bindM (liftR (nth_res (nc_members c) 2)) (\<lambda>third.
    bindM (worldM (xo_open X (mb_address third) (kt_slow_kib k) (if kt_drop_once k then 2 * 1024 * 1024 else 0))) (\<lambda>(handle, address).
    bindM (setC (\<lambda>v. v\<lparr>cu_proxy := Some handle\<rparr>)) (\<lambda>_.
    bindM (forM [1, 2] (redirect_node H c address)) (\<lambda>_.
    bindM (setC (\<lambda>v. v\<lparr>cu_writer := True\<rparr>)) (\<lambda>_.
    write_during_transfer H c))))))"

definition put_proxy :: "'w proxyops \<Rightarrow> ('w custate, int option) comp" where
  "put_proxy X = bindM varsC (\<lambda>v.
    (case cu_proxy v of None \<Rightarrow> retM None
     | Some handle \<Rightarrow> bindM (askM (xo_counts X handle)) (\<lambda>(bytes, drops).
         bindM (upM (put_report (lit ''proxy'') (RD [((lit ''downstream_bytes''), RI bytes), ((lit ''drops''), RI drops)]))) (\<lambda>_.
         retM (Some drops)))))"

definition catch_up :: "'w proxyops \<Rightarrow> catchup_args \<Rightarrow> NetCluster \<Rightarrow> int \<Rightarrow> ('w custate, unit) comp" where
  "catch_up X k c target = (let H = xo_host X in
    let N = ho_net H in
    bindM (upM (net_start H c 3 False)) (\<lambda>_.
    bindM (clockM N) (\<lambda>begun.
    bindM varsC (\<lambda>v.
    bindM (ifM (cu_writer v) (bindM (assertM (cu_errors v = []) ''concurrent'') (\<lambda>_.
      bindM (assertM (cu_writes v = 30) ''concurrent'') (\<lambda>_.
      bindM (upM (put_report (lit ''concurrent'') (concurrent_entry v))) (\<lambda>_.
      upM (record_check ''healthy_quorum_writes_continue_during_throttled_snapshot_transfer'')))))) (\<lambda>_.
    bindM (net_with H c [1, 2] 10 None (dbM (status_field N ''applied''))) (\<lambda>frontier.
    bindM (upM (put_report (lit ''catchup_frontier'') (RI frontier))) (\<lambda>_.
    bindM (wait_caught_up H c target frontier (begun + 90)) (\<lambda>_.
    bindM (clockM N) (\<lambda>now.
    bindM (upM (put_report (lit ''catchup_seconds'') (RT (now - begun)))) (\<lambda>_.
    bindM (put_proxy X) (\<lambda>drops.
    ifM (drops \<noteq> None \<and> kt_drop_once k) (assertM (drops = Some 1) ''proxy''))))))))))))"

text \<open>All updates and, at the end, one more are visible; \<open>extra\<close> is what was written since.\<close>

definition all_visits_are :: "'w hostops \<Rightarrow> catchup_args \<Rightarrow> catchup \<Rightarrow> int \<Rightarrow> ((Connection \<times> 'x) \<times> 'w, unit) comp" where
  "all_visits_are H k v extra = assert_scalar (ho_net H) (lit ''SELECT sum(visits) FROM items'') [] (2 * int (kt_operations k) + int (cu_writes v) + extra)"

definition catchup_verify :: "'w hostops \<Rightarrow> catchup_args \<Rightarrow> NetCluster \<Rightarrow> int \<Rightarrow> ('w custate, unit) comp" where
  "catchup_verify H k c target = (let N = ho_net H in
    bindM varsC (\<lambda>v.
    bindM (net_with H c [3] 10 None (bindM (dbM (status N)) (\<lambda>state.
      bindM (liftR (field (JObj state) ''snapshot_error'')) (\<lambda>e.
      bindM (assertM (\<not> json_truth e) ''state'') (\<lambda>_.
      bindM (liftR (int_field (JObj state) ''generation_prefix'')) (\<lambda>g.
      bindM (assertM (target \<le> g) ''state'') (\<lambda>_.
      bindM (assert_scalar N (lit ''SELECT count(*) FROM items'') [] (int (kt_rows k))) (\<lambda>_.
      bindM (all_visits_are H k v 0) (\<lambda>_.
      visit N))))))))) (\<lambda>_.
    bindM (upM (record_check ''offline_voter_installs_certified_image_and_continues_writes'')) (\<lambda>_.
    bindM (forM all_nodes (\<lambda>node. upM (net_stop H node))) (\<lambda>_.
    bindM (upM (start_all H c False)) (\<lambda>_.
    bindM (forM all_nodes (\<lambda>node. bindM (node_ready H c node 60) (\<lambda>_.
      net_with H c [node] 10 None (all_visits_are H k v 1)))) (\<lambda>_.
    upM (record_check ''installed_generation_and_all_acknowledged_effects_survive_full_restart''))))))))"

definition catchup_body :: "'w proxyops \<Rightarrow> catchup_args \<Rightarrow> NetCluster \<Rightarrow> ('w custate, unit) comp" where
  "catchup_body X k c = (let H = xo_host X in
    bindM (catchup_setup H k c) (\<lambda>_.
    bindM (foldM [0..<2] 0 (catchup_cycle H k c)) (\<lambda>target.
    bindM (largest_image H k c) (\<lambda>_.
    bindM (ifM (kt_slow_kib k \<noteq> 0) (throttle X k c)) (\<lambda>_.
    bindM (catch_up X k c target) (\<lambda>_.
    bindM (catchup_verify H k c target) (\<lambda>_.
    upM complete_report)))))))"

section \<open>The campaign\<close>

definition final_status :: "'w hostops \<Rightarrow> NetCluster \<Rightarrow> nat \<Rightarrow> ('w custate, unit) comp" where
  "final_status H c node = bindM (tryM (bindM (net_with H c [node] 2 None (dbM (status (ho_net H)))) (\<lambda>d. retM (RJ (JObj d)))) (\<lambda>e. retM (RD [((lit ''error''), RS (ho_repr H e))]))) (\<lambda>entry.
    upM (put_sub (lit ''final_status'') (dec node) entry))"

definition catchup_cleanup :: "'w proxyops \<Rightarrow> pstr \<Rightarrow> NetCluster \<Rightarrow> ('w custate, unit) comp" where
  "catchup_cleanup X home c = (let H = xo_host X in
    bindM varsC (\<lambda>v.
    bindM (upM (put_report (lit ''concurrent'') (concurrent_entry v))) (\<lambda>_.
    bindM (put_proxy X) (\<lambda>_.
    bindM (upM (put_report (lit ''final_status'') (RD []))) (\<lambda>_.
    bindM (forM all_nodes (final_status H c)) (\<lambda>_.
    bindM (upM (net_close H)) (\<lambda>_.
    bindM ((case cu_proxy v of None \<Rightarrow> retM () | Some handle \<Rightarrow> worldM (xo_close X handle))) (\<lambda>_.
    upM (log_tails H home (lit ''*.log'') (tail_of 14000))))))))))"

definition catchup_report :: "catchup_args \<Rightarrow> pstr \<Rightarrow> report" where
  "catchup_report k digest = [((lit ''complete''), RB False), ((lit ''passed''), RB False), ((lit ''checks''), RL []), ((lit ''rows''), RI (int (kt_rows k))),
     ((lit ''operations_per_cycle''), RI (int (kt_operations k))), ((lit ''slow_kib''), RI (kt_slow_kib k)), ((lit ''drop_once''), RB (kt_drop_once k)),
     ((lit ''binary_sha256''), RS digest), ((lit ''scope''), RS (lit ''authenticated snapshot catch-up after two retained-prefix changes; explicit compaction''))]"

definition catchup_main :: "'w proxyops \<Rightarrow> catchup_args \<Rightarrow> ('w nrstate, unit) comp" where
  "catchup_main X k = (let H = xo_host X in
    let s = kt_script k in
    bindM (askM (ho_exists H (sa_output s))) (\<lambda>taken.
    bindM (whenM (taken \<or> kt_rows k < 3 \<or> 10000 < kt_rows k \<or> kt_operations k < 3 \<or> kt_slow_kib k < 0) (SystemExit ''Use a new evidence path, 3-10000 rows and at least three operations'')) (\<lambda>_.
    bindM (worldM (ho_sha256 H (sa_binary s))) (\<lambda>digest.
    bindM (updM (\<lambda>_. run_empty (catchup_report k digest))) (\<lambda>_.
    bindM (make_parent H (sa_output s)) (\<lambda>_.
    reportedM H ((let scratch = path_join (sa_home s) (lit ''build/snapshot-catchup-work'') in
      bindM (worldM (ho_mkdir H scratch)) (\<lambda>_.
      temp_dirM H scratch (\<lambda>home. bindM (ifM (ho_linux H) (check_filesystem H home)) (\<lambda>_.
        bindM (resolveM H (sa_binary s)) (\<lambda>binary.
        bindM (net_cluster H home binary (sa_openssl s) 5 (lit ''manual'')) (\<lambda>c.
        scopeM \<lparr>cu_proxy = None, cu_writer = False, cu_writes = 0, cu_errors = []\<rparr> (finallyM (catchup_body X k c) (catchup_cleanup X home c))))))))) (save_report H (sa_output s))))))))"

end
