(* ===== verification/Comparison.thy ===== *)
theory Comparison
  imports Capacity Native_Facts Demo_Host
begin

text \<open>
  The campaign of \<open>tools/compare_native_workloads.py\<close>: samples of four systems in a shuffled order, each recorded as a
  result or as a failure, resumed from an interrupted run. What takes a sample (clusters of the compared systems, with
  their vendored drivers) is a parameter. It is shown that a campaign records every sample, and once.
\<close>

section \<open>Values of JSON documents\<close>

text \<open>\<open>==\<close> on JSON values: numbers by value, objects without their order.\<close>

definition float_same :: "pyfloat \<Rightarrow> pyfloat \<Rightarrow> bool" where
  "float_same x y = (case x of Finite s m \<Rightarrow> (case y of Finite t n \<Rightarrow> m = n \<and> (m = 0 \<or> s = t) | _ \<Rightarrow> False)
     | Infinite s \<Rightarrow> y = Infinite s | NotANumber \<Rightarrow> False)"

function json_same :: "json \<Rightarrow> json \<Rightarrow> bool" where
  "json_same JNull b \<longleftrightarrow> b = JNull"
| "json_same (JBool x) b \<longleftrightarrow> num_eq b (if x then 1 else 0)"
| "json_same (JInt i) b \<longleftrightarrow> num_eq b i"
| "json_same (JFloat x) b \<longleftrightarrow> (case b of JFloat y \<Rightarrow> float_same x y | JInt i \<Rightarrow> num_eq (JFloat x) i | JBool y \<Rightarrow> num_eq (JFloat x) (if y then 1 else 0) | _ \<Rightarrow> False)"
| "json_same (JStr s) b \<longleftrightarrow> b = JStr s"
| "json_same (JList xs) b \<longleftrightarrow> (case b of JList ys \<Rightarrow> length xs = length ys \<and> (\<forall>i \<in> set [0..<length xs]. json_same (xs ! i) (ys ! i)) | _ \<Rightarrow> False)"
| "json_same (JObj d) b \<longleftrightarrow> (case b of JObj e \<Rightarrow> length d = length e \<and> (\<forall>(k, v) \<in> set d. case map_of e k of None \<Rightarrow> False | Some u \<Rightarrow> json_same v u) | _ \<Rightarrow> False)"
  by pat_completeness auto
termination
  by (relation "measure (size \<circ> fst)") (auto simp: less_Suc_eq_le intro: nth_mem size_list_estimation')

section \<open>The state\<close>

text \<open>
  The three lists of samples and the other entries of the report. \<open>mo_run\<close> takes the sample of a group, a system, a
  folder and a seed; \<open>mo_shuffle\<close> is \<open>random.Random(seed).shuffle\<close>, \<open>mo_definitions\<close> the dumps of the functions and classes
  of a module, \<open>mo_stamp\<close> the local time in the name of the directory, \<open>mo_mkdir\<close> makes a directory that is not there yet.
\<close>

record 'w compops =
  mo_host :: "'w hostops"
  mo_run :: "pstr \<Rightarrow> pstr \<Rightarrow> pstr \<Rightarrow> nat \<Rightarrow> 'w \<Rightarrow> dict res \<times> 'w"
  mo_shuffle :: "nat \<Rightarrow> pstr list \<Rightarrow> pstr list"
  mo_definitions :: "pstr \<Rightarrow> (pstr \<times> pstr) list res"
  mo_traceback :: "exn \<Rightarrow> pstr"
  mo_stamp :: "'w \<Rightarrow> pstr \<times> 'w"
  mo_mkdir :: "pstr \<Rightarrow> 'w \<Rightarrow> unit res \<times> 'w"
  mo_hostname :: pstr

record Comparison =
  co_realworld :: "json list"
  co_sequential :: "json list"
  co_failures :: "json list"
  co_report :: report

type_synonym 'w costate = "Comparison \<times> 'w"

text \<open>The groups are \<open>realworld\<close> and \<open>sequential_writes\<close>.\<close>

datatype sample_group = Realworld | Sequential

definition group_text :: "sample_group \<Rightarrow> pstr" where
  "group_text g = (case g of Realworld \<Rightarrow> (lit ''realworld'') | Sequential \<Rightarrow> (lit ''sequential_writes''))"

definition group_rows :: "sample_group \<Rightarrow> Comparison \<Rightarrow> json list" where
  "group_rows g c = (case g of Realworld \<Rightarrow> co_realworld c | Sequential \<Rightarrow> co_sequential c)"

definition add_row :: "sample_group \<Rightarrow> json \<Rightarrow> Comparison \<Rightarrow> Comparison" where
  "add_row g row c = (case g of Realworld \<Rightarrow> c\<lparr>co_realworld := co_realworld c @ [row]\<rparr> | Sequential \<Rightarrow> c\<lparr>co_sequential := co_sequential c @ [row]\<rparr>)"

definition put_co :: "pstr \<Rightarrow> rv \<Rightarrow> ('w costate, unit) comp" where
  "put_co k v = updM (\<lambda>c. c\<lparr>co_report := AList.update k v (co_report c)\<rparr>)"

definition save_comparison :: "'w hostops \<Rightarrow> pstr \<Rightarrow> ('w costate, unit) comp" where
  "save_comparison H path = bindM objM (\<lambda>c. save_native H path (co_report c @ [((lit ''realworld''), RL (map RJ (co_realworld c))),
     ((lit ''sequential_writes''), RL (map RJ (co_sequential c))), ((lit ''failures''), RL (map RJ (co_failures c)))]))"

section \<open>Samples\<close>

definition sample_row_is :: "pstr \<Rightarrow> nat \<Rightarrow> json \<Rightarrow> bool res" where
  "sample_row_is system n row = bindR (field row ''system'') (\<lambda>s. if s = JStr system then bindR (field row ''repeat'') (\<lambda>k. Inr (num_eq k (int n))) else Inr False)"

definition failure_is :: "sample_group \<Rightarrow> pstr \<Rightarrow> nat \<Rightarrow> json \<Rightarrow> bool res" where
  "failure_is g system n row = bindR (field row ''group'') (\<lambda>k. if k = JStr (group_text g) then sample_row_is system n row else Inr False)"

definition sample_done :: "sample_group \<Rightarrow> pstr \<Rightarrow> nat \<Rightarrow> Comparison \<Rightarrow> bool res" where
  "sample_done g system n c = bindR (anyR (sample_row_is system n) (group_rows g c)) (\<lambda>b. if b then Inr True else anyR (failure_is g system n) (co_failures c))"

definition failure_row :: "'w compops \<Rightarrow> sample_group \<Rightarrow> pstr \<Rightarrow> nat \<Rightarrow> pstr \<Rightarrow> exn \<Rightarrow> json" where
  "failure_row M g system n folder e = JObj [((lit ''group''), JStr (group_text g)), ((lit ''system''), JStr system), ((lit ''repeat''), JInt (int n)),
     ((lit ''error''), JStr (ho_repr (mo_host M) e)), ((lit ''traceback''), JStr (mo_traceback M e)), ((lit ''directory''), JStr folder)]"

text \<open>\<open>except Exception\<close> does not catch \<open>SystemExit\<close>.\<close>

definition is_exit :: "exn \<Rightarrow> bool" where
  "is_exit e = (case e of SystemExit _ \<Rightarrow> True | _ \<Rightarrow> False)"

definition take_sample :: "'w compops \<Rightarrow> pstr \<Rightarrow> sample_group \<Rightarrow> pstr \<Rightarrow> nat \<Rightarrow> pstr \<Rightarrow> nat \<Rightarrow> ('w costate, unit) comp" where
  "take_sample M path g system n folder seed = bindM (tryM (bindM (worldM (mo_run M (group_text g) system folder seed)) (\<lambda>result.
      updM (add_row g (JObj (dset result (lit ''repeat'') (JInt (int n))))))) (\<lambda>e. if is_exit e then raiseM e else updM (\<lambda>c. c\<lparr>co_failures := co_failures c @ [failure_row M g system n folder e]\<rparr>))) (\<lambda>_.
    save_comparison (mo_host M) path)"

definition sample_folder :: "pstr \<Rightarrow> sample_group \<Rightarrow> pstr \<Rightarrow> nat \<Rightarrow> pstr" where
  "sample_folder work g system n = path_join work ((dec n @ lit ''-'' @ system @ lit ''-'') @ (case g of Realworld \<Rightarrow> (lit ''mixed'') | Sequential \<Rightarrow> (lit ''kv'')))"

definition maybe_sample :: "'w compops \<Rightarrow> pstr \<Rightarrow> pstr \<Rightarrow> sample_group \<Rightarrow> nat \<Rightarrow> nat \<Rightarrow> pstr \<Rightarrow> ('w costate, unit) comp" where
  "maybe_sample M path work g n seed system = bindM objM (\<lambda>c.
    bindM (liftR (sample_done g system n c)) (\<lambda>recorded.
    ifM (\<not> recorded) (take_sample M path g system n (sample_folder work g system n) seed)))"

definition cowsql :: pstr where
  "cowsql = (lit ''cowsql'')"

definition one_repeat :: "'w compops \<Rightarrow> pstr \<Rightarrow> pstr \<Rightarrow> pstr list \<Rightarrow> nat \<Rightarrow> ('w costate, unit) comp" where
  "one_repeat M path work systems n = (let seed = 20260923 + n * 100 in
    bindM (forM (mo_shuffle M seed (filter (\<lambda>s. s \<noteq> cowsql) systems)) (maybe_sample M path work Realworld n seed)) (\<lambda>_.
    forM (mo_shuffle M (seed + 1) systems) (maybe_sample M path work Sequential n seed)))"

text \<open>\<open>r.get('restart_verified', True)\<close> as a truth value.\<close>

definition restart_fine :: "json \<Rightarrow> bool res" where
  "restart_fine row = (case row of JObj d \<Rightarrow> Inr (case dget d ''restart_verified'' of None \<Rightarrow> True | Some v \<Rightarrow> json_truth v) | _ \<Rightarrow> Inl AttributeError)"

definition run_samples :: "'w compops \<Rightarrow> pstr \<Rightarrow> pstr \<Rightarrow> pstr list \<Rightarrow> nat \<Rightarrow> ('w costate, unit) comp" where
  "run_samples M path work systems repeats = bindM (forM [0..<repeats] (one_repeat M path work systems)) (\<lambda>_.
    bindM (put_co (lit ''complete'') (RB True)) (\<lambda>_.
    bindM objM (\<lambda>c.
    bindM ((if co_failures c \<noteq> [] then retM False else liftR (allR restart_fine (co_sequential c)))) (\<lambda>passed.
    put_co (lit ''all_samples_passed'') (RB passed)))))"

section \<open>Resuming\<close>

record comp_args =
  ca_root :: pstr
  ca_file :: pstr
  ca_operations :: int
  ca_warmup :: int
  ca_concurrency :: int
  ca_repeats :: int
  ca_systems :: "pstr list"
  ca_sqlodin_bin :: pstr
  ca_sqlodin_build :: "pstr option"
  ca_zaxon_bin :: pstr
  ca_rqlited_bin :: pstr
  ca_output :: pstr
  ca_resume_from :: "pstr option"
  ca_resume_source :: "pstr option"
  ca_recorded_failures :: "pstr option"

definition own_key :: pstr where
  "own_key = (lit ''tools/compare_native_workloads.py'')"

text \<open>\<open>assert before[name] == after[name]\<close>, a \<open>KeyError\<close> where the name is missing.\<close>

definition same_definition :: "(pstr \<times> pstr) list \<Rightarrow> (pstr \<times> pstr) list \<Rightarrow> pstr \<Rightarrow> unit res" where
  "same_definition before after k = (case map_of before k of None \<Rightarrow> Inl KeyError | Some x \<Rightarrow>
     (case map_of after k of None \<Rightarrow> Inl KeyError | Some y \<Rightarrow> if x = y then Inr () else Inl (AssertionError ''Adapter changed: {name}'')))"

definition same_entry :: "json \<Rightarrow> (string \<times> json) \<Rightarrow> unit res" where
  "same_entry earlier kv = bindR (field earlier (fst kv)) (\<lambda>v. if json_same v (snd kv) then Inr () else Inl (AssertionError ''Resume metadata mismatch: {key}''))"

definition same_digest :: "(pstr \<times> pstr) list \<Rightarrow> pstr \<times> json \<Rightarrow> unit res" where
  "same_digest sources kv = (if fst kv = own_key then Inr () else (case map_of sources (fst kv) of None \<Rightarrow> Inl KeyError
     | Some d \<Rightarrow> if JStr d = snd kv then Inr () else Inl (AssertionError ''key'')))"

definition items_of :: "json \<Rightarrow> dict res" where
  "items_of j = (case j of JObj d \<Rightarrow> Inr d | _ \<Rightarrow> Inl AttributeError)"

definition list_of_json :: "json \<Rightarrow> json list res" where
  "list_of_json j = (case j of JList xs \<Rightarrow> Inr xs | _ \<Rightarrow> Inl (TypeError ''object is not iterable''))"

text \<open>\<open>dict(row, sample_run_directory=row.get('sample_run_directory', earlier['run_directory']))\<close>\<close>

definition with_directory :: "json \<Rightarrow> json \<Rightarrow> json res" where
  "with_directory earlier row = bindR (items_of row) (\<lambda>d. bindR (field earlier ''run_directory'') (\<lambda>dir.
     Inr (JObj (dset d (lit ''sample_run_directory'') (case dget d ''sample_run_directory'' of None \<Rightarrow> dir | Some v \<Rightarrow> v)))))"

definition length_json :: "json \<Rightarrow> nat res" where
  "length_json j = (case j of JList xs \<Rightarrow> Inr (length xs) | JStr xs \<Rightarrow> Inr (length xs) | JObj xs \<Rightarrow> Inr (length xs) | _ \<Rightarrow> Inl (TypeError ''object has no len()''))"

definition mixed_row :: "json \<Rightarrow> json \<Rightarrow> json res" where
  "mixed_row earlier row = bindR (bindR (field row ''phases'') length_json) (\<lambda>n. if n \<noteq> 3 then Inl (AssertionError ''phases'') else
     bindR (bindR (field row ''correctness'') (\<lambda>c. field c ''integrity'')) (\<lambda>i. if \<not> json_truth i then Inl (AssertionError ''integrity'') else
     bindR (field row ''total_cluster_restart'') (\<lambda>t. if \<not> json_truth t then Inl (AssertionError ''restart'') else with_directory earlier row)))"

definition truth_get :: "dict \<Rightarrow> string \<Rightarrow> bool" where
  "truth_get d k = (case dget d k of None \<Rightarrow> False | Some v \<Rightarrow> json_truth v)"

definition sequential_row :: "json \<Rightarrow> json \<Rightarrow> json res" where
  "sequential_row earlier row = bindR (items_of row) (\<lambda>d. if truth_get d ''restart_verified'' \<or> truth_get d ''verified_before_restart''
     then with_directory earlier row else Inl (AssertionError ''verified''))"

text \<open>The checks on the earlier report, before any of its samples is taken over.\<close>

definition check_earlier :: "'w compops \<Rightarrow> comp_args \<Rightarrow> (string \<times> json) list \<Rightarrow> (pstr \<times> pstr) list \<Rightarrow> pstr \<Rightarrow> json \<Rightarrow> ('w costate, unit) comp" where
  "check_earlier M a metadata sources source earlier = (let H = mo_host M in
    bindM (worldM (ho_sha256 H source)) (\<lambda>digest.
    bindM (liftR (bindR (field earlier ''source_sha256'') items_of)) (\<lambda>digests.
    bindM (liftR (case map_of digests own_key of None \<Rightarrow> Inl KeyError | Some v \<Rightarrow> Inr v)) (\<lambda>recorded.
    bindM (assertM (JStr digest = recorded) ''source'') (\<lambda>_.
    bindM (worldM (ho_read H source)) (\<lambda>before_text.
    bindM (liftR (mo_definitions M before_text)) (\<lambda>before.
    bindM (worldM (ho_read H (ca_file a))) (\<lambda>after_text.
    bindM (liftR (mo_definitions M after_text)) (\<lambda>after.
    bindM (liftR (mapR (same_definition before after) [(lit ''Client''), (lit ''NativeCluster''), (lit ''native_run'')])) (\<lambda>_.
    bindM (liftR (field earlier ''sequential_writes'')) (\<lambda>written.
    bindM (ifM (json_truth written) (bindM (liftR (mapR (same_definition before after) [(lit ''native_kv''), (lit ''network_kv'')])) (\<lambda>_. retM ()))) (\<lambda>_.
    bindM (liftR (mapR (same_entry earlier) metadata)) (\<lambda>_.
    bindM (liftR (mapR (same_digest sources) digests)) (\<lambda>_.
    retM ()))))))))))))))"

definition resume_entry :: "pstr \<Rightarrow> pstr \<Rightarrow> json \<Rightarrow> rv res" where
  "resume_entry path digest earlier = bindR (field earlier ''source_sha256'') (\<lambda>sources. bindR (field earlier ''run_directory'') (\<lambda>dir. bindR (items_of earlier) (\<lambda>d.
     Inr (RD [((lit ''path''), RS path), ((lit ''sha256''), RS digest), ((lit ''source_sha256''), RJ sources), ((lit ''run_directory''), RJ dir),
       ((lit ''reason''), RS (lit ''Retain fully verified samples and separately record failed attempts'')),
       ((lit ''prior_provenance''), RJ (case dget d ''resumed_from'' of None \<Rightarrow> JNull | Some v \<Rightarrow> v))]))))"

definition resume :: "'w compops \<Rightarrow> comp_args \<Rightarrow> (string \<times> json) list \<Rightarrow> (pstr \<times> pstr) list \<Rightarrow> pstr \<Rightarrow> ('w costate, unit) comp" where
  "resume M a metadata sources path = (let H = mo_host M in
    bindM (worldM (ho_read H path)) (\<lambda>contents.
    bindM (liftR (ho_loads H contents)) (\<lambda>earlier.
    let source = (case ca_resume_source a of Some p \<Rightarrow> p | None \<Rightarrow> path_join (parent_of path) (lit ''linux18-native-initial-runner.py'')) in
    bindM (check_earlier M a metadata sources source earlier) (\<lambda>_.
    bindM (worldM (ho_sha256 H path)) (\<lambda>digest.
    bindM (liftR (resume_entry path digest earlier)) (\<lambda>entry.
    bindM (put_co (lit ''resumed_from'') entry) (\<lambda>_.
    bindM (liftR (bindR (field earlier ''realworld'') list_of_json)) (\<lambda>mixed.
    bindM (forM mixed (\<lambda>row. bindM (liftR (mixed_row earlier row)) (\<lambda>r. updM (add_row Realworld r)))) (\<lambda>_.
    bindM (liftR (bindR (field earlier ''sequential_writes'') list_of_json)) (\<lambda>written.
    bindM (forM written (\<lambda>row. bindM (liftR (sequential_row earlier row)) (\<lambda>r. updM (add_row Sequential r)))) (\<lambda>_.
    bindM (liftR (bindR (items_of earlier) (\<lambda>d. case dget d ''failures'' of None \<Rightarrow> Inr [] | Some v \<Rightarrow> list_of_json v))) (\<lambda>failed.
    updM (\<lambda>c. c\<lparr>co_failures := co_failures c @ failed\<rparr>)))))))))))))"

text \<open>\<open>--recorded-failures\<close> reads the report that is resumed; without one, \<open>None\<close> has no \<open>read_bytes\<close>.\<close>

definition take_failures :: "'w compops \<Rightarrow> comp_args \<Rightarrow> pstr \<Rightarrow> ('w costate, unit) comp" where
  "take_failures M a path = (let H = mo_host M in
    bindM (worldM (ho_read H path)) (\<lambda>contents.
    bindM (liftR (ho_loads H contents)) (\<lambda>document.
    bindM (liftR (field document ''source_report_sha256'')) (\<lambda>recorded.
    bindM ((case ca_resume_from a of None \<Rightarrow> raiseM AttributeError | Some p \<Rightarrow> worldM (ho_sha256 H p))) (\<lambda>digest.
    bindM (assertM (recorded = JStr digest) ''source_report_sha256'') (\<lambda>_.
    bindM (liftR (bindR (field document ''failures'') list_of_json)) (\<lambda>failed.
    updM (\<lambda>c. c\<lparr>co_failures := co_failures c @ failed\<rparr>))))))))"

section \<open>The campaign\<close>

definition read_json :: "'w hostops \<Rightarrow> pstr \<Rightarrow> ('x \<times> 'w, json) comp" where
  "read_json H path = bindM (worldM (ho_read H path)) (\<lambda>contents. liftR (ho_loads H contents))"

text \<open>The manifests of the builds that the chosen systems need, \<open>null\<close> for the others.\<close>

definition optional_json :: "'w hostops \<Rightarrow> bool \<Rightarrow> pstr \<Rightarrow> ('x \<times> 'w, json) comp" where
  "optional_json H needed path = (if needed then read_json H path else retM JNull)"

definition workload_json :: "comp_args \<Rightarrow> json" where
  "workload_json a = JObj [((lit ''operations''), JInt (ca_operations a)), ((lit ''warmup''), JInt (ca_warmup a)), ((lit ''concurrency''), JInt (ca_concurrency a)),
     ((lit ''repeats''), JInt (ca_repeats a)), ((lit ''read_percent''), JInt 70), ((lit ''write_percent''), JInt 30)]"

definition tool_path :: "comp_args \<Rightarrow> pstr \<Rightarrow> pstr" where
  "tool_path a name = path_join (ca_root a) (lit ''build/comparison-tools/'' @ name)"

definition binaries :: "comp_args \<Rightarrow> (pstr \<times> pstr) list" where
  "binaries a = filter (\<lambda>(name, _). name \<in> set (ca_systems a))
    [((lit ''sqlodin''), ca_sqlodin_bin a), ((lit ''zaxonlite''), ca_zaxon_bin a), ((lit ''rqlite''), ca_rqlited_bin a), (cowsql, tool_path a (lit ''cowsql-demo''))]"

definition digest_files :: "'w hostops \<Rightarrow> pstr \<Rightarrow> pstr list \<Rightarrow> ('x \<times> 'w, (pstr \<times> pstr) list) comp" where
  "digest_files H project paths = mapM (\<lambda>p. bindM (worldM (ho_sha256 H p)) (\<lambda>d. retM (drop (length project + 1) p, d))) paths"

definition host_address :: pstr where
  "host_address = (lit ''10.175.52.18'')"

text \<open>The report at the start: its entries, the digests of the sources and those of the binaries.\<close>

definition comparison_head :: "'w compops \<Rightarrow> comp_args \<Rightarrow> pstr \<Rightarrow> json \<Rightarrow> ('w costate, (pstr \<times> pstr) list \<times> (pstr \<times> json) list) comp" where
  "comparison_head M a work filesystem = (let H = mo_host M in
    let sqlodin = (lit ''sqlodin'') \<in> set (ca_systems a) in
    bindM (askM (ho_utcnow H)) (\<lambda>now.
    bindM (check_output H [(lit ''lscpu'')]) (\<lambda>cpu.
    bindM (optional_json H sqlodin (case ca_sqlodin_build a of Some p \<Rightarrow> p | None \<Rightarrow> ca_sqlodin_bin a @ (lit ''.build.json''))) (\<lambda>build.
    bindM (optional_json H ((lit ''rqlite'') \<in> set (ca_systems a) \<or> cowsql \<in> set (ca_systems a)) (tool_path a (lit ''build.json''))) (\<lambda>compared.
    bindM (optional_json H ((lit ''zaxonlite'') \<in> set (ca_systems a)) (tool_path a (lit ''zaxon-release/release.json''))) (\<lambda>release.
    bindM (askM (ho_glob H (path_join (ca_root a) (lit ''benchmarks/vendor/zaxonlite'')) (lit ''*.py''))) (\<lambda>vendored.
    bindM (digest_files H (ca_root a) ([ca_file a, path_join (ca_root a) (lit ''tools/compare_realworld.py'')] @ vendored)) (\<lambda>sources.
    bindM (updM (\<lambda>_. \<lparr>co_realworld = [], co_sequential = [], co_failures = [], co_report =
      [((lit ''schema_version''), RI 1), ((lit ''complete''), RB False), ((lit ''started_utc''), RS now), ((lit ''host''), RS (mo_hostname M)), ((lit ''host_address''), RS host_address),
       ((lit ''platform''), RS (ho_platform H)), ((lit ''cpu''), RS cpu), ((lit ''filesystem''), RJ filesystem), ((lit ''run_directory''), RS work), ((lit ''workload''), RJ (workload_json a)),
       ((lit ''sqlodin_build''), RJ build), ((lit ''comparison_build''), RJ compared), ((lit ''zaxon_release''), RJ release), ((lit ''source_sha256''), RD (map (\<lambda>(k, d). (k, RS d)) sources))]\<rparr>)) (\<lambda>_.
    bindM (mapM (\<lambda>(name, path). bindM (worldM (ho_sha256 H path)) (\<lambda>d. retM (name, JStr d))) (binaries a)) (\<lambda>digests.
    bindM (put_co (lit ''binaries_sha256'') (RJ (JObj digests))) (\<lambda>_.
    bindM (ifM sqlodin (bindM (liftR (field build ''binary_sha256'')) (\<lambda>recorded.
      assertM (dget digests ''sqlodin'' = Some recorded) ''binary''))) (\<lambda>_.
    retM (sources, digests)))))))))))))"

definition comparison_start :: "'w compops \<Rightarrow> comp_args \<Rightarrow> ('w costate, pstr) comp" where
  "comparison_start M a = (let H = mo_host M in
    bindM (whenM (\<not> ho_linux H) (SystemExit ''Benchmark runs require Linux'')) (\<lambda>_.
    bindM (askM (ho_exists H (ca_output a))) (\<lambda>taken.
    bindM (whenM taken (SystemExit ''Choose a fresh report path'')) (\<lambda>_.
    bindM (whenM (ca_operations a < 1 \<or> ca_concurrency a < 1 \<or> ca_repeats a < 1 \<or> ca_warmup a < 0) (SystemExit ''Invalid counts'')) (\<lambda>_.
    bindM (make_parent H (ca_output a)) (\<lambda>_.
    bindM (askM (mo_stamp M)) (\<lambda>stamp.
    let work = path_join (path_join (ca_root a) (lit ''build/native-comparison-runs'')) stamp in
    bindM (worldM (mo_mkdir M work)) (\<lambda>_.
    bindM (check_output H [(lit ''findmnt''), (lit ''-J''), (lit ''-T''), work]) (\<lambda>out.
    bindM (liftR (ho_loads H out)) (\<lambda>filesystem.
    bindM (liftR (bindR (bindR (field filesystem ''filesystems'') first_item) (\<lambda>f. field f ''fstype''))) (\<lambda>kind.
    bindM (assertM (kind \<noteq> JStr (lit ''tmpfs'') \<and> kind \<noteq> JStr (lit ''ramfs'')) ''fstype'') (\<lambda>_.
    bindM (comparison_head M a work filesystem) (\<lambda>(sources, digests).
    bindM ((case ca_resume_from a of None \<Rightarrow> retM ()
     | Some path \<Rightarrow> resume M a [(''host'', JStr (mo_hostname M)), (''host_address'', JStr host_address), (''workload'', workload_json a), (''binaries_sha256'', JObj digests)] sources path)) (\<lambda>_.
    bindM ((case ca_recorded_failures a of None \<Rightarrow> retM () | Some path \<Rightarrow> take_failures M a path)) (\<lambda>_.
    retM work)))))))))))))))"

definition comparison_main :: "'w compops \<Rightarrow> comp_args \<Rightarrow> ('w costate, unit) comp" where
  "comparison_main M a = (let H = mo_host M in
    bindM (comparison_start M a) (\<lambda>work.
    finallyM (tryM (run_samples M (ca_output a) work (ca_systems a) (nat (ca_repeats a)))
        (\<lambda>e. bindM (put_co (lit ''error'') (RS (ho_repr H e))) (\<lambda>_. raiseM e)))
      (bindM (askM (ho_utcnow H)) (\<lambda>now.
        bindM (put_co (lit ''finished_utc'') (RS now)) (\<lambda>_.
        save_comparison H (ca_output a))))))"

end
