(* ===== verification/Comparison_Facts.thy ===== *)
theory Comparison_Facts
  imports Comparison History_Facts
begin

text \<open>A comparison records every sample, as a result or as a failure, and none twice.\<close>

section \<open>Records\<close>

definition recorded :: "sample_group \<Rightarrow> pstr \<Rightarrow> nat \<Rightarrow> Comparison \<Rightarrow> nat" where
  "recorded g system n c = length (filter (\<lambda>r. sample_row_is system n r = Inr True) (group_rows g c))
     + length (filter (\<lambda>r. failure_is g system n r = Inr True) (co_failures c))"

lemma anyR_cases:
  "anyR p xs = Inr False \<Longrightarrow> x \<in> set xs \<Longrightarrow> p x = Inr False" "anyR p xs = Inr True \<Longrightarrow> \<exists>x \<in> set xs. p x = Inr True"
  by (induction xs) (auto simp: anyR_def bindR_def split: sum.splits if_splits)

lemma done_recorded:
  "sample_done g system n c = Inr False \<Longrightarrow> recorded g system n c = 0" "sample_done g system n c = Inr True \<Longrightarrow> 0 < recorded g system n c"
proof -
  assume "sample_done g system n c = Inr False"
  then have "anyR (sample_row_is system n) (group_rows g c) = Inr False" "anyR (failure_is g system n) (co_failures c) = Inr False"
    by (auto simp: sample_done_def bindR_def split: sum.splits if_splits)
  then show "recorded g system n c = 0" by (fastforce simp: recorded_def filter_empty_conv dest: anyR_cases(1))
next
  assume "sample_done g system n c = Inr True"
  then consider "anyR (sample_row_is system n) (group_rows g c) = Inr True" | "anyR (failure_is g system n) (co_failures c) = Inr True"
    by (auto simp: sample_done_def bindR_def split: sum.splits if_splits)
  then show "0 < recorded g system n c"
    by cases (auto simp: recorded_def filter_empty_conv dest!: anyR_cases(2))
qed

text \<open>The steps that a comparison makes: a sample that has no record gets one, the others keep theirs.\<close>

definition grows :: "Comparison \<Rightarrow> Comparison \<Rightarrow> bool" where
  "grows c c' \<longleftrightarrow> (\<forall>g system n. recorded g system n c' = recorded g system n c \<or> recorded g system n c = 0 \<and> recorded g system n c' = 1)"

interpretation gr: step_relation grows
  by unfold_locales (simp add: grows_def, unfold grows_def, metis One_nat_def zero_neq_one)

lemma row_recorded:
  assumes "dget d ''system'' = Some (JStr system)"
  shows "sample_row_is s m (JObj (dset d (lit ''repeat'') (JInt (int n)))) = Inr (s = system \<and> m = n)"
  using assms by (auto simp: sample_row_is_def field_def key_res_def num_eq_def lit_def)

lemma failure_recorded:
  "failure_is g' s m (failure_row M g system n folder e) = Inr (g' = g \<and> s = system \<and> m = n)"
  by (auto simp: failure_is_def failure_row_def sample_row_is_def field_def key_res_def num_eq_def group_text_def lit_def split: sample_group.splits)

lemma recorded_row:
  "dget d ''system'' = Some (JStr system) \<Longrightarrow> recorded g' s m (add_row g (JObj (dset d (lit ''repeat'') (JInt (int n)))) c)
    = recorded g' s m c + (if g' = g \<and> s = system \<and> m = n then 1 else 0)"
  by (cases g; cases g') (auto simp: recorded_def add_row_def group_rows_def row_recorded)

lemma recorded_failure:
  "recorded g' s m (c\<lparr>co_failures := co_failures c @ [failure_row M g system n folder e]\<rparr>)
    = recorded g' s m c + (if g' = g \<and> s = system \<and> m = n then 1 else 0)"
  by (cases g') (auto simp: recorded_def group_rows_def failure_recorded)

lemma recorded_report [simp]: "recorded g s m (c\<lparr>co_report := r\<rparr>) = recorded g s m c"
  by (cases g) (simp_all add: recorded_def group_rows_def)

section \<open>Samples\<close>

definition labelled :: "'w compops \<Rightarrow> bool" where
  "labelled M \<longleftrightarrow> (\<forall>g system folder seed w d w'. mo_run M g system folder seed w = (Inr d, w') \<longrightarrow> dget d ''system'' = Some (JStr system))"

lemma keeps_save_comparison: "keepsR (=) fst (save_comparison H path)"
  unfolding save_comparison_def by (intro kept_rules keeps_save_native)

lemma take_sample_records:
  assumes "labelled M" and none: "recorded g system n (fst s) = 0"
  shows "wlp (take_sample M path g system n folder seed) (\<lambda>_ t. grows (fst s) (fst t) \<and> 0 < recorded g system n (fst t)) (\<lambda>_ t. grows (fst s) (fst t)) s"
proof -
  let ?more = "\<lambda>c. \<forall>g' s' m. recorded g' s' m c = recorded g' s' m (fst s) + (if g' = g \<and> s' = system \<and> m = n then 1 else 0)"
  have more: "grows (fst s) c \<and> 0 < recorded g system n c" if "?more c" for c using that none by (auto simp: grows_def)
  have one: "wlp (tryM (bindM (worldM (mo_run M (group_text g) system folder seed)) (\<lambda>result. updM (add_row g (JObj (dset result (lit ''repeat'') (JInt (int n)))))))
      (\<lambda>e. if is_exit e then raiseM e else updM (\<lambda>c. c\<lparr>co_failures := co_failures c @ [failure_row M g system n folder e]\<rparr>)))
      (\<lambda>_ t. ?more (fst t)) (\<lambda>_ t. grows (fst s) (fst t)) s"
  proof (cases s)
    case (Pair c w)
    have ran: "dget d ''system'' = Some (JStr system)" if "mo_run M (group_text g) system folder seed w = (Inr d, w')" for d w'
      using assms(1) that unfolding labelled_def by blast
    show ?thesis
      by (cases "mo_run M (group_text g) system folder seed w"; cases "fst (mo_run M (group_text g) system folder seed w)")
        (auto simp: Pair wlp_def worldM_def bindM_def tryM_def raiseM_def updM_def gr.step_refl recorded_failure recorded_row [OF ran])
  qed
  show ?thesis
    unfolding take_sample_def wlp_simps(3)
    by (rule wlp_mono [OF one], rule wlp_mono [OF kept.step_wlp [OF keeps_save_comparison]]) (use more in auto)
qed

lemma maybe_sample_records:
  assumes "labelled M"
  shows "wlp (maybe_sample M path work g n seed system) (\<lambda>_ t. grows (fst s) (fst t) \<and> 0 < recorded g system n (fst t)) (\<lambda>_ t. grows (fst s) (fst t)) s"
proof (cases s)
  case (Pair c w)
  show ?thesis
  proof (cases "sample_done g system n c")
    case (Inr b)
    then show ?thesis
      using Pair done_recorded [of g system n c] take_sample_records [OF assms, where s = s and g = g and system = system and n = n]
      by (cases b) (auto simp: maybe_sample_def gr.step_refl)
  qed (simp add: maybe_sample_def Pair gr.step_refl)
qed

section \<open>The schedule\<close>

text \<open>A loop whose passes establish something that the relation keeps establishes all of it.\<close>

context step_relation
begin

lemma forM_establishes:
  assumes step: "\<And>x s. x \<in> set xs \<Longrightarrow> wlp (body x) (\<lambda>_ t. R (fst s) (fst t) \<and> P x (fst t)) (\<lambda>_ t. R (fst s) (fst t)) s"
    and keep: "\<And>x c c'. P x c \<Longrightarrow> R c c' \<Longrightarrow> P x c'"
  shows "wlp (forM xs body) (\<lambda>_ t. R (fst s) (fst t) \<and> (\<forall>x \<in> set xs. P x (fst t))) (\<lambda>_ t. R (fst s) (fst t)) s"
  using step
proof (induction xs arbitrary: s)
  case (Cons x xs)
  have "wlp (forM xs body) (\<lambda>_ u. R (fst s) (fst u) \<and> (\<forall>y \<in> set (x # xs). P y (fst u))) (\<lambda>_ u. R (fst s) (fst u)) t"
    if "R (fst s) (fst t)" "P x (fst t)" for t
    by (rule wlp_mono [OF Cons.IH]) (use Cons.prems that keep step_trans in auto)
  then show ?case
    unfolding forM.simps wlp_simps by (intro wlp_mono [OF Cons.prems]) auto
qed (simp add: step_refl)

end

lemma recorded_grows: "0 < recorded g s n c \<Longrightarrow> grows c c' \<Longrightarrow> 0 < recorded g s n c'"
  unfolding grows_def by (metis less_nat_zero_code zero_less_one)

text \<open>All samples of a repeat have a record.\<close>

definition all_taken :: "pstr list \<Rightarrow> nat \<Rightarrow> Comparison \<Rightarrow> bool" where
  "all_taken systems n c \<longleftrightarrow> (\<forall>x \<in> set systems. 0 < recorded Sequential x n c \<and> (x \<noteq> cowsql \<longrightarrow> 0 < recorded Realworld x n c))"

lemma all_taken_grows: "all_taken systems n c \<Longrightarrow> grows c c' \<Longrightarrow> all_taken systems n c'"
  by (auto simp: all_taken_def intro: recorded_grows)

lemma one_repeat_records:
  assumes "labelled M" and "\<And>seed xs. set (mo_shuffle M seed xs) = set xs"
  shows "wlp (one_repeat M path work systems n) (\<lambda>_ t. grows (fst s) (fst t) \<and> all_taken systems n (fst t)) (\<lambda>_ t. grows (fst s) (fst t)) s"
proof -
  have loop: "wlp (forM (mo_shuffle M seed xs) (maybe_sample M path work g n k)) (\<lambda>_ u. grows (fst t) (fst u) \<and> (\<forall>x \<in> set xs. 0 < recorded g x n (fst u)))
      (\<lambda>_ u. grows (fst t) (fst u)) t" for seed xs g k t
    using gr.forM_establishes [of "mo_shuffle M seed xs" "maybe_sample M path work g n k" "\<lambda>x. (<) 0 \<circ> recorded g x n" t] maybe_sample_records [OF assms(1)] recorded_grows
    unfolding assms(2) comp_def by blast
  show ?thesis
    unfolding one_repeat_def Let_def wlp_simps
    by (rule wlp_mono [OF loop], rule wlp_mono [OF loop]) (auto simp: all_taken_def intro: gr.step_trans recorded_grows)
qed

lemma keeps_put_co: "keepsR grows fst (put_co k v)"
  by (auto simp: keepsR_def put_co_def grows_def)

lemma run_samples_records:
  assumes "labelled M" and "\<And>seed xs. set (mo_shuffle M seed xs) = set xs"
  shows "wlp (run_samples M path work systems repeats) (\<lambda>_ t. grows (fst s) (fst t) \<and> (\<forall>n < repeats. all_taken systems n (fst t))) (\<lambda>_ t. grows (fst s) (fst t)) s"
proof -
  let ?tail = "bindM (put_co (lit ''complete'') (RB True)) (\<lambda>_. bindM objM (\<lambda>c.
      bindM (if co_failures c \<noteq> [] then retM False else liftR (allR restart_fine (co_sequential c))) (\<lambda>passed. put_co (lit ''all_samples_passed'') (RB passed))))"
  have "keepsR grows fst ?tail" by (intro gr.step_bind gr.step_if gr.step_basic gr.step_objects keeps_put_co)
  note tail = gr.step_wlp [OF this]
  have ended: "wlp ?tail (\<lambda>_ u. grows (fst s) (fst u) \<and> (\<forall>n < repeats. all_taken systems n (fst u))) (\<lambda>_ u. grows (fst s) (fst u)) t"
    if "grows (fst s) (fst t) \<and> (\<forall>n < repeats. all_taken systems n (fst t))" for t
    by (rule wlp_mono [OF tail]) (use that in \<open>blast intro: gr.step_trans all_taken_grows\<close>)+
  have "wlp (forM [0..<repeats] (one_repeat M path work systems)) (\<lambda>_ t. grows (fst s) (fst t) \<and> (\<forall>n < repeats. all_taken systems n (fst t))) (\<lambda>_ t. grows (fst s) (fst t)) s"
    by (rule wlp_mono [OF gr.forM_establishes [where P = "all_taken systems"]], rule one_repeat_records [OF assms], erule all_taken_grows) auto
  then show ?thesis
    unfolding run_samples_def wlp_simps(3) [of "forM _ _"]
    by (rule wlp_mono) (rule ended)
qed

section \<open>The campaign\<close>

definition blank :: "Comparison \<Rightarrow> bool" where
  "blank c \<longleftrightarrow> co_realworld c = [] \<and> co_sequential c = [] \<and> co_failures c = []"

definition stays_blank :: "Comparison \<Rightarrow> Comparison \<Rightarrow> bool" where
  "stays_blank c c' \<longleftrightarrow> (blank c \<longrightarrow> blank c')"

interpretation bl: step_relation stays_blank
  by unfold_locales (auto simp: stays_blank_def)

lemma keeps_head: "keepsR stays_blank fst (comparison_head M a work filesystem)"
proof -
  have upd: "keepsR stays_blank fst (updM (\<lambda>_. \<lparr>co_realworld = [], co_sequential = [], co_failures = [], co_report = r\<rparr>))" "keepsR stays_blank fst (put_co k v)" for r k v
    by (auto simp: keepsR_def put_co_def stays_blank_def blank_def)
  show ?thesis
    unfolding comparison_head_def check_output_def optional_json_def read_json_def digest_files_def Let_def
    by (intro bl.step_bind bl.step_basic bl.step_if bl.step_loops bl.step_cases bl.step_objects upd)
qed

lemma keeps_comparison_start:
  assumes "ca_resume_from a = None"
  shows "keepsR stays_blank fst (comparison_start M a)"
proof -
  have fail: "bindM (raiseM e) f = raiseM e" for e and f :: "pstr \<Rightarrow> ('a costate, unit) comp" by (rule ext) (simp add: bindM_def raiseM_def)
  have "keepsR stays_blank fst (take_failures M a path)" for path
    unfolding take_failures_def assms option.case fail Let_def by (intro bl.step_bind bl.step_basic bl.step_objects)
  then show ?thesis
    unfolding comparison_start_def assms option.case check_output_def make_parent_def Let_def
    by (intro bl.step_bind bl.step_basic bl.step_if bl.step_cases bl.step_objects keeps_head)
qed

lemma blank_recorded: "blank c \<Longrightarrow> recorded g system n c = 0"
  by (cases g) (simp_all add: blank_def recorded_def group_rows_def)

lemma samples_finish:
  assumes "labelled M" and "\<And>seed xs. set (mo_shuffle M seed xs) = set xs"
  shows "wlp (finallyM (tryM (run_samples M path work systems repeats) (\<lambda>e. bindM (put_co (lit ''error'') (r e)) (\<lambda>_. raiseM e)))
      (bindM (askM f) (\<lambda>now. bindM (put_co (lit ''finished_utc'') (RS now)) (\<lambda>_. save_comparison H path))))
    (\<lambda>_ t. grows (fst s) (fst t) \<and> (\<forall>n < repeats. all_taken systems n (fst t))) (\<lambda>_ t. grows (fst s) (fst t)) s"
proof -
  have "keepsR grows fst (save_comparison H path)" using gr.step_kept [OF keeps_save_comparison, where f = id] by (simp add: id_def)
  then have "keepsR grows fst (bindM (askM f) (\<lambda>now. bindM (put_co (lit ''finished_utc'') (RS now)) (\<lambda>_. save_comparison H path)))"
    by (intro gr.step_bind gr.step_objects keeps_put_co)
  note saved = gr.step_wlp [OF this] and failed = gr.step_wlp [OF gr.step_bind [OF keeps_put_co gr.step_basic(2)]]
  show ?thesis
  proof (rule wlp_finally_rule [where Q = "\<lambda>_ t. grows (fst s) (fst t) \<and> (\<forall>n < repeats. all_taken systems n (fst t))" and E = "\<lambda>_ t. grows (fst s) (fst t)"])
    show "wlp (tryM (run_samples M path work systems repeats) (\<lambda>e. bindM (put_co (lit ''error'') (r e)) (\<lambda>_. raiseM e)))
        (\<lambda>_ t. grows (fst s) (fst t) \<and> (\<forall>n < repeats. all_taken systems n (fst t))) (\<lambda>_ t. grows (fst s) (fst t)) s"
      unfolding wlp_simps(4)
      by (rule wlp_mono [OF run_samples_records [OF assms]], assumption, unfold put_co_def) (auto simp: grows_def split: prod.splits)
  qed (rule wlp_mono [OF saved]; blast intro: gr.step_trans all_taken_grows)+
qed

text \<open>
  C40. A comparison that runs to its end has a record of every sample, a result or a failure, for every repeat: of
  the sequential writes for each system and of the mixed workload for each but \<open>cowsql\<close>, also when it continues an
  earlier run. Without one no sample is taken twice, however the campaign ends. The samplers are assumed to name
  their system in the result, the shuffle to return the same systems.
\<close>

theorem comparison_records_all:
  assumes "labelled M" and "\<And>seed xs. set (mo_shuffle M seed xs) = set xs" and "blank c"
  shows "wlp (comparison_main M a)
    (\<lambda>_ t. (\<forall>n < nat (ca_repeats a). all_taken (ca_systems a) n (fst t)) \<and> (ca_resume_from a = None \<longrightarrow> (\<forall>g system n. recorded g system n (fst t) \<le> 1)))
    (\<lambda>_ t. ca_resume_from a = None \<longrightarrow> (\<forall>g system n. recorded g system n (fst t) \<le> 1)) (c, w)"
proof -
  let ?one = "\<lambda>t. ca_resume_from a = None \<longrightarrow> (\<forall>g system n. recorded g system n (fst t) \<le> 1)"
  have grown: "?one u" if "grows (fst t) (fst u)" "ca_resume_from a = None \<longrightarrow> blank (fst t)" for t u :: "'a costate"
    using that blank_recorded unfolding grows_def by (metis le_numeral_extra(3) le_numeral_extra(4) zero_less_one_class.zero_le_one)
  have start: "wlp (comparison_start M a) (\<lambda>_ t. ca_resume_from a = None \<longrightarrow> blank (fst t)) (\<lambda>_ t. ?one t) (c, w)"
  proof (cases "ca_resume_from a = None")
    case True
    show ?thesis
      by (rule wlp_mono [OF bl.step_wlp [OF keeps_comparison_start [OF True]]]) (use assms(3) in \<open>auto simp: stays_blank_def blank_recorded\<close>)
  qed (auto intro: wlp_any)
  show ?thesis
    unfolding comparison_main_def Let_def wlp_simps(3) [of "comparison_start _ _"]
    by (rule wlp_mono [OF start], rule wlp_mono [OF samples_finish [OF assms(1,2)]]) (use grown in \<open>metis+\<close>)
qed

definition demo_comparison :: "sim_world compops" where
  "demo_comparison = \<lparr>mo_host = demo_host\<lparr>ho_linux := True, ho_loads := (\<lambda>_. Inr (JObj [((lit ''filesystems''), JList [JObj [((lit ''fstype''), JStr (lit ''ext4''))]]), ((lit ''binary_sha256''), JStr [])]))\<rparr>,
     mo_run = (\<lambda>_ system _ _ w. (Inr [((lit ''system''), JStr system)], w)), mo_shuffle = (\<lambda>_. rev), mo_definitions = (\<lambda>_. Inr []), mo_traceback = (\<lambda>_. []),
     mo_stamp = (\<lambda>w. ([], w)), mo_mkdir = (\<lambda>_ w. (Inr (), w)), mo_hostname = []\<rparr>"

definition demo_comp_args :: comp_args where
  "demo_comp_args = \<lparr>ca_root = [], ca_file = [], ca_operations = 1, ca_warmup = 0, ca_concurrency = 1, ca_repeats = 1, ca_systems = [(lit ''sqlodin''), cowsql], ca_sqlodin_bin = [],
     ca_sqlodin_build = None, ca_zaxon_bin = [], ca_rqlited_bin = [], ca_output = [], ca_resume_from = None, ca_resume_source = None, ca_recorded_failures = None\<rparr>"

definition demo_blank :: Comparison where
  "demo_blank = \<lparr>co_realworld = [], co_sequential = [], co_failures = [], co_report = []\<rparr>"

lemma demo_comparison_returns: "map_option fst (comparison_main demo_comparison demo_comp_args (demo_blank, (0, []))) = Some (Inr ())"
  by (simp add: comparison_main_def comparison_start_def comparison_head_def run_samples_def one_repeat_def maybe_sample_def take_sample_def save_comparison_def save_native_def
      make_parent_def check_output_def optional_json_def read_json_def digest_files_def put_co_def binaries_def tool_path_def sample_done_def anyR_def sample_row_is_def failure_is_def
      restart_fine_def Let_def demo_comparison_def demo_comp_args_def demo_blank_def demo_host_def
      bindM_def retM_def finallyM_def tryM_def whenM_def assertM_def ifM_def liftR_def raiseM_def objM_def updM_def askM_def worldM_def bindR_def
      field_def key_res_def num_eq_def first_item_def add_row_def group_rows_def group_text_def cowsql_def lit_def upt_rec)

theorem comparison_records_all_witness:
  "\<exists>t. comparison_main demo_comparison demo_comp_args (demo_blank, (0, [])) = Some (Inr (), t)
     \<and> recorded Realworld (lit ''sqlodin'') 0 (fst t) = 1 \<and> recorded Sequential cowsql 0 (fst t) = 1"
proof -
  have "labelled demo_comparison" "\<And>seed xs. set (mo_shuffle demo_comparison seed xs) = set xs" "blank demo_blank"
    by (auto simp: labelled_def demo_comparison_def blank_def demo_blank_def)
  note all = comparison_records_all [OF this, where a = demo_comp_args and w = "(0, [])"]
  obtain t where t: "comparison_main demo_comparison demo_comp_args (demo_blank, (0, [])) = Some (Inr (), t)"
    using demo_comparison_returns by (auto simp: map_option_eq_Some)
  have "all_taken [(lit ''sqlodin''), cowsql] 0 (fst t)" "recorded g system n (fst t) \<le> 1" for g system n
    using wlp_Inr [OF all t] by (simp_all add: demo_comp_args_def)
  moreover have "(lit ''sqlodin'') \<noteq> cowsql" by (simp add: cowsql_def lit_def)
  ultimately show ?thesis using t by (auto simp: all_taken_def intro!: antisym)
qed

end
