(* ===== verification/Spec2Isabelle.thy ===== *)
theory Spec2Isabelle
  imports Client_Properties Session_Properties History_Properties Process_Properties Availability_Checks Campaign_Properties
    Proxy_Facts Qualification_Facts Credential_Checks Soak_Facts
    Native_Facts Native_Worker Ci_Changes Fault_Facts Catchup_Checks Comparison_Facts
begin

text \<open>
  A verification development of SQLodin's Python code. SQLodin is a replicated SQLite; its servers
  are written in Odin and appear here as what the outside world answers. Two groups of Python code
  are modelled: the client library (\<open>languages/python/src/sqlodin\<close>) and the scripts that qualify the
  database (\<open>tools\<close>), which drive the library.

  \<^bold>\<open>How programs are modelled.\<close> A method is a computation \<open>('s, 'a) comp\<close>, a function
  \<open>'s \<Rightarrow> ('a res \<times> 's) option\<close>: from the state to a result or an exception (\<open>exn\<close>, one constructor per
  Python class) and the state after it; \<open>None\<close> is a run that does not end. \<open>Py_Prelude\<close> has the
  combinators (\<open>bindM\<close>, \<open>tryM\<close>, \<open>finallyM\<close>, \<open>handleM\<close>), the weakest precondition \<open>wlp\<close> with one part for
  results and one for exceptions, \<open>total\<close>, and Python's strings (lists of code points), numbers
  and JSON. Objects are records beside the world; sockets, clock, files, processes, the JSON codec,
  the C library of SQLite and SQLAlchemy are records of functions (\<open>netops\<close>, \<open>hostops\<close>, \<open>procops\<close>,
  \<open>sqliteops\<close>, \<open>alchemy\<close>) on a world of any type, so that theorems hold for every behaviour of them,
  or for those that satisfy a named hypothesis (\<open>well_behaved\<close>: which errors sockets raise; \<open>steady\<close>:
  sleeping advances the clock). Exceptions carry the templates of their messages.

  \<^bold>\<open>The client library.\<close>
  \<^item> \<open>Float32\<close>, \<open>Sql_Vector\<close> (\<open>vector.py\<close>): rounding to single precision, the byte format; invariant and
    round trips. \<open>Results\<close> (\<open>results.py\<close>): rows and their access.
  \<^item> \<open>Parameters\<close>, \<open>Batches\<close> (\<open>parameters.py\<close>): the scanner that numbers the placeholders of a statement, against a
    tokenizer, its bounds, and batches of statements.
  \<^item> \<open>Transport\<close> (\<open>transport.py\<close>): framed exchange under one deadline; what it may raise, exact reads.
  \<^item> \<open>Client\<close> (\<open>client.py\<close>): connections with a pending write. \<open>Client_Facts\<close>, \<open>Client_Writes\<close> and
    \<open>Client_Reads\<close> prove the invariant \<open>conn_inv\<close> and that a write is one step of the abstract relation
    \<open>write_step\<close>; \<open>World_Invariants\<close> is the interface through which facts about the frames that are
    sent are proved once. \<open>Simulation\<close> is a small world for the witnesses.
  \<^item> \<open>Transaction\<close>, \<open>Transaction_Facts\<close> (\<open>transaction.py\<close>): the buffered block is atomic.
  \<^item> \<open>Dbapi\<close>, \<open>Dbapi_Facts\<close>, \<open>Dbapi_Cursors\<close>, \<open>Dbapi_Total\<close> (\<open>dbapi.py\<close>): savepoints refine a stack of
    snapshots, \<open>executemany\<close> is all or none, commits send the buffer once.
  \<^item> \<open>Search\<close>, \<open>Search_Facts\<close> (\<open>search.py\<close>), \<open>Dialect\<close> (\<open>sqlalchemy.py\<close>), \<open>Handles\<close> (the ways in:
    \<open>connect\<close>, \<open>with\<close> blocks, search handles, vector access, the dialect's hooks).

  \<^bold>\<open>The scripts.\<close>
  \<^item> \<open>History\<close> (\<open>check_transaction_history.py\<close>): the search for a serial order decides whether there is one.
    \<open>History_Campaign\<close> is the campaign around it, \<open>Net_Facts\<close> and \<open>History_Facts\<close> show that a campaign that
    returns has explained every batch.
  \<^item> \<open>Tool_Prelude\<close>: loops, relations between the state before and after (\<open>step_relation\<close>), text helpers.
  \<^item> \<open>Process_Cluster\<close>, \<open>Process_Exercise\<close>, \<open>Process_Facts\<close> (\<open>check_process_cluster.py\<close>): the controller of worker
    processes and its fault exercise; outcomes are stable, settled requests are acknowledged.
  \<^item> \<open>Sqlite_Reference\<close> (\<open>sqlite_group_reference.py\<close>, the wrapper of \<open>calibrate_native_mixed.py\<close>): group commits
    as a step relation; all or none, in order of arrival.
  \<^item> \<open>Mixed_Workload\<close>, \<open>Workload_Facts\<close>, \<open>Calibration\<close> (\<open>calibrate_native_mixed.py\<close>,
    \<open>sqlite_reference_worker.py\<close>): the workload, measurements, the campaign; what the writes add up to.
  \<^item> \<open>Net_Cluster\<close> (the cluster, certificates and the frame of a script), \<open>Network_Checks\<close>
    (\<open>check_network_service.py\<close>, \<open>check_mtls.py\<close>), \<open>Availability_Checks\<close> (\<open>check_majority.py\<close>,
    \<open>check_admission.py\<close>), \<open>Resource_Load\<close> (\<open>check_resource_load.py\<close>), \<open>Capacity\<close> (\<open>check_capacity.py\<close>),
    \<open>Recovery_Checks\<close> (\<open>check_snapshot_service.py\<close>, \<open>check_live_compaction.py\<close>, \<open>check_session_retirement.py\<close>)
    \<open>Restore_Checks\<close> (\<open>check_backup_service.py\<close>, \<open>check_restore_service.py\<close>), \<open>Upgrade_Checks\<close>
    (\<open>check_generation_service.py\<close>, \<open>check_migration.py\<close>, \<open>check_legacy_epoch_restore.py\<close>) and \<open>Credential_Checks\<close>
    (\<open>check_certificate_lifecycle.py\<close>): campaigns over the modelled client. \<open>Demo_Host\<close> is the host of the witnesses.
  \<^item> \<open>Snapshot_Proxy\<close>, \<open>Proxy_Facts\<close> (\<open>snapshot_proxy.py\<close>): the throttling proxy as interleaved state machines;
    the locale \<open>machine\<close> carries invariants along runs, and its interpretations give exact counters, slots and
    sockets that are all released, and prefixes that are forwarded.
  \<^item> \<open>Qualification\<close>, \<open>Qualification_Facts\<close> (\<open>qualification_worker.py\<close>, \<open>audit_recovery.py\<close>): the supervisor of a remote
    voter; frames arrive as sent, and the audit accepts exactly the state after the prescribed transfers.
  \<^item> \<open>Cluster_Soak\<close>, \<open>Soak_Facts\<close> (\<open>run_cluster_soak.py\<close>): the controller over SSH and the soak; its sessions number the
    requests without repetition, and a report that says \<open>passed\<close> has the balances and the audits to show for it.
  \<^item> \<open>Native_Soak\<close>, \<open>Native_Facts\<close> (\<open>run_native_soak.py\<close>): the soak of the native service over twelve connections of the
    modelled client; what it retries is the write that was acknowledged, and a report that says \<open>passed\<close> has
    exact books. \<open>Native_Worker\<close> (\<open>native_soak_worker.py\<close>): the supervisor of one voter.
  \<^item> \<open>Crash_Checks\<close>, \<open>Crash_Facts\<close> (\<open>check_durability.py\<close>, \<open>check_generation_crashes.py\<close>,
    \<open>check_session_crashes.py\<close>): probes that are killed at named boundaries; a report that says \<open>passed\<close> names every
    case that was asked for, by the locale \<open>listed_report\<close>. \<open>Fault_Checks\<close>, \<open>Fault_Facts\<close> (\<open>check_storage_faults.py\<close>): the same of
    injected write and sync failures, \<open>Catchup_Checks\<close> (\<open>check_snapshot_catchup.py\<close>): an offline voter catches up.
  \<^item> \<open>Comparison\<close>, \<open>Comparison_Facts\<close> (\<open>compare_native_workloads.py\<close>): the schedule of a comparison records every sample, and
    none twice; what takes a sample is a parameter. \<open>Ci_Changes\<close> (\<open>ci_changes.py\<close>): the checks that a change gets depend on the kinds of
    its paths alone.

  The properties are in \<open>Client_Properties\<close>, \<open>Session_Properties\<close>, \<open>History_Properties\<close>,
  \<open>Process_Properties\<close>, \<open>Campaign_Properties\<close>, \<open>Proxy_Facts\<close>, \<open>Qualification_Facts\<close>, \<open>Soak_Facts\<close>, \<open>Native_Facts\<close>, \<open>Fault_Facts\<close> and \<open>Comparison_Facts\<close>, each with a witness where it has hypotheses.

  \<^bold>\<open>Bounds and loops.\<close> No model has fuel: loops over the network are \<open>partial_function (option)\<close> and the
  theorems that a call returns are proved from \<open>steady\<close>; recursions with a measure have termination
  proofs. Integers are unbounded where Python's are, and floats are exact sums of powers of two.
  Clock readings are rational numbers; \<open>ceil(.99 * n)\<close> is computed exactly.

  \<^bold>\<open>Concurrency.\<close> One connection is used by one thread, as its documentation asks, and its lock is a
  counter. In the scripts the jobs of a thread pool run one after another: in the order of
  submission (\<open>Resource_Load\<close>, \<open>Availability_Checks\<close>), in an order a parameter chooses
  (\<open>History_Campaign\<close>), operation by operation under any schedule (\<open>Mixed_Workload\<close>), as a step
  relation (\<open>Sqlite_Reference\<close>), or event by event in any order (\<open>Snapshot_Proxy\<close>). Sampling threads make a number of passes, an argument, at one point.

  \<^bold>\<open>Not modelled.\<close> Command lines and printing; the environment of child processes; the captured output of a failed command; slices with a step;
  SQLAlchemy and the parts of the dialect that only configure it; the remaining scripts (benchmark
  comparisons, plots, builds, static checks of the repository, campaigns on other hosts), the Odin servers and the C probes.
\<close>

end
